(* ===== verification/Prelude.thy ===== *)
theory Prelude
  imports Main "HOL-Library.Word" "HOL-Library.Char_ord" "HOL-Library.List_Lexorder"
    "HOL-Library.Option_ord" "HOL-Library.Product_Lexorder"
begin

text \<open>
  What the components share: operations that may fail over an explicit state, the
  preservation calculus for their invariants, the scripted connection to the database,
  tables as lists of rows, machine-integer casts, and the bits of the Rust standard
  library on strings (bytes of UTF-8) that the code uses.
\<close>

section \<open>Fallible operations over a state\<close>

text \<open>
  A method that returns \<open>Result<T, E>\<close> and may write to the store is a function from the
  state to the result and the next state. \<open>Inl\<close> is \<open>Err\<close>, \<open>Inr\<close> is \<open>Ok\<close>; \<open>bnd\<close> is
  the question mark operator.
\<close>

type_synonym ('s, 'e, 'a) op = "'s \<Rightarrow> ('e + 'a) \<times> 's"

named_theorems op_simps "evaluation of operations"
named_theorems keeps_intros "preservation of invariants, one rule per way to build an operation"
named_theorems codec_simps "printing and parsing of the enumerations stored as text"

definition ret :: "'a \<Rightarrow> ('s, 'e, 'a) op" where
  "ret x s = (Inr x, s)"

definition throw :: "'e \<Rightarrow> ('s, 'e, 'a) op" where
  "throw e s = (Inl e, s)"

definition bnd :: "('s, 'e, 'a) op \<Rightarrow> ('a \<Rightarrow> ('s, 'e, 'b) op) \<Rightarrow> ('s, 'e, 'b) op" where
  "bnd m f s = (case m s of (Inl e, t) \<Rightarrow> (Inl e, t) | (Inr x, t) \<Rightarrow> f x t)"

text \<open>\<open>if let Err(e) = m { warn }\<close>: the failure is logged and dropped.\<close>

definition attempt :: "('s, 'e, 'a) op \<Rightarrow> ('s, 'e, unit) op" where
  "attempt m s = (Inr (), snd (m s))"

fun for_each :: "('a \<Rightarrow> ('s, 'e, unit) op) \<Rightarrow> 'a list \<Rightarrow> ('s, 'e, unit) op" where
  "for_each f [] = ret ()"
| "for_each f (x # xs) = bnd (f x) (\<lambda>_. for_each f xs)"

text \<open>\<open>option.ok_or(e)\<close>\<close>

definition ok_or :: "'e \<Rightarrow> 'a option \<Rightarrow> ('s, 'e, 'a) op" where
  "ok_or e x = (case x of None \<Rightarrow> throw e | Some y \<Rightarrow> ret y)"

definition sbind :: "'e + 'a \<Rightarrow> ('a \<Rightarrow> 'e + 'b) \<Rightarrow> 'e + 'b" where
  "sbind r f = (case r of Inl e \<Rightarrow> Inl e | Inr x \<Rightarrow> f x)"

definition some_or :: "'e \<Rightarrow> 'a option \<Rightarrow> 'e + 'a" where
  "some_or e x = (case x of None \<Rightarrow> Inl e | Some y \<Rightarrow> Inr y)"

text \<open>\<open>collect\<close> into a \<open>Result\<close>: the first error, or all the values.\<close>

fun collect_sum :: "('a \<Rightarrow> 'e + 'b) \<Rightarrow> 'a list \<Rightarrow> 'e + 'b list" where
  "collect_sum f [] = Inr []"
| "collect_sum f (x # xs) = sbind (f x) (\<lambda>y. sbind (collect_sum f xs) (\<lambda>ys. Inr (y # ys)))"

definition lift_sum :: "'e + 'a \<Rightarrow> ('s, 'e, 'a) op" where
  "lift_sum r s = (r, s)"

lemma ret_apply [op_simps]: "ret x s = (Inr x, s)" by (simp add: ret_def)
lemma throw_apply [op_simps]: "throw e s = (Inl e, s)" by (simp add: throw_def)

lemma bnd_Inr [op_simps]: "m s = (Inr x, t) \<Longrightarrow> bnd m f s = f x t"
  by (simp add: bnd_def)

lemma bnd_basic [simp]:
  "bnd (ret x) f s = f x s"
  "bnd (throw e) f s = (Inl e, s)"
  "bnd (ok_or e None) f s = (Inl e, s)"
  "bnd (ok_or e (Some y)) f s = f y s"
  "bnd (lift_sum (Inl e)) f s = (Inl e, s)"
  "bnd (lift_sum (Inr x)) f s = f x s"
  by (simp_all add: bnd_def ret_def throw_def ok_or_def lift_sum_def)

lemma bnd_cases:
  "bnd (ok_or e x) f s = (case x of None \<Rightarrow> (Inl e, s) | Some y \<Rightarrow> f y s)"
  "bnd (lift_sum r) f s = (case r of Inl e' \<Rightarrow> (Inl e', s) | Inr z \<Rightarrow> f z s)"
  by (auto split: option.split sum.split)

lemma bnd_if: "bnd (if b then m else n) f s = (if b then bnd m f s else bnd n f s)"
  by simp

lemma bnd_Inl [op_simps]: "m s = (Inl e, t) \<Longrightarrow> bnd m f s = (Inl e, t)"
  by (simp add: bnd_def)

lemma bnd_eq_InrE:
  assumes "bnd m f s = (Inr y, u)"
  obtains x t where "m s = (Inr x, t)" and "f x t = (Inr y, u)"
  using assms by (auto simp: bnd_def split: prod.splits sum.splits)

lemma sbind_simps [simp]: "sbind (Inl e) f = Inl e" "sbind (Inr x) f = f x"
  by (simp_all add: sbind_def)

lemma sbind_eq_Inr: "sbind r f = Inr y \<longleftrightarrow> (\<exists>x. r = Inr x \<and> f x = Inr y)"
  by (cases r) auto

lemma some_or_eq_Inr [simp]: "some_or e x = Inr y \<longleftrightarrow> x = Some y"
  by (cases x) (auto simp: some_or_def)

lemma some_or_Some [simp]: "some_or e (Some y) = Inr y"
  by (simp add: some_or_def)

lemma some_or_None [simp]: "some_or e None = Inl e"
  by (simp add: some_or_def)

lemma attempt_apply [op_simps]: "attempt m s = (Inr (), snd (m s))"
  by (simp add: attempt_def)

lemma ok_or_simps [op_simps]:
  "ok_or e None s = (Inl e, s)" "ok_or e (Some y) s = (Inr y, s)"
  by (simp_all add: ok_or_def throw_def ret_def)

section \<open>Invariants of operations\<close>

text \<open>
  \<open>keeps I m\<close>: whatever \<open>m\<close> returns, \<open>Ok\<close> or \<open>Err\<close>, the state it leaves behind satisfies
  \<open>I\<close> when the state it started from did. The rules follow the way operations are built, so
  an invariant of a handler is an application of \<open>keeps_intros\<close> down to its statements.
\<close>

definition keeps :: "('s \<Rightarrow> bool) \<Rightarrow> ('s, 'e, 'a) op \<Rightarrow> bool" where
  "keeps I m \<longleftrightarrow> (\<forall>s. I s \<longrightarrow> I (snd (m s)))"

lemma keepsI: "(\<And>s. I s \<Longrightarrow> I (snd (m s))) \<Longrightarrow> keeps I m"
  by (simp add: keeps_def)

lemma keepsD: "keeps I m \<Longrightarrow> I s \<Longrightarrow> I (snd (m s))"
  by (simp add: keeps_def)

lemma keepsE: "keeps I m \<Longrightarrow> I s \<Longrightarrow> m s = (r, t) \<Longrightarrow> I t"
  by (force simp: keeps_def)

lemma keeps_ret [keeps_intros]: "keeps I (ret x)"
  by (simp add: keeps_def ret_def)

lemma keeps_throw [keeps_intros]: "keeps I (throw e)"
  by (simp add: keeps_def throw_def)

lemma keeps_ok_or [keeps_intros]: "keeps I (ok_or e x)"
  by (cases x) (simp_all add: keeps_def op_simps)

lemma keeps_lift_sum [keeps_intros]: "keeps I (lift_sum r)"
  by (simp add: keeps_def lift_sum_def)

lemma keeps_bnd [keeps_intros]:
  assumes "keeps I m" and "\<And>x. keeps I (f x)"
  shows "keeps I (bnd m f)"
proof (rule keepsI)
  fix s assume "I s"
  obtain r t where m: "m s = (r, t)" by (cases "m s")
  with assms(1) \<open>I s\<close> have "I t" by (auto dest: keepsE)
  with m assms(2) show "I (snd (bnd m f s))"
    by (cases r) (auto simp: bnd_def dest: keepsD)
qed

lemma keeps_attempt [keeps_intros]: "keeps I m \<Longrightarrow> keeps I (attempt m)"
  by (simp add: keeps_def attempt_def)

lemma keeps_for_each [keeps_intros]: "(\<And>x. keeps I (f x)) \<Longrightarrow> keeps I (for_each f xs)"
  by (induction xs) (auto intro!: keeps_intros)

lemma keeps_if [keeps_intros]:
  "(b \<Longrightarrow> keeps I m) \<Longrightarrow> (\<not> b \<Longrightarrow> keeps I n) \<Longrightarrow> keeps I (if b then m else n)"
  by simp

lemma keeps_case_option [keeps_intros]:
  "(x = None \<Longrightarrow> keeps I m) \<Longrightarrow> (\<And>y. x = Some y \<Longrightarrow> keeps I (f y)) \<Longrightarrow>
   keeps I (case x of None \<Rightarrow> m | Some y \<Rightarrow> f y)"
  by (cases x) auto

lemma keeps_case_sum [keeps_intros]:
  "(\<And>e. x = Inl e \<Longrightarrow> keeps I (g e)) \<Longrightarrow> (\<And>y. x = Inr y \<Longrightarrow> keeps I (f y)) \<Longrightarrow>
   keeps I (case x of Inl e \<Rightarrow> g e | Inr y \<Rightarrow> f y)"
  by (cases x) auto

lemma keeps_conj: "keeps I m \<Longrightarrow> keeps J m \<Longrightarrow> keeps (\<lambda>s. I s \<and> J s) m"
  by (simp add: keeps_def)


section \<open>The connection to the database\<close>

text \<open>
  Every repository method runs its statements inside \<open>with_connection\<close>. Whether a connection
  is obtained and its statements run is up to the environment: \<open>faults\<close> scripts it, one
  entry per call (\<open>True\<close>: the call fails and nothing is written); past the script every call
  succeeds. An error raised by the closure itself rolls its statements back (\<open>atomically\<close>).
\<close>

record conn =
  faults :: "bool list"

definition atomically :: "('s, 'e, 'a) op \<Rightarrow> ('s, 'e, 'a) op" where
  "atomically f s = (case f s of (Inl e, _) \<Rightarrow> (Inl e, s) | (Inr x, t) \<Rightarrow> (Inr x, t))"

definition with_connection ::
  "'e \<Rightarrow> ('z conn_scheme, 'e, 'a) op \<Rightarrow> ('z conn_scheme, 'e, 'a) op" where
  "with_connection e f c =
     (case faults c of
        [] \<Rightarrow> atomically f c
      | b # bs \<Rightarrow> if b then (Inl e, c\<lparr>faults := bs\<rparr>) else atomically f (c\<lparr>faults := bs\<rparr>))"

lemma with_connection_up [op_simps]: "faults c = [] \<Longrightarrow> with_connection e f c = atomically f c"
  by (simp add: with_connection_def)

lemma atomically_Inr [op_simps]: "f s = (Inr x, t) \<Longrightarrow> atomically f s = (Inr x, t)"
  by (simp add: atomically_def)

lemma atomically_Inl [op_simps]: "f s = (Inl e, t) \<Longrightarrow> atomically f s = (Inl e, s)"
  by (simp add: atomically_def)

text \<open>What a call does in both cases of the script.\<close>

definition call_ok :: "'z conn_scheme \<Rightarrow> bool" where
  "call_ok c \<longleftrightarrow> faults c = [] \<or> \<not> hd (faults c)"

definition after_call :: "'z conn_scheme \<Rightarrow> 'z conn_scheme" where
  "after_call c = c\<lparr>faults := tl (faults c)\<rparr>"

lemma faults_same: "faults c = [] \<Longrightarrow> c\<lparr>faults := []\<rparr> = c"
  by (cases c) auto

lemma with_connection_apply:
  "with_connection e f c =
     (if call_ok c
      then (case f (after_call c) of (Inl x, _) \<Rightarrow> (Inl x, after_call c) | (Inr y, t) \<Rightarrow> (Inr y, t))
      else (Inl e, after_call c))"
  by (cases "faults c") (auto simp: with_connection_def call_ok_def after_call_def atomically_def
      faults_same split: prod.splits sum.splits)

lemma after_call_up [simp]: "faults c = [] \<Longrightarrow> after_call c = c"
  by (simp add: after_call_def faults_same)

lemma call_ok_up [simp]: "faults c = [] \<Longrightarrow> call_ok c"
  by (simp add: call_ok_def)

text \<open>An invariant that does not look at the script survives a connection.\<close>

lemma keeps_atomically [keeps_intros]: "keeps I f \<Longrightarrow> keeps I (atomically f)"
  by (auto simp: keeps_def atomically_def split: prod.splits sum.splits)

lemma keeps_with_connection:
  assumes f: "keeps I f" and script: "\<And>c bs. I c \<Longrightarrow> I (c\<lparr>faults := bs\<rparr>)"
  shows "keeps I (with_connection e f)"
proof (rule keepsI)
  fix c assume I: "I c"
  have "I (snd (atomically f d))" if "I d" for d
    using keeps_atomically [OF f] that by (rule keepsD)
  with I script show "I (snd (with_connection e f c))"
    by (auto simp: with_connection_def split: list.split)
qed

section \<open>Tables\<close>

text \<open>
  A table is the list of its rows in \<open>rowid\<close> order. An \<open>UPDATE\<close> maps the rows that satisfy
  its \<open>WHERE\<close>, a \<open>DELETE\<close> filters them out, and both report how many rows matched; a
  \<open>SELECT ... LIMIT 1\<close> by a key is \<open>find\<close>. \<open>order_asc\<close> and \<open>order_desc\<close> are \<open>ORDER BY\<close>; rows
  with equal keys, whose order SQL leaves open, stay in table order.
\<close>

definition sql_update :: "('r \<Rightarrow> bool) \<Rightarrow> ('r \<Rightarrow> 'r) \<Rightarrow> 'r list \<Rightarrow> 'r list" where
  "sql_update p f rows = map (\<lambda>r. if p r then f r else r) rows"

definition sql_changes :: "('r \<Rightarrow> bool) \<Rightarrow> 'r list \<Rightarrow> nat" where
  "sql_changes p rows = length (filter p rows)"

definition sql_delete :: "('r \<Rightarrow> bool) \<Rightarrow> 'r list \<Rightarrow> 'r list" where
  "sql_delete p rows = filter (\<lambda>r. \<not> p r) rows"

definition order_asc :: "('r \<Rightarrow> 'k::linorder) \<Rightarrow> 'r list \<Rightarrow> 'r list" where
  "order_asc k rows = sort_key k rows"

definition order_desc :: "('r \<Rightarrow> 'k::linorder) \<Rightarrow> 'r list \<Rightarrow> 'r list" where
  "order_desc k rows = rev (sort_key k (rev rows))"

lemma sql_update_Nil [simp]: "sql_update p f [] = []"
  by (simp add: sql_update_def)

lemma sql_update_Cons [simp]:
  "sql_update p f (r # rows) = (if p r then f r else r) # sql_update p f rows"
  by (simp add: sql_update_def)

lemma set_sql_update: "set (sql_update p f rows) = (\<lambda>r. if p r then f r else r) ` set rows"
  by (simp add: sql_update_def)

lemma in_set_sql_update:
  "r \<in> set (sql_update p f rows) \<Longrightarrow> (r \<in> set rows \<and> \<not> p r) \<or> (\<exists>q \<in> set rows. p q \<and> r = f q)"
  by (auto simp: set_sql_update)

lemma length_sql_update [simp]: "length (sql_update p f rows) = length rows"
  by (simp add: sql_update_def)

lemma map_sql_update:
  assumes "\<And>r. p r \<Longrightarrow> g (f r) = g r"
  shows "map g (sql_update p f rows) = map g rows"
  by (auto simp: sql_update_def assms)

lemma set_sql_delete [simp]: "set (sql_delete p rows) = {r \<in> set rows. \<not> p r}"
  by (auto simp: sql_delete_def)

lemma sql_update_id: "(\<And>r. r \<in> set rows \<Longrightarrow> \<not> p r) \<Longrightarrow> sql_update p f rows = rows"
  by (induction rows) auto

lemma sql_changes_0_iff: "sql_changes p rows = 0 \<longleftrightarrow> (\<forall>r \<in> set rows. \<not> p r)"
  by (simp add: sql_changes_def filter_empty_conv)

lemma set_order_asc [simp]: "set (order_asc k rows) = set rows"
  by (simp add: order_asc_def)

lemma set_order_desc [simp]: "set (order_desc k rows) = set rows"
  by (simp add: order_desc_def)

lemma length_order_asc [simp]: "length (order_asc k rows) = length rows"
  by (simp add: order_asc_def)

lemma length_order_desc [simp]: "length (order_desc k rows) = length rows"
  by (simp add: order_desc_def)

lemma distinct_order_desc [simp]: "distinct (order_desc k rows) = distinct rows"
  by (simp add: order_desc_def)

lemma sorted_order_asc: "sorted (map k (order_asc k rows))"
  by (simp add: order_asc_def)

lemma sorted_order_desc: "sorted_wrt (\<lambda>a b. k b \<le> k a) (order_desc k rows)"
proof -
  have "sorted (map k (sort_key k (rev rows)))" by simp
  then have "sorted_wrt (\<lambda>a b. k a \<le> k b) (sort_key k (rev rows))"
    by (simp only: sorted_wrt_map)
  then show ?thesis by (simp add: order_desc_def sorted_wrt_rev)
qed

lemma list_all2_left: "list_all2 P xs ys \<Longrightarrow> x \<in> set xs \<Longrightarrow> \<exists>y \<in> set ys. P x y"
  by (induction rule: list_all2_induct) auto

lemma list_all2_right: "list_all2 P xs ys \<Longrightarrow> y \<in> set ys \<Longrightarrow> \<exists>x \<in> set xs. P x y"
  by (induction rule: list_all2_induct) auto

text \<open>Tables with a primary key: finding and updating one row.\<close>

abbreviation unique_key :: "('r \<Rightarrow> 'k) \<Rightarrow> 'r list \<Rightarrow> bool" where
  "unique_key k rows \<equiv> distinct (map k rows)"

lemma find_append_split:
  "find P (xs @ ys) = (case find P xs of None \<Rightarrow> find P ys | Some x \<Rightarrow> Some x)"
  by (induction xs) auto

lemma find_only:
  assumes "r \<in> set xs" and "P r" and same: "\<And>q. q \<in> set xs \<Longrightarrow> P q \<Longrightarrow> q = r"
  shows "find P xs = Some r"
proof (cases "find P xs")
  case None
  with assms(1,2) show ?thesis by (simp add: find_None_iff)
next
  case (Some q)
  then have "q \<in> set xs" "P q" by (auto simp: find_Some_iff)
  from same [OF this] Some show ?thesis by simp
qed

lemma find_key_Some:
  "find (\<lambda>r. k r = i) rows = Some r \<Longrightarrow> r \<in> set rows \<and> k r = i"
  by (auto simp: find_Some_iff)

lemma find_key_None: "find (\<lambda>r. k r = i) rows = None \<longleftrightarrow> i \<notin> k ` set rows"
  by (auto simp: find_None_iff)

lemma find_key_unique:
  "unique_key k rows \<Longrightarrow> r \<in> set rows \<Longrightarrow> find (\<lambda>q. k q = k r) rows = Some r"
  by (induction rows) (auto simp: image_iff)

lemma unique_key_eq:
  "unique_key k rows \<Longrightarrow> r \<in> set rows \<Longrightarrow> q \<in> set rows \<Longrightarrow> k r = k q \<Longrightarrow> r = q"
  by (auto simp: distinct_map inj_on_def)

lemma find_key_sql_update:
  assumes "\<And>r. p r \<Longrightarrow> k (f r) = k r"
  shows "find (\<lambda>r. k r = i) (sql_update p f rows) =
    map_option (\<lambda>r. if p r then f r else r) (find (\<lambda>r. k r = i) rows)"
  by (induction rows) (auto simp: assms)

lemma sql_changes_key:
  assumes "unique_key k rows"
  shows "sql_changes (\<lambda>r. k r = i \<and> p r) rows =
    (case find (\<lambda>r. k r = i) rows of None \<Rightarrow> 0 | Some r \<Rightarrow> if p r then 1 else 0)"
  using assms
proof (induction rows)
  case Nil
  then show ?case by (simp add: sql_changes_def)
next
  case (Cons a rows)
  show ?case
  proof (cases "k a = i")
    case True
    with Cons.prems have "sql_changes (\<lambda>r. k r = i \<and> p r) rows = 0"
      by (fastforce simp: sql_changes_0_iff image_iff)
    with True show ?thesis by (simp add: sql_changes_def)
  next
    case False
    with Cons show ?thesis by (simp add: sql_changes_def)
  qed
qed


section \<open>Machine integers at the database boundary\<close>

text \<open>
  SQLite stores 64-bit signed integers. \<open>x as i64\<close> and \<open>x as u64\<close> reinterpret the bits,
  \<open>T::try_from\<close> fails out of range. A column is an \<open>int\<close>; what a Rust variable holds is a word.
\<close>

definition u64_as_i64 :: "64 word \<Rightarrow> int" where
  "u64_as_i64 w = sint w"

definition i64_as_u64 :: "int \<Rightarrow> 64 word" where
  "i64_as_u64 i = word_of_int i"

definition u32_as_i64 :: "32 word \<Rightarrow> int" where
  "u32_as_i64 w = uint w"

definition i64_as_u32 :: "int \<Rightarrow> 32 word" where
  "i64_as_u32 i = word_of_int i"

definition u8_try_from :: "int \<Rightarrow> 8 word option" where
  "u8_try_from i = (if 0 \<le> i \<and> i < 2 ^ 8 then Some (word_of_int i) else None)"

definition u16_try_from :: "int \<Rightarrow> 16 word option" where
  "u16_try_from i = (if 0 \<le> i \<and> i < 2 ^ 16 then Some (word_of_int i) else None)"

definition i16_try_from :: "int \<Rightarrow> 16 word option" where
  "i16_try_from i = (if - (2 ^ 15) \<le> i \<and> i < 2 ^ 15 then Some (word_of_int i) else None)"

definition u64_try_from :: "int \<Rightarrow> 64 word option" where
  "u64_try_from i = (if 0 \<le> i \<and> i < 2 ^ 64 then Some (word_of_int i) else None)"

definition i64_try_from_u64 :: "64 word \<Rightarrow> int option" where
  "i64_try_from_u64 w = (if uint w < 2 ^ 63 then Some (uint w) else None)"

lemma i64_as_u64_as_i64 [simp]: "i64_as_u64 (u64_as_i64 w) = w"
  by (simp add: i64_as_u64_def u64_as_i64_def)

lemma i64_as_u32_as_i64 [simp]: "i64_as_u32 (u32_as_i64 w) = w"
  by (simp add: i64_as_u32_def u32_as_i64_def)

lemma u8_try_from_uint [simp]: "u8_try_from (uint w) = Some w"
  using uint_lt2p [of w] by (simp add: u8_try_from_def)

lemma u16_try_from_uint [simp]: "u16_try_from (uint w) = Some w"
  using uint_lt2p [of w] by (simp add: u16_try_from_def)

lemma i16_try_from_sint [simp]: "i16_try_from (sint w) = Some w"
  using sint_ge [of w] sint_lt [of w] by (simp add: i16_try_from_def)

lemma u8_try_from_Some: "u8_try_from i = Some w \<longleftrightarrow> i = uint w"
  using uint_lt2p [of w] by (auto simp: u8_try_from_def uint_word_of_int split: if_splits)

lemma u16_try_from_Some: "u16_try_from i = Some w \<longleftrightarrow> i = uint w"
  using uint_lt2p [of w] by (auto simp: u16_try_from_def uint_word_of_int split: if_splits)

lemma i16_try_from_Some: "i16_try_from i = Some w \<longleftrightarrow> i = sint w"
proof
  assume "i16_try_from i = Some w"
  then have "- (2 ^ 15) \<le> i" "i < 2 ^ 15" "w = word_of_int i"
    by (auto simp: i16_try_from_def split: if_splits)
  then show "i = sint w" by (simp add: sint_sbintrunc' signed_take_bit_int_eq_self)
qed simp

lemmas try_from_Some = u8_try_from_Some u16_try_from_Some i16_try_from_Some

lemma u64_try_from_i64: "i64_try_from_u64 w = Some i \<Longrightarrow> u64_try_from i = Some w"
  by (auto simp: i64_try_from_u64_def u64_try_from_def split: if_splits)

section \<open>Strings\<close>

text \<open>
  A \<open>String\<close> is the list of its UTF-8 bytes, so \<open>length\<close> is \<open>len()\<close> and the order on strings
  is SQLite's binary collation. \<open>to_lowercase\<close> is modelled on ASCII letters: the texts it is
  compared with are ASCII without a \<open>k\<close>, the only such letter a non-ASCII one (the Kelvin
  sign) is lowered to.
\<close>

definition to_lower_char :: "char \<Rightarrow> char" where
  "to_lower_char c =
     (if 65 \<le> (of_char c :: nat) \<and> (of_char c :: nat) \<le> 90 then char_of (of_char c + 32 :: nat) else c)"

definition to_lowercase :: "string \<Rightarrow> string" where
  "to_lowercase s = map to_lower_char s"

definition strip_prefix :: "string \<Rightarrow> string \<Rightarrow> string option" where
  "strip_prefix p s = (if take (length p) s = p then Some (drop (length p) s) else None)"

lemma strip_prefix_append [simp]: "strip_prefix p (p @ s) = Some s"
  by (simp add: strip_prefix_def)

lemma strip_prefix_Some: "strip_prefix p s = Some r \<longleftrightarrow> s = p @ r"
  by (auto simp: strip_prefix_def split: if_splits) (metis append_take_drop_id)

text \<open>
  \<open>char::is_whitespace\<close>: the bytes 9 to 13 and 32, and the encodings of U+0085, U+00A0, U+1680,
  U+2000 to U+200A, U+2028, U+2029, U+202F, U+205F and U+3000. \<open>ws_len\<close> is the length of the
  whitespace character a text starts with, 0 when it starts with another one.
\<close>

fun ws_len :: "nat list \<Rightarrow> nat" where
  "ws_len [] = 0"
| "ws_len (a # bs) =
     (if 9 \<le> a \<and> a \<le> 13 \<or> a = 32 then 1
      else case bs of
        [] \<Rightarrow> 0
      | b # cs \<Rightarrow>
          if a = 194 \<and> (b = 133 \<or> b = 160) then 2
          else case cs of
            [] \<Rightarrow> 0
          | c # _ \<Rightarrow>
              if a = 225 \<and> b = 154 \<and> c = 128 then 3
              else if a = 226 \<and> b = 128 \<and> (128 \<le> c \<and> c \<le> 138 \<or> c = 168 \<or> c = 169 \<or> c = 175) then 3
              else if a = 226 \<and> b = 129 \<and> c = 159 then 3
              else if a = 227 \<and> b = 128 \<and> c = 128 then 3
              else 0)"

definition bytes :: "string \<Rightarrow> nat list" where
  "bytes s = map of_char s"

function blank_bytes :: "nat list \<Rightarrow> bool" where
  "blank_bytes bs =
     (if bs = [] then True
      else if ws_len bs = 0 then False
      else blank_bytes (drop (ws_len bs) bs))"
  by pat_completeness auto
termination
  by (relation "measure length") auto

declare blank_bytes.simps [simp del]

text \<open>\<open>s.trim().is_empty()\<close>\<close>

definition trim_is_empty :: "string \<Rightarrow> bool" where
  "trim_is_empty s = blank_bytes (bytes s)"

text \<open>\<open>s.chars().any(char::is_whitespace)\<close>\<close>

fun any_ws :: "nat list \<Rightarrow> bool" where
  "any_ws [] = False"
| "any_ws (a # bs) = (ws_len (a # bs) \<noteq> 0 \<or> any_ws bs)"

definition has_whitespace :: "string \<Rightarrow> bool" where
  "has_whitespace s = any_ws (bytes s)"

lemma trim_is_empty_Nil [simp]: "trim_is_empty []"
  by (simp add: trim_is_empty_def bytes_def blank_bytes.simps)

text \<open>\<open>str::split\<close> at a character\<close>

fun split_on :: "char \<Rightarrow> string \<Rightarrow> string list" where
  "split_on d [] = [[]]"
| "split_on d (c # s) =
     (if c = d then [] # split_on d s
      else case split_on d s of [] \<Rightarrow> [[c]] | p # ps \<Rightarrow> (c # p) # ps)"

lemma split_on_not_Nil [simp]: "split_on d s \<noteq> []"
  by (induction s) (auto split: list.split)

lemma split_on_append: "split_on d (s @ d # r) = split_on d s @ split_on d r"
  by (induction s) (auto split: list.split)

text \<open>\<open>str::trim\<close> on the bytes of a text\<close>

function trim_start :: "string \<Rightarrow> string" where
  "trim_start s =
     (if s = [] \<or> ws_len (bytes s) = 0 then s else trim_start (drop (ws_len (bytes s)) s))"
  by pat_completeness auto
termination
  by (relation "measure length") (auto simp: bytes_def)

definition ends_blank :: "string \<Rightarrow> nat \<Rightarrow> bool" where
  "ends_blank s n = (n \<le> length s \<and> ws_len (bytes (drop (length s - n) s)) = n)"

function trim_end :: "string \<Rightarrow> string" where
  "trim_end s =
     (case find (ends_blank s) [1, 2, 3] of
        None \<Rightarrow> s
      | Some n \<Rightarrow> trim_end (take (length s - n) s))"
  by pat_completeness auto
termination
proof (relation "measure length")
  fix s n assume "find (ends_blank s) [1, 2, 3] = Some n"
  then have "ends_blank s n" "0 < n" by (auto split: if_splits)
  then show "(take (length s - n) s, s) \<in> measure length" by (auto simp: ends_blank_def)
qed simp

declare trim_start.simps [simp del] trim_end.simps [simp del]

definition trim :: "string \<Rightarrow> string" where
  "trim s = trim_end (trim_start s)"

section \<open>JSON values\<close>

text \<open>
  \<open>serde_json::Value\<close>: an object is an association list with distinct keys, a number the text
  of its literal. Printing and parsing belong to the crate and are parameters of the model.
\<close>

datatype json =
  JNull
| JBool bool
| JNumber string
| JString string
| JArray "json list"
| JObject "(string \<times> json) list"

fun as_array :: "json \<Rightarrow> json list option" where
  "as_array (JArray xs) = Some xs"
| "as_array _ = None"

fun as_object :: "json \<Rightarrow> (string \<times> json) list option" where
  "as_object (JObject kvs) = Some kvs"
| "as_object _ = None"

fun as_str :: "json \<Rightarrow> string option" where
  "as_str (JString s) = Some s"
| "as_str _ = None"

definition obj_contains_key :: "(string \<times> json) list \<Rightarrow> string \<Rightarrow> bool" where
  "obj_contains_key kvs k = (k \<in> set (map fst kvs))"

definition obj_get :: "(string \<times> json) list \<Rightarrow> string \<Rightarrow> json option" where
  "obj_get kvs k = map_of kvs k"

text \<open>
  The crates the stores rely on, as parameters: the printer and parser of JSON, RFC 3339 with
  nanoseconds in UTC for instants counted in nanoseconds, the last instant \<open>DateTime<Utc>\<close> holds
  and the last one whose year is printed with four digits, and \<open>Uuid::parse_str\<close> followed by
  the hyphenated printing.
\<close>

record codec =
  json_to_string :: "json \<Rightarrow> string"
  json_from_str :: "string \<Rightarrow> json option"
  format_timestamp :: "nat \<Rightarrow> string"
  parse_timestamp :: "string \<Rightarrow> nat option"
  ts_max :: nat
  ts_text_max :: nat
  uuid_canonical :: "string \<Rightarrow> string option"

text \<open>
  What the code relies on: an instant of a four-digit year reads back as it was printed, and the
  order of the texts is the order of the instants.
\<close>

definition rfc3339_text :: "codec \<Rightarrow> bool" where
  "rfc3339_text C \<longleftrightarrow>
     ts_text_max C \<le> ts_max C \<and>
     (\<forall>t. t \<le> ts_text_max C \<longrightarrow> parse_timestamp C (format_timestamp C t) = Some t) \<and>
     (\<forall>t u. t \<le> ts_text_max C \<longrightarrow> u \<le> ts_text_max C \<longrightarrow>
        (format_timestamp C t < format_timestamp C u \<longleftrightarrow> t < u))"

lemma rfc3339_parse:
  "rfc3339_text C \<Longrightarrow> t \<le> ts_text_max C \<Longrightarrow> parse_timestamp C (format_timestamp C t) = Some t"
  by (simp add: rfc3339_text_def)

lemma rfc3339_less:
  "rfc3339_text C \<Longrightarrow> t \<le> ts_text_max C \<Longrightarrow> u \<le> ts_text_max C \<Longrightarrow>
   format_timestamp C t < format_timestamp C u \<longleftrightarrow> t < u"
  by (simp add: rfc3339_text_def)

lemma rfc3339_le:
  "rfc3339_text C \<Longrightarrow> t \<le> ts_text_max C \<Longrightarrow> u \<le> ts_text_max C \<Longrightarrow>
   format_timestamp C t \<le> format_timestamp C u \<longleftrightarrow> t \<le> u"
  using rfc3339_less [of C u t] by (simp add: linorder_not_less [symmetric])

end
