(* ===== verification/Work_Types.thy ===== *)
theory Work_Types
  imports Prelude
begin

text \<open>
  The data of the durable work queue (\<open>services/execution-state/src/work.rs\<close>): drafts,
  authorizations, envelopes, items, scopes and cursors, the validation a draft goes through
  before it is persisted, and the retry delay.
\<close>

section \<open>Bounds and errors\<close>

definition WORK_ENVELOPE_VERSION :: "16 word" where "WORK_ENVELOPE_VERSION = 1"
definition MAX_ROUTING_BYTES :: nat where "MAX_ROUTING_BYTES = 128"
definition MAX_PROVENANCE_ID_BYTES :: nat where "MAX_PROVENANCE_ID_BYTES = 128"
definition MAX_PAYLOAD_BYTES :: nat where "MAX_PAYLOAD_BYTES = 65536"
definition MAX_CORRELATION_BYTES :: nat where "MAX_CORRELATION_BYTES = 256"
definition MAX_DEDUPE_BYTES :: nat where "MAX_DEDUPE_BYTES = 256"
definition MIN_ATTEMPTS :: "8 word" where "MIN_ATTEMPTS = 1"
definition MAX_ATTEMPTS :: "8 word" where "MAX_ATTEMPTS = 20"
definition MIN_LEASE_SECONDS :: nat where "MIN_LEASE_SECONDS = 1"
definition MAX_LEASE_SECONDS :: nat where "MAX_LEASE_SECONDS = 300"
definition MAX_WORK_PAGE_SIZE :: nat where "MAX_WORK_PAGE_SIZE = 100"

lemmas work_bounds =
  WORK_ENVELOPE_VERSION_def MAX_ROUTING_BYTES_def MAX_PROVENANCE_ID_BYTES_def
  MAX_PAYLOAD_BYTES_def MAX_CORRELATION_BYTES_def MAX_DEDUPE_BYTES_def MIN_ATTEMPTS_def
  MAX_ATTEMPTS_def MIN_LEASE_SECONDS_def MAX_LEASE_SECONDS_def MAX_WORK_PAGE_SIZE_def

datatype work_validation_error =
  UnsupportedVersion | InvalidKind | InvalidSource | InvalidTarget | InvalidProvenance
| PayloadTooLarge | InvalidCorrelation | InvalidDedupeKey | InvalidAttemptLimit
| InvalidLeaseDuration | InvalidTimestamp | InvalidLeaseOwner | InvalidPageLimit

datatype work_policy_error =
  KindNotAllowed | TargetNotAllowed | PayloadInvalid | ProvenanceRejected

text \<open>
  \<open>WorkPanic\<close> is no variant of the source's enum: it stands for the panic of adding the retry
  delay to an instant at the end of the range of \<open>DateTime<Utc>\<close>.
\<close>

datatype work_error =
  InvalidEnvelope work_validation_error
| Policy work_policy_error
| StorageUnavailable
| StoredDataInvalid
| WorkNotFound
| StaleLease
| WorkPanic

section \<open>Drafts, authorizations, envelopes\<close>

record work_provenance =
  node_id :: string
  actor_id :: string
  prov_session_id :: string
  prov_execution_id :: string

record work_authorization =
  auth_source :: string
  auth_provenance :: work_provenance

record work_draft =
  d_version :: "16 word"
  d_kind :: string
  d_target :: string
  d_payload :: json
  d_correlation_id :: "string option"
  d_dedupe_key :: "string option"
  d_priority :: "16 word"
  d_max_attempts :: "8 word"

definition work_draft_new :: "string \<Rightarrow> string \<Rightarrow> json \<Rightarrow> work_draft" where
  "work_draft_new kind target pl =
     \<lparr>d_version = WORK_ENVELOPE_VERSION, d_kind = kind, d_target = target, d_payload = pl,
      d_correlation_id = None, d_dedupe_key = None, d_priority = 0, d_max_attempts = 5\<rparr>"

type_synonym work_policy = "work_draft \<Rightarrow> work_policy_error + work_authorization"

record work_envelope =
  env_id :: string
  env_version :: "16 word"
  env_kind :: string
  env_source :: string
  env_target :: string
  env_payload :: json
  env_provenance :: work_provenance
  env_correlation_id :: "string option"
  env_dedupe_key :: "string option"
  env_priority :: "16 word"
  env_max_attempts :: "8 word"
  env_created_at :: nat

section \<open>Validation\<close>

definition validate_required ::
  "string \<Rightarrow> work_validation_error \<Rightarrow> work_error + unit" where
  "validate_required v e =
     (if v = [] \<or> MAX_ROUTING_BYTES < length v then Inl (InvalidEnvelope e) else Inr ())"

definition validate_optional ::
  "string option \<Rightarrow> nat \<Rightarrow> work_validation_error \<Rightarrow> work_error + unit" where
  "validate_optional v mx e =
     (case v of
        None \<Rightarrow> Inr ()
      | Some x \<Rightarrow> if x = [] \<or> mx < length x then Inl (InvalidEnvelope e) else Inr ())"

definition validate_draft :: "codec \<Rightarrow> work_draft \<Rightarrow> work_error + unit" where
  "validate_draft C d =
     (if d_version d \<noteq> WORK_ENVELOPE_VERSION then Inl (InvalidEnvelope UnsupportedVersion)
      else sbind (validate_required (d_kind d) InvalidKind) (\<lambda>_.
      sbind (validate_required (d_target d) InvalidTarget) (\<lambda>_.
      if MAX_PAYLOAD_BYTES < length (json_to_string C (d_payload d))
      then Inl (InvalidEnvelope PayloadTooLarge)
      else sbind (validate_optional (d_correlation_id d) MAX_CORRELATION_BYTES InvalidCorrelation) (\<lambda>_.
      sbind (validate_optional (d_dedupe_key d) MAX_DEDUPE_BYTES InvalidDedupeKey) (\<lambda>_.
      if \<not> (MIN_ATTEMPTS \<le> d_max_attempts d \<and> d_max_attempts d \<le> MAX_ATTEMPTS)
      then Inl (InvalidEnvelope InvalidAttemptLimit) else Inr ())))))"

definition provenance_ids :: "work_provenance \<Rightarrow> string list" where
  "provenance_ids p = [node_id p, actor_id p, prov_session_id p, prov_execution_id p]"

definition validate_authorization :: "work_authorization \<Rightarrow> work_error + unit" where
  "validate_authorization a =
     sbind (validate_required (auth_source a) InvalidSource) (\<lambda>_.
     if list_ex (\<lambda>v. v = [] \<or> MAX_PROVENANCE_ID_BYTES < length v) (provenance_ids (auth_provenance a))
     then Inl (InvalidEnvelope InvalidProvenance) else Inr ())"

text \<open>\<open>uuid\<close> is the fresh identifier drawn by the constructor.\<close>

definition work_envelope_authorize ::
  "codec \<Rightarrow> string \<Rightarrow> work_draft \<Rightarrow> work_policy \<Rightarrow> nat \<Rightarrow> work_error + work_envelope" where
  "work_envelope_authorize C uuid d policy now =
     sbind (validate_draft C d) (\<lambda>_.
     sbind (case policy d of Inl e \<Rightarrow> Inl (Policy e) | Inr a \<Rightarrow> Inr a) (\<lambda>a.
     sbind (validate_authorization a) (\<lambda>_.
     Inr \<lparr>env_id = ''work-'' @ uuid, env_version = d_version d, env_kind = d_kind d,
          env_source = auth_source a, env_target = d_target d, env_payload = d_payload d,
          env_provenance = auth_provenance a, env_correlation_id = d_correlation_id d,
          env_dedupe_key = d_dedupe_key d, env_priority = d_priority d,
          env_max_attempts = d_max_attempts d, env_created_at = now\<rparr>)))"

section \<open>Statuses and failure codes\<close>

datatype work_status = WPending | WLeased | WCompleted | WDeadLetter | WCanceled

fun work_status_as_str :: "work_status \<Rightarrow> string" where
  "work_status_as_str WPending = ''pending''"
| "work_status_as_str WLeased = ''leased''"
| "work_status_as_str WCompleted = ''completed''"
| "work_status_as_str WDeadLetter = ''dead_letter''"
| "work_status_as_str WCanceled = ''canceled''"

definition work_status_parse :: "string \<Rightarrow> work_error + work_status" where
  "work_status_parse v =
     (if v = ''pending'' then Inr WPending
      else if v = ''leased'' then Inr WLeased
      else if v = ''completed'' then Inr WCompleted
      else if v = ''dead_letter'' then Inr WDeadLetter
      else if v = ''canceled'' then Inr WCanceled
      else Inl StoredDataInvalid)"

datatype work_failure_code =
  HandlerUnavailable | HandlerRejected | Timeout | InvalidPayload | AttemptsExhausted
| IntegrityViolation | Internal

fun work_failure_as_str :: "work_failure_code \<Rightarrow> string" where
  "work_failure_as_str HandlerUnavailable = ''handler_unavailable''"
| "work_failure_as_str HandlerRejected = ''handler_rejected''"
| "work_failure_as_str Timeout = ''timeout''"
| "work_failure_as_str InvalidPayload = ''invalid_payload''"
| "work_failure_as_str AttemptsExhausted = ''attempts_exhausted''"
| "work_failure_as_str IntegrityViolation = ''integrity_violation''"
| "work_failure_as_str Internal = ''internal''"

definition work_failure_parse :: "string \<Rightarrow> work_error + work_failure_code" where
  "work_failure_parse v =
     (if v = ''handler_unavailable'' then Inr HandlerUnavailable
      else if v = ''handler_rejected'' then Inr HandlerRejected
      else if v = ''timeout'' then Inr Timeout
      else if v = ''invalid_payload'' then Inr InvalidPayload
      else if v = ''attempts_exhausted'' then Inr AttemptsExhausted
      else if v = ''integrity_violation'' then Inr IntegrityViolation
      else if v = ''internal'' then Inr Internal
      else Inl StoredDataInvalid)"

lemma work_status_roundtrip [simp]: "work_status_parse (work_status_as_str st) = Inr st"
  by (cases st) (simp_all add: work_status_parse_def)

lemma work_failure_roundtrip [simp]: "work_failure_parse (work_failure_as_str fc) = Inr fc"
  by (cases fc) (simp_all add: work_failure_parse_def)

lemma work_status_parse_Inr: "work_status_parse v = Inr st \<longleftrightarrow> v = work_status_as_str st"
  by (cases st) (auto simp: work_status_parse_def split: if_splits)

section \<open>Items, scopes, cursors, outcomes\<close>

record work_item =
  envelope :: work_envelope
  status :: work_status
  attempts :: "8 word"
  available_at :: nat
  lease_owner :: "string option"
  lease_token :: "string option"
  lease_expires_at :: "nat option"
  last_failure_code :: "work_failure_code option"
  updated_at :: nat
  completed_at :: "nat option"

record enqueue_outcome =
  eo_item :: work_item
  eo_inserted :: bool

record recovery_outcome =
  requeued :: nat
  dead_lettered :: nat

record work_scope =
  sc_source :: string
  sc_kind :: string
  sc_actor_id :: string

definition work_scope_new :: "string \<Rightarrow> string \<Rightarrow> string \<Rightarrow> work_error + work_scope" where
  "work_scope_new source kind actor =
     sbind (validate_required source InvalidSource) (\<lambda>_.
     sbind (validate_required kind InvalidKind) (\<lambda>_.
     if actor = [] \<or> MAX_PROVENANCE_ID_BYTES < length actor
     then Inl (InvalidEnvelope InvalidProvenance)
     else Inr \<lparr>sc_source = source, sc_kind = kind, sc_actor_id = actor\<rparr>))"

record work_cursor =
  cur_updated_at :: nat
  cur_id :: string

definition work_cursor_new :: "nat \<Rightarrow> string \<Rightarrow> work_error + work_cursor" where
  "work_cursor_new t i =
     sbind (validate_required i InvalidCorrelation) (\<lambda>_. Inr \<lparr>cur_updated_at = t, cur_id = i\<rparr>)"

record work_page =
  pg_items :: "work_item list"
  pg_next_cursor :: "work_cursor option"
  pg_total_size :: "64 word"

datatype work_cancel_outcome =
  Canceled work_item | AlreadyCanceled work_item | NotCancelable work_item | NotFoundOutcome

section \<open>Leases and retries\<close>

text \<open>A \<open>Duration\<close>: whole seconds and the nanoseconds past them.\<close>

record duration =
  as_secs :: nat
  subsec_nanos :: nat

definition ns_of_secs :: "nat \<Rightarrow> nat" where
  "ns_of_secs s = s * 1000000000"

definition validate_routing_value ::
  "string \<Rightarrow> work_validation_error \<Rightarrow> work_error + unit" where
  "validate_routing_value v e =
     (if v = [] \<or> MAX_ROUTING_BYTES < length v then Inl (InvalidEnvelope e) else Inr ())"

definition validate_lease :: "codec \<Rightarrow> string \<Rightarrow> nat \<Rightarrow> duration \<Rightarrow> work_error + nat" where
  "validate_lease C owner now d =
     (if owner = [] \<or> MAX_ROUTING_BYTES < length owner then Inl (InvalidEnvelope InvalidLeaseOwner)
      else if subsec_nanos d \<noteq> 0 \<or> \<not> (MIN_LEASE_SECONDS \<le> as_secs d \<and> as_secs d \<le> MAX_LEASE_SECONDS)
      then Inl (InvalidEnvelope InvalidLeaseDuration)
      else if ts_max C < now + ns_of_secs (as_secs d) then Inl (InvalidEnvelope InvalidTimestamp)
      else Inr (now + ns_of_secs (as_secs d)))"

definition saturating_sub8 :: "8 word \<Rightarrow> 8 word \<Rightarrow> 8 word" where
  "saturating_sub8 a b = (if a < b then 0 else a - b)"

definition retry_delay :: "8 word \<Rightarrow> 64 word" where
  "retry_delay att =
     (let exponent = min (unat (saturating_sub8 att 1)) 20;
          shifted = (if exponent < 64 then push_bit exponent 1 else - 1)
      in min shifted 300)"

lemma validate_required_Inr [simp]:
  "validate_required v e = Inr u \<longleftrightarrow> v \<noteq> [] \<and> length v \<le> MAX_ROUTING_BYTES"
  by (auto simp: validate_required_def)

lemma validate_routing_value_Inr [simp]:
  "validate_routing_value v e = Inr u \<longleftrightarrow> v \<noteq> [] \<and> length v \<le> MAX_ROUTING_BYTES"
  by (auto simp: validate_routing_value_def)

lemma validate_optional_Inr [simp]:
  "validate_optional v mx e = Inr u \<longleftrightarrow> (\<forall>x. v = Some x \<longrightarrow> x \<noteq> [] \<and> length x \<le> mx)"
  by (cases v) (auto simp: validate_optional_def)

lemma validate_lease_Inr:
  assumes "validate_lease C owner now d = Inr t"
  shows "t = now + ns_of_secs (as_secs d)" and "now < t"
    and "t \<le> now + ns_of_secs MAX_LEASE_SECONDS"
    and "owner \<noteq> []" and "length owner \<le> MAX_ROUTING_BYTES"
  using assms by (auto simp: validate_lease_def ns_of_secs_def work_bounds split: if_splits)

text \<open>The delay doubles with every attempt, starts at one second and never passes 300.\<close>

lemma unat_saturating_sub8: "unat (saturating_sub8 a b) = unat a - unat b"
  by (auto simp: saturating_sub8_def word_less_nat_alt unat_sub word_le_nat_alt)

lemma unat_retry_delay: "unat (retry_delay att) = min (2 ^ min (unat att - 1) 20) 300"
proof -
  define e where "e = min (unat (saturating_sub8 att 1)) 20"
  have e: "e = min (unat att - 1) 20" "e < 64"
    by (auto simp: e_def unat_saturating_sub8)
  have "e \<in> {..20}" by (simp add: e_def)
  then have "e \<in> set [0..<21]" by auto
  then have "unat (min (push_bit e 1) (300 :: 64 word)) = min (2 ^ e) 300"
    by (auto simp: upt_rec push_bit_eq_mult min_def word_le_nat_alt)
  with e show ?thesis by (simp add: retry_delay_def Let_def flip: e_def)
qed

end
