(* ===== verification/Work_Rows.thy ===== *)
theory Work_Rows
  imports Work_Types
begin

text \<open>
  The table \<open>durable_work_items\<close> (schema in \<open>stores/zbot-runtime-sqlite/src/schema.rs\<close>), its
  rows as SQLite holds them, the reading of a row into a \<open>WorkItem\<close>, and the queries and
  row updates the operations of the store are made of.
\<close>

section \<open>Rows\<close>

record stored_work_row =
  r_id :: string
  r_envelope_version :: int
  r_kind :: string
  r_source :: string
  r_target :: string
  r_payload_json :: string
  r_node_id :: string
  r_actor_id :: string
  r_session_id :: string
  r_execution_id :: string
  r_correlation_id :: "string option"
  r_dedupe_key :: "string option"
  r_priority :: int
  r_status :: string
  r_attempts :: int
  r_max_attempts :: int
  r_available_at :: string
  r_lease_owner :: "string option"
  r_lease_token :: "string option"
  r_lease_expires_at :: "string option"
  r_last_failure_code :: "string option"
  r_created_at :: string
  r_updated_at :: string
  r_completed_at :: "string option"

text \<open>The \<open>CHECK\<close> constraints of the table.\<close>

definition work_row_checks :: "stored_work_row \<Rightarrow> bool" where
  "work_row_checks r \<longleftrightarrow>
     r_envelope_version r = 1 \<and> length (r_payload_json r) \<le> 65536 \<and>
     r_status r \<in> {''pending'', ''leased'', ''completed'', ''dead_letter'', ''canceled''} \<and>
     0 \<le> r_attempts r \<and> 1 \<le> r_max_attempts r \<and> r_max_attempts r \<le> 20"

text \<open>The primary key and the unique index on source and dedupe key.\<close>

definition work_row_conflicts :: "stored_work_row \<Rightarrow> stored_work_row \<Rightarrow> bool" where
  "work_row_conflicts r q \<longleftrightarrow>
     r_id r = r_id q \<or>
     (r_dedupe_key r \<noteq> None \<and> r_source r = r_source q \<and> r_dedupe_key r = r_dedupe_key q)"

definition insert_or_ignore ::
  "stored_work_row \<Rightarrow> stored_work_row list \<Rightarrow> nat \<times> stored_work_row list" where
  "insert_or_ignore r rows =
     (if \<not> work_row_checks r \<or> list_ex (work_row_conflicts r) rows then (0, rows)
      else (1, rows @ [r]))"

section \<open>Reading a row\<close>

definition stored_state_is_consistent ::
  "work_status \<Rightarrow> string option \<Rightarrow> string option \<Rightarrow> nat option \<Rightarrow> nat option \<Rightarrow> bool" where
  "stored_state_is_consistent st lowner ltoken expires completed =
     (let owner_valid = (case lowner of None \<Rightarrow> False
            | Some w \<Rightarrow> w \<noteq> [] \<and> length w \<le> MAX_ROUTING_BYTES);
          token_valid = (case ltoken of None \<Rightarrow> False
            | Some w \<Rightarrow> w \<noteq> [] \<and> length w \<le> MAX_ROUTING_BYTES)
      in case st of
           WPending \<Rightarrow> lowner = None \<and> ltoken = None \<and> expires = None \<and> completed = None
         | WLeased \<Rightarrow> owner_valid \<and> token_valid \<and> expires \<noteq> None \<and> completed = None
         | _ \<Rightarrow> lowner = None \<and> ltoken = None \<and> expires = None \<and> completed \<noteq> None)"

text \<open>\<open>opt.as_deref().map(f).transpose()\<close>\<close>

definition transpose_map :: "('a \<Rightarrow> 'e + 'b) \<Rightarrow> 'a option \<Rightarrow> 'e + 'b option" where
  "transpose_map f x = (case x of None \<Rightarrow> Inr None | Some y \<Rightarrow> sbind (f y) (\<lambda>z. Inr (Some z)))"

definition parse_ts :: "codec \<Rightarrow> string \<Rightarrow> work_error + nat" where
  "parse_ts C v = some_or StoredDataInvalid (parse_timestamp C v)"

definition invalid_stored :: "work_error + 'a \<Rightarrow> work_error + 'a" where
  "invalid_stored r = (case r of Inl _ \<Rightarrow> Inl StoredDataInvalid | Inr x \<Rightarrow> Inr x)"

definition row_provenance :: "stored_work_row \<Rightarrow> work_provenance" where
  "row_provenance r = \<lparr>node_id = r_node_id r, actor_id = r_actor_id r,
     prov_session_id = r_session_id r, prov_execution_id = r_execution_id r\<rparr>"

definition try_into_item :: "codec \<Rightarrow> stored_work_row \<Rightarrow> work_error + work_item" where
  "try_into_item C r =
     sbind (some_or StoredDataInvalid (u16_try_from (r_envelope_version r))) (\<lambda>ver.
     sbind (some_or StoredDataInvalid (i16_try_from (r_priority r))) (\<lambda>prio.
     sbind (some_or StoredDataInvalid (u8_try_from (r_attempts r))) (\<lambda>att.
     sbind (some_or StoredDataInvalid (u8_try_from (r_max_attempts r))) (\<lambda>mx.
     if MAX_PAYLOAD_BYTES < length (r_payload_json r) then Inl StoredDataInvalid else
     sbind (some_or StoredDataInvalid (json_from_str C (r_payload_json r))) (\<lambda>pl.
     sbind (parse_ts C (r_created_at r)) (\<lambda>created.
     sbind (parse_ts C (r_available_at r)) (\<lambda>available.
     sbind (transpose_map (parse_ts C) (r_lease_expires_at r)) (\<lambda>expires.
     sbind (transpose_map (parse_ts C) (r_completed_at r)) (\<lambda>completed.
     sbind (work_status_parse (r_status r)) (\<lambda>st.
     let a = \<lparr>auth_source = r_source r, auth_provenance = row_provenance r\<rparr>;
         d = \<lparr>d_version = ver, d_kind = r_kind r, d_target = r_target r, d_payload = pl,
              d_correlation_id = r_correlation_id r, d_dedupe_key = r_dedupe_key r,
              d_priority = prio, d_max_attempts = mx\<rparr> in
     sbind (invalid_stored (validate_draft C d)) (\<lambda>_.
     sbind (invalid_stored (validate_authorization a)) (\<lambda>_.
     if mx < att \<or> \<not> stored_state_is_consistent st (r_lease_owner r) (r_lease_token r) expires completed
     then Inl StoredDataInvalid else
     sbind (transpose_map work_failure_parse (r_last_failure_code r)) (\<lambda>code.
     sbind (parse_ts C (r_updated_at r)) (\<lambda>updated.
     Inr \<lparr>envelope = \<lparr>env_id = r_id r, env_version = ver, env_kind = r_kind r,
            env_source = r_source r, env_target = r_target r, env_payload = pl,
            env_provenance = row_provenance r, env_correlation_id = r_correlation_id r,
            env_dedupe_key = r_dedupe_key r, env_priority = prio, env_max_attempts = mx,
            env_created_at = created\<rparr>,
          status = st, attempts = att, available_at = available,
          lease_owner = r_lease_owner r, lease_token = r_lease_token r,
          lease_expires_at = expires, last_failure_code = code, updated_at = updated,
          completed_at = completed\<rparr>))))))))))))))"

section \<open>What a claim or a recovery logs\<close>

record work_transition_diagnostic =
  diag_work_id :: string
  diag_kind :: string
  diag_attempt :: "8 word"

datatype recovery_disposition = Requeued | DeadLetter work_failure_code

record recovery_transition =
  outcome :: recovery_outcome
  diagnostics :: "(work_transition_diagnostic \<times> recovery_disposition) list"

definition recovery_default :: recovery_transition where
  "recovery_default = \<lparr>outcome = \<lparr>requeued = 0, dead_lettered = 0\<rparr>, diagnostics = []\<rparr>"

definition transition_diagnostic :: "codec \<Rightarrow> stored_work_row \<Rightarrow> work_transition_diagnostic" where
  "transition_diagnostic C r =
     \<lparr>diag_work_id =
        (case Option.bind (strip_prefix ''work-'' (r_id r)) (uuid_canonical C) of
           None \<Rightarrow> ''invalid-work-id'' | Some i \<Rightarrow> ''work-'' @ i),
      diag_kind = (if r_kind r = [] \<or> MAX_ROUTING_BYTES < length (r_kind r) then ''invalid-kind''
                   else r_kind r),
      diag_attempt = (case u8_try_from (r_attempts r) of None \<Rightarrow> 0 | Some a \<Rightarrow> a)\<rparr>"

section \<open>Queries\<close>

definition query_stored_by_id :: "stored_work_row list \<Rightarrow> string \<Rightarrow> stored_work_row option" where
  "query_stored_by_id rows i = find (\<lambda>r. r_id r = i) rows"

definition query_stored_by_dedupe ::
  "stored_work_row list \<Rightarrow> string \<Rightarrow> string \<Rightarrow> stored_work_row option" where
  "query_stored_by_dedupe rows source key =
     find (\<lambda>r. r_source r = source \<and> r_dedupe_key r = Some key) rows"

definition in_scope :: "work_scope \<Rightarrow> stored_work_row \<Rightarrow> bool" where
  "in_scope sc r \<longleftrightarrow>
     r_source r = sc_source sc \<and> r_kind r = sc_kind sc \<and> r_actor_id r = sc_actor_id sc"

definition page_key :: "stored_work_row \<Rightarrow> string \<times> string" where
  "page_key r = (r_updated_at r, r_id r)"

definition query_stored_by_scope ::
  "stored_work_row list \<Rightarrow> work_scope \<Rightarrow> string \<Rightarrow> stored_work_row list" where
  "query_stored_by_scope rows sc corr =
     take 2 (order_desc page_key
       (filter (\<lambda>r. in_scope sc r \<and> r_correlation_id r = Some corr) rows))"

definition past_cursor :: "codec \<Rightarrow> work_cursor \<Rightarrow> stored_work_row \<Rightarrow> bool" where
  "past_cursor C c r \<longleftrightarrow>
     r_updated_at r < format_timestamp C (cur_updated_at c) \<or>
     (r_updated_at r = format_timestamp C (cur_updated_at c) \<and> r_id r < cur_id c)"

definition query_stored_page ::
  "codec \<Rightarrow> stored_work_row list \<Rightarrow> work_scope \<Rightarrow> work_cursor option \<Rightarrow> nat \<Rightarrow> stored_work_row list" where
  "query_stored_page C rows sc cursor limit =
     take limit (order_desc page_key (filter (\<lambda>r. in_scope sc r \<and>
       (case cursor of None \<Rightarrow> True | Some c \<Rightarrow> past_cursor C c r)) rows))"

definition count_stored_scope :: "stored_work_row list \<Rightarrow> work_scope \<Rightarrow> int" where
  "count_stored_scope rows sc = int (length (filter (in_scope sc) rows))"

definition count_stored_scope_nonterminal :: "stored_work_row list \<Rightarrow> work_scope \<Rightarrow> int" where
  "count_stored_scope_nonterminal rows sc =
     int (length (filter (\<lambda>r. in_scope sc r \<and> r_status r \<in> {''pending'', ''leased''}) rows))"

definition unique_scoped_item ::
  "codec \<Rightarrow> stored_work_row list \<Rightarrow> work_error + work_item option" where
  "unique_scoped_item C rows =
     (case rows of
        [] \<Rightarrow> Inr None
      | [r] \<Rightarrow> sbind (try_into_item C r) (\<lambda>i. Inr (Some i))
      | _ \<Rightarrow> Inl StoredDataInvalid)"

text \<open>\<open>claim_next\<close>'s candidate: the first of the pending rows that are due and have budget left.\<close>

definition claimable :: "string \<Rightarrow> string \<Rightarrow> stored_work_row \<Rightarrow> bool" where
  "claimable target now_text r \<longleftrightarrow>
     r_target r = target \<and> r_status r = ''pending'' \<and> r_available_at r \<le> now_text \<and>
     r_attempts r < r_max_attempts r"

definition claim_key :: "stored_work_row \<Rightarrow> int \<times> string \<times> string \<times> string" where
  "claim_key r = (- r_priority r, r_available_at r, r_created_at r, r_id r)"

definition query_claim_candidate ::
  "stored_work_row list \<Rightarrow> string \<Rightarrow> string \<Rightarrow> string option" where
  "query_claim_candidate rows target now_text =
     (case order_asc claim_key (filter (claimable target now_text) rows) of
        [] \<Rightarrow> None | r # _ \<Rightarrow> Some (r_id r))"

section \<open>Row updates\<close>

definition holds_lease :: "string \<Rightarrow> string \<Rightarrow> string \<Rightarrow> string \<Rightarrow> stored_work_row \<Rightarrow> bool" where
  "holds_lease i own tok now_text r \<longleftrightarrow>
     r_id r = i \<and> r_status r = ''leased'' \<and> r_lease_owner r = Some own \<and>
     r_lease_token r = Some tok \<and>
     (case r_lease_expires_at r of None \<Rightarrow> False | Some e \<Rightarrow> now_text < e)"

definition cancelable :: "work_scope \<Rightarrow> string \<Rightarrow> string \<Rightarrow> stored_work_row \<Rightarrow> bool" where
  "cancelable sc corr i r \<longleftrightarrow>
     r_id r = i \<and> in_scope sc r \<and> r_correlation_id r = Some corr \<and>
     r_status r \<in> {''pending'', ''leased''}"

definition clear_lease :: "stored_work_row \<Rightarrow> stored_work_row" where
  "clear_lease r = r\<lparr>r_lease_owner := None, r_lease_token := None, r_lease_expires_at := None\<rparr>"

definition set_terminal :: "string \<Rightarrow> string \<Rightarrow> stored_work_row \<Rightarrow> stored_work_row" where
  "set_terminal st now_text r =
     (clear_lease r)\<lparr>r_status := st, r_updated_at := now_text, r_completed_at := Some now_text\<rparr>"

definition set_dead_letter :: "work_failure_code \<Rightarrow> string \<Rightarrow> stored_work_row \<Rightarrow> stored_work_row" where
  "set_dead_letter code now_text r =
     (set_terminal ''dead_letter'' now_text r)\<lparr>r_last_failure_code := Some (work_failure_as_str code)\<rparr>"

definition set_requeued :: "string \<Rightarrow> stored_work_row \<Rightarrow> stored_work_row" where
  "set_requeued now_text r =
     (clear_lease r)\<lparr>r_status := ''pending'', r_available_at := now_text, r_updated_at := now_text\<rparr>"

definition set_leased ::
  "string \<Rightarrow> string \<Rightarrow> string \<Rightarrow> string \<Rightarrow> stored_work_row \<Rightarrow> stored_work_row" where
  "set_leased own tok expiry_text now_text r =
     r\<lparr>r_status := ''leased'', r_attempts := r_attempts r + 1, r_lease_owner := Some own,
       r_lease_token := Some tok, r_lease_expires_at := Some expiry_text,
       r_updated_at := now_text\<rparr>"

definition set_renewed :: "string \<Rightarrow> string \<Rightarrow> stored_work_row \<Rightarrow> stored_work_row" where
  "set_renewed expiry_text now_text r =
     r\<lparr>r_lease_expires_at := Some expiry_text, r_updated_at := now_text\<rparr>"

definition set_failed ::
  "work_status \<Rightarrow> string \<Rightarrow> work_failure_code \<Rightarrow> string \<Rightarrow> string option \<Rightarrow>
   stored_work_row \<Rightarrow> stored_work_row" where
  "set_failed st available_text code now_text completed r =
     (clear_lease r)\<lparr>r_status := work_status_as_str st, r_available_at := available_text,
       r_last_failure_code := Some (work_failure_as_str code), r_updated_at := now_text,
       r_completed_at := completed\<rparr>"

lemmas row_updates =
  clear_lease_def set_terminal_def set_dead_letter_def set_requeued_def set_leased_def
  set_renewed_def set_failed_def

end
