(* ===== verification/Work_Store.thy ===== *)
theory Work_Store
  imports Work_Rows
begin

text \<open>
  \<open>SqliteWorkStore\<close>: the operations of the trait \<open>WorkStore\<close> over the table, one definition
  per method (\<open>services/execution-state/src/work.rs\<close>).
\<close>

section \<open>The store\<close>

record workdb = conn +
  work_rows :: "stored_work_row list"

type_synonym 'a work_op = "(workdb, work_error, 'a) op"

text \<open>
  A statement reads the table and may replace it. Any error of the driver ends as
  \<open>StorageUnavailable\<close>; \<open>WorkPanic\<close> unwinds through the transaction, which rolls back.
\<close>

definition query :: "(stored_work_row list \<Rightarrow> 'a) \<Rightarrow> 'a work_op" where
  "query q db = (Inr (q (work_rows db)), db)"

definition execute ::
  "(stored_work_row list \<Rightarrow> nat \<times> stored_work_row list) \<Rightarrow> nat work_op" where
  "execute u db = (let (n, rows) = u (work_rows db) in (Inr n, db\<lparr>work_rows := rows\<rparr>))"

definition update_where ::
  "(stored_work_row \<Rightarrow> bool) \<Rightarrow> (stored_work_row \<Rightarrow> stored_work_row) \<Rightarrow> nat work_op" where
  "update_where p f = execute (\<lambda>rows. (sql_changes p rows, sql_update p f rows))"

definition in_connection :: "'a work_op \<Rightarrow> 'a work_op" where
  "in_connection f = with_connection StorageUnavailable f"

section \<open>Enqueue and lookups\<close>

definition row_of_envelope :: "codec \<Rightarrow> work_envelope \<Rightarrow> stored_work_row" where
  "row_of_envelope C env =
     \<lparr>r_id = env_id env, r_envelope_version = uint (env_version env), r_kind = env_kind env,
      r_source = env_source env, r_target = env_target env,
      r_payload_json = json_to_string C (env_payload env),
      r_node_id = node_id (env_provenance env), r_actor_id = actor_id (env_provenance env),
      r_session_id = prov_session_id (env_provenance env),
      r_execution_id = prov_execution_id (env_provenance env),
      r_correlation_id = env_correlation_id env, r_dedupe_key = env_dedupe_key env,
      r_priority = sint (env_priority env), r_status = ''pending'', r_attempts = 0,
      r_max_attempts = uint (env_max_attempts env),
      r_available_at = format_timestamp C (env_created_at env),
      r_lease_owner = None, r_lease_token = None, r_lease_expires_at = None,
      r_last_failure_code = None, r_created_at = format_timestamp C (env_created_at env),
      r_updated_at = format_timestamp C (env_created_at env), r_completed_at = None\<rparr>"

definition enqueue_tx :: "codec \<Rightarrow> work_envelope \<Rightarrow> (stored_work_row option \<times> bool) work_op" where
  "enqueue_tx C env =
     bnd (execute (insert_or_ignore (row_of_envelope C env))) (\<lambda>n.
     bnd (if n = 1 then query (\<lambda>rows. query_stored_by_id rows (env_id env))
          else case env_dedupe_key env of
              None \<Rightarrow> ret None
            | Some k \<Rightarrow> query (\<lambda>rows. query_stored_by_dedupe rows (env_source env) k)) (\<lambda>row.
     ret (row, n = 1)))"

definition enqueue :: "codec \<Rightarrow> work_envelope \<Rightarrow> enqueue_outcome work_op" where
  "enqueue C env =
     bnd (in_connection (enqueue_tx C env)) (\<lambda>(row, inserted).
     bnd (ok_or StorageUnavailable row) (\<lambda>r.
     bnd (lift_sum (try_into_item C r)) (\<lambda>item.
     ret \<lparr>eo_item = item, eo_inserted = inserted\<rparr>)))"

definition get :: "codec \<Rightarrow> string \<Rightarrow> work_item option work_op" where
  "get C i =
     bnd (in_connection (query (\<lambda>rows. query_stored_by_id rows i))) (\<lambda>row.
     lift_sum (transpose_map (try_into_item C) row))"

definition find_deduped :: "codec \<Rightarrow> string \<Rightarrow> string \<Rightarrow> work_item option work_op" where
  "find_deduped C source key =
     bnd (lift_sum (validate_required source InvalidSource)) (\<lambda>_.
     bnd (lift_sum (validate_optional (Some key) MAX_DEDUPE_BYTES InvalidDedupeKey)) (\<lambda>_.
     bnd (in_connection (query (\<lambda>rows. query_stored_by_dedupe rows source key))) (\<lambda>row.
     lift_sum (transpose_map (try_into_item C) row))))"

definition count_scoped_nonterminal :: "work_scope \<Rightarrow> 64 word work_op" where
  "count_scoped_nonterminal sc =
     bnd (in_connection (query (\<lambda>rows. count_stored_scope_nonterminal rows sc))) (\<lambda>n.
     lift_sum (some_or StoredDataInvalid (u64_try_from n)))"

definition find_scoped :: "codec \<Rightarrow> work_scope \<Rightarrow> string \<Rightarrow> work_item option work_op" where
  "find_scoped C sc corr =
     bnd (lift_sum (validate_optional (Some corr) MAX_CORRELATION_BYTES InvalidCorrelation)) (\<lambda>_.
     bnd (in_connection (query (\<lambda>rows. query_stored_by_scope rows sc corr))) (\<lambda>rows.
     lift_sum (unique_scoped_item C rows)))"

text \<open>\<open>rows.into_iter().map(try_into_item).collect::<Result<Vec<_>, _>>()\<close>\<close>

fun collect_items :: "codec \<Rightarrow> stored_work_row list \<Rightarrow> work_error + work_item list" where
  "collect_items C [] = Inr []"
| "collect_items C (r # rs) =
     sbind (try_into_item C r) (\<lambda>i. sbind (collect_items C rs) (\<lambda>is. Inr (i # is)))"

definition cursor_of :: "work_item \<Rightarrow> work_cursor" where
  "cursor_of it = \<lparr>cur_updated_at = updated_at it, cur_id = env_id (envelope it)\<rparr>"

definition page_of :: "16 word \<Rightarrow> work_item list \<Rightarrow> 64 word \<Rightarrow> work_page" where
  "page_of limit items total_size =
     (let has_more = unat limit < length items;
          kept = (if has_more then take (unat limit) items else items)
      in \<lparr>pg_items = kept,
          pg_next_cursor =
            (if has_more then (if kept = [] then None else Some (cursor_of (last kept))) else None),
          pg_total_size = total_size\<rparr>)"

definition list_scoped ::
  "codec \<Rightarrow> work_scope \<Rightarrow> work_cursor option \<Rightarrow> 16 word \<Rightarrow> work_page work_op" where
  "list_scoped C sc cursor limit =
     (if limit = 0 \<or> MAX_WORK_PAGE_SIZE < unat limit
      then throw (InvalidEnvelope InvalidPageLimit)
      else
        bnd (in_connection (query (\<lambda>rows.
          (query_stored_page C rows sc cursor (unat limit + 1), count_stored_scope rows sc)))) (\<lambda>(rows, n).
        bnd (lift_sum (collect_items C rows)) (\<lambda>items.
        bnd (lift_sum (some_or StoredDataInvalid (u64_try_from n))) (\<lambda>total_size.
        ret (page_of limit items total_size)))))"

section \<open>Cancellation of one item\<close>

definition cancel_tx ::
  "codec \<Rightarrow> work_scope \<Rightarrow> string \<Rightarrow> string \<Rightarrow> work_cancel_outcome work_op" where
  "cancel_tx C sc corr now_text =
     bnd (query (\<lambda>rows. query_stored_by_scope rows sc corr)) (\<lambda>rows.
     case rows of
       [] \<Rightarrow> ret NotFoundOutcome
     | [stored] \<Rightarrow>
         (case try_into_item C stored of
            Inl _ \<Rightarrow> throw StorageUnavailable
          | Inr item \<Rightarrow>
              if status item = WPending \<or> status item = WLeased then
                bnd (update_where (cancelable sc corr (env_id (envelope item)))
                  (set_terminal ''canceled'' now_text)) (\<lambda>changed.
                if changed \<noteq> 1 then throw StorageUnavailable
                else
                  bnd (query (\<lambda>rows. query_stored_by_id rows (env_id (envelope item)))) (\<lambda>row.
                  case row of
                    None \<Rightarrow> throw StorageUnavailable
                  | Some r \<Rightarrow>
                      (case try_into_item C r of
                         Inl _ \<Rightarrow> throw StorageUnavailable
                       | Inr updated \<Rightarrow> ret (Canceled updated))))
              else if status item = WCanceled then ret (AlreadyCanceled item)
              else ret (NotCancelable item))
     | _ \<Rightarrow> throw StorageUnavailable)"

definition cancel_scoped ::
  "codec \<Rightarrow> work_scope \<Rightarrow> string \<Rightarrow> nat \<Rightarrow> work_cancel_outcome work_op" where
  "cancel_scoped C sc corr now =
     bnd (lift_sum (validate_optional (Some corr) MAX_CORRELATION_BYTES InvalidCorrelation)) (\<lambda>_.
     in_connection (cancel_tx C sc corr (format_timestamp C now)))"

section \<open>Recovery of expired leases\<close>

definition recover_one ::
  "codec \<Rightarrow> nat \<Rightarrow> string \<Rightarrow> recovery_transition \<Rightarrow> recovery_transition work_op" where
  "recover_one C now i tr =
     (let now_text = format_timestamp C now;
          leased_row = (\<lambda>r. r_id r = i \<and> r_status r = ''leased'');
          dead = (\<lambda>diag code n.
            \<lparr>outcome = (outcome tr)\<lparr>dead_lettered := dead_lettered (outcome tr) + n\<rparr>,
             diagnostics = diagnostics tr @ (if n = 1 then [(diag, DeadLetter code)] else [])\<rparr>)
      in
      bnd (query (\<lambda>rows. query_stored_by_id rows i)) (\<lambda>row.
      case row of
        None \<Rightarrow> ret tr
      | Some stored \<Rightarrow>
          (let diag = transition_diagnostic C stored in
           case try_into_item C stored of
             Inl _ \<Rightarrow>
               bnd (update_where leased_row (set_dead_letter IntegrityViolation now_text)) (\<lambda>n.
               ret (dead diag IntegrityViolation n))
           | Inr item \<Rightarrow>
               if (case lease_expires_at item of None \<Rightarrow> False | Some e \<Rightarrow> now < e) then ret tr
               else if env_max_attempts (envelope item) \<le> attempts item then
                 bnd (update_where leased_row (set_dead_letter AttemptsExhausted now_text)) (\<lambda>n.
                 ret (dead diag AttemptsExhausted n))
               else
                 bnd (update_where leased_row (set_requeued now_text)) (\<lambda>n.
                 ret \<lparr>outcome = (outcome tr)\<lparr>requeued := requeued (outcome tr) + n\<rparr>,
                      diagnostics = diagnostics tr @ (if n = 1 then [(diag, Requeued)] else [])\<rparr>))))"

fun recover_each ::
  "codec \<Rightarrow> nat \<Rightarrow> string list \<Rightarrow> recovery_transition \<Rightarrow> recovery_transition work_op" where
  "recover_each C now [] tr = ret tr"
| "recover_each C now (i # is) tr = bnd (recover_one C now i tr) (recover_each C now is)"

definition recover_expired_in_tx :: "codec \<Rightarrow> string \<Rightarrow> nat \<Rightarrow> recovery_transition work_op" where
  "recover_expired_in_tx C target now =
     bnd (query (\<lambda>rows. map r_id (filter (\<lambda>r. r_target r = target \<and> r_status r = ''leased'') rows)))
       (\<lambda>ids. recover_each C now ids recovery_default)"

definition recover_expired :: "codec \<Rightarrow> string \<Rightarrow> nat \<Rightarrow> recovery_outcome work_op" where
  "recover_expired C target now =
     bnd (lift_sum (validate_routing_value target InvalidTarget)) (\<lambda>_.
     bnd (in_connection (recover_expired_in_tx C target now)) (\<lambda>tr. ret (outcome tr)))"

section \<open>Claiming\<close>

text \<open>
  When the flag of the claim's cancellation fence is first seen set: before anything, on the
  connection before the transaction, at the commit gate, or not while the claim runs. The
  fence itself is the step machine of \<open>Claim_Cancellation\<close>.
\<close>

datatype claim_cancellation = NeverCancelled | CancelledAtStart | CancelledOnConnection | CancelledAtCommit

text \<open>
  What the transaction found: the leased row, what the recovery did, and the diagnostic of a
  candidate whose row does not read.
\<close>

type_synonym claim_found =
  "stored_work_row option \<times> recovery_transition \<times> work_transition_diagnostic option"

definition nothing_found :: claim_found where
  "nothing_found = (None, recovery_default, None)"

definition claim_candidate ::
  "codec \<Rightarrow> string \<Rightarrow> string \<Rightarrow> string \<Rightarrow> string \<Rightarrow> string \<Rightarrow>
   (stored_work_row option \<times> work_transition_diagnostic option) work_op" where
  "claim_candidate C i own tok now_text expiry_text =
     bnd (query (\<lambda>rows. query_stored_by_id rows i)) (\<lambda>candidate.
     let diagnostic = map_option (transition_diagnostic C) candidate;
         valid = (case candidate of None \<Rightarrow> False
           | Some r \<Rightarrow> (case try_into_item C r of Inr _ \<Rightarrow> True | Inl _ \<Rightarrow> False))
     in
     if valid then
       bnd (update_where
         (\<lambda>r. r_id r = i \<and> r_status r = ''pending'' \<and> r_available_at r \<le> now_text)
         (set_leased own tok expiry_text now_text)) (\<lambda>changed.
       if changed = 1
       then bnd (query (\<lambda>rows. query_stored_by_id rows i)) (\<lambda>row. ret (row, None))
       else ret (None, None))
     else
       bnd (update_where (\<lambda>r. r_id r = i \<and> r_status r = ''pending'')
         (set_dead_letter IntegrityViolation now_text)) (\<lambda>_.
       ret (None, diagnostic)))"

definition claim_tx ::
  "codec \<Rightarrow> string \<Rightarrow> string \<Rightarrow> string \<Rightarrow> nat \<Rightarrow> nat \<Rightarrow> claim_found work_op" where
  "claim_tx C target own tok now expires =
     bnd (recover_expired_in_tx C target now) (\<lambda>recovery.
     bnd (query (\<lambda>rows. query_claim_candidate rows target (format_timestamp C now))) (\<lambda>candidate.
     bnd (case candidate of
            None \<Rightarrow> ret (None, None)
          | Some i \<Rightarrow> claim_candidate C i own tok (format_timestamp C now) (format_timestamp C expires))
       (\<lambda>(row, invalid). ret (row, recovery, invalid))))"

text \<open>A transaction that is dropped without a commit rolls back.\<close>

definition rolled_back :: "'a \<Rightarrow> 'a work_op \<Rightarrow> 'a work_op" where
  "rolled_back d m db = (case m db of (Inl e, _) \<Rightarrow> (Inl e, db) | (Inr _, _) \<Rightarrow> (Inr d, db))"

definition claim_next_cancellable ::
  "codec \<Rightarrow> string \<Rightarrow> string \<Rightarrow> string \<Rightarrow> nat \<Rightarrow> duration \<Rightarrow> claim_cancellation \<Rightarrow>
   work_item option work_op" where
  "claim_next_cancellable C uuid target own now d cancellation =
     (if cancellation = CancelledAtStart then ret None
      else
        bnd (lift_sum (validate_routing_value target InvalidTarget)) (\<lambda>_.
        bnd (lift_sum (validate_lease C own now d)) (\<lambda>expires.
        bnd (in_connection (
          if cancellation = CancelledOnConnection then ret nothing_found
          else if cancellation = CancelledAtCommit
          then rolled_back nothing_found (claim_tx C target own (''lease-'' @ uuid) now expires)
          else claim_tx C target own (''lease-'' @ uuid) now expires)) (\<lambda>(row, recovery, invalid).
        if invalid \<noteq> None then throw StoredDataInvalid
        else lift_sum (transpose_map (try_into_item C) row)))))"

definition claim_next ::
  "codec \<Rightarrow> string \<Rightarrow> string \<Rightarrow> string \<Rightarrow> nat \<Rightarrow> duration \<Rightarrow> work_item option work_op" where
  "claim_next C uuid target own now d = claim_next_cancellable C uuid target own now d NeverCancelled"

section \<open>Renewing, completing, failing a lease\<close>

definition renew_lease ::
  "codec \<Rightarrow> string \<Rightarrow> string \<Rightarrow> string \<Rightarrow> nat \<Rightarrow> duration \<Rightarrow> nat work_op" where
  "renew_lease C i own tok now d =
     bnd (lift_sum (validate_lease C own now d)) (\<lambda>expires.
     let now_text = format_timestamp C now in
     bnd (in_connection (
       update_where (holds_lease i own tok now_text)
         (set_renewed (format_timestamp C expires) now_text))) (\<lambda>n.
     if n = 0 then throw StaleLease else ret expires))"

definition complete :: "codec \<Rightarrow> string \<Rightarrow> string \<Rightarrow> string \<Rightarrow> nat \<Rightarrow> unit work_op" where
  "complete C i own tok now =
     (let now_text = format_timestamp C now in
      bnd (in_connection (
        update_where (holds_lease i own tok now_text) (set_terminal ''completed'' now_text))) (\<lambda>n.
      if n = 0 then throw StaleLease else ret ()))"

definition fail_tx ::
  "codec \<Rightarrow> string \<Rightarrow> string \<Rightarrow> string \<Rightarrow> nat \<Rightarrow> work_failure_code \<Rightarrow> bool \<Rightarrow>
   work_status option work_op" where
  "fail_tx C i own tok now code retryable =
     (let now_text = format_timestamp C now in
      bnd (query (find (holds_lease i own tok now_text))) (\<lambda>budget.
      case budget of
        None \<Rightarrow> ret None
      | Some r \<Rightarrow>
          (let should_retry = (retryable \<and> r_attempts r < r_max_attempts r);
               st = (if should_retry then WPending else WDeadLetter);
               delay = retry_delay (word_of_int (r_attempts r));
               due = now + ns_of_secs (unat delay) in
           bnd (if should_retry then
                  (if ts_max C < due then throw WorkPanic else ret (format_timestamp C due))
                else ret now_text) (\<lambda>available.
           bnd (update_where (holds_lease i own tok now_text)
             (set_failed st available code now_text
               (if should_retry then None else Some now_text))) (\<lambda>n.
           ret (if n = 1 then Some st else None))))))"

definition work_fail ::
  "codec \<Rightarrow> string \<Rightarrow> string \<Rightarrow> string \<Rightarrow> nat \<Rightarrow> work_failure_code \<Rightarrow> bool \<Rightarrow> work_status work_op" where
  "work_fail C i own tok now code retryable =
     bnd (in_connection (fail_tx C i own tok now code retryable)) (\<lambda>result. ok_or StaleLease result)"

end
