(* ===== verification/Work_Steps.thy ===== *)
theory Work_Steps
  imports Work_Store
begin

text \<open>
  The abstract specification of the durable work table: which rows read, the state machine one
  row goes through (\<open>row_step\<close>), and the table steps the operations of the store refine
  (\<open>table_step\<close>). The invariants of the table are proved once, on the steps.
\<close>

section \<open>Rows that read\<close>

definition readable :: "codec \<Rightarrow> stored_work_row \<Rightarrow> bool" where
  "readable C r \<longleftrightarrow> (\<exists>it. try_into_item C r = Inr it)"

text \<open>What no update of the store touches, and what the updates are about.\<close>

definition fixed_part_ok :: "codec \<Rightarrow> stored_work_row \<Rightarrow> bool" where
  "fixed_part_ok C r \<longleftrightarrow>
     r_envelope_version r = 1 \<and> - (2 ^ 15) \<le> r_priority r \<and> r_priority r < 2 ^ 15 \<and>
     1 \<le> r_max_attempts r \<and> r_max_attempts r \<le> 20 \<and>
     length (r_payload_json r) \<le> MAX_PAYLOAD_BYTES \<and>
     (\<exists>pl. json_from_str C (r_payload_json r) = Some pl \<and>
        length (json_to_string C pl) \<le> MAX_PAYLOAD_BYTES) \<and>
     parse_timestamp C (r_created_at r) \<noteq> None \<and>
     (\<forall>v \<in> {r_kind r, r_target r, r_source r, r_node_id r, r_actor_id r, r_session_id r,
        r_execution_id r}. v \<noteq> [] \<and> length v \<le> 128) \<and>
     (\<forall>v. r_correlation_id r = Some v \<longrightarrow> v \<noteq> [] \<and> length v \<le> MAX_CORRELATION_BYTES) \<and>
     (\<forall>v. r_dedupe_key r = Some v \<longrightarrow> v \<noteq> [] \<and> length v \<le> MAX_DEDUPE_BYTES)"

definition lease_name_ok :: "string option \<Rightarrow> bool" where
  "lease_name_ok v \<longleftrightarrow> (\<exists>w. v = Some w \<and> w \<noteq> [] \<and> length w \<le> MAX_ROUTING_BYTES)"

definition state_part_ok :: "stored_work_row \<Rightarrow> bool" where
  "state_part_ok r \<longleftrightarrow>
     (r_status r = ''pending'' \<and> r_lease_owner r = None \<and> r_lease_token r = None \<and>
        r_lease_expires_at r = None \<and> r_completed_at r = None) \<or>
     (r_status r = ''leased'' \<and> lease_name_ok (r_lease_owner r) \<and> lease_name_ok (r_lease_token r) \<and>
        r_lease_expires_at r \<noteq> None \<and> r_completed_at r = None) \<or>
     (r_status r \<in> {''completed'', ''dead_letter'', ''canceled''} \<and> r_lease_owner r = None \<and>
        r_lease_token r = None \<and> r_lease_expires_at r = None \<and> r_completed_at r \<noteq> None)"

definition moving_part_ok :: "codec \<Rightarrow> stored_work_row \<Rightarrow> bool" where
  "moving_part_ok C r \<longleftrightarrow>
     0 \<le> r_attempts r \<and> r_attempts r \<le> r_max_attempts r \<and>
     parse_timestamp C (r_available_at r) \<noteq> None \<and> parse_timestamp C (r_updated_at r) \<noteq> None \<and>
     (\<forall>v. r_lease_expires_at r = Some v \<longrightarrow> parse_timestamp C v \<noteq> None) \<and>
     (\<forall>v. r_completed_at r = Some v \<longrightarrow> parse_timestamp C v \<noteq> None) \<and>
     state_part_ok r \<and>
     (\<forall>v. r_last_failure_code r = Some v \<longrightarrow> (\<exists>code. v = work_failure_as_str code))"

lemma invalid_stored_Inr [simp]: "invalid_stored r = Inr x \<longleftrightarrow> r = Inr x"
  by (cases r) (auto simp: invalid_stored_def)

lemma invalid_stored_simp [simp]: "invalid_stored (Inr x) = Inr x"
  by (simp add: invalid_stored_def)

lemma parse_ts_Some: "parse_timestamp C v = Some t \<Longrightarrow> parse_ts C v = Inr t"
  by (simp add: parse_ts_def)

lemma transpose_map_Inr:
  "transpose_map f x = Inr y \<longleftrightarrow>
     (x = None \<and> y = None) \<or> (\<exists>v w. x = Some v \<and> f v = Inr w \<and> y = Some w)"
  by (cases x) (auto simp: transpose_map_def sbind_eq_Inr)

lemma transpose_map_simps [simp]:
  "transpose_map f None = Inr None"
  "f v = Inr w \<Longrightarrow> transpose_map f (Some v) = Inr (Some w)"
  by (simp_all add: transpose_map_def)

lemma parse_ts_Inr [simp]: "parse_ts C v = Inr t \<longleftrightarrow> parse_timestamp C v = Some t"
  by (simp add: parse_ts_def)

lemma work_failure_parse_Inr: "work_failure_parse v = Inr code \<longleftrightarrow> v = work_failure_as_str code"
  by (cases code) (auto simp: work_failure_parse_def split: if_splits)

lemma validate_draft_Inr:
  "validate_draft C d = Inr u \<longleftrightarrow>
     d_version d = 1 \<and> d_kind d \<noteq> [] \<and> length (d_kind d) \<le> 128 \<and>
     d_target d \<noteq> [] \<and> length (d_target d) \<le> 128 \<and>
     length (json_to_string C (d_payload d)) \<le> MAX_PAYLOAD_BYTES \<and>
     (\<forall>x. d_correlation_id d = Some x \<longrightarrow> x \<noteq> [] \<and> length x \<le> MAX_CORRELATION_BYTES) \<and>
     (\<forall>x. d_dedupe_key d = Some x \<longrightarrow> x \<noteq> [] \<and> length x \<le> MAX_DEDUPE_BYTES) \<and>
     1 \<le> d_max_attempts d \<and> d_max_attempts d \<le> 20"
  by (auto simp: validate_draft_def sbind_eq_Inr WORK_ENVELOPE_VERSION_def MAX_ROUTING_BYTES_def
      MIN_ATTEMPTS_def MAX_ATTEMPTS_def)

lemma validate_authorization_Inr:
  "validate_authorization a = Inr u \<longleftrightarrow>
     auth_source a \<noteq> [] \<and> length (auth_source a) \<le> 128 \<and>
     (\<forall>v \<in> set (provenance_ids (auth_provenance a)). v \<noteq> [] \<and> length v \<le> 128)"
  by (auto simp: validate_authorization_def sbind_eq_Inr MAX_ROUTING_BYTES_def
      MAX_PROVENANCE_ID_BYTES_def list_ex_iff linorder_not_less [symmetric] split: if_splits)

text \<open>The reading of a row, inverted: each field of the item and what the row holds for it.\<close>

lemma try_into_itemD:
  assumes "try_into_item C r = Inr it"
  shows "env_id (envelope it) = r_id r" and "r_status r = work_status_as_str (status it)"
    and "r_attempts r = uint (attempts it)"
    and "r_max_attempts r = uint (env_max_attempts (envelope it))"
    and "lease_owner it = r_lease_owner r" and "lease_token it = r_lease_token r"
    and "transpose_map (parse_ts C) (r_lease_expires_at r) = Inr (lease_expires_at it)"
    and "parse_timestamp C (r_updated_at r) = Some (updated_at it)"
    and "parse_timestamp C (r_available_at r) = Some (available_at it)"
    and "env_target (envelope it) = r_target r"
  using assms
  by (auto simp: try_into_item_def sbind_eq_Inr Let_def work_status_parse_Inr try_from_Some
      split: if_splits)

lemma try_into_item_fixed: "try_into_item C r = Inr it \<Longrightarrow> fixed_part_ok C r"
  using sint_ge [of "env_priority (envelope it)"] sint_lt [of "env_priority (envelope it)"]
  apply (clarsimp simp: try_into_item_def sbind_eq_Inr Let_def validate_draft_Inr try_from_Some
      validate_authorization_Inr provenance_ids_def row_provenance_def split: if_split_asm)
  apply (auto simp: fixed_part_ok_def word_le_def)
  done

lemma stored_state_part:
  "work_status_parse (r_status r) = Inr st \<Longrightarrow>
   (stored_state_is_consistent st (r_lease_owner r) (r_lease_token r) expires completed \<and>
     (r_lease_expires_at r = None \<longleftrightarrow> expires = None) \<and> (r_completed_at r = None \<longleftrightarrow> completed = None)) =
   (state_part_ok r \<and>
     (r_lease_expires_at r = None \<longleftrightarrow> expires = None) \<and> (r_completed_at r = None \<longleftrightarrow> completed = None))"
  by (cases st) (auto simp: stored_state_is_consistent_def state_part_ok_def lease_name_ok_def
      work_status_parse_Inr split: option.splits)

lemma try_into_item_moving: "try_into_item C r = Inr it \<Longrightarrow> moving_part_ok C r"
  apply (clarsimp simp: try_into_item_def sbind_eq_Inr Let_def try_from_Some split: if_split_asm)
  subgoal for ver prio att mx pl created available expires completed st code updated
    using stored_state_part [of r st expires completed]
    by (auto simp: moving_part_ok_def word_less_def transpose_map_Inr work_failure_parse_Inr)
  done

lemma readableI:
  assumes f: "fixed_part_ok C r" and m: "moving_part_ok C r"
  shows "readable C r"
proof -
  from f obtain pl created where fx: "r_envelope_version r = 1"
      "json_from_str C (r_payload_json r) = Some pl" "length (json_to_string C pl) \<le> MAX_PAYLOAD_BYTES"
      "parse_timestamp C (r_created_at r) = Some created"
    by (auto simp: fixed_part_ok_def)
  obtain prio :: "16 word" where prio: "r_priority r = sint prio"
    using f i16_try_from_Some [of "r_priority r" "word_of_int (r_priority r)"]
    by (auto simp: fixed_part_ok_def i16_try_from_def)
  obtain att :: "8 word" where att: "r_attempts r = uint att"
    using f m u8_try_from_Some [of "r_attempts r" "word_of_int (r_attempts r)"]
    by (auto simp: fixed_part_ok_def moving_part_ok_def u8_try_from_def)
  obtain mx :: "8 word" where mx: "r_max_attempts r = uint mx"
    using f u8_try_from_Some [of "r_max_attempts r" "word_of_int (r_max_attempts r)"]
    by (auto simp: fixed_part_ok_def u8_try_from_def)
  obtain st where st: "r_status r = work_status_as_str st"
    using m by (auto simp: moving_part_ok_def state_part_ok_def) (metis work_status_as_str.simps)+
  obtain available updated where ts: "parse_timestamp C (r_available_at r) = Some available"
      "parse_timestamp C (r_updated_at r) = Some updated"
    using m by (auto simp: moving_part_ok_def)
  obtain expires where ex: "transpose_map (parse_ts C) (r_lease_expires_at r) = Inr expires"
      "r_lease_expires_at r = None \<longleftrightarrow> expires = None"
    using m by (cases "r_lease_expires_at r") (auto simp: moving_part_ok_def transpose_map_Inr)
  obtain completed where co: "transpose_map (parse_ts C) (r_completed_at r) = Inr completed"
      "r_completed_at r = None \<longleftrightarrow> completed = None"
    using m by (cases "r_completed_at r") (auto simp: moving_part_ok_def transpose_map_Inr)
  obtain code where code: "transpose_map work_failure_parse (r_last_failure_code r) = Inr code"
    using m by (cases "r_last_failure_code r") (auto simp: moving_part_ok_def transpose_map_Inr)
  have state: "stored_state_is_consistent st (r_lease_owner r) (r_lease_token r) expires completed"
    using m ex(2) co(2) st stored_state_part [of r st expires completed]
    by (auto simp: moving_part_ok_def)
  have bounds: "(1 :: 8 word) \<le> mx" "mx \<le> 20" "\<not> mx < att" "u16_try_from 1 = Some 1"
    using f m by (auto simp: u16_try_from_def fixed_part_ok_def moving_part_ok_def mx att
        word_le_def word_less_def)
  have draft: "validate_draft C \<lparr>d_version = 1, d_kind = r_kind r, d_target = r_target r,
      d_payload = pl, d_correlation_id = r_correlation_id r, d_dedupe_key = r_dedupe_key r,
      d_priority = prio, d_max_attempts = mx\<rparr> = Inr ()"
    using f fx bounds by (auto simp: validate_draft_Inr fixed_part_ok_def)
  have auth: "validate_authorization
      \<lparr>auth_source = r_source r, auth_provenance = row_provenance r\<rparr> = Inr ()"
    using f by (auto simp: validate_authorization_Inr provenance_ids_def row_provenance_def
        fixed_part_ok_def)
  have "length (r_payload_json r) \<le> MAX_PAYLOAD_BYTES"
    using f by (simp add: fixed_part_ok_def)
  then show ?thesis
    by (simp add: readable_def try_into_item_def fx prio att mx st ex(1) co(1) code state
        draft auth bounds parse_ts_Some [OF fx(4)] parse_ts_Some [OF ts(1)] parse_ts_Some [OF ts(2)])
qed

theorem readable_iff: "readable C r \<longleftrightarrow> fixed_part_ok C r \<and> moving_part_ok C r"
  using try_into_item_fixed try_into_item_moving readableI by (auto simp: readable_def)

section \<open>The life of a row\<close>

text \<open>
  One constructor per \<open>UPDATE\<close> of the store, with the guard the code has established by the time
  it runs. The texts written are those of instants within the four-digit years.
\<close>

definition text_ok :: "codec \<Rightarrow> string \<Rightarrow> bool" where
  "text_ok C v \<longleftrightarrow> (\<exists>t \<le> ts_text_max C. v = format_timestamp C t)"

lemma text_ok_parses: "rfc3339_text C \<Longrightarrow> text_ok C v \<Longrightarrow> \<exists>t. parse_timestamp C v = Some t"
  by (auto simp: text_ok_def rfc3339_parse)

definition name_ok :: "string \<Rightarrow> bool" where
  "name_ok v \<longleftrightarrow> v \<noteq> [] \<and> length v \<le> MAX_ROUTING_BYTES"

definition live :: "stored_work_row \<Rightarrow> bool" where
  "live r \<longleftrightarrow> r_status r = ''pending'' \<or> r_status r = ''leased''"

inductive row_step :: "codec \<Rightarrow> stored_work_row \<Rightarrow> stored_work_row \<Rightarrow> bool" for C where
  lease: "r_status r = ''pending'' \<Longrightarrow> r_attempts r < r_max_attempts r \<Longrightarrow> readable C r \<Longrightarrow>
    text_ok C now \<Longrightarrow> text_ok C expiry \<Longrightarrow> name_ok own \<Longrightarrow> name_ok tok \<Longrightarrow>
    row_step C r (set_leased own tok expiry now r)"
| renew: "r_status r = ''leased'' \<Longrightarrow> text_ok C now \<Longrightarrow> text_ok C expiry \<Longrightarrow>
    row_step C r (set_renewed expiry now r)"
| finish: "r_status r = ''leased'' \<Longrightarrow> text_ok C now \<Longrightarrow>
    row_step C r (set_terminal ''completed'' now r)"
| cancel: "live r \<Longrightarrow> text_ok C now \<Longrightarrow> row_step C r (set_terminal ''canceled'' now r)"
| requeue: "r_status r = ''leased'' \<Longrightarrow> readable C r \<Longrightarrow> r_attempts r < r_max_attempts r \<Longrightarrow>
    text_ok C now \<Longrightarrow> row_step C r (set_requeued now r)"
| retry: "r_status r = ''leased'' \<Longrightarrow> r_attempts r < r_max_attempts r \<Longrightarrow>
    text_ok C now \<Longrightarrow> text_ok C due \<Longrightarrow>
    row_step C r (set_failed WPending due code now None r)"
| give_up: "r_status r = ''leased'' \<Longrightarrow> text_ok C now \<Longrightarrow>
    row_step C r (set_failed WDeadLetter now code now (Some now) r)"
| bury: "live r \<Longrightarrow> text_ok C now \<Longrightarrow>
    readable C r \<longrightarrow> code = AttemptsExhausted \<and> r_max_attempts r \<le> r_attempts r \<Longrightarrow>
    row_step C r (set_dead_letter code now r)"

inductive_cases row_stepE: "row_step C r q"

text \<open>An envelope that has been through \<open>WorkEnvelope::authorize\<close>.\<close>

definition envelope_ok :: "codec \<Rightarrow> work_envelope \<Rightarrow> bool" where
  "envelope_ok C env \<longleftrightarrow>
     validate_draft C \<lparr>d_version = env_version env, d_kind = env_kind env,
       d_target = env_target env, d_payload = env_payload env,
       d_correlation_id = env_correlation_id env, d_dedupe_key = env_dedupe_key env,
       d_priority = env_priority env, d_max_attempts = env_max_attempts env\<rparr> = Inr () \<and>
     validate_authorization \<lparr>auth_source = env_source env, auth_provenance = env_provenance env\<rparr>
       = Inr ()"

lemma authorize_ok: "work_envelope_authorize C uuid d policy now = Inr env \<Longrightarrow> envelope_ok C env"
  by (auto simp: work_envelope_authorize_def sbind_eq_Inr envelope_ok_def validate_draft_Inr
      validate_authorization_Inr split: sum.splits)

text \<open>
  The payload of an envelope reads back from its JSON text, and its time of creation is in the
  four-digit years: what a row built from it needs to read.
\<close>

definition storable :: "codec \<Rightarrow> work_envelope \<Rightarrow> bool" where
  "storable C env \<longleftrightarrow> envelope_ok C env \<and>
     json_from_str C (json_to_string C (env_payload env)) = Some (env_payload env) \<and>
     env_created_at env \<le> ts_text_max C"

inductive table_step ::
  "codec \<Rightarrow> stored_work_row list \<Rightarrow> stored_work_row list \<Rightarrow> bool" for C where
  insert: "storable C env \<Longrightarrow> \<not> list_ex (work_row_conflicts (row_of_envelope C env)) rows \<Longrightarrow>
    table_step C rows (rows @ [row_of_envelope C env])"
| update: "list_all2 (\<lambda>r q. q = r \<or> row_step C r q) rows rows' \<Longrightarrow> table_step C rows rows'"

abbreviation table_steps :: "codec \<Rightarrow> stored_work_row list \<Rightarrow> stored_work_row list \<Rightarrow> bool" where
  "table_steps C \<equiv> (table_step C)\<^sup>*\<^sup>*"

lemma table_step_sql_update:
  assumes "\<And>r. r \<in> set rows \<Longrightarrow> p r \<Longrightarrow> row_step C r (f r)"
  shows "table_step C rows (sql_update p f rows)"
  using assms by (intro table_step.update) (auto simp: sql_update_def list_all2_conv_all_nth)

section \<open>Invariants of the table\<close>

text \<open>
  Every row reads, a pending row has attempts left, the time of the last update is one the
  store printed, and no two rows share an id or a dedupe key of one source.
\<close>

definition row_ok :: "codec \<Rightarrow> stored_work_row \<Rightarrow> bool" where
  "row_ok C r \<longleftrightarrow> readable C r \<and> text_ok C (r_updated_at r) \<and>
     (r_status r = ''pending'' \<longrightarrow> r_attempts r < r_max_attempts r)"

definition conflict_free :: "stored_work_row list \<Rightarrow> bool" where
  "conflict_free rows \<longleftrightarrow> sorted_wrt (\<lambda>q r. \<not> work_row_conflicts r q) rows"

definition table_ok :: "codec \<Rightarrow> stored_work_row list \<Rightarrow> bool" where
  "table_ok C rows \<longleftrightarrow> conflict_free rows \<and> (\<forall>r \<in> set rows. row_ok C r)"

lemma conflict_free_ids: "conflict_free rows \<Longrightarrow> unique_key r_id rows"
  by (induction rows) (auto simp: conflict_free_def work_row_conflicts_def image_iff)

lemma conflict_free_same:
  "conflict_free rows \<Longrightarrow> q \<in> set rows \<Longrightarrow> r \<in> set rows \<Longrightarrow> work_row_conflicts q r \<Longrightarrow> q = r"
proof (induction rows)
  case (Cons a rows)
  have sym: "work_row_conflicts x y = work_row_conflicts y x" for x y
    by (auto simp: work_row_conflicts_def)
  from Cons show ?case by (auto simp: conflict_free_def sym)
qed simp

lemma fixed_part_row_step: "row_step C r q \<Longrightarrow> fixed_part_ok C q = fixed_part_ok C r"
  by (erule row_stepE) (simp_all add: fixed_part_ok_def row_updates)

lemma row_step_same:
  assumes "row_step C r q"
  shows "r_id q = r_id r" and "r_source q = r_source r" and "r_dedupe_key q = r_dedupe_key r"
    and "r_max_attempts q = r_max_attempts r" and "r_target q = r_target r"
    and "r_created_at q = r_created_at r" and "r_priority q = r_priority r"
    and "r_kind q = r_kind r" and "r_actor_id q = r_actor_id r"
  using assms by (auto elim!: row_stepE simp: row_updates)

lemma row_step_live: "row_step C r q \<Longrightarrow> live r"
  by (erule row_stepE) (auto simp: live_def)

lemma row_step_attempts:
  "row_step C r q \<Longrightarrow> r_attempts q = r_attempts r + (if r_status r = ''pending'' \<and> r_status q = ''leased'' then 1 else 0)"
  by (erule row_stepE) (auto simp: row_updates live_def)

lemma moving_part_row_step:
  assumes C: "rfc3339_text C" and step: "row_step C r q" and r: "fixed_part_ok C r" "moving_part_ok C r"
  shows "moving_part_ok C q"
  using step r
  by (cases rule: row_step.cases)
    (auto simp: moving_part_ok_def state_part_ok_def lease_name_ok_def row_updates
      name_ok_def live_def fixed_part_ok_def dest: text_ok_parses [OF C])

lemma row_ok_step:
  assumes C: "rfc3339_text C" and step: "row_step C r q" and r: "row_ok C r"
  shows "row_ok C q"
proof -
  have "readable C q"
    using step r fixed_part_row_step moving_part_row_step [OF C step] by (simp add: row_ok_def readable_iff)
  moreover have "text_ok C (r_updated_at q)"
    using step by (cases rule: row_step.cases) (auto simp: row_updates)
  moreover have "r_attempts q < r_max_attempts q" if "r_status q = ''pending''"
    using step that by (cases rule: row_step.cases) (auto simp: row_updates live_def)
  ultimately show ?thesis by (simp add: row_ok_def)
qed

text \<open>A new row reads.\<close>

lemma row_of_envelope_ok:
  assumes C: "rfc3339_text C" and env: "storable C env"
  shows "row_ok C (row_of_envelope C env)"
proof -
  have d: "validate_draft C \<lparr>d_version = env_version env, d_kind = env_kind env,
       d_target = env_target env, d_payload = env_payload env,
       d_correlation_id = env_correlation_id env, d_dedupe_key = env_dedupe_key env,
       d_priority = env_priority env, d_max_attempts = env_max_attempts env\<rparr> = Inr ()"
    and a: "validate_authorization
       \<lparr>auth_source = env_source env, auth_provenance = env_provenance env\<rparr> = Inr ()"
    and j: "json_from_str C (json_to_string C (env_payload env)) = Some (env_payload env)"
    and t: "parse_timestamp C (format_timestamp C (env_created_at env)) = Some (env_created_at env)"
    using env rfc3339_parse [OF C] by (auto simp: storable_def envelope_ok_def)
  have f: "fixed_part_ok C (row_of_envelope C env)"
    using d a j t sint_ge [of "env_priority env"] sint_lt [of "env_priority env"]
    by (simp add: fixed_part_ok_def row_of_envelope_def validate_draft_Inr
        validate_authorization_Inr provenance_ids_def word_le_def)
  have m: "moving_part_ok C (row_of_envelope C env)" "0 < uint (env_max_attempts env)"
    using t d by (simp_all add: moving_part_ok_def row_of_envelope_def state_part_ok_def
        validate_draft_Inr word_le_def)
  from readableI [OF f m(1)] m(2) env show ?thesis
    by (auto simp: row_ok_def row_of_envelope_def text_ok_def storable_def)
qed

section \<open>The invariants hold along the steps\<close>

lemma conflict_free_moves:
  assumes "list_all2 (\<lambda>r q. q = r \<or> row_step C r q) rows rows'" and "conflict_free rows"
  shows "conflict_free rows'"
proof -
  have "work_row_conflicts (rows' ! i) (rows' ! j) = work_row_conflicts (rows ! i) (rows ! j)"
    if "i < length rows" "j < length rows" for i j
  proof -
    have same: "r_id (rows' ! n) = r_id (rows ! n) \<and> r_source (rows' ! n) = r_source (rows ! n) \<and>
        r_dedupe_key (rows' ! n) = r_dedupe_key (rows ! n)" if "n < length rows" for n
    proof -
      have "rows' ! n = rows ! n \<or> row_step C (rows ! n) (rows' ! n)"
        using that assms(1) by (auto simp: list_all2_conv_all_nth)
      then show ?thesis by (elim disjE) (simp_all add: row_step_same)
    qed
    from same [OF \<open>i < length rows\<close>] same [OF \<open>j < length rows\<close>] show ?thesis
      by (simp add: work_row_conflicts_def)
  qed
  moreover have "length rows' = length rows" using assms(1) by (simp add: list_all2_lengthD)
  ultimately show ?thesis using assms(2)
    by (simp add: conflict_free_def sorted_wrt_iff_nth_less)
qed

lemma conflict_free_step: "table_step C rows rows' \<Longrightarrow> conflict_free rows \<Longrightarrow> conflict_free rows'"
proof (induction rule: table_step.induct)
  case (insert env rows)
  then show ?case by (auto simp: conflict_free_def sorted_wrt_append list_ex_iff)
next
  case (update rows rows')
  then show ?case by (blast intro: conflict_free_moves)
qed

lemma table_ok_step:
  assumes C: "rfc3339_text C" and step: "table_step C rows rows'" and ok: "table_ok C rows"
  shows "table_ok C rows'"
proof -
  have "\<forall>r \<in> set rows'. row_ok C r"
    using step
  proof cases
    case (insert env)
    with ok row_of_envelope_ok [OF C] show ?thesis by (auto simp: table_ok_def)
  next
    case update
    show ?thesis
    proof
      fix q assume "q \<in> set rows'"
      with update obtain r where "r \<in> set rows" "q = r \<or> row_step C r q"
        by (auto dest: list_all2_right)
      with ok row_ok_step [OF C] show "row_ok C q" by (auto simp: table_ok_def)
    qed
  qed
  with conflict_free_step [OF step] ok show ?thesis by (simp add: table_ok_def)
qed

lemma conflict_free_steps: "table_steps C rows rows' \<Longrightarrow> conflict_free rows \<Longrightarrow> conflict_free rows'"
  by (induction rule: rtranclp_induct) (auto intro: conflict_free_step)

lemma table_ok_steps:
  "rfc3339_text C \<Longrightarrow> table_steps C rows rows' \<Longrightarrow> table_ok C rows \<Longrightarrow> table_ok C rows'"
  by (rotate_tac 1, induction rule: rtranclp_induct) (auto intro: table_ok_step)

text \<open>No row disappears: it stays itself or goes through steps of its own.\<close>

lemma table_step_tracks:
  "table_step C rows rows' \<Longrightarrow> r \<in> set rows \<Longrightarrow>
   \<exists>q \<in> set rows'. q = r \<or> row_step C r q"
  by (induction rule: table_step.induct) (auto dest: list_all2_left)

lemma table_steps_track:
  assumes "table_steps C rows rows'" and "r \<in> set rows"
  shows "\<exists>q \<in> set rows'. (row_step C)\<^sup>*\<^sup>* r q"
  using assms
proof (induction rule: rtranclp_induct)
  case (step y z)
  then obtain q where "q \<in> set y" "(row_step C)\<^sup>*\<^sup>* r q" by auto
  with table_step_tracks [OF step(2)] show ?case by (metis rtranclp.rtrancl_into_rtrancl)
qed auto

lemma row_steps_same:
  assumes "(row_step C)\<^sup>*\<^sup>* r q"
  shows "r_id q = r_id r" and "r_max_attempts q = r_max_attempts r" and "r_attempts r \<le> r_attempts q"
  using assms by (induction rule: rtranclp_induct) (auto dest: row_step_same row_step_attempts)

text \<open>A terminal row has no step.\<close>

lemma terminal_row_steps:
  assumes "(row_step C)\<^sup>*\<^sup>* r q" and "\<not> live r"
  shows "q = r"
  using assms by (induction rule: rtranclp_induct) (auto dest: row_step_live)

end
