(* ===== verification/Work_Recovery.thy ===== *)
theory Work_Recovery
  imports Work_Steps
begin

text \<open>
  The loop that recovers expired leases re-reads every leased row by its id and writes it
  back. Here it is equal to one pass over the table that disposes of each row on its own.
\<close>

section \<open>Evaluation of statements\<close>

lemma bnd_query [op_simps]: "bnd (query q) f db = f (q (work_rows db)) db"
  by (simp add: bnd_def query_def)

lemma bnd_update [op_simps]:
  "bnd (update_where p u) f db =
     f (sql_changes p (work_rows db)) (db\<lparr>work_rows := sql_update p u (work_rows db)\<rparr>)"
  by (simp add: bnd_def update_where_def execute_def)

lemma bnd_execute [op_simps]:
  "bnd (execute u) f db =
     f (fst (u (work_rows db))) (db\<lparr>work_rows := snd (u (work_rows db))\<rparr>)"
  by (simp add: bnd_def execute_def split: prod.split)

lemma query_apply [op_simps]: "query q db = (Inr (q (work_rows db)), db)"
  by (simp add: query_def)

lemma update_apply [op_simps]:
  "update_where p u db =
     (Inr (sql_changes p (work_rows db)), db\<lparr>work_rows := sql_update p u (work_rows db)\<rparr>)"
  by (simp add: update_where_def execute_def)

lemma bnd_connection:
  "bnd (in_connection f) g db =
     (if call_ok db
      then (case f (after_call db) of
              (Inl e, _) \<Rightarrow> (Inl e, after_call db)
            | (Inr x, t) \<Rightarrow> g x t)
      else (Inl StorageUnavailable, after_call db))"
  by (auto simp: bnd_def in_connection_def with_connection_apply split: prod.splits sum.splits)

lemma work_rows_after_call [simp]: "work_rows (after_call db) = work_rows db"
  by (simp add: after_call_def)

section \<open>One pass over the table\<close>

definition disposition :: "codec \<Rightarrow> nat \<Rightarrow> stored_work_row \<Rightarrow> recovery_disposition option" where
  "disposition C now r =
     (if r_status r \<noteq> ''leased'' then None
      else case try_into_item C r of
          Inl _ \<Rightarrow> Some (DeadLetter IntegrityViolation)
        | Inr it \<Rightarrow>
            if (case lease_expires_at it of None \<Rightarrow> False | Some e \<Rightarrow> now < e) then None
            else if env_max_attempts (envelope it) \<le> attempts it
            then Some (DeadLetter AttemptsExhausted) else Some Requeued)"

definition recover_row :: "codec \<Rightarrow> nat \<Rightarrow> stored_work_row \<Rightarrow> stored_work_row" where
  "recover_row C now r =
     (case disposition C now r of
        None \<Rightarrow> r
      | Some Requeued \<Rightarrow> set_requeued (format_timestamp C now) r
      | Some (DeadLetter code) \<Rightarrow> set_dead_letter code (format_timestamp C now) r)"

definition note_recovery ::
  "codec \<Rightarrow> nat \<Rightarrow> stored_work_row \<Rightarrow> recovery_transition \<Rightarrow> recovery_transition" where
  "note_recovery C now r tr =
     (case disposition C now r of
        None \<Rightarrow> tr
      | Some d \<Rightarrow>
          \<lparr>outcome = (case d of
             Requeued \<Rightarrow> (outcome tr)\<lparr>requeued := requeued (outcome tr) + 1\<rparr>
           | DeadLetter _ \<Rightarrow> (outcome tr)\<lparr>dead_lettered := dead_lettered (outcome tr) + 1\<rparr>),
           diagnostics = diagnostics tr @ [(transition_diagnostic C r, d)]\<rparr>)"

definition recover_table :: "codec \<Rightarrow> string \<Rightarrow> nat \<Rightarrow> stored_work_row list \<Rightarrow> stored_work_row list" where
  "recover_table C target now rows =
     map (\<lambda>r. if r_target r = target then recover_row C now r else r) rows"

definition leased_rows :: "string \<Rightarrow> stored_work_row list \<Rightarrow> stored_work_row list" where
  "leased_rows target rows = filter (\<lambda>r. r_target r = target \<and> r_status r = ''leased'') rows"

lemma recover_row_id [simp]: "r_id (recover_row C now r) = r_id r"
  by (auto simp: recover_row_def row_updates split: option.split recovery_disposition.split)

lemma recover_row_not_leased [simp]: "r_status r \<noteq> ''leased'' \<Longrightarrow> recover_row C now r = r"
  by (simp add: recover_row_def disposition_def)

lemma sql_update_one:
  assumes u: "unique_key k rows" and r: "r \<in> set rows" "k r = i" "p r"
  shows "sql_update (\<lambda>q. k q = i \<and> p q) f rows = map (\<lambda>q. if k q = i then f q else q) rows"
    and "sql_changes (\<lambda>q. k q = i \<and> p q) rows = 1"
proof -
  have "p q" if "q \<in> set rows" "k q = i" for q
    using unique_key_eq [OF u that(1) r(1)] that r(2,3) by simp
  then show "sql_update (\<lambda>q. k q = i \<and> p q) f rows = map (\<lambda>q. if k q = i then f q else q) rows"
    by (auto simp: sql_update_def)
  show "sql_changes (\<lambda>q. k q = i \<and> p q) rows = 1"
    using sql_changes_key [OF u, of i p] find_key_unique [OF u r(1)] r by simp
qed

lemma map_if_id: "(\<And>q. q \<in> set rows \<Longrightarrow> k q = i \<Longrightarrow> f q = q) \<Longrightarrow>
  map (\<lambda>q. if k q = i then f q else q) rows = rows"
  by (induction rows) auto

lemma recover_one_eq:
  assumes u: "unique_key r_id (work_rows db)" and r: "r \<in> set (work_rows db)" "r_id r = i"
    and leased: "r_status r = ''leased''"
  shows "recover_one C now i tr db =
    (Inr (note_recovery C now r tr),
     db\<lparr>work_rows := map (\<lambda>q. if r_id q = i then recover_row C now q else q) (work_rows db)\<rparr>)"
proof -
  have found: "query_stored_by_id (work_rows db) i = Some r"
    using find_key_unique [OF u r(1)] r(2) by (simp add: query_stored_by_id_def)
  have same: "q = r" if "q \<in> set (work_rows db)" "r_id q = i" for q
    using unique_key_eq [OF u that(1) r(1)] that r(2) by simp
  have upd: "sql_update (\<lambda>q. r_id q = i \<and> r_status q = ''leased'') f (work_rows db) =
      map (\<lambda>q. if r_id q = i then f q else q) (work_rows db)" for f
    using sql_update_one(1) [where p = "\<lambda>q. r_status q = ''leased''", OF u r leased] .
  have chg: "sql_changes (\<lambda>q. r_id q = i \<and> r_status q = ''leased'') (work_rows db) = 1"
    using sql_update_one(2) [where p = "\<lambda>q. r_status q = ''leased''", OF u r leased] .
  have row: "map (\<lambda>q. if r_id q = i then recover_row C now q else q) (work_rows db) =
      map (\<lambda>q. if r_id q = i then f q else q) (work_rows db)" if "recover_row C now r = f r" for f
    using same that by auto
  note rules = recover_one_def Let_def op_simps found upd chg
  show ?thesis
  proof (cases "disposition C now r")
    case None
    have "map (\<lambda>q. if r_id q = i then recover_row C now q else q) (work_rows db) = work_rows db"
      by (rule map_if_id) (use same None in \<open>auto simp: recover_row_def\<close>)
    with None leased show ?thesis
      by (auto simp: rules disposition_def note_recovery_def split: sum.splits if_splits)
  next
    case (Some d)
    have "recover_row C now r = (case d of Requeued \<Rightarrow> set_requeued (format_timestamp C now) r
        | DeadLetter code \<Rightarrow> set_dead_letter code (format_timestamp C now) r)"
      using Some by (simp add: recover_row_def)
    note row' = row [where f = "\<lambda>q. (case d of Requeued \<Rightarrow> set_requeued (format_timestamp C now) q
        | DeadLetter code \<Rightarrow> set_dead_letter code (format_timestamp C now) q)", OF this]
    show ?thesis
      using Some leased
      by (auto simp: row' rules disposition_def note_recovery_def split: sum.splits if_splits)
  qed
qed

text \<open>The rows the ids stand for.\<close>

definition row_of :: "stored_work_row list \<Rightarrow> string \<Rightarrow> stored_work_row" where
  "row_of rows i = the (query_stored_by_id rows i)"

lemma row_of_eq: "unique_key r_id rows \<Longrightarrow> r \<in> set rows \<Longrightarrow> row_of rows (r_id r) = r"
  by (simp add: row_of_def query_stored_by_id_def find_key_unique)

lemma recover_each_eq:
  assumes "unique_key r_id (work_rows db)" and "distinct is"
    and "\<And>i. i \<in> set is \<Longrightarrow> \<exists>r \<in> set (work_rows db). r_id r = i \<and> r_status r = ''leased''"
  shows "recover_each C now is tr db =
    (Inr (fold (note_recovery C now) (map (row_of (work_rows db)) is) tr),
     db\<lparr>work_rows := map (\<lambda>q. if r_id q \<in> set is then recover_row C now q else q) (work_rows db)\<rparr>)"
  using assms
proof (induction "is" arbitrary: tr db)
  case Nil
  then show ?case by (simp add: op_simps)
next
  case (Cons i "is")
  obtain r where r: "r \<in> set (work_rows db)" "r_id r = i" "r_status r = ''leased''"
    using Cons.prems(3) [of i] by auto
  define rows where "rows = map (\<lambda>q. if r_id q = i then recover_row C now q else q) (work_rows db)"
  have u: "unique_key r_id rows" using Cons.prems(1)
    by (simp add: rows_def comp_def if_distrib cong: if_cong)
  have kept: "q \<in> set rows" if "q \<in> set (work_rows db)" "r_id q \<noteq> i" for q
    using that by (force simp: rows_def)
  have rof: "row_of rows j = row_of (work_rows db) j" if "j \<in> set is" for j
  proof -
    obtain q where q: "q \<in> set (work_rows db)" "r_id q = j" using Cons.prems(3) \<open>j \<in> set is\<close> by auto
    with that Cons.prems(2) have "q \<in> set rows" by (intro kept) auto
    with u q Cons.prems(1) show ?thesis using row_of_eq by metis
  qed
  have IH: "recover_each C now is (note_recovery C now r tr) (db\<lparr>work_rows := rows\<rparr>) =
    (Inr (fold (note_recovery C now) (map (row_of rows) is) (note_recovery C now r tr)),
     db\<lparr>work_rows := map (\<lambda>q. if r_id q \<in> set is then recover_row C now q else q) rows\<rparr>)"
  proof -
    have "\<exists>q \<in> set rows. r_id q = j \<and> r_status q = ''leased''" if "j \<in> set is" for j
      using that Cons.prems(2,3) kept by (metis distinct.simps(2) list.set_intros(2))
    then show ?thesis
      using Cons.IH [of "db\<lparr>work_rows := rows\<rparr>" "note_recovery C now r tr"] u Cons.prems(2) by simp
  qed
  have "bnd (recover_one C now i tr) (recover_each C now is) db =
      recover_each C now is (note_recovery C now r tr) (db\<lparr>work_rows := rows\<rparr>)"
    using recover_one_eq [OF Cons.prems(1) r, of C now tr] by (simp add: bnd_Inr rows_def)
  moreover have "map (\<lambda>q. if r_id q \<in> set is then recover_row C now q else q) rows =
      map (\<lambda>q. if r_id q \<in> set (i # is) then recover_row C now q else q) (work_rows db)"
    using Cons.prems(2) by (auto simp: rows_def)
  moreover have "row_of (work_rows db) i = r" using row_of_eq [OF Cons.prems(1) r(1)] r(2) by simp
  moreover have "map (row_of rows) is = map (row_of (work_rows db)) is" using rof by simp
  ultimately show ?case using IH by simp
qed

theorem recover_in_tx_eq:
  assumes u: "unique_key r_id (work_rows db)"
  shows "recover_expired_in_tx C target now db =
    (Inr (fold (note_recovery C now) (leased_rows target (work_rows db)) recovery_default),
     db\<lparr>work_rows := recover_table C target now (work_rows db)\<rparr>)"
proof -
  let ?is = "map r_id (leased_rows target (work_rows db))"
  have d: "distinct ?is" using u
    by (simp add: leased_rows_def distinct_map_filter)
  have rows: "map (row_of (work_rows db)) ?is = leased_rows target (work_rows db)"
    using row_of_eq [OF u] by (auto simp: leased_rows_def intro: map_idI)
  have member: "r_id q \<in> set ?is \<longleftrightarrow> r_target q = target \<and> r_status q = ''leased''"
    if "q \<in> set (work_rows db)" for q
    using that unique_key_eq [OF u that] by (auto simp: leased_rows_def)
  have "recover_expired_in_tx C target now db = recover_each C now ?is recovery_default db"
    by (simp add: recover_expired_in_tx_def op_simps leased_rows_def)
  also have "\<dots> = (Inr (fold (note_recovery C now) (leased_rows target (work_rows db)) recovery_default),
      db\<lparr>work_rows := map (\<lambda>q. if r_id q \<in> set ?is then recover_row C now q else q) (work_rows db)\<rparr>)"
    using recover_each_eq [OF u d, of C now recovery_default]
    by (simp only: rows) (auto simp: leased_rows_def)
  also have "map (\<lambda>q. if r_id q \<in> set ?is then recover_row C now q else q) (work_rows db) =
      recover_table C target now (work_rows db)"
    using member by (auto simp: recover_table_def)
  finally show ?thesis .
qed

end
