(* ===== verification/Work_Refine.thy ===== *)
theory Work_Refine
  imports Work_Recovery
begin

text \<open>
  Every operation of the store is a sequence of steps of the abstract table. The command
  language of the store's clients is here too, with the theorems about whole runs.
\<close>

section \<open>Operations refine the steps\<close>

text \<open>Now and every lease or retry counted from now print with a four-digit year.\<close>

definition clock_ok :: "codec \<Rightarrow> nat \<Rightarrow> bool" where
  "clock_ok C now \<longleftrightarrow> now + ns_of_secs MAX_LEASE_SECONDS \<le> ts_text_max C"

lemma clock_ok_text:
  assumes "rfc3339_text C" and "clock_ok C now" and "t \<le> now + ns_of_secs MAX_LEASE_SECONDS"
  shows "text_ok C (format_timestamp C t)"
  using assms by (simp add: text_ok_def clock_ok_def) (rule exI [of _ t], simp)

lemma clock_ok_now: "rfc3339_text C \<Longrightarrow> clock_ok C now \<Longrightarrow> text_ok C (format_timestamp C now)"
  by (rule clock_ok_text) auto

definition steps_of :: "codec \<Rightarrow> 'a work_op \<Rightarrow> workdb \<Rightarrow> bool" where
  "steps_of C m db \<longleftrightarrow> table_steps C (work_rows db) (work_rows (snd (m db)))"

named_theorems steps_intros "operations that are steps of the table"

lemma steps_of_pure [steps_intros]: "snd (m db) = db \<Longrightarrow> steps_of C m db"
  by (simp add: steps_of_def)

lemma steps_of_lift [steps_intros]:
  "(\<And>x. r = Inr x \<Longrightarrow> steps_of C (f x) db) \<Longrightarrow> steps_of C (bnd (lift_sum r) f) db"
  by (cases r) (auto simp: steps_of_def)

lemma steps_of_connection:
  assumes "steps_of C f (after_call db)" and "\<And>x t. snd (g x t) = t"
  shows "steps_of C (bnd (in_connection f) g) db"
  using assms by (auto simp: steps_of_def bnd_connection split: prod.splits sum.splits)

lemma steps_of_connection' [steps_intros]:
  assumes "steps_of C f (after_call db)"
  shows "steps_of C (in_connection f) db"
  using assms by (auto simp: steps_of_def in_connection_def with_connection_apply
      split: prod.splits sum.splits)

lemma steps_of_update:
  assumes "\<And>r. r \<in> set (work_rows db) \<Longrightarrow> p r \<Longrightarrow> row_step C r (f r)"
  shows "steps_of C (update_where p f) db"
  using table_step_sql_update [of "work_rows db" p C f] assms by (auto simp: steps_of_def op_simps)

lemma snd_lift_sum [simp]: "snd (lift_sum r t) = t"
  by (simp add: lift_sum_def)

lemma snd_ok_or [simp]: "snd (ok_or e x t) = t"
  by (cases x) (simp_all add: op_simps)

lemma snd_throw [simp]: "snd (throw e t) = t"
  by (simp add: op_simps)

lemma snd_ret [simp]: "snd (ret x t) = t"
  by (simp add: op_simps)

lemma snd_bnd_pure:
  "snd (m t) = t \<Longrightarrow> (\<And>x. snd (f x t) = t) \<Longrightarrow> snd (bnd m f t) = t"
  by (auto simp: bnd_def split: prod.splits sum.splits)

lemma unchanged_bnd:
  "snd (m t) = t \<Longrightarrow> (\<And>x. m t = (Inr x, t) \<Longrightarrow> snd (f x t) = t) \<Longrightarrow> snd (bnd m f t) = t"
  by (auto simp: bnd_def split: prod.splits sum.splits)

text \<open>Lookups leave the table alone.\<close>

definition reads :: "'a work_op \<Rightarrow> bool" where
  "reads m \<longleftrightarrow> (\<forall>db. work_rows (snd (m db)) = work_rows db)"

lemma reads_intros:
  "reads (ret x)" "reads (throw e)" "reads (lift_sum r)" "reads (query q)"
  by (auto simp: reads_def op_simps)

lemma reads_bnd: "reads m \<Longrightarrow> (\<And>x. reads (f x)) \<Longrightarrow> reads (bnd m f)"
  by (auto simp: reads_def bnd_def split: prod.splits sum.splits) (metis snd_conv)+

lemma reads_connection: "reads f \<Longrightarrow> reads (in_connection f)"
  by (auto simp: reads_def in_connection_def with_connection_apply split: prod.splits sum.splits)
    (metis snd_conv work_rows_after_call)+

lemma lookups_read:
  "reads (get C i)" "reads (find_deduped C source key)" "reads (count_scoped_nonterminal sc)"
  "reads (find_scoped C sc corr)" "reads (list_scoped C sc cursor limit)"
  by (auto simp: get_def find_deduped_def count_scoped_nonterminal_def find_scoped_def
      list_scoped_def intro!: reads_intros reads_bnd reads_connection)

lemma enqueue_tx_apply:
  "enqueue_tx C env db =
     (let (n, rows) = insert_or_ignore (row_of_envelope C env) (work_rows db) in
      (Inr (if n = 1 then query_stored_by_id rows (env_id env)
            else Option.bind (env_dedupe_key env) (query_stored_by_dedupe rows (env_source env)),
          n = 1),
       db\<lparr>work_rows := rows\<rparr>))"
  by (auto simp: enqueue_tx_def op_simps bnd_if Let_def split: option.split prod.split)

lemma enqueue_steps:
  assumes "storable C env"
  shows "steps_of C (enqueue C env) db"
  unfolding enqueue_def
proof (rule steps_of_connection)
  show "steps_of C (enqueue_tx C env) (after_call db)"
    using table_step.insert [OF assms]
    by (auto simp: steps_of_def enqueue_tx_apply insert_or_ignore_def Let_def)
qed (auto intro!: snd_bnd_pure split: prod.splits)

lemma recover_table_step:
  assumes C: "rfc3339_text C" and now: "clock_ok C now"
  shows "table_step C rows (recover_table C target now rows)"
proof (rule table_step.update)
  have "recover_row C now r = r \<or> row_step C r (recover_row C now r)" for r
    using clock_ok_now [OF C now]
    by (auto simp: recover_row_def disposition_def readable_def live_def word_le_def word_less_def
        try_into_itemD(3,4)
        intro!: row_step.requeue row_step.bury split: sum.splits if_splits)
  then show "list_all2 (\<lambda>r q. q = r \<or> row_step C r q) rows (recover_table C target now rows)"
    by (auto simp: recover_table_def list_all2_conv_all_nth)
qed

lemma recover_tx_steps:
  assumes "rfc3339_text C" and "clock_ok C now" and "unique_key r_id (work_rows db)"
  shows "steps_of C (recover_expired_in_tx C target now) db"
  using recover_table_step [OF assms(1,2)] by (auto simp: steps_of_def recover_in_tx_eq [OF assms(3)])

lemma recover_expired_steps:
  assumes "rfc3339_text C" and "clock_ok C now" and u: "unique_key r_id (work_rows db)"
  shows "steps_of C (recover_expired C target now) db"
  unfolding recover_expired_def
  by (intro steps_of_lift steps_of_connection recover_tx_steps) (use assms in simp_all)

lemma holds_lease_leased: "holds_lease i own tok now_text r \<Longrightarrow> r_status r = ''leased''"
  by (simp add: holds_lease_def)

lemma renew_lease_steps:
  assumes "rfc3339_text C" and "clock_ok C now"
  shows "steps_of C (renew_lease C i own tok now d) db"
  unfolding renew_lease_def Let_def
proof (intro steps_of_lift steps_of_connection steps_of_update row_step.renew)
  fix expires assume "validate_lease C own now d = Inr expires"
  then show "text_ok C (format_timestamp C expires)"
    using clock_ok_text [OF assms] validate_lease_Inr(3) by blast
qed (auto simp: clock_ok_now [OF assms] holds_lease_leased)

lemma complete_steps:
  assumes "rfc3339_text C" and "clock_ok C now"
  shows "steps_of C (complete C i own tok now) db"
  unfolding complete_def Let_def
  by (intro steps_of_connection steps_of_update row_step.finish)
    (auto simp: clock_ok_now [OF assms] holds_lease_leased)

lemma retry_delay_le: "unat (retry_delay att) \<le> MAX_LEASE_SECONDS"
  by (simp add: unat_retry_delay MAX_LEASE_SECONDS_def)

text \<open>What \<open>fail\<close> does to the row that holds the lease.\<close>

definition fail_due :: "nat \<Rightarrow> stored_work_row \<Rightarrow> nat" where
  "fail_due now r = now + ns_of_secs (unat (retry_delay (word_of_int (r_attempts r))))"

lemma fail_tx_apply:
  "fail_tx C i own tok now code retryable db =
     (let h = holds_lease i own tok (format_timestamp C now) in
      case find h (work_rows db) of
        None \<Rightarrow> (Inr None, db)
      | Some r \<Rightarrow>
          if retryable \<and> r_attempts r < r_max_attempts r then
            (if ts_max C < fail_due now r then (Inl WorkPanic, db)
             else (Inr (if sql_changes h (work_rows db) = 1 then Some WPending else None),
               db\<lparr>work_rows := sql_update h (set_failed WPending (format_timestamp C (fail_due now r))
                  code (format_timestamp C now) None) (work_rows db)\<rparr>))
          else (Inr (if sql_changes h (work_rows db) = 1 then Some WDeadLetter else None),
            db\<lparr>work_rows := sql_update h (set_failed WDeadLetter (format_timestamp C now)
               code (format_timestamp C now) (Some (format_timestamp C now))) (work_rows db)\<rparr>))"
  by (simp add: fail_tx_def fail_due_def Let_def op_simps bnd_if split: option.split)

lemma fail_tx_steps:
  assumes "rfc3339_text C" and "clock_ok C now" and u: "unique_key r_id (work_rows db)"
  shows "steps_of C (fail_tx C i own tok now code retryable) db"
proof (cases "find (holds_lease i own tok (format_timestamp C now)) (work_rows db)")
  case None
  then show ?thesis by (simp add: steps_of_def fail_tx_apply Let_def)
next
  case (Some r)
  let ?h = "holds_lease i own tok (format_timestamp C now)"
  have r: "r \<in> set (work_rows db)" "?h r" using Some by (auto simp: find_Some_iff)
  have budget: "r_attempts q < r_max_attempts q"
    if "q \<in> set (work_rows db)" "?h q" "r_attempts r < r_max_attempts r" for q
    using unique_key_eq [OF u that(1) r(1)] that(2,3) r(2) by (simp add: holds_lease_def)
  have texts: "text_ok C (format_timestamp C now)" "text_ok C (format_timestamp C (fail_due now r))"
    using clock_ok_now [OF assms(1,2)] clock_ok_text [OF assms(1,2), of "fail_due now r"] retry_delay_le
    by (auto simp: ns_of_secs_def fail_due_def)
  have "table_step C (work_rows db) (sql_update ?h (set_failed WPending (format_timestamp C (fail_due now r))
      code (format_timestamp C now) None) (work_rows db))" if "r_attempts r < r_max_attempts r"
    by (intro table_step_sql_update row_step.retry)
      (simp_all add: texts holds_lease_leased budget that)
  moreover have "table_step C (work_rows db) (sql_update ?h (set_failed WDeadLetter (format_timestamp C now)
      code (format_timestamp C now) (Some (format_timestamp C now))) (work_rows db))"
    by (intro table_step_sql_update row_step.give_up) (simp_all add: texts holds_lease_leased)
  ultimately show ?thesis
    by (auto simp: steps_of_def fail_tx_apply Let_def Some)
qed

lemma work_fail_steps:
  assumes "rfc3339_text C" and "clock_ok C now" and u: "unique_key r_id (work_rows db)"
  shows "steps_of C (work_fail C i own tok now code retryable) db"
  unfolding work_fail_def
  by (intro steps_of_connection fail_tx_steps) (use assms in simp_all)

lemma cancel_tx_apply:
  "cancel_tx C sc corr now_text db =
     (case query_stored_by_scope (work_rows db) sc corr of
        [] \<Rightarrow> (Inr NotFoundOutcome, db)
      | [stored] \<Rightarrow>
          (case try_into_item C stored of
             Inl _ \<Rightarrow> (Inl StorageUnavailable, db)
           | Inr item \<Rightarrow>
               if status item = WPending \<or> status item = WLeased then
                 (let p = cancelable sc corr (env_id (envelope item));
                      rows' = sql_update p (set_terminal ''canceled'' now_text) (work_rows db)
                  in if sql_changes p (work_rows db) \<noteq> 1 then (Inl StorageUnavailable, db\<lparr>work_rows := rows'\<rparr>)
                     else (case query_stored_by_id rows' (env_id (envelope item)) of
                             None \<Rightarrow> (Inl StorageUnavailable, db\<lparr>work_rows := rows'\<rparr>)
                           | Some r \<Rightarrow> (case try_into_item C r of
                                Inl _ \<Rightarrow> (Inl StorageUnavailable, db\<lparr>work_rows := rows'\<rparr>)
                              | Inr updated \<Rightarrow> (Inr (Canceled updated), db\<lparr>work_rows := rows'\<rparr>))))
               else if status item = WCanceled then (Inr (AlreadyCanceled item), db)
               else (Inr (NotCancelable item), db))
      | _ \<Rightarrow> (Inl StorageUnavailable, db))"
  by (simp add: cancel_tx_def Let_def op_simps split: list.split sum.split option.split)

lemma cancel_tx_steps:
  assumes "text_ok C now_text"
  shows "steps_of C (cancel_tx C sc corr now_text) db"
proof -
  have "table_step C (work_rows db)
      (sql_update (cancelable sc corr i) (set_terminal ''canceled'' now_text) (work_rows db))" for i
    using assms by (intro table_step_sql_update row_step.cancel) (auto simp: live_def cancelable_def)
  note upd = r_into_rtranclp [where r = "table_step C", OF this]
  show ?thesis
    unfolding steps_of_def cancel_tx_apply Let_def
    by (simp add: upd split: list.split sum.split option.split)
qed

lemma cancel_scoped_steps:
  assumes "rfc3339_text C" and "clock_ok C now"
  shows "steps_of C (cancel_scoped C sc corr now) db"
  unfolding cancel_scoped_def
  by (intro steps_of_lift steps_of_connection' cancel_tx_steps clock_ok_now assms)

section \<open>The claim\<close>

lemma query_claim_candidate_Some:
  assumes "query_claim_candidate rows target now_text = Some i"
  shows "\<exists>r \<in> set rows. r_id r = i \<and> claimable target now_text r \<and>
    (\<forall>q \<in> set rows. claimable target now_text q \<longrightarrow> claim_key r \<le> claim_key q)"
proof -
  let ?rows = "order_asc claim_key (filter (claimable target now_text) rows)"
  obtain r rest where r: "?rows = r # rest" "r_id r = i"
    using assms by (auto simp: query_claim_candidate_def split: list.splits)
  have "sorted (map claim_key ?rows)" by (rule sorted_order_asc)
  then have "\<forall>q \<in> set ?rows. claim_key r \<le> claim_key q" using r by auto
  moreover have "r \<in> set ?rows" using r by simp
  ultimately show ?thesis using r(2) by auto
qed

lemma query_claim_candidate_None:
  "query_claim_candidate rows target now_text = None \<longleftrightarrow> (\<forall>r \<in> set rows. \<not> claimable target now_text r)"
proof -
  have "query_claim_candidate rows target now_text = None \<longleftrightarrow>
      order_asc claim_key (filter (claimable target now_text) rows) = []"
    by (simp add: query_claim_candidate_def split: list.split)
  also have "\<dots> \<longleftrightarrow> filter (claimable target now_text) rows = []"
    by (metis length_0_conv length_order_asc)
  finally show ?thesis by (simp add: filter_empty_conv)
qed

end
