(* ===== verification/Work_Claim.thy ===== *)
theory Work_Claim
  imports Work_Refine
begin

text \<open>
  The claim of the next item: what its transaction leaves in the table, as a closed form over
  the recovered table, and the runs of the store's commands.
\<close>

section \<open>The claim transaction\<close>

lemma conflict_free_after [simp]: "conflict_free (work_rows (after_call db)) = conflict_free (work_rows db)"
  by simp

definition on_row :: "string \<Rightarrow> (stored_work_row \<Rightarrow> stored_work_row) \<Rightarrow>
    stored_work_row list \<Rightarrow> stored_work_row list" where
  "on_row i f rows = map (\<lambda>q. if r_id q = i then f q else q) rows"

lemma find_on_row:
  assumes u: "unique_key r_id rows" and r: "r \<in> set rows" and f: "r_id (f r) = r_id r"
  shows "query_stored_by_id (on_row (r_id r) f rows) (r_id r) = Some (f r)"
  using u r f
proof (induction rows)
  case (Cons a rows)
  show ?case
  proof (cases "a = r")
    case False
    with Cons show ?thesis by (auto simp: query_stored_by_id_def on_row_def image_iff)
  qed (use f in \<open>simp add: query_stored_by_id_def on_row_def\<close>)
qed simp

lemma recover_table_ids [simp]: "map r_id (recover_table C target now rows) = map r_id rows"
  by (simp add: recover_table_def)

lemma claim_candidate_apply:
  assumes u: "unique_key r_id (work_rows db)" and r: "r \<in> set (work_rows db)"
    and pending: "r_status r = ''pending''" "r_available_at r \<le> now_text"
  shows "claim_candidate C (r_id r) own tok now_text expiry_text db =
    (if readable C r
     then (Inr (Some (set_leased own tok expiry_text now_text r), None),
        db\<lparr>work_rows := on_row (r_id r) (set_leased own tok expiry_text now_text) (work_rows db)\<rparr>)
     else (Inr (None, Some (transition_diagnostic C r)),
        db\<lparr>work_rows := on_row (r_id r) (set_dead_letter IntegrityViolation now_text) (work_rows db)\<rparr>))"
proof -
  have found: "query_stored_by_id (work_rows db) (r_id r) = Some r"
    using find_key_unique [OF u r] by (simp add: query_stored_by_id_def)
  have one: "sql_update (\<lambda>q. r_id q = r_id r \<and> r_status q = ''pending'' \<and> r_available_at q \<le> now_text) f
      (work_rows db) = on_row (r_id r) f (work_rows db)"
    "sql_changes (\<lambda>q. r_id q = r_id r \<and> r_status q = ''pending'' \<and> r_available_at q \<le> now_text)
      (work_rows db) = 1" for f
    using sql_update_one [where p = "\<lambda>q. r_status q = ''pending'' \<and> r_available_at q \<le> now_text",
        OF u r refl] pending by (simp_all add: on_row_def)
  have two: "sql_update (\<lambda>q. r_id q = r_id r \<and> r_status q = ''pending'') f (work_rows db) =
      on_row (r_id r) f (work_rows db)" for f
    using sql_update_one [where p = "\<lambda>q. r_status q = ''pending''", OF u r refl] pending
    by (simp add: on_row_def)
  have "query_stored_by_id (on_row (r_id r) (set_leased own tok expiry_text now_text) (work_rows db))
      (r_id r) = Some (set_leased own tok expiry_text now_text r)"
    by (rule find_on_row [OF u r]) (simp add: row_updates)
  then show ?thesis
    by (auto simp: claim_candidate_def Let_def op_simps bnd_if found one two readable_def split: sum.split)
qed

lemma bnd_recover:
  assumes "unique_key r_id (work_rows db)"
  shows "bnd (recover_expired_in_tx C target now) f db =
    f (fold (note_recovery C now) (leased_rows target (work_rows db)) recovery_default)
      (db\<lparr>work_rows := recover_table C target now (work_rows db)\<rparr>)"
  by (simp add: bnd_def recover_in_tx_eq [OF assms])

lemma claim_tx_none:
  assumes u: "unique_key r_id (work_rows db)"
    and none: "query_claim_candidate (recover_table C target now (work_rows db)) target
      (format_timestamp C now) = None"
  shows "\<exists>rec. claim_tx C target own tok now expires db =
    (Inr (None, rec, None), db\<lparr>work_rows := recover_table C target now (work_rows db)\<rparr>)"
  using none by (simp add: claim_tx_def bnd_recover [OF u] op_simps)

lemma claim_tx_some:
  assumes u: "unique_key r_id (work_rows db)"
    and r: "r \<in> set (recover_table C target now (work_rows db))"
    and some: "query_claim_candidate (recover_table C target now (work_rows db)) target
      (format_timestamp C now) = Some (r_id r)"
  shows "\<exists>rec. claim_tx C target own tok now expires db =
    (if readable C r
     then (Inr (Some (set_leased own tok (format_timestamp C expires) (format_timestamp C now) r), rec, None),
        db\<lparr>work_rows := on_row (r_id r)
            (set_leased own tok (format_timestamp C expires) (format_timestamp C now))
            (recover_table C target now (work_rows db))\<rparr>)
     else (Inr (None, rec, Some (transition_diagnostic C r)),
        db\<lparr>work_rows := on_row (r_id r) (set_dead_letter IntegrityViolation (format_timestamp C now))
            (recover_table C target now (work_rows db))\<rparr>))"
proof -
  let ?db = "db\<lparr>work_rows := recover_table C target now (work_rows db)\<rparr>"
  have u': "unique_key r_id (work_rows ?db)" using u by simp
  obtain q where q: "q \<in> set (work_rows ?db)" "r_id q = r_id r" "claimable target (format_timestamp C now) q"
    using query_claim_candidate_Some [OF some] by auto
  have "q = r" using unique_key_eq [OF u' q(1) _ q(2)] r by simp
  with q have "r_status r = ''pending''" "r_available_at r \<le> format_timestamp C now"
    by (auto simp: claimable_def)
  note cand = claim_candidate_apply [OF u' _ this, of C own tok "format_timestamp C expires"]
  show ?thesis
    using r by (simp add: claim_tx_def bnd_recover [OF u] op_simps some) (simp add: bnd_def op_simps cand)
qed

lemma on_row_step:
  assumes "unique_key r_id rows" and "r \<in> set rows" and "row_step C r (f r)"
  shows "table_step C rows (on_row (r_id r) f rows)"
proof (rule table_step.update)
  have "row_step C q (f q)" if "q \<in> set rows" "r_id q = r_id r" for q
    using unique_key_eq [OF assms(1) that(1) assms(2) that(2)] assms(3) by simp
  then show "list_all2 (\<lambda>r q. q = r \<or> row_step C r q) rows (on_row (r_id r) f rows)"
    by (auto simp: on_row_def list_all2_conv_all_nth)
qed

lemma claim_tx_steps:
  assumes C: "rfc3339_text C" and now: "clock_ok C now" and u: "unique_key r_id (work_rows db)"
    and own: "validate_lease C own now d = Inr expires" and tok: "name_ok tok"
  shows "steps_of C (claim_tx C target own tok now expires) db"
proof (cases "query_claim_candidate (recover_table C target now (work_rows db)) target
      (format_timestamp C now)")
  case None
  obtain rec where "claim_tx C target own tok now expires db =
      (Inr (None, rec, None), db\<lparr>work_rows := recover_table C target now (work_rows db)\<rparr>)"
    using claim_tx_none [OF u None] by blast
  with recover_table_step [OF C now] show ?thesis by (auto simp: steps_of_def)
next
  case (Some i)
  let ?rows = "recover_table C target now (work_rows db)"
  obtain r where r: "r \<in> set ?rows" "r_id r = i" "claimable target (format_timestamp C now) r"
    using query_claim_candidate_Some [OF Some] by auto
  have u': "unique_key r_id ?rows" using u by simp
  have texts: "text_ok C (format_timestamp C now)" "text_ok C (format_timestamp C expires)"
    using clock_ok_now [OF C now] clock_ok_text [OF C now] validate_lease_Inr(3) [OF own] by blast+
  have "row_step C r (set_leased own tok (format_timestamp C expires) (format_timestamp C now) r)"
    if "readable C r"
    using that r(3) texts tok validate_lease_Inr(4,5) [OF own]
    by (intro row_step.lease) (auto simp: claimable_def name_ok_def)
  moreover have "row_step C r (set_dead_letter IntegrityViolation (format_timestamp C now) r)"
    if "\<not> readable C r"
    using that r(3) texts by (intro row_step.bury) (auto simp: claimable_def live_def)
  ultimately have last: "table_steps C ?rows (on_row (r_id r) f ?rows)"
    if "f = (if readable C r then set_leased own tok (format_timestamp C expires) (format_timestamp C now)
        else set_dead_letter IntegrityViolation (format_timestamp C now))" for f
    using on_row_step [OF u' r(1), of C f] that by (auto split: if_splits)
  have "query_claim_candidate ?rows target (format_timestamp C now) = Some (r_id r)"
    using Some r(2) by simp
  from claim_tx_some [OF u r(1) this, of own tok expires]
  have "work_rows (snd (claim_tx C target own tok now expires db)) =
      on_row (r_id r) (if readable C r
        then set_leased own tok (format_timestamp C expires) (format_timestamp C now)
        else set_dead_letter IntegrityViolation (format_timestamp C now)) ?rows"
    by (auto split: if_splits)
  with last [OF refl] recover_table_step [OF C now, of "work_rows db" target] show ?thesis
    by (auto simp: steps_of_def intro: converse_rtranclp_into_rtranclp)
qed

lemma claim_steps:
  assumes "rfc3339_text C" and "clock_ok C now" and "unique_key r_id (work_rows db)"
    and "length uuid \<le> 122"
  shows "steps_of C (claim_next_cancellable C uuid target own now d cancellation) db"
proof (cases "cancellation = CancelledAtStart")
  case False
  let ?tx = "\<lambda>expires. claim_tx C target own (''lease-'' @ uuid) now expires"
  have "steps_of C (if cancellation = CancelledOnConnection then ret nothing_found
      else if cancellation = CancelledAtCommit then rolled_back nothing_found (?tx expires)
      else ?tx expires) (after_call db)" if "validate_lease C own now d = Inr expires" for expires
  proof -
    have "steps_of C (?tx expires) (after_call db)"
      using assms that
      by (intro claim_tx_steps) (simp_all add: name_ok_def MAX_ROUTING_BYTES_def)
    moreover have "steps_of C (rolled_back nothing_found (?tx expires)) (after_call db)"
      by (auto simp: steps_of_def rolled_back_def split: prod.splits sum.splits)
    ultimately show ?thesis by (simp add: steps_of_pure)
  qed
  note body = steps_of_connection [OF this]
  show ?thesis
    unfolding claim_next_cancellable_def if_not_P [OF False]
    by (intro steps_of_lift body) (auto split: prod.split)
qed (simp add: claim_next_cancellable_def steps_of_def op_simps)

end
