(* ===== verification/Work_Runs.thy ===== *)
theory Work_Runs
  imports Work_Claim
begin

text \<open>
  Runs of the store: a client is a list of commands, each with the instant it reads from the
  clock and the uuid it draws. What holds of every run is an invariant of the table's steps.
\<close>

section \<open>Commands\<close>

datatype work_cmd =
  DoEnqueue work_envelope
| DoClaim string string string nat duration claim_cancellation
| DoRenew string string string nat duration
| DoComplete string string string nat
| DoFail string string string nat work_failure_code bool
| DoCancel work_scope string nat
| DoRecover string nat

fun cmd_ok :: "codec \<Rightarrow> work_cmd \<Rightarrow> bool" where
  "cmd_ok C (DoEnqueue env) = storable C env"
| "cmd_ok C (DoClaim uuid target own now d cancellation) = (clock_ok C now \<and> length uuid \<le> 122)"
| "cmd_ok C (DoRenew i own tok now d) = clock_ok C now"
| "cmd_ok C (DoComplete i own tok now) = clock_ok C now"
| "cmd_ok C (DoFail i own tok now code retryable) = clock_ok C now"
| "cmd_ok C (DoCancel sc corr now) = clock_ok C now"
| "cmd_ok C (DoRecover target now) = clock_ok C now"

text \<open>The id of the item a claim hands out, and the next state.\<close>

definition claimed_id :: "work_error + work_item option \<Rightarrow> string list" where
  "claimed_id r = (case r of Inr (Some it) \<Rightarrow> [env_id (envelope it)] | _ \<Rightarrow> [])"

fun work_exec :: "codec \<Rightarrow> work_cmd \<Rightarrow> workdb \<Rightarrow> string list \<times> workdb" where
  "work_exec C (DoEnqueue env) db = ([], snd (enqueue C env db))"
| "work_exec C (DoClaim uuid target own now d cancellation) db =
     (let (r, db') = claim_next_cancellable C uuid target own now d cancellation db
      in (claimed_id r, db'))"
| "work_exec C (DoRenew i own tok now d) db = ([], snd (renew_lease C i own tok now d db))"
| "work_exec C (DoComplete i own tok now) db = ([], snd (complete C i own tok now db))"
| "work_exec C (DoFail i own tok now code retryable) db =
     ([], snd (work_fail C i own tok now code retryable db))"
| "work_exec C (DoCancel sc corr now) db = ([], snd (cancel_scoped C sc corr now db))"
| "work_exec C (DoRecover target now) db = ([], snd (recover_expired C target now db))"

fun work_run :: "codec \<Rightarrow> work_cmd list \<Rightarrow> workdb \<Rightarrow> string list \<times> workdb" where
  "work_run C [] db = ([], db)"
| "work_run C (c # cs) db =
     (let (claimed, db1) = work_exec C c db; (more, db2) = work_run C cs db1 in (claimed @ more, db2))"

lemma work_exec_steps:
  assumes "rfc3339_text C" and "cmd_ok C c" and "table_ok C (work_rows db)"
  shows "table_steps C (work_rows db) (work_rows (snd (work_exec C c db)))"
proof -
  have u: "unique_key r_id (work_rows db)"
    using assms(3) by (simp add: table_ok_def conflict_free_ids)
  have steps: "steps_of C m db \<Longrightarrow> table_steps C (work_rows db) (work_rows (snd (m db)))"
    for m :: "'a work_op" by (simp add: steps_of_def)
  show ?thesis
    using assms u
    by (cases c) (auto simp: Let_def split_beta
        intro!: steps enqueue_steps claim_steps renew_lease_steps complete_steps work_fail_steps
          cancel_scoped_steps recover_expired_steps)
qed

lemma table_ok_exec:
  "rfc3339_text C \<Longrightarrow> cmd_ok C c \<Longrightarrow> table_ok C (work_rows db) \<Longrightarrow>
   table_ok C (work_rows (snd (work_exec C c db)))"
  using table_ok_steps work_exec_steps by blast

lemma snd_work_run_Cons [simp]:
  "snd (work_run C (c # cs) db) = snd (work_run C cs (snd (work_exec C c db)))"
  by (simp add: Let_def split_beta)

lemma work_run_steps:
  assumes "rfc3339_text C" and "list_all (cmd_ok C) cs" and "table_ok C (work_rows db)"
  shows "table_steps C (work_rows db) (work_rows (snd (work_run C cs db)))"
  using assms(2,3)
proof (induction cs arbitrary: db)
  case (Cons c cs)
  then have c: "cmd_ok C c" by simp
  from work_exec_steps [OF assms(1) c Cons.prems(2)] Cons.IH table_ok_exec [OF assms(1) c] Cons.prems
  show ?case by (simp only: snd_work_run_Cons) (auto intro: rtranclp_trans)
qed simp

section \<open>Counting the claims of an item\<close>

text \<open>A claim that hands out an item has raised the attempts of its row.\<close>

lemma claim_raises_attempts:
  assumes C: "rfc3339_text C" and now: "clock_ok C now"
    and ok: "table_ok C (work_rows db)"
    and claim: "claim_next_cancellable C uuid target own now d cancellation db = (Inr (Some it), db')"
    and q: "q \<in> set (work_rows db')" "r_id q = env_id (envelope it)"
    and r: "r \<in> set (work_rows db)" "r_id r = env_id (envelope it)"
  shows "r_attempts r + 1 \<le> r_attempts q"
proof -
  let ?rows = "recover_table C target now (work_rows db)"
  have u: "unique_key r_id (work_rows (after_call db))"
    using ok by (simp add: table_ok_def conflict_free_ids)
  have nc: "cancellation \<noteq> CancelledAtStart"
    using claim by (auto simp: claim_next_cancellable_def op_simps)
  obtain v where v: "validate_routing_value target InvalidTarget = Inr v"
    using claim nc by (cases "validate_routing_value target InvalidTarget")
      (auto simp: claim_next_cancellable_def)
  obtain expires where e: "validate_lease C own now d = Inr expires"
    using claim nc v by (cases "validate_lease C own now d") (auto simp: claim_next_cancellable_def)
  let ?tx = "claim_tx C target own (''lease-'' @ uuid) now expires"
  obtain row recov where tx: "?tx (after_call db) = (Inr (Some row, recov, None), db')"
    and it: "try_into_item C row = Inr it"
  proof -
    have body: "bnd (in_connection (
          if cancellation = CancelledOnConnection then ret nothing_found
          else if cancellation = CancelledAtCommit then rolled_back nothing_found ?tx else ?tx))
        (\<lambda>(row, recovery, invalid). if invalid \<noteq> None then throw StoredDataInvalid
          else lift_sum (transpose_map (try_into_item C) row)) db = (Inr (Some it), db')"
      using claim nc v e by (simp add: claim_next_cancellable_def)
    have "cancellation = NeverCancelled"
      using body nc by (cases cancellation) (auto simp: bnd_connection op_simps nothing_found_def
          rolled_back_def lift_sum_def split: prod.splits sum.splits if_splits)
    with body show thesis
      by (auto simp: bnd_connection lift_sum_def transpose_map_Inr op_simps
          split: prod.splits sum.splits if_splits intro: that)
  qed
  obtain i where some: "query_claim_candidate ?rows target (format_timestamp C now) = Some i"
    using claim_tx_none [OF u, of C target now own "''lease-'' @ uuid" expires] tx
    by (cases "query_claim_candidate ?rows target (format_timestamp C now)") auto
  obtain p where p: "p \<in> set ?rows" "r_id p = i"
    using query_claim_candidate_Some [OF some] by auto
  have "row = set_leased own (''lease-'' @ uuid) (format_timestamp C expires) (format_timestamp C now) p"
    and rows: "work_rows db' = on_row (r_id p) (set_leased own (''lease-'' @ uuid)
        (format_timestamp C expires) (format_timestamp C now)) ?rows"
    using claim_tx_some [OF u, of p C target now own "''lease-'' @ uuid" expires] p some tx
    by (auto split: if_splits)
  then have pid: "r_id p = env_id (envelope it)"
    using try_into_itemD(1) [OF it] by (simp add: set_leased_def)
  have u': "unique_key r_id ?rows" using u by simp
  obtain p' where "p' \<in> set ?rows" "q = (if r_id p' = r_id p then set_leased own (''lease-'' @ uuid)
        (format_timestamp C expires) (format_timestamp C now) p' else p')"
    using q(1) rows by (auto simp: on_row_def)
  then have "r_attempts q = r_attempts p + 1"
    using unique_key_eq [OF u' _ p(1), of p'] q(2) pid by (auto simp: set_leased_def split: if_splits)
  moreover have "r_attempts r \<le> r_attempts p"
  proof -
    obtain p'' where "p'' \<in> set ?rows" "(row_step C)\<^sup>*\<^sup>* r p''"
      using table_steps_track [OF r_into_rtranclp [where r = "table_step C", OF recover_table_step [OF C now]] r(1)]
      by blast
    with row_steps_same [of C r p''] unique_key_eq [OF u' _ p(1), of p''] r(2) pid
    show ?thesis by auto
  qed
  ultimately show ?thesis by simp
qed

lemma claimed_id_Some: "claimed_id r = [i] \<longleftrightarrow> (\<exists>it. r = Inr (Some it) \<and> env_id (envelope it) = i)"
  by (auto simp: claimed_id_def split: sum.splits option.splits)

lemma claimed_id_cases: "claimed_id r = [] \<or> (\<exists>it. r = Inr (Some it) \<and> claimed_id r = [env_id (envelope it)])"
  by (auto simp: claimed_id_def split: sum.splits option.splits)

lemma exec_counts_claims:
  assumes C: "rfc3339_text C" and c: "cmd_ok C c" and ok: "table_ok C (work_rows db)"
    and r: "r \<in> set (work_rows db)" and q: "q \<in> set (work_rows (snd (work_exec C c db)))" "r_id q = r_id r"
  shows "r_attempts r + int (count_list (fst (work_exec C c db)) (r_id r)) \<le> r_attempts q"
proof -
  note [simp del] = work_exec.simps
  have u: "unique_key r_id (work_rows (snd (work_exec C c db)))"
    using table_ok_exec [OF C c ok] by (simp add: table_ok_def conflict_free_ids)
  obtain p where p: "p \<in> set (work_rows (snd (work_exec C c db)))" "(row_step C)\<^sup>*\<^sup>* r p"
    using table_steps_track [OF work_exec_steps [OF C c ok] r] by blast
  have "p = q" using unique_key_eq [OF u p(1) q(1)] row_steps_same(1) [OF p(2)] q(2) by simp
  with row_steps_same(3) [OF p(2)] have mono: "r_attempts r \<le> r_attempts q" by simp
  show ?thesis
  proof (cases "count_list (fst (work_exec C c db)) (r_id r) = 0")
    case False
    then obtain uuid target own now d cancellation where cmd:
      "c = DoClaim uuid target own now d cancellation"
      by (cases c) (auto simp: work_exec.simps)
    obtain res db' where claim: "claim_next_cancellable C uuid target own now d cancellation db = (res, db')"
      by fastforce
    then have exec: "work_exec C c db = (claimed_id res, db')"
      by (simp add: cmd work_exec.simps)
    with False claimed_id_cases [of res] obtain it where it: "res = Inr (Some it)"
        "claimed_id res = [env_id (envelope it)]" "env_id (envelope it) = r_id r"
      by (auto split: if_splits)
    have now: "clock_ok C now" using c cmd by simp
    have "q \<in> set (work_rows db')" "r_id q = env_id (envelope it)" using q exec it(3) by simp_all
    from claim_raises_attempts [OF C now ok claim [unfolded it(1)] this r it(3) [symmetric]]
    show ?thesis using it exec by simp
  qed (use mono in simp)
qed

lemma run_counts_claims:
  assumes C: "rfc3339_text C" and "list_all (cmd_ok C) cs" and "table_ok C (work_rows db)"
    and "r \<in> set (work_rows db)" and "q \<in> set (work_rows (snd (work_run C cs db)))" "r_id q = r_id r"
  shows "r_attempts r + int (count_list (fst (work_run C cs db)) (r_id r)) \<le> r_attempts q"
  using assms(2-6)
proof (induction cs arbitrary: db r)
  case Nil
  then show ?case using unique_key_eq [of r_id "work_rows db" q r]
    by (simp add: table_ok_def conflict_free_ids)
next
  case (Cons c cs)
  note [simp del] = work_run.simps(2)
  let ?db = "snd (work_exec C c db)"
  have c: "cmd_ok C c" and cs: "list_all (cmd_ok C) cs" using Cons.prems(1) by simp_all
  have ok: "table_ok C (work_rows ?db)" using table_ok_exec [OF C c Cons.prems(2)] .
  obtain p where p: "p \<in> set (work_rows ?db)" "(row_step C)\<^sup>*\<^sup>* r p"
    using table_steps_track [OF work_exec_steps [OF C c Cons.prems(2)] Cons.prems(3)] by blast
  have pid: "r_id p = r_id r" using row_steps_same(1) [OF p(2)] .
  have "r_attempts p + int (count_list (fst (work_run C cs ?db)) (r_id p)) \<le> r_attempts q"
    using Cons.IH [OF cs ok p(1)] Cons.prems(4,5) pid by (simp only: snd_work_run_Cons)
  moreover have "r_attempts r + int (count_list (fst (work_exec C c db)) (r_id r)) \<le> r_attempts p"
    using exec_counts_claims [OF C c Cons.prems(2,3) p(1) pid] .
  ultimately show ?case
    using pid by (simp add: work_run.simps(2) Let_def split_beta count_list_append)
qed

lemma run_keeps_row:
  assumes "rfc3339_text C" and "list_all (cmd_ok C) cs" and "table_ok C (work_rows db)"
    and "r \<in> set (work_rows db)"
  obtains q where "q \<in> set (work_rows (snd (work_run C cs db)))" and "(row_step C)\<^sup>*\<^sup>* r q"
  using table_steps_track [OF work_run_steps [OF assms(1-3)] assms(4)] by blast

lemma run_table_ok:
  "rfc3339_text C \<Longrightarrow> list_all (cmd_ok C) cs \<Longrightarrow> table_ok C (work_rows db) \<Longrightarrow>
   table_ok C (work_rows (snd (work_run C cs db)))"
  using table_ok_steps work_run_steps by blast

end
