(* ===== verification/Samples.thy ===== *)
theory Samples
  imports Prelude
begin

text \<open>
  A concrete codec, for the instances at which the theorems are applied: instants print as the
  eight bytes of their big-endian binary form, JSON has one printed value per constructor that
  the instances use, and every text is a canonical uuid.
\<close>

fun digits :: "nat \<Rightarrow> nat \<Rightarrow> string" where
  "digits 0 t = []"
| "digits (Suc k) t = digits k (t div 256) @ [char_of (t mod 256)]"

definition undigits :: "string \<Rightarrow> nat" where
  "undigits s = fold (\<lambda>c a. a * 256 + of_char c) s 0"

definition sample_codec :: codec where
  "sample_codec =
     \<lparr>json_to_string = (\<lambda>v. case v of JString s \<Rightarrow> s | _ \<Rightarrow> []),
      json_from_str = (\<lambda>s. Some (JString s)),
      format_timestamp = digits 8,
      parse_timestamp = (\<lambda>s. if length s = 8 then Some (undigits s) else None),
      ts_max = 2 ^ 63, ts_text_max = 2 ^ 62,
      uuid_canonical = (\<lambda>s. Some s)\<rparr>"

lemma length_digits [simp]: "length (digits k t) = k"
  by (induction k arbitrary: t) auto

lemma undigits_digits: "t < 256 ^ k \<Longrightarrow> undigits (digits k t) = t"
proof (induction k arbitrary: t)
  case 0
  then show ?case by (simp add: undigits_def)
next
  case (Suc k)
  then have "t div 256 < 256 ^ k" by (simp add: div_less_iff_less_mult)
  with Suc.IH have "undigits (digits k (t div 256)) = t div 256" .
  then show ?case by (simp add: undigits_def)
qed

lemma append_less_same_length:
  "length xs = length ys \<Longrightarrow> (xs :: 'a::linorder list) < ys \<Longrightarrow> xs @ us < ys @ vs"
  by (induction xs ys rule: list_induct2) auto

lemma append_less_cancel: "(xs @ us :: 'a::linorder list) < xs @ vs \<longleftrightarrow> us < vs"
  by (induction xs) auto

lemma char_of_less: "a < b \<Longrightarrow> b < 256 \<Longrightarrow> (char_of (a :: nat) :: char) < char_of b"
  by (simp add: less_char_def)

lemma digits_mono: "t < u \<Longrightarrow> u < 256 ^ k \<Longrightarrow> digits k t < digits k u"
proof (induction k arbitrary: t u)
  case (Suc k)
  show ?case
  proof (cases "t div 256 = u div 256")
    case True
    with \<open>t < u\<close> have "t mod 256 < u mod 256"
      by (metis add_less_cancel_left mult_div_mod_eq)
    with char_of_less [of "t mod 256" "u mod 256"] True show ?thesis
      by (simp add: append_less_cancel)
  next
    case False
    with \<open>t < u\<close> have "t div 256 < u div 256" by (meson div_le_mono le_neq_implies_less less_imp_le)
    moreover have "u div 256 < 256 ^ k" using Suc.prems by (simp add: div_less_iff_less_mult)
    ultimately show ?thesis using Suc.IH by (simp add: append_less_same_length)
  qed
qed simp

lemma digits_less_iff: "t < 256 ^ k \<Longrightarrow> u < 256 ^ k \<Longrightarrow> digits k t < digits k u \<longleftrightarrow> t < u"
  using digits_mono by (metis linorder_neqE_nat order_less_asym order_less_irrefl)

lemma sample_rfc3339 [simp]: "rfc3339_text sample_codec"
proof -
  have "t < 256 ^ 8" if "t \<le> 2 ^ 62" for t :: nat
    using le_less_trans [OF that, of "256 ^ 8"] by simp
  then show ?thesis
    by (auto simp: rfc3339_text_def sample_codec_def undigits_digits digits_less_iff
        simp del: digits.simps)
qed

end
