(* ===== verification/Work_Queue.thy ===== *)
theory Work_Queue
  imports Work_Runs Samples
begin

text \<open>
  The properties of the durable work queue, over the closed forms of its operations and the
  invariants of its runs, each with an instance on a sample table.
\<close>

section \<open>Sample items\<close>

definition sample_envelope :: "string \<Rightarrow> 16 word \<Rightarrow> work_envelope" where
  "sample_envelope i prio =
     \<lparr>env_id = i, env_version = 1, env_kind = ''k'', env_source = ''s'', env_target = ''t'',
      env_payload = JString ''p'',
      env_provenance = \<lparr>node_id = ''n'', actor_id = ''a'', prov_session_id = ''x'', prov_execution_id = ''e''\<rparr>,
      env_correlation_id = Some i, env_dedupe_key = Some i, env_priority = prio,
      env_max_attempts = 2, env_created_at = 5\<rparr>"

definition sample_row :: "string \<Rightarrow> stored_work_row" where
  "sample_row i = row_of_envelope sample_codec (sample_envelope i 0)"

definition leased_row :: "string \<Rightarrow> nat \<Rightarrow> stored_work_row" where
  "leased_row i expires =
     set_leased ''o'' ''lease-u'' (format_timestamp sample_codec expires)
       (format_timestamp sample_codec 6) (sample_row i)"

definition sample_db :: "stored_work_row list \<Rightarrow> workdb" where
  "sample_db rows = \<lparr>faults = [], work_rows = rows\<rparr>"

definition one_second :: duration where
  "one_second = \<lparr>as_secs = 1, subsec_nanos = 0\<rparr>"

lemma sample_db_simps [simp]:
  "faults (sample_db rows) = []" "work_rows (sample_db rows) = rows"
  by (simp_all add: sample_db_def)

lemma sample_storable: "i \<noteq> [] \<Longrightarrow> length i \<le> 100 \<Longrightarrow> storable sample_codec (sample_envelope i prio)"
  by (simp add: storable_def envelope_ok_def validate_draft_Inr validate_authorization_Inr
      sample_envelope_def sample_codec_def provenance_ids_def work_bounds)

lemma sample_row_ok: "i \<noteq> [] \<Longrightarrow> length i \<le> 100 \<Longrightarrow> row_ok sample_codec (sample_row i)"
  by (simp add: sample_row_def row_of_envelope_ok sample_storable)

lemma sample_clock_ok: "now \<le> 1000000000000000 \<Longrightarrow> clock_ok sample_codec now"
  by (simp add: clock_ok_def sample_codec_def ns_of_secs_def work_bounds)

lemma sample_lease: "now \<le> 1000000000000000 \<Longrightarrow>
  validate_lease sample_codec ''o'' now one_second = Inr (now + 1000000000)"
  by (simp add: validate_lease_def one_second_def work_bounds ns_of_secs_def sample_codec_def)

lemma sample_text [simp]: "format_timestamp sample_codec t = digits 8 t"
  by (simp add: sample_codec_def)

lemma sample_row_simps [simp]:
  "r_id (sample_row i) = i" "r_status (sample_row i) = ''pending''" "r_target (sample_row i) = ''t''"
  "r_attempts (sample_row i) = 0" "r_max_attempts (sample_row i) = 2"
  "r_available_at (sample_row i) = digits 8 5" "r_source (sample_row i) = ''s''"
  "r_dedupe_key (sample_row i) = Some i" "r_updated_at (sample_row i) = digits 8 5"
  by (simp_all add: sample_row_def row_of_envelope_def sample_envelope_def del: digits.simps)

lemma leased_row_simps [simp]:
  "r_id (leased_row i e) = i" "r_status (leased_row i e) = ''leased''" "r_target (leased_row i e) = ''t''"
  "r_attempts (leased_row i e) = 1" "r_max_attempts (leased_row i e) = 2"
  "r_lease_owner (leased_row i e) = Some ''o''" "r_lease_token (leased_row i e) = Some ''lease-u''"
  "r_lease_expires_at (leased_row i e) = Some (digits 8 e)"
  "r_source (leased_row i e) = ''s''" "r_dedupe_key (leased_row i e) = Some i"
  by (simp_all add: leased_row_def set_leased_def del: digits.simps)

lemma leased_row_step:
  "i \<noteq> [] \<Longrightarrow> length i \<le> 100 \<Longrightarrow> e \<le> 2 ^ 62 \<Longrightarrow> row_step sample_codec (sample_row i) (leased_row i e)"
  unfolding leased_row_def
  by (rule row_step.lease)
    (use sample_row_ok [of i] in \<open>auto simp: row_ok_def text_ok_def name_ok_def work_bounds sample_codec_def
        simp del: digits.simps intro: exI [of _ 6]\<close>)

lemma leased_row_ok:
  "i \<noteq> [] \<Longrightarrow> length i \<le> 100 \<Longrightarrow> e \<le> 2 ^ 62 \<Longrightarrow> row_ok sample_codec (leased_row i e)"
  using row_ok_step [OF sample_rfc3339 leased_row_step sample_row_ok] by blast

lemma sample_table_ok [simp]:
  "i \<noteq> [] \<Longrightarrow> length i \<le> 100 \<Longrightarrow> table_ok sample_codec [sample_row i]"
  "i \<noteq> [] \<Longrightarrow> length i \<le> 100 \<Longrightarrow> e \<le> 2 ^ 62 \<Longrightarrow> table_ok sample_codec [leased_row i e]"
  by (simp_all add: table_ok_def conflict_free_def sample_row_ok leased_row_ok)

lemma digits_8_less: "t \<le> 2 ^ 62 \<Longrightarrow> u \<le> 2 ^ 62 \<Longrightarrow> digits 8 t < digits 8 u \<longleftrightarrow> t < u"
  using rfc3339_less [OF sample_rfc3339, of t u] by (simp add: sample_codec_def)

lemma digits_8_le: "t \<le> 2 ^ 62 \<Longrightarrow> u \<le> 2 ^ 62 \<Longrightarrow> digits 8 t \<le> digits 8 u \<longleftrightarrow> t \<le> u"
  using rfc3339_le [OF sample_rfc3339, of t u] by (simp add: sample_codec_def)

declare digits.simps [simp del]

section \<open>Claiming\<close>

lemma claim_next_apply:
  assumes up: "call_ok db" and v: "validate_routing_value target InvalidTarget = Inr ()"
    and e: "validate_lease C own now d = Inr expires"
  shows "claim_next C uuid target own now d db =
    (case claim_tx C target own (''lease-'' @ uuid) now expires (after_call db) of
       (Inl x, _) \<Rightarrow> (Inl x, after_call db)
     | (Inr (row, recov, invalid), t) \<Rightarrow>
         (if invalid \<noteq> None then Inl StoredDataInvalid else transpose_map (try_into_item C) row, t))"
  using up v e by (auto simp: claim_next_def claim_next_cancellable_def bnd_connection lift_sum_def
      op_simps split: prod.splits sum.splits)

definition best_claimable :: "string \<Rightarrow> string \<Rightarrow> stored_work_row list \<Rightarrow> stored_work_row \<Rightarrow> bool" where
  "best_claimable target now_text rows r \<longleftrightarrow>
     r \<in> set rows \<and> claimable target now_text r \<and>
     (\<forall>q \<in> set rows. claimable target now_text q \<longrightarrow> claim_key r \<le> claim_key q)"

lemma candidate_cases:
  obtains "query_claim_candidate rows target now_text = None"
    and "\<And>r. r \<in> set rows \<Longrightarrow> \<not> claimable target now_text r"
  | r where "query_claim_candidate rows target now_text = Some (r_id r)"
    and "best_claimable target now_text rows r"
proof (cases "query_claim_candidate rows target now_text")
  case None
  with query_claim_candidate_None that(1) show ?thesis by blast
next
  case (Some i)
  from query_claim_candidate_Some [OF this] Some that(2) show ?thesis
    by (auto simp: best_claimable_def)
qed

lemma row_ok_recovered:
  assumes "rfc3339_text C" and "clock_ok C now" and "table_ok C rows"
  shows "table_ok C (recover_table C target now rows)"
  using table_ok_step [OF assms(1) recover_table_step [OF assms(1,2)] assms(3)] .

text \<open>
  C1: on a table in good order, a claim first returns the expired leases of its target, then
  hands out exactly the best of the due pending items (highest priority, then earliest
  available, then oldest, then smallest id), leased to the caller, and leaves every other row
  alone; it finds nothing only when nothing is due.
\<close>

theorem claim_next_takes_the_best:
  assumes C: "rfc3339_text C" and now: "clock_ok C now" and ok: "table_ok C (work_rows db)"
    and up: "call_ok db" and v: "validate_routing_value target InvalidTarget = Inr ()"
    and e: "validate_lease C own now d = Inr expires" and uuid: "length uuid \<le> 122"
  shows "let rows = recover_table C target now (work_rows db);
             lease = set_leased own (''lease-'' @ uuid) (format_timestamp C expires) (format_timestamp C now)
         in ((\<forall>r \<in> set rows. \<not> claimable target (format_timestamp C now) r) \<and>
              claim_next C uuid target own now d db = (Inr None, (after_call db)\<lparr>work_rows := rows\<rparr>)) \<or>
            (\<exists>r it. best_claimable target (format_timestamp C now) rows r \<and>
              try_into_item C (lease r) = Inr it \<and>
              claim_next C uuid target own now d db =
                (Inr (Some it), (after_call db)\<lparr>work_rows := map (\<lambda>q. if q = r then lease q else q) rows\<rparr>))"
proof -
  let ?rows = "recover_table C target now (work_rows db)"
  let ?lease = "set_leased own (''lease-'' @ uuid) (format_timestamp C expires) (format_timestamp C now)"
  have u: "unique_key r_id (work_rows (after_call db))"
    using ok by (simp add: table_ok_def conflict_free_ids)
  note apply_eq = claim_next_apply [OF up v e, of uuid]
  show ?thesis
  proof (cases rule: candidate_cases [of ?rows target "format_timestamp C now"])
    case 1
    with claim_tx_none [OF u, of C target now own "''lease-'' @ uuid" expires] show ?thesis
      by (auto simp: apply_eq)
  next
    case (2 r)
    have r: "r \<in> set ?rows" "claimable target (format_timestamp C now) r"
      using 2(2) by (simp_all add: best_claimable_def)
    have okr: "row_ok C r" using row_ok_recovered [OF C now ok, of target] r(1) by (simp add: table_ok_def)
    have u': "unique_key r_id ?rows" using u by simp
    have "row_step C r (?lease r)"
      using okr r(2) uuid validate_lease_Inr(3-5) [OF e] clock_ok_now [OF C now]
        clock_ok_text [OF C now, of expires]
      by (intro row_step.lease) (auto simp: claimable_def row_ok_def name_ok_def MAX_ROUTING_BYTES_def)
    from row_ok_step [OF C this okr] obtain it where it: "try_into_item C (?lease r) = Inr it"
      by (auto simp: row_ok_def readable_def)
    have "on_row (r_id r) ?lease ?rows = map (\<lambda>q. if q = r then ?lease q else q) ?rows"
      using unique_key_eq [OF u' _ r(1)] by (auto simp: on_row_def)
    with claim_tx_some [OF u, of r C target now own "''lease-'' @ uuid" expires] r(1) 2(1) okr it
    have "claim_next C uuid target own now d db =
        (Inr (Some it), (after_call db)\<lparr>work_rows := map (\<lambda>q. if q = r then ?lease q else q) ?rows\<rparr>)"
      by (auto simp: apply_eq row_ok_def)
    with 2(2) it show ?thesis unfolding Let_def by blast
  qed
qed

theorem claim_next_takes_the_best_witness:
  "\<exists>it. claim_next sample_codec ''u'' ''t'' ''o'' 6 one_second (sample_db [sample_row ''w'']) =
     (Inr (Some it), sample_db [leased_row ''w'' 1000000006])"
proof -
  have rows: "recover_table sample_codec ''t'' 6 [sample_row ''w''] = [sample_row ''w'']"
    by (simp add: recover_table_def)
  have "claimable ''t'' (digits 8 6) (sample_row ''w'')"
    by (simp add: claimable_def digits_8_le)
  then show ?thesis
    using claim_next_takes_the_best [of sample_codec 6 "sample_db [sample_row ''w'']" "''t''" "''o''"
        one_second 1000000006 "''u''"]
    by (auto simp: rows sample_clock_ok sample_lease best_claimable_def leased_row_def sample_db_def Let_def
        validate_routing_value_def MAX_ROUTING_BYTES_def)
qed

section \<open>Recovery of expired leases\<close>

definition recovered_as :: "codec \<Rightarrow> string \<Rightarrow> nat \<Rightarrow> (recovery_disposition \<Rightarrow> bool) \<Rightarrow> stored_work_row \<Rightarrow> bool" where
  "recovered_as C target now p r \<longleftrightarrow>
     r_target r = target \<and> (case disposition C now r of None \<Rightarrow> False | Some d \<Rightarrow> p d)"

lemma fold_note_recovery:
  "outcome (fold (note_recovery C now) rs tr) =
     \<lparr>requeued = requeued (outcome tr) + length (filter (\<lambda>r. disposition C now r = Some Requeued) rs),
      dead_lettered = dead_lettered (outcome tr) +
        length (filter (\<lambda>r. \<exists>code. disposition C now r = Some (DeadLetter code)) rs)\<rparr>"
proof (induction rs arbitrary: tr)
  case (Cons r rs)
  then show ?case
    by (cases "disposition C now r") (auto simp: note_recovery_def split: recovery_disposition.splits)
qed simp

lemma not_Requeued: "d \<noteq> Requeued \<longleftrightarrow> (\<exists>code. d = DeadLetter code)"
  by (cases d) auto

lemma filter_leased_rows:
  "(\<And>r. P r \<Longrightarrow> r_status r = ''leased'') \<Longrightarrow>
   filter P (leased_rows target rows) = filter (\<lambda>r. r_target r = target \<and> P r) rows"
  by (auto simp: leased_rows_def intro: filter_cong)

text \<open>
  Recovering the expired leases of a target disposes of each of its leased rows on its own:
  an unreadable one is dead-lettered for an integrity violation, a lease still running is left
  alone, an expired one goes back to pending while it has attempts left and is dead-lettered
  when it has none; the counts returned are those of the rows so disposed of, and no other row
  changes. So one pass over the table is equal to the loop that re-reads every row by its id.
\<close>

theorem recover_expired_is_one_pass:
  assumes "conflict_free (work_rows db)" and "call_ok db"
    and "validate_routing_value target InvalidTarget = Inr ()"
  shows "recover_expired C target now db =
    (Inr \<lparr>requeued = length (filter (recovered_as C target now (\<lambda>d. d = Requeued)) (work_rows db)),
          dead_lettered = length (filter (recovered_as C target now (\<lambda>d. d \<noteq> Requeued)) (work_rows db))\<rparr>,
     (after_call db)\<lparr>work_rows :=
        map (\<lambda>r. if r_target r = target then recover_row C now r else r) (work_rows db)\<rparr>)"
proof -
  have u: "unique_key r_id (work_rows (after_call db))" using assms(1) by (simp add: conflict_free_ids)
  have "filter (\<lambda>r. disposition C now r = Some Requeued) (leased_rows target (work_rows db)) =
      filter (recovered_as C target now (\<lambda>d. d = Requeued)) (work_rows db)"
    by (subst filter_leased_rows)
      (auto simp: disposition_def recovered_as_def intro!: filter_cong split: if_splits option.splits)
  moreover have "filter (\<lambda>r. \<exists>code. disposition C now r = Some (DeadLetter code)) (leased_rows target (work_rows db)) =
      filter (recovered_as C target now (\<lambda>d. d \<noteq> Requeued)) (work_rows db)"
    by (subst filter_leased_rows)
      (auto simp: disposition_def recovered_as_def not_Requeued intro!: filter_cong
        split: if_splits option.splits)
  ultimately show ?thesis
    by (simp add: recover_expired_def assms(2,3) bnd_connection recover_in_tx_eq [OF u] op_simps fold_note_recovery
        recover_table_def recovery_default_def)
qed

lemma leased_row_item:
  assumes "i \<noteq> []" and "length i \<le> 100" and "e \<le> 2 ^ 62"
  obtains it where "try_into_item sample_codec (leased_row i e) = Inr it"
    and "lease_expires_at it = Some e" and "attempts it = 1" and "env_max_attempts (envelope it) = 2"
proof -
  obtain it where it: "try_into_item sample_codec (leased_row i e) = Inr it"
    using leased_row_ok [OF assms] by (auto simp: row_ok_def readable_def)
  have "parse_timestamp sample_codec (digits 8 e) = Some e"
    using rfc3339_parse [OF sample_rfc3339, of e] assms(3) by (simp add: sample_codec_def)
  with try_into_itemD(7) [OF it] have "lease_expires_at it = Some e"
    by (auto simp: transpose_map_Inr)
  moreover have "attempts it = 1" "env_max_attempts (envelope it) = 2"
    using try_into_itemD(3,4) [OF it] by (simp_all add: word_uint_eq_iff)
  ultimately show ?thesis using it that by blast
qed

theorem recover_expired_is_one_pass_witness:
  "fst (recover_expired sample_codec ''t'' 9 (sample_db [leased_row ''w'' 8, sample_row ''v''])) =
     Inr \<lparr>requeued = 1, dead_lettered = 0\<rparr>"
proof -
  obtain it where it: "try_into_item sample_codec (leased_row ''w'' 8) = Inr it"
    "lease_expires_at it = Some 8" "attempts it = 1" "env_max_attempts (envelope it) = 2"
    by (rule leased_row_item [of "''w''" 8]) simp_all
  have d: "disposition sample_codec 9 (leased_row ''w'' 8) = Some Requeued"
    "disposition sample_codec 9 (sample_row ''v'') = None"
    by (simp_all add: disposition_def it word_le_def)
  have "conflict_free (work_rows (sample_db [leased_row ''w'' 8, sample_row ''v'']))"
    by (simp add: conflict_free_def work_row_conflicts_def)
  from recover_expired_is_one_pass [OF this, of "''t''" sample_codec 9] show ?thesis
    by (simp add: recovered_as_def d validate_routing_value_def MAX_ROUTING_BYTES_def)
qed

section \<open>Leases are fences\<close>

lemma find_holds_lease:
  assumes "\<And>r. r \<in> set rows \<Longrightarrow> \<not> holds_lease i own tok now_text r"
  shows "sql_changes (holds_lease i own tok now_text) rows = 0"
    and "find (holds_lease i own tok now_text) rows = None"
    and "sql_update (holds_lease i own tok now_text) f rows = rows"
  using assms by (auto simp: sql_changes_0_iff find_None_iff sql_update_id)

text \<open>
  C2: a caller that does not hold the current lease of an item (another token or owner, an
  expired lease, a row that is no longer leased) cannot complete it, fail it or renew its lease:
  each of the three returns the stale lease error and leaves the table as it was.
\<close>

theorem stale_lease_is_fenced:
  assumes "call_ok db" and "validate_lease C own now d = Inr expires"
    and "\<forall>r \<in> set (work_rows db). \<not> (r_id r = i \<and> r_status r = ''leased'' \<and>
      r_lease_owner r = Some own \<and> r_lease_token r = Some tok \<and>
      (case r_lease_expires_at r of None \<Rightarrow> False | Some e \<Rightarrow> format_timestamp C now < e))"
  shows "complete C i own tok now db = (Inl StaleLease, after_call db) \<and>
    work_fail C i own tok now code retryable db = (Inl StaleLease, after_call db) \<and>
    renew_lease C i own tok now d db = (Inl StaleLease, after_call db)"
proof -
  note none = find_holds_lease [of "work_rows db" i own tok "format_timestamp C now"]
  have same: "(after_call db)\<lparr>work_rows := work_rows db\<rparr> = after_call db"
    by (cases db) (simp add: after_call_def)
  have "\<forall>r \<in> set (work_rows db). \<not> holds_lease i own tok (format_timestamp C now) r"
    using assms(3) unfolding holds_lease_def by blast
  then show ?thesis
    by (simp add: complete_def work_fail_def renew_lease_def bnd_connection assms(1,2)
        Let_def op_simps fail_tx_apply none same)
qed

theorem stale_lease_is_fenced_witness:
  "complete sample_codec ''w'' ''o'' ''lease-v'' 7 (sample_db [leased_row ''w'' 8]) =
     (Inl StaleLease, sample_db [leased_row ''w'' 8])"
  using stale_lease_is_fenced [of "sample_db [leased_row ''w'' 8]" sample_codec "''o''" 7 one_second
      1000000007 "''w''" "''lease-v''" HandlerRejected True]
  by (simp add: sample_lease holds_lease_def)

text \<open>
  The holder of a running lease completes its item in one step: the call succeeds, the row
  becomes completed at that instant with its lease cleared, and no other row changes. A failure
  reported by the holder sends the item back to pending, due after the retry delay, while the
  failure is retryable and attempts are left, and dead-letters it otherwise.
\<close>

theorem holder_settles_the_item:
  assumes "conflict_free (work_rows db)" and "call_ok db" and "fail_due now r \<le> ts_max C"
    and "r \<in> set (work_rows db)" and "holds_lease i own tok (format_timestamp C now) r"
  shows "complete C i own tok now db =
      (Inr (), (after_call db)\<lparr>work_rows := map (\<lambda>q. if q = r
         then set_terminal ''completed'' (format_timestamp C now) r else q) (work_rows db)\<rparr>) \<and>
    work_fail C i own tok now code retryable db =
      (if retryable \<and> r_attempts r < r_max_attempts r
       then (Inr WPending, (after_call db)\<lparr>work_rows := map (\<lambda>q. if q = r
         then set_failed WPending (format_timestamp C (fail_due now r)) code (format_timestamp C now) None r
         else q) (work_rows db)\<rparr>)
       else (Inr WDeadLetter, (after_call db)\<lparr>work_rows := map (\<lambda>q. if q = r
         then set_failed WDeadLetter (format_timestamp C now) code (format_timestamp C now)
           (Some (format_timestamp C now)) r else q) (work_rows db)\<rparr>))"
proof -
  let ?h = "holds_lease i own tok (format_timestamp C now)"
  have u: "unique_key r_id (work_rows db)" using assms(1) by (rule conflict_free_ids)
  have same: "?h q \<longleftrightarrow> q = r" if "q \<in> set (work_rows db)" for q
    using unique_key_eq [OF u that assms(4)] assms(5) by (auto simp: holds_lease_def)
  have upd: "sql_update ?h f (work_rows db) = map (\<lambda>q. if q = r then f r else q) (work_rows db)" for f
    using same by (auto simp: sql_update_def)
  have found: "find ?h (work_rows db) = Some r"
    by (rule find_only) (simp_all add: assms(4,5) same)
  have only: "filter ?h (work_rows db) = filter ((=) r) (work_rows db)"
    using same by (auto intro: filter_cong)
  have "length (filter ((=) r) (work_rows db)) = card (set (filter ((=) r) (work_rows db)))"
    by (rule distinct_card [symmetric]) (use u in \<open>simp add: distinct_map\<close>)
  also have "set (filter ((=) r) (work_rows db)) = {r}" using assms(4) by auto
  finally have one: "sql_changes ?h (work_rows db) = 1" by (simp add: sql_changes_def only)
  show ?thesis
    using assms(3) by (simp add: complete_def work_fail_def bnd_connection assms(2) Let_def op_simps
        fail_tx_apply found one upd)
qed

theorem holder_settles_the_item_witness:
  "fst (complete sample_codec ''w'' ''o'' ''lease-u'' 7 (sample_db [leased_row ''w'' 8])) = Inr () \<and>
   fst (work_fail sample_codec ''w'' ''o'' ''lease-u'' 7 Timeout True (sample_db [leased_row ''w'' 8]))
     = Inr WPending"
proof -
  have "fail_due 7 (leased_row ''w'' 8) \<le> ts_max sample_codec"
    using retry_delay_le [of "word_of_int (r_attempts (leased_row ''w'' 8))"]
    by (simp add: fail_due_def ns_of_secs_def sample_codec_def work_bounds)
  then show ?thesis
    using holder_settles_the_item [of "sample_db [leased_row ''w'' 8]" 7 "leased_row ''w'' 8" sample_codec
        "''w''" "''o''" "''lease-u''" Timeout True]
    by (simp add: conflict_free_def holds_lease_def digits_8_less)
qed

end
