(* ===== verification/Work_History.thy ===== *)
theory Work_History
  imports Work_Queue
begin

text \<open>
  Properties of the work queue over whole histories, and of the operations its callers build
  on: what goes in comes out, deduplication, cancellation in scope, listing by pages, the
  disposal of rows that do not read.
\<close>

section \<open>Every history\<close>

text \<open>
  C3: whatever the clients do, in whatever order, with whatever connection failures: every row
  of the table reads back as an item, a pending item has attempts left (so none is stuck), and
  no two rows share an id or a dedupe key of one source.
\<close>

theorem every_history_keeps_the_table_in_order:
  assumes "rfc3339_text C" and "list_all (cmd_ok C) cs" and "table_ok C (work_rows db)"
  shows "let rows = work_rows (snd (work_run C cs db)) in
    (\<forall>r \<in> set rows. \<exists>it. try_into_item C r = Inr it \<and>
       (status it = WPending \<longrightarrow> attempts it < env_max_attempts (envelope it))) \<and>
    sorted_wrt (\<lambda>q r. \<not> work_row_conflicts r q) rows"
proof -
  have ok: "table_ok C (work_rows (snd (work_run C cs db)))"
    using run_table_ok [OF assms] .
  have "\<exists>it. try_into_item C r = Inr it \<and> (status it = WPending \<longrightarrow> attempts it < env_max_attempts (envelope it))"
    if r: "row_ok C r" for r
  proof -
    obtain it where it: "try_into_item C r = Inr it" using r by (auto simp: row_ok_def readable_def)
    with r try_into_itemD(2,3,4) [OF it] show ?thesis by (auto simp: row_ok_def word_less_def)
  qed
  with ok show ?thesis by (simp add: table_ok_def conflict_free_def)
qed

theorem every_history_keeps_the_table_in_order_witness:
  "sorted_wrt (\<lambda>q r. \<not> work_row_conflicts r q) (work_rows (snd (work_run sample_codec
     [DoEnqueue (sample_envelope ''w'' 0), DoRecover ''t'' 7] (sample_db []))))"
  using every_history_keeps_the_table_in_order [of sample_codec
      "[DoEnqueue (sample_envelope ''w'' 0), DoRecover ''t'' 7]" "sample_db []"]
  by (simp add: sample_storable sample_clock_ok table_ok_def conflict_free_def Let_def
      del: work_run.simps)

text \<open>
  C4: a settled item stays as it was settled: once a row is completed, dead-lettered or
  canceled, no history changes anything of it.
\<close>

theorem settled_items_never_change:
  assumes "rfc3339_text C" and "list_all (cmd_ok C) cs" and "table_ok C (work_rows db)"
    and "r \<in> set (work_rows db)" and "r_status r \<in> {''completed'', ''dead_letter'', ''canceled''}"
  shows "r \<in> set (work_rows (snd (work_run C cs db)))"
proof -
  obtain q where "q \<in> set (work_rows (snd (work_run C cs db)))" "(row_step C)\<^sup>*\<^sup>* r q"
    using run_keeps_row [OF assms(1-4)] .
  with terminal_row_steps [of C r q] assms(5) show ?thesis by (auto simp: live_def)
qed

definition completed_row :: "string \<Rightarrow> stored_work_row" where
  "completed_row i = set_terminal ''completed'' (format_timestamp sample_codec 7) (leased_row i 8)"

lemma completed_row_ok: "i \<noteq> [] \<Longrightarrow> length i \<le> 100 \<Longrightarrow> row_ok sample_codec (completed_row i)"
  using row_ok_step [OF sample_rfc3339 row_step.finish leased_row_ok, of i 8] clock_ok_now [OF sample_rfc3339 sample_clock_ok, of 7]
  by (simp add: completed_row_def)

theorem settled_items_never_change_witness:
  "completed_row ''w'' \<in> set (work_rows (snd (work_run sample_codec
     [DoFail ''w'' ''o'' ''lease-u'' 7 Timeout True, DoCancel \<lparr>sc_source = ''s'', sc_kind = ''k'', sc_actor_id = ''a''\<rparr> ''w'' 8]
     (sample_db [completed_row ''w'']))))"
  using settled_items_never_change [of sample_codec
      "[DoFail ''w'' ''o'' ''lease-u'' 7 Timeout True, DoCancel \<lparr>sc_source = ''s'', sc_kind = ''k'', sc_actor_id = ''a''\<rparr> ''w'' 8]"
      "sample_db [completed_row ''w'']" "completed_row ''w''"] completed_row_ok [of "''w''"]
  by (simp add: sample_clock_ok table_ok_def conflict_free_def completed_row_def set_terminal_def
      del: work_run.simps)

text \<open>
  C5: an item is handed out at most as often as it has attempts: over any history, the claims
  that return it and the attempts it had used before never exceed its maximum.
\<close>

theorem claims_never_exceed_the_attempts:
  assumes "rfc3339_text C" and "list_all (cmd_ok C) cs" and "table_ok C (work_rows db)"
    and "r \<in> set (work_rows db)"
  shows "r_attempts r + int (count_list (fst (work_run C cs db)) (r_id r)) \<le> r_max_attempts r"
proof -
  obtain q where q: "q \<in> set (work_rows (snd (work_run C cs db)))" "(row_step C)\<^sup>*\<^sup>* r q"
    using run_keeps_row [OF assms] .
  have "r_attempts q \<le> r_max_attempts q"
    using run_table_ok [OF assms(1-3)] q(1)
    by (auto simp: table_ok_def row_ok_def readable_iff moving_part_ok_def)
  with run_counts_claims [OF assms q(1)] row_steps_same [OF q(2)] show ?thesis by simp
qed

theorem claims_never_exceed_the_attempts_witness:
  "count_list (fst (work_run sample_codec
     [DoClaim ''u'' ''t'' ''o'' 6 one_second NeverCancelled, DoClaim ''v'' ''t'' ''o'' 7 one_second NeverCancelled]
     (sample_db [leased_row ''w'' 5]))) ''w'' \<le> 1"
  using claims_never_exceed_the_attempts [of sample_codec
      "[DoClaim ''u'' ''t'' ''o'' 6 one_second NeverCancelled, DoClaim ''v'' ''t'' ''o'' 7 one_second NeverCancelled]"
      "sample_db [leased_row ''w'' 5]" "leased_row ''w'' 5"]
  by (simp add: sample_clock_ok del: work_run.simps)

section \<open>Enqueueing\<close>

lemma new_row_item:
  assumes C: "rfc3339_text C" and env: "storable C env"
  obtains it where "try_into_item C (row_of_envelope C env) = Inr it" and "envelope it = env"
    and "status it = WPending" and "attempts it = 0" and "available_at it = env_created_at env"
proof -
  obtain it where it: "try_into_item C (row_of_envelope C env) = Inr it"
    using row_of_envelope_ok [OF C env] by (auto simp: row_ok_def readable_def)
  have t: "parse_timestamp C (format_timestamp C (env_created_at env)) = Some (env_created_at env)"
    and j: "json_from_str C (json_to_string C (env_payload env)) = Some (env_payload env)"
    using env rfc3339_parse [OF C] by (simp_all add: storable_def)
  have "envelope it = env"
    using it by (auto simp: try_into_item_def sbind_eq_Inr Let_def row_of_envelope_def
        row_provenance_def t j split: if_splits)
  moreover have "status it = WPending" "attempts it = 0" "available_at it = env_created_at env"
    using try_into_itemD [OF it] t work_status_parse_Inr [of "''pending''" "status it"]
    by (simp_all add: row_of_envelope_def work_status_parse_def word_uint_eq_iff)
  ultimately show ?thesis using it that by blast
qed

lemma enqueue_apply:
  assumes "call_ok db"
  shows "enqueue C env db =
    (let (n, rows) = insert_or_ignore (row_of_envelope C env) (work_rows db);
         db' = (after_call db)\<lparr>work_rows := rows\<rparr>
     in case (if n = 1 then query_stored_by_id rows (env_id env)
              else Option.bind (env_dedupe_key env) (query_stored_by_dedupe rows (env_source env))) of
          None \<Rightarrow> (Inl StorageUnavailable, db')
        | Some r \<Rightarrow> (case try_into_item C r of Inl e \<Rightarrow> (Inl e, db')
            | Inr it \<Rightarrow> (Inr \<lparr>eo_item = it, eo_inserted = (n = 1)\<rparr>, db')))"
  using assms
  by (simp add: enqueue_def bnd_connection enqueue_tx_apply Let_def bnd_cases ret_apply
      split: prod.split option.split sum.split)

lemma row_of_envelope_simps [simp]:
  "r_id (row_of_envelope C env) = env_id env"
  "r_source (row_of_envelope C env) = env_source env"
  "r_dedupe_key (row_of_envelope C env) = env_dedupe_key env"
  by (simp_all add: row_of_envelope_def)

lemma row_ok_checks: "row_ok C r \<Longrightarrow> work_row_checks r"
  by (auto simp: row_ok_def readable_iff fixed_part_ok_def moving_part_ok_def state_part_ok_def
      work_row_checks_def MAX_PAYLOAD_BYTES_def)

lemma get_apply:
  "call_ok db \<Longrightarrow> get C i db =
     (transpose_map (try_into_item C) (query_stored_by_id (work_rows db) i), after_call db)"
  by (simp add: get_def bnd_connection op_simps lift_sum_def)

text \<open>
  What is enqueued comes out: an authorized envelope whose id and dedupe key are new is
  stored as a pending item with no attempts used, due at once, and both the call and a later
  lookup by its id return the very envelope that went in.
\<close>

theorem enqueued_envelope_comes_out:
  assumes C: "rfc3339_text C" and env: "storable C env" and up: "call_ok db" "call_ok (after_call db)"
    and new: "\<forall>r \<in> set (work_rows db). \<not> work_row_conflicts (row_of_envelope C env) r"
  shows "\<exists>it db'. enqueue C env db = (Inr \<lparr>eo_item = it, eo_inserted = True\<rparr>, db') \<and>
    envelope it = env \<and> status it = WPending \<and> attempts it = 0 \<and>
    available_at it = env_created_at env \<and>
    work_rows db' = work_rows db @ [row_of_envelope C env] \<and>
    fst (get C (env_id env) db') = Inr (Some it)"
proof -
  obtain it where it: "try_into_item C (row_of_envelope C env) = Inr it" "envelope it = env"
    "status it = WPending" "attempts it = 0" "available_at it = env_created_at env"
    using new_row_item [OF C env] .
  let ?rows = "work_rows db @ [row_of_envelope C env]"
  have "find (\<lambda>r. r_id r = env_id env) (work_rows db) = None"
    using new by (auto simp: find_None_iff work_row_conflicts_def)
  then have found: "query_stored_by_id ?rows (env_id env) = Some (row_of_envelope C env)"
    by (auto simp: query_stored_by_id_def find_append_split)
  have ins: "insert_or_ignore (row_of_envelope C env) (work_rows db) = (1, ?rows)"
    using new row_ok_checks [OF row_of_envelope_ok [OF C env]]
    by (auto simp: insert_or_ignore_def list_ex_iff)
  have enq: "enqueue C env db =
      (Inr \<lparr>eo_item = it, eo_inserted = True\<rparr>, (after_call db)\<lparr>work_rows := ?rows\<rparr>)"
    by (simp add: enqueue_apply [OF up(1)] ins found it(1))
  have "call_ok ((after_call db)\<lparr>work_rows := ?rows\<rparr>)" using up(2) by (simp add: call_ok_def)
  then have "fst (get C (env_id env) ((after_call db)\<lparr>work_rows := ?rows\<rparr>)) = Inr (Some it)"
    by (simp add: get_apply found it(1))
  with enq it show ?thesis by auto
qed

theorem enqueued_envelope_comes_out_witness:
  "\<exists>it. fst (enqueue sample_codec (sample_envelope ''w'' 0) (sample_db [sample_row ''v''])) =
      Inr \<lparr>eo_item = it, eo_inserted = True\<rparr> \<and> envelope it = sample_envelope ''w'' 0"
proof -
  have st: "storable sample_codec (sample_envelope ''w'' 0)" by (simp add: sample_storable)
  have "\<forall>r \<in> set (work_rows (sample_db [sample_row ''v''])).
      \<not> work_row_conflicts (row_of_envelope sample_codec (sample_envelope ''w'' 0)) r"
    by (simp add: work_row_conflicts_def sample_envelope_def)
  from enqueued_envelope_comes_out [OF sample_rfc3339 st _ _ this] show ?thesis by auto
qed

text \<open>
  Enqueueing is idempotent: while a row with the source and dedupe key of an envelope is in
  the table, whatever its state, enqueueing that envelope again inserts nothing, changes
  nothing, and returns the item that is already there.
\<close>

theorem enqueue_is_idempotent:
  assumes ok: "table_ok C (work_rows db)" and up: "call_ok db"
    and r: "r \<in> set (work_rows db)" "r_source r = env_source env" "r_dedupe_key r = Some k"
    and k: "env_dedupe_key env = Some k"
  shows "\<exists>it. try_into_item C r = Inr it \<and>
    enqueue C env db = (Inr \<lparr>eo_item = it, eo_inserted = False\<rparr>, after_call db)"
proof -
  obtain it where it: "try_into_item C r = Inr it"
    using ok r(1) by (auto simp: table_ok_def row_ok_def readable_def)
  have "work_row_conflicts (row_of_envelope C env) r"
    using r k by (simp add: work_row_conflicts_def)
  then have ins: "insert_or_ignore (row_of_envelope C env) (work_rows db) = (0, work_rows db)"
    using r(1) by (auto simp: insert_or_ignore_def list_ex_iff)
  have same: "q = r" if "q \<in> set (work_rows db)" "r_source q = env_source env" "r_dedupe_key q = Some k" for q
    using conflict_free_same [of "work_rows db" q r] ok r that
    by (simp add: table_ok_def work_row_conflicts_def)
  have found: "query_stored_by_dedupe (work_rows db) (env_source env) k = Some r"
    unfolding query_stored_by_dedupe_def by (rule find_only) (simp_all add: r same)
  have "(after_call db)\<lparr>work_rows := work_rows db\<rparr> = after_call db"
    by (cases db) (simp add: after_call_def)
  with it show ?thesis by (simp add: enqueue_apply [OF up] ins found k)
qed

theorem enqueue_is_idempotent_witness:
  "\<exists>it. enqueue sample_codec (sample_envelope ''w'' 3) (sample_db [leased_row ''w'' 8]) =
     (Inr \<lparr>eo_item = it, eo_inserted = False\<rparr>, sample_db [leased_row ''w'' 8])"
  using enqueue_is_idempotent [of sample_codec "sample_db [leased_row ''w'' 8]" "leased_row ''w'' 8"
      "sample_envelope ''w'' 3" "''w''"]
  by (auto simp: sample_envelope_def)

section \<open>Rows that do not read\<close>

text \<open>
  C6: a poisoned row does not block the queue: when the best due row of the table does not read
  (its payload, limits or timestamps are damaged), the claim reports invalid stored data once
  and has moved that row to the dead letters for an integrity violation, with every other row as
  the recovery left it.
\<close>

theorem poisoned_row_is_buried:
  assumes cf: "conflict_free (work_rows db)" and up: "call_ok db"
    and v: "validate_routing_value target InvalidTarget = Inr ()"
    and e: "validate_lease C own now d = Inr expires"
    and r: "best_claimable target (format_timestamp C now) (recover_table C target now (work_rows db)) r"
    and only: "\<forall>q \<in> set (recover_table C target now (work_rows db)).
      claimable target (format_timestamp C now) q \<and> claim_key q \<le> claim_key r \<longrightarrow> q = r"
    and bad: "\<not> readable C r"
  shows "claim_next C uuid target own now d db =
    (Inl StoredDataInvalid, (after_call db)\<lparr>work_rows :=
       map (\<lambda>q. if q = r then set_dead_letter IntegrityViolation (format_timestamp C now) r else q)
         (recover_table C target now (work_rows db))\<rparr>)"
proof -
  let ?rows = "recover_table C target now (work_rows db)"
  have u: "unique_key r_id (work_rows (after_call db))" using cf by (simp add: conflict_free_ids)
  then have u': "unique_key r_id ?rows" by simp
  have rin: "r \<in> set ?rows" using r by (simp add: best_claimable_def)
  have cand: "query_claim_candidate ?rows target (format_timestamp C now) = Some (r_id r)"
  proof (cases rule: candidate_cases [of ?rows target "format_timestamp C now"])
    case 1
    with r show ?thesis by (auto simp: best_claimable_def)
  next
    case (2 q)
    with r have "claim_key q \<le> claim_key r" "q \<in> set ?rows" "claimable target (format_timestamp C now) q"
      by (auto simp: best_claimable_def)
    with only have "q = r" by blast
    with 2 show ?thesis by simp
  qed
  have "on_row (r_id r) f ?rows = map (\<lambda>q. if q = r then f r else q) ?rows" for f
    using unique_key_eq [OF u' _ rin] by (auto simp: on_row_def)
  with claim_tx_some [OF u, of r C target now own "''lease-'' @ uuid" expires] rin cand bad show ?thesis
    by (auto simp: claim_next_apply [OF up v e])
qed

definition poisoned_row :: stored_work_row where
  "poisoned_row = (sample_row ''w'')\<lparr>r_payload_json := replicate (Suc MAX_PAYLOAD_BYTES) CHR ''p''\<rparr>"

theorem poisoned_row_is_buried_witness:
  "fst (claim_next sample_codec ''u'' ''t'' ''o'' 6 one_second (sample_db [poisoned_row])) =
     Inl StoredDataInvalid"
proof -
  have rows: "recover_table sample_codec ''t'' 6 [poisoned_row] = [poisoned_row]"
    by (simp add: recover_table_def poisoned_row_def)
  have bad: "\<not> readable sample_codec poisoned_row"
    by (simp add: readable_iff fixed_part_ok_def poisoned_row_def)
  have cl: "claimable ''t'' (digits 8 6) poisoned_row"
    by (simp add: claimable_def poisoned_row_def digits_8_le)
  show ?thesis
    using poisoned_row_is_buried [of "sample_db [poisoned_row]" "''t''" sample_codec "''o''" 6 one_second
        1000000006 poisoned_row "''u''"] bad cl
    by (simp add: rows conflict_free_def best_claimable_def sample_lease validate_routing_value_def
        MAX_ROUTING_BYTES_def)
qed

end
