(* ===== verification/Work_Scopes.thy ===== *)
theory Work_Scopes
  imports Work_History
begin

text \<open>
  What a client sees of its own items: cancellation of the item with a correlation id in a
  scope, and the listing of a scope page by page.
\<close>

section \<open>Retry delays\<close>

text \<open>
  the retry delay doubles from one second with every attempt and is capped at 300 seconds,
  for every value of the attempt counter; the shift of the code never overflows.
\<close>

theorem retry_delay_doubles_up_to_300:
  "unat (retry_delay att) = min (2 ^ (unat att - 1)) 300"
proof (cases "unat att - 1 \<le> 20")
  case False
  then have "(2::nat) ^ 20 \<le> 2 ^ (unat att - 1)" by (intro power_increasing) auto
  with False show ?thesis by (simp add: unat_retry_delay min_def)
qed (simp add: unat_retry_delay)

section \<open>Cancellation in scope\<close>

definition correlated :: "work_scope \<Rightarrow> string \<Rightarrow> stored_work_row \<Rightarrow> bool" where
  "correlated sc corr r \<longleftrightarrow> in_scope sc r \<and> r_correlation_id r = Some corr"

lemma scope_query_rows:
  "query_stored_by_scope rows sc corr = take 2 (order_desc page_key (filter (correlated sc corr) rows))"
  by (simp add: query_stored_by_scope_def correlated_def [abs_def])

lemma order_desc_singleton [simp]: "order_desc k [r] = [r]"
  by (simp add: order_desc_def)

lemma order_desc_Nil [simp]: "order_desc k [] = []"
  by (simp add: order_desc_def)

lemma cancel_scoped_apply:
  assumes "call_ok db" and "corr \<noteq> []" and "length corr \<le> MAX_CORRELATION_BYTES"
  shows "cancel_scoped C sc corr now db =
    (case cancel_tx C sc corr (format_timestamp C now) (after_call db) of
       (Inl e, _) \<Rightarrow> (Inl e, after_call db) | (Inr x, t) \<Rightarrow> (Inr x, t))"
  using assms by (simp add: cancel_scoped_def bnd_cases validate_optional_def in_connection_def
      with_connection_apply)

text \<open>
  Cancelling by correlation id touches at most the one item of the caller's scope that
  carries it: nothing carries it and nothing is found; several do and the call fails without a
  change; exactly one does, and it is canceled if it was pending or leased and reported as it is
  otherwise. Rows outside the scope never change.
\<close>

theorem cancel_touches_only_its_item:
  assumes C: "rfc3339_text C" and now: "clock_ok C now" and ok: "table_ok C (work_rows db)"
    and up: "call_ok db" and corr: "corr \<noteq> []" "length corr \<le> MAX_CORRELATION_BYTES"
  shows "let hits = filter (correlated sc corr) (work_rows db);
             (res, db') = cancel_scoped C sc corr now db
    in (hits = [] \<longrightarrow> res = Inr NotFoundOutcome \<and> db' = after_call db) \<and>
       (1 < length hits \<longrightarrow> res = Inl StorageUnavailable \<and> db' = after_call db) \<and>
       (\<forall>r. hits = [r] \<longrightarrow> (\<exists>it.
          (if live r then
             res = Inr (Canceled it) \<and>
             try_into_item C (set_terminal ''canceled'' (format_timestamp C now) r) = Inr it \<and>
             work_rows db' = map (\<lambda>q. if q = r
               then set_terminal ''canceled'' (format_timestamp C now) r else q) (work_rows db)
           else
             try_into_item C r = Inr it \<and> db' = after_call db \<and>
             res = Inr (if status it = WCanceled then AlreadyCanceled it else NotCancelable it))))"
proof -
  let ?hits = "filter (correlated sc corr) (work_rows db)"
  let ?now = "format_timestamp C now"
  note ap = cancel_scoped_apply [OF up corr, of C sc now]
  have one: "\<exists>it. (if live r then
             cancel_scoped C sc corr now db = (Inr (Canceled it), (after_call db)\<lparr>work_rows :=
               map (\<lambda>q. if q = r then set_terminal ''canceled'' ?now r else q) (work_rows db)\<rparr>) \<and>
             try_into_item C (set_terminal ''canceled'' ?now r) = Inr it
           else try_into_item C r = Inr it \<and> cancel_scoped C sc corr now db =
             (Inr (if status it = WCanceled then AlreadyCanceled it else NotCancelable it), after_call db))"
    if hits: "?hits = [r]" for r
  proof -
    have "r \<in> set ?hits" using hits by simp
    then have r: "r \<in> set (work_rows db)" "correlated sc corr r" by simp_all
    have okr: "row_ok C r" and u: "unique_key r_id (work_rows db)"
      using ok r(1) by (auto simp: table_ok_def conflict_free_ids)
    obtain it where it: "try_into_item C r = Inr it" using okr by (auto simp: row_ok_def readable_def)
    have q: "query_stored_by_scope (work_rows db) sc corr = [r]" by (simp add: scope_query_rows hits)
    show ?thesis
    proof (cases "live r")
      case True
      have same: "cancelable sc corr (r_id r) q \<longleftrightarrow> q = r" if "q \<in> set (work_rows db)" for q
        using unique_key_eq [OF u that r(1)] r(2) True
        by (auto simp: cancelable_def correlated_def live_def)
      have upd: "sql_update (cancelable sc corr (r_id r)) f (work_rows db) =
          map (\<lambda>q. if q = r then f r else q) (work_rows db)" for f
        using same by (auto simp: sql_update_def)
      have "sql_changes (\<lambda>q. r_id q = r_id r \<and> (in_scope sc q \<and> r_correlation_id q = Some corr \<and>
          r_status q \<in> {''pending'', ''leased''})) (work_rows db) = 1"
        by (rule sql_update_one(2) [OF u r(1)]) (use r(2) True in \<open>auto simp: correlated_def live_def\<close>)
      then have chg: "sql_changes (cancelable sc corr (r_id r)) (work_rows db) = 1"
        by (simp add: cancelable_def [abs_def])
      have "row_step C r (set_terminal ''canceled'' ?now r)"
        using True clock_ok_now [OF C now] by (rule row_step.cancel)
      from row_ok_step [OF C this okr] obtain it' where
        it': "try_into_item C (set_terminal ''canceled'' ?now r) = Inr it'"
        by (auto simp: row_ok_def readable_def)
      have "query_stored_by_id (map (\<lambda>q. if q = r then set_terminal ''canceled'' ?now r else q) (work_rows db))
          (r_id r) = Some (set_terminal ''canceled'' ?now r)"
        unfolding query_stored_by_id_def
        by (rule find_only) (use r(1) unique_key_eq [OF u _ r(1)] in
            \<open>auto simp: row_updates image_iff split: if_splits\<close>)
      moreover have "status it = WPending \<or> status it = WLeased"
        using True try_into_itemD(2) [OF it] by (cases "status it") (auto simp: live_def)
      ultimately show ?thesis
        using True it' try_into_itemD(1) [OF it] by (simp add: ap cancel_tx_apply q it upd chg Let_def)
    next
      case False
      then have "status it \<noteq> WPending" "status it \<noteq> WLeased"
        using try_into_itemD(2) [OF it] by (auto simp: live_def)
      with False it show ?thesis by (simp add: ap cancel_tx_apply q)
    qed
  qed
  have none: "cancel_scoped C sc corr now db = (Inr NotFoundOutcome, after_call db)" if "?hits = []"
    using that by (simp add: ap cancel_tx_apply scope_query_rows)
  have many: "cancel_scoped C sc corr now db = (Inl StorageUnavailable, after_call db)"
    if "1 < length ?hits"
  proof -
    have "1 < length (order_desc page_key ?hits)" using that by simp
    then obtain a b rest where "order_desc page_key ?hits = a # b # rest"
      by (cases "order_desc page_key ?hits"; cases "tl (order_desc page_key ?hits)") auto
    then show ?thesis by (simp add: ap cancel_tx_apply scope_query_rows numeral_2_eq_2)
  qed
  show ?thesis
    unfolding Let_def case_prod_beta
  proof (intro conjI impI allI)
    fix r assume "?hits = [r]"
    then obtain it where it: "if live r then
             cancel_scoped C sc corr now db = (Inr (Canceled it), (after_call db)\<lparr>work_rows :=
               map (\<lambda>q. if q = r then set_terminal ''canceled'' ?now r else q) (work_rows db)\<rparr>) \<and>
             try_into_item C (set_terminal ''canceled'' ?now r) = Inr it
           else try_into_item C r = Inr it \<and> cancel_scoped C sc corr now db =
             (Inr (if status it = WCanceled then AlreadyCanceled it else NotCancelable it), after_call db)"
      using one by blast
    show "\<exists>it. (if live r then
             fst (cancel_scoped C sc corr now db) = Inr (Canceled it) \<and>
             try_into_item C (set_terminal ''canceled'' ?now r) = Inr it \<and>
             work_rows (snd (cancel_scoped C sc corr now db)) = map (\<lambda>q. if q = r
               then set_terminal ''canceled'' ?now r else q) (work_rows db)
           else
             try_into_item C r = Inr it \<and> snd (cancel_scoped C sc corr now db) = after_call db \<and>
             fst (cancel_scoped C sc corr now db) =
               Inr (if status it = WCanceled then AlreadyCanceled it else NotCancelable it))"
      using it by (intro exI [of _ it]) (cases "live r"; simp)
  qed (use none many in \<open>simp_all only: fst_conv snd_conv\<close>)
qed

theorem cancel_touches_only_its_item_witness:
  "\<exists>it. fst (cancel_scoped sample_codec \<lparr>sc_source = ''s'', sc_kind = ''k'', sc_actor_id = ''a''\<rparr> ''w'' 7
     (sample_db [leased_row ''w'' 8])) = Inr (Canceled it)"
proof -
  have "correlated \<lparr>sc_source = ''s'', sc_kind = ''k'', sc_actor_id = ''a''\<rparr> ''w'' (leased_row ''w'' 8)"
    by (simp add: correlated_def in_scope_def leased_row_def set_leased_def sample_row_def
        row_of_envelope_def sample_envelope_def)
  then show ?thesis
    using cancel_touches_only_its_item [of sample_codec 7 "sample_db [leased_row ''w'' 8]" "''w''"
        "\<lparr>sc_source = ''s'', sc_kind = ''k'', sc_actor_id = ''a''\<rparr>"]
    by (auto simp: sample_clock_ok live_def work_bounds split: prod.splits)
qed

end
