(* ===== verification/Work_Pages.thy ===== *)
theory Work_Pages
  imports Work_Scopes "HOL-Library.Multiset"
begin

text \<open>
  Listing a scope page by page: following the cursors from the first page visits every item of
  the scope exactly once, newest first.
\<close>

section \<open>The rows of a page\<close>

definition scope_rows :: "work_scope \<Rightarrow> stored_work_row list \<Rightarrow> stored_work_row list" where
  "scope_rows sc rows = order_desc page_key (filter (in_scope sc) rows)"

definition item_of_row :: "codec \<Rightarrow> stored_work_row \<Rightarrow> work_item" where
  "item_of_row C r = projr (try_into_item C r)"

lemma order_desc_filter: "order_desc k (filter P xs) = filter P (order_desc k xs)"
  by (simp add: order_desc_def rev_filter filter_sort [symmetric])

lemma page_rows:
  "query_stored_page C rows sc cursor limit =
     take limit (filter (\<lambda>r. case cursor of None \<Rightarrow> True | Some c \<Rightarrow> past_cursor C c r) (scope_rows sc rows))"
proof -
  have "filter (\<lambda>r. in_scope sc r \<and> P r) rows = filter P (filter (in_scope sc) rows)" for P
    by (simp add: conj_commute)
  then show ?thesis by (simp add: query_stored_page_def scope_rows_def order_desc_filter)
qed

lemma sorted_strictly:
  "sorted_wrt (\<lambda>a b. k b \<le> k a) xs \<Longrightarrow> distinct (map k xs) \<Longrightarrow>
   sorted_wrt (\<lambda>a b. k b < (k a :: 'k::linorder)) xs"
  by (induction xs) (auto simp: order.strict_iff_order image_iff)

lemma scope_rows_strict:
  assumes "unique_key r_id rows"
  shows "sorted_wrt (\<lambda>a b. page_key b < page_key a) (scope_rows sc rows)"
proof (rule sorted_strictly)
  show "sorted_wrt (\<lambda>a b. page_key b \<le> page_key a) (scope_rows sc rows)"
    by (simp add: scope_rows_def sorted_order_desc)
  have "inj_on page_key (set rows)"
    using assms by (auto simp: page_key_def distinct_map inj_on_def)
  then have "inj_on page_key (set (scope_rows sc rows))"
    by (rule inj_on_subset) (auto simp: scope_rows_def)
  moreover have "distinct rows" using assms by (simp add: distinct_map)
  ultimately show "distinct (map page_key (scope_rows sc rows))"
    by (simp add: distinct_map) (simp add: scope_rows_def)
qed

lemma collect_items_readable:
  "(\<And>r. r \<in> set rs \<Longrightarrow> readable C r) \<Longrightarrow> collect_items C rs = Inr (map (item_of_row C) rs)"
proof (induction rs)
  case (Cons r rs)
  then obtain it where "try_into_item C r = Inr it" by (auto simp: readable_def)
  with Cons show ?case by (simp add: item_of_row_def)
qed simp

lemma past_cursor_iff:
  assumes C: "rfc3339_text C" and r: "row_ok C r"
  shows "past_cursor C (cursor_of (item_of_row C r)) q \<longleftrightarrow> page_key q < page_key r"
proof -
  obtain it where it: "try_into_item C r = Inr it" using r by (auto simp: row_ok_def readable_def)
  obtain t where t: "t \<le> ts_text_max C" "r_updated_at r = format_timestamp C t"
    using r by (auto simp: row_ok_def text_ok_def)
  have "updated_at it = t" using try_into_itemD(8) [OF it] t rfc3339_parse [OF C t(1)] by simp
  with t try_into_itemD(1) [OF it] show ?thesis
    by (auto simp: past_cursor_def cursor_of_def item_of_row_def it page_key_def less_prod_def)
qed

lemma filter_past:
  assumes "sorted_wrt (\<lambda>a b. k b < (k a :: 'k::linorder)) (xs @ r # ys)"
  shows "filter (\<lambda>q. k q < k r) (xs @ r # ys) = ys"
  using assms by (force simp: sorted_wrt_append filter_empty_conv intro!: filter_True)

section \<open>Following the cursors\<close>

text \<open>The client's loop, with the number of pages it is ready to read as fuel.\<close>

fun walk_pages ::
  "codec \<Rightarrow> work_scope \<Rightarrow> 16 word \<Rightarrow> work_cursor option \<Rightarrow> nat \<Rightarrow> workdb \<Rightarrow> work_item list option" where
  "walk_pages C sc limit cursor 0 db = None"
| "walk_pages C sc limit cursor (Suc n) db =
     (case list_scoped C sc cursor limit db of
        (Inl _, _) \<Rightarrow> None
      | (Inr pg, db') \<Rightarrow>
          (case pg_next_cursor pg of
             None \<Rightarrow> Some (pg_items pg)
           | Some c \<Rightarrow> map_option ((@) (pg_items pg)) (walk_pages C sc limit (Some c) n db')))"

lemma list_scoped_apply:
  assumes db: "faults db = []" and limit: "limit \<noteq> 0" "unat limit \<le> MAX_WORK_PAGE_SIZE"
    and rows: "query_stored_page C (work_rows db) sc cursor (unat limit + 1) = take (unat limit + 1) rs"
    and ok: "\<And>r. r \<in> set rs \<Longrightarrow> readable C r" and small: "length (work_rows db) < 2 ^ 64"
  shows "\<exists>n. list_scoped C sc cursor limit db =
    (Inr (page_of limit (map (item_of_row C) (take (unat limit + 1) rs)) n), db)"
proof -
  have "length (filter (in_scope sc) (work_rows db)) < 2 ^ 64"
    by (rule le_less_trans [OF length_filter_le small])
  then obtain n where n: "u64_try_from (count_stored_scope (work_rows db) sc) = Some n"
    by (auto simp: u64_try_from_def count_stored_scope_def)
  have "collect_items C (take (unat limit + 1) rs) = Inr (map (item_of_row C) (take (unat limit + 1) rs))"
    using ok by (intro collect_items_readable) (meson in_set_takeD)
  then show ?thesis
    using limit db by (auto simp: list_scoped_def bnd_connection op_simps rows [simplified] n)
qed

lemma walk_from:
  assumes C: "rfc3339_text C" and ok: "table_ok C (work_rows db)" and db: "faults db = []"
    and limit: "limit \<noteq> 0" "unat limit \<le> MAX_WORK_PAGE_SIZE" and small: "length (work_rows db) < 2 ^ 64"
  shows "scope_rows sc (work_rows db) = xs @ ys \<Longrightarrow>
    (cursor = None \<and> xs = []) \<or> (xs \<noteq> [] \<and> cursor = Some (cursor_of (item_of_row C (last xs)))) \<Longrightarrow>
    length ys < n \<Longrightarrow>
    walk_pages C sc limit cursor n db = Some (map (item_of_row C) ys)"
proof (induction n arbitrary: xs ys cursor)
  case (Suc n)
  let ?k = "unat limit"
  have k: "0 < ?k" using limit(1) by (simp add: unat_gt_0)
  have rows_ok: "row_ok C r" if "r \<in> set (xs @ ys)" for r
    using that ok by (simp add: Suc.prems(1) [symmetric] table_ok_def scope_rows_def)
  have rest: "filter (\<lambda>r. case cursor of None \<Rightarrow> True | Some c \<Rightarrow> past_cursor C c r)
      (scope_rows sc (work_rows db)) = ys"
  proof (cases cursor)
    case (Some c)
    with Suc.prems(2) have xs: "xs \<noteq> []" and c: "c = cursor_of (item_of_row C (last xs))" by auto
    have split: "scope_rows sc (work_rows db) = butlast xs @ last xs # ys"
      using xs Suc.prems(1) by (simp add: append_butlast_last_id [symmetric] del: append_butlast_last_id)
    have u: "unique_key r_id (work_rows db)" using ok by (simp add: table_ok_def conflict_free_ids)
    have "row_ok C (last xs)" using rows_ok xs by simp
    from past_cursor_iff [OF C this] scope_rows_strict [OF u, of sc] filter_past [of page_key] split
    show ?thesis by (simp add: Some c)
  qed (use Suc.prems in simp)
  obtain total_size where page: "list_scoped C sc cursor limit db =
      (Inr (page_of limit (map (item_of_row C) (take (?k + 1) ys)) total_size), db)"
    using list_scoped_apply [OF db limit, of C sc cursor ys] rows_ok small
    by (auto simp: page_rows rest row_ok_def)
  show ?case
  proof (cases "length ys \<le> ?k")
    case True
    then show ?thesis by (simp add: page page_of_def Let_def)
  next
    case False
    let ?zs = "take ?k ys"
    have ne: "?zs \<noteq> []" using k False by auto
    have "scope_rows sc (work_rows db) = (xs @ ?zs) @ drop ?k ys" by (simp add: Suc.prems(1))
    then have "walk_pages C sc limit (Some (cursor_of (item_of_row C (last ?zs)))) n db =
        Some (map (item_of_row C) (drop ?k ys))"
      by (rule Suc.IH) (use ne k False Suc.prems(3) in auto)
    moreover have "take ?k (map (item_of_row C) (take (?k + 1) ys)) = map (item_of_row C) ?zs"
      by (simp add: take_map min_def)
    ultimately have "walk_pages C sc limit cursor (Suc n) db =
        Some (map (item_of_row C) ?zs @ map (item_of_row C) (drop ?k ys))"
      using False ne by (simp add: page page_of_def Let_def last_map min_def)
    then show ?thesis by (simp flip: map_append)
  qed
qed simp

text \<open>
  A client that follows the cursors of the scoped listing, with any page size the store
  accepts, gets every item of its scope exactly once, ordered by last update and id, newest
  first, and comes to a last page; one page more than there are rows is always enough.
\<close>

theorem paging_visits_each_item_once:
  assumes "rfc3339_text C" and "table_ok C (work_rows db)" and "faults db = []"
    and "limit \<noteq> 0" and "unat limit \<le> MAX_WORK_PAGE_SIZE" and "length (work_rows db) < 2 ^ 64"
  shows "\<exists>rows. mset rows = mset (filter (in_scope sc) (work_rows db)) \<and>
    sorted_wrt (\<lambda>a b. page_key b < page_key a) rows \<and>
    walk_pages C sc limit None (Suc (length (work_rows db))) db = Some (map (item_of_row C) rows)"
proof (intro exI conjI)
  show "mset (scope_rows sc (work_rows db)) = mset (filter (in_scope sc) (work_rows db))"
    by (simp add: scope_rows_def order_desc_def)
  show "sorted_wrt (\<lambda>a b. page_key b < page_key a) (scope_rows sc (work_rows db))"
    using assms(2) by (intro scope_rows_strict) (simp add: table_ok_def conflict_free_ids)
  have "length (scope_rows sc (work_rows db)) < Suc (length (work_rows db))"
    by (simp add: scope_rows_def le_imp_less_Suc)
  then show "walk_pages C sc limit None (Suc (length (work_rows db))) db =
      Some (map (item_of_row C) (scope_rows sc (work_rows db)))"
    by (intro walk_from [OF assms, of sc "[]"]) simp_all
qed

theorem paging_visits_each_item_once_witness:
  "\<exists>its. walk_pages sample_codec \<lparr>sc_source = ''s'', sc_kind = ''k'', sc_actor_id = ''a''\<rparr> 1 None 3
     (sample_db [sample_row ''w'', sample_row ''v'']) = Some its \<and> length its = 2"
proof -
  let ?sc = "\<lparr>sc_source = ''s'', sc_kind = ''k'', sc_actor_id = ''a''\<rparr>"
  have sc: "in_scope ?sc (sample_row i)" for i
    by (simp add: in_scope_def sample_row_def row_of_envelope_def sample_envelope_def)
  have ok: "table_ok sample_codec (work_rows (sample_db [sample_row ''w'', sample_row ''v'']))"
    by (simp add: table_ok_def conflict_free_def work_row_conflicts_def sample_row_ok)
  obtain rows where "mset rows = mset [sample_row ''w'', sample_row ''v'']"
    "walk_pages sample_codec ?sc 1 None 3 (sample_db [sample_row ''w'', sample_row ''v'']) =
       Some (map (item_of_row sample_codec) rows)"
    using paging_visits_each_item_once [OF sample_rfc3339 ok, of 1 ?sc]
    by (auto simp: sc MAX_WORK_PAGE_SIZE_def numeral_3_eq_3 simp del: walk_pages.simps)
  then show ?thesis by (metis length_map mset_eq_length length_Cons list.size(3) numeral_2_eq_2)
qed

end
