(* ===== verification/Claim_Fence.thy ===== *)
theory Claim_Fence
  imports Prelude
begin

text \<open>
  \<open>WorkClaimCancellation\<close> (\<open>services/execution-state/src/work.rs\<close>): the fence between the
  claims of a worker and its shutdown. Claims run on their own threads, so every access to the
  shared state (the flag, the map of interrupt handles, the read-write lock of the commit gate)
  is a step of its own; a schedule is any list of steps.
\<close>

section \<open>State\<close>

text \<open>
  Where a claim is: before it began, past the first look at the flag, its handle in the map,
  past the look at the flag that follows, in its transaction, holding the gate's read lock, past
  the look at the flag under the lock, and done with or without a commit.
\<close>

datatype claim_pc =
  Idle | Started | Inserted | Registered | InTransaction | AtGate | Committing | Committed | Dropped

text \<open>The closing thread: running, the flag stored, the handles interrupted, the gate passed.\<close>

datatype closer_pc = Open | FlagStored | Signalled | Settled

record fence =
  cancelled :: bool
  interrupts :: "nat set"
  interrupted :: "nat set"
  readers :: "nat set"
  claims :: "nat \<Rightarrow> claim_pc"
  closer :: closer_pc

definition fence_new :: fence where
  "fence_new = \<lparr>cancelled = False, interrupts = {}, interrupted = {}, readers = {},
     claims = (\<lambda>_. Idle), closer = Open\<rparr>"

datatype fence_action =
  Begin nat | InsertHandle nat | CheckAfterInsert nat | CheckOnConnection nat
| TakeGate nat | CheckAtGate nat | Commit nat
| StoreFlag | InterruptAll | PassGate

definition move :: "nat \<Rightarrow> claim_pc \<Rightarrow> fence \<Rightarrow> fence" where
  "move i pc s = s\<lparr>claims := (claims s)(i := pc)\<rparr>"

section \<open>Steps\<close>

text \<open>
  A claim looks at the flag before anything, inserts its handle and looks again, interrupting
  itself when the flag is already set (\<open>register_interrupt\<close>), looks once more on the connection,
  and commits under the read lock only when the flag is still clear (\<open>commit_if_active\<close>).
  \<open>signal\<close> stores the flag, then interrupts the handles in the map; \<open>settle\<close> takes the write
  lock, so it waits for the readers, and releases it.
\<close>

fun fence_step :: "fence_action \<Rightarrow> fence \<Rightarrow> fence option" where
  "fence_step (Begin i) s =
     (if claims s i = Idle then Some (move i (if cancelled s then Dropped else Started) s) else None)"
| "fence_step (InsertHandle i) s =
     (if claims s i = Started
      then Some ((move i Inserted s)\<lparr>interrupts := insert i (interrupts s)\<rparr>) else None)"
| "fence_step (CheckAfterInsert i) s =
     (if claims s i = Inserted
      then Some ((move i Registered s)\<lparr>interrupted :=
        (if cancelled s then insert i (interrupted s) else interrupted s)\<rparr>) else None)"
| "fence_step (CheckOnConnection i) s =
     (if claims s i = Registered
      then Some (if cancelled s
        then (move i Dropped s)\<lparr>interrupts := interrupts s - {i}\<rparr>
        else move i InTransaction s) else None)"
| "fence_step (TakeGate i) s =
     (if claims s i = InTransaction
      then Some ((move i AtGate s)\<lparr>readers := insert i (readers s)\<rparr>) else None)"
| "fence_step (CheckAtGate i) s =
     (if claims s i = AtGate
      then Some (if cancelled s
        then (move i Dropped s)\<lparr>readers := readers s - {i}, interrupts := interrupts s - {i}\<rparr>
        else move i Committing s) else None)"
| "fence_step (Commit i) s =
     (if claims s i = Committing
      then Some ((move i Committed s)\<lparr>readers := readers s - {i}, interrupts := interrupts s - {i}\<rparr>)
      else None)"
| "fence_step StoreFlag s =
     (if closer s = Open then Some (s\<lparr>cancelled := True, closer := FlagStored\<rparr>) else None)"
| "fence_step InterruptAll s =
     (if closer s = FlagStored
      then Some (s\<lparr>interrupted := interrupted s \<union> interrupts s, closer := Signalled\<rparr>) else None)"
| "fence_step PassGate s =
     (if closer s = Signalled \<and> readers s = {} then Some (s\<lparr>closer := Settled\<rparr>) else None)"

fun fence_run :: "fence_action list \<Rightarrow> fence \<Rightarrow> fence option" where
  "fence_run [] s = Some s"
| "fence_run (a # as) s = Option.bind (fence_step a s) (fence_run as)"

lemma fence_run_append: "fence_run (xs @ ys) s = Option.bind (fence_run xs s) (fence_run ys)"
  by (induction xs arbitrary: s) (auto split: bind_splits)

section \<open>Invariants\<close>

primrec at_gate :: "claim_pc \<Rightarrow> bool" where
  "at_gate Idle = False" | "at_gate Started = False" | "at_gate Inserted = False"
| "at_gate Registered = False" | "at_gate InTransaction = False" | "at_gate AtGate = True"
| "at_gate Committing = True" | "at_gate Committed = False" | "at_gate Dropped = False"

primrec past_register :: "claim_pc \<Rightarrow> bool" where
  "past_register Idle = False" | "past_register Started = False" | "past_register Inserted = False"
| "past_register Registered = True" | "past_register InTransaction = True" | "past_register AtGate = True"
| "past_register Committing = True" | "past_register Committed = False" | "past_register Dropped = False"

definition in_map :: "claim_pc \<Rightarrow> bool" where
  "in_map pc \<longleftrightarrow> pc = Inserted \<or> past_register pc"

definition claim_ok :: "fence \<Rightarrow> nat \<Rightarrow> bool" where
  "claim_ok s i \<longleftrightarrow>
     (i \<in> readers s \<longleftrightarrow> at_gate (claims s i)) \<and>
     (i \<in> interrupts s \<longleftrightarrow> in_map (claims s i)) \<and>
     (closer s \<in> {Signalled, Settled} \<and> past_register (claims s i) \<longrightarrow> i \<in> interrupted s) \<and>
     (closer s = Settled \<longrightarrow> claims s i \<noteq> Committing)"

definition fence_ok :: "fence \<Rightarrow> bool" where
  "fence_ok s \<longleftrightarrow> (cancelled s \<longleftrightarrow> closer s \<noteq> Open) \<and> (\<forall>i. claim_ok s i)"

lemma fence_ok_new: "fence_ok fence_new"
  by (simp add: fence_ok_def claim_ok_def fence_new_def in_map_def)

lemma flag_step:
  "fence_step a s = Some t \<Longrightarrow> (cancelled s \<longleftrightarrow> closer s \<noteq> Open) \<Longrightarrow> (cancelled t \<longleftrightarrow> closer t \<noteq> Open)"
  by (cases a) (auto simp: move_def split: if_splits)

fun actor :: "fence_action \<Rightarrow> nat option" where
  "actor (Begin i) = Some i" | "actor (InsertHandle i) = Some i" | "actor (CheckAfterInsert i) = Some i"
| "actor (CheckOnConnection i) = Some i" | "actor (TakeGate i) = Some i" | "actor (CheckAtGate i) = Some i"
| "actor (Commit i) = Some i" | "actor _ = None"

lemma other_claim_step:
  assumes "fence_step a s = Some t" and "actor a = Some j" and "j \<noteq> i"
  shows "claim_ok t i = claim_ok s i"
  using assms by (cases a) (clarsimp simp: claim_ok_def move_def split: if_split_asm)+

lemma own_claim_step:
  assumes "fence_step a s = Some t" and "actor a = Some i"
    and "cancelled s \<longleftrightarrow> closer s \<noteq> Open" and "claim_ok s i"
  shows "claim_ok t i"
  using assms
  by (cases a; cases "claims s i"; cases "closer s")
    (auto simp: claim_ok_def move_def in_map_def split: if_splits)

lemma closer_step:
  assumes "fence_step a s = Some t" and "actor a = None"
    and "cancelled s \<longleftrightarrow> closer s \<noteq> Open" and "claim_ok s i"
  shows "claim_ok t i"
  using assms by (cases a; cases "claims s i") (auto simp: claim_ok_def in_map_def split: if_splits)

lemma claim_ok_step:
  assumes "fence_step a s = Some t" and "cancelled s \<longleftrightarrow> closer s \<noteq> Open" and "claim_ok s i"
  shows "claim_ok t i"
  using assms other_claim_step own_claim_step closer_step by (cases "actor a") metis+
lemma fence_ok_step: "fence_step a s = Some t \<Longrightarrow> fence_ok s \<Longrightarrow> fence_ok t"
  using flag_step claim_ok_step by (simp add: fence_ok_def)

lemma fence_ok_run: "fence_run as s = Some t \<Longrightarrow> fence_ok s \<Longrightarrow> fence_ok t"
  by (induction as arbitrary: s) (auto split: bind_splits dest: fence_ok_step)

lemma settled_step:
  assumes "fence_step a s = Some t" and "fence_ok s" and "closer s = Settled"
  shows "closer t = Settled \<and> {i. claims t i = Committed} = {i. claims s i = Committed}"
proof -
  have "claims s i \<noteq> Committing" for i using assms(2,3) by (simp add: fence_ok_def claim_ok_def)
  then show ?thesis using assms(1,3) by (cases a) (auto simp: move_def split: if_splits)
qed

lemma settled_run:
  assumes "fence_run as s = Some t" and "fence_ok s" and "closer s = Settled"
  shows "{i. claims t i = Committed} = {i. claims s i = Committed}"
  using assms
proof (induction as arbitrary: s)
  case (Cons a as)
  then obtain u where u: "fence_step a s = Some u" "fence_run as u = Some t" by (auto split: bind_splits)
  with Cons.IH [OF u(2)] settled_step [OF u(1)] fence_ok_step [OF u(1)] Cons.prems show ?case by auto
qed simp

text \<open>
  C7: once the shutdown has signalled and settled, no claim commits any more: under every
  interleaving, the claims committed at any later time are exactly those committed when the gate
  was passed.
\<close>

theorem no_commit_after_settle:
  assumes "fence_run before fence_new = Some s" and "closer s = Settled"
    and "fence_run after s = Some t"
  shows "{i. claims t i = Committed} = {i. claims s i = Committed}"
  using settled_run [OF assms(3) fence_ok_run [OF assms(1) fence_ok_new] assms(2)] .

lemma closing_run:
  "fence_run [Begin 0, InsertHandle 0, CheckAfterInsert 0, CheckOnConnection 0, StoreFlag, TakeGate 0,
     InterruptAll, CheckAtGate 0, PassGate] fence_new =
   Some \<lparr>cancelled = True, interrupts = {}, interrupted = {0}, readers = {},
     claims = (\<lambda>_. Idle)(0 := Dropped), closer = Settled\<rparr>"
  by (simp add: fence_new_def move_def)

theorem no_commit_after_settle_witness:
  "{i. claims (\<lparr>cancelled = True, interrupts = {}, interrupted = {0}, readers = {},
     claims = (\<lambda>_. Idle)(0 := Dropped, 1 := Dropped), closer = Settled\<rparr> :: fence) i = Committed} =
   {i. ((\<lambda>_. Idle)(0 := Dropped)) i = Committed}"
  using no_commit_after_settle [OF closing_run, of "[Begin 1]"
      "\<lparr>cancelled = True, interrupts = {}, interrupted = {0}, readers = {},
        claims = (\<lambda>_. Idle)(0 := Dropped, 1 := Dropped), closer = Settled\<rparr>"]
  by (simp add: move_def)

text \<open>
  No handle slips between the signal and the registration: when the signal has run through
  the handles, every claim that is past its registration has been interrupted, whichever of the
  two threads looked first.
\<close>

theorem signal_reaches_every_registered_claim:
  assumes "fence_run as fence_new = Some s" and "closer s = Signalled"
    and "claims s i \<in> {Registered, InTransaction, AtGate, Committing}"
  shows "i \<in> interrupted s"
  using fence_ok_run [OF assms(1) fence_ok_new] assms(2,3)
  by (auto simp: fence_ok_def claim_ok_def)

theorem signal_reaches_every_registered_claim_witness:
  "0 \<in> interrupted \<lparr>cancelled = True, interrupts = {0}, interrupted = {0}, readers = {},
     claims = (\<lambda>_. Idle)(0 := Registered), closer = Signalled\<rparr>"
  using signal_reaches_every_registered_claim [of
      "[Begin 0, InsertHandle 0, StoreFlag, InterruptAll, CheckAfterInsert 0]" _ 0]
  by (simp add: fence_new_def move_def)

end
