(* ===== verification/Work_Bus.thy ===== *)
theory Work_Bus
  imports Work_Runs
begin

text \<open>
  The coordination of durable work in \<open>gateway/gateway-bus/src/work.rs\<close> and the contracts of
  \<open>gateway/gateway-bus/src/worker.rs\<close>: the store as its clients see it, the persist-first queue,
  the handler registry and the bounds of a worker.
\<close>

section \<open>The store as an interface\<close>

text \<open>
  \<open>Arc<dyn WorkStore>\<close>: the methods the bus calls, over a state of the provider's own. The uuid
  a claim draws for its token is an argument.
\<close>

record 's work_store_api =
  ws_enqueue :: "work_envelope \<Rightarrow> ('s, work_error, enqueue_outcome) op"
  ws_claim :: "string \<Rightarrow> string \<Rightarrow> string \<Rightarrow> nat \<Rightarrow> duration \<Rightarrow> claim_cancellation \<Rightarrow>
    ('s, work_error, work_item option) op"
  ws_renew :: "string \<Rightarrow> string \<Rightarrow> string \<Rightarrow> nat \<Rightarrow> duration \<Rightarrow> ('s, work_error, nat) op"
  ws_complete :: "string \<Rightarrow> string \<Rightarrow> string \<Rightarrow> nat \<Rightarrow> ('s, work_error, unit) op"
  ws_fail :: "string \<Rightarrow> string \<Rightarrow> string \<Rightarrow> nat \<Rightarrow> work_failure_code \<Rightarrow> bool \<Rightarrow>
    ('s, work_error, work_status) op"
  ws_recover :: "string \<Rightarrow> nat \<Rightarrow> ('s, work_error, recovery_outcome) op"

definition sqlite_store :: "codec \<Rightarrow> workdb work_store_api" where
  "sqlite_store C =
     \<lparr>ws_enqueue = enqueue C, ws_claim = claim_next_cancellable C, ws_renew = renew_lease C,
      ws_complete = complete C, ws_fail = work_fail C, ws_recover = recover_expired C\<rparr>"

section \<open>The persist-first queue\<close>

datatype work_transport_error = TransportUnavailable | TransportBackpressure | TransportInternal

fun work_transport_error_as_str :: "work_transport_error \<Rightarrow> string" where
  "work_transport_error_as_str TransportUnavailable = ''transport_unavailable''"
| "work_transport_error_as_str TransportBackpressure = ''transport_backpressure''"
| "work_transport_error_as_str TransportInternal = ''transport_internal''"

record enqueue_receipt =
  work_id :: string
  receipt_inserted :: bool
  notification_error :: "work_transport_error option"

text \<open>
  The transport is the environment's: \<open>publish\<close> says how each notification ends, and the state
  beside the store keeps the envelopes that were announced.
\<close>

definition queue_enqueue ::
  "codec \<Rightarrow> 's work_store_api \<Rightarrow> work_policy \<Rightarrow> (work_envelope \<Rightarrow> work_transport_error option) \<Rightarrow>
   string \<Rightarrow> work_draft \<Rightarrow> nat \<Rightarrow> ('s \<times> work_envelope list, work_error, enqueue_receipt) op" where
  "queue_enqueue C S policy publish uuid d now st =
     (case work_envelope_authorize C uuid d policy now of
        Inl e \<Rightarrow> (Inl e, st)
      | Inr env \<Rightarrow>
          (case ws_enqueue S env (fst st) of
             (Inl e, s) \<Rightarrow> (Inl e, (s, snd st))
           | (Inr eo, s) \<Rightarrow>
               let stored = envelope (eo_item eo);
                   notified = (if eo_inserted eo then snd st @ [stored] else snd st);
                   err = (if eo_inserted eo then publish stored else None)
               in (Inr \<lparr>work_id = env_id stored, receipt_inserted = eo_inserted eo,
                     notification_error = err\<rparr>, (s, notified))))"

section \<open>Handlers and their registry\<close>

datatype work_worker_config_error =
  InvalidHandlerKey | DuplicateHandler | CfgInvalidTarget | InvalidOwner | InvalidConcurrency
| InvalidPollInterval | CfgInvalidLeaseDuration | InvalidHeartbeatInterval | InvalidHandlerTimeout
| InvalidShutdownDrain

datatype work_handler_outcome = Complete | Retry work_failure_code | Permanent work_failure_code

datatype work_dispatch_rejection =
  RejHandlerUnavailable | RejInvalidPayload | RejHandlerRejected | RejHandlerPanicked

fun rejection_failure_code :: "work_dispatch_rejection \<Rightarrow> work_failure_code" where
  "rejection_failure_code RejHandlerUnavailable = HandlerUnavailable"
| "rejection_failure_code RejInvalidPayload = InvalidPayload"
| "rejection_failure_code RejHandlerRejected = HandlerRejected"
| "rejection_failure_code RejHandlerPanicked = Internal"

fun rejection_retryable :: "work_dispatch_rejection \<Rightarrow> bool" where
  "rejection_retryable RejHandlerPanicked = True"
| "rejection_retryable _ = False"

record work_handler_context =
  ctx_work_id :: string
  ctx_source :: string
  ctx_correlation_id :: "string option"
  ctx_provenance :: work_provenance

definition context_from_envelope :: "work_envelope \<Rightarrow> work_handler_context" where
  "context_from_envelope env =
     \<lparr>ctx_work_id = env_id env, ctx_source = env_source env,
      ctx_correlation_id = env_correlation_id env, ctx_provenance = env_provenance env\<rparr>"

text \<open>
  A handler is an object of another crate: its two gates are functions it brings along, each of
  which may panic. The type-erased command it approves is the type variable.
\<close>

datatype 'a gate = Returns 'a | Panics

record 'cmd work_handler =
  h_target :: string
  h_kind :: string
  h_validate_payload :: "json \<Rightarrow> (unit + 'cmd) gate"
  h_authorize :: "work_handler_context \<Rightarrow> 'cmd \<Rightarrow> (unit + unit) gate"

type_synonym 'cmd work_handler_registry = "string \<times> string \<Rightarrow> 'cmd work_handler option"

definition valid_routing_key :: "string \<Rightarrow> bool" where
  "valid_routing_key v \<longleftrightarrow> v \<noteq> [] \<and> length v \<le> MAX_ROUTING_BYTES \<and> \<not> has_whitespace v"

fun from_handlers_into ::
  "'cmd work_handler list \<Rightarrow> 'cmd work_handler_registry \<Rightarrow>
   work_worker_config_error + 'cmd work_handler_registry" where
  "from_handlers_into [] reg = Inr reg"
| "from_handlers_into (h # hs) reg =
     (if \<not> valid_routing_key (h_target h) \<or> \<not> valid_routing_key (h_kind h) then Inl InvalidHandlerKey
      else if reg (h_target h, h_kind h) \<noteq> None then Inl DuplicateHandler
      else from_handlers_into hs (reg((h_target h, h_kind h) \<mapsto> h)))"

definition from_handlers ::
  "'cmd work_handler list \<Rightarrow> work_worker_config_error + 'cmd work_handler_registry" where
  "from_handlers hs = from_handlers_into hs (\<lambda>_. None)"

record 'cmd authorized_work =
  aw_handler :: "'cmd work_handler"
  aw_context :: work_handler_context
  aw_command :: 'cmd

definition authorized_handler ::
  "'cmd work_handler_registry \<Rightarrow> work_envelope \<Rightarrow> work_dispatch_rejection + 'cmd authorized_work" where
  "authorized_handler reg env =
     (case reg (env_target env, env_kind env) of
        None \<Rightarrow> Inl RejHandlerUnavailable
      | Some h \<Rightarrow>
          let ctx = context_from_envelope env in
          (case h_validate_payload h (env_payload env) of
             Panics \<Rightarrow> Inl RejHandlerPanicked
           | Returns (Inl _) \<Rightarrow> Inl RejInvalidPayload
           | Returns (Inr cmd) \<Rightarrow>
               (case h_authorize h ctx cmd of
                  Panics \<Rightarrow> Inl RejHandlerPanicked
                | Returns (Inl _) \<Rightarrow> Inl RejHandlerRejected
                | Returns (Inr _) \<Rightarrow> Inr \<lparr>aw_handler = h, aw_context = ctx, aw_command = cmd\<rparr>)))"

section \<open>Bounds of a worker\<close>

definition dur_ns :: "duration \<Rightarrow> nat" where
  "dur_ns d = as_secs d * 1000000000 + subsec_nanos d"

definition from_secs :: "nat \<Rightarrow> duration" where
  "from_secs n = \<lparr>as_secs = n, subsec_nanos = 0\<rparr>"

definition from_millis :: "nat \<Rightarrow> duration" where
  "from_millis n = \<lparr>as_secs = n div 1000, subsec_nanos = (n mod 1000) * 1000000\<rparr>"

text \<open>\<open>Duration::checked_mul\<close>: the seconds are 64-bit.\<close>

definition duration_checked_mul :: "duration \<Rightarrow> nat \<Rightarrow> duration option" where
  "duration_checked_mul d k =
     (let total_nanos = subsec_nanos d * k;
          secs = as_secs d * k + total_nanos div 1000000000
      in if secs < 2 ^ 64
         then Some \<lparr>as_secs = secs, subsec_nanos = total_nanos mod 1000000000\<rparr> else None)"

definition MIN_POLL_INTERVAL :: duration where "MIN_POLL_INTERVAL = from_millis 100"
definition MAX_POLL_INTERVAL :: duration where "MAX_POLL_INTERVAL = from_secs 60"
definition MIN_HEARTBEAT_INTERVAL :: duration where "MIN_HEARTBEAT_INTERVAL = from_millis 100"
definition MIN_HANDLER_TIMEOUT :: duration where "MIN_HANDLER_TIMEOUT = from_secs 1"
definition MAX_HANDLER_TIMEOUT :: duration where "MAX_HANDLER_TIMEOUT = from_secs 3600"
definition MIN_SHUTDOWN_DRAIN :: duration where "MIN_SHUTDOWN_DRAIN = from_secs 1"
definition MAX_SHUTDOWN_DRAIN :: duration where "MAX_SHUTDOWN_DRAIN = from_secs 300"
definition MAX_CONCURRENCY :: nat where "MAX_CONCURRENCY = 32"

lemmas worker_bounds =
  MIN_POLL_INTERVAL_def MAX_POLL_INTERVAL_def MIN_HEARTBEAT_INTERVAL_def MIN_HANDLER_TIMEOUT_def
  MAX_HANDLER_TIMEOUT_def MIN_SHUTDOWN_DRAIN_def MAX_SHUTDOWN_DRAIN_def MAX_CONCURRENCY_def
  from_secs_def from_millis_def

definition dur_le :: "duration \<Rightarrow> duration \<Rightarrow> bool" where
  "dur_le a b \<longleftrightarrow> as_secs a < as_secs b \<or> (as_secs a = as_secs b \<and> subsec_nanos a \<le> subsec_nanos b)"

definition in_range :: "duration \<Rightarrow> duration \<Rightarrow> duration \<Rightarrow> bool" where
  "in_range lo hi d \<longleftrightarrow> dur_le lo d \<and> dur_le d hi"

record work_worker_limits =
  concurrency :: nat
  poll_interval :: duration
  lease_duration :: duration
  heartbeat_interval :: duration
  handler_timeout :: duration
  shutdown_drain :: duration

definition limits_new ::
  "nat \<Rightarrow> duration \<Rightarrow> duration \<Rightarrow> duration \<Rightarrow> duration \<Rightarrow> duration \<Rightarrow>
   work_worker_config_error + work_worker_limits" where
  "limits_new conc poll lease heartbeat timeout drain =
     (if \<not> (1 \<le> conc \<and> conc \<le> MAX_CONCURRENCY) then Inl InvalidConcurrency
      else if \<not> in_range MIN_POLL_INTERVAL MAX_POLL_INTERVAL poll then Inl InvalidPollInterval
      else if \<not> in_range (from_secs MIN_LEASE_SECONDS) (from_secs MAX_LEASE_SECONDS) lease
      then Inl CfgInvalidLeaseDuration
      else if \<not> dur_le MIN_HEARTBEAT_INTERVAL heartbeat \<or>
        (case duration_checked_mul heartbeat 2 of None \<Rightarrow> True | Some twice \<Rightarrow> dur_le lease twice)
      then Inl InvalidHeartbeatInterval
      else if \<not> in_range MIN_HANDLER_TIMEOUT MAX_HANDLER_TIMEOUT timeout then Inl InvalidHandlerTimeout
      else if \<not> in_range MIN_SHUTDOWN_DRAIN MAX_SHUTDOWN_DRAIN drain then Inl InvalidShutdownDrain
      else Inr \<lparr>concurrency = conc, poll_interval = poll, lease_duration = lease,
        heartbeat_interval = heartbeat, handler_timeout = timeout, shutdown_drain = drain\<rparr>)"

definition limits_default :: work_worker_limits where
  "limits_default = \<lparr>concurrency = 4, poll_interval = from_secs 1, lease_duration = from_secs 30,
     heartbeat_interval = from_secs 10, handler_timeout = from_secs 300, shutdown_drain = from_secs 30\<rparr>"

record work_worker_config =
  cfg_target :: string
  cfg_owner :: string
  cfg_limits :: work_worker_limits

definition config_new ::
  "string \<Rightarrow> string \<Rightarrow> work_worker_limits \<Rightarrow> work_worker_config_error + work_worker_config" where
  "config_new target own limits =
     (if \<not> valid_routing_key target then Inl CfgInvalidTarget
      else if \<not> valid_routing_key own then Inl InvalidOwner
      else Inr \<lparr>cfg_target = target, cfg_owner = own, cfg_limits = limits\<rparr>)"

section \<open>Lemmas\<close>

abbreviation handler_key :: "'cmd work_handler \<Rightarrow> string \<times> string" where
  "handler_key h \<equiv> (h_target h, h_kind h)"

lemma from_handlers_into_new:
  "from_handlers_into hs reg = Inr reg' \<Longrightarrow> h \<in> set hs \<Longrightarrow>
   reg (handler_key h) = None \<and> valid_routing_key (h_target h) \<and> valid_routing_key (h_kind h)"
proof (induction hs arbitrary: reg)
  case (Cons g hs)
  show ?case
  proof (cases "h = g")
    case False
    with Cons.prems Cons.IH [of "reg(handler_key g \<mapsto> g)"] show ?thesis
      by (simp add: fun_upd_def split: if_split_asm)
  qed (use Cons.prems in \<open>simp split: if_split_asm\<close>)
qed simp

lemma from_handlers_into_distinct:
  "from_handlers_into hs reg = Inr reg' \<Longrightarrow> distinct (map handler_key hs)"
proof (induction hs arbitrary: reg)
  case (Cons g hs)
  then have r: "from_handlers_into hs (reg(handler_key g \<mapsto> g)) = Inr reg'"
    by (simp split: if_split_asm)
  have ne: "handler_key h \<noteq> handler_key g" if "h \<in> set hs" for h
    using from_handlers_into_new [OF r that] by (simp add: fun_upd_def split: if_split_asm)
  have "handler_key g \<notin> handler_key ` set hs"
  proof
    assume "handler_key g \<in> handler_key ` set hs"
    then obtain h where "handler_key g = handler_key h" "h \<in> set hs" by (rule imageE)
    from ne [OF this(2)] this(1) [symmetric] show False by (rule notE)
  qed
  with Cons.IH [OF r] show ?case by simp
qed simp

lemma from_handlers_into_lookup:
  "from_handlers_into hs reg = Inr reg' \<Longrightarrow>
   reg' k = (case find (\<lambda>h. handler_key h = k) hs of Some h \<Rightarrow> Some h | None \<Rightarrow> reg k)"
proof (induction hs arbitrary: reg)
  case (Cons g hs)
  then have r: "from_handlers_into hs (reg(handler_key g \<mapsto> g)) = Inr reg'"
    by (simp split: if_split_asm)
  show ?case
  proof (cases "handler_key g = k")
    case True
    have "find (\<lambda>h. handler_key h = k) hs = None"
      using from_handlers_into_new [OF r] True by (fastforce simp: find_None_iff)
    with Cons.IH [OF r] True show ?thesis by simp
  next
    case False
    with Cons.IH [OF r] show ?thesis by (auto split: option.split)
  qed
qed simp

lemma limits_new_Inr:
  assumes "limits_new conc poll lease heartbeat timeout drain = Inr l"
  shows "concurrency l = conc" "1 \<le> conc" "conc \<le> 32" "lease_duration l = lease"
    and "heartbeat_interval l = heartbeat"
  using assms by (auto simp: limits_new_def MAX_CONCURRENCY_def split: if_splits)

lemma dur_le_ns: "subsec_nanos a < 1000000000 \<Longrightarrow> subsec_nanos b < 1000000000 \<Longrightarrow>
  dur_le a b \<longleftrightarrow> dur_ns a \<le> dur_ns b"
  unfolding dur_le_def dur_ns_def by (cases "as_secs a" "as_secs b" rule: linorder_cases) auto

lemma checked_mul_ns:
  "duration_checked_mul d k = Some e \<Longrightarrow> dur_ns e = k * dur_ns d \<and> subsec_nanos e < 1000000000"
  by (auto simp: duration_checked_mul_def dur_ns_def Let_def algebra_simps split: if_splits)

end
