(* ===== verification/Work_Worker.thy ===== *)
theory Work_Worker
  imports Work_Bus
begin

text \<open>
  \<open>DurableWorkWorker\<close> (\<open>gateway/gateway-bus/src/worker.rs\<close>): the supervision of one claimed item
  and the worker's main loop. What the tokio primitives deliver (which branch of a \<open>select!\<close>
  fires, how a handler ends, what the clock reads) is a script of events; the store is the
  interface \<open>work_store_api\<close>.
\<close>

section \<open>Store calls\<close>

text \<open>A panic in the blocking task is a failed join, not an error of the store.\<close>

datatype store_call_failure = StoreFailure work_error | BlockingTask

definition blocking_store_call ::
  "('s, work_error, 'a) op \<Rightarrow> ('s, store_call_failure, 'a) op" where
  "blocking_store_call m s =
     (case m s of
        (Inl WorkPanic, t) \<Rightarrow> (Inl BlockingTask, t)
      | (Inl e, t) \<Rightarrow> (Inl (StoreFailure e), t)
      | (Inr x, t) \<Rightarrow> (Inr x, t))"

definition store_failure_reason :: "store_call_failure \<Rightarrow> string" where
  "store_failure_reason f =
     (case f of
        StoreFailure (InvalidEnvelope _) \<Rightarrow> ''invalid_envelope''
      | StoreFailure (Policy _) \<Rightarrow> ''policy_rejected''
      | StoreFailure StorageUnavailable \<Rightarrow> ''storage_unavailable''
      | StoreFailure StoredDataInvalid \<Rightarrow> ''stored_data_invalid''
      | StoreFailure WorkNotFound \<Rightarrow> ''work_not_found''
      | StoreFailure StaleLease \<Rightarrow> ''stale_lease''
      | _ \<Rightarrow> ''blocking_task_failed'')"

section \<open>One item\<close>

text \<open>
  Which branch of the \<open>select!\<close> in the supervision loop fires. A renewal that runs into the
  deadline or its budget is abandoned by the loop while its blocking call goes on: it may still
  reach the store, at the instant given.
\<close>

datatype renewal_end = RenewalReturned nat | RenewalDeadline "nat option" | RenewalBudget "nat option"

datatype item_event =
  HandlerReturned work_handler_outcome
| HandlerPanicked
| DeadlineReached
| HeartbeatTick renewal_end

text \<open>The calls to the store made on behalf of an item, in order.\<close>

datatype item_call = CallRenew nat | CallComplete nat | CallFail nat work_failure_code bool

fun terminal_call :: "item_call \<Rightarrow> bool" where
  "terminal_call (CallRenew _) = False"
| "terminal_call _ = True"

definition renew_item ::
  "'s work_store_api \<Rightarrow> work_worker_config \<Rightarrow> string \<Rightarrow> string \<Rightarrow> nat \<Rightarrow>
   ('s, store_call_failure, nat) op" where
  "renew_item S cfg i tok now =
     blocking_store_call (ws_renew S i (cfg_owner cfg) tok now (lease_duration (cfg_limits cfg)))"

definition write_failure ::
  "'s work_store_api \<Rightarrow> work_worker_config \<Rightarrow> string \<Rightarrow> string \<Rightarrow> nat \<Rightarrow> work_failure_code \<Rightarrow> bool \<Rightarrow>
   's \<Rightarrow> 's" where
  "write_failure S cfg i tok now code retryable s =
     snd (blocking_store_call (ws_fail S i (cfg_owner cfg) tok now code retryable) s)"

text \<open>
  The loop ends with the outcome to write, or with none when the lease could not be renewed in
  time; \<open>None\<close> as a whole means that the script ends while the handler still runs.
\<close>

fun supervise ::
  "'s work_store_api \<Rightarrow> work_worker_config \<Rightarrow> string \<Rightarrow> string \<Rightarrow> item_event list \<Rightarrow> 's \<Rightarrow>
   item_call list \<times> work_handler_outcome option option \<times> 's" where
  "supervise S cfg i tok [] s = ([], None, s)"
| "supervise S cfg i tok (HandlerReturned out # es) s = ([], Some (Some out), s)"
| "supervise S cfg i tok (HandlerPanicked # es) s = ([], Some (Some (Retry Internal)), s)"
| "supervise S cfg i tok (DeadlineReached # es) s = ([], Some (Some (Retry Timeout)), s)"
| "supervise S cfg i tok (HeartbeatTick (RenewalReturned now) # es) s =
     (case renew_item S cfg i tok now s of
        (Inl _, t) \<Rightarrow> ([CallRenew now], Some None, t)
      | (Inr _, t) \<Rightarrow>
          (let (calls, out, u) = supervise S cfg i tok es t in (CallRenew now # calls, out, u)))"
| "supervise S cfg i tok (HeartbeatTick (RenewalDeadline late) # es) s =
     (case late of None \<Rightarrow> ([], Some None, s)
      | Some now \<Rightarrow> ([CallRenew now], Some None, snd (renew_item S cfg i tok now s)))"
| "supervise S cfg i tok (HeartbeatTick (RenewalBudget late) # es) s =
     (case late of None \<Rightarrow> ([], Some None, s)
      | Some now \<Rightarrow> ([CallRenew now], Some None, snd (renew_item S cfg i tok now s)))"

definition settle_item ::
  "'s work_store_api \<Rightarrow> work_worker_config \<Rightarrow> string \<Rightarrow> string \<Rightarrow> nat \<Rightarrow> work_handler_outcome option \<Rightarrow> 's \<Rightarrow>
   item_call list \<times> 's" where
  "settle_item S cfg i tok now out s =
     (case out of
        Some Complete \<Rightarrow>
          ([CallComplete now], snd (blocking_store_call (ws_complete S i (cfg_owner cfg) tok now) s))
      | Some (Retry code) \<Rightarrow> ([CallFail now code True], write_failure S cfg i tok now code True s)
      | Some (Permanent code) \<Rightarrow> ([CallFail now code False], write_failure S cfg i tok now code False s)
      | None \<Rightarrow> ([], s))"

definition process_item ::
  "'s work_store_api \<Rightarrow> 'cmd work_handler_registry \<Rightarrow> work_worker_config \<Rightarrow> work_item \<Rightarrow>
   item_event list \<Rightarrow> nat \<Rightarrow> 's \<Rightarrow> item_call list \<times> 's" where
  "process_item S reg cfg item events now s =
     (case lease_token item of
        None \<Rightarrow> ([], s)
      | Some tok \<Rightarrow>
          (let i = env_id (envelope item) in
           case authorized_handler reg (envelope item) of
             Inl rej \<Rightarrow>
               ([CallFail now (rejection_failure_code rej) (rejection_retryable rej)],
                write_failure S cfg i tok now (rejection_failure_code rej) (rejection_retryable rej) s)
           | Inr _ \<Rightarrow>
               (case supervise S cfg i tok events s of
                  (calls, None, t) \<Rightarrow> (calls, t)
                | (calls, Some out, t) \<Rightarrow>
                    (let (last_call, u) = settle_item S cfg i tok now out t in (calls @ last_call, u)))))"

section \<open>The main loop\<close>

text \<open>
  Where the loop stands: at its head, waiting for a slot, in the recovery call, in the claim
  call, idle after an empty claim, backing off after a failed call, draining, stopped.
\<close>

datatype worker_pc = AtTop | AwaitingSlot | Recovering | Claiming | Waiting | BackingOff | Draining | Stopped

record 's worker =
  pc :: worker_pc
  active :: "work_item list"
  needs_recovery :: bool
  signalled :: bool
  spawned :: "string list"
  store :: 's

definition worker_start :: "'s \<Rightarrow> 's worker" where
  "worker_start s = \<lparr>pc = AtTop, active = [], needs_recovery = True, signalled = False,
     spawned = [], store = s\<rparr>"

text \<open>
  \<open>Tick\<close> is the loop's own progress from its head, \<open>Joined n\<close> the end of the \<open>n\<close>-th active task,
  \<open>Slept\<close> a poll or backoff that ran out or a wake, \<open>CallReturned\<close> and \<open>ShutdownInCall\<close> the end of
  the store call in progress without and with a shutdown that was noticed first, \<open>Signal\<close> the
  first step of \<open>WorkWorkerHandle::shutdown\<close>, \<open>Shutdown\<close> the message it sends, \<open>DrainExpired\<close> the
  end of the drain period, \<open>OtherWrites\<close> whatever items, clients and other workers do to the store.
\<close>

datatype 's worker_event =
  Tick | Joined nat | Slept | Signal | Shutdown | DrainExpired
| CallReturned nat string claim_cancellation
| ShutdownInCall nat string claim_cancellation
| OtherWrites 's

definition claim_call ::
  "'s work_store_api \<Rightarrow> work_worker_config \<Rightarrow> nat \<Rightarrow> string \<Rightarrow> claim_cancellation \<Rightarrow>
   ('s, store_call_failure, work_item option) op" where
  "claim_call S cfg now uuid cancellation =
     blocking_store_call (ws_claim S uuid (cfg_target cfg) (cfg_owner cfg) now
       (lease_duration (cfg_limits cfg)) cancellation)"

definition recover_call ::
  "'s work_store_api \<Rightarrow> work_worker_config \<Rightarrow> nat \<Rightarrow> ('s, store_call_failure, recovery_outcome) op" where
  "recover_call S cfg now = blocking_store_call (ws_recover S (cfg_target cfg) now)"

definition drop_nth :: "nat \<Rightarrow> 'a list \<Rightarrow> 'a list" where
  "drop_nth n xs = take n xs @ drop (Suc n) xs"

fun worker_step ::
  "'s work_store_api \<Rightarrow> work_worker_config \<Rightarrow> 's worker_event \<Rightarrow> 's worker \<Rightarrow> 's worker option" where
  "worker_step S cfg Tick w =
     (case pc w of
        AtTop \<Rightarrow> Some (w\<lparr>pc :=
          (if concurrency (cfg_limits cfg) \<le> length (active w) then AwaitingSlot
           else if needs_recovery w then Recovering else Claiming)\<rparr>)
      | Draining \<Rightarrow> (if active w = [] then Some (w\<lparr>pc := Stopped\<rparr>) else None)
      | _ \<Rightarrow> None)"
| "worker_step S cfg (Joined n) w =
     (if n < length (active w) then
        (case pc w of
           AwaitingSlot \<Rightarrow> Some (w\<lparr>pc := AtTop, active := drop_nth n (active w)\<rparr>)
         | Waiting \<Rightarrow> Some (w\<lparr>pc := AtTop, active := drop_nth n (active w)\<rparr>)
         | Draining \<Rightarrow> Some (w\<lparr>active := drop_nth n (active w)\<rparr>)
         | _ \<Rightarrow> None)
      else None)"
| "worker_step S cfg Slept w =
     (if pc w = Waiting \<or> pc w = BackingOff then Some (w\<lparr>pc := AtTop\<rparr>) else None)"
| "worker_step S cfg Signal w = Some (w\<lparr>signalled := True\<rparr>)"
| "worker_step S cfg Shutdown w =
     (if signalled w \<and> pc w \<in> {AwaitingSlot, Waiting, BackingOff}
      then Some (w\<lparr>pc := Draining\<rparr>) else None)"
| "worker_step S cfg DrainExpired w =
     (if pc w = Draining then Some (w\<lparr>pc := Stopped, active := []\<rparr>) else None)"
| "worker_step S cfg (CallReturned now uuid cancellation) w =
     (case pc w of
        Recovering \<Rightarrow>
          (case recover_call S cfg now (store w) of
             (Inr _, s) \<Rightarrow> Some (w\<lparr>pc := Claiming, needs_recovery := False, store := s\<rparr>)
           | (Inl _, s) \<Rightarrow> Some (w\<lparr>pc := BackingOff, store := s\<rparr>))
      | Claiming \<Rightarrow>
          (case claim_call S cfg now uuid cancellation (store w) of
             (Inr (Some item), s) \<Rightarrow>
               (if signalled w then Some (w\<lparr>pc := Draining, store := s\<rparr>)
                else Some (w\<lparr>pc := AtTop, active := active w @ [item],
                  spawned := spawned w @ [env_id (envelope item)], store := s\<rparr>))
           | (Inr None, s) \<Rightarrow> Some (w\<lparr>pc := Waiting, needs_recovery := True, store := s\<rparr>)
           | (Inl _, s) \<Rightarrow> Some (w\<lparr>pc := BackingOff, needs_recovery := True, store := s\<rparr>))
      | _ \<Rightarrow> None)"
| "worker_step S cfg (ShutdownInCall now uuid cancellation) w =
     (if \<not> signalled w then None else
      case pc w of
        Recovering \<Rightarrow> Some (w\<lparr>pc := Draining, store := snd (recover_call S cfg now (store w))\<rparr>)
      | Claiming \<Rightarrow> Some (w\<lparr>pc := Draining, store := snd (claim_call S cfg now uuid cancellation (store w))\<rparr>)
      | _ \<Rightarrow> None)"
| "worker_step S cfg (OtherWrites s) w = Some (w\<lparr>store := s\<rparr>)"

fun worker_run ::
  "'s work_store_api \<Rightarrow> work_worker_config \<Rightarrow> 's worker_event list \<Rightarrow> 's worker \<Rightarrow> 's worker option" where
  "worker_run S cfg [] w = Some w"
| "worker_run S cfg (e # es) w = Option.bind (worker_step S cfg e w) (worker_run S cfg es)"

section \<open>Shutting down\<close>

datatype work_worker_shutdown_error = ClaimSettlementTimedOut | ClaimSettlementFailed

fun shutdown_reason_code :: "work_worker_shutdown_error \<Rightarrow> string" where
  "shutdown_reason_code ClaimSettlementTimedOut = ''claim_settlement_timed_out''"
| "shutdown_reason_code ClaimSettlementFailed = ''claim_settlement_failed''"

text \<open>How waiting for the settlement, then for the worker's task, ends before the deadline.\<close>

datatype wait_end = WaitOk | WaitFailed | WaitTimedOut

text \<open>The result, and whether the worker's task was told to stop and whether it was aborted.\<close>

definition worker_shutdown ::
  "wait_end \<Rightarrow> wait_end \<Rightarrow> (work_worker_shutdown_error + unit) \<times> bool \<times> bool" where
  "worker_shutdown settlement join =
     (case settlement of
        WaitFailed \<Rightarrow> (Inl ClaimSettlementFailed, False, True)
      | WaitTimedOut \<Rightarrow> (Inl ClaimSettlementTimedOut, False, True)
      | WaitOk \<Rightarrow> (Inr (), True, join = WaitTimedOut))"

end
