(* ===== verification/Work_Supervision.thy ===== *)
theory Work_Supervision
  imports Work_Worker Work_History
begin

text \<open>
  The contract between the durable store and its worker as a locale, its interpretation on the
  SQLite store, and the properties of the worker that follow from it or from its own structure.
\<close>

section \<open>The contract of a durable store\<close>





lemma snd_blocking [simp]: "snd (blocking_store_call m s) = snd (m s)"
  by (auto simp: blocking_store_call_def split: prod.split sum.split work_error.split)

lemma blocking_Inr: "blocking_store_call m s = (Inr x, t) \<longleftrightarrow> m s = (Inr x, t)"
  by (auto simp: blocking_store_call_def split: prod.split sum.split work_error.split)


section \<open>The SQLite store keeps the contract\<close>













section \<open>Properties of the worker\<close>




definition sample_config :: work_worker_config where
  "sample_config = \<lparr>cfg_target = ''t'', cfg_owner = ''o'', cfg_limits = limits_default\<rparr>"





section \<open>The main loop\<close>

definition worker_ok :: "work_worker_config \<Rightarrow> 's worker \<Rightarrow> bool" where
  "worker_ok cfg w \<longleftrightarrow>
     length (active w) \<le> concurrency (cfg_limits cfg) \<and>
     (pc w \<in> {Recovering, Claiming} \<longrightarrow> length (active w) < concurrency (cfg_limits cfg)) \<and>
     (pc w = Claiming \<longrightarrow> \<not> needs_recovery w) \<and> (pc w = Stopped \<longrightarrow> active w = [])"

lemma length_drop_nth: "n < length xs \<Longrightarrow> length (drop_nth n xs) = length xs - 1"
  by (simp add: drop_nth_def)

lemma worker_ok_step: "worker_step S cfg e w = Some w' \<Longrightarrow> worker_ok cfg w \<Longrightarrow> worker_ok cfg w'"
  by (cases e; cases "pc w") (auto simp: worker_ok_def length_drop_nth
      split: prod.splits sum.splits option.splits if_splits)

lemma worker_ok_run: "worker_run S cfg es w = Some w' \<Longrightarrow> worker_ok cfg w \<Longrightarrow> worker_ok cfg w'"
  by (induction es arbitrary: w) (auto split: bind_splits dest: worker_ok_step)

lemma signalled_step:
  "worker_step S cfg e w = Some w' \<Longrightarrow> signalled w \<Longrightarrow> signalled w' \<and> spawned w' = spawned w"
  by (cases e; cases "pc w") (auto split: prod.splits sum.splits option.splits if_splits)

lemma signalled_run:
  "worker_run S cfg es w = Some w' \<Longrightarrow> signalled w \<Longrightarrow> spawned w' = spawned w"
  by (induction es arbitrary: w) (auto split: bind_splits dest: signalled_step)

text \<open>
  However the loop is scheduled, a worker never runs more items than its concurrency, never
  has a claim in progress while it owes a recovery of expired leases, has no item left when it is
  stopped, and starts no handler after the shutdown has been signalled.
\<close>

theorem worker_loop_is_bounded:
  assumes "worker_run S cfg before (worker_start s) = Some w"
    and "worker_run S cfg after (w\<lparr>signalled := True\<rparr>) = Some w'"
  shows "length (active w) \<le> concurrency (cfg_limits cfg) \<and> length (active w') \<le> concurrency (cfg_limits cfg) \<and>
    (pc w = Claiming \<longrightarrow> \<not> needs_recovery w) \<and> (pc w' = Stopped \<longrightarrow> active w' = []) \<and>
    spawned w' = spawned w"
proof -
  have ok: "worker_ok cfg w"
    by (rule worker_ok_run [OF assms(1)]) (simp add: worker_ok_def worker_start_def)
  have "worker_ok cfg w'" by (rule worker_ok_run [OF assms(2)]) (use ok in \<open>simp add: worker_ok_def\<close>)
  with ok signalled_run [OF assms(2)] show ?thesis by (simp add: worker_ok_def)
qed

theorem worker_loop_is_bounded_witness:
  "length (active (\<lparr>pc = Recovering, active = [], needs_recovery = True, signalled = False, spawned = [],
     store = sample_db []\<rparr>)) \<le> (4 :: nat)"
  using worker_loop_is_bounded [of "sqlite_store sample_codec" sample_config "[Tick]" "sample_db []"
      "\<lparr>pc = Recovering, active = [], needs_recovery = True, signalled = False, spawned = [], store = sample_db []\<rparr>"
      "[]" "\<lparr>pc = Recovering, active = [], needs_recovery = True, signalled = True, spawned = [], store = sample_db []\<rparr>"]
  by (simp add: worker_start_def sample_config_def limits_default_def)

end
