(* ===== verification/Work_Intake.thy ===== *)
theory Work_Intake
  imports Work_Supervision
begin

text \<open>
  The intake of durable work: the queue that persists before it notifies, the registry that
  denies what it does not know, and the bounds a worker is configured with.
\<close>

section \<open>Persist first\<close>

lemma authorize_fields:
  assumes "work_envelope_authorize C uuid d policy now = Inr env"
  shows "env_payload env = d_payload d" and "env_created_at env = now" and "env_dedupe_key env = d_dedupe_key d"
    and "env_id env = ''work-'' @ uuid"
  using assms by (auto simp: work_envelope_authorize_def sbind_eq_Inr split: sum.splits)

lemma enqueue_Inr_stored:
  assumes "enqueue C env db = (Inr eo, db')" and "conflict_free (work_rows db')"
  shows "\<exists>r \<in> set (work_rows db'). try_into_item C r = Inr (eo_item eo) \<and> r_id r = env_id (envelope (eo_item eo))"
proof -
  have up: "call_ok db"
    using assms(1) by (auto simp: enqueue_def bnd_connection split: if_splits)
  obtain n rows where ins: "insert_or_ignore (row_of_envelope C env) (work_rows db) = (n, rows)" by fastforce
  obtain r where r: "(if n = 1 then query_stored_by_id rows (env_id env)
      else Option.bind (env_dedupe_key env) (query_stored_by_dedupe rows (env_source env))) = Some r"
    and it: "try_into_item C r = Inr (eo_item eo)" and rows: "work_rows db' = rows"
    using assms(1) by (auto simp: enqueue_apply [OF up] ins Let_def split: option.splits sum.splits)
  have "r \<in> set rows"
    using r by (auto simp: query_stored_by_id_def query_stored_by_dedupe_def find_Some_iff bind_eq_Some_conv
        split: if_splits)
  with it rows try_into_itemD(1) [OF it] show ?thesis by auto
qed

text \<open>
  The queue persists before it notifies, and only announces what it has persisted: a draft
  that fails validation, policy or storage is announced to nobody; a new item is announced once
  and a deduplicated one not at all; a transport that fails is reported in the receipt without
  failing the call; and the item the receipt names can be looked up in the store.
\<close>

theorem queue_persists_before_it_notifies:
  assumes C: "rfc3339_text C" and ok: "table_ok C (work_rows db)" and now: "now \<le> ts_text_max C"
    and payload: "json_from_str C (json_to_string C (d_payload d)) = Some (d_payload d)"
    and run: "queue_enqueue C (sqlite_store C) policy publish uuid d now (db, told) = (res, (db', told'))"
  shows "case res of
      Inl e \<Rightarrow> told' = told
    | Inr receipt \<Rightarrow> (\<exists>it.
        (call_ok db' \<longrightarrow> fst (get C (work_id receipt) db') = Inr (Some it)) \<and>
        env_id (envelope it) = work_id receipt \<and>
        told' = (if receipt_inserted receipt then told @ [envelope it] else told) \<and>
        notification_error receipt = (if receipt_inserted receipt then publish (envelope it) else None))"
proof (cases res)
  case (Inl e)
  with run show ?thesis
    by (auto simp: queue_enqueue_def Let_def split: sum.splits prod.splits)
next
  case (Inr receipt)
  obtain env where env: "work_envelope_authorize C uuid d policy now = Inr env"
    using run Inr by (auto simp: queue_enqueue_def split: sum.splits)
  obtain eo where eo: "enqueue C env db = (Inr eo, db')"
    and receipt: "receipt = \<lparr>work_id = env_id (envelope (eo_item eo)), receipt_inserted = eo_inserted eo,
       notification_error = (if eo_inserted eo then publish (envelope (eo_item eo)) else None)\<rparr>"
    and told: "told' = (if eo_inserted eo then told @ [envelope (eo_item eo)] else told)"
    using run Inr env by (auto simp: queue_enqueue_def sqlite_store_def Let_def split: sum.splits prod.splits)
  have "storable C env"
    using authorize_ok [OF env] authorize_fields [OF env] payload now by (simp add: storable_def)
  then have "table_ok C (work_rows db')"
    using enqueue_steps [of C env db] table_ok_steps [OF C _ ok] eo by (auto simp: steps_of_def)
  then have cf: "conflict_free (work_rows db')" by (simp add: table_ok_def)
  from enqueue_Inr_stored [OF eo this] obtain r where r: "r \<in> set (work_rows db')"
    "try_into_item C r = Inr (eo_item eo)" "r_id r = env_id (envelope (eo_item eo))" by auto
  have "query_stored_by_id (work_rows db') (r_id r) = Some r"
    using find_key_unique [OF conflict_free_ids [OF cf] r(1)] by (simp add: query_stored_by_id_def)
  then have "call_ok db' \<longrightarrow> fst (get C (work_id receipt) db') = Inr (Some (eo_item eo))"
    using r receipt by (simp add: get_apply)
  with Inr receipt told show ?thesis by (auto intro!: exI [of _ "eo_item eo"])
qed

definition sample_draft :: work_draft where
  "sample_draft = (work_draft_new ''k'' ''t'' (JString ''p''))\<lparr>d_dedupe_key := Some ''w''\<rparr>"

theorem queue_persists_before_it_notifies_witness:
  "snd (snd (queue_enqueue sample_codec (sqlite_store sample_codec) (\<lambda>_. Inl KindNotAllowed)
     (\<lambda>_. Some TransportUnavailable) ''u'' sample_draft 7 (sample_db [], []))) = []"
proof -
  obtain res db' told' where run: "queue_enqueue sample_codec (sqlite_store sample_codec) (\<lambda>_. Inl KindNotAllowed)
     (\<lambda>_. Some TransportUnavailable) ''u'' sample_draft 7 (sample_db [], []) = (res, (db', told'))"
    by (metis prod_cases3)
  have "table_ok sample_codec (work_rows (sample_db []))" by (simp add: table_ok_def conflict_free_def)
  moreover have "7 \<le> ts_text_max sample_codec" by (simp add: sample_codec_def)
  moreover have "json_from_str sample_codec (json_to_string sample_codec (d_payload sample_draft)) =
      Some (d_payload sample_draft)"
    by (simp add: sample_codec_def sample_draft_def work_draft_new_def)
  moreover have "\<exists>e. res = Inl e"
    using run by (auto simp: queue_enqueue_def work_envelope_authorize_def sbind_def split: sum.splits)
  ultimately show ?thesis
    using queue_persists_before_it_notifies [OF sample_rfc3339 _ _ _ run] run by auto
qed

section \<open>Deny by default\<close>

text \<open>
  the registry denies by default: work whose target and kind have no handler is rejected as
  unavailable, and work is authorized only by the one registered handler with exactly that
  target and kind, with a command that this handler's own payload check produced and its own
  authorization accepted; everything else is a permanent rejection, except a panic in a gate.
\<close>

theorem registry_denies_by_default:
  assumes "from_handlers hs = Inr reg"
  shows "distinct (map (\<lambda>h. (h_target h, h_kind h)) hs) \<and>
    (case authorized_handler reg env of
       Inr aw \<Rightarrow> aw_handler aw \<in> set hs \<and>
         h_target (aw_handler aw) = env_target env \<and> h_kind (aw_handler aw) = env_kind env \<and>
         h_validate_payload (aw_handler aw) (env_payload env) = Returns (Inr (aw_command aw)) \<and>
         h_authorize (aw_handler aw) (context_from_envelope env) (aw_command aw) = Returns (Inr ())
     | Inl rej \<Rightarrow>
         (rej = RejHandlerUnavailable \<longleftrightarrow>
            (\<forall>h \<in> set hs. (h_target h, h_kind h) \<noteq> (env_target env, env_kind env))) \<and>
         (rejection_retryable rej \<longleftrightarrow> rej = RejHandlerPanicked))"
proof -
  have found: "reg k = find (\<lambda>h. handler_key h = k) hs" for k
    using from_handlers_into_lookup [OF assms [unfolded from_handlers_def], of k] by (simp split: option.splits)
  have retry: "rejection_retryable rej \<longleftrightarrow> rej = RejHandlerPanicked" for rej
    by (cases rej) auto
  have d: "distinct (map handler_key hs)"
    using from_handlers_into_distinct [OF assms [unfolded from_handlers_def]] .
  show ?thesis
  proof (cases "find (\<lambda>h. handler_key h = (env_target env, env_kind env)) hs")
    case None
    then have "reg (env_target env, env_kind env) = None" by (simp only: found)
    moreover have "\<forall>h \<in> set hs. handler_key h \<noteq> (env_target env, env_kind env)"
      using None by (auto simp: find_None_iff)
    ultimately show ?thesis using d by (simp add: authorized_handler_def)
  next
    case (Some h)
    then have "h \<in> set hs" "h_target h = env_target env" "h_kind h = env_kind env"
      by (auto simp: find_Some_iff)
    moreover have "reg (env_target env, env_kind env) = Some h" using Some by (simp only: found)
    ultimately show ?thesis using d
      by (auto simp: authorized_handler_def Let_def retry split: sum.splits gate.splits)
  qed
qed

definition sample_handler :: "unit work_handler" where
  "sample_handler = \<lparr>h_target = ''t'', h_kind = ''k'', h_validate_payload = (\<lambda>_. Returns (Inr ())),
     h_authorize = (\<lambda>_ _. Returns (Inr ()))\<rparr>"

lemma sample_from_handlers: "from_handlers [sample_handler] = Inr ((\<lambda>_. None)((''t'', ''k'') \<mapsto> sample_handler))"
  by (simp add: from_handlers_def sample_handler_def valid_routing_key_def MAX_ROUTING_BYTES_def
      has_whitespace_def bytes_def)

theorem registry_denies_by_default_witness:
  "authorized_handler ((\<lambda>_. None)((''t'', ''k'') \<mapsto> sample_handler)) (sample_envelope ''w'' 0) \<noteq>
     Inl RejHandlerUnavailable"
  using registry_denies_by_default [OF sample_from_handlers, of "sample_envelope ''w'' 0"]
  by (auto simp: sample_handler_def sample_envelope_def)

section \<open>Bounds\<close>

text \<open>
  accepted limits leave room for a second heartbeat: twice the heartbeat interval is shorter
  than the lease, so one missed renewal does not lose the item, and between 1 and 32 items run at
  a time.
\<close>

theorem limits_leave_room_for_a_second_heartbeat:
  assumes "limits_new conc poll lease heartbeat timeout drain = Inr l"
    and "subsec_nanos lease < 1000000000"
  shows "2 * dur_ns (heartbeat_interval l) < dur_ns (lease_duration l) \<and>
    1 \<le> concurrency l \<and> concurrency l \<le> 32"
proof -
  obtain twice where twice: "duration_checked_mul heartbeat 2 = Some twice" "\<not> dur_le lease twice"
    using assms(1) by (auto simp: limits_new_def split: if_splits option.splits)
  then have "2 * dur_ns heartbeat < dur_ns lease"
    using checked_mul_ns [OF twice(1)] dur_le_ns [OF assms(2), of twice] by simp
  with limits_new_Inr [OF assms(1)] show ?thesis by simp
qed

lemma sample_limits:
  "limits_new 4 (from_secs 1) (from_secs 30) (from_secs 10) (from_secs 300) (from_secs 30) = Inr limits_default"
  by (simp add: limits_new_def worker_bounds in_range_def dur_le_def duration_checked_mul_def
      limits_default_def work_bounds Let_def)

theorem limits_leave_room_for_a_second_heartbeat_witness:
  "2 * dur_ns (heartbeat_interval limits_default) < dur_ns (lease_duration limits_default)"
  using limits_leave_room_for_a_second_heartbeat [OF sample_limits] by (simp add: from_secs_def)

text \<open>
  a lease duration with a fraction of a second passes the limits of the worker and is
  refused by the store: with such a configuration every claim fails with the invalid lease
  duration error, whatever is in the table, so the worker never takes an item.
\<close>

theorem fractional_lease_never_claims:
  assumes "subsec_nanos lease \<noteq> 0"
    and "cfg_limits cfg = l" and "limits_new conc poll lease heartbeat timeout drain = Inr l"
    and "config_new (cfg_target cfg) (cfg_owner cfg) l = Inr cfg"
    and "cancellation \<noteq> CancelledAtStart"
  shows "claim_call (sqlite_store C) cfg now uuid cancellation db =
    (Inl (StoreFailure (InvalidEnvelope InvalidLeaseDuration)), db)"
proof -
  have l: "lease_duration (cfg_limits cfg) = lease" using limits_new_Inr(4) [OF assms(3)] assms(2) by simp
  have "valid_routing_key (cfg_target cfg)" "valid_routing_key (cfg_owner cfg)"
    using assms(4) by (auto simp: config_new_def split: if_splits)
  then have "validate_routing_value (cfg_target cfg) InvalidTarget = Inr ()"
    "validate_lease C (cfg_owner cfg) now lease = Inl (InvalidEnvelope InvalidLeaseDuration)"
    using assms(1) by (auto simp: valid_routing_key_def validate_lease_def)
  then have "claim_next_cancellable C uuid (cfg_target cfg) (cfg_owner cfg) now lease cancellation db =
      (Inl (InvalidEnvelope InvalidLeaseDuration), db)"
    using assms(5) by (simp only: claim_next_cancellable_def if_False bnd_basic)
  then show ?thesis by (simp add: claim_call_def blocking_store_call_def sqlite_store_def l)
qed

definition fractional_lease :: duration where
  "fractional_lease = \<lparr>as_secs = 1, subsec_nanos = 500000000\<rparr>"

definition fractional_config :: work_worker_config where
  "fractional_config = \<lparr>cfg_target = ''t'', cfg_owner = ''o'', cfg_limits =
     \<lparr>concurrency = 1, poll_interval = from_secs 1, lease_duration = fractional_lease,
      heartbeat_interval = from_millis 200, handler_timeout = from_secs 1, shutdown_drain = from_secs 1\<rparr>\<rparr>"

theorem fractional_lease_never_claims_witness:
  "fst (claim_call (sqlite_store sample_codec) fractional_config 6 ''u'' NeverCancelled (sample_db [sample_row ''w''])) =
     Inl (StoreFailure (InvalidEnvelope InvalidLeaseDuration))"
proof -
  have l: "limits_new 1 (from_secs 1) fractional_lease (from_millis 200) (from_secs 1) (from_secs 1) =
      Inr (cfg_limits fractional_config)"
    by (simp add: limits_new_def worker_bounds in_range_def dur_le_def duration_checked_mul_def
        fractional_config_def fractional_lease_def work_bounds Let_def)
  have "config_new (cfg_target fractional_config) (cfg_owner fractional_config) (cfg_limits fractional_config) =
      Inr fractional_config"
    by (simp add: config_new_def fractional_config_def valid_routing_key_def MAX_ROUTING_BYTES_def
      has_whitespace_def bytes_def)
  from fractional_lease_never_claims [OF _ refl l this, of NeverCancelled sample_codec 6 "''u''"]
  show ?thesis by (simp add: fractional_lease_def)
qed

end
