(* ===== verification/Session_Types.thy ===== *)
theory Session_Types
  imports Prelude
begin

text \<open>
  The data of the session store (\<open>services/execution-state/src/types.rs\<close>): statuses and the
  texts they are stored as, sessions, executions, checkpoints, artifacts, filters and the rows
  of the dashboard.
\<close>

section \<open>Statuses\<close>

datatype session_status = SQueued | SRunning | SPaused | SCompleted | SCrashed

fun session_status_as_str :: "session_status \<Rightarrow> string" where
  "session_status_as_str SQueued = ''queued''"
| "session_status_as_str SRunning = ''running''"
| "session_status_as_str SPaused = ''paused''"
| "session_status_as_str SCompleted = ''completed''"
| "session_status_as_str SCrashed = ''crashed''"

fun session_is_terminal :: "session_status \<Rightarrow> bool" where
  "session_is_terminal SCompleted = True"
| "session_is_terminal SCrashed = True"
| "session_is_terminal _ = False"

text \<open>\<open>FromStr\<close>: \<open>None\<close> is the error, whose text every caller drops.\<close>

definition session_status_from_str :: "string \<Rightarrow> session_status option" where
  "session_status_from_str t =
     (let s = to_lowercase t in
      if s = ''queued'' then Some SQueued
      else if s = ''running'' then Some SRunning
      else if s = ''paused'' then Some SPaused
      else if s = ''completed'' then Some SCompleted
      else if s = ''crashed'' then Some SCrashed
      else None)"

datatype trigger_source = Web | Cli | Cron | Api | Connector

fun trigger_as_str :: "trigger_source \<Rightarrow> string" where
  "trigger_as_str Web = ''web''"
| "trigger_as_str Cli = ''cli''"
| "trigger_as_str Cron = ''cron''"
| "trigger_as_str Api = ''api''"
| "trigger_as_str Connector = ''connector''"

fun should_auto_complete_session :: "trigger_source \<Rightarrow> bool" where
  "should_auto_complete_session Web = False"
| "should_auto_complete_session Cli = True"
| "should_auto_complete_session Cron = True"
| "should_auto_complete_session Api = True"
| "should_auto_complete_session Connector = True"

definition trigger_from_str :: "string \<Rightarrow> trigger_source option" where
  "trigger_from_str t =
     (let s = to_lowercase t in
      if s = ''web'' then Some Web
      else if s = ''cli'' then Some Cli
      else if s = ''cron'' then Some Cron
      else if s = ''api'' then Some Api
      else if s = ''connector'' \<or> s = ''plugin'' then Some Connector
      else None)"

datatype execution_status = XQueued | XRunning | XPaused | XCrashed | XCancelled | XCompleted

fun execution_status_as_str :: "execution_status \<Rightarrow> string" where
  "execution_status_as_str XQueued = ''queued''"
| "execution_status_as_str XRunning = ''running''"
| "execution_status_as_str XPaused = ''paused''"
| "execution_status_as_str XCrashed = ''crashed''"
| "execution_status_as_str XCancelled = ''cancelled''"
| "execution_status_as_str XCompleted = ''completed''"

fun execution_is_terminal :: "execution_status \<Rightarrow> bool" where
  "execution_is_terminal XCancelled = True"
| "execution_is_terminal XCompleted = True"
| "execution_is_terminal XCrashed = True"
| "execution_is_terminal _ = False"

fun execution_is_resumable :: "execution_status \<Rightarrow> bool" where
  "execution_is_resumable XPaused = True"
| "execution_is_resumable XCrashed = True"
| "execution_is_resumable _ = False"

definition execution_status_from_str :: "string \<Rightarrow> execution_status option" where
  "execution_status_from_str t =
     (let s = to_lowercase t in
      if s = ''queued'' then Some XQueued
      else if s = ''running'' then Some XRunning
      else if s = ''paused'' then Some XPaused
      else if s = ''crashed'' then Some XCrashed
      else if s = ''cancelled'' then Some XCancelled
      else if s = ''completed'' then Some XCompleted
      else None)"

datatype delegation_type = RootAgent | Sequential | Parallel

fun delegation_as_str :: "delegation_type \<Rightarrow> string" where
  "delegation_as_str RootAgent = ''root''"
| "delegation_as_str Sequential = ''sequential''"
| "delegation_as_str Parallel = ''parallel''"

definition delegation_from_str :: "string \<Rightarrow> delegation_type option" where
  "delegation_from_str t =
     (let s = to_lowercase t in
      if s = ''root'' then Some RootAgent
      else if s = ''sequential'' then Some Sequential
      else if s = ''parallel'' then Some Parallel
      else None)"

text \<open>Every text that is written reads back, and only texts of a variant do.\<close>

lemma session_status_round [codec_simps]: "session_status_from_str (session_status_as_str s) = Some s"
  by (cases s) (simp_all add: session_status_from_str_def to_lowercase_def to_lower_char_def)

lemma trigger_round [codec_simps]: "trigger_from_str (trigger_as_str s) = Some s"
  by (cases s) (simp_all add: trigger_from_str_def to_lowercase_def to_lower_char_def)

lemma execution_status_round [codec_simps]:
  "execution_status_from_str (execution_status_as_str s) = Some s"
  by (cases s) (simp_all add: execution_status_from_str_def to_lowercase_def to_lower_char_def)

lemma delegation_round [codec_simps]: "delegation_from_str (delegation_as_str d) = Some d"
  by (cases d) (simp_all add: delegation_from_str_def to_lowercase_def to_lower_char_def)

lemma session_status_text_inj [simp]:
  "session_status_as_str s = session_status_as_str t \<longleftrightarrow> s = t"
  by (metis option.inject session_status_round)

lemma execution_status_text_inj [simp]:
  "execution_status_as_str s = execution_status_as_str t \<longleftrightarrow> s = t"
  by (metis option.inject execution_status_round)

lemma delegation_text_inj [simp]: "delegation_as_str s = delegation_as_str t \<longleftrightarrow> s = t"
  by (metis option.inject delegation_round)

lemma session_status_texts [simp]:
  "session_status_from_str ''queued'' = Some SQueued"
  "session_status_from_str ''running'' = Some SRunning"
  "session_status_from_str ''paused'' = Some SPaused"
  "session_status_from_str ''completed'' = Some SCompleted"
  "session_status_from_str ''crashed'' = Some SCrashed"
  using session_status_round [of SQueued] session_status_round [of SRunning]
    session_status_round [of SPaused] session_status_round [of SCompleted]
    session_status_round [of SCrashed] by simp_all

lemma execution_status_texts [simp]:
  "execution_status_from_str ''queued'' = Some XQueued"
  "execution_status_from_str ''running'' = Some XRunning"
  "execution_status_from_str ''paused'' = Some XPaused"
  "execution_status_from_str ''crashed'' = Some XCrashed"
  "execution_status_from_str ''cancelled'' = Some XCancelled"
  "execution_status_from_str ''completed'' = Some XCompleted"
  using execution_status_round [of XQueued] execution_status_round [of XRunning]
    execution_status_round [of XPaused] execution_status_round [of XCrashed]
    execution_status_round [of XCancelled] execution_status_round [of XCompleted] by simp_all

section \<open>Sessions\<close>

record session =
  s_id :: string
  s_status :: session_status
  s_source :: trigger_source
  s_root_agent_id :: string
  s_title :: "string option"
  s_created_at :: string
  s_started_at :: "string option"
  s_completed_at :: "string option"
  s_tokens_in :: "64 word"
  s_tokens_out :: "64 word"
  s_metadata :: "json option"
  s_pending_delegations :: "32 word"
  s_continuation_needed :: bool
  s_ward_id :: "string option"
  s_parent_session_id :: "string option"
  s_thread_id :: "string option"
  s_connector_id :: "string option"
  s_respond_to :: "string list option"
  s_mode :: "string option"

datatype session_ward_claim = ClaimedWard string | ExistingWard string

definition validate_prefixed_uuid :: "codec \<Rightarrow> string \<Rightarrow> string \<Rightarrow> string + unit" where
  "validate_prefixed_uuid C v prefix =
     sbind (some_or ''invalid_reserved_id'' (strip_prefix prefix v)) (\<lambda>suffix.
     sbind (some_or ''invalid_reserved_id'' (uuid_canonical C suffix)) (\<lambda>parsed.
     if parsed \<noteq> suffix then Inl ''invalid_reserved_id'' else Inr ()))"

text \<open>
  The constructors take the text of the fresh uuid and of the current instant they print.
\<close>

definition session_new_with_source :: "string \<Rightarrow> string \<Rightarrow> string \<Rightarrow> trigger_source \<Rightarrow> session" where
  "session_new_with_source uuid now agent source =
     \<lparr>s_id = ''sess-'' @ uuid, s_status = SRunning, s_source = source, s_root_agent_id = agent,
      s_title = None, s_created_at = now, s_started_at = None, s_completed_at = None,
      s_tokens_in = 0, s_tokens_out = 0, s_metadata = None, s_pending_delegations = 0,
      s_continuation_needed = False, s_ward_id = None, s_parent_session_id = None,
      s_thread_id = None, s_connector_id = None, s_respond_to = None, s_mode = None\<rparr>"

definition session_new :: "string \<Rightarrow> string \<Rightarrow> string \<Rightarrow> session" where
  "session_new uuid now agent = session_new_with_source uuid now agent Web"

definition session_new_with_id ::
  "codec \<Rightarrow> string \<Rightarrow> string \<Rightarrow> string \<Rightarrow> string \<Rightarrow> trigger_source \<Rightarrow> string + session" where
  "session_new_with_id C uuid now i agent source =
     sbind (validate_prefixed_uuid C i ''sess-'') (\<lambda>_.
     Inr ((session_new_with_source uuid now agent source)\<lparr>s_id := i\<rparr>))"

definition session_new_queued :: "string \<Rightarrow> string \<Rightarrow> string \<Rightarrow> trigger_source \<Rightarrow> session" where
  "session_new_queued uuid now agent source =
     \<lparr>s_id = ''sess-'' @ uuid, s_status = SQueued, s_source = source, s_root_agent_id = agent,
      s_title = None, s_created_at = now, s_started_at = None, s_completed_at = None,
      s_tokens_in = 0, s_tokens_out = 0, s_metadata = None, s_pending_delegations = 0,
      s_continuation_needed = False, s_ward_id = None, s_parent_session_id = None,
      s_thread_id = None, s_connector_id = None, s_respond_to = None, s_mode = None\<rparr>"

definition session_new_queued_with_id ::
  "codec \<Rightarrow> string \<Rightarrow> string \<Rightarrow> string \<Rightarrow> string \<Rightarrow> trigger_source \<Rightarrow> string + session" where
  "session_new_queued_with_id C uuid now i agent source =
     sbind (validate_prefixed_uuid C i ''sess-'') (\<lambda>_.
     Inr ((session_new_queued uuid now agent source)\<lparr>s_id := i\<rparr>))"

definition session_new_child :: "string \<Rightarrow> string \<Rightarrow> string \<Rightarrow> string \<Rightarrow> session" where
  "session_new_child uuid now agent parent =
     \<lparr>s_id = ''sess-'' @ uuid, s_status = SRunning, s_source = Web, s_root_agent_id = agent,
      s_title = None, s_created_at = now, s_started_at = None, s_completed_at = None,
      s_tokens_in = 0, s_tokens_out = 0, s_metadata = None, s_pending_delegations = 0,
      s_continuation_needed = False, s_ward_id = None, s_parent_session_id = Some parent,
      s_thread_id = None, s_connector_id = None, s_respond_to = None, s_mode = None\<rparr>"

definition with_routing ::
  "string option \<Rightarrow> string option \<Rightarrow> string list option \<Rightarrow> session \<Rightarrow> session" where
  "with_routing thread connector respond s =
     s\<lparr>s_thread_id := thread, s_connector_id := connector, s_respond_to := respond\<rparr>"

text \<open>The sum of two \<open>u64\<close> wraps, as in the release profile.\<close>

definition session_total_tokens :: "session \<Rightarrow> 64 word" where
  "session_total_tokens s = s_tokens_in s + s_tokens_out s"

definition has_pending_delegations :: "session \<Rightarrow> bool" where
  "has_pending_delegations s = (0 < s_pending_delegations s)"

definition needs_continuation :: "session \<Rightarrow> bool" where
  "needs_continuation s = (s_continuation_needed s \<and> \<not> has_pending_delegations s)"

section \<open>Executions\<close>

record pending_tool_call =
  tc_id :: string
  tc_name :: string
  tc_arguments :: json

record checkpoint =
  cp_llm_turn :: "32 word"
  cp_last_message_id :: string
  cp_pending_tool_calls :: "pending_tool_call list"
  cp_context_state :: json
  cp_child_executions :: "string list"

definition checkpoint_new :: "32 word \<Rightarrow> string \<Rightarrow> checkpoint" where
  "checkpoint_new turn msg =
     \<lparr>cp_llm_turn = turn, cp_last_message_id = msg, cp_pending_tool_calls = [],
      cp_context_state = JNull, cp_child_executions = []\<rparr>"

record agent_execution =
  x_id :: string
  x_session_id :: string
  x_agent_id :: string
  x_parent_execution_id :: "string option"
  x_delegation_type :: delegation_type
  x_task :: "string option"
  x_status :: execution_status
  x_started_at :: "string option"
  x_completed_at :: "string option"
  x_tokens_in :: "64 word"
  x_tokens_out :: "64 word"
  x_checkpoint :: "checkpoint option"
  x_error :: "string option"
  x_log_path :: "string option"
  x_child_session_id :: "string option"

definition execution_new_root :: "string \<Rightarrow> string \<Rightarrow> string \<Rightarrow> agent_execution" where
  "execution_new_root uuid sid agent =
     \<lparr>x_id = ''exec-'' @ uuid, x_session_id = sid, x_agent_id = agent,
      x_parent_execution_id = None, x_delegation_type = RootAgent, x_task = None,
      x_status = XQueued, x_started_at = None, x_completed_at = None, x_tokens_in = 0,
      x_tokens_out = 0, x_checkpoint = None, x_error = None, x_log_path = None,
      x_child_session_id = None\<rparr>"

definition execution_new_root_with_id ::
  "codec \<Rightarrow> string \<Rightarrow> string \<Rightarrow> string \<Rightarrow> string \<Rightarrow> string + agent_execution" where
  "execution_new_root_with_id C uuid i sid agent =
     sbind (validate_prefixed_uuid C i ''exec-'') (\<lambda>_.
     Inr ((execution_new_root uuid sid agent)\<lparr>x_id := i\<rparr>))"

definition execution_new_delegated_with_id ::
  "string \<Rightarrow> string \<Rightarrow> string \<Rightarrow> string \<Rightarrow> delegation_type \<Rightarrow> string \<Rightarrow> agent_execution" where
  "execution_new_delegated_with_id i sid agent parent delegation task =
     \<lparr>x_id = i, x_session_id = sid, x_agent_id = agent,
      x_parent_execution_id = Some parent, x_delegation_type = delegation, x_task = Some task,
      x_status = XQueued, x_started_at = None, x_completed_at = None, x_tokens_in = 0,
      x_tokens_out = 0, x_checkpoint = None, x_error = None, x_log_path = None,
      x_child_session_id = None\<rparr>"

definition execution_new_delegated ::
  "string \<Rightarrow> string \<Rightarrow> string \<Rightarrow> string \<Rightarrow> delegation_type \<Rightarrow> string \<Rightarrow> agent_execution" where
  "execution_new_delegated uuid sid agent parent delegation task =
     \<lparr>x_id = ''exec-'' @ uuid, x_session_id = sid, x_agent_id = agent,
      x_parent_execution_id = Some parent, x_delegation_type = delegation, x_task = Some task,
      x_status = XQueued, x_started_at = None, x_completed_at = None, x_tokens_in = 0,
      x_tokens_out = 0, x_checkpoint = None, x_error = None, x_log_path = None,
      x_child_session_id = None\<rparr>"

text \<open>\<open>num_milliseconds\<close> of a difference in nanoseconds rounds towards zero.\<close>

definition num_milliseconds :: "int \<Rightarrow> int" where
  "num_milliseconds d = sgn d * (\<bar>d\<bar> div 1000000)"

definition duration_ms :: "codec \<Rightarrow> agent_execution \<Rightarrow> int option" where
  "duration_ms C e =
     Option.bind (x_started_at e) (\<lambda>started.
     Option.bind (x_completed_at e) (\<lambda>completed.
     Option.bind (parse_timestamp C started) (\<lambda>from.
     Option.bind (parse_timestamp C completed) (\<lambda>to.
     Some (num_milliseconds (int to - int from))))))"

definition execution_total_tokens :: "agent_execution \<Rightarrow> 64 word" where
  "execution_total_tokens e = x_tokens_in e + x_tokens_out e"

definition execution_is_root :: "agent_execution \<Rightarrow> bool" where
  "execution_is_root e = (x_delegation_type e = RootAgent)"

section \<open>Responses and filters\<close>

record session_with_executions =
  we_session :: session
  we_executions :: "agent_execution list"
  we_subagent_count :: "32 word"

record mc_execution_summary =
  mx_execution_id :: string
  mx_agent_id :: string
  mx_delegation_type :: delegation_type
  mx_tokens_in :: "64 word"
  mx_tokens_out :: "64 word"
  mx_child_session_id :: "string option"

record mc_session_summary =
  ms_conversation_id :: string
  ms_root_execution_id :: string
  ms_status :: session_status
  ms_source :: trigger_source
  ms_root_agent_id :: string
  ms_title :: "string option"
  ms_created_at :: string
  ms_started_at :: "string option"
  ms_completed_at :: "string option"
  ms_tokens_in :: "64 word"
  ms_tokens_out :: "64 word"
  ms_subagent_count :: "32 word"
  ms_mode :: "string option"

record session_filter =
  f_status :: "session_status option"
  f_root_agent_id :: "string option"
  f_from_time :: "string option"
  f_to_time :: "string option"
  f_limit :: "32 word option"
  f_offset :: "32 word option"
  f_thread_id :: "string option"

definition any_session :: session_filter where
  "any_session = \<lparr>f_status = None, f_root_agent_id = None, f_from_time = None, f_to_time = None,
     f_limit = None, f_offset = None, f_thread_id = None\<rparr>"

record mission_control_filter =
  mcf_limit :: "32 word option"
  mcf_offset :: "32 word option"

record execution_filter =
  ef_session_id :: "string option"
  ef_agent_id :: "string option"
  ef_status :: "execution_status option"
  ef_parent_execution_id :: "string option"
  ef_limit :: "32 word option"
  ef_offset :: "32 word option"

definition any_execution :: execution_filter where
  "any_execution = \<lparr>ef_session_id = None, ef_agent_id = None, ef_status = None,
     ef_parent_execution_id = None, ef_limit = None, ef_offset = None\<rparr>"

definition of_session :: "string \<Rightarrow> execution_filter" where
  "of_session sid = any_execution\<lparr>ef_session_id := Some sid\<rparr>"

record dashboard_stats =
  sessions_queued :: "64 word"
  sessions_running :: "64 word"
  sessions_paused :: "64 word"
  sessions_completed :: "64 word"
  sessions_crashed :: "64 word"
  executions_queued :: "64 word"
  executions_running :: "64 word"
  executions_completed :: "64 word"
  executions_crashed :: "64 word"
  executions_cancelled :: "64 word"
  today_sessions :: "64 word"
  today_tokens :: "64 word"
  sessions_by_source :: "(string \<times> 64 word) list"

record artifact =
  a_id :: string
  a_session_id :: string
  a_ward_id :: "string option"
  a_execution_id :: "string option"
  a_agent_id :: "string option"
  a_file_path :: string
  a_file_name :: string
  a_file_type :: "string option"
  a_file_size :: "int option"
  a_label :: "string option"
  a_is_goal :: bool
  a_created_at :: string

definition artifact_new :: "string \<Rightarrow> string \<Rightarrow> string \<Rightarrow> string \<Rightarrow> string \<Rightarrow> artifact" where
  "artifact_new uuid now sid path name =
     \<lparr>a_id = ''art-'' @ uuid, a_session_id = sid, a_ward_id = None, a_execution_id = None,
      a_agent_id = None, a_file_path = path, a_file_name = name, a_file_type = None,
      a_file_size = None, a_label = None, a_is_goal = False, a_created_at = now\<rparr>"

end
