(* ===== verification/Session_Plan.thy ===== *)
theory Session_Plan
  imports Session_Types
begin

text \<open>
  The current plan of a session (\<open>services/execution-state/src/types.rs\<close>): the guard that
  bounds an untrusted update before it is copied, the strict reading of it into plan steps, and
  the theorem that the two agree.
\<close>

section \<open>Data\<close>

definition MAX_SESSION_PLAN_STEPS :: nat where "MAX_SESSION_PLAN_STEPS = 20"
definition MAX_SESSION_PLAN_STEP_BYTES :: nat where "MAX_SESSION_PLAN_STEP_BYTES = 512"
definition MAX_SESSION_PLAN_EXPLANATION_BYTES :: nat where "MAX_SESSION_PLAN_EXPLANATION_BYTES = 1000"
definition MAX_SESSION_PLAN_PAYLOAD_BYTES :: nat where "MAX_SESSION_PLAN_PAYLOAD_BYTES = 16 * 1024"

datatype plan_step_status = StepPending | StepInProgress | StepCompleted | StepFailed

fun plan_step_status_text :: "plan_step_status \<Rightarrow> string" where
  "plan_step_status_text StepPending = ''pending''"
| "plan_step_status_text StepInProgress = ''in_progress''"
| "plan_step_status_text StepCompleted = ''completed''"
| "plan_step_status_text StepFailed = ''failed''"

definition plan_step_status_of_text :: "string \<Rightarrow> plan_step_status option" where
  "plan_step_status_of_text s =
     (if s = ''pending'' then Some StepPending
      else if s = ''in_progress'' then Some StepInProgress
      else if s = ''completed'' then Some StepCompleted
      else if s = ''failed'' then Some StepFailed
      else None)"

lemma plan_step_status_round [codec_simps]:
  "plan_step_status_of_text (plan_step_status_text s) = Some s"
  by (cases s) (simp_all add: plan_step_status_of_text_def)

record plan_step =
  ps_step :: string
  ps_status :: plan_step_status

record plan_input =
  pi_plan :: "plan_step list"
  pi_explanation :: "string option"

datatype plan_rejection =
  InvalidStructure | EmptyPlan | TooManySteps | EmptyStep | StepTooLong | ExplanationTooLong
| PlanPayloadTooLarge | ExecutionSessionMismatch | StaleSequence

fun rejection_code :: "plan_rejection \<Rightarrow> string" where
  "rejection_code InvalidStructure = ''invalid_structure''"
| "rejection_code EmptyPlan = ''empty_plan''"
| "rejection_code TooManySteps = ''too_many_steps''"
| "rejection_code EmptyStep = ''empty_step''"
| "rejection_code StepTooLong = ''step_too_long''"
| "rejection_code ExplanationTooLong = ''explanation_too_long''"
| "rejection_code PlanPayloadTooLarge = ''payload_too_large''"
| "rejection_code ExecutionSessionMismatch = ''execution_session_mismatch''"
| "rejection_code StaleSequence = ''stale_sequence''"

record plan_snapshot =
  sn_execution_id :: string
  sn_explanation :: "string option"
  sn_plan :: "plan_step list"
  sn_updated_at :: string
  sn_source_event_timestamp :: "64 word"
  sn_source_event_sequence :: "64 word"

datatype plan_save_outcome = Accepted plan_snapshot | Rejected plan_rejection

fun accepted :: "plan_save_outcome \<Rightarrow> plan_snapshot option" where
  "accepted (Accepted s) = Some s"
| "accepted (Rejected _) = None"

section \<open>Derived serialization\<close>

text \<open>
  The derived readers take a struct from an object or from an array of its fields in order; an
  enum of unit variants from its name or from an object with its name as only key and null as
  its value. A missing field reads as an error unless it is an option or has a default.
\<close>

definition struct_fields :: "string list \<Rightarrow> json \<Rightarrow> (string \<times> json) list option" where
  "struct_fields names v =
     (case v of
        JObject kvs \<Rightarrow> Some kvs
      | JArray vs \<Rightarrow> if length vs \<le> length names then Some (zip names vs) else None
      | _ \<Rightarrow> None)"

definition deny_unknown_fields :: "string list \<Rightarrow> (string \<times> json) list \<Rightarrow> bool" where
  "deny_unknown_fields names kvs = list_all (\<lambda>(k, _). k \<in> set names) kvs"

fun plan_step_status_of_json :: "json \<Rightarrow> plan_step_status option" where
  "plan_step_status_of_json (JString s) = plan_step_status_of_text s"
| "plan_step_status_of_json (JObject [(k, JNull)]) = plan_step_status_of_text k"
| "plan_step_status_of_json _ = None"

definition plan_step_of_json :: "json \<Rightarrow> plan_step option" where
  "plan_step_of_json v =
     Option.bind (struct_fields [''step'', ''status''] v) (\<lambda>kvs.
     if \<not> deny_unknown_fields [''step'', ''status''] kvs then None else
     Option.bind (Option.bind (obj_get kvs ''step'') as_str) (\<lambda>t.
     Option.bind (Option.bind (obj_get kvs ''status'') plan_step_status_of_json) (\<lambda>st.
     Some \<lparr>ps_step = t, ps_status = st\<rparr>)))"

fun collect_option :: "('a \<Rightarrow> 'b option) \<Rightarrow> 'a list \<Rightarrow> 'b list option" where
  "collect_option f [] = Some []"
| "collect_option f (x # xs) =
     (case f x of
        None \<Rightarrow> None
      | Some y \<Rightarrow> (case collect_option f xs of None \<Rightarrow> None | Some ys \<Rightarrow> Some (y # ys)))"

definition plan_of_json :: "json \<Rightarrow> plan_step list option" where
  "plan_of_json v = Option.bind (as_array v) (collect_option plan_step_of_json)"

fun opt_string_of_json :: "json \<Rightarrow> string option option" where
  "opt_string_of_json JNull = Some None"
| "opt_string_of_json (JString s) = Some (Some s)"
| "opt_string_of_json _ = None"

definition plan_input_of_json :: "json \<Rightarrow> plan_input option" where
  "plan_input_of_json v =
     Option.bind (struct_fields [''plan'', ''explanation''] v) (\<lambda>kvs.
     if \<not> deny_unknown_fields [''plan'', ''explanation''] kvs then None else
     Option.bind (Option.bind (obj_get kvs ''plan'') plan_of_json) (\<lambda>steps.
     Option.bind (case obj_get kvs ''explanation'' of None \<Rightarrow> Some None | Some e \<Rightarrow> opt_string_of_json e)
       (\<lambda>expl. Some \<lparr>pi_plan = steps, pi_explanation = expl\<rparr>)))"

definition plan_step_to_json :: "plan_step \<Rightarrow> json" where
  "plan_step_to_json s =
     JObject [(''step'', JString (ps_step s)), (''status'', JString (plan_step_status_text (ps_status s)))]"

definition plan_to_json :: "plan_step list \<Rightarrow> json" where
  "plan_to_json steps = JArray (map plan_step_to_json steps)"

fun json_opt_string :: "string option \<Rightarrow> json" where
  "json_opt_string None = JNull"
| "json_opt_string (Some s) = JString s"

section \<open>The guard\<close>

text \<open>
  \<open>BoundedJsonCounter\<close> is a writer that only counts. \<open>to_writer\<close> hands it the printed text
  in pieces of the crate's choosing: \<open>J\<close> is what it writes for a value, piece by piece.
\<close>

definition counter_write :: "string \<Rightarrow> nat \<Rightarrow> nat option" where
  "counter_write buffer remaining =
     (if remaining < length buffer then None else Some (remaining - length buffer))"

fun counter_write_all :: "string list \<Rightarrow> nat \<Rightarrow> nat option" where
  "counter_write_all [] remaining = Some remaining"
| "counter_write_all (b # bs) remaining =
     (case counter_write b remaining of None \<Rightarrow> None | Some r \<Rightarrow> counter_write_all bs r)"

definition borrowed_plan_input :: "json \<Rightarrow> string option \<Rightarrow> json" where
  "borrowed_plan_input plan explanation =
     JObject [(''plan'', plan), (''explanation'', json_opt_string explanation)]"

definition preflight_step :: "json \<Rightarrow> plan_rejection + unit" where
  "preflight_step raw =
     sbind (some_or InvalidStructure (as_object raw)) (\<lambda>obj.
     if length obj \<noteq> 2 \<or> \<not> obj_contains_key obj ''step'' \<or> \<not> obj_contains_key obj ''status''
     then Inl InvalidStructure else
     sbind (some_or InvalidStructure (Option.bind (obj_get obj ''step'') as_str)) (\<lambda>step.
     if trim_is_empty step then Inl EmptyStep
     else if MAX_SESSION_PLAN_STEP_BYTES < length step then Inl StepTooLong
     else case Option.bind (obj_get obj ''status'') as_str of
         None \<Rightarrow> Inl InvalidStructure
       | Some st \<Rightarrow>
           if st \<in> {''pending'', ''in_progress'', ''completed'', ''failed''} then Inr ()
           else Inl InvalidStructure))"

fun preflight_steps :: "json list \<Rightarrow> plan_rejection + unit" where
  "preflight_steps [] = Inr ()"
| "preflight_steps (v # vs) = sbind (preflight_step v) (\<lambda>_. preflight_steps vs)"

definition preflight_update ::
  "(json \<Rightarrow> string list) \<Rightarrow> json \<Rightarrow> string option \<Rightarrow> plan_rejection + unit" where
  "preflight_update J plan explanation =
     sbind (some_or InvalidStructure (as_array plan)) (\<lambda>steps.
     if steps = [] then Inl EmptyPlan
     else if MAX_SESSION_PLAN_STEPS < length steps then Inl TooManySteps
     else sbind (preflight_steps steps) (\<lambda>_.
     if (case explanation of None \<Rightarrow> False | Some e \<Rightarrow> MAX_SESSION_PLAN_EXPLANATION_BYTES < length e)
     then Inl ExplanationTooLong
     else case counter_write_all (J (borrowed_plan_input plan explanation)) MAX_SESSION_PLAN_PAYLOAD_BYTES of
         None \<Rightarrow> Inl PlanPayloadTooLarge
       | Some _ \<Rightarrow> Inr ()))"

fun validate_plan_steps :: "plan_step list \<Rightarrow> plan_rejection + unit" where
  "validate_plan_steps [] = Inr ()"
| "validate_plan_steps (s # ss) =
     (if trim_is_empty (ps_step s) then Inl EmptyStep
      else if MAX_SESSION_PLAN_STEP_BYTES < length (ps_step s) then Inl StepTooLong
      else validate_plan_steps ss)"

definition validate_plan_input :: "plan_input \<Rightarrow> plan_rejection + unit" where
  "validate_plan_input inp =
     (if pi_plan inp = [] then Inl EmptyPlan
      else if MAX_SESSION_PLAN_STEPS < length (pi_plan inp) then Inl TooManySteps
      else sbind (validate_plan_steps (pi_plan inp)) (\<lambda>_.
      if (case pi_explanation inp of None \<Rightarrow> False | Some e \<Rightarrow> MAX_SESSION_PLAN_EXPLANATION_BYTES < length e)
      then Inl ExplanationTooLong else Inr ()))"

definition from_update ::
  "(json \<Rightarrow> string list) \<Rightarrow> json \<Rightarrow> string option \<Rightarrow> plan_rejection + plan_input" where
  "from_update J plan explanation =
     sbind (preflight_update J plan explanation) (\<lambda>_.
     sbind (some_or InvalidStructure (plan_input_of_json
       (JObject [(''plan'', plan), (''explanation'', json_opt_string explanation)]))) (\<lambda>inp.
     sbind (validate_plan_input inp) (\<lambda>_. Inr inp)))"

section \<open>Lemmas\<close>

lemma counter_write_all_eq:
  "counter_write_all bs n =
     (if n < length (concat bs) then None else Some (n - length (concat bs)))"
  by (induction bs arbitrary: n) (auto simp: counter_write_def)

text \<open>The budget is on the text, however it is cut into pieces.\<close>

lemma budget_ignores_the_pieces:
  "concat bs = concat cs \<Longrightarrow> counter_write_all bs n = counter_write_all cs n"
  by (simp add: counter_write_all_eq)

lemma collect_option_map: "(\<And>x. x \<in> set xs \<Longrightarrow> f (g x) = Some (h x)) \<Longrightarrow>
  collect_option f (map g xs) = Some (map h xs)"
  by (induction xs) auto

lemma plan_step_of_json_round [codec_simps]: "plan_step_of_json (plan_step_to_json s) = Some s"
  by (simp add: plan_step_of_json_def plan_step_to_json_def struct_fields_def
      deny_unknown_fields_def obj_get_def codec_simps)

lemma plan_of_json_round [codec_simps]: "plan_of_json (plan_to_json steps) = Some steps"
  using collect_option_map [of steps plan_step_of_json plan_step_to_json id]
  by (simp add: plan_of_json_def plan_to_json_def codec_simps)

text \<open>What a step that passes the guard is: an object with exactly the two keys.\<close>

lemma two_keys:
  assumes "length kvs = 2" and "k \<in> set (map fst kvs)" and "l \<in> set (map fst kvs)" and "k \<noteq> l"
  obtains v w where "kvs = [(k, v), (l, w)] \<or> kvs = [(l, w), (k, v)]"
proof -
  from assms(1) obtain p q where kvs: "kvs = [p, q]"
    by (metis (no_types, opaque_lifting) One_nat_def Suc_1 length_0_conv length_Suc_conv)
  with assms(2-4) show thesis
    by (cases p; cases q) (auto intro: that)
qed

lemma preflight_step_ok:
  assumes "preflight_step raw = Inr ()"
  obtains s where "plan_step_of_json raw = Some s" "\<not> trim_is_empty (ps_step s)"
    "length (ps_step s) \<le> MAX_SESSION_PLAN_STEP_BYTES"
proof -
  from assms obtain kvs where raw: "raw = JObject kvs"
    by (cases raw) (auto simp: preflight_step_def)
  with assms have keys: "length kvs = 2" "''step'' \<in> set (map fst kvs)" "''status'' \<in> set (map fst kvs)"
    by (auto simp: preflight_step_def obj_contains_key_def split: if_splits)
  then obtain v w where "kvs = [(''step'', v), (''status'', w)] \<or> kvs = [(''status'', w), (''step'', v)]"
    by (rule two_keys) auto
  then have get: "obj_get kvs ''step'' = Some v" "obj_get kvs ''status'' = Some w"
    and known: "deny_unknown_fields [''step'', ''status''] kvs"
    by (auto simp: obj_get_def deny_unknown_fields_def)
  from assms raw get obtain t u where "v = JString t" "w = JString u"
    by (cases v; cases w) (auto simp: preflight_step_def split: if_splits)
  with assms raw get known show thesis
    by (intro that [of "\<lparr>ps_step = t, ps_status = the (plan_step_status_of_text u)\<rparr>"])
      (auto simp: preflight_step_def plan_step_of_json_def struct_fields_def
        plan_step_status_of_text_def split: if_splits)
qed

lemma preflight_steps_ok:
  "preflight_steps vs = Inr () \<Longrightarrow>
   \<exists>steps. collect_option plan_step_of_json vs = Some steps \<and> validate_plan_steps steps = Inr () \<and>
     length steps = length vs"
proof (induction vs)
  case (Cons v vs)
  then have "preflight_step v = Inr ()" "preflight_steps vs = Inr ()"
    by (auto simp: sbind_eq_Inr)
  with Cons.IH preflight_step_ok [of v] show ?case by (metis (mono_tags, lifting)
      collect_option.simps(2) length_Cons linorder_not_le option.simps(5) validate_plan_steps.simps(2))
qed auto

lemma preflight_ok_from_update:
  assumes "preflight_update J plan expl = Inr ()"
  shows "\<exists>steps. plan_of_json plan = Some steps \<and> from_update J plan expl = Inr \<lparr>pi_plan = steps, pi_explanation = expl\<rparr>"
proof -
  from assms obtain vs where vs: "plan = JArray vs" "vs \<noteq> []" "length vs \<le> MAX_SESSION_PLAN_STEPS"
      "preflight_steps vs = Inr ()"
    by (cases plan) (auto simp: preflight_update_def sbind_eq_Inr split: if_splits)
  from preflight_steps_ok [OF vs(4)] obtain steps where
    steps: "collect_option plan_step_of_json vs = Some steps" "validate_plan_steps steps = Inr ()"
      "length steps = length vs" by blast
  have expl: "\<not> (case expl of None \<Rightarrow> False | Some e \<Rightarrow> MAX_SESSION_PLAN_EXPLANATION_BYTES < length e)"
    using assms by (auto simp: preflight_update_def vs(1) sbind_eq_Inr split: if_splits)
  have "opt_string_of_json (json_opt_string expl) = Some expl" by (cases expl) auto
  with assms steps vs expl show ?thesis
    by (auto simp: from_update_def plan_input_of_json_def struct_fields_def deny_unknown_fields_def
        obj_get_def plan_of_json_def validate_plan_input_def)
qed

lemma preflight_unit: "preflight_update J plan expl = Inr u \<longleftrightarrow> preflight_update J plan expl = Inr ()"
  by (cases u) simp

lemma validate_plan_steps_ok:
  "validate_plan_steps steps = Inr () \<longleftrightarrow>
   list_all (\<lambda>s. \<not> trim_is_empty (ps_step s) \<and> length (ps_step s) \<le> MAX_SESSION_PLAN_STEP_BYTES) steps"
  by (induction steps) auto

lemma from_update_bounds:
  assumes "from_update J plan expl = Inr inp"
  shows "0 < length (pi_plan inp) \<and> length (pi_plan inp) \<le> 20 \<and>
    list_all (\<lambda>s. \<not> trim_is_empty (ps_step s) \<and> length (ps_step s) \<le> 512) (pi_plan inp)"
  using assms
  by (auto simp: from_update_def sbind_eq_Inr validate_plan_input_def validate_plan_steps_ok
      MAX_SESSION_PLAN_STEPS_def MAX_SESSION_PLAN_STEP_BYTES_def split: if_splits)

lemma preflight_bounds:
  assumes "preflight_update J plan expl = Inr ()"
  shows "(case expl of None \<Rightarrow> True | Some e \<Rightarrow> length e \<le> 1000) \<and>
    length (concat (J (borrowed_plan_input plan expl))) \<le> 16384"
  using assms
  by (auto simp: preflight_update_def sbind_eq_Inr counter_write_all_eq
      MAX_SESSION_PLAN_EXPLANATION_BYTES_def MAX_SESSION_PLAN_PAYLOAD_BYTES_def
      split: if_splits option.splits)

text \<open>
  C11: the guard that runs on the raw update decides alone. What it rejects is rejected with its
  code; what it lets pass always deserializes and validates, gives back the steps and the
  explanation it was handed, and is within every bound, the printed text included, however the
  serializer cuts it.
\<close>

theorem plan_guard_decides:
  "case from_update J plan expl of
     Inl e \<Rightarrow> preflight_update J plan expl = Inl e
   | Inr inp \<Rightarrow>
       preflight_update J plan expl = Inr () \<and>
       plan_of_json plan = Some (pi_plan inp) \<and> pi_explanation inp = expl \<and>
       0 < length (pi_plan inp) \<and> length (pi_plan inp) \<le> 20 \<and>
       list_all (\<lambda>s. \<not> trim_is_empty (ps_step s) \<and> length (ps_step s) \<le> 512) (pi_plan inp) \<and>
       (case expl of None \<Rightarrow> True | Some e \<Rightarrow> length e \<le> 1000) \<and>
       length (concat (J (borrowed_plan_input plan expl))) \<le> 16384"
proof (cases "preflight_update J plan expl")
  case (Inl e)
  then show ?thesis by (simp add: from_update_def)
next
  case (Inr u)
  then have pre: "preflight_update J plan expl = Inr ()" by simp
  then obtain steps where "plan_of_json plan = Some steps"
    and from_up: "from_update J plan expl = Inr \<lparr>pi_plan = steps, pi_explanation = expl\<rparr>"
    using preflight_ok_from_update by blast
  with pre from_update_bounds [OF from_up] preflight_bounds [OF pre] show ?thesis
    by simp
qed

end
