(* ===== verification/State_Rows.thy ===== *)
theory State_Rows
  imports Session_Plan
begin

text \<open>
  The rows of the session tables as SQLite holds them (\<open>stores/zbot-runtime-sqlite/src/schema.rs\<close>)
  and how \<open>services/execution-state/src/repository.rs\<close> writes and reads them: statuses as text,
  counters as 64-bit integers, structured values as printed JSON. The columns that have a default
  and that every statement writes as integers are integers here, never \<open>NULL\<close>.
\<close>

section \<open>Numbers and checkpoints as JSON\<close>

fun nat_text :: "nat \<Rightarrow> string" where
  "nat_text n =
     (if n < 10 then [char_of (48 + n)] else nat_text (n div 10) @ [char_of (48 + n mod 10)])"

declare nat_text.simps [simp del]

definition is_digit :: "char \<Rightarrow> bool" where
  "is_digit c = (48 \<le> (of_char c :: nat) \<and> (of_char c :: nat) \<le> 57)"

definition nat_of_text :: "string \<Rightarrow> nat option" where
  "nat_of_text s =
     (if s = [] \<or> \<not> list_all is_digit s \<or> (1 < length s \<and> hd s = CHR ''0'') then None
      else Some (fold (\<lambda>c a. a * 10 + (of_char c - 48)) s 0))"

fun u32_of_json :: "json \<Rightarrow> 32 word option" where
  "u32_of_json (JNumber t) =
     Option.bind (nat_of_text t) (\<lambda>n. if n < 2 ^ 32 then Some (word_of_nat n) else None)"
| "u32_of_json _ = None"

definition strings_of_json :: "json \<Rightarrow> string list option" where
  "strings_of_json v = Option.bind (as_array v) (collect_option as_str)"

definition strings_to_json :: "string list \<Rightarrow> json" where
  "strings_to_json ss = JArray (map JString ss)"

definition tool_call_to_json :: "pending_tool_call \<Rightarrow> json" where
  "tool_call_to_json t =
     JObject [(''id'', JString (tc_id t)), (''name'', JString (tc_name t)), (''arguments'', tc_arguments t)]"

definition tool_call_of_json :: "json \<Rightarrow> pending_tool_call option" where
  "tool_call_of_json v =
     Option.bind (struct_fields [''id'', ''name'', ''arguments''] v) (\<lambda>kvs.
     Option.bind (Option.bind (obj_get kvs ''id'') as_str) (\<lambda>i.
     Option.bind (Option.bind (obj_get kvs ''name'') as_str) (\<lambda>n.
     Option.bind (obj_get kvs ''arguments'') (\<lambda>a.
     Some \<lparr>tc_id = i, tc_name = n, tc_arguments = a\<rparr>))))"

definition checkpoint_to_json :: "checkpoint \<Rightarrow> json" where
  "checkpoint_to_json c =
     JObject [(''llm_turn'', JNumber (nat_text (unat (cp_llm_turn c)))),
       (''last_message_id'', JString (cp_last_message_id c)),
       (''pending_tool_calls'', JArray (map tool_call_to_json (cp_pending_tool_calls c))),
       (''context_state'', cp_context_state c),
       (''child_executions'', strings_to_json (cp_child_executions c))]"

text \<open>\<open>#[serde(default)]\<close>: a missing field takes the default of its type.\<close>

definition field_or_default :: "(string \<times> json) list \<Rightarrow> string \<Rightarrow> (json \<Rightarrow> 'a option) \<Rightarrow> 'a \<Rightarrow> 'a option" where
  "field_or_default kvs k f d = (case obj_get kvs k of None \<Rightarrow> Some d | Some v \<Rightarrow> f v)"

definition checkpoint_of_json :: "json \<Rightarrow> checkpoint option" where
  "checkpoint_of_json v =
     Option.bind (struct_fields [''llm_turn'', ''last_message_id'', ''pending_tool_calls'',
       ''context_state'', ''child_executions''] v) (\<lambda>kvs.
     Option.bind (Option.bind (obj_get kvs ''llm_turn'') u32_of_json) (\<lambda>turn.
     Option.bind (Option.bind (obj_get kvs ''last_message_id'') as_str) (\<lambda>msg.
     Option.bind (field_or_default kvs ''pending_tool_calls''
       (\<lambda>w. Option.bind (as_array w) (collect_option tool_call_of_json)) []) (\<lambda>calls.
     Option.bind (field_or_default kvs ''context_state'' Some JNull) (\<lambda>ctx.
     Option.bind (field_or_default kvs ''child_executions'' strings_of_json []) (\<lambda>children.
     Some \<lparr>cp_llm_turn = turn, cp_last_message_id = msg, cp_pending_tool_calls = calls,
       cp_context_state = ctx, cp_child_executions = children\<rparr>))))))"

section \<open>Rows\<close>

record session_row =
  sr_id :: string
  sr_status :: string
  sr_source :: string
  sr_root_agent_id :: string
  sr_title :: "string option"
  sr_created_at :: string
  sr_started_at :: "string option"
  sr_completed_at :: "string option"
  sr_tokens_in :: int
  sr_tokens_out :: int
  sr_metadata :: "string option"
  sr_pending :: int
  sr_continuation :: int
  sr_ward_id :: "string option"
  sr_parent :: "string option"
  sr_thread_id :: "string option"
  sr_connector_id :: "string option"
  sr_respond_to :: "string option"
  sr_mode :: "string option"

record execution_row =
  xr_id :: string
  xr_session_id :: string
  xr_agent_id :: string
  xr_parent :: "string option"
  xr_delegation :: string
  xr_task :: "string option"
  xr_status :: string
  xr_started_at :: "string option"
  xr_completed_at :: "string option"
  xr_tokens_in :: int
  xr_tokens_out :: int
  xr_checkpoint :: "string option"
  xr_error :: "string option"
  xr_log_path :: "string option"
  xr_child :: "string option"

record plan_row =
  pr_session_id :: string
  pr_execution_id :: string
  pr_plan_json :: string
  pr_explanation :: "string option"
  pr_timestamp :: int
  pr_sequence :: int
  pr_updated_at :: string

record surface_row =
  fr_session_id :: string
  fr_surface_id :: string
  fr_execution_id :: string
  fr_surface_json :: string
  fr_created_at :: string
  fr_updated_at :: string

record message_row =
  mr_id :: string
  mr_execution_id :: "string option"
  mr_session_id :: "string option"
  mr_role :: string
  mr_content :: string
  mr_created_at :: string
  mr_tool_calls :: "string option"
  mr_tool_results :: "string option"
  mr_tool_call_id :: "string option"
  mr_token_count :: "int option"
  mr_seq :: int

text \<open>A row of \<open>checkpoints\<close>, which refers to no other table.\<close>

record checkpoint_row =
  ck_id :: string
  ck_execution_id :: string
  ck_session_id :: string
  ck_llm_turn :: "32 word"
  ck_last_message_id :: string
  ck_pending_tool_calls :: "string option"
  ck_context_state :: "string option"
  ck_child_executions :: "string option"
  ck_schema_version :: int
  ck_created_at :: string

text \<open>A row of \<open>execution_logs\<close>.\<close>

record log_row =
  lr_id :: string
  lr_session_id :: string
  lr_conversation_id :: "string option"
  lr_agent_id :: string
  lr_parent_session_id :: "string option"
  lr_timestamp :: string
  lr_level :: string
  lr_category :: string
  lr_message :: string
  lr_metadata :: "string option"
  lr_duration_ms :: "int option"

text \<open>A row of \<open>bridge_outbox\<close>: an item on its way to a worker outside.\<close>

record outbox_row =
  ob_id :: string
  ob_adapter_id :: string
  ob_capability :: string
  ob_payload :: string
  ob_status :: string
  ob_session_id :: "string option"
  ob_thread_id :: "string option"
  ob_agent_id :: "string option"
  ob_created_at :: string
  ob_sent_at :: "string option"
  ob_error :: "string option"
  ob_retry_count :: int
  ob_retry_after :: "string option"

record message =
  m_id :: string
  m_execution_id :: string
  m_role :: string
  m_content :: string
  m_created_at :: string
  m_tool_calls :: "json option"
  m_tool_results :: "json option"

record session_message =
  sm_id :: string
  sm_execution_id :: string
  sm_agent_id :: string
  sm_delegation_type :: string
  sm_role :: string
  sm_content :: string
  sm_created_at :: string
  sm_tool_calls :: "json option"
  sm_tool_call_id :: "string option"
  sm_tool_results :: "json option"

section \<open>Writing and reading\<close>

definition row_of_session :: "codec \<Rightarrow> session \<Rightarrow> session_row" where
  "row_of_session C s =
     \<lparr>sr_id = s_id s, sr_status = session_status_as_str (s_status s),
      sr_source = trigger_as_str (s_source s), sr_root_agent_id = s_root_agent_id s,
      sr_title = s_title s, sr_created_at = s_created_at s, sr_started_at = s_started_at s,
      sr_completed_at = s_completed_at s, sr_tokens_in = u64_as_i64 (s_tokens_in s),
      sr_tokens_out = u64_as_i64 (s_tokens_out s),
      sr_metadata = map_option (json_to_string C) (s_metadata s),
      sr_pending = u32_as_i64 (s_pending_delegations s),
      sr_continuation = of_bool (s_continuation_needed s), sr_ward_id = s_ward_id s,
      sr_parent = s_parent_session_id s, sr_thread_id = s_thread_id s,
      sr_connector_id = s_connector_id s,
      sr_respond_to = map_option (\<lambda>r. json_to_string C (strings_to_json r)) (s_respond_to s),
      sr_mode = s_mode s\<rparr>"

definition row_to_session :: "codec \<Rightarrow> session_row \<Rightarrow> session" where
  "row_to_session C r =
     \<lparr>s_id = sr_id r,
      s_status = (case session_status_from_str (sr_status r) of None \<Rightarrow> SRunning | Some x \<Rightarrow> x),
      s_source = (case trigger_from_str (sr_source r) of None \<Rightarrow> Web | Some x \<Rightarrow> x),
      s_root_agent_id = sr_root_agent_id r, s_title = sr_title r,
      s_created_at = sr_created_at r, s_started_at = sr_started_at r,
      s_completed_at = sr_completed_at r, s_tokens_in = i64_as_u64 (sr_tokens_in r),
      s_tokens_out = i64_as_u64 (sr_tokens_out r),
      s_metadata = Option.bind (sr_metadata r) (json_from_str C),
      s_pending_delegations = i64_as_u32 (sr_pending r),
      s_continuation_needed = (sr_continuation r \<noteq> 0), s_ward_id = sr_ward_id r,
      s_parent_session_id = sr_parent r, s_thread_id = sr_thread_id r,
      s_connector_id = sr_connector_id r,
      s_respond_to = Option.bind (sr_respond_to r) (\<lambda>t. Option.bind (json_from_str C t) strings_of_json),
      s_mode = sr_mode r\<rparr>"

definition row_of_execution :: "codec \<Rightarrow> agent_execution \<Rightarrow> execution_row" where
  "row_of_execution C e =
     \<lparr>xr_id = x_id e, xr_session_id = x_session_id e, xr_agent_id = x_agent_id e,
      xr_parent = x_parent_execution_id e, xr_delegation = delegation_as_str (x_delegation_type e),
      xr_task = x_task e, xr_status = execution_status_as_str (x_status e),
      xr_started_at = x_started_at e, xr_completed_at = x_completed_at e,
      xr_tokens_in = u64_as_i64 (x_tokens_in e), xr_tokens_out = u64_as_i64 (x_tokens_out e),
      xr_checkpoint = map_option (\<lambda>c. json_to_string C (checkpoint_to_json c)) (x_checkpoint e),
      xr_error = x_error e, xr_log_path = x_log_path e, xr_child = x_child_session_id e\<rparr>"

definition row_to_execution :: "codec \<Rightarrow> execution_row \<Rightarrow> agent_execution" where
  "row_to_execution C r =
     \<lparr>x_id = xr_id r, x_session_id = xr_session_id r, x_agent_id = xr_agent_id r,
      x_parent_execution_id = xr_parent r,
      x_delegation_type = (case delegation_from_str (xr_delegation r) of None \<Rightarrow> RootAgent | Some d \<Rightarrow> d),
      x_task = xr_task r,
      x_status = (case execution_status_from_str (xr_status r) of None \<Rightarrow> XQueued | Some s \<Rightarrow> s),
      x_started_at = xr_started_at r, x_completed_at = xr_completed_at r,
      x_tokens_in = i64_as_u64 (xr_tokens_in r), x_tokens_out = i64_as_u64 (xr_tokens_out r),
      x_checkpoint = Option.bind (xr_checkpoint r) (\<lambda>t. Option.bind (json_from_str C t) checkpoint_of_json),
      x_error = xr_error r, x_log_path = xr_log_path r, x_child_session_id = xr_child r\<rparr>"

definition row_to_session_plan :: "codec \<Rightarrow> plan_row \<Rightarrow> plan_snapshot option" where
  "row_to_session_plan C r =
     Option.bind (Option.bind (json_from_str C (pr_plan_json r)) plan_of_json) (\<lambda>plan.
     Option.bind (u64_try_from (pr_timestamp r)) (\<lambda>t.
     Option.bind (u64_try_from (pr_sequence r)) (\<lambda>n.
     Some \<lparr>sn_execution_id = pr_execution_id r, sn_explanation = pr_explanation r, sn_plan = plan,
       sn_updated_at = pr_updated_at r, sn_source_event_timestamp = t,
       sn_source_event_sequence = n\<rparr>)))"

definition row_to_message :: "codec \<Rightarrow> message_row \<Rightarrow> message" where
  "row_to_message C r =
     \<lparr>m_id = mr_id r, m_execution_id = (case mr_execution_id r of None \<Rightarrow> [] | Some i \<Rightarrow> i),
      m_role = mr_role r, m_content = mr_content r, m_created_at = mr_created_at r,
      m_tool_calls = Option.bind (mr_tool_calls r) (json_from_str C),
      m_tool_results = Option.bind (mr_tool_results r) (json_from_str C)\<rparr>"

definition row_to_session_message :: "codec \<Rightarrow> message_row \<times> execution_row \<Rightarrow> session_message" where
  "row_to_session_message C = (\<lambda>(m, e).
     \<lparr>sm_id = mr_id m, sm_execution_id = xr_id e, sm_agent_id = xr_agent_id e,
      sm_delegation_type = xr_delegation e, sm_role = mr_role m, sm_content = mr_content m,
      sm_created_at = mr_created_at m,
      sm_tool_calls = Option.bind (mr_tool_calls m) (json_from_str C),
      sm_tool_call_id = mr_tool_call_id m, sm_tool_results = None\<rparr>)"

section \<open>Round trips\<close>

text \<open>What the rows rely on of the JSON crate: what it prints it reads back.\<close>

definition json_codec :: "codec \<Rightarrow> bool" where
  "json_codec C \<longleftrightarrow> (\<forall>v. json_from_str C (json_to_string C v) = Some v)"

lemma json_codecD [simp]: "json_codec C \<Longrightarrow> json_from_str C (json_to_string C v) = Some v"
  by (simp add: json_codec_def)

lemma of_char_digit [simp]: "n < 10 \<Longrightarrow> of_char (char_of (48 + n) :: char) = (48 + n :: nat)"
  by (simp add: of_char_of)

lemma is_digit_char [simp]: "(n :: nat) < 10 \<Longrightarrow> is_digit (char_of (48 + n))"
  by (simp add: is_digit_def)

lemma nat_text_facts:
  "nat_text n \<noteq> [] \<and> list_all is_digit (nat_text n) \<and>
   fold (\<lambda>c a. a * 10 + (of_char c - 48)) (nat_text n) 0 = n \<and>
   (0 < n \<longrightarrow> of_char (hd (nat_text n)) \<noteq> (48 :: nat)) \<and> (n = 0 \<longrightarrow> length (nat_text n) = 1)"
proof (induction n rule: nat_text.induct)
  case (1 n)
  show ?case
  proof (cases "n < 10")
    case True
    then have "nat_text n = [char_of (48 + n)]" by (simp add: nat_text.simps [of n])
    with True show ?thesis by auto
  next
    case False
    with 1 have IH: "nat_text (n div 10) \<noteq> [] \<and> list_all is_digit (nat_text (n div 10)) \<and>
      fold (\<lambda>c a. a * 10 + (of_char c - 48)) (nat_text (n div 10)) 0 = n div 10 \<and>
      of_char (hd (nat_text (n div 10))) \<noteq> (48 :: nat)" by simp
    from False have "nat_text n = nat_text (n div 10) @ [char_of (48 + n mod 10)]"
      by (simp add: nat_text.simps [of n])
    with IH False show ?thesis by (simp add: hd_append)
  qed
qed

lemma nat_of_text_round [simp]: "nat_of_text (nat_text n) = Some n"
proof -
  have zero: "of_char (CHR ''0'') = (48 :: nat)" by simp
  have "\<not> (1 < length (nat_text n) \<and> hd (nat_text n) = CHR ''0'')"
    using nat_text_facts [of n] zero by (cases "n = 0") auto
  with nat_text_facts [of n] show ?thesis by (auto simp: nat_of_text_def)
qed

lemma u32_round [simp]: "u32_of_json (JNumber (nat_text (unat w))) = Some (w :: 32 word)"
  using unsigned_less [of w, where ?'a = nat] by simp

lemma strings_round [codec_simps]: "strings_of_json (strings_to_json ss) = Some ss"
  using collect_option_map [of ss as_str JString id]
  by (simp add: strings_of_json_def strings_to_json_def)

lemma tool_call_round [codec_simps]: "tool_call_of_json (tool_call_to_json t) = Some t"
  by (simp add: tool_call_of_json_def tool_call_to_json_def struct_fields_def obj_get_def)

lemma checkpoint_round [codec_simps]: "checkpoint_of_json (checkpoint_to_json c) = Some c"
  using collect_option_map [of "cp_pending_tool_calls c" tool_call_of_json tool_call_to_json id]
  by (simp add: checkpoint_of_json_def checkpoint_to_json_def struct_fields_def obj_get_def
      field_or_default_def codec_simps del: u32_of_json.simps)

lemma session_row_round [codec_simps]: "json_codec C \<Longrightarrow> row_to_session C (row_of_session C s) = s"
  by (cases "s_metadata s"; cases "s_respond_to s")
    (simp_all add: row_to_session_def row_of_session_def codec_simps)

lemma execution_row_round [codec_simps]:
  "json_codec C \<Longrightarrow> row_to_execution C (row_of_execution C e) = e"
  by (cases "x_checkpoint e") (simp_all add: row_to_execution_def row_of_execution_def codec_simps)

end
