(* ===== verification/State_Db.thy ===== *)
theory State_Db
  imports State_Rows
begin

text \<open>
  The database of the session store: its tables, the environment its methods read (clock, uuids,
  the date function of SQLite), statements, transactions, and the foreign keys of
  \<open>stores/zbot-runtime-sqlite/src/schema.rs\<close>.
\<close>

section \<open>State and environment\<close>

datatype db_error =
  Unavailable | ConstraintFailed | QueryReturnedNoRows | SqlSyntax | ConversionFailure
| InvalidParameterCount | IntegerOverflow

text \<open>\<open>Refused\<close> is an error text of the code itself, \<open>Database\<close> one of the driver.\<close>

datatype state_error = Database db_error | Refused string

text \<open>
  The instant and the uuid a call sees depend on how many were read before: \<open>now_text\<close> prints
  the clock as RFC 3339, \<open>now_millis\<close> is the same clock in milliseconds, \<open>utc_date\<close> its
  date. \<open>sql_date\<close> is SQLite's \<open>DATE\<close>, \<open>json_pieces\<close> what \<open>serde_json::to_writer\<close> hands
  to a writer.
\<close>

record state_env =
  env_codec :: codec
  json_pieces :: "json \<Rightarrow> string list"
  now_text :: "nat \<Rightarrow> string"
  now_millis :: "nat \<Rightarrow> int"
  utc_date :: "nat \<Rightarrow> string"
  sql_date :: "string \<Rightarrow> string option"
  fresh_uuid :: "nat \<Rightarrow> string"

text \<open>
  The tables in \<open>rowid\<close> order; of the runs of the distillation and the recall log only the
  session of each row, all the cascades look at. \<open>script\<close> says which of the coming calls to
  the pool and the driver fail.
\<close>

record statedb =
  script :: "bool list"
  ticks :: nat
  minted :: nat
  sessions_t :: "session_row list"
  executions_t :: "execution_row list"
  counters_t :: "(string \<times> int) list"
  plans_t :: "plan_row list"
  surfaces_t :: "surface_row list"
  messages_t :: "message_row list"
  logs_t :: "log_row list"
  artifacts_t :: "artifact list"
  distillation_t :: "string list"
  outbox_t :: "outbox_row list"
  recall_t :: "string list"
  checkpoints_t :: "checkpoint_row list"

type_synonym 'a st_op = "(statedb, state_error, 'a) op"

definition utc_now :: "state_env \<Rightarrow> string st_op" where
  "utc_now E db = (Inr (now_text E (ticks db)), db\<lparr>ticks := Suc (ticks db)\<rparr>)"

definition new_v4 :: "state_env \<Rightarrow> string st_op" where
  "new_v4 E db = (Inr (fresh_uuid E (minted db)), db\<lparr>minted := Suc (minted db)\<rparr>)"

section \<open>Statements and transactions\<close>

text \<open>
  Every call that reaches the pool or the driver may fail, with nothing written. A closure of
  \<open>with_connection\<close> that runs several statements outside a transaction keeps the first ones when
  a later one fails; a transaction gives everything back unless it commits.
\<close>

definition statement :: "'a st_op \<Rightarrow> 'a st_op" where
  "statement f db =
     (case script db of
        [] \<Rightarrow> f db
      | b # bs \<Rightarrow> if b then (Inl (Database Unavailable), db\<lparr>script := bs\<rparr>) else f (db\<lparr>script := bs\<rparr>))"

definition connection :: "'a st_op \<Rightarrow> 'a st_op" where
  "connection f = statement f"

definition select :: "(statedb \<Rightarrow> 'a) \<Rightarrow> 'a st_op" where
  "select q = statement (\<lambda>db. (Inr (q db), db))"

definition change :: "(statedb \<Rightarrow> nat) \<Rightarrow> (statedb \<Rightarrow> statedb) \<Rightarrow> nat st_op" where
  "change n u = statement (\<lambda>db. (Inr (n db), u db))"

text \<open>A write that the constraints of the schema may refuse.\<close>

definition checked_change :: "(statedb \<Rightarrow> bool) \<Rightarrow> (statedb \<Rightarrow> nat) \<Rightarrow> (statedb \<Rightarrow> statedb) \<Rightarrow> nat st_op" where
  "checked_change ok n u = statement (\<lambda>db.
     if ok db then (Inr (n db), u db) else (Inl (Database ConstraintFailed), db))"

text \<open>What a rolled back transaction leaves of the state it reached: the clock and the script.\<close>

definition undo :: "statedb \<Rightarrow> statedb \<Rightarrow> statedb" where
  "undo db t = db\<lparr>script := script t, ticks := ticks t, minted := minted t\<rparr>"

text \<open>The closure of a transaction ends in \<open>commit\<close> (\<open>True\<close>) or \<open>rollback\<close> (\<open>False\<close>).\<close>

definition transaction :: "(bool \<times> 'a) st_op \<Rightarrow> 'a st_op" where
  "transaction f = statement (\<lambda>db.
     case f db of
       (Inl e, t) \<Rightarrow> (Inl e, undo db t)
     | (Inr (commit, x), t) \<Rightarrow>
         (case statement (ret ()) t of
            (Inl e, u) \<Rightarrow> (Inl e, undo db u)
          | (Inr _, u) \<Rightarrow> (Inr x, if commit then u else undo db u)))"

section \<open>Keys and foreign keys\<close>

definition session_ids :: "statedb \<Rightarrow> string list" where
  "session_ids db = map sr_id (sessions_t db)"

definition execution_ids :: "statedb \<Rightarrow> string list" where
  "execution_ids db = map xr_id (executions_t db)"

definition references :: "string list \<Rightarrow> string option \<Rightarrow> bool" where
  "references ids r = (case r of None \<Rightarrow> True | Some i \<Rightarrow> i \<in> set ids)"

text \<open>\<open>ON DELETE SET NULL\<close>\<close>

definition null_out :: "string list \<Rightarrow> string option \<Rightarrow> string option" where
  "null_out ids r = (case r of None \<Rightarrow> None | Some i \<Rightarrow> if i \<in> set ids then None else Some i)"

text \<open>
  The executions with the ids \<open>gone\<close> leave with what cascades from them: the messages, plans and
  surfaces of theirs; the children of a deleted execution lose their parent.
\<close>

definition drop_executions :: "string list \<Rightarrow> statedb \<Rightarrow> statedb" where
  "drop_executions gone db = db\<lparr>
     executions_t := map (\<lambda>x. x\<lparr>xr_parent := null_out gone (xr_parent x)\<rparr>)
       (sql_delete (\<lambda>x. xr_id x \<in> set gone) (executions_t db)),
     messages_t := sql_delete (\<lambda>m. case mr_execution_id m of None \<Rightarrow> False | Some i \<Rightarrow> i \<in> set gone) (messages_t db),
     plans_t := sql_delete (\<lambda>p. pr_execution_id p \<in> set gone) (plans_t db),
     surfaces_t := sql_delete (\<lambda>f. fr_execution_id f \<in> set gone) (surfaces_t db)\<rparr>"

text \<open>
  The sessions with the ids \<open>gone\<close> leave with their executions, messages, artifacts, counters,
  plans and surfaces; an execution elsewhere whose child session goes loses the link.
\<close>

definition drop_sessions :: "string list \<Rightarrow> statedb \<Rightarrow> statedb" where
  "drop_sessions gone db =
     (let gone_x = map xr_id (filter (\<lambda>x. xr_session_id x \<in> set gone) (executions_t db));
          d = drop_executions gone_x db
      in d\<lparr>
        sessions_t := sql_delete (\<lambda>s. sr_id s \<in> set gone) (sessions_t d),
        executions_t := map (\<lambda>x. x\<lparr>xr_child := null_out gone (xr_child x)\<rparr>) (executions_t d),
        messages_t := sql_delete (\<lambda>m. case mr_session_id m of None \<Rightarrow> False | Some i \<Rightarrow> i \<in> set gone) (messages_t d),
        artifacts_t := sql_delete (\<lambda>a. a_session_id a \<in> set gone) (artifacts_t d),
        counters_t := sql_delete (\<lambda>c. fst c \<in> set gone) (counters_t d),
        plans_t := sql_delete (\<lambda>p. pr_session_id p \<in> set gone) (plans_t d),
        surfaces_t := sql_delete (\<lambda>f. fr_session_id f \<in> set gone) (surfaces_t d)\<rparr>)"

section \<open>Functions of SQLite\<close>

definition i64_range :: "int \<Rightarrow> bool" where
  "i64_range i = (- (2 ^ 63) \<le> i \<and> i < 2 ^ 63)"

text \<open>\<open>SUM\<close> of integers, which fails when a partial sum leaves the 64 bits.\<close>

fun sql_sum_from :: "int \<Rightarrow> int list \<Rightarrow> int option" where
  "sql_sum_from a [] = Some a"
| "sql_sum_from a (x # xs) = (if i64_range (a + x) then sql_sum_from (a + x) xs else None)"

definition sql_sum :: "int list \<Rightarrow> int option" where
  "sql_sum xs = sql_sum_from 0 xs"

lemma sql_sum_from_eq: "sql_sum_from a xs = Some s \<Longrightarrow> s = a + sum_list xs"
proof (induction xs arbitrary: a)
  case (Cons x xs)
  then have "sql_sum_from (a + x) xs = Some s" by (simp split: if_splits)
  then have "s = a + x + sum_list xs" by (rule Cons.IH)
  then show ?case by simp
qed simp

lemma sql_sum_eq: "sql_sum xs = Some s \<Longrightarrow> s = sum_list xs"
  using sql_sum_from_eq [of 0] by (simp add: sql_sum_def)

text \<open>\<open>LIKE\<close> on ASCII: \<open>%\<close> is any run, \<open>_\<close> any character, letters match in either case.\<close>

fun sql_like :: "string \<Rightarrow> string \<Rightarrow> bool" where
  "sql_like [] [] = True"
| "sql_like (c # t) [] = False"
| "sql_like [] (p # ps) = (p = CHR ''%'' \<and> sql_like [] ps)"
| "sql_like (c # t) (p # ps) =
     (if p = CHR ''%'' then sql_like (c # t) ps \<or> sql_like t (p # ps)
      else (p = CHR ''_'' \<or> to_lower_char c = to_lower_char p) \<and> sql_like t ps)"

declare sql_like.simps [simp del]

text \<open>\<open>GROUP BY\<close> with \<open>COUNT(*)\<close>, and the count of one group.\<close>

definition group_counts :: "('r \<Rightarrow> string) \<Rightarrow> 'r list \<Rightarrow> (string \<times> 64 word) list" where
  "group_counts key rows =
     map (\<lambda>k. (k, word_of_nat (length (filter (\<lambda>r. key r = k) rows)))) (remdups (map key rows))"

definition count_of :: "string \<Rightarrow> (string \<times> 64 word) list \<Rightarrow> 64 word" where
  "count_of k groups = (case map_of groups k of None \<Rightarrow> 0 | Some n \<Rightarrow> n)"

definition limit_offset :: "nat \<Rightarrow> 32 word option \<Rightarrow> 'r list \<Rightarrow> 'r list" where
  "limit_offset n off rows = take n (drop (case off of None \<Rightarrow> 0 | Some k \<Rightarrow> unat k) rows)"

section \<open>Evaluation and invariants\<close>

lemma script_same: "script db = bs \<Longrightarrow> db\<lparr>script := bs\<rparr> = db"
  by (cases db) auto

lemma statement_up [op_simps]: "script db = [] \<Longrightarrow> statement f db = f db"
  by (simp add: statement_def)

lemma connection_up [op_simps]: "script db = [] \<Longrightarrow> connection f db = f db"
  by (simp add: connection_def op_simps)

lemma select_up [op_simps]: "script db = [] \<Longrightarrow> select q db = (Inr (q db), db)"
  by (simp add: select_def op_simps)

lemma change_up [op_simps]: "script db = [] \<Longrightarrow> change n u db = (Inr (n db), u db)"
  by (simp add: change_def op_simps)

lemma checked_change_up [op_simps]:
  "script db = [] \<Longrightarrow> checked_change ok n u db =
     (if ok db then (Inr (n db), u db) else (Inl (Database ConstraintFailed), db))"
  by (simp add: checked_change_def op_simps)

lemma utc_now_apply [op_simps]: "utc_now E db = (Inr (now_text E (ticks db)), db\<lparr>ticks := Suc (ticks db)\<rparr>)"
  by (simp add: utc_now_def)

lemma new_v4_apply [op_simps]: "new_v4 E db = (Inr (fresh_uuid E (minted db)), db\<lparr>minted := Suc (minted db)\<rparr>)"
  by (simp add: new_v4_def)

text \<open>
  An invariant of the tables does not look at the script, the clock or the uuids. It is kept by
  every operation as soon as the writes of the operation keep it.
\<close>

definition of_tables :: "(statedb \<Rightarrow> bool) \<Rightarrow> bool" where
  "of_tables I \<longleftrightarrow> (\<forall>db bs n m. I (db\<lparr>script := bs, ticks := n, minted := m\<rparr>) = I db)"

lemma of_tables_script [simp]: "of_tables I \<Longrightarrow> I (db\<lparr>script := bs\<rparr>) = I db"
proof -
  assume "of_tables I"
  then have "I ((db\<lparr>script := bs\<rparr>)\<lparr>script := bs, ticks := ticks db, minted := minted db\<rparr>) = I (db\<lparr>script := bs\<rparr>)"
    and "I (db\<lparr>script := bs, ticks := ticks db, minted := minted db\<rparr>) = I db"
    unfolding of_tables_def by blast+
  then show ?thesis by simp
qed

lemma of_tables_ticks [simp]: "of_tables I \<Longrightarrow> I (db\<lparr>ticks := n\<rparr>) = I db"
proof -
  assume "of_tables I"
  then have "I (db\<lparr>script := script db, ticks := n, minted := minted db\<rparr>) = I db"
    unfolding of_tables_def by blast
  then show ?thesis by simp
qed

lemma of_tables_minted [simp]: "of_tables I \<Longrightarrow> I (db\<lparr>minted := n\<rparr>) = I db"
proof -
  assume "of_tables I"
  then have "I (db\<lparr>script := script db, ticks := ticks db, minted := n\<rparr>) = I db"
    unfolding of_tables_def by blast
  then show ?thesis by simp
qed

lemma of_tables_undo [simp]: "of_tables I \<Longrightarrow> I (undo db t) = I db"
  by (simp add: undo_def of_tables_def)

lemma keeps_statement:
  assumes I: "of_tables I" and f: "keeps I f"
  shows "keeps I (statement f)"
proof (rule keepsI)
  fix db assume "I db"
  then have "I (snd (f (db\<lparr>script := bs\<rparr>)))" for bs
    using I by (intro keepsD [OF f]) simp
  with I \<open>I db\<close> show "I (snd (statement f db))"
    by (auto simp: statement_def keepsD [OF f] split: list.split)
qed

lemma keeps_connection: "of_tables I \<Longrightarrow> keeps I f \<Longrightarrow> keeps I (connection f)"
  by (simp add: connection_def keeps_statement)

lemma keeps_select: "of_tables I \<Longrightarrow> keeps I (select q)"
  unfolding select_def by (rule keeps_statement) (simp_all add: keeps_def)

lemma keeps_change: "of_tables I \<Longrightarrow> (\<And>db. I db \<Longrightarrow> I (u db)) \<Longrightarrow> keeps I (change n u)"
  unfolding change_def by (rule keeps_statement) (simp_all add: keeps_def)

lemma keeps_checked_change:
  "of_tables I \<Longrightarrow> (\<And>db. I db \<Longrightarrow> ok db \<Longrightarrow> I (u db)) \<Longrightarrow> keeps I (checked_change ok n u)"
  unfolding checked_change_def by (rule keeps_statement) (auto simp: keeps_def)

lemma keeps_transaction:
  assumes I: "of_tables I" and f: "keeps I f"
  shows "keeps I (transaction f)"
  unfolding transaction_def
proof (rule keeps_statement [OF I], rule keepsI)
  fix db assume db: "I db"
  obtain r t where ft: "f db = (r, t)" by (cases "f db")
  with f db have "I t" by (auto dest: keepsE)
  moreover obtain r' u where u: "statement (ret ()) t = (r', u)" by (cases "statement (ret ()) t")
  moreover have "keeps I (statement (ret ()))"
    by (rule keeps_statement [OF I keeps_ret])
  ultimately have "I u" by (metis keepsE)
  with db ft u I show "I (snd (case f db of (Inl e, t) \<Rightarrow> (Inl e, undo db t)
     | (Inr (commit, x), t) \<Rightarrow>
         (case statement (ret ()) t of (Inl e, u) \<Rightarrow> (Inl e, undo db u)
          | (Inr _, u) \<Rightarrow> (Inr x, if commit then u else undo db u))))"
    by (auto split: sum.split)
qed

lemma keeps_utc_now: "of_tables I \<Longrightarrow> keeps I (utc_now E)"
  by (simp add: keeps_def utc_now_def)

lemma keeps_new_v4: "of_tables I \<Longrightarrow> keeps I (new_v4 E)"
  by (simp add: keeps_def new_v4_def)

lemmas keeps_store =
  keeps_connection keeps_select keeps_change keeps_checked_change keeps_transaction
  keeps_utc_now keeps_new_v4 keeps_statement

text \<open>What a statement that returned has done.\<close>

lemma statement_InrD: "statement f db = (Inr x, t) \<Longrightarrow> \<exists>bs. f (db\<lparr>script := bs\<rparr>) = (Inr x, t)"
  by (cases "script db") (auto simp: statement_def script_same split: if_splits
      intro: exI [where x = "[]"])

lemma select_InrD: "select q db = (Inr x, t) \<Longrightarrow> \<exists>bs. t = db\<lparr>script := bs\<rparr> \<and> x = q t"
  unfolding select_def by (auto dest!: statement_InrD)

lemma change_InrD: "change n u db = (Inr x, t) \<Longrightarrow>
  \<exists>bs. t = u (db\<lparr>script := bs\<rparr>) \<and> x = n (db\<lparr>script := bs\<rparr>)"
  unfolding change_def by (auto dest!: statement_InrD)

lemma checked_change_InrD: "checked_change ok n u db = (Inr x, t) \<Longrightarrow>
  \<exists>bs. ok (db\<lparr>script := bs\<rparr>) \<and> t = u (db\<lparr>script := bs\<rparr>) \<and> x = n (db\<lparr>script := bs\<rparr>)"
  unfolding checked_change_def by (auto dest!: statement_InrD split: if_splits)

lemma ok_or_InrD: "ok_or e x db = (Inr y, t) \<Longrightarrow> x = Some y \<and> t = db"
  by (cases x) (simp_all add: op_simps)

lemma utc_now_InrD: "utc_now E db = (Inr x, t) \<Longrightarrow> \<exists>k. t = db\<lparr>ticks := k\<rparr>"
  by (auto simp: utc_now_def)

text \<open>A transaction that returned has either committed or been rolled back by its closure.\<close>

lemma transaction_InrD:
  assumes "transaction f db = (Inr x, t)"
  shows "\<exists>bs cs commit u. f (db\<lparr>script := bs\<rparr>) = (Inr (commit, x), u) \<and>
    t = (if commit then u\<lparr>script := cs\<rparr> else undo db (u\<lparr>script := cs\<rparr>))"
proof -
  from assms obtain bs where "(case f (db\<lparr>script := bs\<rparr>) of
       (Inl e, t) \<Rightarrow> (Inl e, undo (db\<lparr>script := bs\<rparr>) t)
     | (Inr (commit, x), t) \<Rightarrow>
         (case statement (ret ()) t of
            (Inl e, u) \<Rightarrow> (Inl e, undo (db\<lparr>script := bs\<rparr>) u)
          | (Inr _, u) \<Rightarrow> (Inr x, if commit then u else undo (db\<lparr>script := bs\<rparr>) u))) = (Inr x, t)"
    unfolding transaction_def by (auto dest!: statement_InrD)
  then obtain commit u v where f: "f (db\<lparr>script := bs\<rparr>) = (Inr (commit, x), u)"
    and v: "statement (ret ()) u = (Inr (), v)"
    and t: "t = (if commit then v else undo (db\<lparr>script := bs\<rparr>) v)"
    by (auto split: prod.splits sum.splits)
  from v obtain cs where "v = u\<lparr>script := cs\<rparr>"
    by (auto dest!: statement_InrD simp: op_simps)
  with f t show ?thesis by (intro exI [of _ bs] exI [of _ cs] exI [of _ commit] exI [of _ u])
      (auto simp: undo_def)
qed

end
