(* ===== verification/State_Repository.thy ===== *)
theory State_Repository
  imports State_Db
begin

text \<open>
  \<open>StateRepository\<close>, one definition per method
  (\<open>services/execution-state/src/repository.rs\<close>): sessions, executions, their tokens, the
  delegation bookkeeping, artifacts, messages and the dashboard. Plans, surfaces and the
  deletions of whole sessions are in theories of their own.
\<close>

section \<open>Sessions: create and read\<close>

fun map_op :: "('a \<Rightarrow> ('s, 'e, 'b) op) \<Rightarrow> 'a list \<Rightarrow> ('s, 'e, 'b list) op" where
  "map_op f [] = ret []"
| "map_op f (x # xs) = bnd (f x) (\<lambda>y. bnd (map_op f xs) (\<lambda>ys. ret (y # ys)))"

definition unit_op :: "'a st_op \<Rightarrow> unit st_op" where
  "unit_op f = bnd f (\<lambda>_. ret ())"

definition repo_create_session :: "state_env \<Rightarrow> session \<Rightarrow> unit st_op" where
  "repo_create_session E s =
     connection (unit_op (checked_change
       (\<lambda>db. s_id s \<notin> set (session_ids db))
       (\<lambda>_. 1)
       (\<lambda>db. db\<lparr>sessions_t := sessions_t db @ [row_of_session (env_codec E) s]\<rparr>)))"

definition find_session_row :: "string \<Rightarrow> statedb \<Rightarrow> session_row option" where
  "find_session_row i db = find (\<lambda>r. sr_id r = i) (sessions_t db)"

definition repo_get_session :: "state_env \<Rightarrow> string \<Rightarrow> session option st_op" where
  "repo_get_session E i =
     connection (select (\<lambda>db. map_option (row_to_session (env_codec E)) (find_session_row i db)))"

definition holds :: "'a option \<Rightarrow> ('a \<Rightarrow> bool) \<Rightarrow> bool" where
  "holds x p = (case x of None \<Rightarrow> True | Some y \<Rightarrow> p y)"

definition session_matches :: "session_filter \<Rightarrow> session_row \<Rightarrow> bool" where
  "session_matches f r =
     (sr_parent r = None \<and>
      holds (f_status f) (\<lambda>s. sr_status r = session_status_as_str s) \<and>
      holds (f_root_agent_id f) (\<lambda>a. sr_root_agent_id r = a) \<and>
      holds (f_from_time f) (\<lambda>t. t \<le> sr_created_at r) \<and>
      holds (f_to_time f) (\<lambda>t. sr_created_at r \<le> t) \<and>
      holds (f_thread_id f) (\<lambda>t. sr_thread_id r = Some t))"

definition repo_list_sessions :: "state_env \<Rightarrow> session_filter \<Rightarrow> session list st_op" where
  "repo_list_sessions E f =
     connection (select (\<lambda>db.
       map (row_to_session (env_codec E))
         (limit_offset (case f_limit f of Some l \<Rightarrow> unat l | None \<Rightarrow> 100) (f_offset f)
           (order_desc sr_created_at (filter (session_matches f) (sessions_t db))))))"

section \<open>Executions: read\<close>

definition execution_matches :: "execution_filter \<Rightarrow> execution_row \<Rightarrow> bool" where
  "execution_matches f r =
     (holds (ef_session_id f) (\<lambda>i. xr_session_id r = i) \<and>
      holds (ef_agent_id f) (\<lambda>a. xr_agent_id r = a) \<and>
      holds (ef_status f) (\<lambda>s. xr_status r = execution_status_as_str s) \<and>
      holds (ef_parent_execution_id f) (\<lambda>p. xr_parent r = Some p))"

text \<open>
  \<open>OFFSET\<close> is appended on its own when there is no limit, which SQLite does not parse: the
  statement fails in \<open>prepare\<close>.
\<close>

definition repo_list_executions :: "state_env \<Rightarrow> execution_filter \<Rightarrow> agent_execution list st_op" where
  "repo_list_executions E f =
     connection (statement (\<lambda>db.
       let rows = order_asc xr_started_at (filter (execution_matches f) (executions_t db))
       in case (ef_limit f, ef_offset f) of
            (None, Some _) \<Rightarrow> (Inl (Database SqlSyntax), db)
          | (None, None) \<Rightarrow> (Inr (map (row_to_execution (env_codec E)) rows), db)
          | (Some l, off) \<Rightarrow> (Inr (map (row_to_execution (env_codec E)) (limit_offset (unat l) off rows)), db)))"

definition find_execution_row :: "string \<Rightarrow> statedb \<Rightarrow> execution_row option" where
  "find_execution_row i db = find (\<lambda>r. xr_id r = i) (executions_t db)"

definition repo_get_execution :: "state_env \<Rightarrow> string \<Rightarrow> agent_execution option st_op" where
  "repo_get_execution E i =
     connection (select (\<lambda>db. map_option (row_to_execution (env_codec E)) (find_execution_row i db)))"

definition repo_get_child_executions :: "state_env \<Rightarrow> string \<Rightarrow> agent_execution list st_op" where
  "repo_get_child_executions E parent =
     repo_list_executions E (any_execution\<lparr>ef_parent_execution_id := Some parent\<rparr>)"

definition repo_get_root_execution :: "state_env \<Rightarrow> string \<Rightarrow> agent_execution option st_op" where
  "repo_get_root_execution E sid =
     connection (select (\<lambda>db. map_option (row_to_execution (env_codec E))
       (find (\<lambda>r. xr_session_id r = sid \<and> xr_delegation r = ''root'') (executions_t db))))"

definition repo_get_last_crashed_subagent :: "state_env \<Rightarrow> string \<Rightarrow> agent_execution option st_op" where
  "repo_get_last_crashed_subagent E sid =
     connection (select (\<lambda>db. map_option (row_to_execution (env_codec E))
       (find (\<lambda>_. True) (order_desc xr_started_at
         (filter (\<lambda>r. xr_session_id r = sid \<and> xr_status r = ''crashed'' \<and> xr_parent r \<noteq> None) (executions_t db))))))"

definition subagent_count :: "agent_execution list \<Rightarrow> 32 word" where
  "subagent_count es = word_of_nat (length (filter (\<lambda>e. x_delegation_type e \<noteq> RootAgent) es))"

definition repo_get_session_with_executions ::
  "state_env \<Rightarrow> string \<Rightarrow> session_with_executions option st_op" where
  "repo_get_session_with_executions E i =
     bnd (repo_get_session E i) (\<lambda>found.
     case found of
       None \<Rightarrow> ret None
     | Some s \<Rightarrow> bnd (repo_list_executions E (of_session i)) (\<lambda>es.
         ret (Some \<lparr>we_session = s, we_executions = es, we_subagent_count = subagent_count es\<rparr>)))"

definition repo_list_sessions_with_executions ::
  "state_env \<Rightarrow> session_filter \<Rightarrow> session_with_executions list st_op" where
  "repo_list_sessions_with_executions E f =
     bnd (repo_list_sessions E f) (map_op (\<lambda>s.
       bnd (repo_list_executions E (of_session (s_id s))) (\<lambda>es.
       ret \<lparr>we_session = s, we_executions = es, we_subagent_count = subagent_count es\<rparr>)))"

text \<open>The map from a session to its executions, as a function; the root execution comes first.\<close>

definition repo_list_executions_for_sessions ::
  "state_env \<Rightarrow> string list \<Rightarrow> (string \<Rightarrow> agent_execution list) st_op" where
  "repo_list_executions_for_sessions E ids =
     (if ids = [] then ret (\<lambda>_. [])
      else connection (select (\<lambda>db.
        let es = map (row_to_execution (env_codec E))
          (order_asc (\<lambda>r. (xr_session_id r, (if xr_delegation r = ''root'' then 0 else 1 :: nat, xr_started_at r)))
            (filter (\<lambda>r. xr_session_id r \<in> set ids) (executions_t db)))
        in (\<lambda>sid. filter (\<lambda>e. x_session_id e = sid) es))))"

definition root_execution_of :: "agent_execution list \<Rightarrow> agent_execution option" where
  "root_execution_of es =
     (case find (\<lambda>e. x_delegation_type e = RootAgent) es of
        Some e \<Rightarrow> Some e
      | None \<Rightarrow> find (\<lambda>e. x_parent_execution_id e = None) es)"

definition root_execution_id_of :: "agent_execution list \<Rightarrow> string \<Rightarrow> string" where
  "root_execution_id_of es sid = (case root_execution_of es of None \<Rightarrow> sid | Some e \<Rightarrow> x_id e)"

definition summary_of :: "session \<Rightarrow> agent_execution list \<Rightarrow> mc_session_summary" where
  "summary_of s es =
     \<lparr>ms_conversation_id = s_id s, ms_root_execution_id = root_execution_id_of es (s_id s),
      ms_status = s_status s, ms_source = s_source s, ms_root_agent_id = s_root_agent_id s,
      ms_title = s_title s, ms_created_at = s_created_at s, ms_started_at = s_started_at s,
      ms_completed_at = s_completed_at s, ms_tokens_in = s_tokens_in s,
      ms_tokens_out = s_tokens_out s, ms_subagent_count = subagent_count es, ms_mode = s_mode s\<rparr>"

definition repo_list_mission_control_summaries ::
  "state_env \<Rightarrow> mission_control_filter \<Rightarrow> mc_session_summary list st_op" where
  "repo_list_mission_control_summaries E f =
     (let limit = min (case mcf_limit f of None \<Rightarrow> 50 | Some l \<Rightarrow> l) 200 in
      bnd (repo_list_sessions E (any_session\<lparr>f_limit := Some limit, f_offset := mcf_offset f\<rparr>)) (\<lambda>sessions.
      if sessions = [] then ret []
      else bnd (repo_list_executions_for_sessions E (map s_id sessions)) (\<lambda>by_session.
        ret (map (\<lambda>s. summary_of s (by_session (s_id s))) sessions))))"

definition execution_summary :: "agent_execution \<Rightarrow> mc_execution_summary" where
  "execution_summary e =
     \<lparr>mx_execution_id = x_id e, mx_agent_id = x_agent_id e, mx_delegation_type = x_delegation_type e,
      mx_tokens_in = x_tokens_in e, mx_tokens_out = x_tokens_out e,
      mx_child_session_id = x_child_session_id e\<rparr>"

section \<open>Sessions: update\<close>

abbreviation (input) update_sessions ::
  "(session_row \<Rightarrow> bool) \<Rightarrow> (session_row \<Rightarrow> session_row) \<Rightarrow> statedb \<Rightarrow> statedb" where
  "update_sessions p f db \<equiv> db\<lparr>sessions_t := sql_update p f (sessions_t db)\<rparr>"

abbreviation (input) update_executions ::
  "(execution_row \<Rightarrow> bool) \<Rightarrow> (execution_row \<Rightarrow> execution_row) \<Rightarrow> statedb \<Rightarrow> statedb" where
  "update_executions p f db \<equiv> db\<lparr>executions_t := sql_update p f (executions_t db)\<rparr>"

definition set_session :: "string \<Rightarrow> (session_row \<Rightarrow> session_row) \<Rightarrow> nat st_op" where
  "set_session i f =
     change (\<lambda>db. sql_changes (\<lambda>r. sr_id r = i) (sessions_t db)) (update_sessions (\<lambda>r. sr_id r = i) f)"

definition set_execution :: "string \<Rightarrow> (execution_row \<Rightarrow> execution_row) \<Rightarrow> nat st_op" where
  "set_execution i f =
     change (\<lambda>db. sql_changes (\<lambda>r. xr_id r = i) (executions_t db)) (update_executions (\<lambda>r. xr_id r = i) f)"

definition coalesce :: "'a option \<Rightarrow> 'a \<Rightarrow> 'a option" where
  "coalesce x y = (case x of None \<Rightarrow> Some y | Some z \<Rightarrow> Some z)"

definition live_text :: "string \<Rightarrow> bool" where
  "live_text s = (s = ''running'' \<or> s = ''queued'')"

definition cascade_executions :: "string \<Rightarrow> string \<Rightarrow> string \<Rightarrow> nat st_op" where
  "cascade_executions sid status now =
     change (\<lambda>db. sql_changes (\<lambda>x. xr_session_id x = sid \<and> live_text (xr_status x)) (executions_t db))
       (update_executions (\<lambda>x. xr_session_id x = sid \<and> live_text (xr_status x))
         (\<lambda>x. x\<lparr>xr_status := status, xr_completed_at := Some now\<rparr>))"

definition repo_update_session_status :: "state_env \<Rightarrow> string \<Rightarrow> session_status \<Rightarrow> unit st_op" where
  "repo_update_session_status E i st =
     bnd (utc_now E) (\<lambda>now.
     connection
       (if st = SRunning then
          unit_op (set_session i (\<lambda>r. r\<lparr>sr_status := session_status_as_str st,
            sr_started_at := coalesce (sr_started_at r) now\<rparr>))
        else if session_is_terminal st then
          bnd (set_session i (\<lambda>r. r\<lparr>sr_status := session_status_as_str st, sr_completed_at := Some now\<rparr>)) (\<lambda>_.
          unit_op (cascade_executions i (if st = SCrashed then ''crashed'' else ''completed'') now))
        else unit_op (set_session i (\<lambda>r. r\<lparr>sr_status := session_status_as_str st\<rparr>))))"

text \<open>The two sums are only evaluated for a row that is updated.\<close>

definition write_totals :: "string option \<Rightarrow> unit st_op" where
  "write_totals owner = statement (\<lambda>db.
     case owner of
       None \<Rightarrow> (Inr (), db)
     | Some i \<Rightarrow>
         if i \<notin> set (session_ids db) then (Inr (), db) else
         let xs = filter (\<lambda>x. xr_session_id x = i) (executions_t db) in
         case (sql_sum (map xr_tokens_in xs), sql_sum (map xr_tokens_out xs)) of
           (Some a, Some b) \<Rightarrow>
             (Inr (), update_sessions (\<lambda>r. sr_id r = i) (\<lambda>r. r\<lparr>sr_tokens_in := a, sr_tokens_out := b\<rparr>) db)
         | _ \<Rightarrow> (Inl (Database IntegerOverflow), db))"

definition repo_update_session_tokens :: "string \<Rightarrow> unit st_op" where
  "repo_update_session_tokens i = connection (write_totals (Some i))"

definition repo_update_session_title :: "string \<Rightarrow> string \<Rightarrow> unit st_op" where
  "repo_update_session_title i title =
     connection (unit_op (set_session i (\<lambda>r. r\<lparr>sr_title := Some title\<rparr>)))"

definition repo_update_session_ward :: "string \<Rightarrow> string \<Rightarrow> unit st_op" where
  "repo_update_session_ward i ward =
     connection (unit_op (set_session i (\<lambda>r. r\<lparr>sr_ward_id := Some ward\<rparr>)))"

definition repo_claim_session_ward_if_unset :: "string \<Rightarrow> string \<Rightarrow> session_ward_claim st_op" where
  "repo_claim_session_ward_if_unset i ward =
     connection (
     bnd (change (\<lambda>db. sql_changes (\<lambda>r. sr_id r = i \<and> sr_ward_id r = None) (sessions_t db))
       (update_sessions (\<lambda>r. sr_id r = i \<and> sr_ward_id r = None) (\<lambda>r. r\<lparr>sr_ward_id := Some ward\<rparr>))) (\<lambda>claimed.
     if claimed = 1 then ret (ClaimedWard ward)
     else bnd (select (\<lambda>db. Option.bind (find_session_row i db) sr_ward_id)) (\<lambda>found.
       bnd (ok_or (Database QueryReturnedNoRows) found) (\<lambda>w. ret (ExistingWard w)))))"

definition repo_update_session_routing ::
  "state_env \<Rightarrow> string \<Rightarrow> string option \<Rightarrow> string option \<Rightarrow> string list option \<Rightarrow> unit st_op" where
  "repo_update_session_routing E i thread connector respond =
     connection (unit_op (set_session i (\<lambda>r. r\<lparr>sr_thread_id := thread, sr_connector_id := connector,
       sr_respond_to := map_option (\<lambda>ss. json_to_string (env_codec E) (strings_to_json ss)) respond\<rparr>)))"

definition repo_set_session_mode :: "string \<Rightarrow> string \<Rightarrow> unit st_op" where
  "repo_set_session_mode i mode =
     connection (unit_op (set_session i (\<lambda>r. r\<lparr>sr_mode := Some mode\<rparr>)))"

section \<open>Sessions: delegation bookkeeping\<close>

definition repo_increment_pending_delegations :: "string \<Rightarrow> unit st_op" where
  "repo_increment_pending_delegations i =
     connection (unit_op (set_session i (\<lambda>r. r\<lparr>sr_pending := sr_pending r + 1\<rparr>)))"

definition repo_decrement_pending_delegations :: "string \<Rightarrow> 32 word st_op" where
  "repo_decrement_pending_delegations i =
     connection (
     bnd (set_session i (\<lambda>r. r\<lparr>sr_pending := max 0 (sr_pending r - 1)\<rparr>)) (\<lambda>_.
     bnd (select (\<lambda>db. map_option sr_pending (find_session_row i db))) (\<lambda>found.
     bnd (ok_or (Database QueryReturnedNoRows) found) (\<lambda>count.
     ret (i64_as_u32 count)))))"

definition repo_reset_delegation_tracking :: "string \<Rightarrow> unit st_op" where
  "repo_reset_delegation_tracking i =
     connection (unit_op (set_session i (\<lambda>r. r\<lparr>sr_pending := 0, sr_continuation := 0\<rparr>)))"

definition repo_set_continuation_needed :: "string \<Rightarrow> bool \<Rightarrow> unit st_op" where
  "repo_set_continuation_needed i needed =
     connection (unit_op (set_session i (\<lambda>r. r\<lparr>sr_continuation := of_bool needed\<rparr>)))"

section \<open>Executions: write\<close>

definition execution_constraints :: "agent_execution \<Rightarrow> statedb \<Rightarrow> bool" where
  "execution_constraints x db =
     (x_id x \<notin> set (execution_ids db) \<and> x_session_id x \<in> set (session_ids db) \<and>
      references (x_id x # execution_ids db) (x_parent_execution_id x) \<and>
      references (session_ids db) (x_child_session_id x))"

definition repo_create_execution :: "state_env \<Rightarrow> agent_execution \<Rightarrow> unit st_op" where
  "repo_create_execution E x =
     connection (unit_op (checked_change (execution_constraints x) (\<lambda>_. 1)
       (\<lambda>db. db\<lparr>executions_t := executions_t db @ [row_of_execution (env_codec E) x]\<rparr>)))"

definition repo_update_execution_status :: "state_env \<Rightarrow> string \<Rightarrow> execution_status \<Rightarrow> unit st_op" where
  "repo_update_execution_status E i st =
     bnd (utc_now E) (\<lambda>now.
     connection
       (if st = XRunning then
          unit_op (set_execution i (\<lambda>x. x\<lparr>xr_status := execution_status_as_str st,
            xr_started_at := coalesce (xr_started_at x) now\<rparr>))
        else if execution_is_terminal st then
          unit_op (set_execution i (\<lambda>x. x\<lparr>xr_status := execution_status_as_str st, xr_completed_at := Some now\<rparr>))
        else unit_op (set_execution i (\<lambda>x. x\<lparr>xr_status := execution_status_as_str st\<rparr>))))"

definition repo_cancel_execution :: "state_env \<Rightarrow> string \<Rightarrow> unit st_op" where
  "repo_cancel_execution E i =
     connection (bnd (utc_now E) (\<lambda>now.
       unit_op (set_execution i (\<lambda>x. x\<lparr>xr_status := ''cancelled'', xr_completed_at := Some now\<rparr>))))"

definition repo_update_execution_tokens :: "string \<Rightarrow> 64 word \<Rightarrow> 64 word \<Rightarrow> unit st_op" where
  "repo_update_execution_tokens i tokens_in tokens_out =
     connection (transaction (
     bnd (set_execution i (\<lambda>x. x\<lparr>xr_tokens_in := u64_as_i64 tokens_in, xr_tokens_out := u64_as_i64 tokens_out\<rparr>)) (\<lambda>_.
     bnd (\<lambda>db. write_totals (map_option xr_session_id (find_execution_row i db)) db) (\<lambda>_.
     ret (True, ())))))"

definition repo_save_execution_checkpoint :: "state_env \<Rightarrow> string \<Rightarrow> checkpoint \<Rightarrow> unit st_op" where
  "repo_save_execution_checkpoint E i c =
     connection (unit_op (set_execution i (\<lambda>x. x\<lparr>xr_checkpoint :=
       Some (json_to_string (env_codec E) (checkpoint_to_json c))\<rparr>)))"

definition repo_set_child_session_id :: "string \<Rightarrow> string \<Rightarrow> unit st_op" where
  "repo_set_child_session_id i child =
     connection (unit_op (checked_change
       (\<lambda>db. i \<in> set (execution_ids db) \<longrightarrow> child \<in> set (session_ids db))
       (\<lambda>db. sql_changes (\<lambda>x. xr_id x = i) (executions_t db))
       (update_executions (\<lambda>x. xr_id x = i) (\<lambda>x. x\<lparr>xr_child := Some child\<rparr>))))"

definition repo_set_execution_error :: "string \<Rightarrow> string \<Rightarrow> unit st_op" where
  "repo_set_execution_error i err =
     connection (unit_op (set_execution i (\<lambda>x. x\<lparr>xr_error := Some err\<rparr>)))"

section \<open>Dashboard\<close>

definition root_sessions :: "statedb \<Rightarrow> session_row list" where
  "root_sessions db = filter (\<lambda>r. sr_parent r = None) (sessions_t db)"

definition executions_of_live_sessions :: "statedb \<Rightarrow> execution_row list" where
  "executions_of_live_sessions db =
     [x. x \<leftarrow> executions_t db, s \<leftarrow> sessions_t db, xr_session_id x = sr_id s, live_text (sr_status s)]"

definition repo_get_dashboard_stats :: "state_env \<Rightarrow> dashboard_stats st_op" where
  "repo_get_dashboard_stats E =
     connection (
     bnd (select (\<lambda>db. group_counts sr_status (root_sessions db))) (\<lambda>by_status.
     bnd (select (\<lambda>db. group_counts xr_status (executions_of_live_sessions db))) (\<lambda>by_exec.
     bnd (\<lambda>db. (Inr (utc_date E (ticks db)), db\<lparr>ticks := Suc (ticks db)\<rparr>)) (\<lambda>today.
     bnd (select (\<lambda>db. filter (\<lambda>r. sql_date E (sr_created_at r) = Some today) (root_sessions db))) (\<lambda>rows.
     bnd (ok_or (Database IntegerOverflow) (sql_sum (map (\<lambda>r. sr_tokens_in r + sr_tokens_out r) rows))) (\<lambda>tokens.
     bnd (select (\<lambda>db. group_counts sr_source (root_sessions db))) (\<lambda>by_source.
     ret \<lparr>sessions_queued = count_of ''queued'' by_status, sessions_running = count_of ''running'' by_status,
       sessions_paused = count_of ''paused'' by_status, sessions_completed = count_of ''completed'' by_status,
       sessions_crashed = count_of ''crashed'' by_status, executions_queued = count_of ''queued'' by_exec,
       executions_running = count_of ''running'' by_exec, executions_completed = count_of ''completed'' by_exec,
       executions_crashed = count_of ''crashed'' by_exec, executions_cancelled = count_of ''cancelled'' by_exec,
       today_sessions = word_of_nat (length rows), today_tokens = i64_as_u64 tokens,
       sessions_by_source = by_source\<rparr>)))))))"

section \<open>Messages\<close>

text \<open>How many parameters the statement has, and how many are bound to it.\<close>

definition messages_sql_params :: "string \<Rightarrow> string option \<Rightarrow> nat" where
  "messages_sql_params scope agent =
     (if scope = ''execution'' then (if agent \<noteq> None then 3 else 2)
      else (if agent \<noteq> None then 2 else 1))"

definition messages_bound_params :: "string \<Rightarrow> string option \<Rightarrow> string option \<Rightarrow> nat" where
  "messages_bound_params scope exec agent =
     (case (scope = ''execution'', exec, agent) of
        (True, Some _, Some _) \<Rightarrow> 3
      | (True, Some _, None) \<Rightarrow> 2
      | (_, _, Some _) \<Rightarrow> 2
      | _ \<Rightarrow> 1)"

definition message_in_scope ::
  "string \<Rightarrow> string \<Rightarrow> string option \<Rightarrow> string option \<Rightarrow> message_row \<times> execution_row \<Rightarrow> bool" where
  "message_in_scope sid scope exec agent = (\<lambda>(m, e).
     mr_execution_id m = Some (xr_id e) \<and> xr_session_id e = sid \<and>
     (if scope = ''root'' then xr_delegation e = ''root''
      else if scope = ''execution'' then Some (xr_id e) = exec
      else if scope = ''delegates'' then xr_delegation e \<noteq> ''root''
      else True) \<and>
     holds agent (\<lambda>a. xr_agent_id e = a))"

definition repo_get_session_messages ::
  "state_env \<Rightarrow> string \<Rightarrow> string \<Rightarrow> string option \<Rightarrow> string option \<Rightarrow> session_message list st_op" where
  "repo_get_session_messages E sid scope exec agent =
     connection (statement (\<lambda>db.
       if messages_sql_params scope agent \<noteq> messages_bound_params scope exec agent
       then (Inl (Database InvalidParameterCount), db)
       else (Inr (map (row_to_session_message (env_codec E))
         (order_asc (\<lambda>(m, e). (xr_started_at e, mr_created_at m))
           (filter (message_in_scope sid scope exec agent)
             (List.product (messages_t db) (executions_t db))))), db)))"

section \<open>Artifacts\<close>

definition MAX_GOAL_ARTIFACTS_PER_SESSION :: nat where "MAX_GOAL_ARTIFACTS_PER_SESSION = 24"

definition goal_artifacts :: "string \<Rightarrow> statedb \<Rightarrow> artifact list" where
  "goal_artifacts sid db = filter (\<lambda>a. a_session_id a = sid \<and> a_is_goal a) (artifacts_t db)"

definition repo_create_artifact :: "artifact \<Rightarrow> unit st_op" where
  "repo_create_artifact a =
     connection (
     bnd (statement (\<lambda>db.
       if a_is_goal a \<and> \<not> length (goal_artifacts (a_session_id a) db) < MAX_GOAL_ARTIFACTS_PER_SESSION
       then (Inr 0, db)
       else if a_id a \<in> set (map a_id (artifacts_t db)) \<or> a_session_id a \<notin> set (session_ids db)
       then (Inl (Database ConstraintFailed), db)
       else (Inr (1 :: nat), db\<lparr>artifacts_t := artifacts_t db @ [a]\<rparr>))) (\<lambda>inserted.
     if inserted = 0 then throw (Database QueryReturnedNoRows) else ret ()))"

definition repo_list_artifacts_by_session :: "string \<Rightarrow> artifact list st_op" where
  "repo_list_artifacts_by_session sid =
     connection (select (\<lambda>db. order_asc a_created_at (filter (\<lambda>a. a_session_id a = sid) (artifacts_t db))))"

definition clamp_goal_limit :: "32 word \<Rightarrow> 32 word" where
  "clamp_goal_limit l = (if l < 1 then 1 else if word_of_nat MAX_GOAL_ARTIFACTS_PER_SESSION < l
     then word_of_nat MAX_GOAL_ARTIFACTS_PER_SESSION else l)"

definition repo_list_goal_artifacts_by_session :: "string \<Rightarrow> 32 word \<Rightarrow> artifact list st_op" where
  "repo_list_goal_artifacts_by_session sid l =
     connection (select (\<lambda>db. take (unat (clamp_goal_limit l)) (order_asc a_created_at (goal_artifacts sid db))))"

definition repo_get_artifact :: "string \<Rightarrow> artifact option st_op" where
  "repo_get_artifact i = connection (select (\<lambda>db. find (\<lambda>a. a_id a = i) (artifacts_t db)))"

end
