(* ===== verification/State_Plans.thy ===== *)
theory State_Plans
  imports State_Repository
begin

text \<open>
  The methods of \<open>StateRepository\<close> on the current plan of a session and on its saved work
  surfaces (\<open>services/execution-state/src/repository.rs\<close>).
\<close>

section \<open>Plans\<close>

definition execution_in_session :: "string \<Rightarrow> string \<Rightarrow> statedb \<Rightarrow> bool" where
  "execution_in_session xid sid db =
     list_ex (\<lambda>x. xr_id x = xid \<and> xr_session_id x = sid) (executions_t db)"

definition counter_of :: "string \<Rightarrow> statedb \<Rightarrow> int option" where
  "counter_of sid db = map_of (counters_t db) sid"

definition bump_counter :: "string \<Rightarrow> (string \<times> int) list \<Rightarrow> (string \<times> int) list" where
  "bump_counter sid = sql_update (\<lambda>c. fst c = sid) (\<lambda>c. (fst c, snd c + 1))"

text \<open>
  The next sequence of a session: its counter is created at 0 when it has none, incremented, and
  read back. A counter at the end of the 64 bits turns into a float, which does not read as an
  integer.
\<close>

definition next_plan_sequence :: "string \<Rightarrow> int st_op" where
  "next_plan_sequence sid =
     bnd (checked_change
       (\<lambda>db. counter_of sid db \<noteq> None \<or> sid \<in> set (session_ids db))
       (\<lambda>db. if counter_of sid db = None then 1 else 0)
       (\<lambda>db. if counter_of sid db = None then db\<lparr>counters_t := counters_t db @ [(sid, 0)]\<rparr> else db)) (\<lambda>_.
     bnd (change (\<lambda>db. sql_changes (\<lambda>c. fst c = sid) (counters_t db))
       (\<lambda>db. db\<lparr>counters_t := bump_counter sid (counters_t db)\<rparr>)) (\<lambda>_.
     bnd (select (counter_of sid)) (\<lambda>found.
     bnd (ok_or (Database QueryReturnedNoRows) found) (\<lambda>n.
     if n < 2 ^ 63 then ret n else throw (Database ConversionFailure)))))"

definition find_plan_row :: "string \<Rightarrow> statedb \<Rightarrow> plan_row option" where
  "find_plan_row sid db = find (\<lambda>p. pr_session_id p = sid) (plans_t db)"

text \<open>\<open>INSERT ... ON CONFLICT DO UPDATE ... WHERE excluded.sequence > sequence\<close>\<close>

definition upsert_plan :: "plan_row \<Rightarrow> nat st_op" where
  "upsert_plan p = statement (\<lambda>db.
     case find_plan_row (pr_session_id p) db of
       None \<Rightarrow>
         if pr_session_id p \<in> set (session_ids db) \<and> pr_execution_id p \<in> set (execution_ids db)
         then (Inr 1, db\<lparr>plans_t := plans_t db @ [p]\<rparr>)
         else (Inl (Database ConstraintFailed), db)
     | Some old \<Rightarrow>
         if \<not> pr_sequence old < pr_sequence p then (Inr 0, db)
         else if pr_execution_id p \<in> set (execution_ids db)
         then (Inr 1, db\<lparr>plans_t := sql_update (\<lambda>q. pr_session_id q = pr_session_id p) (\<lambda>_. p) (plans_t db)\<rparr>)
         else (Inl (Database ConstraintFailed), db))"

definition repo_save_session_plan ::
  "state_env \<Rightarrow> string \<Rightarrow> string \<Rightarrow> json \<Rightarrow> string option \<Rightarrow> 64 word \<Rightarrow> plan_save_outcome st_op" where
  "repo_save_session_plan E sid xid plan explanation event_time =
     (case from_update (json_pieces E) plan explanation of
        Inl reason \<Rightarrow> ret (Rejected reason)
      | Inr inp \<Rightarrow>
          bnd (ok_or (Refused ''source event timestamp exceeds SQLite integer range'')
            (i64_try_from_u64 event_time)) (\<lambda>stamp.
          connection (transaction (
          bnd (select (execution_in_session xid sid)) (\<lambda>belongs.
          if \<not> belongs then ret (False, Rejected ExecutionSessionMismatch) else
          bnd (next_plan_sequence sid) (\<lambda>n.
          bnd (utc_now E) (\<lambda>now.
          bnd (upsert_plan \<lparr>pr_session_id = sid, pr_execution_id = xid,
            pr_plan_json = json_to_string (env_codec E) (plan_to_json (pi_plan inp)),
            pr_explanation = pi_explanation inp, pr_timestamp = stamp, pr_sequence = n,
            pr_updated_at = now\<rparr>) (\<lambda>written.
          if written = 0 then ret (False, Rejected StaleSequence) else
          ret (True, Accepted \<lparr>sn_execution_id = xid, sn_explanation = pi_explanation inp,
            sn_plan = pi_plan inp, sn_updated_at = now, sn_source_event_timestamp = i64_as_u64 stamp,
            sn_source_event_sequence = i64_as_u64 n\<rparr>)))))))))"

definition actionable :: "plan_step_status \<Rightarrow> bool" where
  "actionable s = (s = StepPending \<or> s = StepInProgress)"

definition complete_step :: "plan_step \<Rightarrow> plan_step" where
  "complete_step s = (if actionable (ps_status s) then s\<lparr>ps_status := StepCompleted\<rparr> else s)"

definition session_is_completed :: "string \<Rightarrow> statedb \<Rightarrow> bool" where
  "session_is_completed sid db =
     list_ex (\<lambda>r. sr_id r = sid \<and> sr_status r = ''completed'') (sessions_t db)"

definition store_completed_plan :: "state_env \<Rightarrow> string \<Rightarrow> string \<Rightarrow> plan_step list \<Rightarrow> int \<Rightarrow> int \<Rightarrow> string \<Rightarrow> nat st_op" where
  "store_completed_plan E sid xid steps stamp n now =
     checked_change (\<lambda>db. find_plan_row sid db \<noteq> None \<longrightarrow> xid \<in> set (execution_ids db))
       (\<lambda>db. sql_changes (\<lambda>p. pr_session_id p = sid) (plans_t db))
       (\<lambda>db. db\<lparr>plans_t := sql_update (\<lambda>p. pr_session_id p = sid)
         (\<lambda>p. p\<lparr>pr_execution_id := xid, pr_plan_json := json_to_string (env_codec E) (plan_to_json steps),
           pr_timestamp := stamp, pr_sequence := n, pr_updated_at := now\<rparr>) (plans_t db)\<rparr>)"

definition repo_complete_session_plan ::
  "state_env \<Rightarrow> string \<Rightarrow> string \<Rightarrow> plan_snapshot option st_op" where
  "repo_complete_session_plan E sid xid =
     bnd (\<lambda>db. (Inr (now_millis E (ticks db)), db\<lparr>ticks := Suc (ticks db)\<rparr>)) (\<lambda>millis.
     bnd (ok_or (Refused ''system clock predates the Unix epoch'') (u64_try_from millis)) (\<lambda>event_time.
     bnd (ok_or (Refused ''source event timestamp exceeds SQLite integer range'')
       (i64_try_from_u64 event_time)) (\<lambda>stamp.
     connection (transaction (
     bnd (select (execution_in_session xid sid)) (\<lambda>belongs.
     if \<not> belongs then throw (Database QueryReturnedNoRows) else
     bnd (select (session_is_completed sid)) (\<lambda>done.
     if \<not> done then ret (False, None) else
     bnd (select (find_plan_row sid)) (\<lambda>found.
     case found of
       None \<Rightarrow> ret (True, None)
     | Some row \<Rightarrow>
         bnd (ok_or (Database ConversionFailure) (row_to_session_plan (env_codec E) row)) (\<lambda>snap.
         if \<not> list_ex (\<lambda>s. actionable (ps_status s)) (sn_plan snap) then ret (True, None) else
         bnd (next_plan_sequence sid) (\<lambda>n.
         bnd (utc_now E) (\<lambda>now.
         bnd (store_completed_plan E sid xid (map complete_step (sn_plan snap)) stamp n now) (\<lambda>_.
         ret (True, Some (snap\<lparr>sn_plan := map complete_step (sn_plan snap), sn_execution_id := xid,
           sn_updated_at := now, sn_source_event_timestamp := event_time,
           sn_source_event_sequence := i64_as_u64 n\<rparr>))))))))))))))"

definition repo_get_session_plan :: "state_env \<Rightarrow> string \<Rightarrow> plan_snapshot option st_op" where
  "repo_get_session_plan E sid =
     connection (
     bnd (select (find_plan_row sid)) (\<lambda>found.
     case found of
       None \<Rightarrow> ret None
     | Some row \<Rightarrow> bnd (ok_or (Database ConversionFailure) (row_to_session_plan (env_codec E) row)) (\<lambda>s. ret (Some s))))"

record mc_session_tokens =
  mt_conversation_id :: string
  mt_root_execution_id :: string
  mt_tokens_in :: "64 word"
  mt_tokens_out :: "64 word"
  mt_executions :: "mc_execution_summary list"
  mt_current_plan :: "plan_snapshot option"

definition repo_get_mission_control_session_tokens ::
  "state_env \<Rightarrow> string \<Rightarrow> mc_session_tokens option st_op" where
  "repo_get_mission_control_session_tokens E sid =
     bnd (repo_get_session E sid) (\<lambda>found.
     case found of
       None \<Rightarrow> ret None
     | Some s \<Rightarrow>
         bnd (repo_list_executions E (of_session (s_id s))) (\<lambda>es.
         bnd (repo_get_session_plan E sid) (\<lambda>plan.
         ret (Some \<lparr>mt_conversation_id = s_id s, mt_root_execution_id = root_execution_id_of es (s_id s),
           mt_tokens_in = s_tokens_in s, mt_tokens_out = s_tokens_out s,
           mt_executions = map execution_summary es, mt_current_plan = plan\<rparr>))))"

section \<open>Work surfaces\<close>

definition surface_key :: "string \<Rightarrow> string \<Rightarrow> surface_row \<Rightarrow> bool" where
  "surface_key sid fid f = (fr_session_id f = sid \<and> fr_surface_id f = fid)"

definition upsert_surface :: "surface_row \<Rightarrow> nat st_op" where
  "upsert_surface f = checked_change
     (\<lambda>db. fr_execution_id f \<in> set (execution_ids db) \<and>
       (list_ex (surface_key (fr_session_id f) (fr_surface_id f)) (surfaces_t db) \<or>
        fr_session_id f \<in> set (session_ids db)))
     (\<lambda>_. 1)
     (\<lambda>db. if list_ex (surface_key (fr_session_id f) (fr_surface_id f)) (surfaces_t db)
       then db\<lparr>surfaces_t := sql_update (surface_key (fr_session_id f) (fr_surface_id f))
         (\<lambda>old. old\<lparr>fr_execution_id := fr_execution_id f, fr_surface_json := fr_surface_json f,
           fr_updated_at := fr_updated_at f\<rparr>) (surfaces_t db)\<rparr>
       else db\<lparr>surfaces_t := surfaces_t db @ [f]\<rparr>)"

definition surfaces_of :: "string \<Rightarrow> statedb \<Rightarrow> surface_row list" where
  "surfaces_of sid db = filter (\<lambda>f. fr_session_id f = sid) (surfaces_t db)"

text \<open>\<open>ORDER BY updated_at DESC, rowid DESC LIMIT 16\<close>, as the ids of the surfaces to keep\<close>

definition newest_surfaces :: "string \<Rightarrow> statedb \<Rightarrow> string list" where
  "newest_surfaces sid db = map fr_surface_id (take 16 (rev (sort_key fr_updated_at (surfaces_of sid db))))"

definition expire_surfaces :: "string \<Rightarrow> nat st_op" where
  "expire_surfaces sid = change
     (\<lambda>db. sql_changes (\<lambda>f. fr_session_id f = sid \<and> fr_surface_id f \<notin> set (newest_surfaces sid db)) (surfaces_t db))
     (\<lambda>db. db\<lparr>surfaces_t := sql_delete
       (\<lambda>f. fr_session_id f = sid \<and> fr_surface_id f \<notin> set (newest_surfaces sid db)) (surfaces_t db)\<rparr>)"

definition repo_save_session_surface ::
  "state_env \<Rightarrow> string \<Rightarrow> string \<Rightarrow> string \<Rightarrow> string \<Rightarrow> unit st_op" where
  "repo_save_session_surface E sid xid fid surface =
     connection (transaction (
     bnd (utc_now E) (\<lambda>now.
     bnd (upsert_surface \<lparr>fr_session_id = sid, fr_surface_id = fid, fr_execution_id = xid,
       fr_surface_json = surface, fr_created_at = now, fr_updated_at = now\<rparr>) (\<lambda>_.
     bnd (expire_surfaces sid) (\<lambda>_.
     ret (True, ()))))))"

definition repo_list_session_surfaces :: "string \<Rightarrow> surface_row list st_op" where
  "repo_list_session_surfaces sid =
     connection (select (\<lambda>db. take 16 (order_asc fr_created_at (surfaces_of sid db))))"

definition repo_delete_session_surface :: "string \<Rightarrow> string \<Rightarrow> bool st_op" where
  "repo_delete_session_surface sid fid =
     connection (bnd (change (\<lambda>db. sql_changes (surface_key sid fid) (surfaces_t db))
       (\<lambda>db. db\<lparr>surfaces_t := sql_delete (surface_key sid fid) (surfaces_t db)\<rparr>)) (\<lambda>n. ret (0 < n)))"

definition repo_clear_session_surfaces :: "nat st_op" where
  "repo_clear_session_surfaces =
     connection (change (\<lambda>db. length (surfaces_t db)) (\<lambda>db. db\<lparr>surfaces_t := []\<rparr>))"

end
