(* ===== verification/State_Delete.thy ===== *)
theory State_Delete
  imports State_Repository
begin

text \<open>
  The deletions of whole sessions (\<open>services/execution-state/src/repository.rs\<close>): a session with
  the rows it owns, the tree of a session and its descendants, old sessions.
\<close>

section \<open>Deleting by session\<close>

definition repo_delete_session :: "string \<Rightarrow> bool st_op" where
  "repo_delete_session i =
     connection (bnd (change (\<lambda>db. sql_changes (\<lambda>r. sr_id r = i) (sessions_t db)) (drop_sessions [i]))
       (\<lambda>n. ret (0 < n)))"

definition in_ids :: "string list \<Rightarrow> string option \<Rightarrow> bool" where
  "in_ids ids r = (case r of None \<Rightarrow> False | Some i \<Rightarrow> i \<in> set ids)"

text \<open>
  The \<open>DELETE\<close> statements by \<open>session_id\<close>, each with the number of rows it reports: rows that
  leave through a foreign key are not counted.
\<close>

definition delete_messages :: "string list \<Rightarrow> nat st_op" where
  "delete_messages ids = change (\<lambda>db. sql_changes (\<lambda>m. in_ids ids (mr_session_id m)) (messages_t db))
     (\<lambda>db. db\<lparr>messages_t := sql_delete (\<lambda>m. in_ids ids (mr_session_id m)) (messages_t db)\<rparr>)"

definition executions_of :: "string list \<Rightarrow> statedb \<Rightarrow> string list" where
  "executions_of ids db = map xr_id (filter (\<lambda>x. xr_session_id x \<in> set ids) (executions_t db))"

definition delete_executions :: "string list \<Rightarrow> nat st_op" where
  "delete_executions ids = change (\<lambda>db. length (executions_of ids db))
     (\<lambda>db. drop_executions (executions_of ids db) db)"

definition delete_artifacts :: "string list \<Rightarrow> nat st_op" where
  "delete_artifacts ids = change (\<lambda>db. sql_changes (\<lambda>a. a_session_id a \<in> set ids) (artifacts_t db))
     (\<lambda>db. db\<lparr>artifacts_t := sql_delete (\<lambda>a. a_session_id a \<in> set ids) (artifacts_t db)\<rparr>)"

definition delete_distillation :: "string list \<Rightarrow> nat st_op" where
  "delete_distillation ids = change (\<lambda>db. sql_changes (\<lambda>s. s \<in> set ids) (distillation_t db))
     (\<lambda>db. db\<lparr>distillation_t := sql_delete (\<lambda>s. s \<in> set ids) (distillation_t db)\<rparr>)"

definition delete_outbox :: "string list \<Rightarrow> nat st_op" where
  "delete_outbox ids = change (\<lambda>db. sql_changes (\<lambda>r. in_ids ids (ob_session_id r)) (outbox_t db))
     (\<lambda>db. db\<lparr>outbox_t := sql_delete (\<lambda>r. in_ids ids (ob_session_id r)) (outbox_t db)\<rparr>)"

definition delete_recall :: "string list \<Rightarrow> nat st_op" where
  "delete_recall ids = change (\<lambda>db. sql_changes (\<lambda>s. s \<in> set ids) (recall_t db))
     (\<lambda>db. db\<lparr>recall_t := sql_delete (\<lambda>s. s \<in> set ids) (recall_t db)\<rparr>)"

definition delete_surfaces :: "string list \<Rightarrow> nat st_op" where
  "delete_surfaces ids = change (\<lambda>db. sql_changes (\<lambda>f. fr_session_id f \<in> set ids) (surfaces_t db))
     (\<lambda>db. db\<lparr>surfaces_t := sql_delete (\<lambda>f. fr_session_id f \<in> set ids) (surfaces_t db)\<rparr>)"

definition delete_logs :: "(log_row \<Rightarrow> bool) \<Rightarrow> nat st_op" where
  "delete_logs p = change (\<lambda>db. sql_changes p (logs_t db)) (\<lambda>db. db\<lparr>logs_t := sql_delete p (logs_t db)\<rparr>)"

definition delete_sessions :: "string list \<Rightarrow> nat st_op" where
  "delete_sessions ids = change (\<lambda>db. sql_changes (\<lambda>r. sr_id r \<in> set ids) (sessions_t db)) (drop_sessions ids)"

fun sum_ops :: "nat st_op list \<Rightarrow> nat \<Rightarrow> nat st_op" where
  "sum_ops [] n = ret n"
| "sum_ops (f # fs) n = bnd f (\<lambda>k. sum_ops fs (n + k))"

definition repo_delete_session_cascade :: "string \<Rightarrow> nat st_op" where
  "repo_delete_session_cascade sid =
     connection (transaction (
     bnd (sum_ops [delete_messages [sid], delete_executions [sid],
       delete_logs (\<lambda>l. lr_session_id l = sid), delete_artifacts [sid], delete_distillation [sid],
       delete_outbox [sid], delete_recall [sid], delete_surfaces [sid], delete_sessions [sid]] 0) (\<lambda>n.
     ret (True, n))))"

section \<open>The tree of a session\<close>

text \<open>
  The recursive query: the rows found but not yet expanded wait in a queue, and \<open>UNION\<close> drops a
  row that was found before. It ends on any table, a cyclic one included.
\<close>

definition children_of :: "session_row list \<Rightarrow> string \<Rightarrow> string list" where
  "children_of rows i = map sr_id (filter (\<lambda>r. sr_parent r = Some i) rows)"

function descendants :: "session_row list \<Rightarrow> string list \<Rightarrow> string list \<Rightarrow> string list" where
  "descendants rows found [] = found"
| "descendants rows found (i # queue) =
     (let fresh = remdups (filter (\<lambda>j. j \<notin> set (found @ i # queue)) (children_of rows i))
      in descendants rows (found @ [i]) (queue @ fresh))"
  by pat_completeness auto
termination
proof (relation "measures [\<lambda>(rows, found, queue). card (set (map sr_id rows) - set (found @ queue)),
    \<lambda>(rows, found, queue). length queue]")
  fix rows found i queue and fresh :: "string list"
  assume fresh: "fresh = remdups (filter (\<lambda>j. j \<notin> set (found @ i # queue)) (children_of rows i))"
  let ?ids = "set (map sr_id rows)"
  let ?old = "?ids - set (found @ i # queue)" and ?new = "?ids - set ((found @ [i]) @ queue @ fresh)"
  have ids: "set fresh \<subseteq> ?old" by (auto simp: fresh children_of_def)
  have "card ?new < card ?old" if "fresh \<noteq> []"
  proof -
    from that obtain j where "j \<in> set fresh" by (cases fresh) auto
    with ids have "j \<in> ?old" "j \<notin> ?new" by auto
    then have "?new \<subset> ?old" by auto
    then show ?thesis by (intro psubset_card_mono) auto
  qed
  moreover have "?new = ?old" if "fresh = []" using that by auto
  ultimately show "((rows, found @ [i], queue @ fresh), rows, found, i # queue) \<in>
    measures [\<lambda>(rows, found, queue). card (set (map sr_id rows) - set (found @ queue)),
      \<lambda>(rows, found, queue). length queue]"
    by (cases "fresh = []") auto
qed simp

text \<open>
  The log rows of continuation turns carry a conversation id derived from their session's. The
  ids that match one of the set join it.
\<close>

definition continuation_ids :: "string list \<Rightarrow> log_row list \<Rightarrow> string list" where
  "continuation_ids ids logs =
     remdups (filter (\<lambda>c. list_ex (\<lambda>d. sql_like c (d @ ''-cont-%'')) ids)
       (List.map_filter lr_conversation_id logs))"

definition deletion_set :: "string \<Rightarrow> statedb \<Rightarrow> string list" where
  "deletion_set root db =
     (let ids = descendants (sessions_t db) [] [root]
      in ids @ filter (\<lambda>c. c \<notin> set ids) (continuation_ids ids (logs_t db)))"

text \<open>
  Creating and filling the temporary table are statements of their own; its content stands here
  for the table.
\<close>

definition repo_delete_session_recursive_cascade :: "string \<Rightarrow> nat st_op" where
  "repo_delete_session_recursive_cascade root =
     connection (transaction (
     bnd (statement (ret ())) (\<lambda>_.
     bnd (statement (ret ())) (\<lambda>_.
     bnd (select (deletion_set root)) (\<lambda>ids.
     bnd (statement (ret ())) (\<lambda>_.
     bnd (sum_ops [delete_messages ids, delete_executions ids, delete_artifacts ids,
       delete_distillation ids, delete_outbox ids, delete_recall ids, delete_surfaces ids,
       delete_logs (\<lambda>l. lr_session_id l \<in> set ids \<or> in_ids ids (lr_conversation_id l)),
       delete_sessions ids] 0) (\<lambda>n.
     bnd (statement (ret ())) (\<lambda>_.
     ret (True, n)))))))))"

definition repo_delete_old_sessions :: "string \<Rightarrow> 64 word st_op" where
  "repo_delete_old_sessions older_than =
     connection (bnd (change (\<lambda>db. sql_changes (\<lambda>r. sr_created_at r < older_than) (sessions_t db))
       (\<lambda>db. drop_sessions (map sr_id (filter (\<lambda>r. sr_created_at r < older_than) (sessions_t db))) db))
       (\<lambda>n. ret (word_of_nat n)))"

end
