(* ===== verification/State_Service.thy ===== *)
theory State_Service
  imports State_Plans State_Delete
begin

text \<open>
  \<open>StateService\<close>: the lifecycle of sessions and executions over the repository
  (\<open>services/execution-state/src/service.rs\<close>). Methods that only pass their arguments on to the
  repository are the repository's; the others are here, one definition each.
\<close>

section \<open>Creation\<close>

definition create_session_with_source ::
  "state_env \<Rightarrow> string \<Rightarrow> trigger_source \<Rightarrow> (session \<times> agent_execution) st_op" where
  "create_session_with_source E agent source =
     bnd (new_v4 E) (\<lambda>u.
     bnd (utc_now E) (\<lambda>now.
     bnd (new_v4 E) (\<lambda>v.
     let s = session_new_with_source u now agent source;
         x = execution_new_root v (s_id s) agent
     in bnd (repo_create_session E s) (\<lambda>_.
        bnd (repo_create_execution E x) (\<lambda>_.
        ret (s, x))))))"

definition create_session :: "state_env \<Rightarrow> string \<Rightarrow> (session \<times> agent_execution) st_op" where
  "create_session E agent =
     bnd (new_v4 E) (\<lambda>u.
     bnd (utc_now E) (\<lambda>now.
     bnd (new_v4 E) (\<lambda>v.
     let s = session_new u now agent;
         x = execution_new_root v (s_id s) agent
     in bnd (repo_create_session E s) (\<lambda>_.
        bnd (repo_create_execution E x) (\<lambda>_.
        ret (s, x))))))"

definition create_session_queued :: "state_env \<Rightarrow> string \<Rightarrow> trigger_source \<Rightarrow> session st_op" where
  "create_session_queued E agent source =
     bnd (new_v4 E) (\<lambda>u.
     bnd (utc_now E) (\<lambda>now.
     let s = session_new_queued u now agent source
     in bnd (repo_create_session E s) (\<lambda>_. ret s)))"

definition require_session :: "state_env \<Rightarrow> string \<Rightarrow> session st_op" where
  "require_session E i =
     bnd (repo_get_session E i) (ok_or (Refused (''Session not found: '' @ i)))"

definition start_session :: "state_env \<Rightarrow> string \<Rightarrow> (session \<times> agent_execution) st_op" where
  "start_session E i =
     bnd (require_session E i) (\<lambda>s.
     if s_status s \<noteq> SQueued
     then throw (Refused (''Cannot start session in '' @ session_status_as_str (s_status s) @
       '' state (must be queued)''))
     else
     bnd (repo_update_session_status E i SRunning) (\<lambda>_.
     bnd (new_v4 E) (\<lambda>v.
     let x = execution_new_root v i (s_root_agent_id s) in
     bnd (repo_create_execution E x) (\<lambda>_.
     bnd (repo_get_session E i) (\<lambda>found.
     bnd (ok_or (Refused ''Session disappeared after update'') found) (\<lambda>t.
     ret (t, x)))))))"

section \<open>Transitions of a session\<close>

definition pause_session :: "state_env \<Rightarrow> string \<Rightarrow> unit st_op" where
  "pause_session E i =
     bnd (require_session E i) (\<lambda>s.
     if s_status s \<noteq> SRunning
     then throw (Refused (''Cannot pause session in '' @ session_status_as_str (s_status s) @ '' state''))
     else repo_update_session_status E i SPaused)"

definition resume_session :: "state_env \<Rightarrow> string \<Rightarrow> unit st_op" where
  "resume_session E i =
     bnd (require_session E i) (\<lambda>s.
     if s_status s \<noteq> SPaused \<and> s_status s \<noteq> SCrashed
     then throw (Refused (''Cannot resume session in '' @ session_status_as_str (s_status s) @ '' state''))
     else repo_update_session_status E i SRunning)"

definition cancel_one :: "state_env \<Rightarrow> agent_execution \<Rightarrow> unit st_op" where
  "cancel_one E x =
     (if \<not> execution_is_terminal (x_status x) then repo_update_execution_status E (x_id x) XCancelled
      else ret ())"

definition cancel_session :: "state_env \<Rightarrow> string \<Rightarrow> unit st_op" where
  "cancel_session E i =
     bnd (require_session E i) (\<lambda>s.
     if session_is_terminal (s_status s)
     then throw (Refused (''Cannot cancel session in '' @ session_status_as_str (s_status s) @ '' state''))
     else
     bnd (repo_list_executions E (of_session i)) (\<lambda>es.
     bnd (for_each (cancel_one E) es) (\<lambda>_.
     bnd (attempt (repo_reset_delegation_tracking i)) (\<lambda>_.
     repo_update_session_status E i SCrashed))))"

definition complete_session :: "state_env \<Rightarrow> string \<Rightarrow> unit st_op" where
  "complete_session E i =
     bnd (repo_update_session_tokens i) (\<lambda>_. repo_update_session_status E i SCompleted)"

definition execution_is_live :: "agent_execution \<Rightarrow> bool" where
  "execution_is_live x = (x_status x = XRunning \<or> x_status x = XQueued)"

text \<open>A failure to mark one execution is logged and dropped.\<close>

definition mark_one :: "state_env \<Rightarrow> execution_status \<Rightarrow> agent_execution \<Rightarrow> unit st_op" where
  "mark_one E st x =
     (if execution_is_live x then attempt (repo_update_execution_status E (x_id x) st) else ret ())"

definition crash_session :: "state_env \<Rightarrow> string \<Rightarrow> unit st_op" where
  "crash_session E i =
     bnd (repo_list_executions E (of_session i)) (\<lambda>es.
     bnd (for_each (mark_one E XCrashed) es) (\<lambda>_.
     bnd (repo_update_session_tokens i) (\<lambda>_.
     repo_update_session_status E i SCrashed)))"

definition reactivate_session :: "state_env \<Rightarrow> string \<Rightarrow> unit st_op" where
  "reactivate_session E i =
     bnd (require_session E i) (\<lambda>s.
     bnd (if session_is_terminal (s_status s) then repo_update_session_status E i SRunning else ret ()) (\<lambda>_.
     bnd (attempt (repo_reset_delegation_tracking i)) (\<lambda>_.
     ret ())))"

definition has_running_executions :: "state_env \<Rightarrow> string \<Rightarrow> bool st_op" where
  "has_running_executions E i =
     bnd (repo_list_executions E ((of_session i)\<lparr>ef_status := Some XRunning\<rparr>)) (\<lambda>running.
     if running \<noteq> [] then ret True
     else bnd (repo_list_executions E ((of_session i)\<lparr>ef_status := Some XQueued\<rparr>)) (\<lambda>queued.
       ret (queued \<noteq> [])))"

definition try_complete_session :: "state_env \<Rightarrow> string \<Rightarrow> bool st_op" where
  "try_complete_session E i =
     bnd (has_running_executions E i) (\<lambda>b.
     if b then ret False
     else bnd (complete_session E i) (\<lambda>_. ret True))"

definition find_session_by_thread_id :: "state_env \<Rightarrow> string \<Rightarrow> session option st_op" where
  "find_session_by_thread_id E thread =
     bnd (repo_list_sessions E (any_session\<lparr>f_thread_id := Some thread, f_limit := Some 1\<rparr>)) (\<lambda>ss.
     ret (case ss of [] \<Rightarrow> None | s # _ \<Rightarrow> Some s))"

section \<open>Executions\<close>

definition create_delegated_execution ::
  "state_env \<Rightarrow> string \<Rightarrow> string \<Rightarrow> string \<Rightarrow> delegation_type \<Rightarrow> string \<Rightarrow> agent_execution st_op" where
  "create_delegated_execution E sid agent parent delegation task =
     bnd (new_v4 E) (\<lambda>v.
     let x = execution_new_delegated v sid agent parent delegation task in
     bnd (repo_create_execution E x) (\<lambda>_. ret x))"

definition create_delegated_execution_with_id ::
  "state_env \<Rightarrow> string \<Rightarrow> string \<Rightarrow> string \<Rightarrow> string \<Rightarrow> delegation_type \<Rightarrow> string \<Rightarrow> agent_execution st_op" where
  "create_delegated_execution_with_id E i sid agent parent delegation task =
     (let x = execution_new_delegated_with_id i sid agent parent delegation task in
      bnd (repo_create_execution E x) (\<lambda>_. ret x))"

definition reactivate_execution :: "state_env \<Rightarrow> string \<Rightarrow> unit st_op" where
  "reactivate_execution E i =
     bnd (repo_get_execution E i) (\<lambda>found.
     bnd (ok_or (Refused (''Execution not found: '' @ i)) found) (\<lambda>x.
     if x_status x = XPaused \<or> x_status x = XCompleted \<or> x_status x = XCrashed
     then repo_update_execution_status E i XRunning
     else ret ()))"

definition start_execution :: "state_env \<Rightarrow> string \<Rightarrow> unit st_op" where
  "start_execution E i = repo_update_execution_status E i XRunning"

definition complete_execution :: "state_env \<Rightarrow> string \<Rightarrow> unit st_op" where
  "complete_execution E i = repo_update_execution_status E i XCompleted"

definition crash_execution :: "state_env \<Rightarrow> string \<Rightarrow> string \<Rightarrow> unit st_op" where
  "crash_execution E i err =
     bnd (repo_set_execution_error i err) (\<lambda>_. repo_update_execution_status E i XCrashed)"

section \<open>Delegations\<close>

definition register_delegation :: "string \<Rightarrow> unit st_op" where
  "register_delegation i = repo_increment_pending_delegations i"

definition complete_delegation :: "state_env \<Rightarrow> string \<Rightarrow> bool st_op" where
  "complete_delegation E i =
     bnd (repo_decrement_pending_delegations i) (\<lambda>remaining.
     if remaining = 0
     then bnd (repo_get_session E i) (\<lambda>found.
       bnd (ok_or (Refused ''Session not found'') found) (\<lambda>s.
       ret (s_continuation_needed s)))
     else ret False)"

definition request_continuation :: "string \<Rightarrow> unit st_op" where
  "request_continuation i = repo_set_continuation_needed i True"

definition clear_continuation :: "string \<Rightarrow> unit st_op" where
  "clear_continuation i = repo_set_continuation_needed i False"

section \<open>Shutdown and recovery\<close>

definition running_sessions :: session_filter where
  "running_sessions = any_session\<lparr>f_status := Some SRunning\<rparr>"

definition pause_for_shutdown :: "state_env \<Rightarrow> session \<Rightarrow> unit st_op" where
  "pause_for_shutdown E s =
     bnd (repo_list_executions E (of_session (s_id s))) (\<lambda>es.
     bnd (for_each (mark_one E XPaused) es) (\<lambda>_.
     attempt (repo_update_session_status E (s_id s) SPaused)))"

definition mark_running_as_paused :: "state_env \<Rightarrow> 64 word st_op" where
  "mark_running_as_paused E =
     bnd (repo_list_sessions E running_sessions) (\<lambda>ss.
     bnd (for_each (pause_for_shutdown E) ss) (\<lambda>_.
     ret (word_of_nat (length ss))))"

definition crash_at_startup :: "state_env \<Rightarrow> session \<Rightarrow> unit st_op" where
  "crash_at_startup E s =
     bnd (repo_list_executions E (of_session (s_id s))) (\<lambda>es.
     bnd (for_each (mark_one E XCrashed) es) (\<lambda>_.
     repo_update_session_status E (s_id s) SCrashed))"

definition mark_running_as_crashed :: "state_env \<Rightarrow> 64 word st_op" where
  "mark_running_as_crashed E =
     bnd (repo_list_sessions E running_sessions) (\<lambda>ss.
     bnd (for_each (crash_at_startup E) ss) (\<lambda>_.
     ret (word_of_nat (length ss))))"

section \<open>Messages\<close>

definition get_messages :: "state_env \<Rightarrow> string \<Rightarrow> message list st_op" where
  "get_messages E xid =
     connection (select (\<lambda>db. map (row_to_message (env_codec E))
       (order_asc mr_created_at (filter (\<lambda>m. mr_execution_id m = Some xid) (messages_t db)))))"

definition add_message ::
  "state_env \<Rightarrow> string \<Rightarrow> string \<Rightarrow> string \<Rightarrow> json option \<Rightarrow> json option \<Rightarrow> string st_op" where
  "add_message E xid role content tool_calls tool_results =
     bnd (new_v4 E) (\<lambda>u.
     bnd (utc_now E) (\<lambda>now.
     connection (
     bnd (checked_change
       (\<lambda>db. ''msg-'' @ u \<notin> set (map mr_id (messages_t db)) \<and> xid \<in> set (execution_ids db))
       (\<lambda>_. 1)
       (\<lambda>db. db\<lparr>messages_t := messages_t db @ [\<lparr>mr_id = ''msg-'' @ u, mr_execution_id = Some xid,
          mr_session_id = None, mr_role = role, mr_content = content, mr_created_at = now,
          mr_tool_calls = map_option (json_to_string (env_codec E)) tool_calls,
          mr_tool_results = map_option (json_to_string (env_codec E)) tool_results,
          mr_tool_call_id = None, mr_token_count = Some 0, mr_seq = 0\<rparr>]\<rparr>)) (\<lambda>_.
     ret (''msg-'' @ u)))))"

end
