(* ===== verification/State_Invariant.thy ===== *)
theory State_Invariant
  imports State_Service
begin

text \<open>
  What every method of the session store keeps, whatever it returns and whichever statements of
  it fail: primary keys, foreign keys, texts that read back, the numbering of plans and the caps
  on surfaces and goal artifacts.
\<close>

section \<open>The invariant\<close>

definition session_row_ok :: "session_row \<Rightarrow> bool" where
  "session_row_ok r \<longleftrightarrow>
     session_status_from_str (sr_status r) \<noteq> None \<and> trigger_from_str (sr_source r) \<noteq> None \<and>
     0 \<le> sr_pending r \<and> sr_continuation r \<in> {0, 1}"

definition execution_row_ok :: "execution_row \<Rightarrow> bool" where
  "execution_row_ok x \<longleftrightarrow>
     execution_status_from_str (xr_status x) \<noteq> None \<and> delegation_from_str (xr_delegation x) \<noteq> None"

definition rows_ok :: "statedb \<Rightarrow> bool" where
  "rows_ok db \<longleftrightarrow>
     (\<forall>r \<in> set (sessions_t db). session_row_ok r) \<and> (\<forall>x \<in> set (executions_t db). execution_row_ok x)"

definition surface_pk :: "surface_row \<Rightarrow> string \<times> string" where
  "surface_pk f = (fr_session_id f, fr_surface_id f)"

definition keys_ok :: "statedb \<Rightarrow> bool" where
  "keys_ok db \<longleftrightarrow>
     unique_key sr_id (sessions_t db) \<and> unique_key xr_id (executions_t db) \<and>
     unique_key fst (counters_t db) \<and> unique_key pr_session_id (plans_t db) \<and>
     unique_key surface_pk (surfaces_t db) \<and> unique_key mr_id (messages_t db) \<and>
     unique_key a_id (artifacts_t db)"

definition execution_links :: "string list \<Rightarrow> string list \<Rightarrow> execution_row \<Rightarrow> bool" where
  "execution_links ss xs x \<longleftrightarrow>
     xr_session_id x \<in> set ss \<and> references xs (xr_parent x) \<and> references ss (xr_child x)"

definition links_ok :: "statedb \<Rightarrow> bool" where
  "links_ok db \<longleftrightarrow>
     (\<forall>x \<in> set (executions_t db). execution_links (session_ids db) (execution_ids db) x) \<and>
     (\<forall>c \<in> set (counters_t db). fst c \<in> set (session_ids db)) \<and>
     (\<forall>p \<in> set (plans_t db). pr_session_id p \<in> set (session_ids db) \<and> pr_execution_id p \<in> set (execution_ids db)) \<and>
     (\<forall>f \<in> set (surfaces_t db). fr_session_id f \<in> set (session_ids db) \<and> fr_execution_id f \<in> set (execution_ids db)) \<and>
     (\<forall>m \<in> set (messages_t db). references (execution_ids db) (mr_execution_id m) \<and> references (session_ids db) (mr_session_id m)) \<and>
     (\<forall>a \<in> set (artifacts_t db). a_session_id a \<in> set (session_ids db))"

definition plans_ok :: "statedb \<Rightarrow> bool" where
  "plans_ok db \<longleftrightarrow>
     (\<forall>p \<in> set (plans_t db). \<exists>n. (pr_session_id p, n) \<in> set (counters_t db) \<and> pr_sequence p \<le> n) \<and>
     (\<forall>c \<in> set (counters_t db). 0 \<le> snd c)"

definition caps_ok :: "statedb \<Rightarrow> bool" where
  "caps_ok db \<longleftrightarrow>
     (\<forall>sid. length (surfaces_of sid db) \<le> 16 \<and>
        length (goal_artifacts sid db) \<le> MAX_GOAL_ARTIFACTS_PER_SESSION)"

definition session_db_ok :: "statedb \<Rightarrow> bool" where
  "session_db_ok db \<longleftrightarrow> rows_ok db \<and> keys_ok db \<and> links_ok db \<and> plans_ok db \<and> caps_ok db"

lemmas db_ok_defs = rows_ok_def keys_ok_def links_ok_def plans_ok_def caps_ok_def
  session_ids_def execution_ids_def surfaces_of_def goal_artifacts_def

lemma of_tables_ok [simp]: "of_tables session_db_ok"
  by (simp add: of_tables_def session_db_ok_def db_ok_defs)

section \<open>The writes\<close>

text \<open>Rewriting rows in place, with their keys and their links.\<close>

lemma ok_update_sessions:
  assumes ok: "session_db_ok db"
    and f: "\<And>r. session_row_ok r \<Longrightarrow> sr_id (f r) = sr_id r \<and> session_row_ok (f r)"
  shows "session_db_ok (update_sessions p f db)"
proof -
  have ids: "map sr_id (sql_update p f (sessions_t db)) = map sr_id (sessions_t db)"
    using ok f by (auto simp: sql_update_def session_db_ok_def rows_ok_def)
  with ok have "rows_ok (update_sessions p f db)"
    using f by (auto simp: session_db_ok_def rows_ok_def dest!: in_set_sql_update)
  with ok ids show ?thesis by (auto simp: session_db_ok_def db_ok_defs)
qed

lemma ok_update_executions:
  assumes ok: "session_db_ok db"
    and f: "\<And>x. execution_row_ok x \<Longrightarrow> xr_id (f x) = xr_id x \<and> execution_row_ok (f x)"
    and links: "\<And>x. p x \<Longrightarrow> x \<in> set (executions_t db) \<Longrightarrow>
      execution_links (session_ids db) (execution_ids db) x \<Longrightarrow>
      execution_links (session_ids db) (execution_ids db) (f x)"
  shows "session_db_ok (update_executions p f db)"
proof -
  have ids: "map xr_id (sql_update p f (executions_t db)) = map xr_id (executions_t db)"
    using ok f by (auto simp: sql_update_def session_db_ok_def rows_ok_def)
  have "rows_ok (update_executions p f db)"
    using ok f by (auto simp: session_db_ok_def rows_ok_def dest!: in_set_sql_update)
  moreover have "execution_links (session_ids db) (execution_ids db) x"
    if "x \<in> set (sql_update p f (executions_t db))" for x
    using in_set_sql_update [OF that] ok links by (auto simp: session_db_ok_def links_ok_def)
  ultimately show ?thesis using ok ids by (auto simp: session_db_ok_def db_ok_defs)
qed

lemma links_kept:
  assumes "execution_links ss xs x" and "xr_session_id y = xr_session_id x"
    and "xr_parent y = xr_parent x" and "xr_child y = xr_child x"
  shows "execution_links ss xs y"
  using assms by (simp add: execution_links_def)

text \<open>Adding a row.\<close>

lemma references_mono: "references xs r \<Longrightarrow> set xs \<subseteq> set ys \<Longrightarrow> references ys r"
  by (auto simp: references_def split: option.splits)

lemma references_Some [simp]: "references xs (Some i) \<longleftrightarrow> i \<in> set xs"
  by (simp add: references_def)

lemma references_None [simp]: "references xs None"
  by (simp add: references_def)

lemma ok_add_session:
  assumes ok: "session_db_ok db" and new: "sr_id r \<notin> set (session_ids db)" and r: "session_row_ok r"
  shows "session_db_ok (db\<lparr>sessions_t := sessions_t db @ [r]\<rparr>)"
proof -
  have "references (session_ids db @ [i]) q" if "references (session_ids db) q" for i q
    by (rule references_mono [OF that]) auto
  with ok new r show ?thesis
    by (auto simp: session_db_ok_def db_ok_defs execution_links_def)
qed

lemma ok_add_execution:
  assumes ok: "session_db_ok db" and new: "xr_id x \<notin> set (execution_ids db)"
    and x: "execution_row_ok x" and links: "execution_links (session_ids db) (xr_id x # execution_ids db) x"
  shows "session_db_ok (db\<lparr>executions_t := executions_t db @ [x]\<rparr>)"
proof -
  have more: "references (execution_ids db @ [i]) q" if "references (execution_ids db) q" for i q
    by (rule references_mono [OF that]) auto
  have "references (execution_ids db @ [xr_id x]) (xr_parent x)"
    by (rule references_mono [where xs = "xr_id x # execution_ids db"])
      (use links in \<open>auto simp: execution_links_def\<close>)
  with ok new x links more show ?thesis
    by (auto simp: session_db_ok_def db_ok_defs execution_links_def)
qed

text \<open>Deleting rows that nothing refers to.\<close>

lemma distinct_sql_delete: "unique_key k rows \<Longrightarrow> unique_key k (sql_delete p rows)"
  by (simp add: sql_delete_def distinct_map_filter)

lemma length_filter_delete: "length (filter q (sql_delete p rows)) \<le> length (filter q rows)"
  by (induction rows) (auto simp: sql_delete_def)

lemma le_trans_delete: "length (filter q rows) \<le> n \<Longrightarrow> length (filter q (sql_delete p rows)) \<le> n"
  using length_filter_delete le_trans by blast

lemmas delete_simps = distinct_sql_delete le_trans_delete

lemma ok_delete_messages: "session_db_ok db \<Longrightarrow> session_db_ok (db\<lparr>messages_t := sql_delete p (messages_t db)\<rparr>)"
  by (auto simp: session_db_ok_def db_ok_defs delete_simps)

lemma ok_delete_artifacts: "session_db_ok db \<Longrightarrow> session_db_ok (db\<lparr>artifacts_t := sql_delete p (artifacts_t db)\<rparr>)"
  by (auto simp: session_db_ok_def db_ok_defs delete_simps)

lemma ok_delete_surfaces: "session_db_ok db \<Longrightarrow> session_db_ok (db\<lparr>surfaces_t := sql_delete p (surfaces_t db)\<rparr>)"
  by (auto simp: session_db_ok_def db_ok_defs delete_simps)

lemma ok_delete_plans: "session_db_ok db \<Longrightarrow> session_db_ok (db\<lparr>plans_t := sql_delete p (plans_t db)\<rparr>)"
  by (auto simp: session_db_ok_def db_ok_defs delete_simps)

lemma ok_other_tables:
  "session_db_ok db \<Longrightarrow> session_db_ok (db\<lparr>distillation_t := u\<rparr>)"
  "session_db_ok db \<Longrightarrow> session_db_ok (db\<lparr>outbox_t := v\<rparr>)"
  "session_db_ok db \<Longrightarrow> session_db_ok (db\<lparr>recall_t := w\<rparr>)"
  "session_db_ok db \<Longrightarrow> session_db_ok (db\<lparr>checkpoints_t := c\<rparr>)"
  "session_db_ok db \<Longrightarrow> session_db_ok (db\<lparr>logs_t := l\<rparr>)"
  by (simp_all add: session_db_ok_def db_ok_defs)

text \<open>The cascades.\<close>

lemma null_out_references:
  "references xs r \<Longrightarrow> (\<And>i. i \<in> set xs \<Longrightarrow> i \<notin> set gone \<Longrightarrow> i \<in> set ys) \<Longrightarrow> references ys (null_out gone r)"
  by (cases r) (auto simp: null_out_def)

lemma execution_ids_drop:
  "set (execution_ids (drop_executions gone db)) = set (execution_ids db) - set gone"
  by (auto simp: drop_executions_def execution_ids_def image_iff)

lemma ok_drop_executions:
  assumes ok: "session_db_ok db"
  shows "session_db_ok (drop_executions gone db)"
proof -
  let ?d = "drop_executions gone db"
  have ids: "set (execution_ids ?d) = set (execution_ids db) - set gone" by (rule execution_ids_drop)
  have tables: "session_ids ?d = session_ids db" "sessions_t ?d = sessions_t db"
      "counters_t ?d = counters_t db" "artifacts_t ?d = artifacts_t db"
    by (simp_all add: drop_executions_def session_ids_def)
  have "rows_ok ?d"
    using ok by (auto simp: drop_executions_def session_db_ok_def rows_ok_def execution_row_ok_def)
  moreover have "keys_ok ?d"
    using ok by (auto simp: drop_executions_def session_db_ok_def keys_ok_def delete_simps comp_def)
  moreover have "plans_ok ?d" "caps_ok ?d"
    using ok by (auto simp: drop_executions_def session_db_ok_def plans_ok_def caps_ok_def
        surfaces_of_def goal_artifacts_def delete_simps)
  moreover have "links_ok ?d"
  proof -
    have l: "links_ok db" using ok by (simp add: session_db_ok_def)
    have "execution_links (session_ids ?d) (execution_ids ?d) x" if "x \<in> set (executions_t ?d)" for x
    proof -
      from that obtain y where y: "y \<in> set (executions_t db)" and x: "x = y\<lparr>xr_parent := null_out gone (xr_parent y)\<rparr>"
        by (auto simp: drop_executions_def)
      from l y have "execution_links (session_ids db) (execution_ids db) y" by (simp add: links_ok_def)
      then show ?thesis unfolding x execution_links_def
        by (auto simp: tables ids intro: null_out_references [where xs = "execution_ids db"])
    qed
    moreover have "pr_execution_id p \<in> set (execution_ids ?d)" if "p \<in> set (plans_t ?d)" for p
      using that l unfolding ids by (auto simp: drop_executions_def links_ok_def)
    moreover have "fr_execution_id f \<in> set (execution_ids ?d)" if "f \<in> set (surfaces_t ?d)" for f
      using that l unfolding ids by (auto simp: drop_executions_def links_ok_def)
    moreover have "references (execution_ids ?d) (mr_execution_id m)" if "m \<in> set (messages_t ?d)" for m
    proof -
      from that l have "references (execution_ids db) (mr_execution_id m)"
        by (auto simp: drop_executions_def links_ok_def)
      with that show ?thesis
        by (cases "mr_execution_id m") (simp_all add: ids, auto simp: drop_executions_def)
    qed
    ultimately show ?thesis using l
      unfolding links_ok_def tables by (auto simp: drop_executions_def)
  qed
  ultimately show ?thesis by (simp add: session_db_ok_def)
qed

lemma session_ids_drop: "set (session_ids (drop_sessions gone db)) = set (session_ids db) - set gone"
  by (auto simp: drop_sessions_def drop_executions_def session_ids_def Let_def image_iff)

lemma execution_ids_drop_sessions:
  "set (execution_ids (drop_sessions gone db)) =
   set (execution_ids db) - set (map xr_id (filter (\<lambda>x. xr_session_id x \<in> set gone) (executions_t db)))"
  using execution_ids_drop [of "map xr_id (filter (\<lambda>x. xr_session_id x \<in> set gone) (executions_t db))" db]
  by (simp add: drop_sessions_def execution_ids_def Let_def comp_def)

text \<open>An execution that stays belongs to a session that stays.\<close>

lemma executions_after_drop:
  assumes ok: "session_db_ok db" and x: "x \<in> set (executions_t (drop_sessions gone db))"
  obtains y where "y \<in> set (executions_t db)" "xr_session_id y \<notin> set gone" "xr_id x = xr_id y"
    "xr_session_id x = xr_session_id y" "xr_child x = null_out gone (xr_child y)"
    "xr_status x = xr_status y" "xr_delegation x = xr_delegation y"
proof -
  from x obtain y where y: "y \<in> set (executions_t db)"
    "xr_id y \<notin> xr_id ` {x \<in> set (executions_t db). xr_session_id x \<in> set gone}"
    "x = y\<lparr>xr_parent := null_out (map xr_id (filter (\<lambda>x. xr_session_id x \<in> set gone) (executions_t db))) (xr_parent y),
       xr_child := null_out gone (xr_child y)\<rparr>"
    by (auto simp: drop_sessions_def drop_executions_def Let_def)
  then have "xr_session_id y \<notin> set gone" by blast
  with y show thesis by (intro that [of y]) auto
qed

lemma ok_drop_sessions:
  assumes ok: "session_db_ok db"
  shows "session_db_ok (drop_sessions gone db)"
proof -
  let ?e = "drop_sessions gone db"
  let ?gx = "map xr_id (filter (\<lambda>x. xr_session_id x \<in> set gone) (executions_t db))"
  let ?d = "drop_executions ?gx db"
  have d: "session_db_ok ?d" by (rule ok_drop_executions [OF ok])
  have sids: "set (session_ids ?e) = set (session_ids db) - set gone" by (rule session_ids_drop)
  have xids: "execution_ids ?e = execution_ids ?d"
    by (simp add: drop_sessions_def execution_ids_def Let_def comp_def)
  have same: "session_ids ?d = session_ids db" "sessions_t ?d = sessions_t db"
      "counters_t ?d = counters_t db" "artifacts_t ?d = artifacts_t db"
    by (simp_all add: drop_executions_def session_ids_def)
  have "rows_ok ?e"
    using d by (auto simp: drop_sessions_def Let_def session_db_ok_def rows_ok_def execution_row_ok_def)
  moreover have "keys_ok ?e"
    using d by (auto simp: drop_sessions_def Let_def session_db_ok_def keys_ok_def delete_simps comp_def)
  moreover have "plans_ok ?e"
    using d by (fastforce simp: drop_sessions_def Let_def session_db_ok_def plans_ok_def)
  moreover have "caps_ok ?e"
    using d by (auto simp: drop_sessions_def Let_def session_db_ok_def caps_ok_def
        surfaces_of_def goal_artifacts_def delete_simps)
  moreover have "links_ok ?e"
  proof -
    have l: "links_ok ?d" using d by (simp add: session_db_ok_def)
    have "execution_links (session_ids ?e) (execution_ids ?e) x" if x: "x \<in> set (executions_t ?e)" for x
    proof -
      from x have "xr_session_id x \<notin> set gone" by (metis executions_after_drop [OF ok])
      moreover from x obtain y where y: "y \<in> set (executions_t ?d)"
        and x': "x = y\<lparr>xr_child := null_out gone (xr_child y)\<rparr>"
        by (auto simp: drop_sessions_def Let_def)
      moreover from l y have "execution_links (session_ids db) (execution_ids ?d) y"
        by (simp add: links_ok_def same)
      ultimately show ?thesis unfolding execution_links_def xids sids
        by (auto simp: sids intro: null_out_references [where xs = "session_ids db"])
    qed
    moreover have "references (execution_ids ?e) (mr_execution_id m) \<and> references (session_ids ?e) (mr_session_id m)"
      if "m \<in> set (messages_t ?e)" for m
    proof -
      from that have "m \<in> set (messages_t ?d)"
        "\<not> (case mr_session_id m of None \<Rightarrow> False | Some i \<Rightarrow> i \<in> set gone)"
        by (auto simp: drop_sessions_def Let_def)
      with l show ?thesis unfolding xids
        by (cases "mr_session_id m") (auto simp: links_ok_def same sids)
    qed
    ultimately show ?thesis using l
      unfolding links_ok_def sids xids by (auto simp: drop_sessions_def Let_def same)
  qed
  ultimately show ?thesis by (simp add: session_db_ok_def)
qed

section \<open>The methods\<close>

named_theorems db_keeps "methods of the store keep its database in order"

lemmas keeps_stmts = keeps_connection [OF of_tables_ok] keeps_select [OF of_tables_ok]
  keeps_change [OF of_tables_ok] keeps_checked_change [OF of_tables_ok]
  keeps_transaction [OF of_tables_ok] keeps_utc_now [OF of_tables_ok]
  keeps_new_v4 [OF of_tables_ok] keeps_statement [OF of_tables_ok]

lemma keeps_unit_op [keeps_intros]: "keeps I f \<Longrightarrow> keeps I (unit_op f)"
  unfolding unit_op_def by (intro keeps_intros)

lemma keeps_map_op [keeps_intros]: "(\<And>x. keeps I (f x)) \<Longrightarrow> keeps I (map_op f xs)"
  by (induction xs) (auto intro!: keeps_intros)

lemma keeps_reading: "(\<And>db. snd (m db) = db) \<Longrightarrow> keeps I m"
  by (simp add: keeps_def)

lemma keeps_set_session:
  "(\<And>r. session_row_ok r \<Longrightarrow> sr_id (f r) = sr_id r \<and> session_row_ok (f r)) \<Longrightarrow>
   keeps session_db_ok (set_session i f)"
  unfolding set_session_def by (intro keeps_stmts ok_update_sessions)

lemma keeps_set_execution:
  assumes "\<And>x. execution_row_ok x \<Longrightarrow> execution_row_ok (f x)"
    and "\<And>x. xr_id (f x) = xr_id x \<and> xr_session_id (f x) = xr_session_id x \<and>
      xr_parent (f x) = xr_parent x \<and> xr_child (f x) = xr_child x"
  shows "keeps session_db_ok (set_execution i f)"
  unfolding set_execution_def
  by (intro keeps_stmts ok_update_executions) (use assms in \<open>auto intro: links_kept\<close>)

lemma row_of_session_ok: "session_row_ok (row_of_session C s)"
  by (simp add: session_row_ok_def row_of_session_def codec_simps u32_as_i64_def)

lemma row_of_execution_ok: "execution_row_ok (row_of_execution C x)"
  by (simp add: execution_row_ok_def row_of_execution_def codec_simps)

lemma status_text_reads [simp]:
  "session_status_from_str (session_status_as_str s) = Some s"
  "execution_status_from_str (execution_status_as_str t) = Some t"
  by (simp_all add: codec_simps)

lemma keeps_create_session [db_keeps]: "keeps session_db_ok (repo_create_session E s)"
  unfolding repo_create_session_def
  by (intro keeps_intros keeps_stmts ok_add_session row_of_session_ok)
    (simp_all add: row_of_session_def)

lemma keeps_reads [db_keeps]:
  "keeps session_db_ok (repo_get_session E i)"
  "keeps session_db_ok (repo_list_sessions E f)"
  "keeps session_db_ok (repo_get_execution E i)"
  "keeps session_db_ok (repo_get_root_execution E i)"
  "keeps session_db_ok (repo_get_last_crashed_subagent E i)"
  "keeps session_db_ok (repo_list_session_surfaces i)"
  "keeps session_db_ok (repo_list_artifacts_by_session i)"
  "keeps session_db_ok (repo_list_goal_artifacts_by_session i l)"
  "keeps session_db_ok (repo_get_artifact i)"
  "keeps session_db_ok (get_messages E i)"
  unfolding repo_get_session_def repo_list_sessions_def repo_get_execution_def
    repo_get_root_execution_def repo_get_last_crashed_subagent_def repo_list_session_surfaces_def
    repo_list_artifacts_by_session_def repo_list_goal_artifacts_by_session_def
    repo_get_artifact_def get_messages_def
  by (intro keeps_stmts)+

lemma keeps_list_executions [db_keeps]: "keeps session_db_ok (repo_list_executions E f)"
  unfolding repo_list_executions_def
  by (intro keeps_stmts keeps_reading) (auto simp: Let_def split: option.splits)

lemma keeps_messages [db_keeps]: "keeps session_db_ok (repo_get_session_messages E sid scope x a)"
  unfolding repo_get_session_messages_def
  by (intro keeps_stmts keeps_reading) simp

lemma keeps_child_executions [db_keeps]: "keeps session_db_ok (repo_get_child_executions E i)"
  unfolding repo_get_child_executions_def by (rule db_keeps)

lemma keeps_session_plan [db_keeps]: "keeps session_db_ok (repo_get_session_plan E i)"
  unfolding repo_get_session_plan_def by (intro keeps_intros keeps_stmts)

lemma keeps_dashboard [db_keeps]: "keeps session_db_ok (repo_get_dashboard_stats E)"
proof -
  have tick: "keeps session_db_ok (\<lambda>db. (Inr (utc_date E (ticks db)) :: state_error + string, db\<lparr>ticks := Suc (ticks db)\<rparr>))"
    by (simp add: keeps_def of_tables_ticks [OF of_tables_ok])
  show ?thesis unfolding repo_get_dashboard_stats_def by (intro keeps_intros keeps_stmts tick)
qed

lemma keeps_views [db_keeps]:
  "keeps session_db_ok (repo_get_session_with_executions E i)"
  "keeps session_db_ok (repo_list_sessions_with_executions E f)"
  "keeps session_db_ok (repo_list_executions_for_sessions E ids)"
  "keeps session_db_ok (repo_get_mission_control_session_tokens E i)"
  unfolding repo_get_session_with_executions_def repo_list_sessions_with_executions_def
    repo_list_executions_for_sessions_def repo_get_mission_control_session_tokens_def
  by (intro keeps_intros keeps_stmts db_keeps)+

lemma keeps_summaries [db_keeps]: "keeps session_db_ok (repo_list_mission_control_summaries E g)"
  unfolding repo_list_mission_control_summaries_def Let_def
  by (intro keeps_intros keeps_stmts db_keeps)

end
