(* ===== verification/State_Methods.thy ===== *)
theory State_Methods
  imports State_Invariant
begin

text \<open>
  Every method that writes keeps the database of sessions in order; the commands of the store and
  their histories.
\<close>

section \<open>Sessions and executions\<close>

lemma coalesce_row [simp]: "session_row_ok (r\<lparr>sr_started_at := z\<rparr>) = session_row_ok r"
  by (simp add: session_row_ok_def)

lemma keeps_cascade: "execution_status_from_str st \<noteq> None \<Longrightarrow>
  keeps session_db_ok (cascade_executions i st now)"
  unfolding cascade_executions_def
  by (intro keeps_stmts ok_update_executions) (auto simp: execution_row_ok_def execution_links_def)

lemma keeps_session_status [db_keeps]: "keeps session_db_ok (repo_update_session_status E i st)"
  unfolding repo_update_session_status_def
  by (intro keeps_intros keeps_stmts keeps_set_session keeps_cascade)
    (auto simp: session_row_ok_def)

lemma keeps_write_totals [db_keeps]: "keeps session_db_ok (write_totals owner)"
  unfolding write_totals_def
  by (intro keeps_stmts keepsI)
    (auto simp: Let_def session_row_ok_def intro!: ok_update_sessions split: option.split)

lemma keeps_session_columns [db_keeps]:
  "keeps session_db_ok (repo_update_session_title i t)"
  "keeps session_db_ok (repo_update_session_ward i w)"
  "keeps session_db_ok (repo_update_session_routing E i th co re)"
  "keeps session_db_ok (repo_set_session_mode i mo)"
  "keeps session_db_ok (repo_increment_pending_delegations i)"
  "keeps session_db_ok (repo_reset_delegation_tracking i)"
  "keeps session_db_ok (repo_set_continuation_needed i b)"
  "keeps session_db_ok (repo_update_session_tokens i)"
  unfolding repo_update_session_title_def repo_update_session_ward_def repo_update_session_routing_def
    repo_set_session_mode_def repo_increment_pending_delegations_def repo_reset_delegation_tracking_def
    repo_set_continuation_needed_def repo_update_session_tokens_def
  by (intro keeps_intros keeps_stmts keeps_set_session db_keeps; auto simp: session_row_ok_def)+

lemma keeps_decrement [db_keeps]: "keeps session_db_ok (repo_decrement_pending_delegations i)"
  unfolding repo_decrement_pending_delegations_def
  by (intro keeps_intros keeps_stmts keeps_set_session) (auto simp: session_row_ok_def)

lemma keeps_claim_ward [db_keeps]: "keeps session_db_ok (repo_claim_session_ward_if_unset i w)"
  unfolding repo_claim_session_ward_if_unset_def
  by (intro keeps_intros keeps_stmts ok_update_sessions) (auto simp: session_row_ok_def)

lemma keeps_create_execution [db_keeps]: "keeps session_db_ok (repo_create_execution E x)"
  unfolding repo_create_execution_def
  by (intro keeps_intros keeps_stmts ok_add_execution row_of_execution_ok)
    (auto simp: execution_constraints_def execution_links_def row_of_execution_def)

lemma keeps_execution_status [db_keeps]: "keeps session_db_ok (repo_update_execution_status E i st)"
  unfolding repo_update_execution_status_def
  by (intro keeps_intros keeps_stmts keeps_set_execution) (auto simp: execution_row_ok_def)

lemma keeps_execution_columns [db_keeps]:
  "keeps session_db_ok (repo_cancel_execution E i)"
  "keeps session_db_ok (repo_save_execution_checkpoint E i c)"
  "keeps session_db_ok (repo_set_execution_error i e)"
  unfolding repo_cancel_execution_def repo_save_execution_checkpoint_def repo_set_execution_error_def
  by (intro keeps_intros keeps_stmts keeps_set_execution; auto simp: execution_row_ok_def)+

lemma keeps_child_session [db_keeps]: "keeps session_db_ok (repo_set_child_session_id i c)"
  unfolding repo_set_child_session_id_def
  by (intro keeps_intros keeps_stmts ok_update_executions)
    (auto simp: execution_row_ok_def execution_links_def execution_ids_def)

lemma keeps_of_state: "(\<And>x. keeps I (m x)) \<Longrightarrow> keeps I (\<lambda>s. m (f s) s)"
  by (simp add: keeps_def)

lemma keeps_execution_tokens [db_keeps]: "keeps session_db_ok (repo_update_execution_tokens i a b)"
  unfolding repo_update_execution_tokens_def
  by (intro keeps_intros keeps_stmts keeps_set_execution
      keeps_of_state [where m = write_totals, OF keeps_write_totals])
    (auto simp: execution_row_ok_def)

section \<open>Artifacts and messages\<close>

lemma goal_artifacts_add:
  "goal_artifacts sid (db\<lparr>artifacts_t := artifacts_t db @ [a]\<rparr>) =
   goal_artifacts sid db @ (if a_session_id a = sid \<and> a_is_goal a then [a] else [])"
  by (simp add: goal_artifacts_def)

lemma ok_add_artifact:
  assumes ok: "session_db_ok db" and new: "a_id a \<notin> set (map a_id (artifacts_t db))"
    and link: "a_session_id a \<in> set (session_ids db)"
    and room: "a_is_goal a \<Longrightarrow> length (goal_artifacts (a_session_id a) db) < MAX_GOAL_ARTIFACTS_PER_SESSION"
  shows "session_db_ok (db\<lparr>artifacts_t := artifacts_t db @ [a]\<rparr>)"
proof -
  have "caps_ok (db\<lparr>artifacts_t := artifacts_t db @ [a]\<rparr>)"
    using ok room by (auto simp: session_db_ok_def caps_ok_def goal_artifacts_add surfaces_of_def)
  with ok new link show ?thesis
    by (auto simp: session_db_ok_def rows_ok_def keys_ok_def links_ok_def plans_ok_def
        session_ids_def execution_ids_def)
qed

lemma keeps_create_artifact [db_keeps]: "keeps session_db_ok (repo_create_artifact a)"
  unfolding repo_create_artifact_def
  by (intro keeps_intros keeps_stmts keepsI) (auto intro!: ok_add_artifact)

lemma ok_add_message:
  assumes "session_db_ok db" and "mr_id m \<notin> set (map mr_id (messages_t db))"
    and "references (execution_ids db) (mr_execution_id m)" and "references (session_ids db) (mr_session_id m)"
  shows "session_db_ok (db\<lparr>messages_t := messages_t db @ [m]\<rparr>)"
  using assms by (auto simp: session_db_ok_def db_ok_defs)

lemma keeps_add_message [db_keeps]: "keeps session_db_ok (add_message E x r c tc tr)"
  unfolding add_message_def
  by (intro keeps_intros keeps_stmts ok_add_message) auto

section \<open>Plans\<close>

lemma bump_counter_fst [simp]: "map fst (bump_counter sid cs) = map fst cs"
  by (auto simp: bump_counter_def sql_update_def)

lemma bump_counter_set:
  assumes "(k, n) \<in> set cs"
  shows "(k, if k = sid then n + 1 else n) \<in> set (bump_counter sid cs)"
proof -
  from assms have "(\<lambda>c. if fst c = sid then (fst c, snd c + 1) else c) (k, n) \<in> set (bump_counter sid cs)"
    unfolding bump_counter_def set_sql_update by (rule imageI)
  then show ?thesis by (simp split: if_splits)
qed

lemma fst_set_bump: "c \<in> set (bump_counter sid cs) \<Longrightarrow> fst c \<in> set (map fst cs)"
  by (metis bump_counter_fst image_eqI set_map)

lemma ok_bump:
  assumes ok: "session_db_ok db"
  shows "session_db_ok (db\<lparr>counters_t := bump_counter sid (counters_t db)\<rparr>)"
proof -
  have "\<exists>n. (pr_session_id p, n) \<in> set (bump_counter sid (counters_t db)) \<and> pr_sequence p \<le> n"
    if p: "p \<in> set (plans_t db)" for p
  proof -
    from ok p obtain n where n: "(pr_session_id p, n) \<in> set (counters_t db)" "pr_sequence p \<le> n"
      by (auto simp: session_db_ok_def plans_ok_def)
    with bump_counter_set [OF n(1), of sid] show ?thesis
      by (intro exI [of _ "if pr_session_id p = sid then n + 1 else n"]) simp
  qed
  moreover have "0 \<le> snd c" if "c \<in> set (bump_counter sid (counters_t db))" for c
    using that ok by (auto simp: bump_counter_def session_db_ok_def plans_ok_def dest!: in_set_sql_update)
  ultimately have "plans_ok (db\<lparr>counters_t := bump_counter sid (counters_t db)\<rparr>)"
    by (simp add: plans_ok_def)
  with ok show ?thesis
    by (auto simp: session_db_ok_def rows_ok_def keys_ok_def links_ok_def caps_ok_def
        session_ids_def execution_ids_def surfaces_of_def goal_artifacts_def dest!: fst_set_bump)
qed

lemma ok_new_counter:
  assumes ok: "session_db_ok db" and new: "counter_of sid db = None" and s: "sid \<in> set (session_ids db)"
  shows "session_db_ok (db\<lparr>counters_t := counters_t db @ [(sid, 0)]\<rparr>)"
proof -
  from new have "sid \<notin> fst ` set (counters_t db)" by (simp add: counter_of_def map_of_eq_None_iff)
  with ok s show ?thesis by (fastforce simp: session_db_ok_def db_ok_defs)
qed

lemma keeps_next_sequence [db_keeps]: "keeps session_db_ok (next_plan_sequence sid)"
  unfolding next_plan_sequence_def
  by (intro keeps_intros keeps_stmts ok_bump) (auto intro: ok_new_counter)

text \<open>What the allocation of a sequence gives: the value the counter now has.\<close>

lemma map_of_bump: "map_of (bump_counter sid cs) k = map_option (\<lambda>n. if k = sid then n + 1 else n) (map_of cs k)"
  by (induction cs) (auto simp: bump_counter_def)

lemma map_of_append_single: "map_of (cs @ [(k, v)]) j =
  (case map_of cs j of None \<Rightarrow> if j = k then Some v else None | Some x \<Rightarrow> Some x)"
  by (simp add: map_add_def split: option.split)

definition with_counter :: "string \<Rightarrow> (string \<times> int) list \<Rightarrow> (string \<times> int) list" where
  "with_counter sid cs = (if map_of cs sid = None then cs @ [(sid, 0)] else cs)"

lemma map_of_with_counter:
  "map_of (with_counter sid cs) k =
    (if k = sid \<and> map_of cs sid = None then Some 0 else map_of cs k)"
  by (simp add: with_counter_def map_of_append_single del: map_of_append split: option.split)

lemma next_sequence_InrD:
  assumes "next_plan_sequence sid db = (Inr n, t)"
  shows "\<exists>bs. t = db\<lparr>counters_t := bump_counter sid (with_counter sid (counters_t db)), script := bs\<rparr> \<and>
    n = (case counter_of sid db of None \<Rightarrow> 1 | Some k \<Rightarrow> k + 1) \<and> n < 2 ^ 63"
proof -
  let ?u = "\<lambda>db. if counter_of sid db = None then db\<lparr>counters_t := counters_t db @ [(sid, 0)]\<rparr> else db"
  let ?ins = "checked_change (\<lambda>db. counter_of sid db \<noteq> None \<or> sid \<in> set (session_ids db))
    (\<lambda>db. if counter_of sid db = None then 1 else 0) ?u"
  from assms obtain x d1 y d2 z d3 m d4 where
    1: "?ins db = (Inr x, d1)"
    and 2: "change (\<lambda>db. sql_changes (\<lambda>c. fst c = sid) (counters_t db))
       (\<lambda>db. db\<lparr>counters_t := bump_counter sid (counters_t db)\<rparr>) d1 = (Inr y, d2)"
    and 3: "select (counter_of sid) d2 = (Inr z, d3)"
    and 4: "ok_or (Database QueryReturnedNoRows) z d3 = (Inr m, d4)"
    and 5: "(if m < 2 ^ 63 then ret m else throw (Database ConversionFailure)) d4 = (Inr n, t)"
    unfolding next_plan_sequence_def by (elim bnd_eq_InrE) blast
  from checked_change_InrD [OF 1] obtain b1 where
    "d1 = db\<lparr>script := b1, counters_t := with_counter sid (counters_t db)\<rparr>"
    by (cases "counter_of sid db") (auto simp: with_counter_def counter_of_def)
  with change_InrD [OF 2] obtain b2 where d2: "d2 = db\<lparr>script := b2,
      counters_t := bump_counter sid (with_counter sid (counters_t db))\<rparr>"
    by auto
  from select_InrD [OF 3] obtain b3 where d3: "d3 = d2\<lparr>script := b3\<rparr>" "z = counter_of sid d3"
    by auto
  then have z: "z = Some (case counter_of sid db of None \<Rightarrow> 1 | Some k \<Rightarrow> k + 1)"
    by (auto simp: d2 counter_of_def map_of_bump map_of_with_counter split: option.split)
  with 5 ok_or_InrD [OF 4] have "t = d3" "n = (case counter_of sid db of None \<Rightarrow> 1 | Some k \<Rightarrow> k + 1)" "n < 2 ^ 63"
    by (auto simp: op_simps split: if_splits)
  with d2 d3 show ?thesis by auto
qed

lemma ok_add_plan:
  assumes ok: "session_db_ok db" and new: "find_plan_row (pr_session_id p) db = None"
    and links: "pr_session_id p \<in> set (session_ids db)" "pr_execution_id p \<in> set (execution_ids db)"
    and seq: "counter_of (pr_session_id p) db = Some n" "pr_sequence p \<le> n"
  shows "session_db_ok (db\<lparr>plans_t := plans_t db @ [p]\<rparr>)"
proof -
  from new have "pr_session_id p \<notin> pr_session_id ` set (plans_t db)"
    by (simp add: find_plan_row_def find_key_None)
  moreover from seq have "(pr_session_id p, n) \<in> set (counters_t db)"
    by (auto simp: counter_of_def dest: map_of_SomeD)
  ultimately show ?thesis using ok links seq(2)
    by (auto simp: session_db_ok_def db_ok_defs)
qed

lemma ok_update_plan:
  assumes ok: "session_db_ok db" and x: "pr_execution_id p \<in> set (execution_ids db)"
    and f: "\<And>q. q \<in> set (plans_t db) \<Longrightarrow> pr_session_id q = sid \<Longrightarrow>
      pr_session_id (f q) = sid \<and> pr_execution_id (f q) = pr_execution_id p \<and> pr_sequence (f q) = pr_sequence p"
    and seq: "counter_of sid db = Some n" "pr_sequence p \<le> n"
  shows "session_db_ok (db\<lparr>plans_t := sql_update (\<lambda>q. pr_session_id q = sid) f (plans_t db)\<rparr>)"
proof -
  have keys: "map pr_session_id (sql_update (\<lambda>q. pr_session_id q = sid) f (plans_t db)) = map pr_session_id (plans_t db)"
    using f by (auto simp: sql_update_def)
  from seq have c: "(sid, n) \<in> set (counters_t db)"
    by (auto simp: counter_of_def dest: map_of_SomeD)
  have "plans_ok (db\<lparr>plans_t := sql_update (\<lambda>q. pr_session_id q = sid) f (plans_t db)\<rparr>)"
    using ok f c seq(2) by (fastforce simp: session_db_ok_def plans_ok_def dest!: in_set_sql_update)
  moreover have "links_ok (db\<lparr>plans_t := sql_update (\<lambda>q. pr_session_id q = sid) f (plans_t db)\<rparr>)"
    using ok f x by (fastforce simp: session_db_ok_def links_ok_def session_ids_def execution_ids_def
        dest!: in_set_sql_update)
  ultimately show ?thesis using ok keys
    by (auto simp: session_db_ok_def rows_ok_def keys_ok_def caps_ok_def surfaces_of_def goal_artifacts_def)
qed

end
