(* ===== verification/State_History.thy ===== *)
theory State_History
  imports State_Methods
begin

text \<open>
  The writes on plans, surfaces and whole sessions keep the database in order, and so does every
  sequence of calls to the service: the commands have one constructor per public method that
  writes, with the arguments a caller chooses.
\<close>

section \<open>Plans\<close>

lemma keeps_bnd_result:
  assumes "keeps I m" and "\<And>x s t. I s \<Longrightarrow> m s = (Inr x, t) \<Longrightarrow> I t \<Longrightarrow> I (snd (f x t))"
  shows "keeps I (bnd m f)"
proof (rule keepsI)
  fix s assume s: "I s"
  obtain r t where m: "m s = (r, t)" by (cases "m s")
  with assms(1) s have "I t" by (auto dest: keepsE)
  with assms(2) m s show "I (snd (bnd m f s))" by (cases r) (simp_all add: bnd_def)
qed

text \<open>The database while the sequence \<open>n\<close> is being used.\<close>

definition numbered :: "string \<Rightarrow> int \<Rightarrow> statedb \<Rightarrow> bool" where
  "numbered sid n db \<longleftrightarrow> session_db_ok db \<and> counter_of sid db = Some n"

lemma of_tables_numbered: "of_tables (numbered sid n)"
  using of_tables_ok by (simp add: of_tables_def numbered_def counter_of_def)

lemmas keeps_numbered = keeps_utc_now [OF of_tables_numbered] keeps_statement [OF of_tables_numbered]
  keeps_checked_change [OF of_tables_numbered]

lemma next_sequence_numbered:
  assumes "session_db_ok db" and "next_plan_sequence sid db = (Inr n, t)"
  shows "numbered sid n t"
proof -
  have "session_db_ok t" using keepsE [OF keeps_next_sequence assms] .
  with next_sequence_InrD [OF assms(2)] show ?thesis
    by (auto simp: numbered_def counter_of_def map_of_bump map_of_with_counter split: option.split)
qed

lemma keeps_upsert_plan:
  assumes p: "pr_session_id p = sid" "pr_sequence p = n"
  shows "keeps (numbered sid n) (upsert_plan p)"
  unfolding upsert_plan_def
proof (intro keeps_numbered keepsI)
  fix db assume ok: "numbered sid n db"
  have add: "session_db_ok (db\<lparr>plans_t := plans_t db @ [p]\<rparr>)"
    if "find_plan_row sid db = None" "sid \<in> set (session_ids db)" "pr_execution_id p \<in> set (execution_ids db)"
    using ok_add_plan [of db p n] ok that p by (simp add: numbered_def)
  have upd: "session_db_ok (db\<lparr>plans_t := sql_update (\<lambda>q. pr_session_id q = sid) (\<lambda>_. p) (plans_t db)\<rparr>)"
    if "pr_execution_id p \<in> set (execution_ids db)"
    using ok_update_plan [of db p sid "\<lambda>_. p" n] ok that p by (simp add: numbered_def)
  from ok add upd p show "numbered sid n (snd (case find_plan_row (pr_session_id p) db of
       None \<Rightarrow>
         if pr_session_id p \<in> set (session_ids db) \<and> pr_execution_id p \<in> set (execution_ids db)
         then (Inr 1, db\<lparr>plans_t := plans_t db @ [p]\<rparr>)
         else (Inl (Database ConstraintFailed), db)
     | Some old \<Rightarrow>
         if \<not> pr_sequence old < pr_sequence p then (Inr 0, db)
         else if pr_execution_id p \<in> set (execution_ids db)
         then (Inr 1, db\<lparr>plans_t := sql_update (\<lambda>q. pr_session_id q = pr_session_id p) (\<lambda>_. p) (plans_t db)\<rparr>)
         else (Inl (Database ConstraintFailed), db)))"
    by (auto simp: numbered_def counter_of_def split: option.split)
qed

lemma keeps_numbering:
  assumes "\<And>n. keeps (numbered sid n) (f n)"
  shows "keeps session_db_ok (bnd (next_plan_sequence sid) f)"
proof (rule keeps_bnd_result [OF keeps_next_sequence])
  fix n s t assume "session_db_ok s" and "next_plan_sequence sid s = (Inr n, t)"
  then have "numbered sid n t" by (rule next_sequence_numbered)
  with assms have "numbered sid n (snd (f n t))" by (rule keepsD)
  then show "session_db_ok (snd (f n t))" by (simp add: numbered_def)
qed

lemma keeps_save_plan [db_keeps]: "keeps session_db_ok (repo_save_session_plan E sid xid plan ex ev)"
  unfolding repo_save_session_plan_def
  by (intro keeps_intros keeps_stmts keeps_numbering keeps_numbered keeps_upsert_plan) simp_all

lemma keeps_store_completed: "keeps (numbered sid n) (store_completed_plan E sid xid steps stamp n now)"
  unfolding store_completed_plan_def
proof (rule keeps_numbered(3))
  let ?f = "\<lambda>p. p\<lparr>pr_execution_id := xid, pr_plan_json := json_to_string (env_codec E) (plan_to_json steps),
           pr_timestamp := stamp, pr_sequence := n, pr_updated_at := now\<rparr>"
  fix db assume ok: "numbered sid n db" and x: "find_plan_row sid db \<noteq> None \<longrightarrow> xid \<in> set (execution_ids db)"
  show "numbered sid n (db\<lparr>plans_t := sql_update (\<lambda>p. pr_session_id p = sid) ?f (plans_t db)\<rparr>)"
  proof (cases "find_plan_row sid db")
    case None
    then have "sql_update (\<lambda>p. pr_session_id p = sid) ?f (plans_t db) = plans_t db"
      by (intro sql_update_id) (auto simp: find_plan_row_def find_None_iff)
    with ok show ?thesis by simp
  next
    case (Some q)
    with ok_update_plan [of db "?f q" sid ?f n] ok x show ?thesis
      by (simp add: numbered_def counter_of_def)
  qed
qed

lemma keeps_complete_plan [db_keeps]: "keeps session_db_ok (repo_complete_session_plan E sid xid)"
proof -
  have tick: "keeps session_db_ok (\<lambda>db. (Inr (now_millis E (ticks db)) :: state_error + int, db\<lparr>ticks := Suc (ticks db)\<rparr>))"
    by (simp add: keeps_def of_tables_ticks [OF of_tables_ok])
  show ?thesis unfolding repo_complete_session_plan_def
    by (intro keeps_intros keeps_stmts keeps_numbering keeps_numbered keeps_store_completed tick)
qed

section \<open>Surfaces\<close>

lemma distinct_surfaces_of:
  assumes "keys_ok db"
  shows "distinct (map fr_surface_id (surfaces_of sid db))"
proof -
  from assms have "distinct (map surface_pk (surfaces_of sid db))"
    by (simp add: keys_ok_def surfaces_of_def distinct_map_filter)
  then show ?thesis
    by (auto simp: distinct_map inj_on_def surfaces_of_def surface_pk_def)
qed

lemma length_newest [simp]: "length (newest_surfaces sid db) = min 16 (length (surfaces_of sid db))"
  by (simp add: newest_surfaces_def)

text \<open>
  What the upsert may break for the length of a statement is the cap of one session; the
  deletion that follows puts it back.
\<close>

definition capless :: "string \<Rightarrow> statedb \<Rightarrow> bool" where
  "capless sid db \<longleftrightarrow> rows_ok db \<and> keys_ok db \<and> links_ok db \<and> plans_ok db \<and>
     (\<forall>s. (s \<noteq> sid \<longrightarrow> length (surfaces_of s db) \<le> 16) \<and>
        length (goal_artifacts s db) \<le> MAX_GOAL_ARTIFACTS_PER_SESSION)"

lemma of_tables_capless: "of_tables (capless sid)"
  by (simp add: of_tables_def capless_def db_ok_defs)

lemma session_db_ok_capless: "session_db_ok db \<Longrightarrow> capless sid db"
  by (simp add: session_db_ok_def capless_def caps_ok_def)

lemma keeps_upsert_surface: "keeps (capless (fr_session_id f)) (upsert_surface f)"
  unfolding upsert_surface_def
proof (rule keeps_checked_change [OF of_tables_capless])
  let ?k = "surface_key (fr_session_id f) (fr_surface_id f)"
  let ?g = "\<lambda>old. old\<lparr>fr_execution_id := fr_execution_id f, fr_surface_json := fr_surface_json f,
           fr_updated_at := fr_updated_at f\<rparr>"
  fix db assume ok: "capless (fr_session_id f) db" and c: "fr_execution_id f \<in> set (execution_ids db) \<and>
       (list_ex ?k (surfaces_t db) \<or> fr_session_id f \<in> set (session_ids db))"
  have pk: "map surface_pk (sql_update ?k ?g (surfaces_t db)) = map surface_pk (surfaces_t db)"
    by (auto simp: sql_update_def surface_pk_def)
  have len: "length (filter (\<lambda>x. fr_session_id x = s) (sql_update ?k ?g fs)) = length (filter (\<lambda>x. fr_session_id x = s) fs)" for s fs
    by (induction fs) auto
  have upd: "capless (fr_session_id f) (db\<lparr>surfaces_t := sql_update ?k ?g (surfaces_t db)\<rparr>)"
    using ok c pk len by (auto simp: capless_def db_ok_defs dest!: in_set_sql_update)
  have new: "surface_pk f \<notin> set (map surface_pk (surfaces_t db))" if "\<not> list_ex ?k (surfaces_t db)"
    using that by (auto simp: list_ex_iff surface_key_def surface_pk_def)
  then have "capless (fr_session_id f) (db\<lparr>surfaces_t := surfaces_t db @ [f]\<rparr>)"
    if "\<not> list_ex ?k (surfaces_t db)"
    using ok c that by (auto simp: capless_def db_ok_defs)
  with upd show "capless (fr_session_id f) (if list_ex ?k (surfaces_t db)
       then db\<lparr>surfaces_t := sql_update ?k ?g (surfaces_t db)\<rparr>
       else db\<lparr>surfaces_t := surfaces_t db @ [f]\<rparr>)"
    by simp
qed

lemma filter_sql_delete:
  "filter P (sql_delete (\<lambda>f. P f \<and> \<not> Q f) xs) = filter Q (filter P xs)"
  by (induction xs) (auto simp: sql_delete_def)

lemma keeps_expire_surfaces: "keeps (capless sid) (expire_surfaces sid)"
  unfolding expire_surfaces_def
  by (rule keeps_change [OF of_tables_capless]) (auto simp: capless_def db_ok_defs delete_simps)

lemma surfaces_after_expire:
  assumes "expire_surfaces sid db = (Inr n, t)"
  shows "surfaces_of sid t = filter (\<lambda>f. fr_surface_id f \<in> set (newest_surfaces sid db)) (surfaces_of sid db)"
proof -
  from change_InrD [OF assms [unfolded expire_surfaces_def]] obtain bs where
    "t = db\<lparr>script := bs, surfaces_t := sql_delete
       (\<lambda>f. fr_session_id f = sid \<and> fr_surface_id f \<notin> set (newest_surfaces sid db)) (surfaces_t db)\<rparr>"
    by (auto simp: newest_surfaces_def surfaces_of_def)
  then show ?thesis by (simp add: surfaces_of_def filter_sql_delete)
qed

lemma expire_surfaces_caps:
  assumes ok: "capless sid db" and e: "expire_surfaces sid db = (Inr n, t)"
  shows "session_db_ok t"
proof -
  let ?kept = "filter (\<lambda>f. fr_surface_id f \<in> set (newest_surfaces sid db)) (surfaces_of sid db)"
  have "distinct (map fr_surface_id (surfaces_of sid db))"
    using ok by (intro distinct_surfaces_of) (simp add: capless_def)
  then have "distinct (map fr_surface_id ?kept)" by (rule distinct_map_filter)
  then have "length ?kept = card (set (map fr_surface_id ?kept))"
    by (metis distinct_card length_map)
  also have "\<dots> \<le> card (set (newest_surfaces sid db))" by (intro card_mono) auto
  also have "\<dots> \<le> 16" using card_length [of "newest_surfaces sid db"] by simp
  finally have here: "length (surfaces_of sid t) \<le> 16" by (simp only: surfaces_after_expire [OF e])
  have t: "capless sid t" using keepsE [OF keeps_expire_surfaces ok e] .
  have "length (surfaces_of s t) \<le> 16" for s
    using here t by (cases "s = sid") (simp_all add: capless_def)
  with t show ?thesis by (simp add: session_db_ok_def capless_def caps_ok_def)
qed

lemma keeps_transaction_commit:
  assumes I: "of_tables I"
    and f: "\<And>db x t. I db \<Longrightarrow> f db = (Inr (True, x), t) \<Longrightarrow> I t"
  shows "keeps I (transaction f)"
  unfolding transaction_def
proof (rule keeps_statement [OF I], rule keepsI)
  fix db assume db: "I db"
  obtain r t where ft: "f db = (r, t)" by (cases "f db")
  obtain r' u where u: "statement (ret ()) t = (r', u)" by (cases "statement (ret ()) t")
  have "keeps I (statement (ret ()))" by (rule keeps_statement [OF I keeps_ret])
  with u have "I u" if "I t" using that by (metis keepsE)
  with f db ft u I show "I (snd (case f db of (Inl e, t) \<Rightarrow> (Inl e, undo db t)
     | (Inr (commit, x), t) \<Rightarrow>
         (case statement (ret ()) t of (Inl e, u) \<Rightarrow> (Inl e, undo db u)
          | (Inr _, u) \<Rightarrow> (Inr x, if commit then u else undo db u))))"
    by (auto split: sum.split)
qed

lemma keeps_save_surface [db_keeps]: "keeps session_db_ok (repo_save_session_surface E sid xid fid js)"
  unfolding repo_save_session_surface_def
proof (intro keeps_stmts(1) keeps_transaction_commit [OF of_tables_ok])
  fix db x t
  assume ok: "session_db_ok db" and run: "bnd (utc_now E) (\<lambda>now.
     bnd (upsert_surface \<lparr>fr_session_id = sid, fr_surface_id = fid, fr_execution_id = xid,
       fr_surface_json = js, fr_created_at = now, fr_updated_at = now\<rparr>) (\<lambda>_.
     bnd (expire_surfaces sid) (\<lambda>_. ret (True, ())))) db = (Inr (True, x), t)"
  let ?f = "\<lambda>now. \<lparr>fr_session_id = sid, fr_surface_id = fid, fr_execution_id = xid,
       fr_surface_json = js, fr_created_at = now, fr_updated_at = now\<rparr>"
  from run obtain now d1 n d2 m where 1: "utc_now E db = (Inr now, d1)"
    and 2: "upsert_surface (?f now) d1 = (Inr n, d2)" and 3: "expire_surfaces sid d2 = (Inr m, t)"
    by (elim bnd_eq_InrE) (auto simp: op_simps)
  from 1 ok have "session_db_ok d1" by (auto simp: utc_now_def)
  then have "capless sid d1" by (rule session_db_ok_capless)
  then have "capless sid d2" using keepsE [OF keeps_upsert_surface [of "?f now"] _ 2] by simp
  then show "session_db_ok t" using expire_surfaces_caps 3 by blast
qed

lemma keeps_surface_deletes [db_keeps]:
  "keeps session_db_ok (repo_delete_session_surface sid fid)"
  "keeps session_db_ok repo_clear_session_surfaces"
  unfolding repo_delete_session_surface_def repo_clear_session_surfaces_def
  by (intro keeps_intros keeps_stmts ok_delete_surfaces; simp)
    (intro keeps_stmts; auto simp: session_db_ok_def db_ok_defs)

section \<open>Deletions\<close>

lemma keeps_sum_ops: "(\<And>f. f \<in> set fs \<Longrightarrow> keeps I f) \<Longrightarrow> keeps I (sum_ops fs n)"
  by (induction fs arbitrary: n) (auto intro!: keeps_intros)

lemma keeps_delete_statements:
  "keeps session_db_ok (delete_messages ids)"
  "keeps session_db_ok (delete_executions ids)"
  "keeps session_db_ok (delete_artifacts ids)"
  "keeps session_db_ok (delete_distillation ids)"
  "keeps session_db_ok (delete_outbox ids)"
  "keeps session_db_ok (delete_recall ids)"
  "keeps session_db_ok (delete_surfaces ids)"
  "keeps session_db_ok (delete_logs p)"
  "keeps session_db_ok (delete_sessions ids)"
  unfolding delete_messages_def delete_executions_def delete_artifacts_def delete_distillation_def
    delete_outbox_def delete_recall_def delete_surfaces_def delete_logs_def delete_sessions_def
  by (intro keeps_stmts ok_delete_messages ok_drop_executions ok_delete_artifacts ok_other_tables
      ok_delete_surfaces ok_drop_sessions; assumption)+

lemma keeps_deletes [db_keeps]:
  "keeps session_db_ok (repo_delete_session i)"
  "keeps session_db_ok (repo_delete_session_cascade i)"
  "keeps session_db_ok (repo_delete_session_recursive_cascade i)"
  "keeps session_db_ok (repo_delete_old_sessions t)"
  unfolding repo_delete_session_def repo_delete_session_cascade_def
    repo_delete_session_recursive_cascade_def repo_delete_old_sessions_def
  by (intro keeps_intros keeps_stmts ok_drop_sessions keeps_sum_ops;
      auto simp: keeps_delete_statements)+

section \<open>The service\<close>

lemma keeps_case_prod: "(\<And>a b. keeps I (f a b)) \<Longrightarrow> keeps I (case p of (a, b) \<Rightarrow> f a b)"
  by (cases p) simp

lemma keeps_creation [db_keeps]:
  "keeps session_db_ok (create_session E a)"
  "keeps session_db_ok (create_session_with_source E a src)"
  "keeps session_db_ok (create_session_queued E a src)"
  "keeps session_db_ok (create_delegated_execution E sid a par d task)"
  "keeps session_db_ok (create_delegated_execution_with_id E i sid a par d task)"
  unfolding create_session_def create_session_with_source_def create_session_queued_def
    create_delegated_execution_def create_delegated_execution_with_id_def Let_def
  by (intro keeps_intros keeps_stmts db_keeps)+

lemma keeps_require_session [db_keeps]: "keeps session_db_ok (require_session E i)"
  unfolding require_session_def by (intro keeps_intros db_keeps)

lemma keeps_mark_one [db_keeps]: "keeps session_db_ok (mark_one E st x)"
  unfolding mark_one_def by (intro keeps_intros db_keeps)

lemma keeps_cancel_one [db_keeps]: "keeps session_db_ok (cancel_one E x)"
  unfolding cancel_one_def by (intro keeps_intros db_keeps)

lemma keeps_has_running [db_keeps]: "keeps session_db_ok (has_running_executions E i)"
  unfolding has_running_executions_def by (intro keeps_intros db_keeps)

lemma keeps_complete_session [db_keeps]: "keeps session_db_ok (complete_session E i)"
  unfolding complete_session_def by (intro keeps_intros db_keeps)

lemma keeps_lifecycle [db_keeps]:
  "keeps session_db_ok (start_session E i)"
  "keeps session_db_ok (pause_session E i)"
  "keeps session_db_ok (resume_session E i)"
  "keeps session_db_ok (cancel_session E i)"
  "keeps session_db_ok (crash_session E i)"
  "keeps session_db_ok (reactivate_session E i)"
  "keeps session_db_ok (try_complete_session E i)"
  "keeps session_db_ok (reactivate_execution E i)"
  "keeps session_db_ok (start_execution E i)"
  "keeps session_db_ok (complete_execution E i)"
  "keeps session_db_ok (crash_execution E i e)"
  unfolding start_session_def pause_session_def resume_session_def cancel_session_def
    crash_session_def reactivate_session_def try_complete_session_def reactivate_execution_def
    start_execution_def complete_execution_def crash_execution_def Let_def
  by (intro keeps_intros keeps_stmts db_keeps)+

lemma keeps_delegations [db_keeps]:
  "keeps session_db_ok (register_delegation i)"
  "keeps session_db_ok (complete_delegation E i)"
  "keeps session_db_ok (request_continuation i)"
  "keeps session_db_ok (clear_continuation i)"
  unfolding register_delegation_def complete_delegation_def request_continuation_def clear_continuation_def
  by (intro keeps_intros db_keeps)+

lemma keeps_shutdown_step [db_keeps]:
  "keeps session_db_ok (pause_for_shutdown E s)"
  "keeps session_db_ok (crash_at_startup E s)"
  unfolding pause_for_shutdown_def crash_at_startup_def by (intro keeps_intros db_keeps)+

lemma keeps_recovery [db_keeps]:
  "keeps session_db_ok (mark_running_as_paused E)"
  "keeps session_db_ok (mark_running_as_crashed E)"
  unfolding mark_running_as_paused_def mark_running_as_crashed_def by (intro keeps_intros db_keeps)+

section \<open>Histories\<close>

datatype create_call =
  NewSession string
| NewSessionWithSource string trigger_source
| SessionFrom session
| NewSessionQueued string trigger_source

datatype lifecycle_call = Start | Pause | Resume | Cancel | Complete | Crash | Reactivate | TryComplete

datatype recovery_call = PauseRunning | CrashRunning

datatype delete_call = DeleteOne string | DeleteCascade string | DeleteTree string | DeleteOld string

datatype session_call =
  SetMode string
| SetTitle string
| SetWard string
| ClaimWard string
| SetRouting "string option" "string option" "string list option"
| AggregateTokens
| RegisterDelegation
| CompleteDelegation
| RequestContinuation
| ClearContinuation

datatype execution_call =
  CreateExecution agent_execution
| CreateDelegated string string string delegation_type string
| CreateDelegatedWithId string string string string delegation_type string
| CancelExecution string
| StartExecution string
| CompleteExecution string
| CrashExecution string string
| ReactivateExecution string
| SetTokens string "64 word" "64 word"
| SaveCheckpoint string checkpoint
| SetChild string string

datatype content_call =
  SavePlan string string json "string option" "64 word"
| CompletePlan string string
| SaveSurface string string string string
| DeleteSurface string string
| ClearSurfaces
| CreateArtifact artifact
| AddMessage string string string "json option" "json option"

datatype st_cmd =
  Creating create_call
| Lifecycle lifecycle_call string
| Recovering recovery_call
| Deleting delete_call
| OnSession session_call string
| OnExecution execution_call
| OnContent content_call

primrec run_create :: "state_env \<Rightarrow> create_call \<Rightarrow> unit st_op" where
  "run_create E (NewSession a) = unit_op (create_session E a)"
| "run_create E (NewSessionWithSource a src) = unit_op (create_session_with_source E a src)"
| "run_create E (SessionFrom s) = repo_create_session E s"
| "run_create E (NewSessionQueued a src) = unit_op (create_session_queued E a src)"

primrec run_lifecycle :: "state_env \<Rightarrow> lifecycle_call \<Rightarrow> string \<Rightarrow> unit st_op" where
  "run_lifecycle E Start = (\<lambda>i. unit_op (start_session E i))"
| "run_lifecycle E Pause = pause_session E"
| "run_lifecycle E Resume = resume_session E"
| "run_lifecycle E Cancel = cancel_session E"
| "run_lifecycle E Complete = complete_session E"
| "run_lifecycle E Crash = crash_session E"
| "run_lifecycle E Reactivate = reactivate_session E"
| "run_lifecycle E TryComplete = (\<lambda>i. unit_op (try_complete_session E i))"

primrec run_recovery :: "state_env \<Rightarrow> recovery_call \<Rightarrow> unit st_op" where
  "run_recovery E PauseRunning = unit_op (mark_running_as_paused E)"
| "run_recovery E CrashRunning = unit_op (mark_running_as_crashed E)"

primrec run_delete :: "delete_call \<Rightarrow> unit st_op" where
  "run_delete (DeleteOne i) = unit_op (repo_delete_session i)"
| "run_delete (DeleteCascade i) = unit_op (repo_delete_session_cascade i)"
| "run_delete (DeleteTree i) = unit_op (repo_delete_session_recursive_cascade i)"
| "run_delete (DeleteOld t) = unit_op (repo_delete_old_sessions t)"

primrec run_on_session :: "state_env \<Rightarrow> string \<Rightarrow> session_call \<Rightarrow> unit st_op" where
  "run_on_session E i (SetMode mo) = repo_set_session_mode i mo"
| "run_on_session E i (SetTitle t) = repo_update_session_title i t"
| "run_on_session E i (SetWard w) = repo_update_session_ward i w"
| "run_on_session E i (ClaimWard w) = unit_op (repo_claim_session_ward_if_unset i w)"
| "run_on_session E i (SetRouting th co re) = repo_update_session_routing E i th co re"
| "run_on_session E i AggregateTokens = repo_update_session_tokens i"
| "run_on_session E i RegisterDelegation = register_delegation i"
| "run_on_session E i CompleteDelegation = unit_op (complete_delegation E i)"
| "run_on_session E i RequestContinuation = request_continuation i"
| "run_on_session E i ClearContinuation = clear_continuation i"

primrec run_on_execution :: "state_env \<Rightarrow> execution_call \<Rightarrow> unit st_op" where
  "run_on_execution E (CreateExecution x) = repo_create_execution E x"
| "run_on_execution E (CreateDelegated sid a par d t) = unit_op (create_delegated_execution E sid a par d t)"
| "run_on_execution E (CreateDelegatedWithId i sid a par d t) =
     unit_op (create_delegated_execution_with_id E i sid a par d t)"
| "run_on_execution E (CancelExecution i) = repo_cancel_execution E i"
| "run_on_execution E (StartExecution i) = start_execution E i"
| "run_on_execution E (CompleteExecution i) = complete_execution E i"
| "run_on_execution E (CrashExecution i e) = crash_execution E i e"
| "run_on_execution E (ReactivateExecution i) = reactivate_execution E i"
| "run_on_execution E (SetTokens i a b) = repo_update_execution_tokens i a b"
| "run_on_execution E (SaveCheckpoint i c) = repo_save_execution_checkpoint E i c"
| "run_on_execution E (SetChild i c) = repo_set_child_session_id i c"

primrec run_on_content :: "state_env \<Rightarrow> content_call \<Rightarrow> unit st_op" where
  "run_on_content E (SavePlan sid xid plan ex ev) = unit_op (repo_save_session_plan E sid xid plan ex ev)"
| "run_on_content E (CompletePlan sid xid) = unit_op (repo_complete_session_plan E sid xid)"
| "run_on_content E (SaveSurface sid xid fid js) = repo_save_session_surface E sid xid fid js"
| "run_on_content E (DeleteSurface sid fid) = unit_op (repo_delete_session_surface sid fid)"
| "run_on_content E ClearSurfaces = unit_op repo_clear_session_surfaces"
| "run_on_content E (CreateArtifact a) = repo_create_artifact a"
| "run_on_content E (AddMessage x r c tc tr) = unit_op (add_message E x r c tc tr)"

primrec run_cmd :: "state_env \<Rightarrow> st_cmd \<Rightarrow> unit st_op" where
  "run_cmd E (Creating c) = run_create E c"
| "run_cmd E (Lifecycle l i) = run_lifecycle E l i"
| "run_cmd E (Recovering r) = run_recovery E r"
| "run_cmd E (Deleting d) = run_delete d"
| "run_cmd E (OnSession c i) = run_on_session E i c"
| "run_cmd E (OnExecution c) = run_on_execution E c"
| "run_cmd E (OnContent c) = run_on_content E c"

text \<open>The calls of a history one after the other, whatever each of them returns.\<close>

fun run_history :: "state_env \<Rightarrow> st_cmd list \<Rightarrow> statedb \<Rightarrow> statedb" where
  "run_history E [] db = db"
| "run_history E (c # cs) db = run_history E cs (snd (run_cmd E c db))"

definition empty_db :: "bool list \<Rightarrow> statedb" where
  "empty_db failures = \<lparr>script = failures, ticks = 0, minted = 0, sessions_t = [], executions_t = [],
     counters_t = [], plans_t = [], surfaces_t = [], messages_t = [], logs_t = [], artifacts_t = [],
     distillation_t = [], outbox_t = [], recall_t = [], checkpoints_t = []\<rparr>"

lemma keeps_run_create [db_keeps]: "keeps session_db_ok (run_create E c)"
  by (cases c; simp; intro keeps_intros db_keeps)

lemma keeps_run_lifecycle [db_keeps]: "keeps session_db_ok (run_lifecycle E c i)"
  by (cases c; simp; intro keeps_intros db_keeps)

lemma keeps_run_recovery [db_keeps]: "keeps session_db_ok (run_recovery E c)"
  by (cases c; simp; intro keeps_intros db_keeps)

lemma keeps_run_delete [db_keeps]: "keeps session_db_ok (run_delete c)"
  by (cases c; simp; intro keeps_intros db_keeps)

lemma keeps_run_on_session [db_keeps]: "keeps session_db_ok (run_on_session E i c)"
  by (cases c; simp; intro keeps_intros db_keeps)

lemma keeps_run_on_execution [db_keeps]: "keeps session_db_ok (run_on_execution E c)"
  by (cases c; simp; intro keeps_intros db_keeps)

lemma keeps_run_on_content [db_keeps]: "keeps session_db_ok (run_on_content E c)"
  by (cases c; simp; intro keeps_intros db_keeps)

lemma keeps_cmd: "keeps session_db_ok (run_cmd E c)"
  by (cases c) (simp_all add: db_keeps)

lemma history_ok: "session_db_ok db \<Longrightarrow> session_db_ok (run_history E cs db)"
  by (induction cs arbitrary: db) (auto dest: keepsD [OF keeps_cmd])

lemma empty_db_ok: "session_db_ok (empty_db failures)"
  by (simp add: session_db_ok_def db_ok_defs empty_db_def)

text \<open>
  C10: whatever calls are made to the service, in any order, with any arguments, and whichever
  calls to the pool and the driver fail on the way, the database that was empty at the start has
  unique keys and no dangling reference, every stored status, source and delegation reads back
  without its fallback, no pending count is negative, no plan carries a sequence its session's
  counter has not issued, no session has more than 16 surfaces or 24 goal artifacts.
\<close>

theorem every_call_keeps_the_sessions_in_order:
  "session_db_ok (run_history E calls (empty_db failures))"
  by (rule history_ok [OF empty_db_ok])

end
