(* ===== verification/State_Lifecycle.thy ===== *)
theory State_Lifecycle
  imports State_History
begin

text \<open>
  The lifecycle a session follows, as a relation between its status before and after a call, and
  the refinement: every call to the service moves every session along it or leaves it where it
  is, also when statements of the call fail.
\<close>

section \<open>The abstract lifecycle\<close>

definition status_of :: "statedb \<Rightarrow> string \<Rightarrow> session_status option" where
  "status_of db j =
     map_option (\<lambda>r. case session_status_from_str (sr_status r) of None \<Rightarrow> SRunning | Some x \<Rightarrow> x)
       (find_session_row j db)"





section \<open>Operations that leave the statuses alone\<close>

abbreviation statuses :: "(string \<Rightarrow> session_status option) \<Rightarrow> statedb \<Rightarrow> bool" where
  "statuses F \<equiv> \<lambda>db. status_of db = F"

lemma of_tables_status: "of_tables (\<lambda>db. P (status_of db))"
  by (simp add: of_tables_def status_of_def [abs_def] find_session_row_def)

lemma status_of_other [simp]:
  "status_of (db\<lparr>executions_t := xs\<rparr>) = status_of db"
  "status_of (db\<lparr>counters_t := cs\<rparr>) = status_of db"
  "status_of (db\<lparr>plans_t := ps\<rparr>) = status_of db"
  "status_of (db\<lparr>surfaces_t := fs\<rparr>) = status_of db"
  "status_of (db\<lparr>messages_t := ms\<rparr>) = status_of db"
  "status_of (db\<lparr>logs_t := ls\<rparr>) = status_of db"
  "status_of (db\<lparr>artifacts_t := as\<rparr>) = status_of db"
  "status_of (db\<lparr>distillation_t := ds\<rparr>) = status_of db"
  "status_of (db\<lparr>outbox_t := os\<rparr>) = status_of db"
  "status_of (db\<lparr>recall_t := rs\<rparr>) = status_of db"
  "status_of (db\<lparr>checkpoints_t := cps\<rparr>) = status_of db"
  "status_of (db\<lparr>script := bs\<rparr>) = status_of db"
  "status_of (db\<lparr>ticks := k\<rparr>) = status_of db"
  "status_of (db\<lparr>minted := k\<rparr>) = status_of db"
  by (simp_all add: status_of_def [abs_def] find_session_row_def)

lemma status_of_drop_executions [simp]: "status_of (drop_executions gone db) = status_of db"
  by (simp add: drop_executions_def)

lemma status_of_update:
  assumes "\<And>r. sr_id (f r) = sr_id r \<and> sr_status (f r) = sr_status r"
  shows "status_of (update_sessions p f db) = status_of db"
proof
  fix j show "status_of (update_sessions p f db) j = status_of db j"
    using assms find_key_sql_update [of p sr_id f j "sessions_t db"]
    by (cases "find (\<lambda>r. sr_id r = j) (sessions_t db)")
      (auto simp: status_of_def find_session_row_def)
qed

named_theorems calm "operations that leave every status alone"

lemmas calm_stmts = keeps_connection [OF of_tables_status] keeps_select [OF of_tables_status]
  keeps_change [OF of_tables_status] keeps_checked_change [OF of_tables_status]
  keeps_transaction [OF of_tables_status] keeps_utc_now [OF of_tables_status]
  keeps_new_v4 [OF of_tables_status] keeps_statement [OF of_tables_status]


lemma calm_set_session:
  "(\<And>r. sr_id (f r) = sr_id r \<and> sr_status (f r) = sr_status r) \<Longrightarrow> keeps (statuses F) (set_session i f)"
  unfolding set_session_def by (intro calm_stmts) (simp add: status_of_update)

lemma calm_set_execution: "keeps (statuses F) (set_execution i f)"
  unfolding set_execution_def by (intro calm_stmts) simp

lemma calm_write_totals: "keeps (statuses F) (write_totals owner)"
  unfolding write_totals_def
  by (intro calm_stmts keepsI) (auto simp: Let_def status_of_update split: option.split)

lemma calm_session_columns [calm]:
  "keeps (statuses F) (repo_update_session_title i t)"
  "keeps (statuses F) (repo_update_session_ward i w)"
  "keeps (statuses F) (repo_update_session_routing E i th co re)"
  "keeps (statuses F) (repo_set_session_mode i mo)"
  "keeps (statuses F) (repo_increment_pending_delegations i)"
  "keeps (statuses F) (repo_decrement_pending_delegations i)"
  "keeps (statuses F) (repo_reset_delegation_tracking i)"
  "keeps (statuses F) (repo_set_continuation_needed i b)"
  "keeps (statuses F) (repo_update_session_tokens i)"
  unfolding repo_update_session_title_def repo_update_session_ward_def repo_update_session_routing_def
    repo_set_session_mode_def repo_increment_pending_delegations_def repo_reset_delegation_tracking_def
    repo_set_continuation_needed_def repo_update_session_tokens_def repo_decrement_pending_delegations_def
  by (intro keeps_intros calm_stmts calm_set_session calm_write_totals; simp)+

lemma calm_claim_ward [calm]: "keeps (statuses F) (repo_claim_session_ward_if_unset i w)"
  unfolding repo_claim_session_ward_if_unset_def
  by (intro keeps_intros calm_stmts) (simp add: status_of_update)

lemma calm_executions [calm]:
  "keeps (statuses F) (repo_create_execution E x)"
  "keeps (statuses F) (repo_update_execution_status E i st)"
  "keeps (statuses F) (repo_cancel_execution E i)"
  "keeps (statuses F) (repo_save_execution_checkpoint E i c)"
  "keeps (statuses F) (repo_set_execution_error i e)"
  "keeps (statuses F) (repo_set_child_session_id i ch)"
  unfolding repo_create_execution_def repo_update_execution_status_def repo_cancel_execution_def
    repo_save_execution_checkpoint_def repo_set_execution_error_def repo_set_child_session_id_def
  by (intro keeps_intros calm_stmts calm_set_execution; simp)+

lemma calm_execution_tokens [calm]: "keeps (statuses F) (repo_update_execution_tokens i a b)"
  unfolding repo_update_execution_tokens_def
  by (intro keeps_intros calm_stmts calm_set_execution
      keeps_of_state [where m = write_totals, OF calm_write_totals])

lemma calm_reads [calm]:
  "keeps (statuses F) (repo_get_session E i)"
  "keeps (statuses F) (repo_list_sessions E f)"
  "keeps (statuses F) (repo_get_execution E i)"
  unfolding repo_get_session_def repo_list_sessions_def repo_get_execution_def
  by (intro calm_stmts)+

lemma calm_list_executions [calm]: "keeps (statuses F) (repo_list_executions E f)"
  unfolding repo_list_executions_def
  by (intro calm_stmts keeps_reading) (auto simp: Let_def split: option.splits)

lemma calm_artifact [calm]: "keeps (statuses F) (repo_create_artifact a)"
  unfolding repo_create_artifact_def by (intro keeps_intros calm_stmts keepsI) auto

lemma calm_message [calm]: "keeps (statuses F) (add_message E x r c tc tr)"
  unfolding add_message_def by (intro keeps_intros calm_stmts) simp

lemma calm_next_sequence [calm]: "keeps (statuses F) (next_plan_sequence sid)"
  unfolding next_plan_sequence_def by (intro keeps_intros calm_stmts) simp_all

lemma calm_upsert_plan [calm]: "keeps (statuses F) (upsert_plan p)"
  unfolding upsert_plan_def by (intro calm_stmts keepsI) (auto split: option.split)

lemma calm_plans [calm]:
  "keeps (statuses F) (repo_save_session_plan E sid xid plan ex ev)"
  "keeps (statuses F) (repo_complete_session_plan E sid xid)"
proof -
  have tick: "keeps (statuses F) (\<lambda>db. (Inr (now_millis E (ticks db)) :: state_error + int, db\<lparr>ticks := Suc (ticks db)\<rparr>))"
    by (simp add: keeps_def)
  have store: "keeps (statuses F) (store_completed_plan E sid xid steps stamp n now)" for steps stamp n now
    unfolding store_completed_plan_def by (intro calm_stmts) simp
  show "keeps (statuses F) (repo_save_session_plan E sid xid plan ex ev)"
    unfolding repo_save_session_plan_def by (intro keeps_intros calm_stmts calm)
  show "keeps (statuses F) (repo_complete_session_plan E sid xid)"
    unfolding repo_complete_session_plan_def by (intro keeps_intros calm_stmts calm tick store)
qed

lemma calm_surfaces [calm]:
  "keeps (statuses F) (repo_save_session_surface E sid xid fid js)"
  "keeps (statuses F) (repo_delete_session_surface sid fid)"
  "keeps (statuses F) repo_clear_session_surfaces"
  unfolding repo_save_session_surface_def upsert_surface_def expire_surfaces_def
    repo_delete_session_surface_def repo_clear_session_surfaces_def
  by (intro keeps_intros calm_stmts; simp)+




section \<open>Creation and deletion\<close>







section \<open>Moves\<close>

text \<open>The statuses after a move of the session \<open>i\<close>, or none.\<close>

definition reach :: "(session_status \<Rightarrow> session_status \<Rightarrow> bool) \<Rightarrow> string \<Rightarrow>
    (string \<Rightarrow> session_status option) \<Rightarrow> (string \<Rightarrow> session_status option) \<Rightarrow> bool" where
  "reach R i F G \<longleftrightarrow> G = F \<or> (\<exists>s t. F i = Some s \<and> R s t \<and> G = F(i \<mapsto> t))"

lemma reach_refl [simp]: "reach R i F F"
  by (simp add: reach_def)






lemma snd_unit_op [simp]: "snd (unit_op m s) = snd (m s)"
  by (simp add: unit_op_def bnd_def ret_apply split: prod.split sum.split)


lemma calm_mark_one [calm]: "keeps (statuses F) (mark_one E st x)"
  unfolding mark_one_def by (intro keeps_intros calm)

lemma calm_cancel_one [calm]: "keeps (statuses F) (cancel_one E x)"
  unfolding cancel_one_def by (intro keeps_intros calm)

lemma calm_has_running [calm]: "keeps (statuses F) (has_running_executions E i)"
  unfolding has_running_executions_def by (intro keeps_intros calm)




section \<open>Shutdown and recovery\<close>







section \<open>The refinement\<close>



end
