(* ===== verification/Sample_Json.thy ===== *)
theory Sample_Json
  imports Samples
begin

text \<open>
  A printer of JSON values and its parser, the concrete codec at which the theorems that rely on
  the JSON crate's round trip are applied: every value is a tag followed by its parts, every
  string has a dot before each byte and ends with a semicolon.
\<close>

fun print_text :: "string \<Rightarrow> string" where
  "print_text [] = '';''"
| "print_text (c # s) = CHR ''.'' # c # print_text s"

fun parse_text :: "string \<Rightarrow> (string \<times> string) option" where
  "parse_text (a # b # r) =
     (if a = CHR '';'' then Some ([], b # r)
      else if a = CHR ''.'' then map_option (\<lambda>(s, q). (b # s, q)) (parse_text r)
      else None)"
| "parse_text [a] = (if a = CHR '';'' then Some ([], []) else None)"
| "parse_text [] = None"

lemma parse_print_text [simp]: "parse_text (print_text s @ r) = Some (s, r)"
proof (induction s)
  case Nil
  then show ?case by (cases r) simp_all
qed simp

fun print_json :: "json \<Rightarrow> string" where
  "print_json JNull = ''n''"
| "print_json (JBool b) = (if b then ''t'' else ''f'')"
| "print_json (JNumber s) = CHR ''#'' # print_text s"
| "print_json (JString s) = CHR ''$'' # print_text s"
| "print_json (JArray vs) = CHR ''['' # concat (map (\<lambda>v. CHR '','' # print_json v) vs) @ '']''"
| "print_json (JObject kvs) =
     CHR ''{'' # concat (map (\<lambda>(k, v). CHR '','' # print_text k @ print_json v) kvs) @ ''}''"

fun parse_json :: "nat \<Rightarrow> string \<Rightarrow> (json \<times> string) option"
and parse_values :: "nat \<Rightarrow> string \<Rightarrow> (json list \<times> string) option"
and parse_members :: "nat \<Rightarrow> string \<Rightarrow> ((string \<times> json) list \<times> string) option" where
  "parse_json (Suc n) (c # r) =
     (if c = CHR ''n'' then Some (JNull, r)
      else if c = CHR ''t'' then Some (JBool True, r)
      else if c = CHR ''f'' then Some (JBool False, r)
      else if c = CHR ''#'' then map_option (\<lambda>(s, q). (JNumber s, q)) (parse_text r)
      else if c = CHR ''$'' then map_option (\<lambda>(s, q). (JString s, q)) (parse_text r)
      else if c = CHR ''['' then map_option (\<lambda>(vs, q). (JArray vs, q)) (parse_values n r)
      else if c = CHR ''{'' then map_option (\<lambda>(kvs, q). (JObject kvs, q)) (parse_members n r)
      else None)"
| "parse_json _ _ = None"
| "parse_values (Suc n) (c # r) =
     (if c = CHR '']'' then Some ([], r)
      else if c = CHR '','' then
        (case parse_json n r of
           None \<Rightarrow> None
         | Some (v, q) \<Rightarrow> map_option (\<lambda>(vs, p). (v # vs, p)) (parse_values n q))
      else None)"
| "parse_values _ _ = None"
| "parse_members (Suc n) (c # r) =
     (if c = CHR ''}'' then Some ([], r)
      else if c = CHR '','' then
        (case parse_text r of
           None \<Rightarrow> None
         | Some (k, q) \<Rightarrow>
             (case parse_json n q of
                None \<Rightarrow> None
              | Some (v, p) \<Rightarrow> map_option (\<lambda>(kvs, o'). ((k, v) # kvs, o')) (parse_members n p)))
      else None)"
| "parse_members _ _ = None"

lemma parse_values_print:
  assumes "\<And>v n r. v \<in> set vs \<Longrightarrow> length (print_json v) \<le> n \<Longrightarrow> parse_json n (print_json v @ r) = Some (v, r)"
  shows "length (concat (map (\<lambda>v. CHR '','' # print_json v) vs)) < n \<Longrightarrow>
    parse_values n (concat (map (\<lambda>v. CHR '','' # print_json v) vs) @ CHR '']'' # r) = Some (vs, r)"
  using assms
proof (induction vs arbitrary: n)
  case Nil
  then show ?case by (cases n) simp_all
next
  case (Cons v vs)
  then obtain m where m: "n = Suc m" by (cases n) simp_all
  with Cons.prems(1) have len: "length (print_json v) \<le> m"
    "length (concat (map (\<lambda>v. CHR '','' # print_json v) vs)) < m" by simp_all
  from Cons.prems(2) [of v m "concat (map (\<lambda>v. CHR '','' # print_json v) vs) @ CHR '']'' # r"] len(1)
  have "parse_json m (print_json v @ concat (map (\<lambda>v. CHR '','' # print_json v) vs) @ CHR '']'' # r) =
    Some (v, concat (map (\<lambda>v. CHR '','' # print_json v) vs) @ CHR '']'' # r)" by simp
  with Cons.IH [OF len(2)] Cons.prems(2) show ?case by (simp add: m)
qed

lemma parse_members_print:
  assumes "\<And>k v n r. (k, v) \<in> set kvs \<Longrightarrow> length (print_json v) \<le> n \<Longrightarrow>
    parse_json n (print_json v @ r) = Some (v, r)"
  shows "length (concat (map (\<lambda>(k, v). CHR '','' # print_text k @ print_json v) kvs)) < n \<Longrightarrow>
    parse_members n (concat (map (\<lambda>(k, v). CHR '','' # print_text k @ print_json v) kvs) @ CHR ''}'' # r) =
      Some (kvs, r)"
  using assms
proof (induction kvs arbitrary: n)
  case Nil
  then show ?case by (cases n) simp_all
next
  case (Cons kv kvs)
  obtain k v where kv: "kv = (k, v)" by (cases kv)
  let ?rest = "concat (map (\<lambda>(k, v). CHR '','' # print_text k @ print_json v) kvs) @ CHR ''}'' # r"
  from Cons.prems(1) obtain m where m: "n = Suc m" by (cases n) simp_all
  with Cons.prems(1) kv have len: "length (print_json v) \<le> m"
    "length (concat (map (\<lambda>(k, v). CHR '','' # print_text k @ print_json v) kvs)) < m" by simp_all
  from Cons.prems(2) [of k v m ?rest] len(1) kv
  have "parse_json m (print_json v @ ?rest) = Some (v, ?rest)" by simp
  moreover have "parse_members m ?rest = Some (kvs, r)"
    by (rule Cons.IH [OF len(2)]) (use Cons.prems(2) in auto)
  ultimately show ?case by (simp add: m kv)
qed

lemma parse_print_json: "length (print_json v) \<le> n \<Longrightarrow> parse_json n (print_json v @ r) = Some (v, r)"
proof (induction v arbitrary: n r)
  case JNull
  then obtain m where "n = Suc m" by (cases n) simp_all
  then show ?case by simp
next
  case (JBool b)
  then obtain m where "n = Suc m" by (cases n; cases b) simp_all
  then show ?case by simp
next
  case (JNumber s)
  then obtain m where "n = Suc m" by (cases n) simp_all
  then show ?case by simp
next
  case (JString s)
  then obtain m where "n = Suc m" by (cases n) simp_all
  then show ?case by simp
next
  case (JArray vs)
  then obtain m where "n = Suc m" by (cases n) simp_all
  with JArray parse_values_print [of vs m r] show ?case by simp
next
  case (JObject kvs)
  then obtain m where "n = Suc m" by (cases n) simp_all
  moreover have "parse_json j (print_json v @ q) = Some (v, q)"
    if "(k, v) \<in> set kvs" "length (print_json v) \<le> j" for k v j q
    using JObject.IH [of "(k, v)" v j q] that by simp
  ultimately show ?case using JObject.prems parse_members_print [of kvs m r] by simp
qed

definition json_sample :: codec where
  "json_sample = sample_codec\<lparr>json_to_string := print_json,
     json_from_str := (\<lambda>s. map_option fst (parse_json (length s) s))\<rparr>"

lemma json_sample_round: "json_from_str json_sample (json_to_string json_sample v) = Some v"
  using parse_print_json [of v "length (print_json v)" "[]"] by (simp add: json_sample_def)

end
