(* ===== verification/State_Samples.thy ===== *)
theory State_Samples
  imports State_History Sample_Json
begin

text \<open>
  A concrete environment and databases at which the theorems on the session store are applied.
\<close>

definition sample_env :: state_env where
  "sample_env =
     \<lparr>env_codec = json_sample, json_pieces = (\<lambda>v. [print_json v]),
      now_text = digits 2, now_millis = int, utc_date = (\<lambda>_. ''2026-08-04''),
      sql_date = (\<lambda>_. Some ''2026-08-04''), fresh_uuid = digits 4\<rparr>"

definition sample_session :: "string \<Rightarrow> string option \<Rightarrow> session_row" where
  "sample_session i parent =
     \<lparr>sr_id = i, sr_status = ''running'', sr_source = ''web'', sr_root_agent_id = ''root'',
      sr_title = None, sr_created_at = ''t0'', sr_started_at = None, sr_completed_at = None,
      sr_tokens_in = 0, sr_tokens_out = 0, sr_metadata = None, sr_pending = 0,
      sr_continuation = 1, sr_ward_id = None, sr_parent = parent, sr_thread_id = None,
      sr_connector_id = None, sr_respond_to = None, sr_mode = None\<rparr>"

definition sample_execution :: "string \<Rightarrow> string \<Rightarrow> execution_row" where
  "sample_execution x sid =
     \<lparr>xr_id = x, xr_session_id = sid, xr_agent_id = ''root'', xr_parent = None,
      xr_delegation = ''root'', xr_task = None, xr_status = ''running'', xr_started_at = None,
      xr_completed_at = None, xr_tokens_in = 5, xr_tokens_out = 7, xr_checkpoint = None,
      xr_error = None, xr_log_path = None, xr_child = None\<rparr>"

text \<open>Two sessions, the second the child of the first, with an execution each.\<close>

definition sample_db :: statedb where
  "sample_db = (empty_db [])\<lparr>
     sessions_t := [sample_session ''s'' None, sample_session ''c'' (Some ''s'')],
     executions_t := [sample_execution ''x'' ''s'', sample_execution ''y'' ''c'']\<rparr>"

lemma sample_db_tables [simp]:
  "script sample_db = []" "ticks sample_db = 0" "minted sample_db = 0"
  "sessions_t sample_db = [sample_session ''s'' None, sample_session ''c'' (Some ''s'')]"
  "executions_t sample_db = [sample_execution ''x'' ''s'', sample_execution ''y'' ''c'']"
  "counters_t sample_db = []" "plans_t sample_db = []" "surfaces_t sample_db = []"
  "messages_t sample_db = []" "logs_t sample_db = []" "artifacts_t sample_db = []"
  by (simp_all add: sample_db_def empty_db_def)

lemma sample_session_fields [simp]:
  "sr_id (sample_session i p) = i" "sr_status (sample_session i p) = ''running''"
  "sr_source (sample_session i p) = ''web''" "sr_parent (sample_session i p) = p"
  "sr_pending (sample_session i p) = 0" "sr_continuation (sample_session i p) = 1"
  "sr_ward_id (sample_session i p) = None" "sr_created_at (sample_session i p) = ''t0''"
  by (simp_all add: sample_session_def)

lemma sample_execution_fields [simp]:
  "xr_id (sample_execution x s) = x" "xr_session_id (sample_execution x s) = s"
  "xr_status (sample_execution x s) = ''running''" "xr_delegation (sample_execution x s) = ''root''"
  "xr_parent (sample_execution x s) = None" "xr_child (sample_execution x s) = None"
  "xr_tokens_in (sample_execution x s) = 5" "xr_tokens_out (sample_execution x s) = 7"
  by (simp_all add: sample_execution_def)

lemma sample_db_ok: "session_db_ok sample_db"
  using trigger_round [of Web] delegation_round [of RootAgent]
  by (auto simp: session_db_ok_def db_ok_defs session_row_ok_def execution_row_ok_def execution_links_def)

lemma sample_env_fields [simp]:
  "env_codec sample_env = json_sample" "json_pieces sample_env = (\<lambda>v. [print_json v])" "now_text sample_env = digits 2"
  "now_millis sample_env = int" "fresh_uuid sample_env = digits 4"
  by (simp_all add: sample_env_def)

lemma json_codec_sample [simp]: "json_codec json_sample"
  by (simp add: json_codec_def json_sample_round)

text \<open>Evaluation of an operation on a sample, where no call fails.\<close>

lemmas sample_run =
  connection_def statement_def transaction_def select_def change_def checked_change_def bnd_def
  ok_or_def ret_def throw_def utc_now_def new_v4_def sql_update_def sql_delete_def sql_changes_def
  session_ids_def execution_ids_def

end
