(* ===== verification/State_Books.thy ===== *)
theory State_Books
  imports State_Samples
begin

text \<open>
  The books a session keeps: what is left running when it settles, pending delegations and the
  continuation, token totals, and the ward that is claimed once.
\<close>

section \<open>Rows after an update\<close>

lemma find_set:
  assumes "\<And>r. sr_id (f r) = sr_id r"
  shows "find (\<lambda>r. sr_id r = j) (sql_update (\<lambda>r. sr_id r = i) f rows) =
    (if j = i then map_option f (find (\<lambda>r. sr_id r = j) rows) else find (\<lambda>r. sr_id r = j) rows)"
proof -
  have "find (\<lambda>r. sr_id r = j) (sql_update (\<lambda>r. sr_id r = i) f rows) =
    map_option (\<lambda>r. if sr_id r = i then f r else r) (find (\<lambda>r. sr_id r = j) rows)"
    using assms by (simp add: find_key_sql_update)
  then show ?thesis
    by (cases "find (\<lambda>r. sr_id r = j) rows") (auto dest: find_key_Some)
qed

lemma find_after_set:
  assumes "\<And>r. sr_id (f r) = sr_id r"
  shows "find_session_row j (update_sessions (\<lambda>r. sr_id r = i) f db) =
    (if j = i then map_option f (find_session_row j db) else find_session_row j db)"
  using assms by (simp add: find_session_row_def find_set)

lemma find_session_script [simp]:
  "find_session_row i (db\<lparr>script := bs\<rparr>) = find_session_row i db"
  "find_session_row i (db\<lparr>ticks := n\<rparr>) = find_session_row i db"
  by (simp_all add: find_session_row_def)

lemma session_in_table: "find_session_row i db = Some r \<Longrightarrow> r \<in> set (sessions_t db) \<and> sr_id r = i"
  unfolding find_session_row_def by (rule find_key_Some)

section \<open>Settled sessions\<close>

definition none_live :: "string \<Rightarrow> statedb \<Rightarrow> bool" where
  "none_live i db \<longleftrightarrow> (\<forall>x \<in> set (executions_t db). xr_session_id x = i \<longrightarrow> \<not> live_text (xr_status x))"

lemma update_session_status_settles:
  assumes "repo_update_session_status E i st db = (Inr u, t)" and "session_is_terminal st"
  shows "none_live i t \<and> (\<forall>r. find_session_row i t = Some r \<longrightarrow>
    sr_status r = session_status_as_str st \<and> sr_completed_at r \<noteq> None)"
proof -
  let ?f = "\<lambda>now r. r\<lparr>sr_status := session_status_as_str st, sr_completed_at := Some now\<rparr>"
  let ?x = "if st = SCrashed then ''crashed'' else ''completed''"
  from assms(2) have "st \<noteq> SRunning" by auto
  then have eq: "repo_update_session_status E i st = bnd (utc_now E) (\<lambda>now.
      connection (bnd (set_session i (?f now)) (\<lambda>_. unit_op (cascade_executions i ?x now))))"
    using assms(2) by (simp add: repo_update_session_status_def)
  from assms(1) [unfolded eq] obtain now d1 where
    2: "connection (bnd (set_session i (?f now)) (\<lambda>_. unit_op (cascade_executions i ?x now))) d1 = (Inr u, t)"
    by (rule bnd_eq_InrE)
  then obtain bs where "bnd (set_session i (?f now)) (\<lambda>_. unit_op (cascade_executions i ?x now)) (d1\<lparr>script := bs\<rparr>) = (Inr u, t)"
    unfolding connection_def by (blast dest: statement_InrD)
  then obtain n d2 where
    3: "set_session i (?f now) (d1\<lparr>script := bs\<rparr>) = (Inr n, d2)"
    and 5: "unit_op (cascade_executions i ?x now) d2 = (Inr u, t)"
    by (rule bnd_eq_InrE)
  from 5 obtain m where 4: "cascade_executions i ?x now d2 = (Inr m, t)"
    unfolding unit_op_def by (elim bnd_eq_InrE) (simp add: ret_apply)
  from change_InrD [OF 3 [unfolded set_session_def]] have row:
    "find_session_row i d2 = map_option (?f now) (find_session_row i d1)"
    by (auto simp: find_session_row_def find_set)
  let ?p = "\<lambda>x. xr_session_id x = i \<and> live_text (xr_status x)"
  from change_InrD [OF 4 [unfolded cascade_executions_def]] obtain cs where
    t: "t = d2\<lparr>script := cs, executions_t := sql_update ?p
      (\<lambda>x. x\<lparr>xr_status := ?x, xr_completed_at := Some now\<rparr>) (executions_t d2)\<rparr>"
    by auto
  have "\<not> live_text (xr_status x)" if "x \<in> set (executions_t t)" "xr_session_id x = i" for x
  proof -
    from that(1) have "x \<in> set (sql_update ?p (\<lambda>x. x\<lparr>xr_status := ?x, xr_completed_at := Some now\<rparr>) (executions_t d2))"
      by (simp add: t)
    from in_set_sql_update [OF this] show ?thesis
    proof
      assume "x \<in> set (executions_t d2) \<and> \<not> ?p x"
      with that(2) show ?thesis by simp
    next
      assume "\<exists>q \<in> set (executions_t d2). ?p q \<and> x = q\<lparr>xr_status := ?x, xr_completed_at := Some now\<rparr>"
      then obtain q where "x = q\<lparr>xr_status := ?x, xr_completed_at := Some now\<rparr>" by blast
      then have "xr_status x = ?x" by simp
      then show ?thesis by (simp add: live_text_def)
    qed
  qed
  moreover have "find_session_row i t = map_option (?f now) (find_session_row i d1)"
    using row by (simp add: t find_session_row_def)
  ultimately show ?thesis by (auto simp: none_live_def)
qed

text \<open>
  When cancelling, crashing or completing a session returns, no execution of it is left
  running or queued, and its row, if it is there, is settled with the status of the call and the
  time it ended.
\<close>

theorem settling_leaves_nothing_running:
  assumes "run_lifecycle E l i db = (Inr u, t)" and "l \<in> {Cancel, Crash, Complete}"
  shows "none_live i t \<and> (\<forall>r. find_session_row i t = Some r \<longrightarrow>
    sr_status r = (if l = Complete then ''completed'' else ''crashed'') \<and> sr_completed_at r \<noteq> None)"
proof -
  from assms obtain db' where "repo_update_session_status E i (if l = Complete then SCompleted else SCrashed) db' = (Inr u, t)"
    by (auto simp: cancel_session_def crash_session_def complete_session_def throw_apply
        elim!: bnd_eq_InrE split: if_splits)
  from update_session_status_settles [OF this] show ?thesis by (simp split: if_splits)
qed

lemma settling_leaves_nothing_running_witness:
  "\<not> none_live ''s'' sample_db \<and>
   none_live ''s'' (snd (run_lifecycle sample_env Complete ''s'' sample_db))"
proof -
  have "fst (run_lifecycle sample_env Complete ''s'' sample_db) = Inr ()"
    by (simp add: complete_session_def repo_update_session_tokens_def write_totals_def connection_def
        statement_def bnd_def repo_update_session_status_def utc_now_def set_session_def change_def
        unit_op_def cascade_executions_def ret_def session_ids_def sql_sum_def i64_range_def)
  then obtain t where t: "run_lifecycle sample_env Complete ''s'' sample_db = (Inr (), t)"
    by (cases "run_lifecycle sample_env Complete ''s'' sample_db") simp
  from settling_leaves_nothing_running [OF t] have "none_live ''s'' t" by simp
  with t show ?thesis by (simp add: none_live_def live_text_def)
qed

section \<open>Delegations\<close>

definition books_of :: "string \<Rightarrow> statedb \<Rightarrow> (int \<times> int) option" where
  "books_of i db = map_option (\<lambda>r. (sr_pending r, sr_continuation r)) (find_session_row i db)"

lemma register_up:
  assumes "script db = []" and "books_of i db = Some (p, k)"
  shows "fst (register_delegation i db) = Inr () \<and> script (snd (register_delegation i db)) = [] \<and>
    books_of i (snd (register_delegation i db)) = Some (p + 1, k)"
proof -
  have "register_delegation i db =
      (Inr (), update_sessions (\<lambda>r. sr_id r = i) (\<lambda>r. r\<lparr>sr_pending := sr_pending r + 1\<rparr>) db)"
    using assms(1)
    by (simp add: register_delegation_def repo_increment_pending_delegations_def unit_op_def
        set_session_def bnd_def ret_apply op_simps)
  with assms show ?thesis
    by (auto simp: books_of_def find_after_set)
qed

lemma complete_up:
  assumes s: "script db = []" and b: "books_of i db = Some (p, k)" and p: "0 \<le> p" "p < 2 ^ 32"
  shows "fst (complete_delegation E i db) = Inr (p \<le> 1 \<and> k \<noteq> 0) \<and>
    script (snd (complete_delegation E i db)) = [] \<and>
    books_of i (snd (complete_delegation E i db)) = Some (max 0 (p - 1), k)"
proof -
  let ?d = "update_sessions (\<lambda>r. sr_id r = i) (\<lambda>r. r\<lparr>sr_pending := max 0 (sr_pending r - 1)\<rparr>) db"
  from b obtain r where r: "find_session_row i db = Some r" "sr_pending r = p" "sr_continuation r = k"
    by (auto simp: books_of_def)
  then have row: "find_session_row i ?d = Some (r\<lparr>sr_pending := max 0 (p - 1)\<rparr>)"
    by (simp add: find_after_set)
  have dec: "repo_decrement_pending_delegations i db = (Inr (i64_as_u32 (max 0 (p - 1))), ?d)"
    using s row by (simp add: repo_decrement_pending_delegations_def set_session_def bnd_def ret_apply op_simps)
  have small: "0 \<le> max 0 (p - 1)" "max 0 (p - 1) < 2 ^ 32" using p by auto
  then have "uint (i64_as_u32 (max 0 (p - 1))) = max 0 (p - 1)"
    by (simp add: i64_as_u32_def uint_word_of_int)
  moreover have "(i64_as_u32 (max 0 (p - 1)) = 0) = (uint (i64_as_u32 (max 0 (p - 1))) = 0)"
    by (simp add: uint_0_iff)
  ultimately have zero: "i64_as_u32 (max 0 (p - 1)) = 0 \<longleftrightarrow> p \<le> 1" by auto
  have get: "repo_get_session E i ?d = (Inr (Some (row_to_session (env_codec E) (r\<lparr>sr_pending := max 0 (p - 1)\<rparr>))), ?d)"
    using s row by (simp add: repo_get_session_def op_simps)
  show ?thesis
    using s row r zero get
    by (auto simp: complete_delegation_def bnd_def dec ret_apply op_simps books_of_def row_to_session_def)
qed

fun complete_times :: "state_env \<Rightarrow> string \<Rightarrow> nat \<Rightarrow> statedb \<Rightarrow> (state_error + bool) list" where
  "complete_times E i 0 db = []"
| "complete_times E i (Suc n) db =
     fst (complete_delegation E i db) # complete_times E i n (snd (complete_delegation E i db))"

fun register_times :: "string \<Rightarrow> nat \<Rightarrow> statedb \<Rightarrow> statedb" where
  "register_times i 0 db = db"
| "register_times i (Suc n) db = register_times i n (snd (register_delegation i db))"

lemma register_times_up:
  "script db = [] \<Longrightarrow> books_of i db = Some (p, k) \<Longrightarrow>
   script (register_times i n db) = [] \<and> books_of i (register_times i n db) = Some (p + int n, k)"
proof (induction n arbitrary: db p)
  case (Suc n)
  from register_up [OF Suc.prems] Suc.IH [of "snd (register_delegation i db)" "p + 1"]
  show ?case by simp
qed simp

lemma complete_times_up:
  "script db = [] \<Longrightarrow> books_of i db = Some (int n, k) \<Longrightarrow> 0 < n \<Longrightarrow> n < 2 ^ 32 \<Longrightarrow>
   complete_times E i n db = replicate (n - 1) (Inr False) @ [Inr (k \<noteq> 0)]"
proof (induction n arbitrary: db)
  case (Suc n)
  from complete_up [OF Suc.prems(1,2), of E] Suc.prems
  have 1: "fst (complete_delegation E i db) = Inr (n = 0 \<and> k \<noteq> 0)"
    "script (snd (complete_delegation E i db)) = []"
    "books_of i (snd (complete_delegation E i db)) = Some (int n, k)"
    by auto
  show ?case
  proof (cases n)
    case 0
    with 1 show ?thesis by simp
  next
    case (Suc m)
    with 1 Suc.IH [OF 1(2,3)] Suc.prems show ?thesis by simp
  qed
qed simp

text \<open>
  C15: when \<open>n\<close> delegations have been registered on a session with none pending, the first
  \<open>n - 1\<close> completions do not ask for a continuation and the last one does exactly when one was
  requested: the parent is continued once, and only after its last subagent.
\<close>

theorem last_delegation_continues_the_parent:
  assumes "script db = []" and "books_of i db = Some (0, k)" and "0 < n" and "n < 2 ^ 32"
  shows "complete_times E i n (register_times i n db) = replicate (n - 1) (Inr False) @ [Inr (k \<noteq> 0)]"
  using register_times_up [OF assms(1,2), of n] assms(3,4) by (intro complete_times_up) simp_all

lemma last_delegation_continues_the_parent_witness:
  "complete_times sample_env ''s'' 3 (register_times ''s'' 3 sample_db) = [Inr False, Inr False, Inr True]"
proof -
  have "complete_times sample_env ''s'' 3 (register_times ''s'' 3 sample_db) =
    replicate (3 - 1) (Inr False) @ [Inr ((1 :: int) \<noteq> 0)]"
    by (rule last_delegation_continues_the_parent) (simp_all add: books_of_def find_session_row_def)
  then show ?thesis by (simp add: numeral_2_eq_2)
qed

section \<open>Tokens\<close>

definition session_sums :: "string \<Rightarrow> statedb \<Rightarrow> int \<times> int" where
  "session_sums i db =
     (let xs = filter (\<lambda>x. xr_session_id x = i) (executions_t db)
      in (sum_list (map xr_tokens_in xs), sum_list (map xr_tokens_out xs)))"

lemma write_totals_InrD:
  assumes "write_totals (Some i) db = (Inr u, t)"
  shows "executions_t t = executions_t db \<and>
    (\<forall>r. find_session_row i db = Some r \<longrightarrow>
      find_session_row i t = Some (r\<lparr>sr_tokens_in := fst (session_sums i db), sr_tokens_out := snd (session_sums i db)\<rparr>))"
proof -
  let ?xs = "filter (\<lambda>x. xr_session_id x = i) (executions_t db)"
  from statement_InrD [OF assms [unfolded write_totals_def]] obtain bs where
    w: "(case Some i of None \<Rightarrow> (Inr (), db\<lparr>script := bs\<rparr>) | Some i \<Rightarrow>
         if i \<notin> set (session_ids (db\<lparr>script := bs\<rparr>)) then (Inr (), db\<lparr>script := bs\<rparr>) else
         let xs = filter (\<lambda>x. xr_session_id x = i) (executions_t (db\<lparr>script := bs\<rparr>)) in
         case (sql_sum (map xr_tokens_in xs), sql_sum (map xr_tokens_out xs)) of
           (Some a, Some b) \<Rightarrow>
             (Inr (), update_sessions (\<lambda>r. sr_id r = i) (\<lambda>r. r\<lparr>sr_tokens_in := a, sr_tokens_out := b\<rparr>) (db\<lparr>script := bs\<rparr>))
         | _ \<Rightarrow> (Inl (Database IntegerOverflow), db\<lparr>script := bs\<rparr>)) = (Inr u, t)"
    by blast
  show ?thesis
  proof (cases "i \<in> set (session_ids db)")
    case False
    then have "find_session_row i db = None"
      by (auto simp: find_session_row_def find_key_None session_ids_def)
    with w False show ?thesis by (auto simp: session_ids_def)
  next
    case True
    with w obtain a b where ab: "sql_sum (map xr_tokens_in ?xs) = Some a" "sql_sum (map xr_tokens_out ?xs) = Some b"
      and t: "t = update_sessions (\<lambda>r. sr_id r = i) (\<lambda>r. r\<lparr>sr_tokens_in := a, sr_tokens_out := b\<rparr>) (db\<lparr>script := bs\<rparr>)"
      by (auto simp: session_ids_def Let_def split: option.splits)
    then have "session_sums i db = (a, b)"
      using sql_sum_eq [OF ab(1)] sql_sum_eq [OF ab(2)] by (simp add: session_sums_def Let_def)
    with t show ?thesis by (auto simp: find_session_row_def find_set)
  qed
qed

lemma set_execution_InrD:
  "set_execution i f db = (Inr n, t) \<Longrightarrow>
   \<exists>bs. t = db\<lparr>script := bs, executions_t := sql_update (\<lambda>x. xr_id x = i) f (executions_t db)\<rparr>"
  unfolding set_execution_def by (drule change_InrD) auto

lemma find_execution_set:
  assumes "\<And>x. xr_id (f x) = xr_id x"
  shows "find (\<lambda>x. xr_id x = i) (sql_update (\<lambda>x. xr_id x = i) f xs) = map_option f (find (\<lambda>x. xr_id x = i) xs)"
proof -
  have "find (\<lambda>x. xr_id x = i) (sql_update (\<lambda>x. xr_id x = i) f xs) =
    map_option (\<lambda>x. if xr_id x = i then f x else x) (find (\<lambda>x. xr_id x = i) xs)"
    using assms by (simp add: find_key_sql_update)
  then show ?thesis by (cases "find (\<lambda>x. xr_id x = i) xs") (auto dest: find_key_Some)
qed

text \<open>
  When recording the tokens of an execution returns, the execution has them and the totals of
  its session are the sums over all its executions, in the same transaction.
\<close>

theorem recorded_tokens_add_up:
  assumes "repo_update_execution_tokens x a b db = (Inr u, t)"
    and "find_execution_row x db = Some e" and "find_session_row (xr_session_id e) db = Some r"
  shows "find_execution_row x t = Some (e\<lparr>xr_tokens_in := u64_as_i64 a, xr_tokens_out := u64_as_i64 b\<rparr>) \<and>
    (\<exists>r'. find_session_row (xr_session_id e) t = Some r' \<and>
      (sr_tokens_in r', sr_tokens_out r') = session_sums (xr_session_id e) t)"
proof -
  let ?f = "\<lambda>y. y\<lparr>xr_tokens_in := u64_as_i64 a, xr_tokens_out := u64_as_i64 b\<rparr>"
  let ?body = "bnd (set_execution x ?f) (\<lambda>_. bnd (\<lambda>db. write_totals (map_option xr_session_id (find_execution_row x db)) db) (\<lambda>_. ret (True, ())))"
  from assms(1) obtain bs where "transaction ?body (db\<lparr>script := bs\<rparr>) = (Inr u, t)"
    unfolding repo_update_execution_tokens_def connection_def by (blast dest: statement_InrD)
  from transaction_InrD [OF this] obtain cs ds commit v where
    run: "?body (db\<lparr>script := cs\<rparr>) = (Inr (commit, u), v)"
    and t: "t = (if commit then v\<lparr>script := ds\<rparr> else undo (db\<lparr>script := bs\<rparr>) (v\<lparr>script := ds\<rparr>))"
    by auto
  from run obtain n d1 where 1: "set_execution x ?f (db\<lparr>script := cs\<rparr>) = (Inr n, d1)"
    and rest: "bnd (\<lambda>db. write_totals (map_option xr_session_id (find_execution_row x db)) db) (\<lambda>_. ret (True, ())) d1 = (Inr (commit, u), v)"
    by (rule bnd_eq_InrE)
  from rest obtain w d2 where 2: "write_totals (map_option xr_session_id (find_execution_row x d1)) d1 = (Inr w, d2)"
    and last: "(ret (True, ()) :: (bool \<times> unit) st_op) d2 = (Inr (commit, u), v)" by (rule bnd_eq_InrE)
  from last have v: "v = d2" "commit" by (auto simp: ret_apply)
  from set_execution_InrD [OF 1] obtain es where
    d1: "d1 = db\<lparr>script := es, executions_t := sql_update (\<lambda>y. xr_id y = x) ?f (executions_t db)\<rparr>" by auto
  have e1: "find_execution_row x d1 = Some (?f e)"
    using assms(2) by (simp add: d1 find_execution_row_def find_execution_set)
  with 2 have w2: "write_totals (Some (xr_session_id e)) d1 = (Inr w, d2)" by simp
  have "find_session_row (xr_session_id e) d1 = Some r"
    using assms(3) by (simp add: d1 find_session_row_def)
  with write_totals_InrD [OF w2] have d2: "executions_t d2 = executions_t d1"
    "find_session_row (xr_session_id e) d2 =
      Some (r\<lparr>sr_tokens_in := fst (session_sums (xr_session_id e) d1), sr_tokens_out := snd (session_sums (xr_session_id e) d1)\<rparr>)"
    by blast+
  then have "session_sums (xr_session_id e) t = session_sums (xr_session_id e) d1"
    using t v by (simp add: session_sums_def)
  with d2 t v e1 show ?thesis by (simp add: find_session_row_def find_execution_row_def)
qed

lemma recorded_tokens_add_up_witness:
  "\<exists>t r. repo_update_execution_tokens ''x'' 11 13 sample_db = (Inr (), t) \<and>
     find_session_row ''s'' t = Some r \<and> sr_tokens_in r = 11 \<and> sr_tokens_out r = 13"
proof -
  have "fst (repo_update_execution_tokens ''x'' 11 13 sample_db) = Inr ()"
    by (simp add: repo_update_execution_tokens_def connection_def statement_def transaction_def bnd_def
        set_execution_def change_def write_totals_def find_execution_row_def session_ids_def sql_sum_def
        i64_range_def ret_def u64_as_i64_def)
  then obtain t where t: "repo_update_execution_tokens ''x'' 11 13 sample_db = (Inr (), t)"
    by (cases "repo_update_execution_tokens ''x'' 11 13 sample_db") simp
  have x: "find_execution_row ''x'' sample_db = Some (sample_execution ''x'' ''s'')"
    "find_session_row (xr_session_id (sample_execution ''x'' ''s'')) sample_db = Some (sample_session ''s'' None)"
    by (simp_all add: find_execution_row_def find_session_row_def)
  from recorded_tokens_add_up [OF t x] obtain r where
    r: "find_session_row ''s'' t = Some r" "(sr_tokens_in r, sr_tokens_out r) = session_sums ''s'' t" by auto
  have "executions_t t = executions_t (snd (repo_update_execution_tokens ''x'' 11 13 sample_db))" using t by simp
  also have "\<dots> = [(sample_execution ''x'' ''s'')\<lparr>xr_tokens_in := 11, xr_tokens_out := 13\<rparr>, sample_execution ''y'' ''c'']"
    by (simp add: repo_update_execution_tokens_def connection_def statement_def transaction_def bnd_def
        set_execution_def change_def write_totals_def find_execution_row_def session_ids_def sql_sum_def
        i64_range_def ret_def u64_as_i64_def)
  finally have "session_sums ''s'' t = (11, 13)" by (simp add: session_sums_def)
  with t r show ?thesis by auto
qed

section \<open>Wards\<close>

fun claim_wards :: "string \<Rightarrow> string list \<Rightarrow> statedb \<Rightarrow> (state_error + session_ward_claim) list" where
  "claim_wards i [] db = []"
| "claim_wards i (w # ws) db =
     fst (repo_claim_session_ward_if_unset i w db) # claim_wards i ws (snd (repo_claim_session_ward_if_unset i w db))"

definition ward_of :: "string \<Rightarrow> statedb \<Rightarrow> string option option" where
  "ward_of i db = map_option sr_ward_id (find_session_row i db)"

lemma claim_taken:
  assumes "script db = []" and "unique_key sr_id (sessions_t db)" and "ward_of i db = Some (Some w)"
  shows "repo_claim_session_ward_if_unset i v db = (Inr (ExistingWard w), db)"
proof -
  let ?p = "\<lambda>r. sr_id r = i \<and> sr_ward_id r = None"
  from assms(3) obtain r where r: "find_session_row i db = Some r" "sr_ward_id r = Some w"
    by (auto simp: ward_of_def)
  with assms(2) sql_changes_key [OF assms(2), of i "\<lambda>r. sr_ward_id r = None"]
  have "sql_changes ?p (sessions_t db) = 0" by (simp add: find_session_row_def)
  then have "sql_update ?p f (sessions_t db) = sessions_t db" for f
    by (intro sql_update_id) (auto simp: sql_changes_0_iff)
  with \<open>sql_changes ?p (sessions_t db) = 0\<close> r assms(1) show ?thesis
    by (simp add: repo_claim_session_ward_if_unset_def bnd_def op_simps)
qed

lemma claim_free:
  assumes s: "script db = []" and keys: "unique_key sr_id (sessions_t db)" and w: "ward_of i db = Some None"
  shows "\<exists>t. repo_claim_session_ward_if_unset i w db = (Inr (ClaimedWard w), t) \<and> script t = [] \<and>
    unique_key sr_id (sessions_t t) \<and> ward_of i t = Some (Some w)"
proof -
  let ?p = "\<lambda>r. sr_id r = i \<and> sr_ward_id r = None" and ?f = "\<lambda>r. r\<lparr>sr_ward_id := Some w\<rparr>"
  from w obtain r where r: "find_session_row i db = Some r" "sr_ward_id r = None"
    by (auto simp: ward_of_def)
  with sql_changes_key [OF keys, of i "\<lambda>r. sr_ward_id r = None"]
  have one: "sql_changes ?p (sessions_t db) = 1" by (simp add: find_session_row_def)
  let ?t = "update_sessions ?p ?f db"
  have "map sr_id (sessions_t ?t) = map sr_id (sessions_t db)" by (auto simp: sql_update_def)
  moreover have "find_session_row i ?t = map_option (\<lambda>r. if ?p r then ?f r else r) (find_session_row i db)"
    unfolding find_session_row_def using find_key_sql_update [of ?p sr_id ?f i "sessions_t db"] by simp
  ultimately show ?thesis using one s keys r session_in_table [OF r(1)]
    by (simp add: repo_claim_session_ward_if_unset_def bnd_def op_simps ret_apply ward_of_def)
qed

text \<open>
  Of any number of claims on a session without a ward the first one gets its ward and every
  later one is told that very ward, whatever it asked for.
\<close>

theorem first_claim_names_the_ward:
  assumes "script db = []" and "session_db_ok db" and "ward_of i db = Some None"
  shows "claim_wards i (w # ws) db = Inr (ClaimedWard w) # map (\<lambda>_. Inr (ExistingWard w)) ws"
proof -
  from assms(2) have "unique_key sr_id (sessions_t db)" by (simp add: session_db_ok_def keys_ok_def)
  with claim_free [of db i w] assms obtain t where
    t: "repo_claim_session_ward_if_unset i w db = (Inr (ClaimedWard w), t)" "script t = []"
      "unique_key sr_id (sessions_t t)" "ward_of i t = Some (Some w)" by auto
  then have "claim_wards i ws t = map (\<lambda>_. Inr (ExistingWard w)) ws"
    by (induction ws) (simp_all add: claim_taken)
  with t show ?thesis by simp
qed

lemma first_claim_names_the_ward_witness:
  "claim_wards ''s'' [''a'', ''b''] sample_db = [Inr (ClaimedWard ''a''), Inr (ExistingWard ''a'')]"
  using first_claim_names_the_ward [of sample_db "''s''" "''a''" "[''b'']"] sample_db_ok
  by (simp add: ward_of_def find_session_row_def)

end
