(* ===== verification/State_Recovery.thy ===== *)
theory State_Recovery
  imports State_Books
begin

text \<open>
  What the recovery at startup does to the sessions a previous run left running.
\<close>

section \<open>Crashing one session\<close>

text \<open>What marking executions does: some of them crash, nothing else changes.\<close>

definition some_crash :: "statedb \<Rightarrow> statedb \<Rightarrow> bool" where
  "some_crash db t \<longleftrightarrow> script t = [] \<and> sessions_t t = sessions_t db \<and>
     (\<forall>x \<in> set (executions_t t). \<exists>y \<in> set (executions_t db). xr_session_id x = xr_session_id y \<and>
       (xr_status x = xr_status y \<or> xr_status x = ''crashed''))"

lemma some_crash_refl: "script db = [] \<Longrightarrow> some_crash db db"
  by (auto simp: some_crash_def)

lemma some_crash_trans: "some_crash a b \<Longrightarrow> some_crash b c \<Longrightarrow> some_crash a c"
  unfolding some_crash_def by fastforce

lemma mark_one_crashes:
  assumes "script db = []"
  shows "\<exists>t. mark_one E XCrashed x db = (Inr (), t) \<and> some_crash db t"
proof (cases "execution_is_live x")
  case False
  with assms show ?thesis by (simp add: mark_one_def ret_apply some_crash_refl)
next
  case True
  let ?f = "\<lambda>y. y\<lparr>xr_status := ''crashed'', xr_completed_at := Some (now_text E (ticks db))\<rparr>"
  let ?t = "db\<lparr>ticks := Suc (ticks db), executions_t := sql_update (\<lambda>y. xr_id y = x_id x) ?f (executions_t db)\<rparr>"
  have "mark_one E XCrashed x db = (Inr (), ?t)"
    using assms True by (simp add: mark_one_def attempt_def repo_update_execution_status_def bnd_def op_simps
        unit_op_def set_execution_def ret_apply)
  moreover have "some_crash db ?t"
    using assms by (auto simp: some_crash_def sql_update_def)
  ultimately show ?thesis by blast
qed

lemma mark_all_crash:
  "script db = [] \<Longrightarrow> \<exists>t. for_each (mark_one E XCrashed) es db = (Inr (), t) \<and> some_crash db t"
proof (induction es arbitrary: db)
  case Nil
  then show ?case by (simp add: ret_apply some_crash_refl)
next
  case (Cons x es)
  from mark_one_crashes [OF Cons.prems] obtain d where d: "mark_one E XCrashed x db = (Inr (), d)" "some_crash db d"
    by blast
  then have "script d = []" by (simp add: some_crash_def)
  from Cons.IH [OF this] obtain t where "for_each (mark_one E XCrashed) es d = (Inr (), t)" "some_crash d t" by blast
  with d some_crash_trans show ?case by (auto simp: bnd_def)
qed

definition outline :: "session_row \<Rightarrow> string \<times> string option \<times> string" where
  "outline r = (sr_id r, sr_parent r, sr_status r)"

definition crash_outline :: "string set \<Rightarrow> string \<times> string option \<times> string \<Rightarrow> string \<times> string option \<times> string" where
  "crash_outline ids o' = (if fst o' \<in> ids then (fst o', fst (snd o'), ''crashed'') else o')"

lemma crash_outline_parent: "fst (snd (crash_outline ids o')) = fst (snd o')"
  by (simp add: crash_outline_def)

lemma some_crash_live: "some_crash db t \<Longrightarrow> none_live i db \<Longrightarrow> none_live i t"
  unfolding some_crash_def none_live_def by (fastforce simp: live_text_def)

lemma crash_at_startup_up:
  assumes "script db = []"
  shows "\<exists>t. crash_at_startup E s db = (Inr (), t) \<and> script t = [] \<and>
    map outline (sessions_t t) = map (crash_outline {s_id s}) (map outline (sessions_t db)) \<and>
    none_live (s_id s) t \<and> (\<forall>i. none_live i db \<longrightarrow> none_live i t)"
proof -
  obtain es where es: "repo_list_executions E (of_session (s_id s)) db = (Inr es, db)"
    using assms by (simp add: repo_list_executions_def of_session_def any_execution_def op_simps Let_def)
  from mark_all_crash [OF assms, of E es] obtain d where
    d: "for_each (mark_one E XCrashed) es db = (Inr (), d)" "some_crash db d" by blast
  then have sd: "script d = []" "sessions_t d = sessions_t db" by (simp_all add: some_crash_def)
  let ?now = "now_text E (ticks d)" and ?i = "s_id s"
  let ?t = "d\<lparr>ticks := Suc (ticks d),
    sessions_t := sql_update (\<lambda>r. sr_id r = ?i) (\<lambda>r. r\<lparr>sr_status := ''crashed'', sr_completed_at := Some ?now\<rparr>) (sessions_t d),
    executions_t := sql_update (\<lambda>x. xr_session_id x = ?i \<and> live_text (xr_status x))
      (\<lambda>x. x\<lparr>xr_status := ''crashed'', xr_completed_at := Some ?now\<rparr>) (executions_t d)\<rparr>"
  have upd: "repo_update_session_status E ?i SCrashed d = (Inr (), ?t)"
    using sd by (simp add: repo_update_session_status_def bnd_def op_simps set_session_def unit_op_def
        cascade_executions_def ret_apply)
  have "crash_at_startup E s db = (Inr (), ?t)"
    by (simp add: crash_at_startup_def bnd_def es d upd)
  moreover have "map outline (sessions_t ?t) = map (crash_outline {?i}) (map outline (sessions_t db))"
    by (auto simp: sd outline_def crash_outline_def sql_update_def)
  moreover have "none_live ?i ?t"
    using update_session_status_settles [OF upd] by simp
  moreover have "none_live i ?t" if "none_live i db" for i
  proof -
    have "none_live i d" by (rule some_crash_live [OF d(2) that])
    then show ?thesis by (auto simp: none_live_def sql_update_def live_text_def)
  qed
  ultimately show ?thesis using sd by (intro exI [of _ ?t]) auto
qed

lemma crash_all_up:
  "script db = [] \<Longrightarrow> \<exists>t. for_each (crash_at_startup E) ss db = (Inr (), t) \<and> script t = [] \<and>
    map outline (sessions_t t) = map (crash_outline (s_id ` set ss)) (map outline (sessions_t db)) \<and>
    (\<forall>s \<in> set ss. none_live (s_id s) t) \<and> (\<forall>i. none_live i db \<longrightarrow> none_live i t)"
proof (induction ss arbitrary: db)
  case Nil
  have "crash_outline {} = id" by (auto simp: crash_outline_def)
  with Nil show ?case by (simp add: ret_apply)
next
  case (Cons s ss)
  from crash_at_startup_up [OF Cons.prems, of E s] obtain d where
    d: "crash_at_startup E s db = (Inr (), d)" "script d = []"
      "map outline (sessions_t d) = map (crash_outline {s_id s}) (map outline (sessions_t db))"
      "none_live (s_id s) d" "\<forall>i. none_live i db \<longrightarrow> none_live i d" by blast
  from Cons.IH [OF d(2)] obtain t where
    t: "for_each (crash_at_startup E) ss d = (Inr (), t)" "script t = []"
      "map outline (sessions_t t) = map (crash_outline (s_id ` set ss)) (map outline (sessions_t d))"
      "\<forall>s \<in> set ss. none_live (s_id s) t" "\<forall>i. none_live i d \<longrightarrow> none_live i t" by blast
  have "crash_outline (s_id ` set ss) (crash_outline {s_id s} o') = crash_outline (s_id ` set (s # ss)) o'" for o'
    by (simp add: crash_outline_def)
  with d t show ?case by (auto simp: bnd_def)
qed

section \<open>Recovery at startup\<close>

definition running_root :: "session_row \<Rightarrow> bool" where
  "running_root r \<longleftrightarrow> sr_parent r = None \<and> sr_status r = ''running''"

definition running_roots :: "statedb \<Rightarrow> session_row list" where
  "running_roots db = filter running_root (sessions_t db)"

definition first_hundred :: "statedb \<Rightarrow> session_row list" where
  "first_hundred db = take 100 (order_desc sr_created_at (running_roots db))"

lemma list_running_up:
  "script db = [] \<Longrightarrow> repo_list_sessions E running_sessions db =
    (Inr (map (row_to_session (env_codec E)) (first_hundred db)), db)"
proof -
  have "session_matches running_sessions = running_root"
    by (auto simp: fun_eq_iff session_matches_def running_sessions_def any_session_def holds_def running_root_def)
  then show "script db = [] \<Longrightarrow> ?thesis"
    by (simp add: repo_list_sessions_def op_simps first_hundred_def running_roots_def limit_offset_def
        running_sessions_def any_session_def)
qed

lemma first_hundred_facts:
  assumes "unique_key sr_id (sessions_t db)"
  shows "length (first_hundred db) = min 100 (length (running_roots db))"
    and "length (filter (\<lambda>r. sr_id r \<in> sr_id ` set (first_hundred db)) (running_roots db)) = length (first_hundred db)"
proof -
  show "length (first_hundred db) = min 100 (length (running_roots db))"
    by (simp add: first_hundred_def min.commute)
  let ?F = "filter (\<lambda>r. sr_id r \<in> sr_id ` set (first_hundred db)) (running_roots db)"
  have sub: "set (first_hundred db) \<subseteq> set (running_roots db)" "set (running_roots db) \<subseteq> set (sessions_t db)"
    by (auto simp: first_hundred_def running_roots_def dest: in_set_takeD)
  have "r \<in> set (first_hundred db)" if "r \<in> set (running_roots db)" "sr_id r = sr_id q" "q \<in> set (first_hundred db)" for r q
    using that sub unique_key_eq [OF assms, of r q] by auto
  with sub have "set ?F = set (first_hundred db)" by auto
  moreover have "distinct (sessions_t db)" using assms by (simp add: distinct_map)
  then have "distinct ?F" "distinct (first_hundred db)"
    by (simp_all add: running_roots_def first_hundred_def)
  ultimately show "length ?F = length (first_hundred db)" by (metis distinct_card)
qed

lemma running_after_crash:
  assumes "map outline (sessions_t t) = map (crash_outline ids) (map outline (sessions_t db))"
  shows "map sr_id (running_roots t) = map sr_id (filter (\<lambda>r. sr_id r \<notin> ids) (running_roots db))"
proof -
  let ?run = "\<lambda>o'. fst (snd o') = None \<and> snd (snd o') = ''running''"
  have out: "map sr_id (running_roots d) = map fst (filter ?run (map outline (sessions_t d)))" for d
    by (simp add: running_roots_def running_root_def [abs_def] outline_def filter_map o_def)
  have "map fst (filter ?run (map (crash_outline ids) os)) = map fst (filter (\<lambda>o'. fst o' \<notin> ids) (filter ?run os))" for os
    by (induction os) (auto simp: crash_outline_def)
  then have "map sr_id (running_roots t) = map fst (filter (\<lambda>o'. fst o' \<notin> ids) (filter ?run (map outline (sessions_t db))))"
    unfolding out assms .
  also have "\<dots> = map sr_id (filter (\<lambda>r. sr_id r \<notin> ids) (running_roots db))"
    by (simp add: running_roots_def running_root_def [abs_def] outline_def filter_map o_def conj_ac)
  finally show ?thesis .
qed

text \<open>
  The recovery at startup returns and reports how many sessions it crashed: the root sessions
  that were running, but at most a hundred. The rest is still running, every crashed session is
  left with no live execution, and the status of a subagent's session never changes.
\<close>

theorem startup_crashes_at_most_a_hundred:
  assumes "script db = []" and "session_db_ok db"
  shows "\<exists>t. mark_running_as_crashed E db = (Inr (word_of_nat (min 100 (length (running_roots db)))), t) \<and>
    length (running_roots t) = length (running_roots db) - 100 \<and>
    list_all (\<lambda>r. sr_id r \<in> set (map sr_id (running_roots t)) \<or> none_live (sr_id r) t) (running_roots db) \<and>
    filter (\<lambda>o'. fst (snd o') \<noteq> None) (map outline (sessions_t t)) =
      filter (\<lambda>o'. fst (snd o') \<noteq> None) (map outline (sessions_t db))"
proof -
  from assms(2) have keys: "unique_key sr_id (sessions_t db)" by (simp add: session_db_ok_def keys_ok_def)
  let ?ss = "map (row_to_session (env_codec E)) (first_hundred db)"
  let ?ids = "sr_id ` set (first_hundred db)"
  have ids: "s_id ` set ?ss = ?ids" by (auto simp: row_to_session_def image_iff)
  from crash_all_up [OF assms(1), of E ?ss] ids obtain t where
    t: "for_each (crash_at_startup E) ?ss db = (Inr (), t)"
      "map outline (sessions_t t) = map (crash_outline ?ids) (map outline (sessions_t db))"
      "\<forall>s \<in> set ?ss. none_live (s_id s) t" by metis
  have run: "mark_running_as_crashed E db = (Inr (word_of_nat (min 100 (length (running_roots db)))), t)"
    by (simp add: mark_running_as_crashed_def bnd_def list_running_up assms(1) t(1) ret_apply first_hundred_facts [OF keys])
  note left = running_after_crash [OF t(2)]
  have "length (running_roots t) = length (filter (\<lambda>r. sr_id r \<notin> ?ids) (running_roots db))"
    using left by (metis length_map)
  also have "\<dots> = length (running_roots db) - 100"
    using sum_length_filter_compl [of "\<lambda>r. sr_id r \<in> ?ids" "running_roots db"] first_hundred_facts [OF keys] by simp
  finally have count: "length (running_roots t) = length (running_roots db) - 100" .
  have settled: "sr_id r \<in> set (map sr_id (running_roots t)) \<or> none_live (sr_id r) t" if "r \<in> set (running_roots db)" for r
  proof (cases "sr_id r \<in> ?ids")
    case True
    then obtain q where "q \<in> set (first_hundred db)" "sr_id r = sr_id q" by auto
    with t(3) show ?thesis by (auto simp: row_to_session_def)
  qed (use that in \<open>simp add: left\<close>)
  have kept: "fst (snd (outline r)) = None \<or> crash_outline ?ids (outline r) = outline r" if "r \<in> set (sessions_t db)" for r
  proof (cases "sr_id r \<in> ?ids")
    case True
    then obtain q where q: "q \<in> set (first_hundred db)" "sr_id r = sr_id q" by auto
    then have "q \<in> set (running_roots db)" by (auto simp: first_hundred_def dest: in_set_takeD)
    then have "q \<in> set (sessions_t db)" "sr_parent q = None" by (simp_all add: running_roots_def running_root_def)
    with unique_key_eq [OF keys that this(1) q(2)] show ?thesis by (simp add: outline_def)
  qed (simp add: crash_outline_def outline_def)
  have "filter (\<lambda>o'. fst (snd o') \<noteq> None) (map (crash_outline ?ids) (map outline rows)) =
      filter (\<lambda>o'. fst (snd o') \<noteq> None) (map outline rows)" if "set rows \<subseteq> set (sessions_t db)" for rows
    using that
  proof (induction rows)
    case (Cons a rows)
    then show ?case using kept [of a] by (cases "fst (snd (outline a))") (auto simp: crash_outline_parent)
  qed simp
  with run count settled t(2) show ?thesis by (auto simp: list_all_iff)
qed

lemma startup_crashes_at_most_a_hundred_witness:
  "\<exists>t. mark_running_as_crashed sample_env sample_db = (Inr 1, t) \<and> running_roots t = []"
  using startup_crashes_at_most_a_hundred [OF sample_db_tables(1) sample_db_ok, of sample_env]
  by (auto simp: running_roots_def [of sample_db] running_root_def)

end
