(* ===== verification/State_Reads.thy ===== *)
theory State_Reads
  imports State_Books
begin

text \<open>
  What is read back of a session that was created, and a listing that cannot answer.
\<close>

section \<open>Created sessions\<close>

lemma create_session_InrD:
  assumes "repo_create_session E s db = (Inr u, t)"
  shows "\<exists>bs. s_id s \<notin> set (session_ids db) \<and>
    t = db\<lparr>script := bs, sessions_t := sessions_t db @ [row_of_session (env_codec E) s]\<rparr>"
proof -
  from assms obtain bs n where "checked_change (\<lambda>db. s_id s \<notin> set (session_ids db)) (\<lambda>_. 1)
       (\<lambda>db. db\<lparr>sessions_t := sessions_t db @ [row_of_session (env_codec E) s]\<rparr>) (db\<lparr>script := bs\<rparr>) = (Inr n, t)"
    unfolding repo_create_session_def connection_def unit_op_def
    by (auto dest!: statement_InrD elim!: bnd_eq_InrE simp: ret_apply)
  from checked_change_InrD [OF this] show ?thesis by (auto simp: session_ids_def)
qed

lemma create_execution_InrD:
  assumes "repo_create_execution E x db = (Inr u, t)"
  shows "\<exists>bs. t = db\<lparr>script := bs, executions_t := executions_t db @ [row_of_execution (env_codec E) x]\<rparr>"
proof -
  from assms obtain bs n where "checked_change (execution_constraints x) (\<lambda>_. 1)
       (\<lambda>db. db\<lparr>executions_t := executions_t db @ [row_of_execution (env_codec E) x]\<rparr>) (db\<lparr>script := bs\<rparr>) = (Inr n, t)"
    unfolding repo_create_execution_def connection_def unit_op_def
    by (auto dest!: statement_InrD elim!: bnd_eq_InrE simp: ret_apply)
  from checked_change_InrD [OF this] show ?thesis by auto
qed

lemma find_none_of: "(\<And>r. r \<in> set rows \<Longrightarrow> \<not> P r) \<Longrightarrow> find P rows = None"
  by (simp add: find_None_iff)

text \<open>
  a session that was created is new, and it and its root execution read back exactly as they
  were returned.
\<close>

theorem created_session_reads_back:
  assumes "create_session_with_source E agent source db = (Inr (s, x), t)" and "session_db_ok db"
    and "json_codec (env_codec E)"
  shows "s_id s \<notin> set (session_ids db) \<and> s_status s = SRunning \<and> s_source s = source \<and> x_agent_id x = agent \<and>
    fst (repo_get_session E (s_id s) (t\<lparr>script := []\<rparr>)) = Inr (Some s) \<and>
    fst (repo_get_root_execution E (s_id s) (t\<lparr>script := []\<rparr>)) = Inr (Some x)"
proof -
  from assms(1) obtain u d1 now d2 v d3 w d4 where
    "new_v4 E db = (Inr u, d1)" "utc_now E d1 = (Inr now, d2)" "new_v4 E d2 = (Inr v, d3)"
    and 4: "repo_create_session E s d3 = (Inr w, d4)" and 5: "\<exists>q. repo_create_execution E x d4 = (Inr q, t)"
    and s: "s = session_new_with_source u now agent source" and x: "x = execution_new_root v (s_id s) agent"
    unfolding create_session_with_source_def Let_def
    by (auto elim!: bnd_eq_InrE simp: ret_apply)
  then have d3: "sessions_t d3 = sessions_t db" "executions_t d3 = executions_t db"
    by (auto simp: utc_now_def new_v4_def)
  from create_session_InrD [OF 4] d3 have
    d4: "s_id s \<notin> set (session_ids db)" "sessions_t d4 = sessions_t db @ [row_of_session (env_codec E) s]"
      "executions_t d4 = executions_t db"
    by (auto simp: session_ids_def)
  from 5 create_execution_InrD [of E x d4] d4 have
    t: "sessions_t t = sessions_t db @ [row_of_session (env_codec E) s]"
      "executions_t t = executions_t db @ [row_of_execution (env_codec E) x]" by auto
  have "find (\<lambda>r. sr_id r = s_id s) (sessions_t db) = None"
    using d4(1) by (simp add: find_key_None session_ids_def)
  then have row: "find (\<lambda>r. sr_id r = s_id s) (sessions_t t) = Some (row_of_session (env_codec E) s)"
    by (simp add: t find_append_split row_of_session_def)
  have "find (\<lambda>r. xr_session_id r = s_id s \<and> xr_delegation r = ''root'') (executions_t db) = None"
    using d4(1) assms(2)
    by (intro find_none_of) (auto simp: session_db_ok_def links_ok_def execution_links_def)
  then have xrow: "find (\<lambda>r. xr_session_id r = s_id s \<and> xr_delegation r = ''root'') (executions_t t) =
    Some (row_of_execution (env_codec E) x)"
    by (simp add: t find_append_split row_of_execution_def x execution_new_root_def)
  have "fst (repo_get_session E (s_id s) (t\<lparr>script := []\<rparr>)) = Inr (Some s)"
    using row assms(3) by (simp add: repo_get_session_def op_simps find_session_row_def codec_simps)
  moreover have "fst (repo_get_root_execution E (s_id s) (t\<lparr>script := []\<rparr>)) = Inr (Some x)"
    using xrow assms(3) by (simp add: repo_get_root_execution_def op_simps codec_simps)
  ultimately show ?thesis using d4(1) s x by (simp add: session_new_with_source_def execution_new_root_def)
qed

lemma created_session_reads_back_witness:
  "\<exists>s x t. create_session_with_source sample_env ''root'' Web sample_db = (Inr (s, x), t) \<and>
     fst (repo_get_session sample_env (s_id s) (t\<lparr>script := []\<rparr>)) = Inr (Some s)"
proof -
  have "\<exists>p. fst (create_session_with_source sample_env ''root'' Web sample_db) = Inr p"
    by (simp add: create_session_with_source_def repo_create_session_def repo_create_execution_def sample_run
        unit_op_def execution_constraints_def session_new_with_source_def execution_new_root_def Let_def
        references_def row_of_session_def row_of_execution_def)
  then obtain s x t where run: "create_session_with_source sample_env ''root'' Web sample_db = (Inr (s, x), t)"
    by (cases "create_session_with_source sample_env ''root'' Web sample_db") auto
  from created_session_reads_back [OF run sample_db_ok] run show ?thesis by auto
qed

section \<open>A list that never answers\<close>

text \<open>An offset without a limit is not a statement SQLite can parse.\<close>

lemma offset_without_limit_fails:
  "script db = [] \<Longrightarrow> ef_limit f = None \<Longrightarrow> ef_offset f = Some k \<Longrightarrow>
   repo_list_executions E f db = (Inl (Database SqlSyntax), db)"
  by (simp add: repo_list_executions_def op_simps Let_def)
end
