(* ===== verification/State_Contents.thy ===== *)
theory State_Contents
  imports State_Samples
begin

text \<open>
  What the plans and the surfaces of a session show: the accepted plan is the one that is read
  back, numbered in order; completing a plan settles what was open and keeps what failed; the
  surfaces kept are the newest.
\<close>

section \<open>Transactions\<close>

definition unchanged :: "statedb \<Rightarrow> statedb \<Rightarrow> bool" where
  "unchanged db t \<longleftrightarrow> t = undo db t"

lemma unchanged_simps [simp]:
  "unchanged db (db\<lparr>script := bs\<rparr>)"
  "unchanged db (undo db t)"
  "unchanged (db\<lparr>script := bs\<rparr>) t = unchanged db t"
  "unchanged (db\<lparr>ticks := n\<rparr>) t = unchanged db t"
  by (simp_all add: unchanged_def undo_def)

lemma undo_script [simp]: "undo (db\<lparr>script := bs\<rparr>) t = undo db t"
  by (simp add: undo_def)

lemma statement_InlD: "statement f db = (Inl e, t) \<Longrightarrow>
  (\<exists>bs. t = db\<lparr>script := bs\<rparr>) \<or> (\<exists>bs. f (db\<lparr>script := bs\<rparr>) = (Inl e, t))"
  by (cases "script db") (auto simp: statement_def script_same split: if_splits
      intro: exI [where x = "[]"])

lemma transaction_InlD:
  assumes "transaction f db = (Inl e, t)"
  shows "unchanged db t"
proof -
  from statement_InlD [OF assms [unfolded transaction_def]] show ?thesis
  proof
    assume "\<exists>bs. t = db\<lparr>script := bs\<rparr>"
    then show ?thesis by auto
  next
    assume "\<exists>bs. (case f (db\<lparr>script := bs\<rparr>) of (Inl e, t) \<Rightarrow> (Inl e, undo (db\<lparr>script := bs\<rparr>) t)
     | (Inr (commit, x), t) \<Rightarrow>
         (case statement (ret ()) t of
            (Inl e, u) \<Rightarrow> (Inl e, undo (db\<lparr>script := bs\<rparr>) u)
          | (Inr _, u) \<Rightarrow> (Inr x, if commit then u else undo (db\<lparr>script := bs\<rparr>) u))) = (Inl e, t)"
    then obtain bs where eq: "(case f (db\<lparr>script := bs\<rparr>) of (Inl e, t) \<Rightarrow> (Inl e, undo db t)
     | (Inr (commit, x), t) \<Rightarrow>
         (case statement (ret ()) t of
            (Inl e, u) \<Rightarrow> (Inl e, undo db u)
          | (Inr _, u) \<Rightarrow> (Inr x, if commit then u else undo db u))) = (Inl e, t)"
      unfolding undo_script by blast
    obtain r u where f: "f (db\<lparr>script := bs\<rparr>) = (r, u)" by (cases "f (db\<lparr>script := bs\<rparr>)")
    obtain q v where "statement (ret ()) u = (q :: state_error + unit, v)" by (cases "statement (ret ()) u")
    with eq f show ?thesis by (cases r; cases q) (auto split: prod.splits)
  qed
qed

lemma in_transaction_Inl:
  assumes "connection (transaction f) db = (Inl e, t)"
  shows "unchanged db t"
proof -
  from statement_InlD [OF assms [unfolded connection_def]] show ?thesis
    by (auto dest: transaction_InlD)
qed

lemma in_transaction_Inr:
  assumes "connection (transaction f) db = (Inr x, t)"
  shows "\<exists>bs cs commit u. f (db\<lparr>script := bs\<rparr>) = (Inr (commit, x), u) \<and>
    t = (if commit then u\<lparr>script := cs\<rparr> else undo db (u\<lparr>script := cs\<rparr>))"
proof -
  from statement_InrD [OF assms [unfolded connection_def]] obtain as where
    "transaction f (db\<lparr>script := as\<rparr>) = (Inr x, t)" by blast
  from transaction_InrD [OF this, unfolded undo_script] show ?thesis by simp
qed

section \<open>The accepted plan\<close>

lemma upsert_plan_InrD:
  assumes "upsert_plan p db = (Inr w, t)"
  shows "(w = 0 \<and> (\<exists>old. find_plan_row (pr_session_id p) db = Some old \<and> \<not> pr_sequence old < pr_sequence p)) \<or>
    (w \<noteq> 0 \<and> find_plan_row (pr_session_id p) t = Some p \<and> counters_t t = counters_t db)"
proof -
  from statement_InrD [OF assms [unfolded upsert_plan_def]] obtain bs where
    w: "(case find_plan_row (pr_session_id p) (db\<lparr>script := bs\<rparr>) of
       None \<Rightarrow>
         if pr_session_id p \<in> set (session_ids (db\<lparr>script := bs\<rparr>)) \<and> pr_execution_id p \<in> set (execution_ids (db\<lparr>script := bs\<rparr>))
         then (Inr 1, (db\<lparr>script := bs\<rparr>)\<lparr>plans_t := plans_t (db\<lparr>script := bs\<rparr>) @ [p]\<rparr>)
         else (Inl (Database ConstraintFailed), db\<lparr>script := bs\<rparr>)
     | Some old \<Rightarrow>
         if \<not> pr_sequence old < pr_sequence p then (Inr 0, db\<lparr>script := bs\<rparr>)
         else if pr_execution_id p \<in> set (execution_ids (db\<lparr>script := bs\<rparr>))
         then (Inr 1, (db\<lparr>script := bs\<rparr>)\<lparr>plans_t := sql_update (\<lambda>q. pr_session_id q = pr_session_id p) (\<lambda>_. p) (plans_t (db\<lparr>script := bs\<rparr>))\<rparr>)
         else (Inl (Database ConstraintFailed), db\<lparr>script := bs\<rparr>)) = (Inr w, t)" by blast
  have same: "find_plan_row i (db\<lparr>script := bs\<rparr>) = find_plan_row i db" for i
    by (simp add: find_plan_row_def)
  show ?thesis
  proof (cases "find_plan_row (pr_session_id p) db")
    case None
    with w same have "w = 1" "t = db\<lparr>script := bs, plans_t := plans_t db @ [p]\<rparr>"
      by (auto split: if_splits)
    with None show ?thesis by (simp add: find_plan_row_def find_append_split)
  next
    case (Some old)
    then have k: "pr_session_id old = pr_session_id p"
      by (simp add: find_plan_row_def) (drule find_key_Some, simp)
    have "find_plan_row (pr_session_id p) (d\<lparr>plans_t := sql_update (\<lambda>q. pr_session_id q = pr_session_id p) (\<lambda>_. p) (plans_t db)\<rparr>) = Some p" for d :: statedb
      using Some k find_key_sql_update [of "\<lambda>q. pr_session_id q = pr_session_id p" pr_session_id "\<lambda>_. p" "pr_session_id p" "plans_t db"]
      by (simp add: find_plan_row_def)
    with w same Some show ?thesis by (auto split: if_splits)
  qed
qed

lemma preflight_codes:
  "preflight_update J plan ex = Inl e \<Longrightarrow> e \<noteq> StaleSequence"
proof -
  have step: "preflight_step v = Inl e \<Longrightarrow> e \<noteq> StaleSequence" for v
    by (auto simp: preflight_step_def sbind_def some_or_def split: sum.splits option.splits if_splits)
  have "preflight_steps vs = Inl e \<Longrightarrow> e \<noteq> StaleSequence" for vs
    by (induction vs) (auto simp: sbind_def step split: sum.splits)
  then show "preflight_update J plan ex = Inl e \<Longrightarrow> e \<noteq> StaleSequence"
    by (auto simp: preflight_update_def sbind_def some_or_def split: sum.splits option.splits if_splits)
qed

lemma from_update_codes:
  assumes "from_update J plan ex = Inl e"
  shows "e \<noteq> StaleSequence"
proof (cases "preflight_update J plan ex")
  case (Inl d)
  with assms preflight_codes show ?thesis by (auto simp: from_update_def)
next
  case (Inr u)
  with preflight_ok_from_update [of J plan ex] assms show ?thesis by auto
qed

lemma plan_guard_facts:
  assumes "from_update J plan ex = Inr inp"
  shows "plan_of_json plan = Some (pi_plan inp) \<and> pi_explanation inp = ex"
proof (cases "preflight_update J plan ex")
  case (Inl d)
  with assms show ?thesis by (simp add: from_update_def)
next
  case (Inr u)
  with preflight_ok_from_update [of J plan ex] assms show ?thesis by auto
qed

lemma save_plan_cases:
  assumes "repo_save_session_plan E sid xid plan ex ev db = (Inr out, t)" and "session_db_ok db"
  shows "(\<exists>e. out = Rejected e \<and> e \<noteq> StaleSequence \<and> unchanged db t) \<or>
    (\<exists>inp stamp n now. from_update (json_pieces E) plan ex = Inr inp \<and> i64_try_from_u64 ev = Some stamp \<and>
      n = (case counter_of sid db of None \<Rightarrow> 1 | Some k \<Rightarrow> k + 1) \<and> n < 2 ^ 63 \<and>
      counter_of sid t = Some n \<and>
      find_plan_row sid t = Some \<lparr>pr_session_id = sid, pr_execution_id = xid,
            pr_plan_json = json_to_string (env_codec E) (plan_to_json (pi_plan inp)),
            pr_explanation = pi_explanation inp, pr_timestamp = stamp, pr_sequence = n,
            pr_updated_at = now\<rparr> \<and>
      out = Accepted \<lparr>sn_execution_id = xid, sn_explanation = pi_explanation inp,
            sn_plan = pi_plan inp, sn_updated_at = now, sn_source_event_timestamp = i64_as_u64 stamp,
            sn_source_event_sequence = i64_as_u64 n\<rparr>)"
proof (cases "from_update (json_pieces E) plan ex")
  case (Inl e)
  with from_update_codes [OF Inl] assms show ?thesis
    by (auto simp: repo_save_session_plan_def ret_apply unchanged_def undo_def)
next
  case (Inr inp)
  with assms(1) obtain stamp where stamp: "i64_try_from_u64 ev = Some stamp"
    by (cases "i64_try_from_u64 ev") (auto simp: repo_save_session_plan_def)
  let ?p = "\<lambda>n now. \<lparr>pr_session_id = sid, pr_execution_id = xid,
            pr_plan_json = json_to_string (env_codec E) (plan_to_json (pi_plan inp)),
            pr_explanation = pi_explanation inp, pr_timestamp = stamp, pr_sequence = n, pr_updated_at = now\<rparr>"
  let ?sn = "\<lambda>n now. \<lparr>sn_execution_id = xid, sn_explanation = pi_explanation inp,
            sn_plan = pi_plan inp, sn_updated_at = now, sn_source_event_timestamp = i64_as_u64 stamp,
            sn_source_event_sequence = i64_as_u64 n\<rparr>"
  let ?store = "\<lambda>n. bnd (utc_now E) (\<lambda>now. bnd (upsert_plan (?p n now)) (\<lambda>written.
      if written = 0 then ret (False, Rejected StaleSequence) else ret (True, Accepted (?sn n now))))"
  let ?f = "bnd (select (execution_in_session xid sid)) (\<lambda>belongs.
      if \<not> belongs then ret (False, Rejected ExecutionSessionMismatch) else bnd (next_plan_sequence sid) ?store)"
  from assms(1) Inr stamp have "connection (transaction ?f) db = (Inr out, t)"
    by (simp add: repo_save_session_plan_def)
  from in_transaction_Inr [OF this] obtain bs cs commit u where
    run: "?f (db\<lparr>script := bs\<rparr>) = (Inr (commit, out), u)"
    and t: "t = (if commit then u\<lparr>script := cs\<rparr> else undo db (u\<lparr>script := cs\<rparr>))" by auto
  from run obtain belongs d1 where 1: "select (execution_in_session xid sid) (db\<lparr>script := bs\<rparr>) = (Inr belongs, d1)"
    and r1: "(if \<not> belongs then ret (False, Rejected ExecutionSessionMismatch) else bnd (next_plan_sequence sid) ?store) d1 = (Inr (commit, out), u)"
    by (rule bnd_eq_InrE)
  from select_InrD [OF 1] obtain b1 where d1: "d1 = db\<lparr>script := b1\<rparr>" by auto
  show ?thesis
  proof (cases belongs)
    case False
    with r1 t show ?thesis by (auto simp: ret_apply)
  next
    case True
    with r1 obtain n d2 where 2: "next_plan_sequence sid d1 = (Inr n, d2)"
      and r2: "?store n d2 = (Inr (commit, out), u)"
      by (auto elim: bnd_eq_InrE)
    from r2 obtain now d3 where 3: "utc_now E d2 = (Inr now, d3)"
      and r3: "bnd (upsert_plan (?p n now)) (\<lambda>written.
        if written = 0 then ret (False, Rejected StaleSequence) else ret (True, Accepted (?sn n now))) d3 = (Inr (commit, out), u)"
      by (rule bnd_eq_InrE)
    from r3 obtain w d4 where 4: "upsert_plan (?p n now) d3 = (Inr w, d4)"
      and r4: "(if w = 0 then ret (False, Rejected StaleSequence) else ret (True, Accepted (?sn n now)) :: (bool \<times> plan_save_outcome) st_op) d4 = (Inr (commit, out), u)"
      by (rule bnd_eq_InrE)
    from next_sequence_InrD [OF 2] have n: "n = (case counter_of sid db of None \<Rightarrow> 1 | Some k \<Rightarrow> k + 1)" "n < 2 ^ 63"
      by (auto simp: d1 counter_of_def)
    have "session_db_ok d1" using assms(2) by (simp add: d1 of_tables_script [OF of_tables_ok])
    with 2 have num: "numbered sid n d2" by (intro next_sequence_numbered)
    have plans: "plans_t d3 = plans_t db" using next_sequence_InrD [OF 2] 3 by (auto simp: d1 utc_now_def)
    have c3: "counter_of sid d3 = Some n" using num 3 by (auto simp: numbered_def counter_of_def utc_now_def)
    have "w \<noteq> 0"
    proof
      assume "w = 0"
      with upsert_plan_InrD [OF 4] obtain old where
        old: "find_plan_row sid d3 = Some old" "\<not> pr_sequence old < n" by auto
      with plans have "old \<in> set (plans_t db)" "pr_session_id old = sid"
        by (auto simp: find_plan_row_def dest: find_key_Some)
      with assms(2) obtain k where "(sid, k) \<in> set (counters_t db)" "pr_sequence old \<le> k"
        by (auto simp: session_db_ok_def plans_ok_def)
      moreover from this assms(2) have "counter_of sid db = Some k"
        by (auto simp: counter_of_def session_db_ok_def keys_ok_def intro: map_of_is_SomeI)
      ultimately show False using old(2) n(1) by simp
    qed
    with upsert_plan_InrD [OF 4] r4 have "out = Accepted (?sn n now)" "commit" "u = d4"
      "find_plan_row sid d4 = Some (?p n now)" "counter_of sid d4 = Some n"
      using c3 by (auto simp: ret_apply counter_of_def)
    with t n Inr stamp show ?thesis
      by (intro disjI2 exI [of _ inp] exI [of _ stamp] exI [of _ n] exI [of _ now])
        (simp add: find_plan_row_def counter_of_def)
  qed
qed

lemma saved_plan_reads_back:
  assumes "repo_save_session_plan E sid xid plan ex ev db = (Inr out, t)" and "session_db_ok db"
    and "json_codec (env_codec E)"
  shows "case out of
      Rejected e \<Rightarrow> e \<noteq> StaleSequence \<and> unchanged db t
    | Accepted sn \<Rightarrow>
        plan_of_json plan = Some (sn_plan sn) \<and> sn_explanation sn = ex \<and> sn_execution_id sn = xid \<and>
        sn_source_event_timestamp sn = ev \<and>
        uint (sn_source_event_sequence sn) = (case counter_of sid db of None \<Rightarrow> 1 | Some k \<Rightarrow> k + 1) \<and>
        fst (repo_get_session_plan E sid (t\<lparr>script := []\<rparr>)) = Inr (Some sn)"
  using save_plan_cases [OF assms(1,2)]
proof
  assume "\<exists>e. out = Rejected e \<and> e \<noteq> StaleSequence \<and> unchanged db t"
  then show ?thesis by auto
next
  assume "\<exists>inp stamp n now. from_update (json_pieces E) plan ex = Inr inp \<and> i64_try_from_u64 ev = Some stamp \<and>
      n = (case counter_of sid db of None \<Rightarrow> 1 | Some k \<Rightarrow> k + 1) \<and> n < 2 ^ 63 \<and>
      counter_of sid t = Some n \<and>
      find_plan_row sid t = Some \<lparr>pr_session_id = sid, pr_execution_id = xid,
            pr_plan_json = json_to_string (env_codec E) (plan_to_json (pi_plan inp)),
            pr_explanation = pi_explanation inp, pr_timestamp = stamp, pr_sequence = n,
            pr_updated_at = now\<rparr> \<and>
      out = Accepted \<lparr>sn_execution_id = xid, sn_explanation = pi_explanation inp,
            sn_plan = pi_plan inp, sn_updated_at = now, sn_source_event_timestamp = i64_as_u64 stamp,
            sn_source_event_sequence = i64_as_u64 n\<rparr>"
  then obtain inp stamp n now where fu: "from_update (json_pieces E) plan ex = Inr inp"
    and stamp: "i64_try_from_u64 ev = Some stamp"
    and n: "n = (case counter_of sid db of None \<Rightarrow> 1 | Some k \<Rightarrow> k + 1)" "n < 2 ^ 63"
    and row: "find_plan_row sid t = Some \<lparr>pr_session_id = sid, pr_execution_id = xid,
            pr_plan_json = json_to_string (env_codec E) (plan_to_json (pi_plan inp)),
            pr_explanation = pi_explanation inp, pr_timestamp = stamp, pr_sequence = n,
            pr_updated_at = now\<rparr>"
    and out: "out = Accepted \<lparr>sn_execution_id = xid, sn_explanation = pi_explanation inp,
            sn_plan = pi_plan inp, sn_updated_at = now, sn_source_event_timestamp = i64_as_u64 stamp,
            sn_source_event_sequence = i64_as_u64 n\<rparr>" by blast
  have "0 \<le> n"
  proof (cases "counter_of sid db")
    case (Some k)
    then have "(sid, k) \<in> set (counters_t db)" by (auto simp: counter_of_def dest: map_of_SomeD)
    with assms(2) have "0 \<le> k" by (auto simp: session_db_ok_def plans_ok_def)
    with n Some show ?thesis by simp
  qed (use n in simp)
  with n(2) have seq: "u64_try_from n = Some (i64_as_u64 n)" "uint (i64_as_u64 n) = n"
    by (simp_all add: u64_try_from_def i64_as_u64_def uint_word_of_int)
  have ts: "u64_try_from stamp = Some ev" by (rule u64_try_from_i64 [OF stamp])
  then have ev: "i64_as_u64 stamp = ev" by (auto simp: u64_try_from_def i64_as_u64_def split: if_splits)
  from fu plan_guard_facts have plan: "plan_of_json plan = Some (pi_plan inp)" "pi_explanation inp = ex"
    by blast+
  have "fst (repo_get_session_plan E sid (t\<lparr>script := []\<rparr>)) = Inr (Some \<lparr>sn_execution_id = xid, sn_explanation = pi_explanation inp,
            sn_plan = pi_plan inp, sn_updated_at = now, sn_source_event_timestamp = i64_as_u64 stamp,
            sn_source_event_sequence = i64_as_u64 n\<rparr>)"
    using row seq ts ev assms(3)
    by (simp add: repo_get_session_plan_def bnd_def op_simps find_plan_row_def row_to_session_plan_def
        ret_apply codec_simps)
  with out plan ev seq n show ?thesis by simp
qed

text \<open>
  C13: saving a plan that returns either rejects it and leaves every table as it was, never for a
  stale sequence, since the counter is ahead of every stored plan; or accepts exactly the steps
  and the explanation that were given, under the next number of the session, and what is read
  back is the accepted snapshot.
\<close>

theorem accepted_plan_is_shown:
  assumes "repo_save_session_plan E sid xid plan ex ev db = (Inr out, t)" and "session_db_ok db"
    and "json_codec (env_codec E)"
  shows "case out of
      Rejected e \<Rightarrow> e \<noteq> StaleSequence \<and> unchanged db t
    | Accepted sn \<Rightarrow>
        plan_of_json plan = Some (sn_plan sn) \<and> sn_explanation sn = ex \<and> sn_execution_id sn = xid \<and>
        sn_source_event_timestamp sn = ev \<and>
        uint (sn_source_event_sequence sn) = (case counter_of sid db of None \<Rightarrow> 1 | Some k \<Rightarrow> k + 1) \<and>
        fst (repo_get_session_plan E sid (t\<lparr>script := []\<rparr>)) = Inr (Some sn)"
  using assms by (rule saved_plan_reads_back)

definition sample_plan :: json where
  "sample_plan = JArray [JObject [(''step'', JString ''a''), (''status'', JString ''pending'')]]"

lemma sample_plan_passes: "from_update (\<lambda>v. [print_json v]) sample_plan None = Inr \<lparr>pi_plan = [\<lparr>ps_step = ''a'', ps_status = StepPending\<rparr>], pi_explanation = None\<rparr>"
proof -
  have a: "trim_is_empty ''a'' = False"
    by (simp add: trim_is_empty_def bytes_def blank_bytes.simps)
  have "preflight_step (JObject [(''step'', JString ''a''), (''status'', JString ''pending'')]) = Inr ()"
    by (simp add: preflight_step_def sbind_def some_or_def obj_get_def obj_contains_key_def a MAX_SESSION_PLAN_STEP_BYTES_def)
  then have "preflight_update (\<lambda>v. [print_json v]) sample_plan None = Inr ()"
    by (simp add: preflight_update_def sample_plan_def sbind_def some_or_def counter_write_all_eq borrowed_plan_input_def MAX_SESSION_PLAN_STEPS_def MAX_SESSION_PLAN_PAYLOAD_BYTES_def)
  moreover have "plan_of_json sample_plan = Some [\<lparr>ps_step = ''a'', ps_status = StepPending\<rparr>]"
    by (simp add: sample_plan_def plan_of_json_def plan_step_of_json_def struct_fields_def deny_unknown_fields_def obj_get_def plan_step_status_of_text_def)
  ultimately show ?thesis using preflight_ok_from_update [of "\<lambda>v. [print_json v]" sample_plan None]
    by auto
qed

lemma accepted_plan_is_shown_witness:
  "\<exists>sn t. repo_save_session_plan sample_env ''s'' ''x'' sample_plan None 7 sample_db = (Inr (Accepted sn), t) \<and>
     sn_source_event_timestamp sn = 7 \<and>
     fst (repo_get_session_plan sample_env ''s'' (t\<lparr>script := []\<rparr>)) = Inr (Some sn)"
proof -
  have "\<exists>sn. fst (repo_save_session_plan sample_env ''s'' ''x'' sample_plan None 7 sample_db) = Inr (Accepted sn)"
    by (simp add: repo_save_session_plan_def sample_plan_passes i64_try_from_u64_def sample_run execution_in_session_def
        next_plan_sequence_def counter_of_def bump_counter_def upsert_plan_def find_plan_row_def)
  then obtain sn t where run: "repo_save_session_plan sample_env ''s'' ''x'' sample_plan None 7 sample_db = (Inr (Accepted sn), t)"
    by (cases "repo_save_session_plan sample_env ''s'' ''x'' sample_plan None 7 sample_db") auto
  from accepted_plan_is_shown [OF run sample_db_ok] show ?thesis using run by auto
qed
section \<open>The completed plan\<close>

lemma unchanged_more [simp]:
  "unchanged db db"
  "unchanged db (db\<lparr>ticks := n\<rparr>)"
  "unchanged db (db\<lparr>ticks := n, script := bs\<rparr>)"
  "undo (db\<lparr>ticks := n\<rparr>) t = undo db t"
  by (simp_all add: unchanged_def undo_def)

lemma numbered_nonneg:
  assumes "session_db_ok db" and "n = (case counter_of sid db of None \<Rightarrow> 1 | Some k \<Rightarrow> k + 1)" and "n < 2 ^ 63"
  shows "u64_try_from n = Some (i64_as_u64 n)" "uint (i64_as_u64 n) = n"
proof -
  have "0 \<le> n"
  proof (cases "counter_of sid db")
    case (Some k)
    then have "(sid, k) \<in> set (counters_t db)" by (auto simp: counter_of_def dest: map_of_SomeD)
    with assms(1) have "0 \<le> k" by (auto simp: session_db_ok_def plans_ok_def)
    with assms(2) Some show ?thesis by simp
  qed (use assms(2) in simp)
  with assms(3) show "u64_try_from n = Some (i64_as_u64 n)" "uint (i64_as_u64 n) = n"
    by (simp_all add: u64_try_from_def i64_as_u64_def uint_word_of_int)
qed

lemma store_completed_plan_InrD:
  assumes "store_completed_plan E sid xid steps stamp n now db = (Inr w, t)"
  shows "find_plan_row sid t = map_option (\<lambda>p. p\<lparr>pr_execution_id := xid,
      pr_plan_json := json_to_string (env_codec E) (plan_to_json steps),
      pr_timestamp := stamp, pr_sequence := n, pr_updated_at := now\<rparr>) (find_plan_row sid db)"
proof -
  let ?f = "\<lambda>p. p\<lparr>pr_execution_id := xid, pr_plan_json := json_to_string (env_codec E) (plan_to_json steps),
      pr_timestamp := stamp, pr_sequence := n, pr_updated_at := now\<rparr>"
  from checked_change_InrD [OF assms [unfolded store_completed_plan_def]]
  have "plans_t t = sql_update (\<lambda>p. pr_session_id p = sid) ?f (plans_t db)" by auto
  then have "find_plan_row sid t =
    map_option (\<lambda>p. if pr_session_id p = sid then ?f p else p) (find_plan_row sid db)"
    unfolding find_plan_row_def using find_key_sql_update [of "\<lambda>p. pr_session_id p = sid" pr_session_id ?f sid "plans_t db"]
    by simp
  then show ?thesis
    by (cases "find_plan_row sid db") (auto simp: find_plan_row_def dest: find_key_Some)
qed

lemma finish_plan_cases:
  fixes E sid xid stamp event_time snap
  defines "f \<equiv> bnd (next_plan_sequence sid) (\<lambda>n.
         bnd (utc_now E) (\<lambda>now.
         bnd (store_completed_plan E sid xid (map complete_step (sn_plan snap)) stamp n now) (\<lambda>_.
         ret (True, Some (snap\<lparr>sn_plan := map complete_step (sn_plan snap), sn_execution_id := xid,
           sn_updated_at := now, sn_source_event_timestamp := event_time,
           sn_source_event_sequence := i64_as_u64 n\<rparr>)))))"
  assumes run: "f db = (Inr (commit, out), u)" and ok: "session_db_ok db" and codec: "json_codec (env_codec E)"
    and row: "find_plan_row sid db = Some row" "row_to_session_plan (env_codec E) row = Some snap"
    and ev: "i64_try_from_u64 event_time = Some stamp"
  shows "\<exists>sn row'. commit \<and> out = Some sn \<and> sn_plan sn = map complete_step (sn_plan snap) \<and>
    sn_explanation sn = sn_explanation snap \<and> sn_execution_id sn = xid \<and>
    find_plan_row sid u = Some row' \<and> row_to_session_plan (env_codec E) row' = Some sn"
proof -
  let ?rest = "\<lambda>n now. bnd (store_completed_plan E sid xid (map complete_step (sn_plan snap)) stamp n now) (\<lambda>_.
         ret (True, Some (snap\<lparr>sn_plan := map complete_step (sn_plan snap), sn_execution_id := xid,
           sn_updated_at := now, sn_source_event_timestamp := event_time,
           sn_source_event_sequence := i64_as_u64 n\<rparr>)))"
  from run obtain n d1 where 1: "next_plan_sequence sid db = (Inr n, d1)"
    and r1: "bnd (utc_now E) (?rest n) d1 = (Inr (commit, out), u)"
    unfolding f_def by (rule bnd_eq_InrE)
  from r1 obtain now d2 where 2: "utc_now E d1 = (Inr now, d2)" and r2: "?rest n now d2 = (Inr (commit, out), u)"
    by (rule bnd_eq_InrE)
  from r2 obtain w d3 where 3: "store_completed_plan E sid xid (map complete_step (sn_plan snap)) stamp n now d2 = (Inr w, d3)"
    and r3: "(ret (True, Some (snap\<lparr>sn_plan := map complete_step (sn_plan snap), sn_execution_id := xid,
           sn_updated_at := now, sn_source_event_timestamp := event_time,
           sn_source_event_sequence := i64_as_u64 n\<rparr>)) :: (bool \<times> plan_snapshot option) st_op) d3 = (Inr (commit, out), u)"
    by (rule bnd_eq_InrE)
  from next_sequence_InrD [OF 1] have n: "n = (case counter_of sid db of None \<Rightarrow> 1 | Some k \<Rightarrow> k + 1)" "n < 2 ^ 63"
    by auto
  from next_sequence_InrD [OF 1] 2 row(1) have "find_plan_row sid d2 = Some row"
    by (auto simp: find_plan_row_def utc_now_def)
  with store_completed_plan_InrD [OF 3] have "find_plan_row sid d3 = Some (row\<lparr>pr_execution_id := xid,
      pr_plan_json := json_to_string (env_codec E) (plan_to_json (map complete_step (sn_plan snap))),
      pr_timestamp := stamp, pr_sequence := n, pr_updated_at := now\<rparr>)" by simp
  moreover from row(2) have "sn_explanation snap = pr_explanation row"
    by (auto simp: row_to_session_plan_def bind_eq_Some_conv)
  ultimately show ?thesis using r3 codec numbered_nonneg [OF ok n] u64_try_from_i64 [OF ev]
    by (auto simp: row_to_session_plan_def codec_simps ret_apply)
qed

lemma session_checks [simp]:
  "execution_in_session xid sid (d\<lparr>script := bs\<rparr>) = execution_in_session xid sid d"
  "execution_in_session xid sid (d\<lparr>ticks := k\<rparr>) = execution_in_session xid sid d"
  "session_is_completed sid (d\<lparr>script := bs\<rparr>) = session_is_completed sid d"
  "session_is_completed sid (d\<lparr>ticks := k\<rparr>) = session_is_completed sid d"
  "find_plan_row sid (d\<lparr>script := bs\<rparr>) = find_plan_row sid d"
  "find_plan_row sid (d\<lparr>ticks := k\<rparr>) = find_plan_row sid d"
  by (simp_all add: execution_in_session_def session_is_completed_def find_plan_row_def)

lemma complete_plan_cases:
  assumes "repo_complete_session_plan E sid xid db = (Inr out, t)" and "session_db_ok db"
    and "json_codec (env_codec E)"
  shows "(out = None \<and> unchanged db t) \<or>
    (\<exists>sn row old row'. out = Some sn \<and> execution_in_session xid sid db \<and> session_is_completed sid db \<and>
      find_plan_row sid db = Some row \<and> row_to_session_plan (env_codec E) row = Some old \<and>
      sn_plan sn = map complete_step (sn_plan old) \<and>
      sn_explanation sn = sn_explanation old \<and> sn_execution_id sn = xid \<and>
      find_plan_row sid t = Some row' \<and> row_to_session_plan (env_codec E) row' = Some sn)"
proof -
  let ?finish = "\<lambda>snap event_time stamp. bnd (next_plan_sequence sid) (\<lambda>n.
         bnd (utc_now E) (\<lambda>now.
         bnd (store_completed_plan E sid xid (map complete_step (sn_plan snap)) stamp n now) (\<lambda>_.
         ret (True, Some (snap\<lparr>sn_plan := map complete_step (sn_plan snap), sn_execution_id := xid,
           sn_updated_at := now, sn_source_event_timestamp := event_time,
           sn_source_event_sequence := i64_as_u64 n\<rparr>)))))"
  let ?read = "\<lambda>event_time stamp found. case found of
       None \<Rightarrow> ret (True, None)
     | Some row \<Rightarrow>
         bnd (ok_or (Database ConversionFailure) (row_to_session_plan (env_codec E) row)) (\<lambda>snap.
         if \<not> list_ex (\<lambda>s. actionable (ps_status s)) (sn_plan snap) then ret (True, None) else
         ?finish snap event_time stamp)"
  let ?status = "\<lambda>event_time stamp done. if \<not> done then ret (False, None) else
     bnd (select (find_plan_row sid)) (?read event_time stamp)"
  let ?body = "\<lambda>event_time stamp. bnd (select (execution_in_session xid sid)) (\<lambda>belongs.
     if \<not> belongs then throw (Database QueryReturnedNoRows) else
     bnd (select (session_is_completed sid)) (?status event_time stamp))"
  let ?db = "db\<lparr>ticks := Suc (ticks db)\<rparr>"
  from assms(1) obtain event_time stamp where ev: "i64_try_from_u64 event_time = Some stamp"
    and "connection (transaction (?body event_time stamp)) ?db = (Inr out, t)"
    unfolding repo_complete_session_plan_def
    by (auto elim!: bnd_eq_InrE dest!: ok_or_InrD)
  from in_transaction_Inr [OF this(2)] obtain bs cs commit u where
    run: "?body event_time stamp (?db\<lparr>script := bs\<rparr>) = (Inr (commit, out), u)"
    and t: "t = (if commit then u\<lparr>script := cs\<rparr> else undo ?db (u\<lparr>script := cs\<rparr>))" by auto
  from run obtain belongs d1 where 1: "select (execution_in_session xid sid) (?db\<lparr>script := bs\<rparr>) = (Inr belongs, d1)"
    and r1: "(if \<not> belongs then throw (Database QueryReturnedNoRows) else
     bnd (select (session_is_completed sid)) (?status event_time stamp)) d1 = (Inr (commit, out), u)"
    by (rule bnd_eq_InrE)
  from select_InrD [OF 1] obtain b1 where d1: "d1 = ?db\<lparr>script := b1\<rparr>" "belongs = execution_in_session xid sid db" by auto
  from r1 have belongs: belongs and "bnd (select (session_is_completed sid)) (?status event_time stamp) d1 = (Inr (commit, out), u)"
    by (auto simp: throw_apply split: if_splits)
  from this(2) obtain fini d2 where 2: "select (session_is_completed sid) d1 = (Inr fini, d2)"
    and r2: "?status event_time stamp fini d2 = (Inr (commit, out), u)" by (rule bnd_eq_InrE)
  from select_InrD [OF 2] obtain b2 where d2: "d2 = ?db\<lparr>script := b2\<rparr>" "fini = session_is_completed sid db"
    by (auto simp: d1)
  show ?thesis
  proof (cases fini)
    case False
    with r2 t d2 show ?thesis by (auto simp: ret_apply)
  next
    case True
    with r2 obtain found d3 where 3: "select (find_plan_row sid) d2 = (Inr found, d3)"
      and r3: "?read event_time stamp found d3 = (Inr (commit, out), u)" by (auto elim: bnd_eq_InrE)
    from select_InrD [OF 3] obtain b3 where d3: "d3 = ?db\<lparr>script := b3\<rparr>" "found = find_plan_row sid db"
      by (auto simp: d2)
    show ?thesis
    proof (cases found)
      case None
      with r3 t d3 show ?thesis by (auto simp: ret_apply)
    next
      case (Some row)
      with r3 obtain snap where snap: "row_to_session_plan (env_codec E) row = Some snap"
        and r4: "(if \<not> list_ex (\<lambda>s. actionable (ps_status s)) (sn_plan snap) then ret (True, None) else
         ?finish snap event_time stamp) d3 = (Inr (commit, out), u)"
        by (auto elim!: bnd_eq_InrE dest!: ok_or_InrD)
      show ?thesis
      proof (cases "list_ex (\<lambda>s. actionable (ps_status s)) (sn_plan snap)")
        case False
        with r4 t d3 show ?thesis by (auto simp: ret_apply)
      next
        case True
        with r4 have fin: "?finish snap event_time stamp d3 = (Inr (commit, out), u)" by simp
        have "session_db_ok d3" using assms(2) by (simp add: d3 of_tables_script [OF of_tables_ok] of_tables_ticks [OF of_tables_ok])
        moreover have row: "find_plan_row sid db = Some row" using d3 Some by simp
        moreover have "find_plan_row sid d3 = Some row" using d3 Some by simp
        ultimately obtain sn row' where "commit" "out = Some sn" "sn_plan sn = map complete_step (sn_plan snap)"
          "sn_explanation sn = sn_explanation snap" "sn_execution_id sn = xid"
          "find_plan_row sid u = Some row'" "row_to_session_plan (env_codec E) row' = Some sn"
          using finish_plan_cases [OF fin _ assms(3) _ snap ev] by blast
        then show ?thesis using t belongs d1(2) d2(2) row snap \<open>fini\<close> by auto
      qed
    qed
  qed
qed

text \<open>
  C14: completing the plan of a session that returns a plan has found the session completed and
  the execution its own, has settled every open step, keeps every failed step and the order and
  texts of all, and that plan is what is read back; when it returns nothing, nothing is written.
\<close>

theorem completing_settles_the_plan:
  assumes "repo_complete_session_plan E sid xid db = (Inr out, t)" and "session_db_ok db"
    and "json_codec (env_codec E)"
  shows "case out of
      None \<Rightarrow> unchanged db t
    | Some sn \<Rightarrow>
        execution_in_session xid sid db \<and> session_is_completed sid db \<and>
        fst (repo_get_session_plan E sid (t\<lparr>script := []\<rparr>)) = Inr (Some sn) \<and>
        list_all (\<lambda>s. \<not> actionable (ps_status s)) (sn_plan sn) \<and>
        (\<exists>old. fst (repo_get_session_plan E sid (db\<lparr>script := []\<rparr>)) = Inr (Some old) \<and>
          map ps_step (sn_plan sn) = map ps_step (sn_plan old) \<and>
          map (\<lambda>s. ps_status s = StepFailed) (sn_plan sn) = map (\<lambda>s. ps_status s = StepFailed) (sn_plan old) \<and>
          sn_explanation sn = sn_explanation old)"
  using complete_plan_cases [OF assms]
proof
  assume "out = None \<and> unchanged db t"
  then show ?thesis by simp
next
  have get: "fst (repo_get_session_plan E sid (d\<lparr>script := []\<rparr>)) = Inr (Some sn)"
    if "find_plan_row sid d = Some row" "row_to_session_plan (env_codec E) row = Some sn" for d row sn
    using that by (simp add: repo_get_session_plan_def bnd_def op_simps ret_apply)
  assume "\<exists>sn row old row'. out = Some sn \<and> execution_in_session xid sid db \<and> session_is_completed sid db \<and>
      find_plan_row sid db = Some row \<and> row_to_session_plan (env_codec E) row = Some old \<and>
      sn_plan sn = map complete_step (sn_plan old) \<and>
      sn_explanation sn = sn_explanation old \<and> sn_execution_id sn = xid \<and>
      find_plan_row sid t = Some row' \<and> row_to_session_plan (env_codec E) row' = Some sn"
  then show ?thesis
    by (auto simp: get complete_step_def actionable_def list_all_iff intro!: get)
qed

definition sample_stored_plan :: plan_row where
  "sample_stored_plan = \<lparr>pr_session_id = ''s'', pr_execution_id = ''x'',
     pr_plan_json = print_json (plan_to_json [\<lparr>ps_step = ''a'', ps_status = StepFailed\<rparr>, \<lparr>ps_step = ''b'', ps_status = StepPending\<rparr>]),
     pr_explanation = None, pr_timestamp = 3, pr_sequence = 1, pr_updated_at = ''t1''\<rparr>"

definition sample_finished_db :: statedb where
  "sample_finished_db = sample_db\<lparr>
     sessions_t := [(sample_session ''s'' None)\<lparr>sr_status := ''completed''\<rparr>, sample_session ''c'' (Some ''s'')],
     counters_t := [(''s'', 1)], plans_t := [sample_stored_plan]\<rparr>"

lemma sample_finished_ok: "session_db_ok sample_finished_db"
  using trigger_round [of Web] delegation_round [of RootAgent]
  by (auto simp: sample_finished_db_def sample_stored_plan_def session_db_ok_def db_ok_defs session_row_ok_def execution_row_ok_def execution_links_def)

lemma completing_settles_the_plan_witness:
  "\<exists>sn t. repo_complete_session_plan sample_env ''s'' ''x'' sample_finished_db = (Inr (Some sn), t) \<and>
     list_all (\<lambda>s. \<not> actionable (ps_status s)) (sn_plan sn) \<and>
     fst (repo_get_session_plan sample_env ''s'' (t\<lparr>script := []\<rparr>)) = Inr (Some sn)"
proof -
  have "row_to_session_plan json_sample sample_stored_plan = Some \<lparr>sn_execution_id = ''x'', sn_explanation = None,
     sn_plan = [\<lparr>ps_step = ''a'', ps_status = StepFailed\<rparr>, \<lparr>ps_step = ''b'', ps_status = StepPending\<rparr>],
     sn_updated_at = ''t1'', sn_source_event_timestamp = 3, sn_source_event_sequence = 1\<rparr>"
  proof -
    have "json_to_string json_sample = print_json" by (simp add: json_sample_def)
    then have "json_from_str json_sample (pr_plan_json sample_stored_plan) =
      Some (plan_to_json [\<lparr>ps_step = ''a'', ps_status = StepFailed\<rparr>, \<lparr>ps_step = ''b'', ps_status = StepPending\<rparr>])"
      using json_sample_round by (simp add: sample_stored_plan_def)
    then show ?thesis
      by (simp add: row_to_session_plan_def codec_simps) (simp add: sample_stored_plan_def u64_try_from_def)
  qed
  then have "\<exists>sn. fst (repo_complete_session_plan sample_env ''s'' ''x'' sample_finished_db) = Inr (Some sn)"
    by (simp add: repo_complete_session_plan_def i64_try_from_u64_def u64_try_from_def sample_run execution_in_session_def
        session_is_completed_def actionable_def sample_finished_db_def store_completed_plan_def
        next_plan_sequence_def counter_of_def bump_counter_def find_plan_row_def) (simp add: sample_stored_plan_def)
  then obtain sn t where run: "repo_complete_session_plan sample_env ''s'' ''x'' sample_finished_db = (Inr (Some sn), t)"
    by (cases "repo_complete_session_plan sample_env ''s'' ''x'' sample_finished_db") auto
  from completing_settles_the_plan [OF run sample_finished_ok] show ?thesis using run by auto
qed
end
