(* ===== verification/State_Surfaces.thy ===== *)
theory State_Surfaces
  imports State_Contents "HOL-Library.Multiset"
begin

text \<open>
  The work surfaces of a session: a save writes the surface it was given and expires all but the
  sixteen newest.
\<close>

section \<open>The newest sixteen\<close>

lemma sort_key_append_top:
  assumes "\<forall>y \<in> set xs. k y \<le> k x"
  shows "sort_key k (xs @ [x]) = sort_key k xs @ [x]"
proof (rule properties_for_sort_key)
  show "mset (sort_key k xs @ [x]) = mset (xs @ [x])" by simp
  show "sorted (map k (sort_key k xs @ [x]))" using assms by (auto simp: sorted_append)
  show "filter (\<lambda>y. k v = k y) (sort_key k xs @ [x]) = filter (\<lambda>y. k v = k y) (xs @ [x])" for v
    using sort_key_stable [of k "k v" xs] by (simp add: eq_commute [of "k v"])
qed

definition newest :: "('r \<Rightarrow> 'k::linorder) \<Rightarrow> 'r list \<Rightarrow> 'r list" where
  "newest k rows = take 16 (rev (sort_key k rows))"

definition kept_rows :: "('r \<Rightarrow> 'i) \<Rightarrow> ('r \<Rightarrow> 'k::linorder) \<Rightarrow> 'r list \<Rightarrow> 'r list" where
  "kept_rows i k rows = filter (\<lambda>r. i r \<in> set (map i (newest k rows))) rows"

lemma set_kept_rows:
  assumes "unique_key i rows"
  shows "set (kept_rows i k rows) = set (newest k rows)"
proof -
  have sub: "set (newest k rows) \<subseteq> set rows"
    by (auto simp: newest_def dest: in_set_takeD)
  have "r \<in> set (newest k rows)" if "r \<in> set rows" "i r = i q" "q \<in> set (newest k rows)" for r q
    using that sub unique_key_eq [OF assms, of r q] by auto
  with sub show ?thesis by (auto simp: kept_rows_def)
qed

lemma kept_rows_bound:
  assumes "unique_key i rows"
  shows "length (kept_rows i k rows) \<le> 16"
proof -
  have "distinct (kept_rows i k rows)"
    using assms by (simp add: kept_rows_def distinct_map)
  then have "length (kept_rows i k rows) = card (set (kept_rows i k rows))" by (simp add: distinct_card)
  also have "\<dots> \<le> length (newest k rows)" by (simp add: set_kept_rows [OF assms] card_length)
  finally show ?thesis by (simp add: newest_def)
qed

lemma kept_rows_newest:
  assumes "unique_key i rows" and "r \<in> set (kept_rows i k rows)" and "d \<in> set rows" "d \<notin> set (kept_rows i k rows)"
  shows "k d \<le> k r"
proof -
  let ?s = "rev (sort_key k rows)"
  have "sorted (map k (sort_key k rows))" by simp
  then have "sorted_wrt (\<lambda>a b. k b \<le> k a) ?s"
    by (simp only: sorted_wrt_map sorted_wrt_rev) 
  then have "sorted_wrt (\<lambda>a b. k b \<le> k a) (take 16 ?s @ drop 16 ?s)" by simp
  then have "\<forall>a \<in> set (take 16 ?s). \<forall>b \<in> set (drop 16 ?s). k b \<le> k a"
    by (simp only: sorted_wrt_append) blast
  moreover have "r \<in> set (take 16 ?s)" using assms(1,2) by (simp add: set_kept_rows newest_def)
  moreover have "d \<in> set (drop 16 ?s)"
  proof -
    have "d \<in> set (take 16 ?s @ drop 16 ?s)" using assms(3) by simp
    moreover have "d \<notin> set (take 16 ?s)" using assms(1,4) by (simp add: set_kept_rows newest_def)
    ultimately show ?thesis by (metis Un_iff set_append)
  qed
  ultimately show ?thesis by blast
qed

lemma kept_rows_few: "length rows \<le> 16 \<Longrightarrow> kept_rows i k rows = rows"
  by (simp add: kept_rows_def newest_def filter_id_conv)

lemma kept_rows_top:
  assumes "\<forall>y \<in> set rows. k y \<le> k x"
  shows "x \<in> set (kept_rows i k (rows @ [x]))"
  using sort_key_append_top [OF assms] by (simp add: kept_rows_def newest_def)


section \<open>Saving a surface\<close>

lemma expire_surfaces_InrD:
  assumes "expire_surfaces sid db = (Inr n, t)"
  shows "\<exists>bs. t = db\<lparr>script := bs, surfaces_t := filter (\<lambda>f. fr_session_id f = sid \<longrightarrow>
    f \<in> set (kept_rows fr_surface_id fr_updated_at (surfaces_of sid db))) (surfaces_t db)\<rparr>"
proof -
  have "newest_surfaces sid db = map fr_surface_id (newest fr_updated_at (surfaces_of sid db))"
    by (simp add: newest_surfaces_def newest_def)
  then have "sql_delete (\<lambda>f. fr_session_id f = sid \<and> fr_surface_id f \<notin> set (newest_surfaces sid db)) (surfaces_t db) =
    filter (\<lambda>f. fr_session_id f = sid \<longrightarrow> f \<in> set (kept_rows fr_surface_id fr_updated_at (surfaces_of sid db))) (surfaces_t db)"
    by (auto simp: sql_delete_def kept_rows_def surfaces_of_def intro!: filter_cong)
  moreover have "newest_surfaces sid (db\<lparr>script := bs\<rparr>) = newest_surfaces sid db" for bs
    by (simp add: newest_surfaces_def surfaces_of_def)
  ultimately show ?thesis using change_InrD [OF assms [unfolded expire_surfaces_def]] by auto
qed

lemma filter_in_kept: "filter (\<lambda>f. f \<in> set (kept_rows i k rows)) rows = kept_rows i k rows"
  by (auto simp: kept_rows_def intro!: filter_cong)

lemma expire_surfaces_of:
  assumes "expire_surfaces sid db = (Inr n, t)"
  shows "surfaces_of s t = (if s = sid then kept_rows fr_surface_id fr_updated_at (surfaces_of sid db) else surfaces_of s db)"
proof -
  let ?S = "set (kept_rows fr_surface_id fr_updated_at (surfaces_of sid db))"
  from expire_surfaces_InrD [OF assms] obtain bs where
    t: "surfaces_t t = filter (\<lambda>f. fr_session_id f = sid \<longrightarrow> f \<in> ?S) (surfaces_t db)" by auto
  show ?thesis
  proof (cases "s = sid")
    case True
    then have "surfaces_of s t = filter (\<lambda>f. f \<in> ?S) (surfaces_of sid db)"
      unfolding surfaces_of_def t filter_filter by (intro filter_cong) auto
    with True show ?thesis by (simp add: filter_in_kept)
  next
    case False
    then show ?thesis unfolding surfaces_of_def t filter_filter by (auto intro!: filter_cong)
  qed
qed

text \<open>The surfaces of a session once a row has been written, before any expires.\<close>

definition with_surface :: "surface_row \<Rightarrow> surface_row list \<Rightarrow> surface_row list" where
  "with_surface f rows =
     (if fr_surface_id f \<in> fr_surface_id ` set rows
      then map (\<lambda>r. if fr_surface_id r = fr_surface_id f
        then r\<lparr>fr_execution_id := fr_execution_id f, fr_surface_json := fr_surface_json f,
               fr_updated_at := fr_updated_at f\<rparr> else r) rows
      else rows @ [f])"

lemma upsert_surface_of:
  assumes "upsert_surface f db = (Inr n, t)"
  shows "surfaces_of s t = (if s = fr_session_id f then with_surface f (surfaces_of s db) else surfaces_of s db)"
proof -
  let ?p = "surface_key (fr_session_id f) (fr_surface_id f)"
  let ?g = "\<lambda>r. r\<lparr>fr_execution_id := fr_execution_id f, fr_surface_json := fr_surface_json f, fr_updated_at := fr_updated_at f\<rparr>"
  have ex: "list_ex ?p rows \<longleftrightarrow> fr_surface_id f \<in> fr_surface_id ` set (filter (\<lambda>r. fr_session_id r = fr_session_id f) rows)" for rows
    by (induction rows) (auto simp: surface_key_def)
  have upd: "filter (\<lambda>r. fr_session_id r = s) (sql_update ?p ?g rows) =
    (if s = fr_session_id f then map (\<lambda>r. if fr_surface_id r = fr_surface_id f then ?g r else r) (filter (\<lambda>r. fr_session_id r = s) rows)
     else filter (\<lambda>r. fr_session_id r = s) rows)" for rows
    by (induction rows) (auto simp: surface_key_def)
  from checked_change_InrD [OF assms [unfolded upsert_surface_def]]
  have "surfaces_t t = (if list_ex ?p (surfaces_t db) then sql_update ?p ?g (surfaces_t db) else surfaces_t db @ [f])"
    by (cases "list_ex ?p (surfaces_t db)") auto
  then have "surfaces_of s t = (if list_ex ?p (surfaces_t db)
      then filter (\<lambda>r. fr_session_id r = s) (sql_update ?p ?g (surfaces_t db))
      else surfaces_of s db @ filter (\<lambda>r. fr_session_id r = s) [f])"
    by (simp only: surfaces_of_def filter_append split: if_split) blast
  then show ?thesis
    unfolding upd ex [of "surfaces_t db"] surfaces_of_def with_surface_def by simp
qed

lemma save_surface_InrD:
  assumes "repo_save_session_surface E sid xid fid surface db = (Inr u, t)"
  shows "surfaces_of s t = (if s = sid then kept_rows fr_surface_id fr_updated_at
      (with_surface \<lparr>fr_session_id = sid, fr_surface_id = fid, fr_execution_id = xid, fr_surface_json = surface,
        fr_created_at = now_text E (ticks db), fr_updated_at = now_text E (ticks db)\<rparr> (surfaces_of sid db))
    else surfaces_of s db)"
proof -
  let ?f = "\<lambda>now. \<lparr>fr_session_id = sid, fr_surface_id = fid, fr_execution_id = xid, fr_surface_json = surface,
        fr_created_at = now, fr_updated_at = now\<rparr>"
  let ?store = "\<lambda>now. bnd (upsert_surface (?f now)) (\<lambda>_. bnd (expire_surfaces sid) (\<lambda>_. ret (True, ())))"
  from in_transaction_Inr [OF assms [unfolded repo_save_session_surface_def]] obtain bs cs commit v where
    run: "bnd (utc_now E) ?store (db\<lparr>script := bs\<rparr>) = (Inr (commit, u), v)"
    and t: "t = (if commit then v\<lparr>script := cs\<rparr> else undo db (v\<lparr>script := cs\<rparr>))" by auto
  have now: "utc_now E (db\<lparr>script := bs\<rparr>) = (Inr (now_text E (ticks db)), db\<lparr>script := bs, ticks := Suc (ticks db)\<rparr>)"
    by (simp add: utc_now_def)
  from run have "?store (now_text E (ticks db)) (db\<lparr>script := bs, ticks := Suc (ticks db)\<rparr>) = (Inr (commit, u), v)"
    by (simp add: bnd_def now)
  then obtain n d2 where 2: "upsert_surface (?f (now_text E (ticks db))) (db\<lparr>script := bs, ticks := Suc (ticks db)\<rparr>) = (Inr n, d2)"
    and r2: "bnd (expire_surfaces sid) (\<lambda>_. ret (True, ())) d2 = (Inr (commit, u), v)"
    by (rule bnd_eq_InrE)
  from r2 obtain m d3 where 3: "expire_surfaces sid d2 = (Inr m, d3)"
    and r3: "(ret (True, ()) :: (bool \<times> unit) st_op) d3 = (Inr (commit, u), v)" by (rule bnd_eq_InrE)
  have "surfaces_of s (db\<lparr>script := bs, ticks := Suc (ticks db)\<rparr>) = surfaces_of s db" for s
    by (simp add: surfaces_of_def)
  with upsert_surface_of [OF 2] expire_surfaces_of [OF 3]
  have "surfaces_of s d3 = (if s = sid then kept_rows fr_surface_id fr_updated_at
      (with_surface (?f (now_text E (ticks db))) (surfaces_of sid db)) else surfaces_of s db)" by simp
  with r3 t show ?thesis by (auto simp: ret_apply surfaces_of_def)
qed

lemma with_surface_unique:
  assumes "unique_key fr_surface_id rows"
  shows "unique_key fr_surface_id (with_surface f rows)"
proof -
  have "map fr_surface_id (with_surface f rows) =
    (if fr_surface_id f \<in> fr_surface_id ` set rows then map fr_surface_id rows else map fr_surface_id rows @ [fr_surface_id f])"
    by (auto simp: with_surface_def)
  with assms show ?thesis by auto
qed

lemma surfaces_unique:
  assumes "session_db_ok db"
  shows "unique_key fr_surface_id (surfaces_of sid db)"
proof -
  from assms have "unique_key surface_pk (surfaces_t db)" by (simp add: session_db_ok_def keys_ok_def)
  then show ?thesis
    by (auto simp: surfaces_of_def distinct_map inj_on_def surface_pk_def)
qed

text \<open>
  A saved surface is on record as it was given, the session keeps at most sixteen, every
  other surface of it is kept or is no newer than any that is, and no other session's surfaces
  change; the clock has not run behind the surfaces on record.
\<close>

theorem saved_surface_is_kept:
  assumes "repo_save_session_surface E sid xid fid surface db = (Inr u, t)" and "session_db_ok db"
    and "length (surfaces_of sid db) \<le> 16"
    and "list_all (\<lambda>g. fr_updated_at g \<le> now_text E (ticks db)) (surfaces_of sid db)"
  shows "length (surfaces_of sid t) \<le> 16 \<and>
    list_ex (\<lambda>g. fr_surface_id g = fid \<and> fr_execution_id g = xid \<and> fr_surface_json g = surface) (surfaces_of sid t) \<and>
    list_all (\<lambda>g. fr_surface_id g = fid \<or> g \<in> set (surfaces_of sid t) \<or>
      list_all (\<lambda>k. fr_updated_at g \<le> fr_updated_at k) (surfaces_of sid t)) (surfaces_of sid db) \<and>
    (\<forall>s. s \<noteq> sid \<longrightarrow> surfaces_of s t = surfaces_of s db)"
proof -
  let ?f = "\<lparr>fr_session_id = sid, fr_surface_id = fid, fr_execution_id = xid, fr_surface_json = surface,
        fr_created_at = now_text E (ticks db), fr_updated_at = now_text E (ticks db)\<rparr>"
  let ?L = "surfaces_of sid db" and ?W = "with_surface ?f (surfaces_of sid db)"
  have after: "surfaces_of sid t = kept_rows fr_surface_id fr_updated_at ?W"
    using save_surface_InrD [OF assms(1), of sid] by simp
  have uniq: "unique_key fr_surface_id ?W" by (intro with_surface_unique surfaces_unique assms)
  have saved: "\<exists>g \<in> set (kept_rows fr_surface_id fr_updated_at ?W).
      fr_surface_id g = fid \<and> fr_execution_id g = xid \<and> fr_surface_json g = surface"
  proof (cases "fid \<in> fr_surface_id ` set ?L")
    case True
    then have "length ?W = length ?L" by (simp add: with_surface_def)
    with assms(3) have "kept_rows fr_surface_id fr_updated_at ?W = ?W" by (simp add: kept_rows_few)
    moreover from True obtain r where "r \<in> set ?L" "fr_surface_id r = fid" by auto
    then have "r\<lparr>fr_execution_id := xid, fr_surface_json := surface, fr_updated_at := now_text E (ticks db)\<rparr> \<in> set ?W"
      using True by (auto simp: with_surface_def)
    ultimately show ?thesis using \<open>fr_surface_id r = fid\<close>
      by (intro bexI [of _ "r\<lparr>fr_execution_id := xid, fr_surface_json := surface, fr_updated_at := now_text E (ticks db)\<rparr>"]) simp_all
  next
    case False
    then have "?W = ?L @ [?f]" by (simp add: with_surface_def)
    moreover have "?f \<in> set (kept_rows fr_surface_id fr_updated_at (?L @ [?f]))"
      by (rule kept_rows_top) (use assms(4) in \<open>simp add: list_all_iff\<close>)
    ultimately show ?thesis by (intro bexI [of _ ?f]) simp_all
  qed
  have "g \<in> set (surfaces_of sid t) \<or> list_all (\<lambda>k. fr_updated_at g \<le> fr_updated_at k) (surfaces_of sid t)"
    if "g \<in> set ?L" "fr_surface_id g \<noteq> fid" for g
  proof -
    from that have "g \<in> set ?W" by (auto simp: with_surface_def image_iff)
    then show ?thesis using kept_rows_newest [OF uniq] by (auto simp: after list_all_iff)
  qed
  with saved kept_rows_bound [OF uniq] save_surface_InrD [OF assms(1)] show ?thesis
    by (auto simp: after list_ex_iff list_all_iff)
qed

definition sample_surface :: "string \<Rightarrow> surface_row" where
  "sample_surface i = \<lparr>fr_session_id = ''s'', fr_surface_id = i, fr_execution_id = ''x'', fr_surface_json = ''{}'',
     fr_created_at = [], fr_updated_at = []\<rparr>"

lemma saved_surface_is_kept_witness:
  "\<exists>t. repo_save_session_surface sample_env ''s'' ''x'' ''f'' ''[]'' (sample_db\<lparr>surfaces_t := [sample_surface ''g'']\<rparr>) = (Inr (), t) \<and>
    list_ex (\<lambda>g. fr_surface_id g = ''f'' \<and> fr_execution_id g = ''x'' \<and> fr_surface_json g = ''[]'') (surfaces_of ''s'' t)"
proof -
  let ?db = "sample_db\<lparr>surfaces_t := [sample_surface ''g'']\<rparr>"
  have "fst (repo_save_session_surface sample_env ''s'' ''x'' ''f'' ''[]'' ?db) = Inr ()"
    by (simp add: repo_save_session_surface_def upsert_surface_def expire_surfaces_def sample_run sample_surface_def surface_key_def)
  then obtain t where run: "repo_save_session_surface sample_env ''s'' ''x'' ''f'' ''[]'' ?db = (Inr (), t)"
    by (cases "repo_save_session_surface sample_env ''s'' ''x'' ''f'' ''[]'' ?db") simp
  have "session_db_ok ?db" using sample_db_ok
    by (auto simp: sample_surface_def session_db_ok_def db_ok_defs)
  with saved_surface_is_kept [OF run] have "list_ex (\<lambda>g. fr_surface_id g = ''f'' \<and> fr_execution_id g = ''x'' \<and> fr_surface_json g = ''[]'') (surfaces_of ''s'' t)"
    by (simp add: surfaces_of_def sample_surface_def)
  with run show ?thesis by blast
qed

end
