(* ===== verification/State_Trees.thy ===== *)
theory State_Trees
  imports State_Contents
begin

text \<open>
  The tree of a session and its deletion: the recursive query computes the descendants, the
  cascade removes their rows and no others, and a wildcard in the id reaches further.
\<close>

section \<open>The tree\<close>

inductive below :: "session_row list \<Rightarrow> string \<Rightarrow> string \<Rightarrow> bool" for rows root where
  here: "below rows root root"
| child: "below rows root p \<Longrightarrow> r \<in> set rows \<Longrightarrow> sr_parent r = Some p \<Longrightarrow> below rows root (sr_id r)"

lemma in_children: "j \<in> set (children_of rows i) \<longleftrightarrow> (\<exists>r \<in> set rows. sr_parent r = Some i \<and> sr_id r = j)"
  by (auto simp: children_of_def)

lemma descendants_sound:
  "\<forall>i \<in> set (found @ queue). below rows root i \<Longrightarrow> i \<in> set (descendants rows found queue) \<Longrightarrow> below rows root i"
proof (induction rows found queue rule: descendants.induct)
  case (2 rows found j queue)
  let ?fresh = "remdups (filter (\<lambda>i. i \<notin> set (found @ j # queue)) (children_of rows j))"
  have "below rows root k" if "k \<in> set ?fresh" for k
    using that "2.prems"(1) by (auto simp: in_children intro: below.child)
  with "2.prems" show ?case by (intro "2.IH" [OF refl]) auto
qed simp

lemma descendants_closed:
  assumes "\<forall>p \<in> set found. \<forall>j \<in> set (children_of rows p). j \<in> set (found @ queue)"
  shows "set (found @ queue) \<subseteq> set (descendants rows found queue) \<and>
    (\<forall>p \<in> set (descendants rows found queue). \<forall>j \<in> set (children_of rows p). j \<in> set (descendants rows found queue))"
  using assms
proof (induction rows found queue rule: descendants.induct)
  case (2 rows found i queue)
  let ?fresh = "remdups (filter (\<lambda>j. j \<notin> set (found @ i # queue)) (children_of rows i))"
  have "set ((found @ [i]) @ queue @ ?fresh) \<subseteq> set (descendants rows (found @ [i]) (queue @ ?fresh)) \<and>
    (\<forall>p \<in> set (descendants rows (found @ [i]) (queue @ ?fresh)).
      \<forall>j \<in> set (children_of rows p). j \<in> set (descendants rows (found @ [i]) (queue @ ?fresh)))"
    by (rule "2.IH" [OF refl]) (use "2.prems" in auto)
  then show ?case by (simp add: Let_def) 
qed simp

lemma descendants_distinct:
  "distinct (found @ queue) \<Longrightarrow> distinct (descendants rows found queue)"
proof (induction rows found queue rule: descendants.induct)
  case (2 rows found i queue)
  have "distinct ((found @ [i]) @ queue @ remdups (filter (\<lambda>j. j \<notin> set (found @ i # queue)) (children_of rows i)))"
    using "2.prems" by auto
  from "2.IH" [OF refl this] show ?case by (simp add: Let_def)
qed simp

lemma descendants_tree:
  "distinct (descendants rows [] [root]) \<and> (i \<in> set (descendants rows [] [root]) \<longleftrightarrow> below rows root i)"
proof
  show "distinct (descendants rows [] [root])" by (rule descendants_distinct) simp
  have closed: "root \<in> set (descendants rows [] [root])"
    "p \<in> set (descendants rows [] [root]) \<Longrightarrow> j \<in> set (children_of rows p) \<Longrightarrow> j \<in> set (descendants rows [] [root])" for p j
    using descendants_closed [of "[]" rows "[root]"] by auto
  have "i \<in> set (descendants rows [] [root])" if "below rows root i" for i
    using that by induction (use closed in \<open>auto simp: in_children\<close>)
  moreover have "below rows root i" if "i \<in> set (descendants rows [] [root])"
    using that by (rule descendants_sound [rotated]) (simp add: below.here)
  ultimately show "i \<in> set (descendants rows [] [root]) \<longleftrightarrow> below rows root i" by blast
qed

text \<open>
  The recursive query finds each session of the tree once and no other, on any table, one
  whose parents run in a circle included.
\<close>

theorem descendants_are_the_tree:
  "distinct (descendants rows [] [root]) \<and> (i \<in> set (descendants rows [] [root]) \<longleftrightarrow> below rows root i)"
  by (rule descendants_tree)

section \<open>The cascade\<close>

text \<open>A statement that writes \<open>u\<close> whatever is left of the script.\<close>

definition writes :: "'a st_op \<Rightarrow> (statedb \<Rightarrow> statedb) \<Rightarrow> bool" where
  "writes f u \<longleftrightarrow> (\<forall>db bs. u (db\<lparr>script := bs\<rparr>) = (u db)\<lparr>script := bs\<rparr>) \<and>
    (\<forall>db x t. f db = (Inr x, t) \<longrightarrow> (\<exists>bs. t = (u db)\<lparr>script := bs\<rparr>))"

primrec write_all :: "(statedb \<Rightarrow> statedb) list \<Rightarrow> statedb \<Rightarrow> statedb" where
  "write_all [] db = db"
| "write_all (u # us) db = write_all us (u db)"

lemma writesD: "writes f u \<Longrightarrow> f db = (Inr x, t) \<Longrightarrow> \<exists>bs. t = (u db)\<lparr>script := bs\<rparr>"
  by (simp add: writes_def)

lemma writes_script: "writes f u \<Longrightarrow> u (db\<lparr>script := bs\<rparr>) = (u db)\<lparr>script := bs\<rparr>"
  by (simp add: writes_def)

lemma writes_change: "(\<And>db bs. u (db\<lparr>script := bs\<rparr>) = (u db)\<lparr>script := bs\<rparr>) \<Longrightarrow> writes (change n u) u"
  by (auto simp: writes_def dest!: change_InrD)

lemma writes_sum_ops:
  "list_all2 writes fs us \<Longrightarrow> sum_ops fs n db = (Inr x, t) \<Longrightarrow> \<exists>bs. t = (write_all us db)\<lparr>script := bs\<rparr>"
proof (induction fs us arbitrary: n db rule: list_all2_induct)
  case Nil
  then have "t = db" by (simp add: ret_apply)
  then show ?case by (intro exI [of _ "script db"]) simp
next
  case (Cons f fs u us)
  have com: "write_all us (d\<lparr>script := cs\<rparr>) = (write_all us d)\<lparr>script := cs\<rparr>" for d cs
    using Cons.hyps(2) by (induction arbitrary: d rule: list_all2_induct) (simp_all add: writes_script)
  from Cons.prems obtain k d where 1: "f db = (Inr k, d)" and 2: "sum_ops fs (n + k) d = (Inr x, t)"
    by (auto elim: bnd_eq_InrE)
  from writesD [OF Cons.hyps(1) 1] Cons.IH [OF 2] com show ?case by auto
qed

lemma writes_deletes:
  "writes (delete_messages ids) (\<lambda>db. db\<lparr>messages_t := sql_delete (\<lambda>m. in_ids ids (mr_session_id m)) (messages_t db)\<rparr>)"
  "writes (delete_executions ids) (\<lambda>db. drop_executions (executions_of ids db) db)"
  "writes (delete_artifacts ids) (\<lambda>db. db\<lparr>artifacts_t := sql_delete (\<lambda>a. a_session_id a \<in> set ids) (artifacts_t db)\<rparr>)"
  "writes (delete_distillation ids) (\<lambda>db. db\<lparr>distillation_t := sql_delete (\<lambda>s. s \<in> set ids) (distillation_t db)\<rparr>)"
  "writes (delete_outbox ids) (\<lambda>db. db\<lparr>outbox_t := sql_delete (\<lambda>r. in_ids ids (ob_session_id r)) (outbox_t db)\<rparr>)"
  "writes (delete_recall ids) (\<lambda>db. db\<lparr>recall_t := sql_delete (\<lambda>s. s \<in> set ids) (recall_t db)\<rparr>)"
  "writes (delete_surfaces ids) (\<lambda>db. db\<lparr>surfaces_t := sql_delete (\<lambda>f. fr_session_id f \<in> set ids) (surfaces_t db)\<rparr>)"
  "writes (delete_logs p) (\<lambda>db. db\<lparr>logs_t := sql_delete p (logs_t db)\<rparr>)"
  "writes (delete_sessions ids) (drop_sessions ids)"
  unfolding delete_messages_def delete_executions_def delete_artifacts_def delete_distillation_def
    delete_outbox_def delete_recall_def delete_surfaces_def delete_logs_def delete_sessions_def
  by (rule writes_change; simp add: drop_sessions_def drop_executions_def executions_of_def Let_def)+

lemma in_ids_iff: "in_ids ids r \<longleftrightarrow> (\<exists>i. r = Some i \<and> i \<in> set ids)"
  by (cases r) (simp_all add: in_ids_def)

text \<open>What the deletion of the sessions \<open>ids\<close> leaves, table by table.\<close>

definition removed_from :: "string list \<Rightarrow> statedb \<Rightarrow> statedb \<Rightarrow> bool" where
  "removed_from ids db t \<longleftrightarrow>
     (let gone = executions_of ids db in
      sessions_t t = filter (\<lambda>r. sr_id r \<notin> set ids) (sessions_t db) \<and>
      map xr_id (executions_t t) = filter (\<lambda>x. x \<notin> set gone) (map xr_id (executions_t db)) \<and>
      messages_t t = filter (\<lambda>m. \<not> in_ids ids (mr_session_id m) \<and> \<not> in_ids gone (mr_execution_id m)) (messages_t db) \<and>
      plans_t t = filter (\<lambda>p. pr_session_id p \<notin> set ids \<and> pr_execution_id p \<notin> set gone) (plans_t db) \<and>
      surfaces_t t = filter (\<lambda>f. fr_session_id f \<notin> set ids \<and> fr_execution_id f \<notin> set gone) (surfaces_t db) \<and>
      counters_t t = filter (\<lambda>c. fst c \<notin> set ids) (counters_t db) \<and>
      artifacts_t t = filter (\<lambda>a. a_session_id a \<notin> set ids) (artifacts_t db) \<and>
      distillation_t t = filter (\<lambda>s. s \<notin> set ids) (distillation_t db) \<and>
      outbox_t t = filter (\<lambda>r. \<not> in_ids ids (ob_session_id r)) (outbox_t db) \<and>
      recall_t t = filter (\<lambda>s. s \<notin> set ids) (recall_t db) \<and>
      checkpoints_t t = checkpoints_t db \<and>
      logs_t t = filter (\<lambda>l. lr_session_id l \<notin> set ids \<and> \<not> in_ids ids (lr_conversation_id l)) (logs_t db))"

lemma removed_from_script [simp]: "removed_from ids db (t\<lparr>script := bs\<rparr>) = removed_from ids db t"
  "removed_from ids (db\<lparr>script := bs\<rparr>) t = removed_from ids db t"
  by (simp_all add: removed_from_def executions_of_def Let_def)

lemma drop_executions_eq:
  "drop_executions gone db = db\<lparr>
     executions_t := map (\<lambda>x. x\<lparr>xr_parent := null_out gone (xr_parent x)\<rparr>)
       (sql_delete (\<lambda>x. xr_id x \<in> set gone) (executions_t db)),
     messages_t := sql_delete (\<lambda>m. in_ids gone (mr_execution_id m)) (messages_t db),
     plans_t := sql_delete (\<lambda>p. pr_execution_id p \<in> set gone) (plans_t db),
     surfaces_t := sql_delete (\<lambda>f. fr_execution_id f \<in> set gone) (surfaces_t db)\<rparr>"
  by (simp add: drop_executions_def in_ids_def)

lemma drop_no_executions [simp]: "drop_executions [] d = d"
proof -
  have "null_out [] r = r" for r by (cases r) (simp_all add: null_out_def)
  then show ?thesis by (simp add: drop_executions_eq sql_delete_def in_ids_iff)
qed

lemma executions_of_cong: "executions_t d = executions_t d' \<Longrightarrow> executions_of ids d = executions_of ids d'"
  by (simp add: executions_of_def)

lemma executions_of_messages [simp]: "executions_of ids (db\<lparr>messages_t := ms\<rparr>) = executions_of ids db"
  by (simp add: executions_of_def)

lemma drop_sessions_without:
  assumes "executions_of ids d = []"
  shows "drop_sessions ids d = d\<lparr>
        sessions_t := sql_delete (\<lambda>s. sr_id s \<in> set ids) (sessions_t d),
        executions_t := map (\<lambda>x. x\<lparr>xr_child := null_out ids (xr_child x)\<rparr>) (executions_t d),
        messages_t := sql_delete (\<lambda>m. in_ids ids (mr_session_id m)) (messages_t d),
        artifacts_t := sql_delete (\<lambda>a. a_session_id a \<in> set ids) (artifacts_t d),
        counters_t := sql_delete (\<lambda>c. fst c \<in> set ids) (counters_t d),
        plans_t := sql_delete (\<lambda>p. pr_session_id p \<in> set ids) (plans_t d),
        surfaces_t := sql_delete (\<lambda>f. fr_session_id f \<in> set ids) (surfaces_t d)\<rparr>"
  using assms unfolding drop_sessions_def executions_of_def [symmetric] by (simp add: in_ids_def)

lemma executions_gone: "executions_of ids (drop_executions (executions_of ids db) db) = []"
  by (auto simp: drop_executions_def executions_of_def sql_delete_def filter_empty_conv)

lemma deletes_remove:
  assumes "sum_ops [delete_messages ids, delete_executions ids, delete_artifacts ids,
       delete_distillation ids, delete_outbox ids, delete_recall ids, delete_surfaces ids,
       delete_logs (\<lambda>l. lr_session_id l \<in> set ids \<or> in_ids ids (lr_conversation_id l)),
       delete_sessions ids] n db = (Inr x, t)"
  shows "removed_from ids db t"
proof -
  let ?us = "[\<lambda>db. db\<lparr>messages_t := sql_delete (\<lambda>m. in_ids ids (mr_session_id m)) (messages_t db)\<rparr>,
      \<lambda>db. drop_executions (executions_of ids db) db,
      \<lambda>db. db\<lparr>artifacts_t := sql_delete (\<lambda>a. a_session_id a \<in> set ids) (artifacts_t db)\<rparr>,
      \<lambda>db. db\<lparr>distillation_t := sql_delete (\<lambda>s. s \<in> set ids) (distillation_t db)\<rparr>,
      \<lambda>db. db\<lparr>outbox_t := sql_delete (\<lambda>r. in_ids ids (ob_session_id r)) (outbox_t db)\<rparr>,
      \<lambda>db. db\<lparr>recall_t := sql_delete (\<lambda>s. s \<in> set ids) (recall_t db)\<rparr>,
      \<lambda>db. db\<lparr>surfaces_t := sql_delete (\<lambda>f. fr_session_id f \<in> set ids) (surfaces_t db)\<rparr>,
      \<lambda>db. db\<lparr>logs_t := sql_delete (\<lambda>l. lr_session_id l \<in> set ids \<or> in_ids ids (lr_conversation_id l)) (logs_t db)\<rparr>,
      drop_sessions ids]"
  have "list_all2 writes [delete_messages ids, delete_executions ids, delete_artifacts ids,
       delete_distillation ids, delete_outbox ids, delete_recall ids, delete_surfaces ids,
       delete_logs (\<lambda>l. lr_session_id l \<in> set ids \<or> in_ids ids (lr_conversation_id l)),
       delete_sessions ids] ?us"
    by (simp only: list_all2_Cons list_all2_Nil writes_deletes simp_thms)
  from writes_sum_ops [OF this assms] obtain bs where t: "t = (write_all ?us db)\<lparr>script := bs\<rparr>" ..
  let ?d = "write_all (butlast ?us) db"
  have e: "executions_of ids ?d = []"
    by (rule trans [OF executions_of_cong executions_gone [of ids db]]) (simp add: drop_executions_eq)
  have "write_all ?us db = drop_sessions ids ?d" by simp
  moreover have "removed_from ids db (drop_sessions ids ?d)"
    unfolding drop_sessions_without [OF e]
    by (simp add: removed_from_def drop_executions_eq Let_def)
      (simp add: sql_delete_def executions_of_def filter_map o_def conj_commute)
  ultimately show ?thesis unfolding t removed_from_script by simp
qed

lemma deletion_set_script [simp]: "deletion_set root (db\<lparr>script := bs\<rparr>) = deletion_set root db"
  by (simp add: deletion_set_def)

lemma statement_unit_InrD: "statement (ret ()) db = (Inr u, t) \<Longrightarrow> \<exists>bs. t = db\<lparr>script := bs\<rparr>"
  by (auto dest!: statement_InrD simp: ret_apply)

lemma recursive_cascade_InrD:
  assumes "repo_delete_session_recursive_cascade root db = (Inr n, t)"
  shows "removed_from (deletion_set root db) db t"
proof -
  let ?dels = "\<lambda>ids. sum_ops [delete_messages ids, delete_executions ids, delete_artifacts ids,
       delete_distillation ids, delete_outbox ids, delete_recall ids, delete_surfaces ids,
       delete_logs (\<lambda>l. lr_session_id l \<in> set ids \<or> in_ids ids (lr_conversation_id l)),
       delete_sessions ids] 0"
  let ?last = "\<lambda>n. bnd (statement (ret ())) (\<lambda>_. ret (True, n))"
  let ?fill = "\<lambda>ids. bnd (statement (ret ())) (\<lambda>_. bnd (?dels ids) ?last)"
  let ?third = "bnd (select (deletion_set root)) ?fill"
  let ?second = "bnd (statement (ret ())) (\<lambda>_. ?third)"
  from in_transaction_Inr [OF assms [unfolded repo_delete_session_recursive_cascade_def]] obtain bs cs commit u where
    run: "bnd (statement (ret ())) (\<lambda>_. ?second) (db\<lparr>script := bs\<rparr>) = (Inr (commit, n), u)"
    and t: "t = (if commit then u\<lparr>script := cs\<rparr> else undo db (u\<lparr>script := cs\<rparr>))" by auto
  from run obtain x1 d1 where 1: "statement (ret ()) (db\<lparr>script := bs\<rparr>) = (Inr x1, d1)"
    and r1: "?second d1 = (Inr (commit, n), u)" by (rule bnd_eq_InrE)
  from r1 obtain x2 d2 where 2: "statement (ret ()) d1 = (Inr x2, d2)" and r2: "?third d2 = (Inr (commit, n), u)"
    by (rule bnd_eq_InrE)
  from r2 obtain ids d3 where 3: "select (deletion_set root) d2 = (Inr ids, d3)" and r3: "?fill ids d3 = (Inr (commit, n), u)"
    by (rule bnd_eq_InrE)
  from r3 obtain x4 d4 where 4: "statement (ret ()) d3 = (Inr x4, d4)"
    and r4: "bnd (?dels ids) ?last d4 = (Inr (commit, n), u)" by (rule bnd_eq_InrE)
  from r4 obtain k d5 where 5: "?dels ids d4 = (Inr k, d5)" and r5: "?last k d5 = (Inr (commit, n), u)"
    by (rule bnd_eq_InrE)
  from r5 obtain x6 d6 where 6: "statement (ret ()) d5 = (Inr x6, d6)"
    and r6: "(ret (True, k) :: (bool \<times> nat) st_op) d6 = (Inr (commit, n), u)" by (rule bnd_eq_InrE)
  from statement_unit_InrD [OF 1] statement_unit_InrD [OF 2] select_InrD [OF 3] statement_unit_InrD [OF 4]
  have "ids = deletion_set root db \<and> (\<exists>as. d4 = db\<lparr>script := as\<rparr>)" by auto
  with deletes_remove [OF 5] have "removed_from (deletion_set root db) db d5" by auto
  with statement_unit_InrD [OF 6] r6 t show ?thesis by (auto simp: ret_apply)
qed

lemma in_map_filter: "x \<in> set (List.map_filter f xs) \<longleftrightarrow> (\<exists>y \<in> set xs. f y = Some x)"
  by (induction xs) (auto simp: List.map_filter_simps split: option.splits)

lemma deletion_set_iff:
  "i \<in> set (deletion_set root db) \<longleftrightarrow> below (sessions_t db) root i \<or>
     (\<exists>l \<in> set (logs_t db). lr_conversation_id l = Some i \<and>
       (\<exists>d. below (sessions_t db) root d \<and> sql_like i (d @ ''-cont-%'')))"
proof -
  have "set (descendants (sessions_t db) [] [root]) = {i. below (sessions_t db) root i}"
    using descendants_tree [of "sessions_t db" root] by auto
  then show ?thesis
    by (auto simp: deletion_set_def Let_def continuation_ids_def list_ex_iff in_map_filter)
qed


section \<open>A wildcard as the root\<close>

lemma sql_like_any: "sql_like s [CHR ''%'']"
  by (induction s) (simp_all add: sql_like.simps)

lemma sql_like_prefix: "sql_like (s @ t) (s @ p) = sql_like t p" if "CHR ''%'' \<notin> set s" "CHR ''_'' \<notin> set s"
  using that by (induction s) (auto simp: sql_like.simps)

lemma sql_like_skip: "sql_like t p \<Longrightarrow> sql_like (s @ t) (CHR ''%'' # p)"
  by (induction s; cases t; simp add: sql_like.simps)

lemma wildcard_matches: "sql_like (a @ ''-cont-'' @ b) (''%'' @ ''-cont-%'')"
  using sql_like_skip [of "''-cont-'' @ b" "''-cont-%''" a] sql_like_prefix [of "''-cont-''" b "''%''"] sql_like_any [of b]
  by simp

text \<open>
  The pattern is built from the id as it is: deleting the session named by one percent sign
  deletes the continuation logs of every session.
\<close>

lemma percent_sign_deletes_every_continuation:
  assumes "repo_delete_session_recursive_cascade ''%'' db = (Inr n, t)"
    and "lr_conversation_id l = Some (a @ ''-cont-'' @ b)"
  shows "l \<notin> set (logs_t t)"
proof (cases "l \<in> set (logs_t db)")
  case True
  have "below (sessions_t db) ''%'' ''%''" by (rule below.here)
  with True assms(2) have "a @ ''-cont-'' @ b \<in> set (deletion_set ''%'' db)"
    unfolding deletion_set_iff using wildcard_matches [of a b] by blast
  with recursive_cascade_InrD [OF assms(1)] assms(2) show ?thesis
    by (auto simp: removed_from_def in_ids_iff Let_def)
next
  case False
  with recursive_cascade_InrD [OF assms(1)] show ?thesis
    by (auto simp: removed_from_def Let_def)
qed
end
