(* ===== verification/Ws_Messages.thy ===== *)
theory Ws_Messages
  imports Prelude
begin

text \<open>
  What the server sends over the WebSocket
  (\<open>gateway/gateway-ws-protocol/src/messages.rs\<close>): the enum \<open>ServerMessage\<close> in groups, by the
  sections of its source, the conversation of a message and the number it is sent under.
\<close>

section \<open>Messages\<close>

datatype subscription_scope = ScopeAll | ScopeSession | ScopeExecution string

datatype subscription_error_code = NotFound | LimitExceeded | ServerError

datatype surface_message =
  SurfaceCreated string string json "64 word option"
| SurfaceUpdated string string json "64 word option"
| SurfaceDeleted string string string "64 word option"
| SurfaceValidationFailed string string string string "64 word option"

datatype reply_message =
  Subscribed string "64 word" "string list option"
| Unsubscribed string
| SubscriptionError string subscription_error_code string

datatype turn_message =
  AgentStarted string string string "string option" "64 word option"
| AgentCompleted string string string "string option" "string option" "64 word option"
| AgentStopped string string string "32 word" "string option" "64 word option"
| Token string string string "string option" "64 word option"
| Thinking string string string "string option" "64 word option"
| ToolCall string string string string json "string option" "64 word option"
| ToolResult string string string string "string option" "string option" "64 word option"

datatype progress_message =
  TurnComplete string string "string option" "string option" "64 word option"
| ErrorMessage "string option" "string option" string string "string option" "64 word option"
| Iteration string string "32 word" "32 word" "string option" "64 word option"
| ContinuationPrompt string string "32 word" string "string option" "64 word option"
| MessageAdded string string string string "string option" "64 word option"
| Heartbeat string string "string option" "64 word option"
| TokenUsage string string "64 word" "64 word" "string option" "64 word option"

datatype delegation_message =
  DelegationStarted string string string string string string "string option" "string option" "64 word option"
| DelegationCompleted string string string string string "string option" "string option" "string option" "64 word option"

datatype connection_message =
  Pong
| Connected string
| SessionPaused string
| SessionResumed string
| SessionCancelled string
| SessionEnded string
| InvokeAccepted string string

datatype session_event =
  WardChanged string string string "64 word option"
| IterationsExtended string string "32 word" "32 word" string "string option" "64 word option"
| PlanUpdate string string json "string option" "string option" "64 word option"
| SessionTitleChanged string string "64 word option"
| IntentAnalysisStarted string string "64 word option"
| IntentAnalysisComplete string string string "string list" "string list" "string list" json json "64 word option"
| IntentAnalysisSkipped string string "64 word option"
| RecallTrace string "string option" "string list" "string list" "string option" "32 word" "json list" "64 word option"

datatype server_message =
  Surface surface_message
| Reply reply_message
| Turn turn_message
| Progress progress_message
| Delegation delegation_message
| Connection connection_message
| SessionEvent session_event

section \<open>The conversation of a message\<close>

primrec surface_message_conversation :: "surface_message \<Rightarrow> string option" where
  "surface_message_conversation (SurfaceCreated a0 a1 a2 a3) = None"
| "surface_message_conversation (SurfaceUpdated a0 a1 a2 a3) = None"
| "surface_message_conversation (SurfaceDeleted a0 a1 a2 a3) = None"
| "surface_message_conversation (SurfaceValidationFailed a0 a1 a2 a3 a4) = None"

primrec reply_message_conversation :: "reply_message \<Rightarrow> string option" where
  "reply_message_conversation (Subscribed a0 a1 a2) = Some a0"
| "reply_message_conversation (Unsubscribed a0) = Some a0"
| "reply_message_conversation (SubscriptionError a0 a1 a2) = Some a0"

primrec turn_message_conversation :: "turn_message \<Rightarrow> string option" where
  "turn_message_conversation (AgentStarted a0 a1 a2 a3 a4) = a3"
| "turn_message_conversation (AgentCompleted a0 a1 a2 a3 a4 a5) = a4"
| "turn_message_conversation (AgentStopped a0 a1 a2 a3 a4 a5) = a4"
| "turn_message_conversation (Token a0 a1 a2 a3 a4) = a3"
| "turn_message_conversation (Thinking a0 a1 a2 a3 a4) = a3"
| "turn_message_conversation (ToolCall a0 a1 a2 a3 a4 a5 a6) = a5"
| "turn_message_conversation (ToolResult a0 a1 a2 a3 a4 a5 a6) = a5"

primrec progress_message_conversation :: "progress_message \<Rightarrow> string option" where
  "progress_message_conversation (TurnComplete a0 a1 a2 a3 a4) = a3"
| "progress_message_conversation (ErrorMessage a0 a1 a2 a3 a4 a5) = a4"
| "progress_message_conversation (Iteration a0 a1 a2 a3 a4 a5) = a4"
| "progress_message_conversation (ContinuationPrompt a0 a1 a2 a3 a4 a5) = a4"
| "progress_message_conversation (MessageAdded a0 a1 a2 a3 a4 a5) = a4"
| "progress_message_conversation (Heartbeat a0 a1 a2 a3) = a2"
| "progress_message_conversation (TokenUsage a0 a1 a2 a3 a4 a5) = a4"

primrec delegation_message_conversation :: "delegation_message \<Rightarrow> string option" where
  "delegation_message_conversation (DelegationStarted a0 a1 a2 a3 a4 a5 a6 a7 a8) = a6"
| "delegation_message_conversation (DelegationCompleted a0 a1 a2 a3 a4 a5 a6 a7 a8) = a6"

primrec connection_message_conversation :: "connection_message \<Rightarrow> string option" where
  "connection_message_conversation Pong = None"
| "connection_message_conversation (Connected a0) = None"
| "connection_message_conversation (SessionPaused a0) = None"
| "connection_message_conversation (SessionResumed a0) = None"
| "connection_message_conversation (SessionCancelled a0) = None"
| "connection_message_conversation (SessionEnded a0) = None"
| "connection_message_conversation (InvokeAccepted a0 a1) = Some a1"

primrec session_event_conversation :: "session_event \<Rightarrow> string option" where
  "session_event_conversation (WardChanged a0 a1 a2 a3) = None"
| "session_event_conversation (IterationsExtended a0 a1 a2 a3 a4 a5 a6) = a5"
| "session_event_conversation (PlanUpdate a0 a1 a2 a3 a4 a5) = a4"
| "session_event_conversation (SessionTitleChanged a0 a1 a2) = None"
| "session_event_conversation (IntentAnalysisStarted a0 a1 a2) = None"
| "session_event_conversation (IntentAnalysisComplete a0 a1 a2 a3 a4 a5 a6 a7 a8) = None"
| "session_event_conversation (IntentAnalysisSkipped a0 a1 a2) = None"
| "session_event_conversation (RecallTrace a0 a1 a2 a3 a4 a5 a6 a7) = a1"

primrec conversation_id :: "server_message \<Rightarrow> string option" where
  "conversation_id (Surface m) = surface_message_conversation m"
| "conversation_id (Reply m) = reply_message_conversation m"
| "conversation_id (Turn m) = turn_message_conversation m"
| "conversation_id (Progress m) = progress_message_conversation m"
| "conversation_id (Delegation m) = delegation_message_conversation m"
| "conversation_id (Connection m) = connection_message_conversation m"
| "conversation_id (SessionEvent m) = session_event_conversation m"

section \<open>The number of a message\<close>

primrec surface_message_with_sequence :: "64 word \<Rightarrow> surface_message \<Rightarrow> surface_message" where
  "surface_message_with_sequence k (SurfaceCreated a0 a1 a2 a3) = SurfaceCreated a0 a1 a2 (Some k)"
| "surface_message_with_sequence k (SurfaceUpdated a0 a1 a2 a3) = SurfaceUpdated a0 a1 a2 (Some k)"
| "surface_message_with_sequence k (SurfaceDeleted a0 a1 a2 a3) = SurfaceDeleted a0 a1 a2 (Some k)"
| "surface_message_with_sequence k (SurfaceValidationFailed a0 a1 a2 a3 a4) = SurfaceValidationFailed a0 a1 a2 a3 (Some k)"

primrec surface_message_seq :: "surface_message \<Rightarrow> 64 word option" where
  "surface_message_seq (SurfaceCreated a0 a1 a2 a3) = a3"
| "surface_message_seq (SurfaceUpdated a0 a1 a2 a3) = a3"
| "surface_message_seq (SurfaceDeleted a0 a1 a2 a3) = a3"
| "surface_message_seq (SurfaceValidationFailed a0 a1 a2 a3 a4) = a4"

primrec turn_message_with_sequence :: "64 word \<Rightarrow> turn_message \<Rightarrow> turn_message" where
  "turn_message_with_sequence k (AgentStarted a0 a1 a2 a3 a4) = AgentStarted a0 a1 a2 a3 (Some k)"
| "turn_message_with_sequence k (AgentCompleted a0 a1 a2 a3 a4 a5) = AgentCompleted a0 a1 a2 a3 a4 (Some k)"
| "turn_message_with_sequence k (AgentStopped a0 a1 a2 a3 a4 a5) = AgentStopped a0 a1 a2 a3 a4 (Some k)"
| "turn_message_with_sequence k (Token a0 a1 a2 a3 a4) = Token a0 a1 a2 a3 (Some k)"
| "turn_message_with_sequence k (Thinking a0 a1 a2 a3 a4) = Thinking a0 a1 a2 a3 (Some k)"
| "turn_message_with_sequence k (ToolCall a0 a1 a2 a3 a4 a5 a6) = ToolCall a0 a1 a2 a3 a4 a5 (Some k)"
| "turn_message_with_sequence k (ToolResult a0 a1 a2 a3 a4 a5 a6) = ToolResult a0 a1 a2 a3 a4 a5 (Some k)"

primrec turn_message_seq :: "turn_message \<Rightarrow> 64 word option" where
  "turn_message_seq (AgentStarted a0 a1 a2 a3 a4) = a4"
| "turn_message_seq (AgentCompleted a0 a1 a2 a3 a4 a5) = a5"
| "turn_message_seq (AgentStopped a0 a1 a2 a3 a4 a5) = a5"
| "turn_message_seq (Token a0 a1 a2 a3 a4) = a4"
| "turn_message_seq (Thinking a0 a1 a2 a3 a4) = a4"
| "turn_message_seq (ToolCall a0 a1 a2 a3 a4 a5 a6) = a6"
| "turn_message_seq (ToolResult a0 a1 a2 a3 a4 a5 a6) = a6"

primrec progress_message_with_sequence :: "64 word \<Rightarrow> progress_message \<Rightarrow> progress_message" where
  "progress_message_with_sequence k (TurnComplete a0 a1 a2 a3 a4) = TurnComplete a0 a1 a2 a3 (Some k)"
| "progress_message_with_sequence k (ErrorMessage a0 a1 a2 a3 a4 a5) = ErrorMessage a0 a1 a2 a3 a4 (Some k)"
| "progress_message_with_sequence k (Iteration a0 a1 a2 a3 a4 a5) = Iteration a0 a1 a2 a3 a4 (Some k)"
| "progress_message_with_sequence k (ContinuationPrompt a0 a1 a2 a3 a4 a5) = ContinuationPrompt a0 a1 a2 a3 a4 (Some k)"
| "progress_message_with_sequence k (MessageAdded a0 a1 a2 a3 a4 a5) = MessageAdded a0 a1 a2 a3 a4 (Some k)"
| "progress_message_with_sequence k (Heartbeat a0 a1 a2 a3) = Heartbeat a0 a1 a2 (Some k)"
| "progress_message_with_sequence k (TokenUsage a0 a1 a2 a3 a4 a5) = TokenUsage a0 a1 a2 a3 a4 (Some k)"

primrec progress_message_seq :: "progress_message \<Rightarrow> 64 word option" where
  "progress_message_seq (TurnComplete a0 a1 a2 a3 a4) = a4"
| "progress_message_seq (ErrorMessage a0 a1 a2 a3 a4 a5) = a5"
| "progress_message_seq (Iteration a0 a1 a2 a3 a4 a5) = a5"
| "progress_message_seq (ContinuationPrompt a0 a1 a2 a3 a4 a5) = a5"
| "progress_message_seq (MessageAdded a0 a1 a2 a3 a4 a5) = a5"
| "progress_message_seq (Heartbeat a0 a1 a2 a3) = a3"
| "progress_message_seq (TokenUsage a0 a1 a2 a3 a4 a5) = a5"

primrec delegation_message_with_sequence :: "64 word \<Rightarrow> delegation_message \<Rightarrow> delegation_message" where
  "delegation_message_with_sequence k (DelegationStarted a0 a1 a2 a3 a4 a5 a6 a7 a8) = DelegationStarted a0 a1 a2 a3 a4 a5 a6 a7 (Some k)"
| "delegation_message_with_sequence k (DelegationCompleted a0 a1 a2 a3 a4 a5 a6 a7 a8) = DelegationCompleted a0 a1 a2 a3 a4 a5 a6 a7 (Some k)"

primrec delegation_message_seq :: "delegation_message \<Rightarrow> 64 word option" where
  "delegation_message_seq (DelegationStarted a0 a1 a2 a3 a4 a5 a6 a7 a8) = a8"
| "delegation_message_seq (DelegationCompleted a0 a1 a2 a3 a4 a5 a6 a7 a8) = a8"

primrec session_event_with_sequence :: "64 word \<Rightarrow> session_event \<Rightarrow> session_event" where
  "session_event_with_sequence k (WardChanged a0 a1 a2 a3) = WardChanged a0 a1 a2 (Some k)"
| "session_event_with_sequence k (IterationsExtended a0 a1 a2 a3 a4 a5 a6) = IterationsExtended a0 a1 a2 a3 a4 a5 (Some k)"
| "session_event_with_sequence k (PlanUpdate a0 a1 a2 a3 a4 a5) = PlanUpdate a0 a1 a2 a3 a4 (Some k)"
| "session_event_with_sequence k (SessionTitleChanged a0 a1 a2) = SessionTitleChanged a0 a1 (Some k)"
| "session_event_with_sequence k (IntentAnalysisStarted a0 a1 a2) = IntentAnalysisStarted a0 a1 (Some k)"
| "session_event_with_sequence k (IntentAnalysisComplete a0 a1 a2 a3 a4 a5 a6 a7 a8) = IntentAnalysisComplete a0 a1 a2 a3 a4 a5 a6 a7 (Some k)"
| "session_event_with_sequence k (IntentAnalysisSkipped a0 a1 a2) = IntentAnalysisSkipped a0 a1 (Some k)"
| "session_event_with_sequence k (RecallTrace a0 a1 a2 a3 a4 a5 a6 a7) = RecallTrace a0 a1 a2 a3 a4 a5 a6 a7"

primrec session_event_seq :: "session_event \<Rightarrow> 64 word option" where
  "session_event_seq (WardChanged a0 a1 a2 a3) = a3"
| "session_event_seq (IterationsExtended a0 a1 a2 a3 a4 a5 a6) = a6"
| "session_event_seq (PlanUpdate a0 a1 a2 a3 a4 a5) = a5"
| "session_event_seq (SessionTitleChanged a0 a1 a2) = a2"
| "session_event_seq (IntentAnalysisStarted a0 a1 a2) = a2"
| "session_event_seq (IntentAnalysisComplete a0 a1 a2 a3 a4 a5 a6 a7 a8) = a8"
| "session_event_seq (IntentAnalysisSkipped a0 a1 a2) = a2"
| "session_event_seq (RecallTrace a0 a1 a2 a3 a4 a5 a6 a7) = a7"

text \<open>A message without a number passes through unchanged, and so does a recall trace, which is broadcast.\<close>

primrec with_sequence :: "64 word \<Rightarrow> server_message \<Rightarrow> server_message" where
  "with_sequence k (Surface m) = Surface (surface_message_with_sequence k m)"
| "with_sequence k (Reply m) = Reply m"
| "with_sequence k (Turn m) = Turn (turn_message_with_sequence k m)"
| "with_sequence k (Progress m) = Progress (progress_message_with_sequence k m)"
| "with_sequence k (Delegation m) = Delegation (delegation_message_with_sequence k m)"
| "with_sequence k (Connection m) = Connection m"
| "with_sequence k (SessionEvent m) = SessionEvent (session_event_with_sequence k m)"

primrec message_seq :: "server_message \<Rightarrow> 64 word option" where
  "message_seq (Surface m) = surface_message_seq m"
| "message_seq (Reply m) = None"
| "message_seq (Turn m) = turn_message_seq m"
| "message_seq (Progress m) = progress_message_seq m"
| "message_seq (Delegation m) = delegation_message_seq m"
| "message_seq (Connection m) = None"
| "message_seq (SessionEvent m) = session_event_seq m"

text \<open>The messages that carry a number on a stream.\<close>

definition numbered_message :: "server_message \<Rightarrow> bool" where
  "numbered_message m \<longleftrightarrow>
     (case m of
        Reply _ \<Rightarrow> False
      | Connection _ \<Rightarrow> False
      | SessionEvent (RecallTrace _ _ _ _ _ _ _ _) \<Rightarrow> False
      | _ \<Rightarrow> True)"

lemma conversation_with_sequence [simp]: "conversation_id (with_sequence k m) = conversation_id m"
proof (cases m)
  case (Surface x)
  then show ?thesis by (cases x) simp_all
next
  case (Reply x)
  then show ?thesis by (cases x) simp_all
next
  case (Turn x)
  then show ?thesis by (cases x) simp_all
next
  case (Progress x)
  then show ?thesis by (cases x) simp_all
next
  case (Delegation x)
  then show ?thesis by (cases x) simp_all
next
  case (Connection x)
  then show ?thesis by (cases x) simp_all
next
  case (SessionEvent x)
  then show ?thesis by (cases x) simp_all
qed

lemma seq_with_sequence:
  "message_seq (with_sequence k m) = (if numbered_message m then Some k else message_seq m)"
proof (cases m)
  case (Surface x)
  then show ?thesis by (cases x) (simp_all add: numbered_message_def)
next
  case (Reply x)
  then show ?thesis by (cases x) (simp_all add: numbered_message_def)
next
  case (Turn x)
  then show ?thesis by (cases x) (simp_all add: numbered_message_def)
next
  case (Progress x)
  then show ?thesis by (cases x) (simp_all add: numbered_message_def)
next
  case (Delegation x)
  then show ?thesis by (cases x) (simp_all add: numbered_message_def)
next
  case (Connection x)
  then show ?thesis by (cases x) (simp_all add: numbered_message_def)
next
  case (SessionEvent x)
  then show ?thesis by (cases x) (simp_all add: numbered_message_def)
qed

lemma with_sequence_again [simp]: "with_sequence k (with_sequence j m) = with_sequence k m"
proof (cases m)
  case (Surface x)
  then show ?thesis by (cases x) simp_all
next
  case (Reply x)
  then show ?thesis by (cases x) simp_all
next
  case (Turn x)
  then show ?thesis by (cases x) simp_all
next
  case (Progress x)
  then show ?thesis by (cases x) simp_all
next
  case (Delegation x)
  then show ?thesis by (cases x) simp_all
next
  case (Connection x)
  then show ?thesis by (cases x) simp_all
next
  case (SessionEvent x)
  then show ?thesis by (cases x) simp_all
qed

text \<open>The messages only clients with the catalog of work surfaces are sent.\<close>

primrec is_surface_message :: "server_message \<Rightarrow> bool" where
  "is_surface_message (Surface m) = True"
| "is_surface_message (Reply m) = False"
| "is_surface_message (Turn m) = False"
| "is_surface_message (Progress m) = False"
| "is_surface_message (Delegation m) = False"
| "is_surface_message (Connection m) = False"
| "is_surface_message (SessionEvent m) = False"

section \<open>Constructors\<close>

definition message_error :: "string option \<Rightarrow> string \<Rightarrow> string \<Rightarrow> server_message" where
  "message_error conversation code text = Progress (ErrorMessage None None code text conversation None)"

definition message_token :: "string \<Rightarrow> string \<Rightarrow> string option \<Rightarrow> string \<Rightarrow> server_message" where
  "message_token sid xid conversation delta = Turn (Token sid xid delta conversation None)"

definition message_turn_complete :: "string \<Rightarrow> string \<Rightarrow> string option \<Rightarrow> string option \<Rightarrow> server_message" where
  "message_turn_complete sid xid conversation final = Progress (TurnComplete sid xid final conversation None)"

definition message_subscription_error :: "string \<Rightarrow> subscription_error_code \<Rightarrow> string \<Rightarrow> server_message" where
  "message_subscription_error conversation code text = Reply (SubscriptionError conversation code text)"

end
