(* ===== verification/Ws_Subscriptions.thy ===== *)
theory Ws_Subscriptions
  imports Ws_Messages
begin

text \<open>
  Routing of events to the clients that subscribed to a conversation
  (\<open>gateway/src/websocket/subscriptions.rs\<close>): the scope filter, and one definition per method of
  \<open>SubscriptionManager\<close> over the state behind its single lock. A hash set is a list without
  repetition; in which order it is walked is not specified, and no theorem depends on it. The
  instants one call reads are one.
\<close>

section \<open>Scopes\<close>

record scope_state =
  root_execution_ids :: "string list"

definition is_root :: "scope_state \<Rightarrow> string \<Rightarrow> bool" where
  "is_root st x = (x \<in> set (root_execution_ids st))"

definition add_root :: "string \<Rightarrow> scope_state \<Rightarrow> scope_state" where
  "add_root x st = st\<lparr>root_execution_ids := List.insert x (root_execution_ids st)\<rparr>"

record event_metadata =
  md_execution_id :: "string option"
  md_is_delegation_event :: bool

definition with_execution :: "string \<Rightarrow> event_metadata" where
  "with_execution x = \<lparr>md_execution_id = Some x, md_is_delegation_event = False\<rparr>"

definition delegation_metadata :: event_metadata where
  "delegation_metadata = \<lparr>md_execution_id = None, md_is_delegation_event = True\<rparr>"

definition session_level :: event_metadata where
  "session_level = \<lparr>md_execution_id = None, md_is_delegation_event = False\<rparr>"

fun should_send_to_scope ::
  "event_metadata \<Rightarrow> subscription_scope \<Rightarrow> scope_state option \<Rightarrow> bool" where
  "should_send_to_scope md ScopeAll _ = True"
| "should_send_to_scope md ScopeSession st =
     (if md_is_delegation_event md then True
      else case md_execution_id md of
          None \<Rightarrow> True
        | Some x \<Rightarrow> (case st of Some s \<Rightarrow> is_root s x | None \<Rightarrow> True))"
| "should_send_to_scope md (ScopeExecution target) _ = (md_execution_id md = Some target)"

section \<open>State\<close>

text \<open>
  The sender of a client is the channel: what it has been handed, in order, and whether the
  receiving half is still there.
\<close>

record ws_client =
  c_open :: bool
  c_sent :: "server_message list"
  c_last_activity :: nat
  c_subscription_count :: nat
  c_channel_healthy :: bool
  c_surface_catalogs :: "string list"

record subscription_entry =
  e_scope :: subscription_scope
  e_scope_state :: "scope_state option"

record subscription_metrics =
  total_clients :: "64 word"
  total_subscriptions :: "64 word"
  events_routed :: "64 word"
  events_dropped :: "64 word"
  dead_clients_cleaned :: "64 word"

record manager =
  clients :: "string \<Rightarrow> ws_client option"
  subscriptions :: "string \<Rightarrow> string list option"
  client_subscriptions :: "string \<Rightarrow> string list option"
  sequence_numbers :: "string \<Rightarrow> 64 word option"
  subscription_entries :: "string \<times> string \<Rightarrow> subscription_entry option"
  session_owners :: "string \<Rightarrow> string option"
  max_subscriptions_per_client :: nat
  max_subscribers_per_conversation :: nat
  metrics :: subscription_metrics

record routing_result =
  rr_sent :: "64 word"
  rr_dropped :: "64 word"
  rr_dead_clients :: "string list"

datatype subscribe_error = ClientNotFound | TooManySubscriptions nat | ConversationFull nat

datatype subscribe_result = NowSubscribed "64 word" | AlreadySubscribed "64 word"

definition manager_new :: manager where
  "manager_new =
     \<lparr>clients = (\<lambda>_. None), subscriptions = (\<lambda>_. None), client_subscriptions = (\<lambda>_. None),
      sequence_numbers = (\<lambda>_. None), subscription_entries = (\<lambda>_. None), session_owners = (\<lambda>_. None),
      max_subscriptions_per_client = 50, max_subscribers_per_conversation = 1000,
      metrics = \<lparr>total_clients = 0, total_subscriptions = 0, events_routed = 0, events_dropped = 0,
        dead_clients_cleaned = 0\<rparr>\<rparr>"

definition subscribers :: "manager \<Rightarrow> string \<Rightarrow> string list" where
  "subscribers m conv = (case subscriptions m conv of None \<Rightarrow> [] | Some ids \<Rightarrow> ids)"

definition set_client :: "string \<Rightarrow> ws_client \<Rightarrow> manager \<Rightarrow> manager" where
  "set_client i c m = m\<lparr>clients := (clients m)(i := Some c)\<rparr>"

definition count :: "(subscription_metrics \<Rightarrow> subscription_metrics) \<Rightarrow> manager \<Rightarrow> manager" where
  "count f m = m\<lparr>metrics := f (metrics m)\<rparr>"

section \<open>Connections\<close>

definition connect :: "nat \<Rightarrow> string \<Rightarrow> manager \<Rightarrow> manager" where
  "connect now i m =
     count (\<lambda>x. x\<lparr>total_clients := total_clients x + 1\<rparr>)
       (m\<lparr>clients := (clients m)(i := Some \<lparr>c_open = True, c_sent = [], c_last_activity = now,
            c_subscription_count = 0, c_channel_healthy = True, c_surface_catalogs = []\<rparr>),
          client_subscriptions := (client_subscriptions m)(i := Some [])\<rparr>)"

definition set_surface_catalogs :: "nat \<Rightarrow> string \<Rightarrow> string list \<Rightarrow> manager \<Rightarrow> manager" where
  "set_surface_catalogs now i catalogs m =
     (case clients m i of
        None \<Rightarrow> m
      | Some c \<Rightarrow> set_client i (c\<lparr>c_surface_catalogs := catalogs, c_last_activity := now\<rparr>) m)"

definition touch_client :: "nat \<Rightarrow> string \<Rightarrow> manager \<Rightarrow> manager" where
  "touch_client now i m =
     (case clients m i of None \<Rightarrow> m | Some c \<Rightarrow> set_client i (c\<lparr>c_last_activity := now\<rparr>) m)"

definition bind_session_owner :: "string \<Rightarrow> string \<Rightarrow> manager \<Rightarrow> manager" where
  "bind_session_owner i sid m =
     (if clients m i \<noteq> None then m\<lparr>session_owners := (session_owners m)(sid := Some i)\<rparr> else m)"

definition owns_session :: "string \<Rightarrow> string \<Rightarrow> manager \<Rightarrow> bool" where
  "owns_session i sid m = (session_owners m sid = Some i)"

text \<open>One conversation of a client that goes.\<close>

definition leave :: "string \<Rightarrow> string \<Rightarrow> manager \<Rightarrow> manager" where
  "leave i conv m =
     (let t = (case subscriptions m conv of
            None \<Rightarrow> m
          | Some ids \<Rightarrow>
              if remove1 i ids = []
              then m\<lparr>subscriptions := (subscriptions m)(conv := None),
                     sequence_numbers := (sequence_numbers m)(conv := None)\<rparr>
              else m\<lparr>subscriptions := (subscriptions m)(conv := Some (remove1 i ids))\<rparr>)
      in t\<lparr>subscription_entries := (subscription_entries t)((conv, i) := None)\<rparr>)"

definition disconnect_internal :: "string \<Rightarrow> manager \<Rightarrow> manager" where
  "disconnect_internal i m =
     (let m1 = m\<lparr>session_owners := (\<lambda>s. if session_owners m s = Some i then None else session_owners m s)\<rparr>;
          m2 = (case client_subscriptions m1 i of
              None \<Rightarrow> m1
            | Some convs \<Rightarrow>
                count (\<lambda>x. x\<lparr>total_subscriptions := total_subscriptions x - word_of_nat (length convs)\<rparr>)
                  (fold (leave i) convs
                    (m1\<lparr>client_subscriptions := (client_subscriptions m1)(i := None)\<rparr>)))
      in count (\<lambda>x. x\<lparr>total_clients := total_clients x - 1\<rparr>) (m2\<lparr>clients := (clients m2)(i := None)\<rparr>))"

definition disconnect :: "string \<Rightarrow> manager \<Rightarrow> manager" where
  "disconnect i m = disconnect_internal i m"

section \<open>Subscriptions\<close>

definition current_sequence :: "string \<Rightarrow> manager \<Rightarrow> 64 word" where
  "current_sequence conv m = (case sequence_numbers m conv of None \<Rightarrow> 0 | Some n \<Rightarrow> n)"

definition subscribe_with_scope ::
  "string \<Rightarrow> string \<Rightarrow> subscription_scope \<Rightarrow> scope_state option \<Rightarrow> manager \<Rightarrow>
   (subscribe_error + subscribe_result) \<times> manager" where
  "subscribe_with_scope i conv scope st m =
     (case clients m i of
        None \<Rightarrow> (Inl ClientNotFound, m)
      | Some c \<Rightarrow>
          if max_subscriptions_per_client m \<le> c_subscription_count c
          then (Inl (TooManySubscriptions (max_subscriptions_per_client m)), m)
          else if i \<in> set (subscribers m conv)
          then (Inr (AlreadySubscribed (current_sequence conv m)),
            case subscription_entries m (conv, i) of
              None \<Rightarrow> m
            | Some e \<Rightarrow>
                if e_scope e \<noteq> scope
                then m\<lparr>subscription_entries := (subscription_entries m)((conv, i) :=
                  Some (e\<lparr>e_scope := scope, e_scope_state := st\<rparr>))\<rparr>
                else m)
          else if max_subscribers_per_conversation m \<le> length (subscribers m conv)
          then (Inl (ConversationFull (max_subscribers_per_conversation m)), m)
          else (Inr (NowSubscribed (current_sequence conv m)),
            count (\<lambda>x. x\<lparr>total_subscriptions := total_subscriptions x + 1\<rparr>)
              (m\<lparr>subscriptions := (subscriptions m)(conv := Some (List.insert i (subscribers m conv))),
                client_subscriptions := (client_subscriptions m)(i :=
                  map_option (List.insert conv) (client_subscriptions m i)),
                clients := (clients m)(i := Some (c\<lparr>c_subscription_count := c_subscription_count c + 1\<rparr>)),
                subscription_entries := (subscription_entries m)((conv, i) :=
                  Some \<lparr>e_scope = scope, e_scope_state = st\<rparr>),
                sequence_numbers := (sequence_numbers m)(conv := Some (current_sequence conv m))\<rparr>)))"

definition subscribe :: "string \<Rightarrow> string \<Rightarrow> manager \<Rightarrow> (subscribe_error + subscribe_result) \<times> manager" where
  "subscribe i conv m = subscribe_with_scope i conv ScopeAll None m"

definition unsubscribe :: "string \<Rightarrow> string \<Rightarrow> manager \<Rightarrow> manager" where
  "unsubscribe i conv m =
     (if i \<notin> set (subscribers m conv) then m
      else
        let rest = remove1 i (subscribers m conv);
            m1 = count (\<lambda>x. x\<lparr>total_subscriptions := total_subscriptions x - 1\<rparr>)
              (m\<lparr>subscriptions := (subscriptions m)(conv := Some rest),
                 subscription_entries := (subscription_entries m)((conv, i) := None)\<rparr>);
            m2 = (case clients m1 i of
                None \<Rightarrow> m1
              | Some c \<Rightarrow> set_client i (c\<lparr>c_subscription_count := c_subscription_count c - 1\<rparr>) m1);
            m3 = (if rest = [] then m2\<lparr>subscriptions := (subscriptions m2)(conv := None),
                    sequence_numbers := (sequence_numbers m2)(conv := None)\<rparr> else m2)
        in (case client_subscriptions m3 i of
              None \<Rightarrow> m3
            | Some convs \<Rightarrow> m3\<lparr>client_subscriptions := (client_subscriptions m3)(i := Some (remove1 conv convs))\<rparr>))"

section \<open>Routing\<close>

definition no_result :: routing_result where
  "no_result = \<lparr>rr_sent = 0, rr_dropped = 0, rr_dead_clients = []\<rparr>"

definition send_one ::
  "nat \<Rightarrow> server_message \<Rightarrow> string \<Rightarrow> routing_result \<times> manager \<Rightarrow> routing_result \<times> manager" where
  "send_one now msg i = (\<lambda>(r, m).
     case clients m i of
       None \<Rightarrow> (r, m)
     | Some c \<Rightarrow>
         if c_open c
         then (r\<lparr>rr_sent := rr_sent r + 1\<rparr>,
           set_client i (c\<lparr>c_sent := c_sent c @ [msg], c_last_activity := now\<rparr>) m)
         else (r\<lparr>rr_dropped := rr_dropped r + 1, rr_dead_clients := rr_dead_clients r @ [i]\<rparr>,
           set_client i (c\<lparr>c_channel_healthy := False\<rparr>) m))"

definition clean_dead :: "string \<Rightarrow> manager \<Rightarrow> manager" where
  "clean_dead i m =
     count (\<lambda>x. x\<lparr>dead_clients_cleaned := dead_clients_cleaned x + 1\<rparr>) (disconnect_internal i m)"

definition next_number :: "string \<Rightarrow> manager \<Rightarrow> manager" where
  "next_number conv m =
     m\<lparr>sequence_numbers := (sequence_numbers m)(conv := Some (current_sequence conv m + 1))\<rparr>"

text \<open>Sending to those of the subscribers that \<open>wanted\<close> names, and dropping the dead ones.\<close>

definition route_to ::
  "nat \<Rightarrow> (manager \<Rightarrow> string \<Rightarrow> bool) \<Rightarrow> string \<Rightarrow> server_message \<Rightarrow> manager \<Rightarrow> routing_result \<times> manager" where
  "route_to now wanted conv msg m =
     (let m1 = next_number conv m;
          numbered = with_sequence (current_sequence conv m1) msg
      in if subscribers m1 conv = [] then (no_result, m1)
      else
        let (r, m2) = fold (\<lambda>i (r, t). if wanted t i then send_one now numbered i (r, t) else (r, t))
              (subscribers m1 conv) (no_result, m1);
            m3 = fold clean_dead (rr_dead_clients r) m2
        in (r, count (\<lambda>x. x\<lparr>events_routed := events_routed x + rr_sent r,
             events_dropped := events_dropped x + rr_dropped r\<rparr>) m3))"

definition route_event :: "nat \<Rightarrow> string \<Rightarrow> server_message \<Rightarrow> manager \<Rightarrow> routing_result \<times> manager" where
  "route_event now conv msg m = route_to now (\<lambda>_ _. True) conv msg m"

definition in_scope :: "string \<Rightarrow> event_metadata \<Rightarrow> manager \<Rightarrow> string \<Rightarrow> bool" where
  "in_scope conv md m i =
     (case subscription_entries m (conv, i) of
        None \<Rightarrow> should_send_to_scope md ScopeAll None
      | Some e \<Rightarrow> should_send_to_scope md (e_scope e) (e_scope_state e))"

definition shows_surfaces :: "manager \<Rightarrow> string \<Rightarrow> bool" where
  "shows_surfaces m i =
     (case clients m i of
        None \<Rightarrow> False
      | Some c \<Rightarrow> ''zbot/work-surface/v1'' \<in> set (c_surface_catalogs c))"

definition wanted_scoped :: "string \<Rightarrow> server_message \<Rightarrow> event_metadata \<Rightarrow> manager \<Rightarrow> string \<Rightarrow> bool" where
  "wanted_scoped conv msg md m i =
     (in_scope conv md m i \<and> (is_surface_message msg \<longrightarrow> shows_surfaces m i))"

definition route_event_scoped ::
  "nat \<Rightarrow> string \<Rightarrow> server_message \<Rightarrow> event_metadata \<Rightarrow> manager \<Rightarrow> routing_result \<times> manager" where
  "route_event_scoped now conv msg md m = route_to now (wanted_scoped conv msg md) conv msg m"

definition broadcast_global :: "server_message \<Rightarrow> manager \<Rightarrow> manager" where
  "broadcast_global msg m = m\<lparr>clients := (\<lambda>i. map_option
     (\<lambda>c. if c_channel_healthy c \<and> c_open c then c\<lparr>c_sent := c_sent c @ [msg]\<rparr> else c) (clients m i))\<rparr>"

definition send_to_client :: "string \<Rightarrow> server_message \<Rightarrow> manager \<Rightarrow> bool \<times> manager" where
  "send_to_client i msg m =
     (case clients m i of
        None \<Rightarrow> (False, m)
      | Some c \<Rightarrow>
          if c_channel_healthy c \<and> c_open c
          then (True, set_client i (c\<lparr>c_sent := c_sent c @ [msg]\<rparr>) m)
          else (False, m))"

text \<open>\<open>ids\<close> is the order in which the map gives its keys.\<close>

definition stale_clients :: "string list \<Rightarrow> nat \<Rightarrow> nat \<Rightarrow> manager \<Rightarrow> string list" where
  "stale_clients ids now timeout m =
     filter (\<lambda>i. case clients m i of
       None \<Rightarrow> False
     | Some c \<Rightarrow> \<not> c_channel_healthy c \<or> timeout < now - c_last_activity c) ids"

definition cleanup_stale_clients :: "string list \<Rightarrow> nat \<Rightarrow> nat \<Rightarrow> manager \<Rightarrow> nat \<times> manager" where
  "cleanup_stale_clients ids now timeout m =
     (let stale = stale_clients ids now timeout m
      in (length stale,
          count (\<lambda>x. x\<lparr>dead_clients_cleaned := dead_clients_cleaned x + word_of_nat (length stale)\<rparr>)
            (fold disconnect_internal stale m)))"

section \<open>Queries and scope management\<close>

definition is_subscribed :: "string \<Rightarrow> string \<Rightarrow> manager \<Rightarrow> bool" where
  "is_subscribed i conv m = (i \<in> set (subscribers m conv))"

definition add_root_to_caches :: "string \<Rightarrow> string \<Rightarrow> manager \<Rightarrow> manager" where
  "add_root_to_caches conv x m =
     fold (\<lambda>i t. case subscription_entries t (conv, i) of
         None \<Rightarrow> t
       | Some e \<Rightarrow>
           if e_scope e = ScopeSession
           then t\<lparr>subscription_entries := (subscription_entries t)((conv, i) :=
             Some (e\<lparr>e_scope_state := map_option (add_root x) (e_scope_state e)\<rparr>))\<rparr>
           else t)
       (subscribers m conv) m"

definition get_subscription_scope ::
  "string \<Rightarrow> string \<Rightarrow> manager \<Rightarrow> (subscription_scope \<times> scope_state option) option" where
  "get_subscription_scope i conv m =
     map_option (\<lambda>e. (e_scope e, e_scope_state e)) (subscription_entries m (conv, i))"

definition get_subscription_entries ::
  "string \<Rightarrow> manager \<Rightarrow> (string \<times> subscription_scope \<times> scope_state option) list" where
  "get_subscription_entries conv m =
     List.map_filter (\<lambda>i. map_option (\<lambda>e. (i, e_scope e, e_scope_state e)) (subscription_entries m (conv, i)))
       (subscribers m conv)"

end
