(* ===== verification/Ws_Books.thy ===== *)
theory Ws_Books
  imports Ws_Subscriptions
begin

text \<open>
  The invariant of the subscription manager, and that connecting, subscribing, unsubscribing and
  disconnecting keep it.
\<close>

section \<open>The books of the manager\<close>

definition conversations :: "manager \<Rightarrow> string \<Rightarrow> string list" where
  "conversations m i = (case client_subscriptions m i of None \<Rightarrow> [] | Some cs \<Rightarrow> cs)"

definition counted :: "manager \<Rightarrow> string \<Rightarrow> nat option" where
  "counted m i = map_option c_subscription_count (clients m i)"

text \<open>
  The two directions of the subscription relation, the entries and the counters agree; every
  conversation with an entry has a subscriber and a number; the limits hold; only connected
  clients own sessions.
\<close>

definition ws_ok :: "manager \<Rightarrow> bool" where
  "ws_ok m \<longleftrightarrow>
     (\<forall>i. counted m i = map_option length (client_subscriptions m i)) \<and>
     (\<forall>i c. c \<in> set (conversations m i) \<longleftrightarrow> i \<in> set (subscribers m c)) \<and>
     (\<forall>i. distinct (conversations m i)) \<and> (\<forall>c. distinct (subscribers m c)) \<and>
     (\<forall>c. subscriptions m c \<noteq> Some []) \<and>
     (\<forall>c. subscribers m c \<noteq> [] \<longrightarrow> sequence_numbers m c \<noteq> None) \<and>
     (\<forall>c i. subscription_entries m (c, i) = None \<longleftrightarrow> i \<notin> set (subscribers m c)) \<and>
     (\<forall>i. length (conversations m i) \<le> max_subscriptions_per_client m) \<and>
     (\<forall>c. length (subscribers m c) \<le> max_subscribers_per_conversation m) \<and>
     (\<forall>s i. session_owners m s = Some i \<longrightarrow> counted m i \<noteq> None)"

text \<open>What \<open>ws_ok\<close> looks at.\<close>

definition same_books :: "manager \<Rightarrow> manager \<Rightarrow> bool" where
  "same_books m t \<longleftrightarrow> counted t = counted m \<and> subscriptions t = subscriptions m \<and>
     client_subscriptions t = client_subscriptions m \<and> sequence_numbers t = sequence_numbers m \<and>
     subscription_entries t = subscription_entries m \<and> session_owners t = session_owners m \<and>
     max_subscriptions_per_client t = max_subscriptions_per_client m \<and>
     max_subscribers_per_conversation t = max_subscribers_per_conversation m"

lemma counted_None: "counted m i = None \<longleftrightarrow> clients m i = None"
  by (simp add: counted_def)

lemma same_books_simps:
  assumes "same_books m t"
  shows "subscribers t = subscribers m" "conversations t = conversations m"
    "clients t i = None \<longleftrightarrow> clients m i = None"
  using assms by (auto simp: same_books_def subscribers_def [abs_def] conversations_def [abs_def]
      simp flip: counted_None)

lemma same_books_ok:
  assumes "same_books m t"
  shows "ws_ok t = ws_ok m"
proof -
  from assms have eqs: "counted t = counted m" "subscriptions t = subscriptions m"
    "client_subscriptions t = client_subscriptions m" "sequence_numbers t = sequence_numbers m"
    "subscription_entries t = subscription_entries m" "session_owners t = session_owners m"
    "max_subscriptions_per_client t = max_subscriptions_per_client m"
    "max_subscribers_per_conversation t = max_subscribers_per_conversation m"
    by (simp_all add: same_books_def)
  show ?thesis unfolding ws_ok_def same_books_simps [OF assms] eqs ..
qed

lemma same_books_refl [simp]: "same_books m m"
  by (simp add: same_books_def)

lemma same_books_trans: "same_books a b \<Longrightarrow> same_books b c \<Longrightarrow> same_books a c"
  by (simp add: same_books_def)

lemma same_books_count [simp]: "same_books m (count f t) = same_books m t" "same_books (count f m) t = same_books m t"
  by (simp_all add: same_books_def count_def counted_def [abs_def])

lemma same_books_set_client:
  "clients m i = Some c \<Longrightarrow> c_subscription_count d = c_subscription_count c \<Longrightarrow> same_books m (set_client i d m)"
  by (auto simp: same_books_def set_client_def counted_def fun_eq_iff)

lemma counted_set_client [simp]: "counted (set_client i c m) = (counted m)(i := Some (c_subscription_count c))"
  by (auto simp: counted_def set_client_def fun_eq_iff)

lemma count_simps [simp]:
  "clients (count f m) = clients m" "subscriptions (count f m) = subscriptions m"
  "client_subscriptions (count f m) = client_subscriptions m"
  "sequence_numbers (count f m) = sequence_numbers m"
  "subscription_entries (count f m) = subscription_entries m" "session_owners (count f m) = session_owners m"
  "max_subscriptions_per_client (count f m) = max_subscriptions_per_client m"
  "max_subscribers_per_conversation (count f m) = max_subscribers_per_conversation m"
  "subscribers (count f m) = subscribers m" "conversations (count f m) = conversations m"
  "counted (count f m) = counted m"
  by (simp_all add: count_def subscribers_def [abs_def] conversations_def [abs_def] counted_def [abs_def])

lemma ws_ok_count [simp]: "ws_ok (count f m) = ws_ok m"
  by (rule same_books_ok) simp

section \<open>Leaving\<close>

lemma leave_simps [simp]:
  "clients (leave i conv m) = clients m" "client_subscriptions (leave i conv m) = client_subscriptions m"
  "session_owners (leave i conv m) = session_owners m"
  "max_subscriptions_per_client (leave i conv m) = max_subscriptions_per_client m"
  "max_subscribers_per_conversation (leave i conv m) = max_subscribers_per_conversation m"
  "subscription_entries (leave i conv m) = (subscription_entries m)((conv, i) := None)"
  by (auto simp: leave_def Let_def split: option.split)

lemma leave_subscribers:
  "subscribers (leave i conv m) c = (if c = conv then remove1 i (subscribers m c) else subscribers m c)"
  by (auto simp: leave_def Let_def subscribers_def split: option.split)

lemma leave_tidy: "\<forall>c. subscriptions m c \<noteq> Some [] \<Longrightarrow> \<forall>c. subscriptions (leave i conv m) c \<noteq> Some []"
  by (auto simp: leave_def Let_def split: option.split)

lemma leave_number: "subscribers (leave i conv m) c \<noteq> [] \<Longrightarrow> sequence_numbers (leave i conv m) c = sequence_numbers m c"
  by (auto simp: leave_def Let_def subscribers_def split: option.splits if_splits)

lemma leave_all_simps [simp]:
  "clients (fold (leave i) cs m) = clients m" "client_subscriptions (fold (leave i) cs m) = client_subscriptions m"
  "session_owners (fold (leave i) cs m) = session_owners m"
  "max_subscriptions_per_client (fold (leave i) cs m) = max_subscriptions_per_client m"
  "max_subscribers_per_conversation (fold (leave i) cs m) = max_subscribers_per_conversation m"
  by (induction cs arbitrary: m) simp_all

lemma leave_all_entries:
  "subscription_entries (fold (leave i) cs m) (c, j) =
    (if j = i \<and> c \<in> set cs then None else subscription_entries m (c, j))"
  by (induction cs arbitrary: m) auto

lemma leave_all_subscribers:
  "distinct cs \<Longrightarrow> subscribers (fold (leave i) cs m) c =
    (if c \<in> set cs then remove1 i (subscribers m c) else subscribers m c)"
  by (induction cs arbitrary: m) (auto simp: leave_subscribers)

lemma leave_all_tidy: "\<forall>c. subscriptions m c \<noteq> Some [] \<Longrightarrow> \<forall>c. subscriptions (fold (leave i) cs m) c \<noteq> Some []"
proof (induction cs arbitrary: m)
  case (Cons d cs)
  from Cons.IH [OF leave_tidy [OF Cons.prems, of i d]] show ?case by simp
qed simp

lemma leave_all_number:
  "distinct cs \<Longrightarrow> subscribers (fold (leave i) cs m) c \<noteq> [] \<Longrightarrow>
   sequence_numbers (fold (leave i) cs m) c = sequence_numbers m c"
proof (induction cs arbitrary: m)
  case (Cons d cs)
  then have "sequence_numbers (fold (leave i) cs (leave i d m)) c = sequence_numbers (leave i d m) c" by simp
  moreover have "subscribers (leave i d m) c \<noteq> []"
    using Cons.prems by (auto simp: leave_all_subscribers split: if_splits)
  ultimately show ?case by (simp add: leave_number)
qed simp

text \<open>A client that goes leaves nothing behind, and takes nothing of the others with it.\<close>

lemma disconnect_effect:
  assumes "ws_ok m"
  shows "clients (disconnect_internal i m) = (clients m)(i := None)"
    and "client_subscriptions (disconnect_internal i m) = (client_subscriptions m)(i := None)"
    and "subscribers (disconnect_internal i m) c = remove1 i (subscribers m c)"
    and "subscription_entries (disconnect_internal i m) (c, j) = (if j = i then None else subscription_entries m (c, j))"
    and "session_owners (disconnect_internal i m) s = (if session_owners m s = Some i then None else session_owners m s)"
    and "max_subscriptions_per_client (disconnect_internal i m) = max_subscriptions_per_client m"
    and "max_subscribers_per_conversation (disconnect_internal i m) = max_subscribers_per_conversation m"
    and "subscriptions (disconnect_internal i m) c \<noteq> Some []"
    and "subscribers (disconnect_internal i m) c \<noteq> [] \<Longrightarrow>
      sequence_numbers (disconnect_internal i m) c = sequence_numbers m c"
proof -
  let ?m1 = "m\<lparr>session_owners := (\<lambda>s. if session_owners m s = Some i then None else session_owners m s)\<rparr>"
  let ?cs = "conversations m i"
  have d: "distinct ?cs" using assms by (simp add: ws_ok_def)
  have mem: "c \<in> set ?cs \<longleftrightarrow> i \<in> set (subscribers m c)" for c using assms by (simp add: ws_ok_def)
  have ent: "subscription_entries m (c, i) = None" if "c \<notin> set ?cs" for c using assms that mem [of c] by (simp add: ws_ok_def)
  have tidy: "\<forall>c. subscriptions m c \<noteq> Some []" using assms by (simp add: ws_ok_def)
  define u where "u = fold (leave i) ?cs (?m1\<lparr>client_subscriptions := (client_subscriptions m)(i := None)\<rparr>)"
  have base: "subscribers (?m1\<lparr>client_subscriptions := f\<rparr>) c = subscribers m c" for f c by (simp add: subscribers_def)
  have u: "clients u = clients m" "client_subscriptions u = (client_subscriptions m)(i := None)"
    "subscribers u c = remove1 i (subscribers m c)"
    "subscription_entries u (c, j) = (if j = i then None else subscription_entries m (c, j))"
    "session_owners u s = (if session_owners m s = Some i then None else session_owners m s)"
    "max_subscriptions_per_client u = max_subscriptions_per_client m"
    "max_subscribers_per_conversation u = max_subscribers_per_conversation m"
    "subscriptions u c \<noteq> Some []"
    "subscribers u c \<noteq> [] \<Longrightarrow> sequence_numbers u c = sequence_numbers m c" for c j s
    using d mem [of c] ent [of c] leave_all_tidy [of "?m1\<lparr>client_subscriptions := (client_subscriptions m)(i := None)\<rparr>" i ?cs] tidy
      leave_all_number [OF d, of i "?m1\<lparr>client_subscriptions := (client_subscriptions m)(i := None)\<rparr>" c]
    by (auto simp: u_def leave_all_subscribers leave_all_entries base remove1_idem)
  have "client_subscriptions m i = None \<Longrightarrow> u = ?m1"
    by (simp add: u_def conversations_def fun_upd_idem)
  moreover have "count f ((count g x)\<lparr>clients := h\<rparr>) = count (f o g) (x\<lparr>clients := h\<rparr>)" for f g x h
    by (simp add: count_def)
  ultimately have "\<exists>f. disconnect_internal i m = count f (u\<lparr>clients := (clients m)(i := None)\<rparr>)"
    by (cases "client_subscriptions m i") (auto simp: disconnect_internal_def Let_def u_def conversations_def)
  then obtain f where dis: "disconnect_internal i m = count f (u\<lparr>clients := (clients m)(i := None)\<rparr>)" ..
  have "subscribers (x\<lparr>clients := f\<rparr>) c = subscribers x c" for x f c by (simp add: subscribers_def)
  with u show "clients (disconnect_internal i m) = (clients m)(i := None)"
    "client_subscriptions (disconnect_internal i m) = (client_subscriptions m)(i := None)"
    "subscribers (disconnect_internal i m) c = remove1 i (subscribers m c)"
    "subscription_entries (disconnect_internal i m) (c, j) = (if j = i then None else subscription_entries m (c, j))"
    "session_owners (disconnect_internal i m) s = (if session_owners m s = Some i then None else session_owners m s)"
    "max_subscriptions_per_client (disconnect_internal i m) = max_subscriptions_per_client m"
    "max_subscribers_per_conversation (disconnect_internal i m) = max_subscribers_per_conversation m"
    "subscriptions (disconnect_internal i m) c \<noteq> Some []"
    "subscribers (disconnect_internal i m) c \<noteq> [] \<Longrightarrow>
      sequence_numbers (disconnect_internal i m) c = sequence_numbers m c"
    by (simp_all add: dis)
qed


lemma ws_okI:
  assumes "\<And>i. counted m i = map_option length (client_subscriptions m i)"
    and "\<And>i c. c \<in> set (conversations m i) \<longleftrightarrow> i \<in> set (subscribers m c)"
    and "\<And>i. distinct (conversations m i)" and "\<And>c. distinct (subscribers m c)"
    and "\<And>c. subscriptions m c \<noteq> Some []"
    and "\<And>c. subscribers m c \<noteq> [] \<Longrightarrow> sequence_numbers m c \<noteq> None"
    and "\<And>c i. subscription_entries m (c, i) = None \<longleftrightarrow> i \<notin> set (subscribers m c)"
    and "\<And>i. length (conversations m i) \<le> max_subscriptions_per_client m"
    and "\<And>c. length (subscribers m c) \<le> max_subscribers_per_conversation m"
    and "\<And>s i. session_owners m s = Some i \<Longrightarrow> counted m i \<noteq> None"
  shows "ws_ok m"
  unfolding ws_ok_def using assms by blast

lemma ws_okD:
  assumes "ws_ok m"
  shows "counted m i = map_option length (client_subscriptions m i)"
    and "c \<in> set (conversations m i) \<longleftrightarrow> i \<in> set (subscribers m c)"
    and "distinct (conversations m i)" and "distinct (subscribers m c)"
    and "subscriptions m c \<noteq> Some []"
    and "subscribers m c \<noteq> [] \<Longrightarrow> sequence_numbers m c \<noteq> None"
    and "subscription_entries m (c, i) = None \<longleftrightarrow> i \<notin> set (subscribers m c)"
    and "length (conversations m i) \<le> max_subscriptions_per_client m"
    and "length (subscribers m c) \<le> max_subscribers_per_conversation m"
    and "session_owners m s = Some i \<Longrightarrow> counted m i \<noteq> None"
  using assms unfolding ws_ok_def by blast+

lemma counted_known: "ws_ok m \<Longrightarrow> clients m i = None \<longleftrightarrow> client_subscriptions m i = None"
  using ws_okD(1) [of m i] by (auto simp: counted_def)

lemma ws_ok_disconnect:
  assumes "ws_ok m"
  shows "ws_ok (disconnect_internal i m)"
proof -
  note e = disconnect_effect [OF assms] and d = ws_okD [OF assms]
  have counted: "counted (disconnect_internal i m) = (counted m)(i := None)"
    by (auto simp: counted_def e)
  have convs: "conversations (disconnect_internal i m) j = (if j = i then [] else conversations m j)" for j
    by (simp add: conversations_def e)
  show ?thesis
  proof (rule ws_okI)
    fix j c s
    show "counted (disconnect_internal i m) j = map_option length (client_subscriptions (disconnect_internal i m) j)"
      using d(1) by (simp add: counted e)
    show "c \<in> set (conversations (disconnect_internal i m) j) \<longleftrightarrow> j \<in> set (subscribers (disconnect_internal i m) c)"
      using d(2) [of c j] d(4) [of c] by (simp add: convs e)
    show "distinct (conversations (disconnect_internal i m) j)" using d(3) by (simp add: convs)
    show "distinct (subscribers (disconnect_internal i m) c)" using d(4) by (simp add: e)
    show "subscriptions (disconnect_internal i m) c \<noteq> Some []" by (rule e(8))
    show "sequence_numbers (disconnect_internal i m) c \<noteq> None" if "subscribers (disconnect_internal i m) c \<noteq> []"
    proof -
      from that have "subscribers m c \<noteq> []" by (auto simp: e)
      with d(6) e(9) [OF that] show ?thesis by simp
    qed
    show "subscription_entries (disconnect_internal i m) (c, j) = None \<longleftrightarrow> j \<notin> set (subscribers (disconnect_internal i m) c)"
      using d(7) [of c j] d(4) [of c] by (simp add: e)
    show "length (conversations (disconnect_internal i m) j) \<le> max_subscriptions_per_client (disconnect_internal i m)"
      using d(8) [of j] by (simp add: convs e)
    show "length (subscribers (disconnect_internal i m) c) \<le> max_subscribers_per_conversation (disconnect_internal i m)"
      using d(9) [of c] by (auto simp: e length_remove1)
    show "counted (disconnect_internal i m) j \<noteq> None" if "session_owners (disconnect_internal i m) s = Some j"
      using that d(10) [of s j] by (auto simp: e counted split: if_splits)
  qed
qed

lemma ws_ok_disconnect_all: "ws_ok m \<Longrightarrow> ws_ok (fold disconnect_internal is m)"
  by (induction "is" arbitrary: m) (simp_all add: ws_ok_disconnect)

lemma ws_ok_clean_dead: "ws_ok m \<Longrightarrow> ws_ok (fold clean_dead is m)"
  by (induction "is" arbitrary: m) (simp_all add: clean_dead_def ws_ok_disconnect)

lemma ws_ok_connect:
  assumes "ws_ok m" and "clients m i = None"
  shows "ws_ok (connect now i m)"
proof -
  note d = ws_okD [OF assms(1)]
  from assms have none: "client_subscriptions m i = None" by (simp add: counted_known)
  then have convs: "conversations (connect now i m) = conversations m"
    by (auto simp: fun_eq_iff conversations_def connect_def)
  have subs: "subscribers (connect now i m) = subscribers m"
    by (auto simp: fun_eq_iff subscribers_def connect_def)
  have counted: "counted (connect now i m) = (counted m)(i := Some 0)"
    by (auto simp: fun_eq_iff counted_def connect_def)
  have fields: "client_subscriptions (connect now i m) = (client_subscriptions m)(i := Some [])"
    "subscriptions (connect now i m) = subscriptions m" "sequence_numbers (connect now i m) = sequence_numbers m"
    "subscription_entries (connect now i m) = subscription_entries m" "session_owners (connect now i m) = session_owners m"
    "max_subscriptions_per_client (connect now i m) = max_subscriptions_per_client m"
    "max_subscribers_per_conversation (connect now i m) = max_subscribers_per_conversation m"
    by (simp_all add: connect_def)
  show ?thesis
  proof (rule ws_okI)
    show "counted (connect now i m) j \<noteq> None" if "session_owners (connect now i m) s = Some j" for s j
      using that d(10) [of s j] by (auto simp: counted fields)
  qed (simp_all add: convs subs counted fields d(1-9))
qed

lemma same_books_small:
  "same_books m (set_surface_catalogs now i cs m)"
  "same_books m (touch_client now i m)"
  "same_books m (broadcast_global msg m)"
  "same_books m (snd (send_to_client i msg m))"
  by (auto simp: set_surface_catalogs_def touch_client_def send_to_client_def same_books_set_client
      split: option.split)
    (auto simp: same_books_def broadcast_global_def counted_def fun_eq_iff option.map_comp o_def
      intro!: option.map_cong)

lemma ws_ok_bind: "ws_ok m \<Longrightarrow> ws_ok (bind_session_owner i sid m)"
proof (cases "clients m i = None")
  case False
  assume ok: "ws_ok m"
  note d = ws_okD [OF ok]
  let ?t = "m\<lparr>session_owners := (session_owners m)(sid := Some i)\<rparr>"
  have eqs: "conversations ?t = conversations m" "subscribers ?t = subscribers m" "counted ?t = counted m"
    by (auto simp: fun_eq_iff conversations_def subscribers_def counted_def)
  have "counted m i \<noteq> None" using False by (simp add: counted_def)
  with d(10) have "counted m j \<noteq> None" if "session_owners ?t s = Some j" for s j
    using that by (auto split: if_splits)
  with d have "ws_ok ?t" by (intro ws_okI) (simp_all add: eqs)
  with False show ?thesis by (simp add: bind_session_owner_def)
qed (simp add: bind_session_owner_def)


lemma current_sequence_known: "sequence_numbers m c \<noteq> None \<Longrightarrow> sequence_numbers m c = Some (current_sequence c m)"
  by (auto simp: current_sequence_def)

lemma subscribe_cases:
  obtains (kept) "same_books m (snd (subscribe_with_scope i conv scope st m))"
    "clients (snd (subscribe_with_scope i conv scope st m)) = clients m"
  | (rescoped) e where "i \<in> set (subscribers m conv)" "subscription_entries m (conv, i) = Some e"
      "snd (subscribe_with_scope i conv scope st m) = m\<lparr>subscription_entries := (subscription_entries m)((conv, i) :=
        Some (e\<lparr>e_scope := scope, e_scope_state := st\<rparr>))\<rparr>"
  | (added) c where "clients m i = Some c" "c_subscription_count c < max_subscriptions_per_client m"
      "i \<notin> set (subscribers m conv)" "length (subscribers m conv) < max_subscribers_per_conversation m"
      "snd (subscribe_with_scope i conv scope st m) = count (\<lambda>x. x\<lparr>total_subscriptions := total_subscriptions x + 1\<rparr>)
              (m\<lparr>subscriptions := (subscriptions m)(conv := Some (i # subscribers m conv)),
                client_subscriptions := (client_subscriptions m)(i :=
                  map_option (List.insert conv) (client_subscriptions m i)),
                clients := (clients m)(i := Some (c\<lparr>c_subscription_count := c_subscription_count c + 1\<rparr>)),
                subscription_entries := (subscription_entries m)((conv, i) :=
                  Some \<lparr>e_scope = scope, e_scope_state = st\<rparr>),
                sequence_numbers := (sequence_numbers m)(conv := Some (current_sequence conv m))\<rparr>)"
proof (cases "clients m i")
  case None
  then show thesis by (intro kept) (simp_all add: subscribe_with_scope_def)
next
  case (Some c)
  show thesis
  proof (cases "max_subscriptions_per_client m \<le> c_subscription_count c")
    case True
    with Some show thesis by (intro kept) (simp_all add: subscribe_with_scope_def)
  next
    case few: False
    show thesis
    proof (cases "i \<in> set (subscribers m conv)")
      case True
      show thesis
      proof (cases "subscription_entries m (conv, i)")
        case None
        with Some few True show thesis by (intro kept) (simp_all add: subscribe_with_scope_def)
      next
        case (Some e)
        note known = this \<open>clients m i = Some c\<close> few True
        show thesis
        proof (cases "e_scope e = scope")
          case True
          with known show thesis by (intro kept) (simp_all add: subscribe_with_scope_def)
        next
          case False
          with known show thesis by (intro rescoped [of e]) (simp_all add: subscribe_with_scope_def)
        qed
      qed
    next
      case False
      note known = this Some few
      show thesis
      proof (cases "max_subscribers_per_conversation m \<le> length (subscribers m conv)")
        case True
        with known show thesis by (intro kept) (simp_all add: subscribe_with_scope_def)
      next
        case False
        with known show thesis by (intro added [of c]) (simp_all add: subscribe_with_scope_def)
      qed
    qed
  qed
qed

lemma ws_ok_rescope:
  assumes "ws_ok m" and "i \<in> set (subscribers m conv)"
  shows "ws_ok (m\<lparr>subscription_entries := (subscription_entries m)((conv, i) := Some e)\<rparr>)"
proof -
  note d = ws_okD [OF assms(1)]
  let ?t = "m\<lparr>subscription_entries := (subscription_entries m)((conv, i) := Some e)\<rparr>"
  have eqs: "conversations ?t = conversations m" "subscribers ?t = subscribers m" "counted ?t = counted m"
    by (auto simp: fun_eq_iff conversations_def subscribers_def counted_def)
  show ?thesis
  proof (rule ws_okI)
    show "counted ?t j \<noteq> None" if "session_owners ?t s = Some j" for s j
      using that d(10) [of s j] by (simp add: eqs)
    show "subscription_entries ?t (c, j) = None \<longleftrightarrow> j \<notin> set (subscribers ?t c)" for c j
      using d(7) [of c j] assms(2) by (auto simp: eqs)
  qed (simp_all add: eqs d(1-6,8,9))
qed

lemma ws_ok_subscribe:
  assumes "ws_ok m"
  shows "ws_ok (snd (subscribe_with_scope i conv scope st m))"
proof (cases rule: subscribe_cases [of m i conv scope st])
  case kept
  with assms show ?thesis by (simp add: same_books_ok)
next
  case (rescoped e)
  with assms show ?thesis by (simp add: ws_ok_rescope)
next
  case (added c)
  note d = ws_okD [OF assms]
  define u where "u = m\<lparr>subscriptions := (subscriptions m)(conv := Some (i # subscribers m conv)),
                client_subscriptions := (client_subscriptions m)(i :=
                  map_option (List.insert conv) (client_subscriptions m i)),
                clients := (clients m)(i := Some (c\<lparr>c_subscription_count := c_subscription_count c + 1\<rparr>)),
                subscription_entries := (subscription_entries m)((conv, i) :=
                  Some \<lparr>e_scope = scope, e_scope_state = st\<rparr>),
                sequence_numbers := (sequence_numbers m)(conv := Some (current_sequence conv m))\<rparr>"
  from added(1) assms obtain cs where cs: "client_subscriptions m i = Some cs" "length cs = c_subscription_count c"
    using d(1) [of i] by (cases "client_subscriptions m i") (auto simp: counted_def)
  then have convs_i: "conversations m i = cs" by (simp add: conversations_def)
  with d(2) [of conv i] added(3) have new: "conv \<notin> set cs" by simp
  have convs: "conversations u j = (if j = i then conv # cs else conversations m j)" for j
    using cs(1) new by (simp add: conversations_def u_def)
  have subs: "subscribers u k = (if k = conv then i # subscribers m conv else subscribers m k)" for k
    by (simp add: subscribers_def u_def)
  have counted: "counted u = (counted m)(i := Some (c_subscription_count c + 1))"
    by (auto simp: fun_eq_iff counted_def u_def)
  have fields: "client_subscriptions u = (client_subscriptions m)(i := Some (conv # cs))"
    "subscriptions u = (subscriptions m)(conv := Some (i # subscribers m conv))"
    "subscription_entries u = (subscription_entries m)((conv, i) := Some \<lparr>e_scope = scope, e_scope_state = st\<rparr>)"
    "sequence_numbers u = (sequence_numbers m)(conv := Some (current_sequence conv m))"
    "session_owners u = session_owners m" "max_subscriptions_per_client u = max_subscriptions_per_client m"
    "max_subscribers_per_conversation u = max_subscribers_per_conversation m"
    using cs(1) new by (simp_all add: u_def)
  have "ws_ok u"
  proof (rule ws_okI)
    fix j k s
    show "counted u j = map_option length (client_subscriptions u j)"
      using d(1) [of j] cs new by (simp add: counted fields)
    show "k \<in> set (conversations u j) \<longleftrightarrow> j \<in> set (subscribers u k)"
      using d(2) [of k j] convs_i by (auto simp: convs subs)
    show "distinct (conversations u j)" using d(3) [of j] convs_i new by (auto simp: convs)
    show "distinct (subscribers u k)" using d(4) [of k] added(3) by (auto simp: subs)
    show "subscriptions u k \<noteq> Some []" using d(5) [of k] by (simp add: fields)
    show "sequence_numbers u k \<noteq> None" if "subscribers u k \<noteq> []"
      using that d(6) [of k] by (auto simp: subs fields split: if_splits)
    show "subscription_entries u (k, j) = None \<longleftrightarrow> j \<notin> set (subscribers u k)"
      using d(7) [of k j] by (auto simp: subs fields)
    show "length (conversations u j) \<le> max_subscriptions_per_client u"
      using d(8) [of j] added(2) cs(2) by (auto simp: convs fields)
    show "length (subscribers u k) \<le> max_subscribers_per_conversation u"
      using d(9) [of k] added(4) by (auto simp: subs fields)
    show "counted u j \<noteq> None" if "session_owners u s = Some j"
      using that d(10) [of s j] by (auto simp: counted fields)
  qed
  then show ?thesis unfolding added(5) u_def [symmetric] by simp
qed

lemma unsubscribe_effect:
  assumes "ws_ok m" and "i \<in> set (subscribers m conv)"
  shows "subscribers (unsubscribe i conv m) k = (if k = conv then remove1 i (subscribers m k) else subscribers m k)"
    and "client_subscriptions (unsubscribe i conv m) = (client_subscriptions m)(i := Some (remove1 conv (conversations m i)))"
    and "counted (unsubscribe i conv m) = (counted m)(i := Some (length (conversations m i) - 1))"
    and "subscription_entries (unsubscribe i conv m) = (subscription_entries m)((conv, i) := None)"
    and "session_owners (unsubscribe i conv m) = session_owners m"
    and "max_subscriptions_per_client (unsubscribe i conv m) = max_subscriptions_per_client m"
    and "max_subscribers_per_conversation (unsubscribe i conv m) = max_subscribers_per_conversation m"
    and "subscriptions (unsubscribe i conv m) k \<noteq> Some []"
    and "subscribers (unsubscribe i conv m) k \<noteq> [] \<Longrightarrow> sequence_numbers (unsubscribe i conv m) k = sequence_numbers m k"
    and "clients (unsubscribe i conv m) i \<noteq> None"
    and "j \<noteq> i \<Longrightarrow> clients (unsubscribe i conv m) j = clients m j"
proof -
  note d = ws_okD [OF assms(1)]
  from d(2) [of conv i] assms(2) have mem: "conv \<in> set (conversations m i)" by simp
  then obtain cs where cs: "client_subscriptions m i = Some cs" "conversations m i = cs"
    by (cases "client_subscriptions m i") (auto simp: conversations_def)
  with d(1) [of i] obtain c where c: "clients m i = Some c" "c_subscription_count c = length cs"
    by (cases "clients m i") (auto simp: counted_def)
  show "subscribers (unsubscribe i conv m) k = (if k = conv then remove1 i (subscribers m k) else subscribers m k)"
    "client_subscriptions (unsubscribe i conv m) = (client_subscriptions m)(i := Some (remove1 conv (conversations m i)))"
    "counted (unsubscribe i conv m) = (counted m)(i := Some (length (conversations m i) - 1))"
    "subscription_entries (unsubscribe i conv m) = (subscription_entries m)((conv, i) := None)"
    "session_owners (unsubscribe i conv m) = session_owners m"
    "max_subscriptions_per_client (unsubscribe i conv m) = max_subscriptions_per_client m"
    "max_subscribers_per_conversation (unsubscribe i conv m) = max_subscribers_per_conversation m"
    "subscriptions (unsubscribe i conv m) k \<noteq> Some []"
    "subscribers (unsubscribe i conv m) k \<noteq> [] \<Longrightarrow> sequence_numbers (unsubscribe i conv m) k = sequence_numbers m k"
    "clients (unsubscribe i conv m) i \<noteq> None"
    "j \<noteq> i \<Longrightarrow> clients (unsubscribe i conv m) j = clients m j"
    using assms(2) cs c d(5) [of k]
    by (auto simp: unsubscribe_def Let_def count_def set_client_def subscribers_def counted_def fun_eq_iff split: if_splits)
qed

lemma ws_ok_unsubscribe:
  assumes "ws_ok m"
  shows "ws_ok (unsubscribe i conv m)"
proof (cases "i \<in> set (subscribers m conv)")
  case False
  with assms show ?thesis by (simp add: unsubscribe_def)
next
  case True
  note d = ws_okD [OF assms] and e = unsubscribe_effect [OF assms True]
  from d(2) [of conv i] True have mem: "conv \<in> set (conversations m i)" by simp
  have convs: "conversations (unsubscribe i conv m) j = (if j = i then remove1 conv (conversations m i) else conversations m j)" for j
    by (simp add: conversations_def [of "unsubscribe i conv m"] e) (simp add: conversations_def)
  show ?thesis
  proof (rule ws_okI)
    fix j k s
    show "counted (unsubscribe i conv m) j = map_option length (client_subscriptions (unsubscribe i conv m) j)"
      using d(1) [of j] mem by (simp add: e length_remove1)
    show "k \<in> set (conversations (unsubscribe i conv m) j) \<longleftrightarrow> j \<in> set (subscribers (unsubscribe i conv m) k)"
      using d(2) [of k j] d(3) [of i] d(4) [of k] by (auto simp: convs e)
    show "distinct (conversations (unsubscribe i conv m) j)" using d(3) by (simp add: convs)
    show "distinct (subscribers (unsubscribe i conv m) k)" using d(4) by (simp add: e)
    show "subscriptions (unsubscribe i conv m) k \<noteq> Some []" by (rule e(8))
    show "sequence_numbers (unsubscribe i conv m) k \<noteq> None" if "subscribers (unsubscribe i conv m) k \<noteq> []"
    proof -
      from that have "subscribers m k \<noteq> []" by (auto simp: e(1) split: if_splits)
      with d(6) e(9) [OF that] show ?thesis by simp
    qed
    show "subscription_entries (unsubscribe i conv m) (k, j) = None \<longleftrightarrow> j \<notin> set (subscribers (unsubscribe i conv m) k)"
      using d(7) [of k j] d(4) [of k] by (auto simp: e)
    show "length (conversations (unsubscribe i conv m) j) \<le> max_subscriptions_per_client (unsubscribe i conv m)"
      using d(8) [of j] by (auto simp: convs e length_remove1)
    show "length (subscribers (unsubscribe i conv m) k) \<le> max_subscribers_per_conversation (unsubscribe i conv m)"
      using d(9) [of k] by (auto simp: e length_remove1)
    show "counted (unsubscribe i conv m) j \<noteq> None" if "session_owners (unsubscribe i conv m) s = Some j"
      using that d(10) [of s j] by (auto simp: e)
  qed
qed
end
