(* ===== verification/Ws_Routing.thy ===== *)
theory Ws_Routing
  imports Ws_Books
begin

text \<open>
  What one route does: which channels it writes to, which clients it drops, and which number the
  conversation has afterwards.
\<close>

section \<open>Sending\<close>

text \<open>What the filters of a route look at: the books and the catalogs of the clients.\<close>

definition same_views :: "manager \<Rightarrow> manager \<Rightarrow> bool" where
  "same_views m t \<longleftrightarrow> same_books m t \<and>
     (\<forall>i. map_option c_surface_catalogs (clients t i) = map_option c_surface_catalogs (clients m i))"

definition looks_at_views :: "(manager \<Rightarrow> string \<Rightarrow> bool) \<Rightarrow> bool" where
  "looks_at_views wanted \<longleftrightarrow> (\<forall>m t. same_views m t \<longrightarrow> wanted t = wanted m)"

lemma same_views_refl [simp]: "same_views m m"
  by (simp add: same_views_def)

lemma same_views_trans: "same_views a b \<Longrightarrow> same_views b c \<Longrightarrow> same_views a c"
  by (auto simp: same_views_def intro: same_books_trans)

lemma looks_at_views_all: "looks_at_views (\<lambda>_ _. True)"
  by (simp add: looks_at_views_def)

lemma looks_at_views_scoped: "looks_at_views (wanted_scoped conv msg md)"
proof -
  have "wanted_scoped conv msg md t i = wanted_scoped conv msg md m i" if "same_views m t" for m t i
  proof -
    from that have "subscription_entries t = subscription_entries m"
      "map_option c_surface_catalogs (clients t i) = map_option c_surface_catalogs (clients m i)"
      by (simp_all add: same_views_def same_books_def)
    then show ?thesis
      by (cases "clients t i"; cases "clients m i") (simp_all add: wanted_scoped_def in_scope_def shows_surfaces_def)
  qed
  then show ?thesis by (auto simp: looks_at_views_def fun_eq_iff)
qed

definition has_channel :: "manager \<Rightarrow> string \<Rightarrow> bool" where
  "has_channel m i = (case clients m i of None \<Rightarrow> False | Some c \<Rightarrow> c_open c)"

definition is_dead :: "manager \<Rightarrow> string \<Rightarrow> bool" where
  "is_dead m i = (case clients m i of None \<Rightarrow> False | Some c \<Rightarrow> \<not> c_open c)"

definition after_send :: "nat \<Rightarrow> server_message \<Rightarrow> ws_client \<Rightarrow> ws_client" where
  "after_send now msg c =
     (if c_open c then c\<lparr>c_sent := c_sent c @ [msg], c_last_activity := now\<rparr> else c\<lparr>c_channel_healthy := False\<rparr>)"

lemma send_one_eq:
  "send_one now msg i (r, m) =
    (if has_channel m i then r\<lparr>rr_sent := rr_sent r + 1\<rparr>
     else if is_dead m i then r\<lparr>rr_dropped := rr_dropped r + 1, rr_dead_clients := rr_dead_clients r @ [i]\<rparr>
     else r,
     case clients m i of None \<Rightarrow> m | Some c \<Rightarrow> set_client i (after_send now msg c) m)"
  by (auto simp: send_one_def has_channel_def is_dead_def after_send_def split: option.split)

lemma send_one_views: "same_views m (snd (send_one now msg i (r, m)))"
proof (cases "clients m i")
  case (Some c)
  then have "same_books m (set_client i (after_send now msg c) m)"
    by (rule same_books_set_client) (simp add: after_send_def)
  with Some show ?thesis by (simp add: send_one_eq same_views_def) (simp add: set_client_def after_send_def)
qed (simp add: send_one_eq)

lemma send_all:
  assumes "looks_at_views wanted" and "distinct ids"
    and "fold (\<lambda>i (r, t). if wanted t i then send_one now msg i (r, t) else (r, t)) ids (r, m) = (r', t)"
  shows "same_views m t \<and>
    clients t = (\<lambda>i. if i \<in> set ids \<and> wanted m i then map_option (after_send now msg) (clients m i) else clients m i) \<and>
    rr_dead_clients r' = rr_dead_clients r @ filter (\<lambda>i. wanted m i \<and> is_dead m i) ids \<and>
    rr_sent r' = rr_sent r + word_of_nat (length (filter (\<lambda>i. wanted m i \<and> has_channel m i) ids))"
  using assms(2,3)
proof (induction ids arbitrary: r m)
  case (Cons i ids)
  show ?case
  proof (cases "wanted m i")
    case False
    with Cons show ?thesis by auto
  next
    case True
    obtain s u where u: "send_one now msg i (r, m) = (s, u)" by (cases "send_one now msg i (r, m)")
    with Cons.prems True have rest: "fold (\<lambda>i (r, t). if wanted t i then send_one now msg i (r, t) else (r, t)) ids (s, u) = (r', t)"
      by simp
    from send_one_views [of m now msg i r] u have views: "same_views m u" by simp
    with assms(1) have want: "wanted u = wanted m" by (simp add: looks_at_views_def)
    from u have cu: "clients u = (clients m)(i := map_option (after_send now msg) (clients m i))"
      by (auto simp: send_one_eq set_client_def fun_eq_iff split: option.splits)
    then have same: "clients u j = clients m j" if "j \<in> set ids" for j using that Cons.prems(1) by auto
    then have flt: "filter (\<lambda>j. wanted m j \<and> is_dead u j) ids = filter (\<lambda>j. wanted m j \<and> is_dead m j) ids"
      "filter (\<lambda>j. wanted m j \<and> has_channel u j) ids = filter (\<lambda>j. wanted m j \<and> has_channel m j) ids"
      by (auto simp: is_dead_def has_channel_def intro!: filter_cong)
    have s: "rr_dead_clients s = rr_dead_clients r @ (if is_dead m i then [i] else [])"
      "rr_sent s = rr_sent r + (if has_channel m i then 1 else 0)"
      using u by (auto simp: send_one_eq is_dead_def has_channel_def split: option.splits)
    from Cons.IH [OF _ rest] Cons.prems(1) have IH: "same_views u t"
      "clients t = (\<lambda>j. if j \<in> set ids \<and> wanted m j then map_option (after_send now msg) (clients u j) else clients u j)"
      "rr_dead_clients r' = rr_dead_clients s @ filter (\<lambda>j. wanted m j \<and> is_dead m j) ids"
      "rr_sent r' = rr_sent s + word_of_nat (length (filter (\<lambda>j. wanted m j \<and> has_channel m j) ids))"
      by (simp_all add: want flt)
    have "clients t = (\<lambda>j. if j \<in> set (i # ids) \<and> wanted m j then map_option (after_send now msg) (clients m j) else clients m j)"
      using IH(2) True Cons.prems(1) by (auto simp: fun_eq_iff cu)
    with IH s True same_views_trans [OF views IH(1)] show ?thesis by simp
  qed
qed simp

section \<open>Dropping the dead\<close>

lemma clean_effect:
  assumes "ws_ok m"
  shows "clients (fold clean_dead ds m) i = (if i \<in> set ds then None else clients m i)"
    and "set (subscribers (fold clean_dead ds m) c) = set (subscribers m c) - set ds"
    and "subscribers (fold clean_dead ds m) c \<noteq> [] \<Longrightarrow>
      sequence_numbers (fold clean_dead ds m) c = sequence_numbers m c"
proof -
  have "clients (fold clean_dead ds m) i = (if i \<in> set ds then None else clients m i) \<and>
    set (subscribers (fold clean_dead ds m) c) = set (subscribers m c) - set ds \<and>
    (subscribers (fold clean_dead ds m) c \<noteq> [] \<longrightarrow>
      sequence_numbers (fold clean_dead ds m) c = sequence_numbers m c)"
    using assms
  proof (induction ds arbitrary: m)
    case (Cons d ds)
    have ok: "ws_ok (clean_dead d m)" using Cons.prems by (simp add: clean_dead_def ws_ok_disconnect)
    note e = disconnect_effect [OF Cons.prems, of d]
    have sub: "subscribers (clean_dead d m) c = remove1 d (subscribers m c)" by (simp add: clean_dead_def e)
    have IH: "clients (fold clean_dead ds (clean_dead d m)) i = (if i \<in> set ds then None else clients (clean_dead d m) i)"
      "set (subscribers (fold clean_dead ds (clean_dead d m)) c) = set (subscribers (clean_dead d m) c) - set ds"
      "subscribers (fold clean_dead ds (clean_dead d m)) c \<noteq> [] \<Longrightarrow>
        sequence_numbers (fold clean_dead ds (clean_dead d m)) c = sequence_numbers (clean_dead d m) c"
      using Cons.IH [OF ok] by blast+
    have num: "sequence_numbers (clean_dead d m) c = sequence_numbers m c" if "subscribers (clean_dead d m) c \<noteq> []"
      using that e(9) by (simp add: clean_dead_def)
    have "subscribers (clean_dead d m) c \<noteq> []" if "subscribers (fold clean_dead ds (clean_dead d m)) c \<noteq> []"
    proof
      assume "subscribers (clean_dead d m) c = []"
      with IH(2) have "set (subscribers (fold clean_dead ds (clean_dead d m)) c) = {}" by simp
      with that show False by simp
    qed
    with IH(3) num have "subscribers (fold clean_dead (d # ds) m) c \<noteq> [] \<longrightarrow>
      sequence_numbers (fold clean_dead (d # ds) m) c = sequence_numbers m c" by simp
    moreover have "set (subscribers (fold clean_dead (d # ds) m) c) = set (subscribers m c) - set (d # ds)"
      using IH(2) ws_okD(4) [OF Cons.prems, of c] by (auto simp: sub)
    moreover have "clients (fold clean_dead (d # ds) m) i = (if i \<in> set (d # ds) then None else clients m i)"
      using IH(1) by (simp add: clean_dead_def e)
    ultimately show ?case by blast
  qed simp
  then show "clients (fold clean_dead ds m) i = (if i \<in> set ds then None else clients m i)"
    "set (subscribers (fold clean_dead ds m) c) = set (subscribers m c) - set ds"
    "subscribers (fold clean_dead ds m) c \<noteq> [] \<Longrightarrow>
      sequence_numbers (fold clean_dead ds m) c = sequence_numbers m c" by blast+
qed

section \<open>A route\<close>

lemma next_number_simps [simp]:
  "clients (next_number conv m) = clients m" "subscribers (next_number conv m) = subscribers m"
  "subscription_entries (next_number conv m) = subscription_entries m"
  "sequence_numbers (next_number conv m) = (sequence_numbers m)(conv := Some (current_sequence conv m + 1))"
  "current_sequence conv (next_number conv m) = current_sequence conv m + 1"
  by (auto simp: next_number_def subscribers_def fun_eq_iff current_sequence_def)

lemma ws_ok_next_number:
  assumes "ws_ok m"
  shows "ws_ok (next_number conv m)"
proof -
  note d = ws_okD [OF assms]
  have eqs: "conversations (next_number conv m) = conversations m" "counted (next_number conv m) = counted m"
    "client_subscriptions (next_number conv m) = client_subscriptions m" "subscriptions (next_number conv m) = subscriptions m"
    "session_owners (next_number conv m) = session_owners m"
    "max_subscriptions_per_client (next_number conv m) = max_subscriptions_per_client m"
    "max_subscribers_per_conversation (next_number conv m) = max_subscribers_per_conversation m"
    by (auto simp: next_number_def fun_eq_iff conversations_def counted_def)
  show ?thesis
  proof (rule ws_okI)
    show "counted (next_number conv m) j \<noteq> None" if "session_owners (next_number conv m) s = Some j" for s j
      using that d(10) [of s j] by (simp add: eqs)
    show "sequence_numbers (next_number conv m) c \<noteq> None" if "subscribers (next_number conv m) c \<noteq> []" for c
      using that d(6) [of c] by auto
  qed (simp_all add: eqs d(1-5,7-9))
qed

text \<open>What one route does to the clients, the numbers and the books.\<close>

lemma route_effect:
  assumes "looks_at_views wanted" and "ws_ok m"
    and "\<And>i. wanted (next_number conv m) i = wanted m i"
    and "route_to now wanted conv msg m = (r, t)"
  shows "ws_ok t"
    and "clients t i = (if i \<in> set (subscribers m conv) \<and> wanted m i
      then if has_channel m i
        then map_option (after_send now (with_sequence (current_sequence conv m + 1) msg)) (clients m i)
        else None
      else clients m i)"
    and "set (subscribers t c) = set (subscribers m c) - set (rr_dead_clients r)"
    and "rr_dead_clients r = filter (\<lambda>i. wanted m i \<and> is_dead m i) (subscribers m conv)"
    and "rr_sent r = word_of_nat (length (filter (\<lambda>i. wanted m i \<and> has_channel m i) (subscribers m conv)))"
    and "subscribers t c \<noteq> [] \<Longrightarrow> sequence_numbers t c = sequence_numbers (next_number conv m) c"
proof -
  let ?m1 = "next_number conv m" and ?msg = "with_sequence (current_sequence conv m + 1) msg"
  let ?ids = "subscribers m conv"
  let ?dead = "filter (\<lambda>i. wanted m i \<and> is_dead m i) ?ids"
  have w: "wanted ?m1 = wanted m" using assms(3) by (simp add: fun_eq_iff)
  obtain r' u where fold: "fold (\<lambda>i (r, t). if wanted t i then send_one now ?msg i (r, t) else (r, t)) ?ids (no_result, ?m1) = (r', u)"
    by (cases "fold (\<lambda>i (r, t). if wanted t i then send_one now ?msg i (r, t) else (r, t)) ?ids (no_result, ?m1)")
  have same_state: "is_dead ?m1 = is_dead m" "has_channel ?m1 = has_channel m"
    by (simp_all add: fun_eq_iff is_dead_def has_channel_def)
  have "distinct ?ids" by (rule ws_okD(4) [OF assms(2)])
  from send_all [OF assms(1) this fold] have u: "same_views ?m1 u"
    "clients u = (\<lambda>i. if i \<in> set ?ids \<and> wanted m i then map_option (after_send now ?msg) (clients m i) else clients m i)"
    "rr_dead_clients r' = ?dead"
    "rr_sent r' = word_of_nat (length (filter (\<lambda>i. wanted m i \<and> has_channel m i) ?ids))"
    by (simp_all add: w no_result_def same_state cong: if_cong)
  from u(1) have books: "same_books ?m1 u" by (simp add: same_views_def)
  then have ok: "ws_ok u" using ws_ok_next_number [OF assms(2)] by (simp add: same_books_ok)
  have subs: "subscribers u = subscribers m" "sequence_numbers u = sequence_numbers ?m1"
    using books by (simp_all add: same_books_simps(1)) (simp add: same_books_def)
  have run: "r = r' \<and> (\<exists>f. t = count f (fold clean_dead ?dead u))" if "?ids \<noteq> []"
  proof -
    have "route_to now wanted conv msg m = (r', count (\<lambda>x. x\<lparr>events_routed := events_routed x + rr_sent r',
             events_dropped := events_dropped x + rr_dropped r'\<rparr>) (fold clean_dead (rr_dead_clients r') u))"
      unfolding route_to_def Let_def next_number_simps by (simp only: fold that if_False prod.case)
    with assms(4) u(3) show ?thesis by auto
  qed
  have idle: "r = no_result" "t = ?m1" if "?ids = []"
    using assms(4) that by (simp_all add: route_to_def Let_def)
  note clean = clean_effect [OF ok, of ?dead]
  have chan: "map_option (after_send now ?msg) (clients m i) = None" if "\<not> has_channel m i" "\<not> is_dead m i"
    using that by (auto simp: has_channel_def is_dead_def split: option.splits)
  have excl: "has_channel m i \<Longrightarrow> \<not> is_dead m i" for i by (auto simp: has_channel_def is_dead_def split: option.splits)
  show "ws_ok t"
    using run idle ws_ok_clean_dead [OF ok] ws_ok_next_number [OF assms(2)] by (cases "?ids = []") auto
  show "clients t i = (if i \<in> set ?ids \<and> wanted m i
      then if has_channel m i then map_option (after_send now ?msg) (clients m i) else None else clients m i)"
  proof (cases "?ids = []")
    case False
    with run obtain f where "t = count f (fold clean_dead ?dead u)" by blast
    then have "clients t i = (if i \<in> set ?dead then None else clients u i)" using clean(1) [of i] by simp
    then show ?thesis using chan excl [of i] by (auto simp: u(2))
  qed (use idle in simp)
  show "rr_dead_clients r = ?dead" using run idle u(3) by (cases "?ids = []") (auto simp: no_result_def)
  show "rr_sent r = word_of_nat (length (filter (\<lambda>i. wanted m i \<and> has_channel m i) ?ids))"
    using run idle u(4) by (cases "?ids = []") (auto simp: no_result_def)
  show "set (subscribers t c) = set (subscribers m c) - set (rr_dead_clients r)"
  proof (cases "?ids = []")
    case False
    with run obtain f where "t = count f (fold clean_dead ?dead u)" "r = r'" by blast
    then show ?thesis using clean(2) [of c] by (simp add: subs u(3))
  qed (use idle in \<open>simp add: no_result_def\<close>)
  show "sequence_numbers t c = sequence_numbers ?m1 c" if "subscribers t c \<noteq> []"
  proof (cases "?ids = []")
    case False
    with run obtain f where "t = count f (fold clean_dead ?dead u)" by blast
    then show ?thesis using clean(3) [of c] that by (simp add: subs)
  qed (use idle in simp)
qed

lemma wanted_next_number: "wanted_scoped conv msg md (next_number c m) i = wanted_scoped conv msg md m i"
  by (simp add: wanted_scoped_def in_scope_def shows_surfaces_def)

end
