(* ===== verification/Ws_History.thy ===== *)
theory Ws_History
  imports Ws_Routing
begin

text \<open>
  Histories of the subscription manager and its properties: consistency, delivery, what is left
  of a client that has gone, and the numbers a subscriber sees.
\<close>

section \<open>Histories\<close>

text \<open>The receiving half of a channel goes when the task that forwards to the socket ends.\<close>

definition hang_up :: "string \<Rightarrow> manager \<Rightarrow> manager" where
  "hang_up i m = (case clients m i of None \<Rightarrow> m | Some c \<Rightarrow> set_client i (c\<lparr>c_open := False\<rparr>) m)"

datatype ws_command =
  WsConnect nat string
| WsCatalogs nat string "string list"
| WsTouch nat string
| WsBind string string
| WsDisconnect string
| WsHangUp string
| WsSubscribe string string subscription_scope "scope_state option"
| WsUnsubscribe string string

datatype ws_event =
  WsRoute nat string server_message
| WsRouteScoped nat string server_message event_metadata
| WsBroadcast server_message
| WsSend string server_message
| WsCleanup "string list" nat nat
| WsAddRoot string string

datatype ws_step = ByClient ws_command | ByServer ws_event

primrec run_command :: "ws_command \<Rightarrow> manager \<Rightarrow> manager" where
  "run_command (WsConnect now i) m = connect now i m"
| "run_command (WsCatalogs now i cs) m = set_surface_catalogs now i cs m"
| "run_command (WsTouch now i) m = touch_client now i m"
| "run_command (WsBind i sid) m = bind_session_owner i sid m"
| "run_command (WsDisconnect i) m = disconnect i m"
| "run_command (WsHangUp i) m = hang_up i m"
| "run_command (WsSubscribe i conv scope st) m = snd (subscribe_with_scope i conv scope st m)"
| "run_command (WsUnsubscribe i conv) m = unsubscribe i conv m"

primrec run_event :: "ws_event \<Rightarrow> manager \<Rightarrow> manager" where
  "run_event (WsRoute now conv msg) m = snd (route_event now conv msg m)"
| "run_event (WsRouteScoped now conv msg md) m = snd (route_event_scoped now conv msg md m)"
| "run_event (WsBroadcast msg) m = broadcast_global msg m"
| "run_event (WsSend i msg) m = snd (send_to_client i msg m)"
| "run_event (WsCleanup ids now timeout) m = snd (cleanup_stale_clients ids now timeout m)"
| "run_event (WsAddRoot conv x) m = add_root_to_caches conv x m"

primrec run_step :: "ws_step \<Rightarrow> manager \<Rightarrow> manager" where
  "run_step (ByClient c) m = run_command c m"
| "run_step (ByServer e) m = run_event e m"

text \<open>A connection comes with an id that is not connected: the handler draws a fresh uuid for each.\<close>

fun fresh_step :: "ws_step \<Rightarrow> manager \<Rightarrow> bool" where
  "fresh_step (ByClient (WsConnect now i)) m = (clients m i = None)"
| "fresh_step _ m = True"

fun fresh_ids :: "ws_step list \<Rightarrow> manager \<Rightarrow> bool" where
  "fresh_ids [] m = True"
| "fresh_ids (s # ss) m = (fresh_step s m \<and> fresh_ids ss (run_step s m))"

definition run_steps :: "ws_step list \<Rightarrow> manager \<Rightarrow> manager" where
  "run_steps ss m = fold run_step ss m"

lemma add_root_all:
  assumes "ws_ok m"
  shows "ws_ok (add_root_to_caches conv x m)" and "clients (add_root_to_caches conv x m) = clients m"
    and "subscribers (add_root_to_caches conv x m) = subscribers m"
    and "sequence_numbers (add_root_to_caches conv x m) = sequence_numbers m"
proof -
  let ?g = "\<lambda>i t. case subscription_entries t (conv, i) of
         None \<Rightarrow> t
       | Some e \<Rightarrow>
           if e_scope e = ScopeSession
           then t\<lparr>subscription_entries := (subscription_entries t)((conv, i) :=
             Some (e\<lparr>e_scope_state := map_option (add_root x) (e_scope_state e)\<rparr>))\<rparr>
           else t"
  have one: "ws_ok (?g i m) \<and> clients (?g i m) = clients m \<and> subscribers (?g i m) = subscribers m \<and>
      sequence_numbers (?g i m) = sequence_numbers m" if "ws_ok m" for i m
  proof (cases "subscription_entries m (conv, i)")
    case (Some e)
    with ws_okD(7) [OF that, of conv i] have "i \<in> set (subscribers m conv)" by simp
    with ws_ok_rescope [OF that this] that Some show ?thesis by (auto simp: subscribers_def)
  qed (use that in simp)
  have "ws_ok (fold ?g ids m) \<and> clients (fold ?g ids m) = clients m \<and> subscribers (fold ?g ids m) = subscribers m \<and>
      sequence_numbers (fold ?g ids m) = sequence_numbers m" for ids
    using assms
  proof (induction ids arbitrary: m)
    case (Cons i ids)
    from one [OF Cons.prems, of i] Cons.IH [of "?g i m"] show ?case by simp
  qed simp
  then show "ws_ok (add_root_to_caches conv x m)" "clients (add_root_to_caches conv x m) = clients m"
    "subscribers (add_root_to_caches conv x m) = subscribers m"
    "sequence_numbers (add_root_to_caches conv x m) = sequence_numbers m"
    unfolding add_root_to_caches_def by blast+
qed

lemma same_books_hang_up: "same_books m (hang_up i m)"
  by (auto simp: hang_up_def same_books_set_client split: option.split)

lemma ws_ok_route:
  assumes "looks_at_views wanted" and "ws_ok m" and "\<And>i. wanted (next_number conv m) i = wanted m i"
  shows "ws_ok (snd (route_to now wanted conv msg m))"
  using route_effect(1) [OF assms] by (cases "route_to now wanted conv msg m") simp

lemma ws_ok_command: "ws_ok m \<Longrightarrow> fresh_step (ByClient c) m \<Longrightarrow> ws_ok (run_command c m)"
  by (cases c) (simp_all add: ws_ok_connect same_books_small same_books_ok ws_ok_bind disconnect_def ws_ok_disconnect
      same_books_hang_up ws_ok_subscribe ws_ok_unsubscribe same_books_ok [OF same_books_small(1)]
      same_books_ok [OF same_books_small(2)] same_books_ok [OF same_books_hang_up])

lemma ws_ok_event: "ws_ok m \<Longrightarrow> ws_ok (run_event e m)"
  by (cases e) (simp_all add: route_event_def route_event_scoped_def ws_ok_route looks_at_views_all looks_at_views_scoped
      wanted_next_number same_books_ok [OF same_books_small(3)] same_books_ok [OF same_books_small(4)]
      cleanup_stale_clients_def Let_def ws_ok_disconnect_all add_root_all)

lemma ws_ok_step: "ws_ok m \<Longrightarrow> fresh_step s m \<Longrightarrow> ws_ok (run_step s m)"
  by (cases s) (simp_all add: ws_ok_command ws_ok_event)

lemma ws_ok_steps: "ws_ok m \<Longrightarrow> fresh_ids ss m \<Longrightarrow> ws_ok (run_steps ss m)"
  unfolding run_steps_def by (induction ss arbitrary: m) (simp_all add: ws_ok_step)

lemma ws_ok_new: "ws_ok manager_new"
  by (simp add: ws_ok_def manager_new_def counted_def conversations_def subscribers_def)

text \<open>
  C17: over every history of connections, subscriptions, routes, broadcasts and clean-ups the two
  directions of the subscription relation, the entries and the counters agree, every
  conversation on the books has a subscriber and a number, no client has more subscriptions and
  no conversation more subscribers than the limit, and only connected clients own sessions.
\<close>

theorem every_history_keeps_the_subscriptions_consistent:
  assumes "fresh_ids ss manager_new"
  shows "ws_ok (run_steps ss manager_new)"
  using ws_ok_steps [OF ws_ok_new assms] .

lemma every_history_keeps_the_subscriptions_consistent_witness:
  "ws_ok (run_steps [ByClient (WsConnect 0 ''a''), ByClient (WsSubscribe ''a'' ''s'' ScopeAll None),
     ByClient (WsHangUp ''a''), ByServer (WsRoute 1 ''s'' (Connection Pong)), ByClient (WsDisconnect ''a'')] manager_new)"
  by (rule every_history_keeps_the_subscriptions_consistent) (simp add: manager_new_def)

section \<open>Delivery\<close>

text \<open>
  C18: an event is handed, under the next number of its conversation, to exactly the subscribers
  whose scope it is in (and, for a work surface, who take those), once each; a subscriber whose
  channel is gone is dropped; nobody else's channel changes.
\<close>

theorem events_reach_exactly_their_subscribers:
  assumes "ws_ok m" and "route_event_scoped now conv msg md m = (r, t)"
  shows "clients t i = (case clients m i of
        None \<Rightarrow> None
      | Some c \<Rightarrow>
          if is_subscribed i conv m \<and> wanted_scoped conv msg md m i
          then if c_open c
            then Some (c\<lparr>c_sent := c_sent c @ [with_sequence (current_sequence conv m + 1) msg], c_last_activity := now\<rparr>)
            else None
          else Some c) \<and>
    rr_sent r = word_of_nat (length (filter (\<lambda>i. wanted_scoped conv msg md m i \<and> has_channel m i) (subscribers m conv))) \<and>
    rr_dead_clients r = filter (\<lambda>i. wanted_scoped conv msg md m i \<and> is_dead m i) (subscribers m conv)"
proof -
  note e = route_effect [OF looks_at_views_scoped assms(1) wanted_next_number assms(2) [unfolded route_event_scoped_def]]
  show ?thesis
    by (cases "clients m i") (auto simp: e is_subscribed_def has_channel_def after_send_def)
qed

lemma events_reach_exactly_their_subscribers_witness:
  "map_option c_sent (clients (snd (route_event_scoped 1 ''s'' (Turn (Token ''s'' ''x'' ''hi'' None None)) (with_execution ''x'')
     (run_steps [ByClient (WsConnect 0 ''a''), ByClient (WsSubscribe ''a'' ''s'' ScopeAll None)] manager_new))) ''a'') =
   Some [Turn (Token ''s'' ''x'' ''hi'' None (Some 1))]"
proof -
  let ?m = "run_steps [ByClient (WsConnect 0 ''a''), ByClient (WsSubscribe ''a'' ''s'' ScopeAll None)] manager_new"
  have ok: "ws_ok ?m" by (rule ws_ok_steps [OF ws_ok_new]) (simp add: manager_new_def)
  have m: "clients ?m ''a'' = Some \<lparr>c_open = True, c_sent = [], c_last_activity = 0,
            c_subscription_count = 1, c_channel_healthy = True, c_surface_catalogs = []\<rparr>"
    "subscribers ?m ''s'' = [''a'']" "current_sequence ''s'' ?m = 0"
    "subscription_entries ?m (''s'', ''a'') = Some \<lparr>e_scope = ScopeAll, e_scope_state = None\<rparr>"
    by (simp_all add: run_steps_def connect_def subscribe_with_scope_def manager_new_def subscribers_def
        current_sequence_def count_def)
  obtain r t where run: "route_event_scoped 1 ''s'' (Turn (Token ''s'' ''x'' ''hi'' None None)) (with_execution ''x'') ?m = (r, t)"
    by (cases "route_event_scoped 1 ''s'' (Turn (Token ''s'' ''x'' ''hi'' None None)) (with_execution ''x'') ?m")
  from events_reach_exactly_their_subscribers [OF ok run, of "''a''"] run show ?thesis
    by (simp add: m is_subscribed_def wanted_scoped_def in_scope_def)
qed

section \<open>Gone\<close>

lemma absent_step:
  assumes "ws_ok m" and "clients m i = None" and "\<forall>now. s \<noteq> ByClient (WsConnect now i)"
  shows "clients (run_step s m) i = None"
proof (cases s)
  case (ByClient c)
  show ?thesis
  proof (cases c)
    case (WsConnect now j)
    with assms ByClient show ?thesis by (auto simp: connect_def)
  next
    case (WsSubscribe j conv scope st)
    with assms(2) ByClient show ?thesis
      by (cases rule: subscribe_cases [of m j conv scope st]) auto
  next
    case (WsUnsubscribe j conv)
    show ?thesis
    proof (cases "j \<in> set (subscribers m conv)")
      case True
      with unsubscribe_effect(10) [OF assms(1) True] unsubscribe_effect(11) [OF assms(1) True, of i]
        ws_okD(2) [OF assms(1), of conv j] counted_known [OF assms(1), of j] assms(2) ByClient WsUnsubscribe
      show ?thesis by (cases "i = j") (auto simp: conversations_def)
    qed (use assms ByClient WsUnsubscribe in \<open>simp add: unsubscribe_def\<close>)
  qed (use assms ByClient in \<open>auto simp: set_surface_catalogs_def touch_client_def bind_session_owner_def
      hang_up_def set_client_def disconnect_def disconnect_effect split: option.split\<close>)
next
  case (ByServer e)
  have all: "clients (fold disconnect_internal ds u) i = None" if "ws_ok u" "clients u i = None" for ds u
    using that by (induction ds arbitrary: u) (simp_all add: ws_ok_disconnect disconnect_effect)
  have route: "clients (snd (route_to now wanted conv msg m)) i = None"
    if "looks_at_views wanted" "\<And>i. wanted (next_number conv m) i = wanted m i" for now wanted conv msg
    using route_effect(2) [OF that(1) assms(1) that(2)] assms(2)
    by (cases "route_to now wanted conv msg m") (auto split: if_splits)
  show ?thesis using assms(2) ByServer
    by (cases e) (auto simp: route_event_def route_event_scoped_def route looks_at_views_all looks_at_views_scoped
        wanted_next_number broadcast_global_def send_to_client_def set_client_def cleanup_stale_clients_def Let_def
        all [OF assms(1)] add_root_all [OF assms(1)] split: option.split)
qed

lemma absent_steps:
  "ws_ok m \<Longrightarrow> fresh_ids ss m \<Longrightarrow> clients m i = None \<Longrightarrow> \<forall>now. ByClient (WsConnect now i) \<notin> set ss \<Longrightarrow>
   clients (run_steps ss m) i = None"
  unfolding run_steps_def
proof (induction ss arbitrary: m)
  case (Cons s ss)
  then have "clients (run_step s m) i = None" by (intro absent_step) auto
  with Cons show ?case by (simp add: ws_ok_step)
qed simp

text \<open>
  Once a client has been disconnected nothing on the books mentions it, and until a client
  with its id connects no step puts it back: it receives nothing, subscribes to nothing and owns
  no session.
\<close>

theorem a_disconnected_client_is_forgotten:
  assumes "ws_ok m" and "fresh_ids ss (disconnect i m)" and "\<forall>now. ByClient (WsConnect now i) \<notin> set ss"
  shows "clients (run_steps ss (disconnect i m)) i = None \<and>
    \<not> is_subscribed i conv (run_steps ss (disconnect i m)) \<and>
    get_subscription_scope i conv (run_steps ss (disconnect i m)) = None \<and>
    \<not> owns_session i sid (run_steps ss (disconnect i m))"
proof -
  let ?t = "run_steps ss (disconnect i m)"
  have d: "ws_ok (disconnect i m)" "clients (disconnect i m) i = None"
    using assms(1) by (simp_all add: disconnect_def ws_ok_disconnect disconnect_effect)
  have ok: "ws_ok ?t" by (rule ws_ok_steps [OF d(1) assms(2)])
  have gone: "clients ?t i = None" by (rule absent_steps [OF d(1) assms(2) d(2) assms(3)])
  with counted_known [OF ok, of i] have "conversations ?t i = []" by (simp add: conversations_def)
  with ws_okD(2) [OF ok, of conv i] have "i \<notin> set (subscribers ?t conv)" by simp
  with ws_okD(7) [OF ok, of conv i] ws_okD(10) [OF ok, of sid i] gone show ?thesis
    by (auto simp: is_subscribed_def get_subscription_scope_def owns_session_def counted_def)
qed

lemma a_disconnected_client_is_forgotten_witness:
  "\<not> is_subscribed ''a'' ''s'' (run_steps [ByServer (WsRoute 1 ''s'' (Connection Pong))] (disconnect ''a''
     (run_steps [ByClient (WsConnect 0 ''a''), ByClient (WsSubscribe ''a'' ''s'' ScopeAll None)] manager_new)))"
proof -
  have "ws_ok (run_steps [ByClient (WsConnect 0 ''a''), ByClient (WsSubscribe ''a'' ''s'' ScopeAll None)] manager_new)"
    by (rule ws_ok_steps [OF ws_ok_new]) (simp add: manager_new_def)
  from a_disconnected_client_is_forgotten [OF this, of "[ByServer (WsRoute 1 ''s'' (Connection Pong))]" "''a''" "''s''"]
  show ?thesis by simp
qed

section \<open>Numbers\<close>

primrec event_routes :: "string \<Rightarrow> ws_event \<Rightarrow> bool" where
  "event_routes conv (WsRoute now c msg) = (c = conv)"
| "event_routes conv (WsRouteScoped now c msg md) = (c = conv)"
| "event_routes conv (WsBroadcast msg) = False"
| "event_routes conv (WsSend i msg) = False"
| "event_routes conv (WsCleanup ids now timeout) = False"
| "event_routes conv (WsAddRoot c x) = False"

primrec routes :: "string \<Rightarrow> ws_step \<Rightarrow> bool" where
  "routes conv (ByClient c) = False"
| "routes conv (ByServer e) = event_routes conv e"

fun stays_subscribed :: "string \<Rightarrow> string \<Rightarrow> ws_step list \<Rightarrow> manager \<Rightarrow> bool" where
  "stays_subscribed i conv [] m = is_subscribed i conv m"
| "stays_subscribed i conv (s # ss) m =
     (is_subscribed i conv m \<and> stays_subscribed i conv ss (run_step s m))"

lemma disconnect_all_number:
  "ws_ok m \<Longrightarrow> i \<in> set (subscribers (fold disconnect_internal ds m) c) \<Longrightarrow>
   sequence_numbers (fold disconnect_internal ds m) c = sequence_numbers m c \<and> i \<in> set (subscribers m c)"
proof (induction ds arbitrary: m)
  case (Cons d ds)
  note e = disconnect_effect [OF Cons.prems(1), of d]
  from Cons.IH [OF ws_ok_disconnect [OF Cons.prems(1)], of d] Cons.prems(2) have
    IH: "sequence_numbers (fold disconnect_internal ds (disconnect_internal d m)) c = sequence_numbers (disconnect_internal d m) c"
      "i \<in> set (subscribers (disconnect_internal d m) c)" by simp_all
  from IH(2) have "subscribers (disconnect_internal d m) c \<noteq> []" by auto
  with e(9) IH e(3) show ?case using notin_set_remove1 [of i "subscribers m c" d] by auto
qed simp

lemma current_sequence_eq: "sequence_numbers t c = sequence_numbers m c \<Longrightarrow> current_sequence c t = current_sequence c m"
  by (simp add: current_sequence_def)

lemma same_books_number: "same_books m t \<Longrightarrow> current_sequence c t = current_sequence c m"
  by (simp add: same_books_def current_sequence_def)

lemma route_number:
  assumes "looks_at_views wanted" and "ws_ok m" and "\<And>i. wanted (next_number c m) i = wanted m i"
    and "i \<in> set (subscribers (snd (route_to now wanted c msg m)) conv)"
  shows "current_sequence conv (snd (route_to now wanted c msg m)) = current_sequence conv m + (if c = conv then 1 else 0)"
proof -
  obtain r t where rt: "route_to now wanted c msg m = (r, t)" by (cases "route_to now wanted c msg m")
  with assms(4) have "subscribers t conv \<noteq> []" by auto
  from route_effect(6) [OF assms(1-3) rt this] rt show ?thesis by (simp add: current_sequence_def)
qed

lemma number_step:
  assumes "ws_ok m" and "is_subscribed i conv m" and "is_subscribed i conv (run_step s m)"
  shows "current_sequence conv (run_step s m) = current_sequence conv m + (if routes conv s then 1 else 0)"
proof (cases s)
  case (ByClient c)
  have "current_sequence conv (run_command c m) = current_sequence conv m"
  proof (cases c)
    case (WsConnect now j)
    then show ?thesis by (simp add: connect_def current_sequence_def)
  next
    case (WsBind j sid)
    then show ?thesis by (simp add: bind_session_owner_def current_sequence_def)
  next
    case (WsDisconnect j)
    from assms(3) ByClient WsDisconnect have "subscribers (disconnect_internal j m) conv \<noteq> []"
      by (auto simp: is_subscribed_def disconnect_def)
    with disconnect_effect(9) [OF assms(1)] WsDisconnect show ?thesis
      by (simp add: disconnect_def current_sequence_def)
  next
    case (WsSubscribe j k scope st)
    then show ?thesis
      by (cases rule: subscribe_cases [of m j k scope st]) (auto simp: same_books_def current_sequence_def)
  next
    case (WsUnsubscribe j k)
    show ?thesis
    proof (cases "j \<in> set (subscribers m k)")
      case True
      from assms(3) ByClient WsUnsubscribe have "subscribers (unsubscribe j k m) conv \<noteq> []"
        by (auto simp: is_subscribed_def)
      with unsubscribe_effect(9) [OF assms(1) True] WsUnsubscribe show ?thesis by (simp add: current_sequence_def)
    qed (use WsUnsubscribe in \<open>simp add: unsubscribe_def\<close>)
  qed (simp_all add: same_books_number same_books_small same_books_hang_up)
  with ByClient show ?thesis by simp
next
  case (ByServer e)
  have "current_sequence conv (run_event e m) = current_sequence conv m + (if event_routes conv e then 1 else 0)"
  proof (cases e)
    case (WsRoute now c msg)
    with assms(3) ByServer show ?thesis
      using route_number [OF looks_at_views_all assms(1) refl, of i now c msg conv]
      by (simp add: route_event_def is_subscribed_def)
  next
    case (WsRouteScoped now c msg md)
    with assms(3) ByServer show ?thesis
      using route_number [of "wanted_scoped c msg md" m c i now msg conv, OF looks_at_views_scoped assms(1) wanted_next_number]
      by (simp add: route_event_scoped_def is_subscribed_def)
  next
    case (WsCleanup ids now timeout)
    with assms(3) ByServer disconnect_all_number [OF assms(1), of i "stale_clients ids now timeout m" conv]
    show ?thesis by (simp add: cleanup_stale_clients_def Let_def is_subscribed_def current_sequence_def)
  next
    case (WsAddRoot c x)
    then show ?thesis using add_root_all [OF assms(1), of c x] by (simp add: current_sequence_def)
  qed (simp_all add: same_books_number same_books_small)
  with ByServer show ?thesis by simp
qed

text \<open>
  As long as a client stays subscribed to a conversation its numbers have no gap: after any
  steps the conversation's number has grown by one for each event routed to it and by nothing
  else, whoever else came and went.
\<close>

theorem numbers_of_a_subscriber_have_no_gap:
  assumes "ws_ok m" and "fresh_ids ss m" and "stays_subscribed i conv ss m"
  shows "current_sequence conv (run_steps ss m) =
    current_sequence conv m + word_of_nat (length (filter (routes conv) ss))"
  using assms unfolding run_steps_def
proof (induction ss arbitrary: m)
  case (Cons s ss)
  have here: "is_subscribed i conv (run_step s m)"
    using Cons.prems(3) by (cases ss) simp_all
  from Cons.prems have "current_sequence conv (fold run_step ss (run_step s m)) =
    current_sequence conv (run_step s m) + word_of_nat (length (filter (routes conv) ss))"
    by (intro Cons.IH) (simp_all add: ws_ok_step)
  with number_step [OF Cons.prems(1) _ here] Cons.prems(3) show ?case by simp
qed simp

lemma numbers_of_a_subscriber_have_no_gap_witness:
  "current_sequence ''s'' (run_steps
     [ByServer (WsRoute 1 ''s'' (Connection Pong)), ByServer (WsRoute 2 ''t'' (Connection Pong)), ByServer (WsRoute 3 ''s'' (Connection Pong))]
     (run_steps [ByClient (WsConnect 0 ''a''), ByClient (WsSubscribe ''a'' ''s'' ScopeAll None)] manager_new)) = 2"
proof -
  let ?m = "run_steps [ByClient (WsConnect 0 ''a''), ByClient (WsSubscribe ''a'' ''s'' ScopeAll None)] manager_new"
  let ?ss = "[ByServer (WsRoute 1 ''s'' (Connection Pong)), ByServer (WsRoute 2 ''t'' (Connection Pong)), ByServer (WsRoute 3 ''s'' (Connection Pong))]"
  have ok: "ws_ok ?m" by (rule ws_ok_steps [OF ws_ok_new]) (simp add: manager_new_def)
  have stays: "stays_subscribed ''a'' ''s'' ?ss ?m"
    by (simp add: run_steps_def connect_def subscribe_with_scope_def manager_new_def subscribers_def current_sequence_def
        count_def is_subscribed_def route_event_def route_to_def next_number_def send_one_def set_client_def no_result_def Let_def)
  have "current_sequence ''s'' ?m = 0"
    by (simp add: run_steps_def connect_def subscribe_with_scope_def manager_new_def subscribers_def
        current_sequence_def count_def)
  with numbers_of_a_subscriber_have_no_gap [OF ok _ stays] show ?thesis by simp
qed

section \<open>A counter that goes below zero\<close>

text \<open>
  A client dropped by a route is disconnected a second time when its socket closes; the count of
  clients goes down both times.
\<close>

lemma second_disconnect_counts_again:
  "clients m i = None \<Longrightarrow> total_clients (metrics (disconnect i m)) = total_clients (metrics m) - 1"
proof -
  have "metrics (fold (leave i) cs u) = metrics u" for cs u
    by (induction cs arbitrary: u) (auto simp: leave_def Let_def split: option.split)
  then show ?thesis
    by (simp add: disconnect_def disconnect_internal_def Let_def count_def split: option.split)
qed

lemma two_disconnects_of_one_client:
  "total_clients (metrics (disconnect ''a'' (disconnect ''a'' (connect 0 ''a'' manager_new)))) = - 1"
  by (simp add: disconnect_def disconnect_internal_def connect_def manager_new_def count_def Let_def)

text \<open>A client at its limit cannot change the scope of a subscription it has.\<close>

lemma full_client_cannot_change_scope:
  "clients m i = Some c \<Longrightarrow> max_subscriptions_per_client m \<le> c_subscription_count c \<Longrightarrow>
   subscribe_with_scope i conv scope st m = (Inl (TooManySubscriptions (max_subscriptions_per_client m)), m)"
  by (simp add: subscribe_with_scope_def)

text \<open>An event nobody subscribed to leaves a number behind.\<close>

lemma unheard_event_leaves_a_number:
  "subscribers m conv = [] \<Longrightarrow> sequence_numbers (snd (route_event now conv msg m)) conv \<noteq> None"
  by (simp add: route_event_def route_to_def Let_def)
end
