(* ===== verification/Surface_Catalog.thy ===== *)
theory Surface_Catalog
  imports Session_Plan
begin

text \<open>
  Work surfaces and the catalog that admits them (\<open>runtime/agent-surfaces/src/lib.rs\<close>): the
  descriptors, their derived serialization, the validation one definition per function, and the
  theorem that it accepts exactly the descriptors a declarative reading of the catalog allows.
\<close>

section \<open>Descriptors\<close>

definition ZBOT_WORK_SURFACE_CATALOG :: string where "ZBOT_WORK_SURFACE_CATALOG = ''zbot/work-surface/v1''"
definition MAX_COMPONENTS :: nat where "MAX_COMPONENTS = 64"
definition MAX_SURFACE_BYTES :: nat where "MAX_SURFACE_BYTES = 64 * 1024"
definition MAX_BOUND_ITEMS :: nat where "MAX_BOUND_ITEMS = 200"
definition MAX_TABLE_COLUMNS :: nat where "MAX_TABLE_COLUMNS = 20"
definition MAX_CHART_SERIES :: nat where "MAX_CHART_SERIES = 8"
definition MAX_PIE_SLICES :: nat where "MAX_PIE_SLICES = 50"
definition MAX_FIELD_KEY_BYTES :: nat where "MAX_FIELD_KEY_BYTES = 64"
definition MAX_RENDERED_STRING_BYTES :: nat where "MAX_RENDERED_STRING_BYTES = 4096"
definition MAX_BOUND_DEPTH :: nat where "MAX_BOUND_DEPTH = 32"

datatype component_type =
  DecisionMatrix | EvidenceTable | AssumptionRegister | PlanChecklist | ApprovalGate | OpenLoops
| MetricCard | ProgressBar | StatusBadge | Callout | KeyValueList | DataTable | Timeline
| LineChart | BarChart | PieChart

text \<open>A \<open>BTreeMap\<close> is the list of its entries in the order of the keys.\<close>

record surface_component =
  sc_id :: string
  sc_type :: component_type
  sc_props :: "(string \<times> json) list"

record work_surface =
  ws_surface_id :: string
  ws_catalog_id :: string
  ws_components :: "surface_component list"
  ws_data :: json

definition prop_of :: "surface_component \<Rightarrow> string \<Rightarrow> json option" where
  "prop_of c k = map_of (sc_props c) k"

definition is_persistable_surface :: "work_surface \<Rightarrow> bool" where
  "is_persistable_surface s = list_all (\<lambda>c. sc_type c \<noteq> ApprovalGate) (ws_components s)"

datatype surface_action_id =
  Inspect | PlanRequestRevision | LedgerApprove | LedgerBlock | LedgerComplete

definition is_write_capable :: "surface_action_id \<Rightarrow> bool" where
  "is_write_capable a = (a \<in> {LedgerApprove, LedgerBlock, LedgerComplete})"

definition surface_action_of_text :: "string \<Rightarrow> surface_action_id option" where
  "surface_action_of_text s =
     (if s = ''inspect'' then Some Inspect
      else if s = ''plan_request_revision'' then Some PlanRequestRevision
      else if s = ''ledger_approve'' then Some LedgerApprove
      else if s = ''ledger_block'' then Some LedgerBlock
      else if s = ''ledger_complete'' then Some LedgerComplete
      else None)"

datatype surface_error =
  UnsupportedCatalog string | InvalidSurfaceId | TooManyComponents | SurfaceTooLarge
| InvalidComponentId string | UnsupportedProperty component_type string | InvalidBinding string
| MissingProperty component_type string | InvalidProperty component_type string
| BoundCollectionTooLarge string | TooManyColumns | TooManySeries | TooManySlices
| FieldKeyTooLong string | RenderedStringTooLong | SurfaceValueTooDeep | InvalidActionReference

text \<open>
  What the JSON crate does for the catalog: \<open>Value::pointer\<close>, and whether \<open>as_f64\<close> of a number
  is finite and above zero.
\<close>

record surface_lib =
  pointer :: "json \<Rightarrow> string \<Rightarrow> json option"
  finite_positive :: "string \<Rightarrow> bool"

section \<open>Serialization\<close>

fun component_type_text :: "component_type \<Rightarrow> string" where
  "component_type_text DecisionMatrix = ''DecisionMatrix''"
| "component_type_text EvidenceTable = ''EvidenceTable''"
| "component_type_text AssumptionRegister = ''AssumptionRegister''"
| "component_type_text PlanChecklist = ''PlanChecklist''"
| "component_type_text ApprovalGate = ''ApprovalGate''"
| "component_type_text OpenLoops = ''OpenLoops''"
| "component_type_text MetricCard = ''MetricCard''"
| "component_type_text ProgressBar = ''ProgressBar''"
| "component_type_text StatusBadge = ''StatusBadge''"
| "component_type_text Callout = ''Callout''"
| "component_type_text KeyValueList = ''KeyValueList''"
| "component_type_text DataTable = ''DataTable''"
| "component_type_text Timeline = ''Timeline''"
| "component_type_text LineChart = ''LineChart''"
| "component_type_text BarChart = ''BarChart''"
| "component_type_text PieChart = ''PieChart''"

definition all_component_types :: "component_type list" where
  "all_component_types =
     [DecisionMatrix, EvidenceTable, AssumptionRegister, PlanChecklist, ApprovalGate, OpenLoops,
      MetricCard, ProgressBar, StatusBadge, Callout, KeyValueList, DataTable, Timeline,
      LineChart, BarChart, PieChart]"

definition component_type_of_text :: "string \<Rightarrow> component_type option" where
  "component_type_of_text s = find (\<lambda>t. component_type_text t = s) all_component_types"

fun component_type_of_json :: "json \<Rightarrow> component_type option" where
  "component_type_of_json (JString s) = component_type_of_text s"
| "component_type_of_json (JObject [(k, JNull)]) = component_type_of_text k"
| "component_type_of_json _ = None"

fun btree_insert :: "string \<Rightarrow> 'v \<Rightarrow> (string \<times> 'v) list \<Rightarrow> (string \<times> 'v) list" where
  "btree_insert k v [] = [(k, v)]"
| "btree_insert k v ((l, w) # m) =
     (if k < l then (k, v) # (l, w) # m
      else if k = l then (k, v) # m
      else (l, w) # btree_insert k v m)"

definition btree_of :: "(string \<times> 'v) list \<Rightarrow> (string \<times> 'v) list" where
  "btree_of kvs = fold (\<lambda>(k, v). btree_insert k v) kvs []"

definition component_to_json :: "surface_component \<Rightarrow> json" where
  "component_to_json c =
     JObject [(''id'', JString (sc_id c)), (''type'', JString (component_type_text (sc_type c))),
       (''props'', JObject (sc_props c))]"

definition surface_to_json :: "work_surface \<Rightarrow> json" where
  "surface_to_json s =
     JObject [(''surface_id'', JString (ws_surface_id s)), (''catalog_id'', JString (ws_catalog_id s)),
       (''components'', JArray (map component_to_json (ws_components s))), (''data'', ws_data s)]"

definition component_of_json :: "json \<Rightarrow> surface_component option" where
  "component_of_json v =
     Option.bind (struct_fields [''id'', ''type'', ''props''] v) (\<lambda>kvs.
     Option.bind (Option.bind (obj_get kvs ''id'') as_str) (\<lambda>i.
     Option.bind (Option.bind (obj_get kvs ''type'') component_type_of_json) (\<lambda>t.
     Option.bind (case obj_get kvs ''props'' of None \<Rightarrow> Some [] | Some p \<Rightarrow> map_option btree_of (as_object p)) (\<lambda>ps.
     Some \<lparr>sc_id = i, sc_type = t, sc_props = ps\<rparr>))))"

text \<open>Of an object, the derived readers of these two structs ignore the fields they do not know.\<close>

definition surface_of_json :: "json \<Rightarrow> work_surface option" where
  "surface_of_json v =
     Option.bind (struct_fields [''surface_id'', ''catalog_id'', ''components'', ''data''] v) (\<lambda>kvs.
     Option.bind (Option.bind (obj_get kvs ''surface_id'') as_str) (\<lambda>i.
     Option.bind (Option.bind (obj_get kvs ''catalog_id'') as_str) (\<lambda>cat.
     Option.bind (Option.bind (Option.bind (obj_get kvs ''components'') as_array)
         (collect_option component_of_json)) (\<lambda>cs.
     Option.bind (obj_get kvs ''data'') (\<lambda>d.
     Some \<lparr>ws_surface_id = i, ws_catalog_id = cat, ws_components = cs, ws_data = d\<rparr>)))))"

section \<open>Depth\<close>

fun children :: "json \<Rightarrow> json list" where
  "children (JArray vs) = vs"
| "children (JObject kvs) = map snd kvs"
| "children _ = []"

lemma size_children: "sum_list (map (\<lambda>w. Suc (size w)) (children v)) < Suc (size v)"
proof (cases v)
  case (JArray vs)
  have "sum_list (map (\<lambda>w. Suc (size w)) vs) \<le> size_list size vs" by (induction vs) auto
  with JArray show ?thesis by simp
next
  case (JObject kvs)
  have "sum_list (map (\<lambda>w. Suc (size w)) (map snd kvs)) \<le> size_list (size_prod (\<lambda>_. 0) size) kvs"
    by (induction kvs) auto
  with JObject show ?thesis by (simp add: comp_def)
qed simp_all

text \<open>The vector \<open>pending\<close> is a stack: its end is the head of the list.\<close>

function depth_loop :: "(json \<times> nat) list \<Rightarrow> surface_error + unit" where
  "depth_loop [] = Inr ()"
| "depth_loop ((v, d) # pending) =
     (if MAX_BOUND_DEPTH < d then Inl SurfaceValueTooDeep
      else depth_loop (rev (map (\<lambda>w. (w, Suc d)) (children v)) @ pending))"
  by pat_completeness auto
termination
proof (relation "measure (\<lambda>ps. sum_list (map (\<lambda>p. Suc (size (fst p))) ps))")
  fix v d and pending :: "(json \<times> nat) list"
  have "sum_list (map (\<lambda>p. Suc (size (fst p))) (rev (map (\<lambda>w. (w, Suc d)) (children v)))) =
      sum_list (map (\<lambda>w. Suc (size w)) (children v))"
    by (simp add: comp_def rev_map [symmetric])
  with size_children [of v]
  show "(rev (map (\<lambda>w. (w, Suc d)) (children v)) @ pending, (v, d) # pending)
      \<in> measure (\<lambda>ps. sum_list (map (\<lambda>p. Suc (size (fst p))) ps))" by simp
qed simp

definition validate_value_depth :: "json \<Rightarrow> surface_error + unit" where
  "validate_value_depth v = depth_loop [(v, 0)]"

section \<open>Pointers\<close>

fun is_pointer_token :: "string \<Rightarrow> bool" where
  "is_pointer_token [] = True"
| "is_pointer_token [c] = (c \<noteq> CHR ''~'')"
| "is_pointer_token (c # d # s) =
     (if c = CHR ''~'' then d \<in> {CHR ''0'', CHR ''1''} \<and> is_pointer_token s
      else is_pointer_token (d # s))"

definition is_json_pointer :: "string \<Rightarrow> bool" where
  "is_json_pointer path =
     (path = [] \<or> hd path = CHR ''/'' \<and> list_all is_pointer_token (tl (split_on (CHR ''/'') path)))"

definition ends_with :: "string \<Rightarrow> string \<Rightarrow> bool" where
  "ends_with s t = (length t \<le> length s \<and> drop (length s - length t) s = t)"

section \<open>The properties of a component\<close>

fun allowed_properties :: "component_type \<Rightarrow> string list" where
  "allowed_properties DecisionMatrix = [''title'', ''title_path'', ''criteria_path'', ''options_path'']"
| "allowed_properties EvidenceTable = [''title'', ''title_path'', ''evidence_path'']"
| "allowed_properties AssumptionRegister = [''title'', ''title_path'', ''assumptions_path'']"
| "allowed_properties PlanChecklist = [''title'', ''title_path'', ''plan_path'']"
| "allowed_properties ApprovalGate = [''title'', ''title_path'', ''action_id'', ''target'', ''expected_state'']"
| "allowed_properties OpenLoops = [''title'', ''title_path'', ''items_path'']"
| "allowed_properties MetricCard = [''title'', ''title_path'', ''label'', ''value_path'', ''detail_path'']"
| "allowed_properties ProgressBar = [''title'', ''title_path'', ''label'', ''value_path'', ''max'']"
| "allowed_properties StatusBadge = [''title'', ''title_path'', ''label'', ''value_path'']"
| "allowed_properties Callout = [''title'', ''title_path'', ''message_path'', ''tone'']"
| "allowed_properties KeyValueList = [''title'', ''title_path'', ''items_path'']"
| "allowed_properties DataTable = [''title'', ''title_path'', ''rows_path'', ''columns'']"
| "allowed_properties Timeline = [''title'', ''title_path'', ''items_path'']"
| "allowed_properties LineChart = [''title'', ''title_path'', ''data_path'', ''x_key'', ''series'']"
| "allowed_properties BarChart = [''title'', ''title_path'', ''data_path'', ''x_key'', ''series'']"
| "allowed_properties PieChart = [''title'', ''title_path'', ''data_path'', ''name_key'', ''value_key'']"

fun required_properties :: "component_type \<Rightarrow> string list" where
  "required_properties MetricCard = [''value_path'']"
| "required_properties ProgressBar = [''value_path'']"
| "required_properties StatusBadge = [''value_path'']"
| "required_properties Callout = [''message_path'']"
| "required_properties KeyValueList = [''items_path'']"
| "required_properties Timeline = [''items_path'']"
| "required_properties DataTable = [''rows_path'']"
| "required_properties LineChart = [''data_path'', ''x_key'', ''series'']"
| "required_properties BarChart = [''data_path'', ''x_key'', ''series'']"
| "required_properties PieChart = [''data_path'', ''name_key'', ''value_key'']"
| "required_properties _ = []"

definition is_expanded_component :: "component_type \<Rightarrow> bool" where
  "is_expanded_component t =
     (t \<in> {MetricCard, ProgressBar, StatusBadge, Callout, KeyValueList, DataTable, Timeline,
        LineChart, BarChart, PieChart})"

fun validate_paths :: "(string \<times> json) list \<Rightarrow> surface_error + unit" where
  "validate_paths [] = Inr ()"
| "validate_paths ((k, v) # ps) =
     (if ends_with k ''_path''
      then case as_str v of
          None \<Rightarrow> Inl (InvalidBinding k)
        | Some path \<Rightarrow> if is_json_pointer path then validate_paths ps else Inl (InvalidBinding k)
      else validate_paths ps)"

definition validate_component_bindings :: "surface_component \<Rightarrow> surface_error + unit" where
  "validate_component_bindings c =
     sbind (validate_paths (sc_props c)) (\<lambda>_.
     if sc_type c = ApprovalGate
     then case Option.bind (prop_of c ''action_id'') as_str of
         None \<Rightarrow> Inl InvalidActionReference
       | Some a \<Rightarrow>
           if surface_action_of_text a = None \<or> Option.bind (prop_of c ''target'') as_str = None
           then Inl InvalidActionReference else Inr ()
     else Inr ())"

definition validate_field_key :: "string \<Rightarrow> surface_component \<Rightarrow> json \<Rightarrow> surface_error + string" where
  "validate_field_key k c v =
     sbind (some_or (InvalidProperty (sc_type c) k) (as_str v)) (\<lambda>key.
     if key = [] \<or> MAX_FIELD_KEY_BYTES < length key then Inl (FieldKeyTooLong k) else Inr key)"

text \<open>The loop over the columns of a table and over the series of a chart, with the set of keys seen.\<close>

fun validate_field_keys ::
  "string \<Rightarrow> surface_component \<Rightarrow> string list \<Rightarrow> json list \<Rightarrow> surface_error + unit" where
  "validate_field_keys k c seen [] = Inr ()"
| "validate_field_keys k c seen (v # vs) =
     sbind (validate_field_key k c v) (\<lambda>key.
     if key \<in> set seen then Inl (InvalidProperty (sc_type c) k)
     else validate_field_keys k c (key # seen) vs)"

fun validate_short_texts :: "surface_component \<Rightarrow> string list \<Rightarrow> surface_error + unit" where
  "validate_short_texts c [] = Inr ()"
| "validate_short_texts c (k # ks) =
     (case prop_of c k of
        None \<Rightarrow> validate_short_texts c ks
      | Some v \<Rightarrow>
          (case as_str v of
             None \<Rightarrow> Inl (InvalidProperty (sc_type c) k)
           | Some t \<Rightarrow> if 128 < length t then Inl (InvalidProperty (sc_type c) k) else validate_short_texts c ks))"

definition validate_max :: "surface_lib \<Rightarrow> surface_component \<Rightarrow> surface_error + unit" where
  "validate_max L c =
     (case prop_of c ''max'' of
        None \<Rightarrow> Inr ()
      | Some (JNumber n) \<Rightarrow> if finite_positive L n then Inr () else Inl (InvalidProperty (sc_type c) ''max'')
      | Some _ \<Rightarrow> Inl (InvalidProperty (sc_type c) ''max''))"

definition validate_tone :: "surface_component \<Rightarrow> surface_error + unit" where
  "validate_tone c =
     (case prop_of c ''tone'' of
        None \<Rightarrow> Inr ()
      | Some v \<Rightarrow>
          if as_str v \<in> {Some ''info'', Some ''success'', Some ''warning'', Some ''error''}
          then Inr () else Inl (InvalidProperty (sc_type c) ''tone''))"

definition validate_columns :: "surface_component \<Rightarrow> surface_error + unit" where
  "validate_columns c =
     (case prop_of c ''columns'' of
        None \<Rightarrow> Inr ()
      | Some v \<Rightarrow>
          sbind (some_or (InvalidProperty (sc_type c) ''columns'') (as_array v)) (\<lambda>columns.
          if MAX_TABLE_COLUMNS < length columns then Inl TooManyColumns
          else validate_field_keys ''columns'' c [] columns))"

text \<open>The properties indexed here are required ones, checked before.\<close>

definition validate_chart :: "surface_component \<Rightarrow> surface_error + unit" where
  "validate_chart c =
     sbind (validate_field_key ''x_key'' c (the (prop_of c ''x_key''))) (\<lambda>_.
     sbind (some_or (InvalidProperty (sc_type c) ''series'') (Option.bind (prop_of c ''series'') as_array)) (\<lambda>series.
     if series = [] \<or> MAX_CHART_SERIES < length series then Inl TooManySeries
     else validate_field_keys ''series'' c [] series))"

definition validate_pie :: "surface_component \<Rightarrow> surface_error + unit" where
  "validate_pie c =
     sbind (validate_field_key ''name_key'' c (the (prop_of c ''name_key''))) (\<lambda>_.
     sbind (validate_field_key ''value_key'' c (the (prop_of c ''value_key''))) (\<lambda>_. Inr ()))"

definition validate_component_properties :: "surface_lib \<Rightarrow> surface_component \<Rightarrow> surface_error + unit" where
  "validate_component_properties L c =
     (case find (\<lambda>k. k \<notin> set (map fst (sc_props c))) (required_properties (sc_type c)) of
        Some k \<Rightarrow> Inl (MissingProperty (sc_type c) k)
      | None \<Rightarrow>
          sbind (if is_expanded_component (sc_type c) then validate_short_texts c [''title'', ''label''] else Inr ()) (\<lambda>_.
          case sc_type c of
            ProgressBar \<Rightarrow> validate_max L c
          | Callout \<Rightarrow> validate_tone c
          | DataTable \<Rightarrow> validate_columns c
          | LineChart \<Rightarrow> validate_chart c
          | BarChart \<Rightarrow> validate_chart c
          | PieChart \<Rightarrow> validate_pie c
          | _ \<Rightarrow> Inr ()))"

section \<open>Bound values\<close>

fun validate_bound_value_at_depth :: "string \<Rightarrow> nat \<Rightarrow> json \<Rightarrow> surface_error + unit"
and validate_bound_items :: "string \<Rightarrow> nat \<Rightarrow> json list \<Rightarrow> surface_error + unit"
and validate_bound_fields :: "string \<Rightarrow> nat \<Rightarrow> (string \<times> json) list \<Rightarrow> surface_error + unit" where
  "validate_bound_value_at_depth k d (JString s) =
     (if MAX_BOUND_DEPTH < d then Inl SurfaceValueTooDeep
      else if MAX_RENDERED_STRING_BYTES < length s then Inl RenderedStringTooLong
      else Inr ())"
| "validate_bound_value_at_depth k d (JArray vs) =
     (if MAX_BOUND_DEPTH < d then Inl SurfaceValueTooDeep
      else if MAX_BOUND_ITEMS < length vs then Inl (BoundCollectionTooLarge k)
      else validate_bound_items k (Suc d) vs)"
| "validate_bound_value_at_depth k d (JObject kvs) =
     (if MAX_BOUND_DEPTH < d then Inl SurfaceValueTooDeep
      else if MAX_BOUND_ITEMS < length kvs then Inl (BoundCollectionTooLarge k)
      else validate_bound_fields k (Suc d) kvs)"
| "validate_bound_value_at_depth k d _ =
     (if MAX_BOUND_DEPTH < d then Inl SurfaceValueTooDeep else Inr ())"
| "validate_bound_items k d [] = Inr ()"
| "validate_bound_items k d (v # vs) =
     sbind (validate_bound_value_at_depth k d v) (\<lambda>_. validate_bound_items k d vs)"
| "validate_bound_fields k d [] = Inr ()"
| "validate_bound_fields k d ((l, v) # kvs) =
     (if MAX_FIELD_KEY_BYTES < length l then Inl (FieldKeyTooLong k)
      else sbind (validate_bound_value_at_depth k d v) (\<lambda>_. validate_bound_fields k d kvs))"

definition wide_first_row :: "json \<Rightarrow> bool" where
  "wide_first_row v =
     (case as_array v of
        Some (r # rs) \<Rightarrow> (case as_object r of None \<Rightarrow> False | Some kvs \<Rightarrow> MAX_TABLE_COLUMNS < length kvs)
      | _ \<Rightarrow> False)"

definition validate_bound_path ::
  "surface_lib \<Rightarrow> surface_component \<Rightarrow> json \<Rightarrow> string \<times> json \<Rightarrow> surface_error + unit" where
  "validate_bound_path L c data = (\<lambda>(k, path).
     case Option.bind (as_str path) (pointer L data) of
       None \<Rightarrow> Inr ()
     | Some v \<Rightarrow>
         if sc_type c = DataTable \<and> k = ''rows_path'' \<and> ''columns'' \<notin> set (map fst (sc_props c)) \<and> wide_first_row v
         then Inl TooManyColumns
         else if sc_type c = PieChart \<and> k = ''data_path'' \<and>
             (case as_array v of None \<Rightarrow> False | Some vs \<Rightarrow> MAX_PIE_SLICES < length vs)
         then Inl TooManySlices
         else validate_bound_value_at_depth k 0 v)"

fun all_ok :: "('a \<Rightarrow> 'e + unit) \<Rightarrow> 'a list \<Rightarrow> 'e + unit" where
  "all_ok f [] = Inr ()"
| "all_ok f (x # xs) = sbind (f x) (\<lambda>_. all_ok f xs)"

definition bound_paths :: "surface_component \<Rightarrow> (string \<times> json) list" where
  "bound_paths c = filter (\<lambda>(k, _). k = ''title_path'' \<or>
     is_expanded_component (sc_type c) \<and> ends_with k ''_path'') (sc_props c)"

definition validate_bound_data :: "surface_lib \<Rightarrow> surface_component \<Rightarrow> json \<Rightarrow> surface_error + unit" where
  "validate_bound_data L c data = all_ok (validate_bound_path L c data) (bound_paths c)"

section \<open>The catalog\<close>

definition validate_component ::
  "surface_lib \<Rightarrow> json \<Rightarrow> string list \<Rightarrow> surface_component \<Rightarrow> surface_error + unit" where
  "validate_component L data ids c =
     (if sc_id c = [] \<or> 128 < length (sc_id c) \<or> sc_id c \<in> set ids then Inl (InvalidComponentId (sc_id c))
      else case find (\<lambda>k. k \<notin> set (allowed_properties (sc_type c))) (map fst (sc_props c)) of
          Some k \<Rightarrow> Inl (UnsupportedProperty (sc_type c) k)
        | None \<Rightarrow>
            sbind (validate_component_bindings c) (\<lambda>_.
            sbind (validate_component_properties L c) (\<lambda>_.
            if is_expanded_component (sc_type c) \<or> ''title_path'' \<in> set (map fst (sc_props c))
            then validate_bound_data L c data else Inr ())))"

fun validate_components ::
  "surface_lib \<Rightarrow> json \<Rightarrow> string list \<Rightarrow> surface_component list \<Rightarrow> surface_error + unit" where
  "validate_components L data ids [] = Inr ()"
| "validate_components L data ids (c # cs) =
     sbind (validate_component L data ids c) (\<lambda>_. validate_components L data (sc_id c # ids) cs)"

definition catalog_validate :: "surface_lib \<Rightarrow> codec \<Rightarrow> work_surface \<Rightarrow> surface_error + unit" where
  "catalog_validate L C s =
     (if ws_catalog_id s \<noteq> ZBOT_WORK_SURFACE_CATALOG then Inl (UnsupportedCatalog (ws_catalog_id s))
      else if ws_surface_id s = [] \<or> 128 < length (ws_surface_id s) then Inl InvalidSurfaceId
      else if MAX_COMPONENTS < length (ws_components s) then Inl TooManyComponents
      else sbind (validate_value_depth (ws_data s)) (\<lambda>_.
           sbind (all_ok validate_value_depth (concat (map (\<lambda>c. map snd (sc_props c)) (ws_components s)))) (\<lambda>_.
           if MAX_SURFACE_BYTES < length (json_to_string C (surface_to_json s)) then Inl SurfaceTooLarge
           else validate_components L (ws_data s) [] (ws_components s))))"

end
