(* ===== verification/Surface_Conforms.thy ===== *)
theory Surface_Conforms
  imports Surface_Catalog
begin

text \<open>
  What the catalog of work surfaces admits, stated without the order of the checks, and the
  theorem that the validation decides it.
\<close>

section \<open>The catalog, declaratively\<close>

fun json_height :: "json \<Rightarrow> nat" where
  "json_height (JArray vs) = fold max (map (\<lambda>v. Suc (json_height v)) vs) 0"
| "json_height (JObject kvs) = fold max (map (\<lambda>(_, v). Suc (json_height v)) kvs) 0"
| "json_height _ = 0"

text \<open>The limits on one node of a rendered value.\<close>

fun node_within :: "json \<Rightarrow> bool" where
  "node_within (JString s) = (length s \<le> 4096)"
| "node_within (JArray vs) = (length vs \<le> 200)"
| "node_within (JObject kvs) = (length kvs \<le> 200 \<and> (\<forall>(k, _) \<in> set kvs. length k \<le> 64))"
| "node_within _ = True"

fun all_nodes :: "(json \<Rightarrow> bool) \<Rightarrow> json \<Rightarrow> bool" where
  "all_nodes P (JArray vs) = (P (JArray vs) \<and> list_all (all_nodes P) vs)"
| "all_nodes P (JObject kvs) = (P (JObject kvs) \<and> list_all (\<lambda>(_, v). all_nodes P v) kvs)"
| "all_nodes P v = P v"

definition rendered_value_ok :: "json \<Rightarrow> bool" where
  "rendered_value_ok v \<longleftrightarrow> json_height v \<le> 32 \<and> all_nodes node_within v"

definition field_key_ok :: "json \<Rightarrow> bool" where
  "field_key_ok v \<longleftrightarrow> (\<exists>k. v = JString k \<and> k \<noteq> [] \<and> length k \<le> 64)"

definition short_text_ok :: "surface_component \<Rightarrow> string \<Rightarrow> bool" where
  "short_text_ok c k \<longleftrightarrow> (\<forall>v. prop_of c k = Some v \<longrightarrow> (\<exists>t. v = JString t \<and> length t \<le> 128))"

fun shape_ok :: "surface_lib \<Rightarrow> surface_component \<Rightarrow> component_type \<Rightarrow> bool" where
  "shape_ok L c ProgressBar \<longleftrightarrow>
     (\<forall>v. prop_of c ''max'' = Some v \<longrightarrow> (\<exists>n. v = JNumber n \<and> finite_positive L n))"
| "shape_ok L c Callout \<longleftrightarrow>
     (\<forall>v. prop_of c ''tone'' = Some v \<longrightarrow>
        v \<in> {JString ''info'', JString ''success'', JString ''warning'', JString ''error''})"
| "shape_ok L c DataTable \<longleftrightarrow>
     (\<forall>v. prop_of c ''columns'' = Some v \<longrightarrow>
        (\<exists>vs. v = JArray vs \<and> length vs \<le> 20 \<and> list_all field_key_ok vs \<and> distinct vs))"
| "shape_ok L c PieChart \<longleftrightarrow>
     (\<exists>v w. prop_of c ''name_key'' = Some v \<and> field_key_ok v \<and> prop_of c ''value_key'' = Some w \<and> field_key_ok w)"
| "shape_ok L c t \<longleftrightarrow>
     (t \<in> {LineChart, BarChart} \<longrightarrow>
        (\<exists>v vs. prop_of c ''x_key'' = Some v \<and> field_key_ok v \<and> prop_of c ''series'' = Some (JArray vs) \<and>
           0 < length vs \<and> length vs \<le> 8 \<and> list_all field_key_ok vs \<and> distinct vs))"

definition bound_value_ok :: "surface_component \<Rightarrow> string \<Rightarrow> json \<Rightarrow> bool" where
  "bound_value_ok c k v \<longleftrightarrow>
     rendered_value_ok v \<and>
     (sc_type c = DataTable \<and> k = ''rows_path'' \<and> prop_of c ''columns'' = None \<longrightarrow>
        (\<forall>kvs rs. v = JArray (JObject kvs # rs) \<longrightarrow> length kvs \<le> 20)) \<and>
     (sc_type c = PieChart \<and> k = ''data_path'' \<longrightarrow> (\<forall>vs. v = JArray vs \<longrightarrow> length vs \<le> 50))"

definition component_conforms :: "surface_lib \<Rightarrow> json \<Rightarrow> surface_component \<Rightarrow> bool" where
  "component_conforms L data c \<longleftrightarrow>
     sc_id c \<noteq> [] \<and> length (sc_id c) \<le> 128 \<and>
     set (map fst (sc_props c)) \<subseteq> set (allowed_properties (sc_type c)) \<and>
     set (required_properties (sc_type c)) \<subseteq> set (map fst (sc_props c)) \<and>
     (\<forall>(k, v) \<in> set (sc_props c). ends_with k ''_path'' \<longrightarrow> (\<exists>p. v = JString p \<and> is_json_pointer p)) \<and>
     (sc_type c = ApprovalGate \<longrightarrow>
        (\<exists>a t. prop_of c ''action_id'' = Some (JString a) \<and> surface_action_of_text a \<noteq> None \<and>
           prop_of c ''target'' = Some (JString t))) \<and>
     (is_expanded_component (sc_type c) \<longrightarrow> short_text_ok c ''title'' \<and> short_text_ok c ''label'') \<and>
     shape_ok L c (sc_type c) \<and>
     (\<forall>(k, path) \<in> set (bound_paths c). \<forall>p v. path = JString p \<longrightarrow> pointer L data p = Some v \<longrightarrow>
        bound_value_ok c k v)"

definition surface_conforms :: "surface_lib \<Rightarrow> codec \<Rightarrow> work_surface \<Rightarrow> bool" where
  "surface_conforms L C s \<longleftrightarrow>
     ws_catalog_id s = ''zbot/work-surface/v1'' \<and>
     ws_surface_id s \<noteq> [] \<and> length (ws_surface_id s) \<le> 128 \<and>
     length (ws_components s) \<le> 64 \<and> distinct (map sc_id (ws_components s)) \<and>
     json_height (ws_data s) \<le> 32 \<and>
     (\<forall>c \<in> set (ws_components s). (\<forall>(_, v) \<in> set (sc_props c). json_height v \<le> 32) \<and>
        component_conforms L (ws_data s) c) \<and>
     length (json_to_string C (surface_to_json s)) \<le> 65536"

section \<open>Depth\<close>

lemma fold_max_le: "fold max ns (a::nat) \<le> n \<longleftrightarrow> a \<le> n \<and> (\<forall>m \<in> set ns. m \<le> n)"
  by (induction ns arbitrary: a) auto

lemma json_height_le:
  "d + json_height v \<le> n \<longleftrightarrow> d \<le> n \<and> (\<forall>w \<in> set (children v). Suc d + json_height w \<le> n)"
proof -
  have "d + json_height v \<le> n \<longleftrightarrow> d \<le> n \<and> json_height v \<le> n - d" by auto
  also have "json_height v \<le> n - d \<longleftrightarrow> (\<forall>w \<in> set (children v). Suc (json_height w) \<le> n - d)"
    by (cases v) (auto simp: fold_max_le)
  finally show ?thesis by (auto simp: Suc_le_eq less_diff_conv ac_simps)
qed

lemma depth_loop_ok:
  "depth_loop ps = Inr () \<longleftrightarrow> (\<forall>(v, d) \<in> set ps. d + json_height v \<le> 32)"
proof (induction ps rule: depth_loop.induct)
  case (2 v d pending)
  show ?case
  proof (cases "32 < d")
    case False
    with 2 have "depth_loop ((v, d) # pending) = Inr () \<longleftrightarrow>
        (\<forall>(w, e) \<in> set (rev (map (\<lambda>w. (w, Suc d)) (children v)) @ pending). e + json_height w \<le> 32)"
      by (simp add: MAX_BOUND_DEPTH_def)
    also have "\<dots> \<longleftrightarrow> d + json_height v \<le> 32 \<and> (\<forall>(w, e) \<in> set pending. e + json_height w \<le> 32)"
      using False by (subst json_height_le [of d v 32]) fastforce
    finally show ?thesis by simp
  qed (simp add: MAX_BOUND_DEPTH_def)
qed simp

lemma validate_value_depth_ok: "validate_value_depth v = Inr () \<longleftrightarrow> json_height v \<le> 32"
  by (simp add: validate_value_depth_def depth_loop_ok del: depth_loop.simps)

section \<open>Loops\<close>

lemma sbind_unit: "sbind (r :: 'e + unit) (\<lambda>_. q) = Inr () \<longleftrightarrow> r = Inr () \<and> q = Inr ()"
  by (cases r) auto

lemma sbind_any: "sbind r (\<lambda>_. q) = Inr () \<longleftrightarrow> (\<exists>x. r = Inr x) \<and> q = Inr ()"
  by (cases r) auto

lemma all_ok_ok: "all_ok f xs = Inr () \<longleftrightarrow> (\<forall>x \<in> set xs. f x = Inr ())"
  by (induction xs) (auto simp: sbind_unit)

lemma bound_ok:
  "validate_bound_value_at_depth k d v = Inr () \<longleftrightarrow> d + json_height v \<le> 32 \<and> all_nodes node_within v"
  "validate_bound_items k d vs = Inr () \<longleftrightarrow>
     (\<forall>v \<in> set vs. d + json_height v \<le> 32 \<and> all_nodes node_within v)"
  "validate_bound_fields k d kvs = Inr () \<longleftrightarrow>
     (\<forall>(l, v) \<in> set kvs. length l \<le> 64 \<and> d + json_height v \<le> 32 \<and> all_nodes node_within v)"
proof (induction k d v and k d vs and k d kvs
    rule: validate_bound_value_at_depth_validate_bound_items_validate_bound_fields.induct)
  case (2 k d vs)
  then show ?case
    using json_height_le [of d "JArray vs" 32]
    by (auto simp: MAX_BOUND_DEPTH_def MAX_BOUND_ITEMS_def list_all_iff)
next
  case (3 k d kvs)
  then show ?case
    using json_height_le [of d "JObject kvs" 32]
    by (auto simp: MAX_BOUND_DEPTH_def MAX_BOUND_ITEMS_def list_all_iff)
qed (auto simp: MAX_BOUND_DEPTH_def MAX_RENDERED_STRING_BYTES_def MAX_FIELD_KEY_BYTES_def sbind_unit)

section \<open>Components\<close>

lemma as_str_Some [simp]: "as_str v = Some s \<longleftrightarrow> v = JString s"
  by (cases v) auto

lemma as_array_Some [simp]: "as_array v = Some vs \<longleftrightarrow> v = JArray vs"
  by (cases v) auto

lemma as_object_Some [simp]: "as_object v = Some kvs \<longleftrightarrow> v = JObject kvs"
  by (cases v) auto

lemma validate_paths_ok:
  "validate_paths ps = Inr () \<longleftrightarrow>
   (\<forall>(k, v) \<in> set ps. ends_with k ''_path'' \<longrightarrow> (\<exists>p. v = JString p \<and> is_json_pointer p))"
  by (induction ps rule: validate_paths.induct) (auto split: option.split)

lemma bindings_ok:
  "validate_component_bindings c = Inr () \<longleftrightarrow>
     (\<forall>(k, v) \<in> set (sc_props c). ends_with k ''_path'' \<longrightarrow> (\<exists>p. v = JString p \<and> is_json_pointer p)) \<and>
     (sc_type c = ApprovalGate \<longrightarrow>
        (\<exists>a t. prop_of c ''action_id'' = Some (JString a) \<and> surface_action_of_text a \<noteq> None \<and>
           prop_of c ''target'' = Some (JString t)))"
proof -
  have "(case Option.bind (prop_of c ''action_id'') as_str of
        None \<Rightarrow> Inl InvalidActionReference
      | Some a \<Rightarrow> if surface_action_of_text a = None \<or> Option.bind (prop_of c ''target'') as_str = None
          then Inl InvalidActionReference else Inr ()) = Inr () \<longleftrightarrow>
    (\<exists>a t. prop_of c ''action_id'' = Some (JString a) \<and> surface_action_of_text a \<noteq> None \<and>
       prop_of c ''target'' = Some (JString t))"
    by (auto simp: bind_eq_Some_conv bind_eq_None_conv split: option.split)
  then show ?thesis
    by (simp add: validate_component_bindings_def sbind_unit validate_paths_ok)
qed

lemma field_key_Inr:
  "validate_field_key k c v = Inr key \<longleftrightarrow> v = JString key \<and> key \<noteq> [] \<and> length key \<le> 64"
  by (auto simp: validate_field_key_def sbind_eq_Inr MAX_FIELD_KEY_BYTES_def)

lemma field_key_exists: "(\<exists>key. validate_field_key k c v = Inr key) \<longleftrightarrow> field_key_ok v"
  by (auto simp: field_key_Inr field_key_ok_def)

lemma field_keys_ok:
  "validate_field_keys k c seen vs = Inr () \<longleftrightarrow>
     list_all field_key_ok vs \<and> distinct vs \<and> JString ` set seen \<inter> set vs = {}"
proof (induction vs arbitrary: seen)
  case (Cons v vs)
  show ?case
  proof (cases "field_key_ok v")
    case True
    then obtain key where "v = JString key" "key \<noteq> []" "length key \<le> 64" by (auto simp: field_key_ok_def)
    moreover from this have "validate_field_key k c v = Inr key" by (simp add: field_key_Inr)
    ultimately show ?thesis using Cons.IH [of "key # seen"] True by auto
  next
    case False
    with field_key_exists [of k c v] show ?thesis by (cases "validate_field_key k c v") auto
  qed
qed simp

lemma short_texts_ok: "validate_short_texts c ks = Inr () \<longleftrightarrow> (\<forall>k \<in> set ks. short_text_ok c k)"
  by (induction ks) (auto simp: short_text_ok_def split: option.split)

lemma chart_ok:
  "prop_of c ''x_key'' \<noteq> None \<Longrightarrow> validate_chart c = Inr () \<longleftrightarrow>
     (\<exists>v vs. prop_of c ''x_key'' = Some v \<and> field_key_ok v \<and> prop_of c ''series'' = Some (JArray vs) \<and>
        0 < length vs \<and> length vs \<le> 8 \<and> list_all field_key_ok vs \<and> distinct vs)"
  by (auto simp: validate_chart_def sbind_any field_key_exists sbind_eq_Inr bind_eq_Some_conv
      MAX_CHART_SERIES_def field_keys_ok split: if_splits)

lemma pie_ok:
  "prop_of c ''name_key'' \<noteq> None \<Longrightarrow> prop_of c ''value_key'' \<noteq> None \<Longrightarrow> validate_pie c = Inr () \<longleftrightarrow>
     (\<exists>v w. prop_of c ''name_key'' = Some v \<and> field_key_ok v \<and> prop_of c ''value_key'' = Some w \<and> field_key_ok w)"
  by (auto simp: validate_pie_def sbind_any field_key_exists)

lemma columns_ok:
  "validate_columns c = Inr () \<longleftrightarrow>
     (\<forall>v. prop_of c ''columns'' = Some v \<longrightarrow>
        (\<exists>vs. v = JArray vs \<and> length vs \<le> 20 \<and> list_all field_key_ok vs \<and> distinct vs))"
  by (auto simp: validate_columns_def sbind_eq_Inr MAX_TABLE_COLUMNS_def field_keys_ok not_less
      split: option.split)

lemma max_ok:
  "validate_max L c = Inr () \<longleftrightarrow>
     (\<forall>v. prop_of c ''max'' = Some v \<longrightarrow> (\<exists>n. v = JNumber n \<and> finite_positive L n))"
  by (auto simp: validate_max_def split: option.split json.split)

lemma tone_ok:
  "validate_tone c = Inr () \<longleftrightarrow>
     (\<forall>v. prop_of c ''tone'' = Some v \<longrightarrow>
        v \<in> {JString ''info'', JString ''success'', JString ''warning'', JString ''error''})"
  by (auto simp: validate_tone_def split: option.split)

lemma prop_known: "k \<in> set (map fst (sc_props c)) \<longleftrightarrow> prop_of c k \<noteq> None"
  by (metis prop_of_def map_of_eq_None_iff set_map)

lemma find_outside: "find (\<lambda>k. k \<notin> A) ks = None \<longleftrightarrow> set ks \<subseteq> A"
  by (auto simp: find_None_iff)

lemma properties_ok:
  "validate_component_properties L c = Inr () \<longleftrightarrow>
     set (required_properties (sc_type c)) \<subseteq> set (map fst (sc_props c)) \<and>
     (is_expanded_component (sc_type c) \<longrightarrow> short_text_ok c ''title'' \<and> short_text_ok c ''label'') \<and>
     shape_ok L c (sc_type c)"
proof (cases "set (required_properties (sc_type c)) \<subseteq> set (map fst (sc_props c))")
  case True
  then have "find (\<lambda>k. k \<notin> set (map fst (sc_props c))) (required_properties (sc_type c)) = None"
    by (simp only: find_outside)
  moreover have "(if is_expanded_component (sc_type c) then validate_short_texts c [''title'', ''label''] else Inr ()) = Inr () \<longleftrightarrow>
      (is_expanded_component (sc_type c) \<longrightarrow> short_text_ok c ''title'' \<and> short_text_ok c ''label'')"
    by (simp add: short_texts_ok del: validate_short_texts.simps)
  moreover have "(case sc_type c of ProgressBar \<Rightarrow> validate_max L c | Callout \<Rightarrow> validate_tone c
        | DataTable \<Rightarrow> validate_columns c | LineChart \<Rightarrow> validate_chart c | BarChart \<Rightarrow> validate_chart c
        | PieChart \<Rightarrow> validate_pie c | _ \<Rightarrow> Inr ()) = Inr () \<longleftrightarrow> shape_ok L c (sc_type c)"
    using True
    by (cases "sc_type c") (simp_all add: prop_known chart_ok pie_ok columns_ok max_ok tone_ok
        del: map_map set_map)
  ultimately show ?thesis
    using True by (simp add: validate_component_properties_def sbind_unit del: validate_short_texts.simps)
next
  case False
  then have "find (\<lambda>k. k \<notin> set (map fst (sc_props c))) (required_properties (sc_type c)) \<noteq> None"
    by (simp only: find_outside not_False_eq_True)
  with False show ?thesis by (auto simp: validate_component_properties_def)
qed

lemma wide_first_row_iff: "wide_first_row v \<longleftrightarrow> (\<exists>kvs rs. v = JArray (JObject kvs # rs) \<and> 20 < length kvs)"
proof (cases v)
  case (JArray vs)
  then show ?thesis
  proof (cases vs)
    case (Cons r rs)
    with JArray show ?thesis by (cases r) (auto simp: wide_first_row_def MAX_TABLE_COLUMNS_def)
  qed (simp add: wide_first_row_def)
qed (simp_all add: wide_first_row_def)

lemma bound_path_ok:
  "validate_bound_path L c data (k, path) = Inr () \<longleftrightarrow>
     (\<forall>p v. path = JString p \<longrightarrow> pointer L data p = Some v \<longrightarrow> bound_value_ok c k v)"
proof (cases "Option.bind (as_str path) (pointer L data)")
  case None
  then show ?thesis by (cases path) (auto simp: validate_bound_path_def)
next
  case (Some v)
  then obtain p where p: "path = JString p" "pointer L data p = Some v" by (auto simp: bind_eq_Some_conv)
  have slices: "(case as_array v of None \<Rightarrow> False | Some vs \<Rightarrow> MAX_PIE_SLICES < length vs) \<longleftrightarrow>
      (\<exists>vs. v = JArray vs \<and> 50 < length vs)"
    by (cases v) (auto simp: MAX_PIE_SLICES_def)
  have "''columns'' \<notin> set (map fst (sc_props c)) \<longleftrightarrow> prop_of c ''columns'' = None"
    using prop_known [of "''columns''" c] by blast
  with p Some show ?thesis
    by (auto simp: validate_bound_path_def slices wide_first_row_iff bound_value_ok_def bound_ok
        rendered_value_ok_def not_less [symmetric])
qed

lemma component_ok:
  "validate_component L data ids c = Inr () \<longleftrightarrow> sc_id c \<notin> set ids \<and> component_conforms L data c"
proof -
  have no_bound: "set (bound_paths c) = {}"
    if "\<not> (is_expanded_component (sc_type c) \<or> ''title_path'' \<in> set (map fst (sc_props c)))"
    using that by (force simp: bound_paths_def filter_empty_conv)
  have bound: "(if is_expanded_component (sc_type c) \<or> ''title_path'' \<in> set (map fst (sc_props c))
      then validate_bound_data L c data else Inr ()) = Inr () \<longleftrightarrow>
    (\<forall>(k, path) \<in> set (bound_paths c). \<forall>p v. path = JString p \<longrightarrow> pointer L data p = Some v \<longrightarrow>
       bound_value_ok c k v)"
  proof (cases "is_expanded_component (sc_type c) \<or> ''title_path'' \<in> set (map fst (sc_props c))")
    case True
    have "validate_bound_data L c data = Inr () \<longleftrightarrow>
        (\<forall>kp \<in> set (bound_paths c). validate_bound_path L c data (fst kp, snd kp) = Inr ())"
      by (simp add: validate_bound_data_def all_ok_ok)
    with True show ?thesis by (simp only: bound_path_ok if_True case_prod_unfold)
  next
    case False
    with no_bound show ?thesis by (simp del: set_map)
  qed
  show ?thesis
  proof (cases "set (map fst (sc_props c)) \<subseteq> set (allowed_properties (sc_type c))")
    case True
    then have "find (\<lambda>k. k \<notin> set (allowed_properties (sc_type c))) (map fst (sc_props c)) = None"
      by (simp only: find_outside)
    with True bound bindings_ok [of c] properties_ok [of L c] show ?thesis
      by (auto simp: validate_component_def component_conforms_def sbind_unit simp del: set_map)
  next
    case False
    then have "find (\<lambda>k. k \<notin> set (allowed_properties (sc_type c))) (map fst (sc_props c)) \<noteq> None"
      by (simp only: find_outside not_False_eq_True)
    with False show ?thesis
      by (auto simp: validate_component_def component_conforms_def simp del: set_map)
  qed
qed

lemma components_ok:
  "validate_components L data ids cs = Inr () \<longleftrightarrow>
     (\<forall>c \<in> set cs. component_conforms L data c) \<and> distinct (map sc_id cs) \<and> set ids \<inter> sc_id ` set cs = {}"
proof (induction cs arbitrary: ids)
  case (Cons c cs)
  show ?case
    by (auto simp: sbind_unit component_ok Cons.IH)
qed simp

section \<open>The theorem\<close>

text \<open>
  C19: the catalog accepts a descriptor exactly when it conforms: known catalog, bounded ids and
  sizes, unique components with the properties of their type and no others, bindings that are
  JSON pointers, gates that name a catalog action, and bound values within the limits of what is
  rendered. The stack the depth check keeps computes the height of a value.
\<close>

theorem catalog_accepts_exactly_the_conforming:
  "catalog_validate L C s = Inr () \<longleftrightarrow> surface_conforms L C s"
proof -
  have depths: "(\<forall>v \<in> set (concat (map (\<lambda>c. map snd (sc_props c)) (ws_components s))). json_height v \<le> 32) \<longleftrightarrow>
      (\<forall>c \<in> set (ws_components s). \<forall>(_, v) \<in> set (sc_props c). json_height v \<le> 32)"
    by fastforce
  show ?thesis
    by (simp add: catalog_validate_def surface_conforms_def ZBOT_WORK_SURFACE_CATALOG_def
        MAX_COMPONENTS_def MAX_SURFACE_BYTES_def sbind_unit validate_value_depth_ok all_ok_ok
        depths components_ok not_less ball_conj_distrib conj_ac del: set_concat set_map)
qed

end
