(* ===== verification/Ledger_Audit.thy ===== *)
theory Ledger_Audit
  imports Ledger Sample_Json
begin

text \<open>
  The audit trail of the ledger: replaying the runs of a thread gives its state, in every history
  of calls, whichever of them fail; and what a resumed execution is handed.
\<close>

section \<open>The trail\<close>

text \<open>
  The specification: a thread is created as proposed, moves along \<open>can_transition_to\<close>, and may be
  resumed while it is approved. \<open>None\<close> is a trail that is not one.
\<close>

definition audit_step :: "autonomy_state option \<Rightarrow> run_row \<Rightarrow> autonomy_state option" where
  "audit_step st r =
     (case (st, Option.bind (rn_to_state r) autonomy_state_parse) of
        (None, Some s) \<Rightarrow>
          if rn_kind r = ''created'' \<and> rn_from_state r = None \<and> s = AutProposed then Some s else None
      | (Some s, Some s') \<Rightarrow>
          if rn_from_state r = Some (autonomy_state_text s) \<and>
            (rn_kind r = ''transition'' \<and> can_transition_to s s' \<or>
             rn_kind r = ''resume_requested'' \<and> s = AutApproved \<and> s' = AutApproved)
          then Some s' else None
      | _ \<Rightarrow> None)"

fun replay_from :: "autonomy_state option \<Rightarrow> run_row list \<Rightarrow> autonomy_state option" where
  "replay_from st [] = st"
| "replay_from st (r # rs) =
     (case audit_step st r of None \<Rightarrow> None | Some s \<Rightarrow> replay_from (Some s) rs)"

definition replay :: "run_row list \<Rightarrow> autonomy_state option" where
  "replay rs = replay_from None rs"

definition runs_of :: "string \<Rightarrow> ledgerdb \<Rightarrow> run_row list" where
  "runs_of i db = filter (\<lambda>r. rn_item_id r = i) (runs_t db)"

definition item_ok :: "ledgerdb \<Rightarrow> item_row \<Rightarrow> bool" where
  "item_ok db r \<longleftrightarrow>
     approval_policy_parse (ir_policy r) \<noteq> None \<and>
     (\<exists>s. ir_state r = autonomy_state_text s \<and> replay (runs_of (ir_id r) db) = Some s \<and>
        (s = AutComplete \<longrightarrow> ir_completed_at r \<noteq> None))"

definition ledger_ok :: "ledgerdb \<Rightarrow> bool" where
  "ledger_ok db \<longleftrightarrow>
     unique_key ir_id (items_t db) \<and> unique_key ir_dedupe_key (items_t db) \<and>
     unique_key rn_id (runs_t db) \<and> rn_item_id ` set (runs_t db) \<subseteq> ir_id ` set (items_t db) \<and>
     (\<forall>r \<in> set (items_t db). item_ok db r)"

lemma replay_from_snoc:
  "rs \<noteq> [] \<Longrightarrow> replay_from st (rs @ [r]) =
     (case replay_from st rs of None \<Rightarrow> None | Some s \<Rightarrow> audit_step (Some s) r)"
proof (induction st rs rule: replay_from.induct)
  case (2 st q rs)
  then show ?case
    by (cases "rs = []") (auto split: option.split)
qed simp

lemma replay_snoc:
  "replay rs = Some s \<Longrightarrow> replay (rs @ [r]) = audit_step (Some s) r"
  using replay_from_snoc [of rs None r] by (cases "rs = []") (auto simp: replay_def)

lemma replay_single: "replay [r] = audit_step None r"
  by (simp add: replay_def split: option.split)

lemma runs_of_append: "runs_of i (db\<lparr>runs_t := rs @ [r]\<rparr>) =
    filter (\<lambda>r. rn_item_id r = i) rs @ (if rn_item_id r = i then [r] else [])"
  by (simp add: runs_of_def)

section \<open>Calls\<close>

lemma bnd_Inr_iff: "bnd m f s = (Inr y, u) \<longleftrightarrow> (\<exists>x t. m s = (Inr x, t) \<and> f x t = (Inr y, u))"
  by (auto simp: bnd_def split: prod.splits sum.splits)

lemma basic_Inr_iff:
  "ret x s = (Inr y, u) \<longleftrightarrow> y = x \<and> u = s"
  "throw e s = (Inr y, u) \<longleftrightarrow> False"
  "ok_or e v s = (Inr y, u) \<longleftrightarrow> v = Some y \<and> u = s"
  "lift_sum r s = (Inr y, u) \<longleftrightarrow> r = Inr y \<and> u = s"
  by (auto simp: ret_def throw_def ok_or_def lift_sum_def split: option.splits)

lemmas run_iff = bnd_Inr_iff basic_Inr_iff

definition same_tables :: "ledgerdb \<Rightarrow> ledgerdb \<Rightarrow> bool" where
  "same_tables a b \<longleftrightarrow> items_t a = items_t b \<and> evidence_t a = evidence_t b \<and> runs_t a = runs_t b"

lemma ledger_ok_same: "same_tables a b \<Longrightarrow> ledger_ok a \<longleftrightarrow> ledger_ok b"
  by (simp add: same_tables_def ledger_ok_def item_ok_def runs_of_def)

text \<open>A call that returns an error leaves the tables; one that returns does what its closure did.\<close>

lemma ledger_tx_cases:
  assumes "ledger_tx f db = (res, t)"
  obtains (error) e where "res = Inl e" "same_tables t db"
  | (returns) x d where "res = Inr x" "same_tables d db" "lg_ticks d = lg_ticks db"
      "lg_minted d = lg_minted db" "f d = (Inr x, t)"
proof (cases "call_ok db")
  case True
  obtain r u where f: "f (after_call db) = (r, u)" by (cases "f (after_call db)")
  have same: "same_tables (after_call db) db" "lg_ticks (after_call db) = lg_ticks db" "lg_minted (after_call db) = lg_minted db"
    by (simp_all add: same_tables_def after_call_def)
  show thesis
  proof (cases r)
    case (Inl e)
    with assms True f same(1) show thesis by (intro error) (auto simp: ledger_tx_def same_tables_def)
  next
    case (Inr x)
    with assms True f same show thesis by (intro returns [of x "after_call db"]) (auto simp: ledger_tx_def)
  qed
next
  case False
  with assms show thesis
    by (intro error) (auto simp: ledger_tx_def same_tables_def after_call_def)
qed

lemma ledger_tx_keeps:
  assumes "\<And>d x t. ledger_ok d \<Longrightarrow> f d = (Inr x, t) \<Longrightarrow> ledger_ok t"
  shows "keeps ledger_ok (ledger_tx f)"
proof (rule keepsI)
  fix db assume ok: "ledger_ok db"
  obtain res t where tx: "ledger_tx f db = (res, t)" by (cases "ledger_tx f db")
  then show "ledger_ok (snd (ledger_tx f db))"
  proof (cases rule: ledger_tx_cases)
    case (error e)
    with ok tx ledger_ok_same show ?thesis by auto
  next
    case (returns x d)
    with ok ledger_ok_same have "ledger_ok d" by blast
    with assms returns tx show ?thesis by auto
  qed
qed

lemma ledger_tx_error: "ledger_tx f db = (Inl e, t) \<Longrightarrow> same_tables t db"
  by (auto elim: ledger_tx_cases)

lemma keeps_from_success:
  assumes "\<And>db e t. m db = (Inl e, t) \<Longrightarrow> same_tables t db"
    and "\<And>db x t. ledger_ok db \<Longrightarrow> m db = (Inr x, t) \<Longrightarrow> ledger_ok t"
  shows "keeps ledger_ok m"
proof (rule keepsI)
  fix db assume ok: "ledger_ok db"
  obtain res t where run: "m db = (res, t)" by (cases "m db")
  then show "ledger_ok (snd (m db))"
    using ok assms ledger_ok_same by (cases res) fastforce+
qed

lemma load_item_snd [simp]: "snd (load_item i db) = db"
  by (auto simp: load_item_def split: option.split sum.split)

lemma load_item_Inr:
  "load_item i db = (Inr x, t) \<longleftrightarrow> t = db \<and>
     (case find (\<lambda>r. ir_id r = i) (items_t db) of
        None \<Rightarrow> x = None
      | Some r \<Rightarrow> (\<exists>it. row_to_item r = Inr it \<and> x = Some it))"
  by (auto simp: load_item_def split: option.split sum.split)

lemma row_to_item_Inr:
  "row_to_item r = Inr it \<Longrightarrow>
     autonomy_state_parse (ir_state r) = Some (ai_state it) \<and> ai_id it = ir_id r \<and>
     approval_policy_parse (ir_policy r) = Some (ai_policy it) \<and>
     ai_title it = ir_title r \<and> ai_objective it = ir_objective r \<and> ai_next_action it = ir_next_action r"
  by (auto simp: row_to_item_def sbind_eq_Inr)

lemma parse_text: "autonomy_state_parse s = Some st \<longleftrightarrow> s = autonomy_state_text st"
  by (cases st) (auto simp: autonomy_state_parse_def)

lemma state_text_inj [simp]: "autonomy_state_text a = autonomy_state_text b \<longleftrightarrow> a = b"
  by (cases a; cases b) simp_all

lemma state_text_approved [simp]: "autonomy_state_text s = ''approved'' \<longleftrightarrow> s = AutApproved"
  by (cases s) simp_all

lemma row_of_item_round: "row_to_item (row_of_item it) = Inr it"
  by (simp add: row_to_item_def row_of_item_def codec_simps)

section \<open>Creating a thread\<close>

lemma list_ex_key: "list_ex (\<lambda>q. f q = x) qs \<longleftrightarrow> x \<in> f ` set qs"
  by (induction qs) auto

lemma list_ex_or: "list_ex (\<lambda>q. P q \<or> Q q) qs \<longleftrightarrow> list_ex P qs \<or> list_ex Q qs"
  by (induction qs) auto

lemma insert_item_Inr:
  "insert_item r db = (Inr u, t) \<longleftrightarrow>
     ir_id r \<notin> ir_id ` set (items_t db) \<and> ir_dedupe_key r \<notin> ir_dedupe_key ` set (items_t db) \<and>
     t = db\<lparr>items_t := items_t db @ [r]\<rparr>"
  by (auto simp: insert_item_def list_ex_key list_ex_or split: if_splits)

lemma insert_run_Inr:
  "insert_run r db = (Inr u, t) \<longleftrightarrow>
     rn_id r \<notin> rn_id ` set (runs_t db) \<and> rn_item_id r \<in> ir_id ` set (items_t db) \<and>
     t = db\<lparr>runs_t := runs_t db @ [r]\<rparr>"
  by (auto simp: insert_run_def list_ex_key simp del: in_set_conv_nth split: if_splits)

lemma insert_evidence_Inr:
  "for_each insert_evidence es db = (Inr u, t) \<Longrightarrow> t = db\<lparr>evidence_t := evidence_t db @ es\<rparr>"
proof (induction es arbitrary: db)
  case Nil
  then show ?case by (simp add: ret_def)
next
  case (Cons e es)
  from Cons.prems have "for_each insert_evidence es (db\<lparr>evidence_t := evidence_t db @ [e]\<rparr>) = (Inr u, t)"
    by (cases "insert_evidence e db")
      (auto simp: bnd_def insert_evidence_def [of e] split: if_splits sum.splits)
  from Cons.IH [OF this] show ?case by simp
qed

lemma append_run:
  assumes "ledger_ok db" and "r \<in> set (items_t db)" and "rn_item_id q = ir_id r"
    and "rn_id q \<notin> rn_id ` set (runs_t db)"
    and "audit_step (Some s) q = Some s'" and "ir_state r = autonomy_state_text s"
    and "s' = AutComplete \<longrightarrow> c \<noteq> None"
    and "\<And>p. upd p = p\<lparr>ir_state := autonomy_state_text s', ir_updated_at := ir_updated_at (upd p), ir_completed_at := c\<rparr>"
  shows "ledger_ok (db\<lparr>items_t := sql_update (\<lambda>p. ir_id p = ir_id r) upd (items_t db), runs_t := runs_t db @ [q]\<rparr>)"
proof -
  have kept: "ir_id (upd p) = ir_id p" "ir_dedupe_key (upd p) = ir_dedupe_key p" "ir_policy (upd p) = ir_policy p"
    "ir_state (upd p) = autonomy_state_text s'" "ir_completed_at (upd p) = c" for p
    by (subst assms(8), simp)+
  have ids: "map ir_id (sql_update (\<lambda>p. ir_id p = ir_id r) upd (items_t db)) = map ir_id (items_t db)"
    "map ir_dedupe_key (sql_update (\<lambda>p. ir_id p = ir_id r) upd (items_t db)) = map ir_dedupe_key (items_t db)"
    by (simp_all add: map_sql_update kept)
  have "replay (runs_of (ir_id r) db) = Some s"
    using assms(1,2,6) by (auto simp: ledger_ok_def item_ok_def dest!: bspec)
  then have trail: "replay (runs_of (ir_id r) db @ [q]) = Some s'"
    using replay_snoc assms(5) by simp
  have item: "item_ok (db\<lparr>items_t := its, runs_t := runs_t db @ [q]\<rparr>) p"
    if "p \<in> set (items_t db)" "ir_id p \<noteq> ir_id r" for p its
    using that assms(1,3) by (auto simp: ledger_ok_def item_ok_def runs_of_def)
  have changed: "item_ok (db\<lparr>items_t := its, runs_t := runs_t db @ [q]\<rparr>) (upd p)"
    if "p \<in> set (items_t db)" "ir_id p = ir_id r" for p its
    using that assms(1,3,7) trail by (auto simp: ledger_ok_def item_ok_def runs_of_def kept intro!: exI [of _ s'])
  have "ir_id ` set (sql_update (\<lambda>p. ir_id p = ir_id r) upd (items_t db)) = ir_id ` set (items_t db)"
    using ids(1) by (metis set_map)
  with ids assms(1-4) item changed show ?thesis
    by (auto simp: ledger_ok_def dest!: in_set_sql_update)
qed

lemma ledger_create_keeps: "keeps ledger_ok (ledger_create E item evidence)"
proof -
  let ?r = "row_of_item item"
  let ?q = "\<lambda>u. \<lparr>rn_id = ''run-'' @ u, rn_item_id = ai_id item, rn_kind = ''created'', rn_from_state = None,
    rn_to_state = Some (autonomy_state_text (ai_state item)), rn_outcome = None, rn_created_at = ai_created_at item\<rparr>"
  have "ledger_ok t"
    if ok: "ledger_ok d" and new: "ai_state item = AutProposed"
      and run: "bnd (insert_item ?r) (\<lambda>_. bnd (for_each insert_evidence evidence) (\<lambda>_.
        bnd (lg_now_v7 E) (\<lambda>u. insert_run (?q u)))) d = (Inr x, t)" for d t x
  proof -
    obtain u where fresh: "ir_id ?r \<notin> ir_id ` set (items_t d)" "ir_dedupe_key ?r \<notin> ir_dedupe_key ` set (items_t d)"
      "rn_id (?q u) \<notin> rn_id ` set (runs_t d)"
      and t: "items_t t = items_t d @ [?r]" "runs_t t = runs_t d @ [?q u]"
      using run
      by (auto elim!: bnd_eq_InrE simp: insert_item_Inr insert_run_Inr lg_now_v7_def dest!: insert_evidence_Inr)
    have none: "filter (\<lambda>r. rn_item_id r = ai_id item) (runs_t d) = []"
      using ok fresh(1) by (force simp: ledger_ok_def row_of_item_def filter_empty_conv)
    have "item_ok t p" if "p \<in> set (items_t d)" for p
      using that ok fresh(1) t by (auto simp: ledger_ok_def item_ok_def runs_of_def row_of_item_def)
    moreover have "item_ok t ?r"
      using new none t by (auto simp: item_ok_def runs_of_def row_of_item_def codec_simps replay_single audit_step_def
          autonomy_state_parse_def intro!: exI [of _ AutProposed])
    ultimately show ?thesis
      using ok fresh t by (auto simp: ledger_ok_def row_of_item_def)
  qed
  then show ?thesis
    by (auto simp: ledger_create_def intro!: keeps_intros ledger_tx_keeps)
qed

section \<open>Moving and resuming a thread\<close>

lemma load_item_found:
  assumes "load_item i db = (Inr (Some it), t)"
  obtains r where "r \<in> set (items_t db)" "ir_id r = i" "row_to_item r = Inr it" "t = db"
  using assms by (auto simp: load_item_Inr find_Some_iff split: option.splits dest: nth_mem)

definition transition_run :: "ledger_env \<Rightarrow> ledgerdb \<Rightarrow> string \<Rightarrow> autonomy_state \<Rightarrow> autonomy_state \<Rightarrow> string option \<Rightarrow> run_row" where
  "transition_run E db i s next outcome =
     \<lparr>rn_id = ''run-'' @ lg_uuid E (lg_minted db), rn_item_id = i, rn_kind = ''transition'',
      rn_from_state = Some (autonomy_state_text s), rn_to_state = Some (autonomy_state_text next),
      rn_outcome = outcome, rn_created_at = lg_now E (lg_ticks db)\<rparr>"

definition moved_row :: "autonomy_state \<Rightarrow> string \<Rightarrow> item_row \<Rightarrow> item_row" where
  "moved_row next now = (\<lambda>r. r\<lparr>ir_state := autonomy_state_text next, ir_updated_at := now,
     ir_completed_at := (if next = AutComplete then Some now else None)\<rparr>)"

lemma transition_InrD:
  assumes "ledger_transition E i next outcome db = (Inr x, t)"
  obtains r current where "r \<in> set (items_t db)" "ir_id r = i" "row_to_item r = Inr current"
    "can_transition_to (ai_state current) next"
    "rn_id (transition_run E db i (ai_state current) next outcome) \<notin> rn_id ` set (runs_t db)"
    "same_tables t (db\<lparr>items_t := sql_update (\<lambda>p. ir_id p = i) (moved_row next (lg_now E (lg_ticks db))) (items_t db),
      runs_t := runs_t db @ [transition_run E db i (ai_state current) next outcome]\<rparr>)"
proof -
  from assms show thesis
    unfolding ledger_transition_def
  proof (cases rule: ledger_tx_cases)
    case (returns y d)
    from returns(2) have tables: "items_t d = items_t db" "runs_t d = runs_t db" "evidence_t d = evidence_t db"
      by (simp_all add: same_tables_def)
    let ?e = "d\<lparr>lg_ticks := Suc (lg_ticks d), items_t := sql_update (\<lambda>p. ir_id p = i) (moved_row next (lg_now E (lg_ticks d))) (items_t d),
      lg_minted := Suc (lg_minted d)\<rparr>"
    from returns(5) have "\<exists>current. load_item i d = (Inr (Some current), d) \<and> can_transition_to (ai_state current) next \<and>
        insert_run (transition_run E d i (ai_state current) next outcome) ?e = (Inr (), t)"
      by (auto simp: run_iff load_item_Inr lg_utc_now_def lg_now_v7_def transition_run_def moved_row_def
          split: option.splits if_splits)
    then obtain current where l: "load_item i d = (Inr (Some current), d)" and may: "can_transition_to (ai_state current) next"
      and q: "insert_run (transition_run E d i (ai_state current) next outcome) ?e = (Inr (), t)" by blast
    obtain r where "r \<in> set (items_t d)" "ir_id r = i" "row_to_item r = Inr current" using l by (rule load_item_found)
    with may q tables returns(3,4) show thesis
      by (intro that [of r current]) (auto simp: insert_run_Inr same_tables_def transition_run_def)
  qed simp
qed

lemma ledger_transition_keeps: "keeps ledger_ok (ledger_transition E i next outcome)"
proof (rule keeps_from_success)
  fix db e t assume "ledger_transition E i next outcome db = (Inl e, t)"
  then show "same_tables t db" unfolding ledger_transition_def by (rule ledger_tx_error)
next
  fix db x t assume ok: "ledger_ok db" and "ledger_transition E i next outcome db = (Inr x, t)"
  from transition_InrD [OF this(2)] obtain r current where
    r: "r \<in> set (items_t db)" "ir_id r = i" "row_to_item r = Inr current"
    and may: "can_transition_to (ai_state current) next"
    and fresh: "rn_id (transition_run E db i (ai_state current) next outcome) \<notin> rn_id ` set (runs_t db)"
    and t: "same_tables t (db\<lparr>items_t := sql_update (\<lambda>p. ir_id p = i) (moved_row next (lg_now E (lg_ticks db))) (items_t db),
      runs_t := runs_t db @ [transition_run E db i (ai_state current) next outcome]\<rparr>)" .
  from row_to_item_Inr [OF r(3)] have st: "ir_state r = autonomy_state_text (ai_state current)"
    by (simp add: parse_text)
  have "ledger_ok (db\<lparr>items_t := sql_update (\<lambda>p. ir_id p = ir_id r) (moved_row next (lg_now E (lg_ticks db))) (items_t db),
      runs_t := runs_t db @ [transition_run E db i (ai_state current) next outcome]\<rparr>)"
    by (rule append_run [OF ok r(1) _ fresh, where s = "ai_state current" and s' = "next"])
      (auto simp: r st audit_step_def codec_simps may transition_run_def moved_row_def)
  with t r(2) ledger_ok_same show "ledger_ok t" by blast
qed

lemma map_error_Inr: "(case s of Inl e \<Rightarrow> Inl (f e) | Inr y \<Rightarrow> Inr y) = Inr x \<longleftrightarrow> s = Inr x"
  by (cases s) simp_all

lemma prepare_resume_InrD:
  assumes "ledger_prepare_resume E i db = (Inr p, t)"
  obtains r item d u where "r \<in> set (items_t db)" "ir_id r = i" "row_to_item r = Inr item"
    "from_approved_item (lg_codec E) item (order_asc ae_created_at (filter (\<lambda>e. ae_item_id e = i) (evidence_t db))) = Inr p"
    "same_tables d db" "rn_id u \<notin> rn_id ` set (runs_t db)" "rn_item_id u = i"
    "rn_kind u = ''resume_requested''" "rn_from_state u = Some ''approved''" "rn_to_state u = Some ''approved''"
    "same_tables t (d\<lparr>runs_t := runs_t db @ [u]\<rparr>)"
proof -
  from assms show thesis
    unfolding ledger_prepare_resume_def
  proof (cases rule: ledger_tx_cases)
    case (returns x d)
    from returns(2) have tables: "items_t d = items_t db" "evidence_t d = evidence_t db" "runs_t d = runs_t db"
      by (simp_all add: same_tables_def)
    let ?u = "\<lparr>rn_id = ''run-'' @ lg_uuid E (lg_minted d), rn_item_id = i, rn_kind = ''resume_requested'',
        rn_from_state = Some (autonomy_state_text AutApproved), rn_to_state = Some (autonomy_state_text AutApproved),
        rn_outcome = Some ''user_requested'', rn_created_at = lg_now E (lg_ticks d)\<rparr>"
    let ?e = "d\<lparr>lg_ticks := Suc (lg_ticks d), lg_minted := Suc (lg_minted d)\<rparr>"
    from returns(5) have "\<exists>item. load_item i d = (Inr (Some item), d) \<and>
        from_approved_item (lg_codec E) item (order_asc ae_created_at (filter (\<lambda>e. ae_item_id e = i) (evidence_t d))) = Inr x \<and>
        insert_run ?u ?e = (Inr (), t)"
      by (auto simp: run_iff map_error_Inr load_item_Inr load_evidence_def lg_utc_now_def lg_now_v7_def
          split: option.splits)
    then obtain item where l: "load_item i d = (Inr (Some item), d)"
      and packet: "from_approved_item (lg_codec E) item (order_asc ae_created_at (filter (\<lambda>e. ae_item_id e = i) (evidence_t d))) = Inr x"
      and q: "insert_run ?u ?e = (Inr (), t)" by blast
    obtain r where r: "r \<in> set (items_t d)" "ir_id r = i" "row_to_item r = Inr item"
      using l by (rule load_item_found)
    from q have run: "rn_id ?u \<notin> rn_id ` set (runs_t d)" "t = ?e\<lparr>runs_t := runs_t d @ [?u]\<rparr>"
      by (auto simp: insert_run_Inr)
    have "x = p" using returns(1) by simp
    with r packet run returns(2) tables show thesis
      by (intro that [of r item d ?u]) (auto simp: same_tables_def)
  qed simp
qed

lemma ledger_prepare_resume_keeps: "keeps ledger_ok (ledger_prepare_resume E i)"
proof (rule keeps_from_success)
  fix db e t assume "ledger_prepare_resume E i db = (Inl e, t)"
  then show "same_tables t db" unfolding ledger_prepare_resume_def by (rule ledger_tx_error)
next
  fix db p t assume ok: "ledger_ok db" and "ledger_prepare_resume E i db = (Inr p, t)"
  from prepare_resume_InrD [OF this(2)] obtain r item d u where
    r: "r \<in> set (items_t db)" "ir_id r = i" "row_to_item r = Inr item"
      "from_approved_item (lg_codec E) item (order_asc ae_created_at (filter (\<lambda>e. ae_item_id e = i) (evidence_t db))) = Inr p"
    and d: "same_tables d db"
    and u: "rn_id u \<notin> rn_id ` set (runs_t db)" "rn_item_id u = i" "rn_kind u = ''resume_requested''"
      "rn_from_state u = Some ''approved''" "rn_to_state u = Some ''approved''"
    and t: "same_tables t (d\<lparr>runs_t := runs_t db @ [u]\<rparr>)" .
  from r(4) have "ai_state item = AutApproved" by (auto simp: from_approved_item_def split: if_splits)
  with row_to_item_Inr [OF r(3)] have st: "ir_state r = autonomy_state_text AutApproved" by (simp add: parse_text)
  let ?same = "\<lambda>p. p\<lparr>ir_state := ''approved'', ir_completed_at := ir_completed_at r\<rparr>"
  have keep: "sql_update (\<lambda>p. ir_id p = ir_id r) ?same (items_t db) = items_t db"
  proof -
    have "(if ir_id p = ir_id r then ?same p else p) = p" if "p \<in> set (items_t db)" for p
    proof (cases "ir_id p = ir_id r")
      case True
      with ok r(1) that unique_key_eq [of ir_id "items_t db" p r] have "p = r" by (auto simp: ledger_ok_def)
      with st show ?thesis by simp
    qed simp
    then show ?thesis unfolding sql_update_def by (rule map_idI)
  qed
  have "ledger_ok (db\<lparr>items_t := sql_update (\<lambda>p. ir_id p = ir_id r) ?same (items_t db), runs_t := runs_t db @ [u]\<rparr>)"
    by (rule append_run [OF ok r(1) _ u(1), where s = AutApproved and s' = AutApproved])
      (simp_all add: u r(2) st audit_step_def autonomy_state_parse_def)
  moreover have "same_tables (db\<lparr>items_t := sql_update (\<lambda>p. ir_id p = ir_id r) ?same (items_t db), runs_t := runs_t db @ [u]\<rparr>) t"
    using d t by (simp add: keep same_tables_def)
  ultimately show "ledger_ok t" using ledger_ok_same by blast
qed

section \<open>Histories\<close>

datatype ledger_cmd =
  LgCreate autonomy_item "autonomy_evidence list"
| LgGet string
| LgListOpen "64 word"
| LgEvidence string
| LgRuns string
| LgPrepareResume string
| LgTransition string autonomy_state "string option"

primrec run_ledger :: "ledger_env \<Rightarrow> ledger_cmd \<Rightarrow> ledgerdb \<Rightarrow> ledgerdb" where
  "run_ledger E (LgCreate item evidence) db = snd (ledger_create E item evidence db)"
| "run_ledger E (LgGet i) db = snd (ledger_get i db)"
| "run_ledger E (LgListOpen limit) db = snd (ledger_list_open limit db)"
| "run_ledger E (LgEvidence i) db = snd (ledger_evidence i db)"
| "run_ledger E (LgRuns i) db = snd (ledger_runs i db)"
| "run_ledger E (LgPrepareResume i) db = snd (ledger_prepare_resume E i db)"
| "run_ledger E (LgTransition i next outcome) db = snd (ledger_transition E i next outcome db)"

definition empty_ledger :: "bool list \<Rightarrow> ledgerdb" where
  "empty_ledger fs = \<lparr>faults = fs, lg_ticks = 0, lg_minted = 0, items_t = [], evidence_t = [], runs_t = []\<rparr>"

lemma ledger_reads_keep:
  "keeps ledger_ok (ledger_get i)" "keeps ledger_ok (ledger_list_open limit)"
  "keeps ledger_ok (ledger_evidence i)" "keeps ledger_ok (ledger_runs i)"
  unfolding ledger_get_def ledger_list_open_def ledger_evidence_def ledger_runs_def
  by (auto intro!: ledger_tx_keeps simp: load_item_Inr load_evidence_def Let_def)

lemma run_ledger_ok: "ledger_ok db \<Longrightarrow> ledger_ok (run_ledger E c db)"
  by (cases c) (auto intro: keepsD ledger_create_keeps ledger_transition_keeps ledger_prepare_resume_keeps ledger_reads_keep)

lemma ledger_history_ok: "ledger_ok db \<Longrightarrow> ledger_ok (fold (run_ledger E) cs db)"
  by (induction cs arbitrary: db) (auto simp: run_ledger_ok)

text \<open>
  C20: the ledger is audited. In every history of calls, whichever of them fail, the trail of a
  thread replays to the state its row shows: it starts as proposed, every move is one the state
  machine allows, every resume request was made while the thread was approved, and ids and
  deduplication keys stay unique.
\<close>

theorem every_history_is_on_the_audit_trail:
  "ledger_ok (fold (run_ledger E) cs (empty_ledger fs))"
  by (rule ledger_history_ok) (simp add: ledger_ok_def empty_ledger_def)

section \<open>What a resumed execution is handed\<close>

lemma set_replace_char: "set (replace_char c r s) \<subseteq> (set s - {c}) \<union> set r"
  by (auto simp: replace_char_def split: if_splits)

lemma packet_json_safe:
  assumes "packet_json C p = Inr body"
  shows "length body \<le> 8192" and "set body \<inter> {CHR ''<'', CHR ''>'', CHR ''&''} = {}"
proof -
  let ?lt = "replace_char (CHR ''<'') [CHR 0x5C, CHR ''u'', CHR ''0'', CHR ''0'', CHR ''3'', CHR ''c''] (json_to_string C (packet_to_json p))"
  let ?gt = "replace_char (CHR ''>'') [CHR 0x5C, CHR ''u'', CHR ''0'', CHR ''0'', CHR ''3'', CHR ''e''] ?lt"
  from assms have body: "body = replace_char (CHR ''&'') [CHR 0x5C, CHR ''u'', CHR ''0'', CHR ''0'', CHR ''2'', CHR ''6''] ?gt"
    "length body \<le> 8192"
    by (auto simp: packet_json_def Let_def LEDGER_RESUME_PACKET_MAX_BYTES_def split: if_splits)
  then show "length body \<le> 8192" by simp
  have "CHR ''<'' \<notin> set ?lt" "CHR ''<'' \<notin> set ?gt" "CHR ''>'' \<notin> set ?gt"
    using set_replace_char [of "CHR ''<''"] set_replace_char [of "CHR ''>''"] by fastforce+
  with body(1) set_replace_char [of "CHR ''&''" _ ?gt]
  show "set body \<inter> {CHR ''<'', CHR ''>'', CHR ''&''} = {}" by fastforce
qed

lemma length_collect_sum: "collect_sum f xs = Inr ys \<Longrightarrow> length ys = length xs"
  by (induction xs arbitrary: ys) (auto simp: sbind_eq_Inr)

lemma from_approved_item_Inr:
  assumes "from_approved_item C item es = Inr p"
  shows "ai_state item = AutApproved" "rp_item_id p = ai_id item" "length (rp_title p) \<le> 200"
    "length (rp_objective p) \<le> 2048" "length (rp_next_action p) \<le> 1024" "length (rp_evidence p) \<le> 8"
    "\<exists>body. packet_json C p = Inr body"
  using assms
  by (auto simp: from_approved_item_def sbind_eq_Inr require_bounded_def LEDGER_RESUME_TITLE_MAX_BYTES_def
      LEDGER_RESUME_OBJECTIVE_MAX_BYTES_def LEDGER_RESUME_NEXT_ACTION_MAX_BYTES_def
      LEDGER_RESUME_EVIDENCE_MAX_COUNT_def Let_def dest: length_collect_sum split: if_splits)

lemma a_packet_recorded:
  assumes "ledger_prepare_resume E i db = (Inr p, t)" and "ledger_ok db"
  shows "replay (runs_of i db) = Some AutApproved" "items_t t = items_t db" "rp_item_id p = i"
    "\<exists>u. runs_t t = runs_t db @ [u] \<and> rn_item_id u = i \<and> rn_kind u = ''resume_requested''"
    "\<exists>item es. from_approved_item (lg_codec E) item es = Inr p"
proof -
  from prepare_resume_InrD [OF assms(1)] obtain r item d u where
    r: "r \<in> set (items_t db)" "ir_id r = i" "row_to_item r = Inr item"
      "from_approved_item (lg_codec E) item (order_asc ae_created_at (filter (\<lambda>e. ae_item_id e = i) (evidence_t db))) = Inr p"
    and d: "same_tables d db" and u: "rn_item_id u = i" "rn_kind u = ''resume_requested''"
    and t: "same_tables t (d\<lparr>runs_t := runs_t db @ [u]\<rparr>)" .
  note p = from_approved_item_Inr [OF r(4)] and it = row_to_item_Inr [OF r(3)]
  from assms(2) r(1) it p(1) show "replay (runs_of i db) = Some AutApproved"
    using r(2) by (auto simp: ledger_ok_def item_ok_def parse_text dest!: bspec)
  show "\<exists>u. runs_t t = runs_t db @ [u] \<and> rn_item_id u = i \<and> rn_kind u = ''resume_requested''"
    and "items_t t = items_t db"
    using d t u by (auto simp: same_tables_def)
  show "rp_item_id p = i" using p(2) it r(2) by simp
  show "\<exists>item es. from_approved_item (lg_codec E) item es = Inr p" using r(4) by blast
qed

text \<open>
  C21: a packet is handed out only for a thread whose trail says it is approved, with the request
  on record and nothing else changed; it is bounded, and in the system context it is rendered to
  no user text can close the marker around it: the text between the markers has no angle bracket
  and no ampersand, whatever the serializer prints.
\<close>

theorem a_packet_is_approved_recorded_and_fenced:
  assumes "ledger_prepare_resume E i db = (Inr p, t)" and "ledger_ok db"
  shows "replay (runs_of i db) = Some AutApproved \<and>
    (\<exists>u. runs_t t = runs_t db @ [u] \<and> rn_item_id u = i \<and> rn_kind u = ''resume_requested'') \<and>
    items_t t = items_t db \<and> rp_item_id p = i \<and>
    length (rp_title p) \<le> 200 \<and> length (rp_objective p) \<le> 2048 \<and> length (rp_next_action p) \<le> 1024 \<and>
    length (rp_evidence p) \<le> 8 \<and>
    (\<exists>body. render_system_context (lg_codec E) p =
        Inr (packet_preamble @ ''<ledger_resume_packet>'' @ [CHR 0x0A] @ body @ [CHR 0x0A] @ ''</ledger_resume_packet>'') \<and>
      length body \<le> 8192 \<and> set body \<inter> {CHR ''<'', CHR ''>'', CHR ''&''} = {})"
proof -
  note rec = a_packet_recorded [OF assms]
  from rec(5) obtain item es where packet: "from_approved_item (lg_codec E) item es = Inr p" by blast
  note p = from_approved_item_Inr [OF packet]
  from p(7) obtain body where body: "packet_json (lg_codec E) p = Inr body" by blast
  have "render_system_context (lg_codec E) p =
      Inr (packet_preamble @ ''<ledger_resume_packet>'' @ [CHR 0x0A] @ body @ [CHR 0x0A] @ ''</ledger_resume_packet>'')"
    by (simp add: render_system_context_def body)
  with rec p(3-6) packet_json_safe [OF body] show ?thesis by (intro conjI) auto
qed

definition sample_ledger_env :: ledger_env where
  "sample_ledger_env = \<lparr>lg_codec = json_sample, lg_now = (\<lambda>n. replicate n (CHR ''t'')),
     lg_uuid = (\<lambda>n. replicate n (CHR ''u''))\<rparr>"

definition sample_thread :: autonomy_item where
  "sample_thread = \<lparr>ai_id = ''a'', ai_title = ''<t>'', ai_objective = ''o'', ai_next_action = ''n'',
     ai_state = AutProposed, ai_policy = Manual, ai_source_session_id = Some ''s'', ai_dedupe_key = ''d'',
     ai_created_at = ''c'', ai_updated_at = ''c'', ai_completed_at = None\<rparr>"

definition sample_ledger :: ledgerdb where
  "sample_ledger = fold (run_ledger sample_ledger_env)
     [LgCreate sample_thread [], LgTransition ''a'' AutApproved None] (empty_ledger [])"

lemmas sample_ledger_run =
  sample_ledger_env_def sample_thread_def empty_ledger_def ledger_tx_def bnd_def ok_or_def ret_def throw_def
  lift_sum_def load_item_def load_evidence_def lg_utc_now_def lg_now_v7_def insert_item_def insert_run_def
  row_to_item_def row_of_item_def autonomy_state_parse_def approval_policy_parse_def numeral_2_eq_2

lemma sample_ledger_eval:
  "sample_ledger = \<lparr>faults = [], lg_ticks = 1, lg_minted = 2,
     items_t = [(row_of_item sample_thread)\<lparr>ir_state := ''approved'', ir_updated_at := []\<rparr>], evidence_t = [],
     runs_t = [\<lparr>rn_id = ''run-'', rn_item_id = ''a'', rn_kind = ''created'', rn_from_state = None,
         rn_to_state = Some ''proposed'', rn_outcome = None, rn_created_at = ''c''\<rparr>,
       \<lparr>rn_id = ''run-u'', rn_item_id = ''a'', rn_kind = ''transition'', rn_from_state = Some ''proposed'',
         rn_to_state = Some ''approved'', rn_outcome = None, rn_created_at = []\<rparr>]\<rparr>"
  by (simp add: sample_ledger_def ledger_create_def ledger_transition_def sample_ledger_run)

lemma sample_ledger_resumes:
  "\<exists>p t. ledger_prepare_resume sample_ledger_env ''a'' sample_ledger = (Inr p, t)"
  by (simp add: sample_ledger_eval ledger_prepare_resume_def sample_ledger_run from_approved_item_def
      require_bounded_def trim_is_empty_def bytes_def blank_bytes.simps packet_json_def packet_to_json_def
      replace_char_def json_sample_def order_asc_def
      LEDGER_RESUME_TITLE_MAX_BYTES_def LEDGER_RESUME_OBJECTIVE_MAX_BYTES_def
      LEDGER_RESUME_NEXT_ACTION_MAX_BYTES_def LEDGER_RESUME_EVIDENCE_MAX_COUNT_def
      LEDGER_RESUME_PACKET_MAX_BYTES_def)

lemma a_packet_is_approved_recorded_and_fenced_witness:
  "\<exists>p. fst (ledger_prepare_resume sample_ledger_env ''a'' sample_ledger) = Inr p \<and> length (rp_title p) \<le> 200 \<and>
     replay (runs_of ''a'' sample_ledger) = Some AutApproved"
proof -
  obtain p t where run: "ledger_prepare_resume sample_ledger_env ''a'' sample_ledger = (Inr p, t)"
    using sample_ledger_resumes by blast
  have "ledger_ok sample_ledger"
    unfolding sample_ledger_def by (rule ledger_history_ok) (simp add: ledger_ok_def empty_ledger_def)
  from a_packet_is_approved_recorded_and_fenced [OF run this] run show ?thesis by auto
qed

text \<open>The create endpoint takes up to thirty-two references; a thread with more than eight cannot be resumed.\<close>

lemma much_evidence_never_resumes:
  "8 < length es \<Longrightarrow> \<exists>e. from_approved_item C item es = Inl e"
  using from_approved_item_Inr(6) length_collect_sum
  by (cases "from_approved_item C item es")
    (auto simp: from_approved_item_def sbind_eq_Inr LEDGER_RESUME_EVIDENCE_MAX_COUNT_def split: if_splits)

end
