(* ===== verification/Ledger_Http.thy ===== *)
theory Ledger_Http
  imports Ledger_Audit State_Samples Surface_Catalog
begin

text \<open>
  The endpoints of the ledger (\<open>gateway/src/http/autonomy.rs\<close>) and the endpoint of surface actions
  (\<open>gateway/src/http/surfaces.rs\<close>): over the ledger, the session store, and the executions the
  runtime was asked to start.
\<close>

section \<open>Requests\<close>

record evidence_request =
  eq_kind :: string
  eq_reference_id :: string
  eq_label :: "string option"

record create_item_request =
  cq_title :: string
  cq_objective :: string
  cq_next_action :: string
  cq_source_session_id :: "string option"
  cq_dedupe_key :: string
  cq_policy :: approval_policy
  cq_evidence :: "evidence_request list"

record action_request =
  aq_action_id :: surface_action_id
  aq_surface_id :: string
  aq_target :: string
  aq_expected_state :: "string option"

record eligibility_response =
  el_item_id :: string
  el_state :: autonomy_state
  el_policy :: approval_policy
  el_trigger :: string
  el_eligible :: bool
  el_reason :: string
  el_read_only :: bool
  el_scheduler_configured :: bool
  el_execution_started :: bool

datatype http_error =
  HttpBadRequest string | HttpNotFound string | HttpConflict string | HttpForbidden string | HttpInternal

record decision_world =
  w_ledger :: ledgerdb
  w_state :: statedb
  w_invoked :: "(string \<times> string \<times> resume_packet) list"

type_synonym 'a http = "(decision_world, http_error, 'a) op"

text \<open>A call to one of the stores, with what its errors are answered with.\<close>

definition on_ledger :: "(ledger_error \<Rightarrow> http_error) \<Rightarrow> 'a lg_op \<Rightarrow> 'a http" where
  "on_ledger answer f w =
     (let (res, t) = f (w_ledger w)
      in (case res of Inl e \<Rightarrow> Inl (answer e) | Inr x \<Rightarrow> Inr x, w\<lparr>w_ledger := t\<rparr>))"

definition on_state :: "'a st_op \<Rightarrow> 'a http" where
  "on_state f w =
     (let (res, t) = f (w_state w)
      in (case res of Inl e \<Rightarrow> Inl HttpInternal | Inr x \<Rightarrow> Inr x, w\<lparr>w_state := t\<rparr>))"

abbreviation internal :: "'a lg_op \<Rightarrow> 'a http" where
  "internal \<equiv> on_ledger (\<lambda>_. HttpInternal)"

section \<open>Reading and creating\<close>

definition http_list_items :: "autonomy_item list http" where
  "http_list_items = internal (ledger_list_open 100)"

definition http_get_item :: "string \<Rightarrow> (autonomy_item \<times> autonomy_evidence list) http" where
  "http_get_item i =
     bnd (internal (ledger_get i)) (\<lambda>found.
     bnd (ok_or (HttpNotFound i) found) (\<lambda>item.
     bnd (internal (ledger_evidence i)) (\<lambda>evidence.
     ret (item, evidence))))"

definition item_request_blank :: "create_item_request \<Rightarrow> bool" where
  "item_request_blank q =
     (trim_is_empty (cq_title q) \<or> trim_is_empty (cq_objective q) \<or> trim_is_empty (cq_next_action q) \<or>
      trim_is_empty (cq_dedupe_key q))"

definition item_request_large :: "create_item_request \<Rightarrow> bool" where
  "item_request_large q =
     (200 < length (cq_title q) \<or> 2048 < length (cq_objective q) \<or> 1024 < length (cq_next_action q) \<or>
      300 < length (cq_dedupe_key q) \<or>
      (case cq_source_session_id q of None \<Rightarrow> False | Some s \<Rightarrow> trim_is_empty s \<or> 128 < length s) \<or>
      32 < length (cq_evidence q))"

definition evidence_request_bad :: "evidence_request \<Rightarrow> bool" where
  "evidence_request_bad e =
     (trim_is_empty (eq_kind e) \<or> trim_is_empty (eq_reference_id e) \<or> 64 < length (eq_kind e) \<or>
      512 < length (eq_reference_id e) \<or>
      (case eq_label e of None \<Rightarrow> False | Some l \<Rightarrow> 256 < length l))"

fun mint_evidence ::
  "ledger_env \<Rightarrow> string \<Rightarrow> string \<Rightarrow> evidence_request list \<Rightarrow> autonomy_evidence list lg_op" where
  "mint_evidence E i now [] = ret []"
| "mint_evidence E i now (e # es) =
     bnd (lg_now_v7 E) (\<lambda>u.
     bnd (mint_evidence E i now es) (\<lambda>rest.
     ret (\<lparr>ae_id = ''ae-'' @ u, ae_item_id = i, ae_kind = eq_kind e, ae_reference_id = eq_reference_id e,
       ae_label = eq_label e, ae_created_at = now\<rparr> # rest)))"

definition http_create_item ::
  "ledger_env \<Rightarrow> create_item_request \<Rightarrow> (autonomy_item \<times> autonomy_evidence list) http" where
  "http_create_item E q =
     (if item_request_blank q then throw (HttpBadRequest ''title, objective, next_action, and dedupe_key are required'')
      else if item_request_large q then throw (HttpBadRequest ''autonomy item exceeds its bounded input limits'')
      else if list_ex evidence_request_bad (cq_evidence q)
      then throw (HttpBadRequest ''evidence must contain bounded kind and reference_id values'')
      else
        bnd (internal (lg_utc_now E)) (\<lambda>now.
        bnd (internal (lg_now_v7 E)) (\<lambda>u.
        let i = ''aut-'' @ u;
            item = \<lparr>ai_id = i, ai_title = trim (cq_title q), ai_objective = trim (cq_objective q),
              ai_next_action = trim (cq_next_action q), ai_state = AutProposed, ai_policy = cq_policy q,
              ai_source_session_id = map_option trim (cq_source_session_id q),
              ai_dedupe_key = trim (cq_dedupe_key q), ai_created_at = now, ai_updated_at = now,
              ai_completed_at = None\<rparr>
        in bnd (internal (mint_evidence E i now (cq_evidence q))) (\<lambda>evidence.
           bnd (on_ledger (\<lambda>e. if e = LedgerUnique then HttpBadRequest ''an item already has this dedupe key''
                 else HttpInternal) (ledger_create E item evidence)) (\<lambda>_.
           ret (item, evidence))))))"

section \<open>Resuming\<close>

text \<open>
  \<open>invoke\<close> is the runtime: it is handed the agent, the conversation and the packet, and returns the
  session or an error.
\<close>

definition invoke_ledger_resume ::
  "(string \<Rightarrow> string \<Rightarrow> resume_packet \<Rightarrow> string + string) \<Rightarrow> string \<Rightarrow> string \<Rightarrow> resume_packet \<Rightarrow> string http" where
  "invoke_ledger_resume invoke agent conversation packet w =
     (case invoke agent conversation packet of Inl e \<Rightarrow> Inl HttpInternal | Inr sid \<Rightarrow> Inr sid,
      w\<lparr>w_invoked := w_invoked w @ [(agent, conversation, packet)]\<rparr>)"

definition resume_error :: "string \<Rightarrow> ledger_error \<Rightarrow> http_error" where
  "resume_error i e =
     (if e = ItemNotFound then HttpNotFound i
      else if e = PacketRejected NotApproved
      then HttpConflict ''decision thread must be approved before it can resume''
      else HttpInternal)"

definition http_resume_item ::
  "ledger_env \<Rightarrow> state_env \<Rightarrow> (string \<Rightarrow> string \<Rightarrow> resume_packet \<Rightarrow> string + string) \<Rightarrow> string \<Rightarrow>
   (string \<times> string) http" where
  "http_resume_item E S invoke i =
     (if i = [] \<or> 128 < length i then throw (HttpBadRequest ''invalid autonomy item id'') else
      bnd (internal (ledger_get i)) (\<lambda>found.
      bnd (ok_or (HttpNotFound i) found) (\<lambda>item.
      if ai_state item \<noteq> AutApproved
      then throw (HttpConflict ''decision thread must be approved before it can resume'')
      else
        bnd (ok_or (HttpConflict ''decision thread has no source session'')
          (case ai_source_session_id item of
             None \<Rightarrow> None | Some s \<Rightarrow> if trim_is_empty s then None else Some s)) (\<lambda>source.
        bnd (on_state (repo_get_session S source)) (\<lambda>session.
        bnd (ok_or (HttpConflict ''decision thread source session is unavailable'') session) (\<lambda>s.
        if trim_is_empty (s_root_agent_id s)
        then throw (HttpConflict ''decision thread source agent is unavailable'')
        else
          bnd (on_ledger (resume_error i) (ledger_prepare_resume E i)) (\<lambda>packet.
          bnd (internal (lg_now_v7 E)) (\<lambda>u.
          bnd (invoke_ledger_resume invoke (s_root_agent_id s) (''autonomy-'' @ u) packet) (\<lambda>sid.
          ret (i, sid))))))))))"

definition http_eligibility :: "string \<Rightarrow> string \<Rightarrow> eligibility_response http" where
  "http_eligibility trigger i =
     (if trigger \<noteq> ''timer'' then throw (HttpBadRequest ''only timer eligibility is supported'') else
      bnd (internal (ledger_get i)) (\<lambda>found.
      bnd (ok_or (HttpNotFound i) found) (\<lambda>item.
      let (eligible, reason) =
        (if ai_state item \<noteq> AutApproved then (False, ''decision_thread_not_approved'')
         else case ai_policy item of
             AskOnce \<Rightarrow> (True, ''approved_for_future_nonwriting_trigger'')
           | AutoReadonly \<Rightarrow> (True, ''approved_for_future_nonwriting_trigger'')
           | Manual \<Rightarrow> (False, ''manual_resume_required''))
      in ret \<lparr>el_item_id = ai_id item, el_state = ai_state item, el_policy = ai_policy item,
        el_trigger = trigger, el_eligible = eligible, el_reason = reason, el_read_only = True,
        el_scheduler_configured = False, el_execution_started = False\<rparr>)))"

section \<open>Moving a thread\<close>

definition TRANSITION_OUTCOME_MAX_BYTES :: nat where "TRANSITION_OUTCOME_MAX_BYTES = 512"

definition transition_error :: "string \<Rightarrow> ledger_error \<Rightarrow> http_error" where
  "transition_error i e =
     (case e of
        ItemNotFound \<Rightarrow> HttpNotFound i
      | InvalidTransition s t \<Rightarrow>
          HttpBadRequest (''invalid autonomy transition: '' @ autonomy_state_text s @ '' -> '' @ autonomy_state_text t)
      | _ \<Rightarrow> HttpInternal)"

definition http_transition_item ::
  "ledger_env \<Rightarrow> string \<Rightarrow> autonomy_state \<Rightarrow> string option \<Rightarrow> (autonomy_item \<times> autonomy_evidence list) http" where
  "http_transition_item E i next requested =
     (let outcome = (case map_option trim requested of None \<Rightarrow> None | Some t \<Rightarrow> if t = [] then None else Some t)
      in if requested \<noteq> None \<and> outcome = None then throw (HttpBadRequest ''transition outcome must not be blank'')
         else if (case outcome of None \<Rightarrow> False | Some t \<Rightarrow> TRANSITION_OUTCOME_MAX_BYTES < length t)
         then throw (HttpBadRequest ''transition outcome exceeds its bounded input limit'')
         else
           bnd (on_ledger (transition_error i) (ledger_transition E i next outcome)) (\<lambda>item.
           bnd (internal (ledger_evidence i)) (\<lambda>evidence.
           ret (item, evidence))))"

definition action_target_state :: "surface_action_id \<Rightarrow> autonomy_state option" where
  "action_target_state a =
     (case a of
        LedgerApprove \<Rightarrow> Some AutApproved
      | LedgerBlock \<Rightarrow> Some AutBlocked
      | LedgerComplete \<Rightarrow> Some AutComplete
      | _ \<Rightarrow> None)"

text \<open>The checks of an action read the thread in a connection of their own; the move is another.\<close>

definition action_check :: "action_request \<Rightarrow> autonomy_state http" where
  "action_check q =
     bnd (ok_or (HttpForbidden ''surface action is not registered for mutation'')
       (action_target_state (aq_action_id q))) (\<lambda>next.
     bnd (internal (ledger_get (aq_target q))) (\<lambda>found.
     bnd (ok_or (HttpForbidden ''surface target does not exist'') found) (\<lambda>current.
     if aq_expected_state q \<noteq> Some (autonomy_state_text (ai_state current))
     then throw (HttpForbidden ''surface action state is stale or replayed'')
     else if \<not> can_transition_to (ai_state current) next
     then throw (HttpForbidden ''surface action is not permitted from the target state'')
     else ret next)))"

definition action_apply ::
  "ledger_env \<Rightarrow> action_request \<Rightarrow> autonomy_state \<Rightarrow> (autonomy_item \<times> autonomy_evidence list) http" where
  "action_apply E q next =
     bnd (internal (ledger_transition E (aq_target q) next None)) (\<lambda>item.
     bnd (internal (ledger_evidence (aq_target q))) (\<lambda>evidence.
     ret (item, evidence)))"

definition http_invoke_action ::
  "ledger_env \<Rightarrow> action_request \<Rightarrow> (autonomy_item \<times> autonomy_evidence list) http" where
  "http_invoke_action E q = bnd (action_check q) (action_apply E q)"

end
