(* ===== verification/Ledger_Endpoints.thy ===== *)
theory Ledger_Endpoints
  imports Ledger_Http
begin

text \<open>
  What the endpoints of the ledger guarantee: an execution is started only for a thread the ledger
  says is approved, with the request on record before; a surface action moves a thread at most once.
\<close>

section \<open>Steps of an endpoint\<close>

lemma bnd_split:
  assumes "bnd m f w = (res, w')"
  obtains (error) e where "m w = (Inl e, w')" "res = Inl e"
  | (returns) x t where "m w = (Inr x, t)" "f x t = (res, w')"
  using assms by (auto simp: bnd_def split: prod.splits sum.splits)

lemma bnd_InrE:
  assumes "bnd m f w = (Inr y, u)"
  obtains x t where "m w = (Inr x, t)" "f x t = (Inr y, u)"
  using assms by (auto simp: bnd_Inr_iff)

lemma on_ledger_InrD:
  "on_ledger answer f w = (Inr x, w') \<Longrightarrow> f (w_ledger w) = (Inr x, w_ledger w') \<and> w' = w\<lparr>w_ledger := w_ledger w'\<rparr>"
  by (auto simp: on_ledger_def Let_def split: prod.splits sum.splits)

lemma on_state_InrD:
  "on_state f w = (Inr x, w') \<Longrightarrow> f (w_state w) = (Inr x, w_state w') \<and> w' = w\<lparr>w_state := w_state w'\<rparr>"
  by (auto simp: on_state_def Let_def split: prod.splits sum.splits)

lemma reads_same_tables:
  "ledger_get i l = (res, t) \<Longrightarrow> same_tables t l"
  "ledger_evidence i l = (res', t') \<Longrightarrow> same_tables t' l"
  unfolding ledger_get_def ledger_evidence_def
  by (auto elim!: ledger_tx_cases simp: load_item_Inr load_evidence_def)

lemma same_tables_trans: "same_tables a b \<Longrightarrow> same_tables b c \<Longrightarrow> same_tables a c"
  by (simp add: same_tables_def)

lemma same_tables_runs: "same_tables a b \<Longrightarrow> runs_of i a = runs_of i b"
  by (simp add: same_tables_def runs_of_def)

text \<open>Steps that only read\<close>

definition untouched :: "decision_world \<Rightarrow> decision_world \<Rightarrow> bool" where
  "untouched w w' \<longleftrightarrow> same_tables (w_ledger w') (w_ledger w) \<and> w_invoked w' = w_invoked w"

definition looks :: "'a http \<Rightarrow> bool" where
  "looks m \<longleftrightarrow> (\<forall>w. untouched w (snd (m w)) \<and> w_state (snd (m w)) = w_state w)"

lemma looksD: "looks m \<Longrightarrow> m w = (res, w') \<Longrightarrow> untouched w w' \<and> w_state w' = w_state w"
  unfolding looks_def by (metis snd_conv)

lemma untouched_refl: "untouched w w"
  by (simp add: untouched_def same_tables_def)

lemma untouched_trans: "untouched u v \<Longrightarrow> untouched v w \<Longrightarrow> untouched u w"
  using same_tables_trans by (auto simp: untouched_def)

lemma looks_ledger: "(\<And>l. same_tables (snd (f l)) l) \<Longrightarrow> looks (on_ledger answer f)"
  by (auto simp: looks_def untouched_def on_ledger_def Let_def split: prod.splits) (metis snd_conv)

lemma looks_intros [intro]:
  "looks (ok_or e v)" "looks (throw e')" "looks (ret x)"
  "looks (internal (ledger_get i))" "looks (internal (ledger_evidence i))" "looks (internal (lg_now_v7 E))"
proof -
  show "looks (internal (ledger_get i))" "looks (internal (ledger_evidence i))" "looks (internal (lg_now_v7 E))"
    by (rule looks_ledger, metis prod.collapse reads_same_tables, rule looks_ledger, metis prod.collapse reads_same_tables,
        rule looks_ledger, simp add: lg_now_v7_def same_tables_def)
qed (auto simp: looks_def untouched_refl ok_or_def throw_def ret_def split: option.splits)

lemma looks_bnd [intro]: "looks m \<Longrightarrow> (\<And>x. looks (f x)) \<Longrightarrow> looks (bnd m f)"
  unfolding looks_def
  by (auto simp: bnd_def split: prod.splits sum.splits) (metis snd_conv untouched_trans)+

lemma looks_if [intro]: "looks m \<Longrightarrow> looks n \<Longrightarrow> looks (if b then m else n)"
  by simp

section \<open>An execution is started for an approved thread, on the record\<close>

definition asked_for :: "string set \<Rightarrow> string \<Rightarrow> decision_world \<Rightarrow> decision_world \<Rightarrow> bool" where
  "asked_for agents i w w' \<longleftrightarrow>
     replay (runs_of i (w_ledger w)) = Some AutApproved \<and> items_t (w_ledger w') = items_t (w_ledger w) \<and>
     (\<exists>u. runs_t (w_ledger w') = runs_t (w_ledger w) @ [u] \<and> rn_item_id u = i \<and> rn_kind u = ''resume_requested'') \<and>
     (\<exists>agent\<in>agents. \<exists>conversation p. w_invoked w' = w_invoked w @ [(agent, conversation, p)] \<and> rp_item_id p = i)"

text \<open>
  Seen from the world \<open>w\<close> the request came in, when what is left to do starts in a world the request
  has not touched and a session store with \<open>Q\<close>
\<close>

definition starts :: "decision_world \<Rightarrow> string set \<Rightarrow> string \<Rightarrow> (statedb \<Rightarrow> bool) \<Rightarrow> 'a http \<Rightarrow> bool" where
  "starts w agents i Q m \<longleftrightarrow> (\<forall>v res w'. untouched w v \<longrightarrow> Q (w_state v) \<longrightarrow> m v = (res, w') \<longrightarrow>
     (untouched w w' \<and> (\<exists>e. res = Inl e)) \<or> asked_for agents i w w')"

lemma starts_throw [intro]: "starts w A i Q (throw e)"
  by (simp add: starts_def throw_def)

lemma starts_look:
  assumes "looks m" and "\<And>x. starts w A i Q (f x)"
  shows "starts w A i Q (bnd m f)"
  unfolding starts_def
proof (intro allI impI)
  fix v res w' assume v: "untouched w v" "Q (w_state v)" and run: "bnd m f v = (res, w')"
  from run show "(untouched w w' \<and> (\<exists>e. res = Inl e)) \<or> asked_for A i w w'"
  proof (cases rule: bnd_split)
    case (error e)
    with looksD [OF assms(1)] v untouched_trans show ?thesis by blast
  next
    case (returns x t)
    with looksD [OF assms(1)] v untouched_trans have "untouched w t" "Q (w_state t)" by (metis, metis)
    with assms(2) returns(2) show ?thesis unfolding starts_def by blast
  qed
qed

lemma starts_session:
  assumes "\<And>x. x \<in> X \<Longrightarrow> starts w A i (\<lambda>_. True) (f x)" and "\<And>d x. Q d \<Longrightarrow> fst (g d) = Inr x \<Longrightarrow> x \<in> X"
  shows "starts w A i Q (bnd (on_state g) f)"
  unfolding starts_def
proof (intro allI impI)
  fix v res w' assume v: "untouched w v" "Q (w_state v)" and run: "bnd (on_state g) f v = (res, w')"
  have keep: "untouched w t" if "on_state g v = (r, t)" for r t
    using that v(1) by (auto simp: on_state_def Let_def untouched_def split: prod.splits)
  from run show "(untouched w w' \<and> (\<exists>e. res = Inl e)) \<or> asked_for A i w w'"
  proof (cases rule: bnd_split)
    case (returns x t)
    with on_state_InrD v(2) assms(2) have "x \<in> X" by (metis fst_conv)
    with assms(1) keep returns show ?thesis unfolding starts_def by blast
  qed (use keep in blast)
qed

lemma prepare_then_invoke:
  assumes "ledger_ok (w_ledger w)"
  shows "starts w {agent} i (\<lambda>_. True)
    (bnd (on_ledger (resume_error i) (ledger_prepare_resume E i)) (\<lambda>packet.
     bnd (internal (lg_now_v7 E)) (\<lambda>u.
     bnd (invoke_ledger_resume invoke agent (''autonomy-'' @ u) packet) (\<lambda>sid.
     ret (i, sid)))))"
  unfolding starts_def
proof (intro allI impI)
  let ?tail = "\<lambda>packet. bnd (internal (lg_now_v7 E)) (\<lambda>u.
     bnd (invoke_ledger_resume invoke agent (''autonomy-'' @ u) packet) (\<lambda>sid. ret (i, sid)))"
  fix v res w' assume v: "untouched w v"
    and run: "bnd (on_ledger (resume_error i) (ledger_prepare_resume E i)) ?tail v = (res, w')"
  from v assms have ok: "ledger_ok (w_ledger v)" by (auto simp: untouched_def ledger_ok_same)
  from run show "(untouched w w' \<and> (\<exists>e. res = Inl e)) \<or> asked_for {agent} i w w'"
  proof (cases rule: bnd_split)
    case (error e)
    then obtain e' where "ledger_prepare_resume E i (w_ledger v) = (Inl e', w_ledger w')" "w_invoked w' = w_invoked v"
      by (auto simp: on_ledger_def Let_def split: prod.splits sum.splits)
    with ledger_tx_error have "same_tables (w_ledger w') (w_ledger v)" unfolding ledger_prepare_resume_def by blast
    with error v \<open>w_invoked w' = _\<close> show ?thesis by (auto simp: untouched_def intro: same_tables_trans)
  next
    case (returns packet t)
    note prepared = on_ledger_InrD [OF returns(1)]
    have "w_invoked t = w_invoked v"
      using arg_cong [OF conjunct2 [OF prepared], of w_invoked] by simp
    moreover from returns(2) have "same_tables (w_ledger w') (w_ledger t)"
      "\<exists>conversation. w_invoked w' = w_invoked t @ [(agent, conversation, packet)]"
      by (auto simp: bnd_def ret_def on_ledger_def Let_def lg_now_v7_def invoke_ledger_resume_def same_tables_def
          split: prod.splits sum.splits)
    ultimately have "asked_for {agent} i w w'"
      using v a_packet_recorded [OF conjunct1 [OF prepared] ok] same_tables_runs [of "w_ledger v" "w_ledger w" i]
      by (auto simp: asked_for_def untouched_def same_tables_def)
    then show ?thesis by blast
  qed
qed

lemma starts_if [intro]:
  "(b \<Longrightarrow> starts w A i Q m) \<Longrightarrow> (\<not> b \<Longrightarrow> starts w A i Q n) \<Longrightarrow> starts w A i Q (if b then m else n)"
  by simp

lemma starts_mono: "starts w A i Q m \<Longrightarrow> A \<subseteq> B \<Longrightarrow> starts w B i Q m"
  unfolding starts_def asked_for_def by blast

lemma starts_ok_or:
  assumes "\<And>s. x = Some s \<Longrightarrow> starts w A i Q (f s)"
  shows "starts w A i Q (bnd (ok_or e x) f)"
proof (cases x)
  case (Some s)
  then have "bnd (ok_or e x) f = f s" by (simp add: fun_eq_iff bnd_def ok_or_def ret_def)
  with assms [OF Some] show ?thesis by simp
qed (simp add: starts_def bnd_def ok_or_def throw_def)

definition root_agents :: "state_env \<Rightarrow> statedb \<Rightarrow> string set" where
  "root_agents S d = {s_root_agent_id s |s. \<exists>source. fst (repo_get_session S source d) = Inr (Some s)}"

lemma resume_starts:
  assumes "ledger_ok (w_ledger w)"
  shows "starts w (root_agents S (w_state w)) i (\<lambda>d. d = w_state w) (http_resume_item E S invoke i)"
proof -
  let ?A = "root_agents S (w_state w)"
  let ?tail = "\<lambda>s. if trim_is_empty (s_root_agent_id s)
      then throw (HttpConflict ''decision thread source agent is unavailable'')
      else bnd (on_ledger (resume_error i) (ledger_prepare_resume E i)) (\<lambda>packet.
        bnd (internal (lg_now_v7 E)) (\<lambda>u.
        bnd (invoke_ledger_resume invoke (s_root_agent_id s) (''autonomy-'' @ u) packet) (\<lambda>sid.
        ret (i, sid))))"
  have tail: "starts w ?A i (\<lambda>_. True) (?tail s)" if "s_root_agent_id s \<in> ?A" for s
    using that by (intro starts_if starts_throw starts_mono [OF prepare_then_invoke [OF assms]]) simp
  have session: "starts w ?A i (\<lambda>d. d = w_state w) (bnd (on_state (repo_get_session S source)) (\<lambda>session.
      bnd (ok_or (HttpConflict ''decision thread source session is unavailable'') session) ?tail))" for source
  proof (rule starts_session [where X = "{x. \<forall>s. x = Some s \<longrightarrow> s_root_agent_id s \<in> ?A}"])
    fix x assume "x \<in> {x. \<forall>s. x = Some s \<longrightarrow> s_root_agent_id s \<in> ?A}"
    then show "starts w ?A i (\<lambda>_. True)
        (bnd (ok_or (HttpConflict ''decision thread source session is unavailable'') x) ?tail)"
      using tail by (intro starts_ok_or) blast
  qed (auto simp: root_agents_def)
  show ?thesis
    unfolding http_resume_item_def by (intro starts_if starts_look starts_throw looks_intros session)
qed

text \<open>
  Asking the runtime for an execution of a thread and the record of it go together. Whatever
  the endpoint answers, either the runtime was not asked, the tables are as they were and the answer
  is an error; or the trail says the thread is approved, exactly one resume request is appended to
  it, and the runtime was asked once, for the root agent of a session in the store, with a packet
  about this thread.
\<close>

theorem a_resume_is_asked_for_once_and_on_record:
  assumes "http_resume_item E S invoke i w = (res, w')" and "ledger_ok (w_ledger w)"
  shows "(same_tables (w_ledger w') (w_ledger w) \<and> w_invoked w' = w_invoked w \<and> (\<exists>e. res = Inl e)) \<or>
    (replay (runs_of i (w_ledger w)) = Some AutApproved \<and> items_t (w_ledger w') = items_t (w_ledger w) \<and>
     (\<exists>u. runs_t (w_ledger w') = runs_t (w_ledger w) @ [u] \<and> rn_item_id u = i \<and> rn_kind u = ''resume_requested'') \<and>
     (\<exists>agent conversation p source s. w_invoked w' = w_invoked w @ [(agent, conversation, p)] \<and> rp_item_id p = i \<and>
        fst (repo_get_session S source (w_state w)) = Inr (Some s) \<and> s_root_agent_id s = agent))"
proof -
  from resume_starts [OF assms(2)] assms(1) untouched_refl
  have "(untouched w w' \<and> (\<exists>e. res = Inl e)) \<or> asked_for (root_agents S (w_state w)) i w w'"
    unfolding starts_def by blast
  then show ?thesis
    by (auto simp: untouched_def asked_for_def root_agents_def) blast+
qed

section \<open>An action moves a thread once\<close>

lemma row_state:
  assumes "ledger_ok l" and "r \<in> set (items_t l)" and "row_to_item r = Inr it"
  shows "replay (runs_of (ir_id r) l) = Some (ai_state it)"
proof -
  from assms have "item_ok l r" by (simp add: ledger_ok_def)
  then obtain s where "ir_state r = autonomy_state_text s" "replay (runs_of (ir_id r) l) = Some s"
    by (auto simp: item_ok_def)
  with row_to_item_Inr [OF assms(3)] show ?thesis by (metis option.inject parse_text)
qed

lemma found_state:
  assumes "ledger_get i l = (Inr (Some it), t)" and "ledger_ok l"
  shows "replay (runs_of i l) = Some (ai_state it)" "same_tables t l"
proof -
  from assms(1) show "same_tables t l" by (rule reads_same_tables)
  from assms(1) have "\<exists>d. load_item i d = (Inr (Some it), t) \<and> same_tables d l"
    unfolding ledger_get_def by (auto elim!: ledger_tx_cases)
  then obtain d r where "r \<in> set (items_t d)" "ir_id r = i" "row_to_item r = Inr it" "same_tables d l"
    using load_item_found by metis
  with row_state [of d r it] assms(2) show "replay (runs_of i l) = Some (ai_state it)"
    by (metis ledger_ok_same same_tables_runs)
qed

lemma moved_state:
  assumes "ledger_transition E i next outcome l = (Inr x, t)" and "ledger_ok l"
  shows "replay (runs_of i t) = Some next" "\<exists>s. replay (runs_of i l) = Some s \<and> can_transition_to s next"
    "\<exists>u. runs_t t = runs_t l @ [u] \<and> rn_item_id u = i \<and> rn_kind u = ''transition''" "ledger_ok t"
proof -
  from keepsE [OF ledger_transition_keeps assms(2,1)] show ok: "ledger_ok t" .
  from transition_InrD [OF assms(1)] obtain r current where r: "r \<in> set (items_t l)" "ir_id r = i"
      "row_to_item r = Inr current" "can_transition_to (ai_state current) next"
    and t: "same_tables t (l\<lparr>items_t := sql_update (\<lambda>p. ir_id p = i) (moved_row next (lg_now E (lg_ticks l))) (items_t l),
      runs_t := runs_t l @ [transition_run E l i (ai_state current) next outcome]\<rparr>)" .
  from t show "\<exists>u. runs_t t = runs_t l @ [u] \<and> rn_item_id u = i \<and> rn_kind u = ''transition''"
    by (auto simp: same_tables_def transition_run_def)
  from row_state [OF assms(2) r(1,3)] r show "\<exists>s. replay (runs_of i l) = Some s \<and> can_transition_to s next"
    by simp
  from t r have "moved_row next (lg_now E (lg_ticks l)) r \<in> set (items_t t)"
    by (force simp: same_tables_def sql_update_def)
  with ok have "item_ok t (moved_row next (lg_now E (lg_ticks l)) r)" by (simp add: ledger_ok_def)
  then obtain s where "autonomy_state_text next = autonomy_state_text s" "replay (runs_of (ir_id r) t) = Some s"
    by (auto simp: item_ok_def moved_row_def)
  with r(2) show "replay (runs_of i t) = Some next" by (metis option.inject parse_text)
qed


lemma moves_are_proper: "can_transition_to s next \<Longrightarrow> s \<noteq> next"
  by (cases s) auto

lemma action_check_InrD:
  assumes "action_check q w = (Inr next, v)" and "ledger_ok (w_ledger w)"
  obtains s where "aq_expected_state q = Some (autonomy_state_text s)" "can_transition_to s next"
    "action_target_state (aq_action_id q) = Some next" "replay (runs_of (aq_target q) (w_ledger w)) = Some s"
    "same_tables (w_ledger v) (w_ledger w)"
proof -
  from assms(1) obtain m found where m: "action_target_state (aq_action_id q) = Some m"
    and g: "internal (ledger_get (aq_target q)) w = (Inr found, v)"
    and rest: "(bnd (ok_or (HttpForbidden ''surface target does not exist'') found) (\<lambda>current.
      if aq_expected_state q \<noteq> Some (autonomy_state_text (ai_state current))
      then throw (HttpForbidden ''surface action state is stale or replayed'')
      else if \<not> can_transition_to (ai_state current) m
      then throw (HttpForbidden ''surface action is not permitted from the target state'')
      else ret m)) v = (Inr next, v)"
    unfolding action_check_def
    by (elim bnd_InrE) (auto simp: basic_Inr_iff bnd_def ok_or_def throw_def ret_def split: option.splits if_splits)
  from rest obtain it where it: "found = Some it" "aq_expected_state q = Some (autonomy_state_text (ai_state it))"
      "can_transition_to (ai_state it) m" "m = next"
    by (cases found) (auto simp: bnd_def ok_or_def throw_def ret_def split: if_splits)
  note g = g [unfolded it(1)]
  from on_ledger_InrD [OF g] have "ledger_get (aq_target q) (w_ledger w) = (Inr (Some it), w_ledger v)" by simp
  note found = found_state [OF this assms(2)]
  show thesis using it(2-4) m found by (intro that) simp_all
qed

lemma action_check_looks: "looks (action_check q)"
  unfolding action_check_def by (intro looks_bnd looks_if looks_intros)

lemma stale_action_refused:
  assumes "aq_expected_state q = Some (autonomy_state_text s)" and "replay (runs_of (aq_target q) (w_ledger w)) \<noteq> Some s"
    and "ledger_ok (w_ledger w)"
  shows "\<exists>e v. http_invoke_action E q w = (Inl e, v) \<and> same_tables (w_ledger v) (w_ledger w)"
proof -
  obtain res v where run: "http_invoke_action E q w = (res, v)" by fastforce
  from this [unfolded http_invoke_action_def] show ?thesis
  proof (cases rule: bnd_split)
    case (error e)
    with run looksD [OF action_check_looks] show ?thesis by (auto simp: untouched_def)
  next
    case (returns n t)
    obtain s' where "aq_expected_state q = Some (autonomy_state_text s')"
      "replay (runs_of (aq_target q) (w_ledger w)) = Some s'"
      using returns(1) assms(3) by (rule action_check_InrD)
    with assms(1,2) parse_text [of "autonomy_state_text s"] have False by (metis option.inject parse_text)
    then show ?thesis ..
  qed
qed

text \<open>
  An action moves its thread once. When it succeeds, the state the client saw is the state the
  trail showed, the move is one the state machine allows and is now on the trail; and the same
  request sent again, at any time before another move, is refused and changes no table.
\<close>

theorem an_action_moves_a_thread_once:
  assumes "http_invoke_action E q w = (Inr x, w')" and "ledger_ok (w_ledger w)"
  shows "\<exists>s next. aq_expected_state q = Some (autonomy_state_text s) \<and>
      action_target_state (aq_action_id q) = Some next \<and> can_transition_to s next \<and>
      replay (runs_of (aq_target q) (w_ledger w)) = Some s \<and>
      replay (runs_of (aq_target q) (w_ledger w')) = Some next \<and>
      (\<exists>u. runs_t (w_ledger w') = runs_t (w_ledger w) @ [u] \<and> rn_item_id u = aq_target q \<and> rn_kind u = ''transition'') \<and>
      (\<forall>v. same_tables (w_ledger v) (w_ledger w') \<longrightarrow>
         (\<exists>e v'. http_invoke_action E q v = (Inl e, v') \<and> same_tables (w_ledger v') (w_ledger v)))"
proof -
  from assms(1) obtain n d where check: "action_check q w = (Inr n, d)" and move: "action_apply E q n d = (Inr x, w')"
    unfolding http_invoke_action_def by (auto simp: bnd_Inr_iff)
  obtain s where s: "aq_expected_state q = Some (autonomy_state_text s)" "can_transition_to s n"
    "action_target_state (aq_action_id q) = Some n" "replay (runs_of (aq_target q) (w_ledger w)) = Some s"
    and d: "same_tables (w_ledger d) (w_ledger w)"
    using check assms(2) by (rule action_check_InrD)
  from move obtain it t where tr: "internal (ledger_transition E (aq_target q) n None) d = (Inr it, t)"
    and "\<exists>es. internal (ledger_evidence (aq_target q)) t = (es, w')"
    unfolding action_apply_def by (auto simp: bnd_Inr_iff basic_Inr_iff)
  with looksD looks_intros(5) have t: "same_tables (w_ledger w') (w_ledger t)" unfolding untouched_def by blast
  from d assms(2) have ok: "ledger_ok (w_ledger d)" by (simp add: ledger_ok_same)
  note moved = moved_state [OF conjunct1 [OF on_ledger_InrD [OF tr]] ok]
  from moved(1) t have now: "replay (runs_of (aq_target q) (w_ledger w')) = Some n"
    by (simp add: same_tables_runs)
  from moved(3) d t have "\<exists>u. runs_t (w_ledger w') = runs_t (w_ledger w) @ [u] \<and> rn_item_id u = aq_target q \<and> rn_kind u = ''transition''"
    by (auto simp: same_tables_def)
  moreover have "\<exists>e v'. http_invoke_action E q v = (Inl e, v') \<and> same_tables (w_ledger v') (w_ledger v)"
    if v: "same_tables (w_ledger v) (w_ledger w')" for v
  proof (rule stale_action_refused [OF s(1)])
    show "ledger_ok (w_ledger v)" using v t moved(4) by (simp add: ledger_ok_same)
    show "replay (runs_of (aq_target q) (w_ledger v)) \<noteq> Some s"
      using now same_tables_runs [OF v] moves_are_proper [OF s(2)] by simp
  qed
  ultimately show ?thesis using s now by blast
qed

section \<open>Samples\<close>

definition sample_world :: decision_world where
  "sample_world = \<lparr>w_ledger = sample_ledger, w_state = sample_db, w_invoked = []\<rparr>"

definition sample_action :: action_request where
  "sample_action = \<lparr>aq_action_id = LedgerBlock, aq_surface_id = ''f'', aq_target = ''a'', aq_expected_state = Some ''approved''\<rparr>"

lemma sample_ledger_is_ok: "ledger_ok sample_ledger"
  unfolding sample_ledger_def by (rule ledger_history_ok) (simp add: ledger_ok_def empty_ledger_def)

lemma sample_action_runs: "\<exists>x w'. http_invoke_action sample_ledger_env sample_action sample_world = (Inr x, w')"
  by (simp add: http_invoke_action_def action_check_def action_apply_def sample_world_def sample_action_def
      action_target_state_def on_ledger_def ledger_get_def ledger_evidence_def ledger_transition_def
      sample_ledger_eval sample_ledger_run Let_def)

lemma an_action_moves_a_thread_once_witness:
  "\<exists>w'. snd (http_invoke_action sample_ledger_env sample_action sample_world) = w' \<and>
     replay (runs_of ''a'' (w_ledger w')) = Some AutBlocked \<and>
     (\<exists>e. fst (http_invoke_action sample_ledger_env sample_action w') = Inl e)"
proof -
  obtain x w' where run: "http_invoke_action sample_ledger_env sample_action sample_world = (Inr x, w')"
    using sample_action_runs by blast
  have ok: "ledger_ok (w_ledger sample_world)" by (simp add: sample_world_def sample_ledger_is_ok)
  from an_action_moves_a_thread_once [OF run ok] run show ?thesis
    by (auto simp: sample_action_def action_target_state_def same_tables_def)
qed

lemma a_resume_is_asked_for_once_and_on_record_witness:
  "\<exists>invoke. (let w' = snd (http_resume_item sample_ledger_env sample_env invoke ''a'' sample_world)
     in w_invoked w' = [] \<or> replay (runs_of ''a'' sample_ledger) = Some AutApproved)"
proof -
  have "ledger_ok (w_ledger sample_world)" by (simp add: sample_world_def sample_ledger_is_ok)
  from a_resume_is_asked_for_once_and_on_record
    [OF prod.collapse [symmetric] this, of sample_ledger_env sample_env "\<lambda>a c p. Inr ''s''" "''a''"]
  show ?thesis by (auto simp: sample_world_def Let_def)
qed

text \<open>
  The checks read the thread in one connection and the move is made in another, which only knows the
  state machine: a thread that is approved between the two is completed by a request that was made,
  and checked, for the proposed thread.
\<close>

lemma the_expected_state_is_not_held:
  defines "q \<equiv> \<lparr>aq_action_id = LedgerComplete, aq_surface_id = ''f'', aq_target = ''a'', aq_expected_state = Some ''proposed''\<rparr>"
    and "before \<equiv> sample_world\<lparr>w_ledger := fold (run_ledger sample_ledger_env) [LgCreate sample_thread []] (empty_ledger [])\<rparr>"
  shows "fst (action_check q before) = Inr AutComplete"
    and "\<exists>x. fst (action_apply sample_ledger_env q AutComplete
      (before\<lparr>w_ledger := run_ledger sample_ledger_env (LgTransition ''a'' AutApproved None) (w_ledger before)\<rparr>)) = Inr x"
  unfolding q_def before_def
  by (simp_all add: action_check_def action_apply_def sample_world_def action_target_state_def on_ledger_def
      ledger_get_def ledger_create_def ledger_evidence_def ledger_transition_def sample_ledger_run Let_def)

end
