(* ===== verification/Artifacts.thy ===== *)
theory Artifacts
  imports State_Repository
begin

text \<open>
  Artifacts an agent declares (\<open>gateway/gateway-execution/src/artifacts.rs\<close>): the checks that confine
  a declared path to the agent's ward, and the rows that are written for the files that pass. The
  file system is a parameter: what the system calls answer.
\<close>

section \<open>Paths\<close>

text \<open>\<open>Path::components\<close> on Unix\<close>

datatype path_component = RootDir | CurDir | ParentDir | NormalPart string

definition part_of :: "string \<Rightarrow> path_component list" where
  "part_of p =
     (if p = [] \<or> p = ''.'' then [] else if p = ''..'' then [ParentDir] else [NormalPart p])"

definition path_components :: "string \<Rightarrow> path_component list" where
  "path_components s =
     (case split_on (CHR ''/'') s of
        [] \<Rightarrow> []
      | p # ps \<Rightarrow>
          (if p = [] \<and> s \<noteq> [] then [RootDir] else if p = ''.'' then [CurDir] else part_of p) @
          concat (map part_of ps))"

fun is_normal :: "path_component \<Rightarrow> bool" where
  "is_normal (NormalPart _) = True"
| "is_normal _ = False"

definition join :: "string \<Rightarrow> string \<Rightarrow> string" where
  "join base p =
     (if p \<noteq> [] \<and> hd p = CHR ''/'' then p
      else if base = [] \<or> last base = CHR ''/'' then base @ p else base @ ''/'' @ p)"

definition path_starts_with :: "string \<Rightarrow> string \<Rightarrow> bool" where
  "path_starts_with p base =
     (take (length (path_components base)) (path_components p) = path_components base)"

fun last_part :: "path_component list \<Rightarrow> string option" where
  "last_part [] = None"
| "last_part [NormalPart p] = Some p"
| "last_part [_] = None"
| "last_part (_ # ps) = last_part ps"

definition file_name :: "string \<Rightarrow> string option" where
  "file_name p = last_part (path_components p)"

text \<open>The part after the last dot, when something stands before it.\<close>

definition after_last_dot :: "string \<Rightarrow> string option" where
  "after_last_dot n =
     (if CHR ''.'' \<notin> set n then None
      else let e = rev (takeWhile (\<lambda>c. c \<noteq> CHR ''.'') (rev n))
           in if length n = Suc (length e) then None else Some e)"

definition extension :: "string \<Rightarrow> string option" where
  "extension p = Option.bind (file_name p) after_last_dot"

section \<open>The file system\<close>

text \<open>
  \<open>fs_openat\<close> opens a name relative to a descriptor, or to the working directory, as a directory or
  not, and never follows a link; \<open>fs_stat\<close> says of a descriptor whether it is a regular file, and
  its length. \<open>fs_lower\<close> is \<open>str::to_lowercase\<close>.
\<close>

record file_system =
  fs_symlink :: "string \<Rightarrow> bool option"
  fs_canonicalize :: "string \<Rightarrow> string option"
  fs_is_dir :: "string \<Rightarrow> bool"
  fs_openat :: "nat option \<Rightarrow> string \<Rightarrow> bool \<Rightarrow> nat option"
  fs_stat :: "nat \<Rightarrow> (bool \<times> nat) option"
  fs_lower :: "string \<Rightarrow> string"

definition MAX_ARTIFACT_DECLARATIONS_PER_RESPONSE :: nat where "MAX_ARTIFACT_DECLARATIONS_PER_RESPONSE = 8"
definition MAX_ARTIFACT_BYTES :: nat where "MAX_ARTIFACT_BYTES = 5 * 1024 * 1024"

definition valid_relative_path :: "string \<Rightarrow> bool" where
  "valid_relative_path p = (p \<noteq> [] \<and> list_all is_normal (path_components p))"

definition ward_root :: "file_system \<Rightarrow> string \<Rightarrow> string \<Rightarrow> string option" where
  "ward_root F vault ward =
     (if length (path_components ward) \<noteq> 1 \<or> \<not> valid_relative_path ward then None
      else
        Option.bind (fs_symlink F (join vault ''wards'')) (\<lambda>link.
        if link then None else
        Option.bind (fs_canonicalize F (join vault ''wards'')) (\<lambda>wards.
        Option.bind (fs_symlink F (join wards ward)) (\<lambda>ward_link.
        if ward_link then None else
        Option.bind (fs_canonicalize F (join wards ward)) (\<lambda>root.
        if \<not> path_starts_with root wards \<or> \<not> fs_is_dir F root then None else Some root)))))"

text \<open>A name with a null byte is no C string.\<close>

definition open_at :: "file_system \<Rightarrow> nat option \<Rightarrow> string \<Rightarrow> bool \<Rightarrow> nat option" where
  "open_at F parent name directory =
     (if CHR 0x00 \<in> set name then None else fs_openat F parent name directory)"

fun open_segments :: "file_system \<Rightarrow> nat \<Rightarrow> path_component list \<Rightarrow> nat option" where
  "open_segments F parent [NormalPart name] = open_at F (Some parent) name False"
| "open_segments F parent (NormalPart name # rest) =
     Option.bind (open_at F (Some parent) name True) (\<lambda>opened. open_segments F opened rest)"
| "open_segments F parent _ = None"

definition open_no_follow :: "file_system \<Rightarrow> string \<Rightarrow> string \<Rightarrow> string \<Rightarrow> nat option" where
  "open_no_follow F vault ward p =
     Option.bind (open_at F None vault True) (\<lambda>v.
     Option.bind (open_at F (Some v) ''wards'' True) (\<lambda>w.
     Option.bind (open_at F (Some w) ward True) (\<lambda>d.
     open_segments F d (path_components p))))"

record validated_file =
  vf_path :: string
  vf_len :: nat

definition open_validated_artifact ::
  "file_system \<Rightarrow> string \<Rightarrow> string \<Rightarrow> string \<Rightarrow> validated_file option" where
  "open_validated_artifact F vault ward p =
     (if \<not> valid_relative_path p then None
      else
        Option.bind (ward_root F vault ward) (\<lambda>root.
        Option.bind (open_no_follow F vault ward p) (\<lambda>fd.
        Option.bind (fs_stat F fd) (\<lambda>(is_file, len).
        if \<not> is_file \<or> MAX_ARTIFACT_BYTES < len then None
        else Some \<lparr>vf_path = join root p, vf_len = len\<rparr>))))"

text \<open>What is left of a path after a base, as a path again.\<close>

fun show_parts :: "path_component list \<Rightarrow> string" where
  "show_parts [] = []"
| "show_parts [NormalPart p] = p"
| "show_parts [ParentDir] = ''..''"
| "show_parts [_] = []"
| "show_parts (NormalPart p # ps) = p @ ''/'' @ show_parts ps"
| "show_parts (ParentDir # ps) = ''../'' @ show_parts ps"
| "show_parts (_ # ps) = show_parts ps"

definition strip_path_prefix :: "string \<Rightarrow> string \<Rightarrow> string option" where
  "strip_path_prefix p base =
     (if path_starts_with p base then Some (show_parts (drop (length (path_components base)) (path_components p)))
      else None)"

definition open_persisted_artifact ::
  "file_system \<Rightarrow> string \<Rightarrow> string \<Rightarrow> string \<Rightarrow> validated_file option" where
  "open_persisted_artifact F vault ward p =
     Option.bind (ward_root F vault ward) (\<lambda>root.
     Option.bind (strip_path_prefix p root) (\<lambda>rel. open_validated_artifact F vault ward rel))"

section \<open>Declarations\<close>

record artifact_declaration =
  ad_path :: string
  ad_label :: "string option"
  ad_is_goal_artifact :: bool

definition declared_artifact ::
  "state_env \<Rightarrow> file_system \<Rightarrow> string \<Rightarrow> string \<Rightarrow> string \<Rightarrow> string \<Rightarrow> artifact_declaration \<Rightarrow> validated_file \<Rightarrow> artifact st_op" where
  "declared_artifact E F sid xid agent ward d v =
     bnd (new_v4 E) (\<lambda>u.
     bnd (utc_now E) (\<lambda>now.
     ret ((artifact_new u now sid (vf_path v) (case file_name (vf_path v) of None \<Rightarrow> ad_path d | Some n \<Rightarrow> n))
       \<lparr>a_ward_id := Some ward, a_execution_id := Some xid, a_agent_id := Some agent,
        a_file_type := map_option (fs_lower F) (extension (vf_path v)), a_file_size := Some (int (vf_len v)),
        a_label := ad_label d, a_is_goal := ad_is_goal_artifact d\<rparr>)))"

definition oversized :: "artifact_declaration \<Rightarrow> bool" where
  "oversized d =
     (1024 < length (ad_path d) \<or> (case ad_label d of None \<Rightarrow> False | Some l \<Rightarrow> 160 < length l))"

text \<open>The loop; what does not pass, and what is not stored, is left out.\<close>

fun declare_artifacts ::
  "state_env \<Rightarrow> file_system \<Rightarrow> string \<Rightarrow> string \<Rightarrow> string \<Rightarrow> string \<Rightarrow> string \<Rightarrow> artifact_declaration list \<Rightarrow>
   statedb \<Rightarrow> artifact list \<times> statedb" where
  "declare_artifacts E F vault sid xid agent ward [] db = ([], db)"
| "declare_artifacts E F vault sid xid agent ward (d # ds) db =
     (if oversized d then declare_artifacts E F vault sid xid agent ward ds db
      else case open_validated_artifact F vault ward (ad_path d) of
          None \<Rightarrow> declare_artifacts E F vault sid xid agent ward ds db
        | Some v \<Rightarrow>
            (case bnd (declared_artifact E F sid xid agent ward d v)
                (\<lambda>a. bnd (repo_create_artifact a) (\<lambda>_. ret a)) db of
               (Inl e, t) \<Rightarrow> declare_artifacts E F vault sid xid agent ward ds t
             | (Inr a, t) \<Rightarrow> apfst (Cons a) (declare_artifacts E F vault sid xid agent ward ds t)))"

definition process_artifact_declarations ::
  "state_env \<Rightarrow> file_system \<Rightarrow> string \<Rightarrow> artifact_declaration list \<Rightarrow> string \<Rightarrow> string \<Rightarrow> string \<Rightarrow> string option \<Rightarrow>
   statedb \<Rightarrow> artifact list \<times> statedb" where
  "process_artifact_declarations E F vault ds sid xid agent ward db =
     (case ward of
        None \<Rightarrow> ([], db)
      | Some w \<Rightarrow>
          declare_artifacts E F vault sid xid agent w (take MAX_ARTIFACT_DECLARATIONS_PER_RESPONSE ds) db)"

end
