(* ===== verification/Artifacts_Confined.thy ===== *)
theory Artifacts_Confined
  imports Artifacts State_Samples
begin

text \<open>
  What is on record of an artifact: a file below the ward it was declared in, of bounded size.
\<close>

section \<open>Paths below a directory\<close>

lemma split_on_Cons:
  "split_on d (c # s) = (if c = d then [] # split_on d s else (c # hd (split_on d s)) # tl (split_on d s))"
  by (auto split: list.split)

lemma path_components_relative:
  assumes "list_all is_normal (path_components p)"
  shows "concat (map part_of (split_on (CHR ''/'') p)) = path_components p"
  using assms by (auto simp: path_components_def part_of_def split: list.splits if_splits)

lemma path_components_under:
  assumes "list_all is_normal (path_components p)" and "r \<noteq> []"
  shows "path_components (r @ ''/'' @ p) = path_components r @ path_components p"
proof -
  obtain q qs where q: "split_on (CHR ''/'') r = q # qs" by (cases "split_on (CHR ''/'') r") auto
  have "split_on (CHR ''/'') (r @ ''/'' @ p) = (q # qs) @ split_on (CHR ''/'') p"
    using split_on_append [of "CHR ''/''" r p] q by simp
  with q assms(2) path_components_relative [OF assms(1)] show ?thesis
    by (simp add: path_components_def)
qed

text \<open>A base that ends in a slash has an empty last part.\<close>

lemma path_components_slash:
  assumes "list_all is_normal (path_components p)"
  shows "path_components ((r @ ''/'') @ p) = path_components (r @ ''/'') @ path_components p"
proof (cases "r = []")
  case True
  have "split_on (CHR ''/'') (''/'' @ p) = [] # split_on (CHR ''/'') p" by simp
  with True path_components_relative [OF assms] show ?thesis
    by (simp add: path_components_def part_of_def)
next
  case False
  have "path_components (r @ ''/'') = path_components r"
    using path_components_under [of "[]" r] False by (simp add: path_components_def part_of_def)
  with path_components_under [OF assms False] show ?thesis by simp
qed

lemma path_components_join:
  assumes "valid_relative_path p"
  shows "path_components (join base p) = path_components base @ path_components p"
proof -
  from assms have p: "p \<noteq> []" "list_all is_normal (path_components p)" by (auto simp: valid_relative_path_def)
  have rel: "hd p \<noteq> CHR ''/''"
  proof
    assume "hd p = CHR ''/''"
    with p(1) have "split_on (CHR ''/'') p = [] # split_on (CHR ''/'') (tl p)" by (cases p) auto
    with p show False by (simp add: path_components_def)
  qed
  consider "base = []" | "base \<noteq> []" "last base = CHR ''/''" | "base \<noteq> []" "last base \<noteq> CHR ''/''" by blast
  then show ?thesis
  proof cases
    case 1
    with rel show ?thesis by (simp add: join_def path_components_def part_of_def)
  next
    case 2
    then have "base = butlast base @ ''/''" by (metis append_butlast_last_id)
    with path_components_slash [OF p(2), of "butlast base"] 2 rel show ?thesis by (simp add: join_def)
  next
    case 3
    with rel path_components_under [OF p(2) 3(1)] show ?thesis by (simp add: join_def)
  qed
qed

lemma joined_starts_with: "valid_relative_path p \<Longrightarrow> path_starts_with (join base p) base"
  by (simp add: path_starts_with_def path_components_join)

section \<open>Stored artifacts\<close>

definition confined :: "file_system \<Rightarrow> string \<Rightarrow> string \<Rightarrow> artifact \<Rightarrow> bool" where
  "confined F vault ward a \<longleftrightarrow>
     (\<exists>root p fd len. ward_root F vault ward = Some root \<and> a_file_path a = join root p \<and>
        list_all is_normal (path_components p) \<and> path_starts_with (a_file_path a) root \<and>
        open_no_follow F vault ward p = Some fd \<and> fs_stat F fd = Some (True, len) \<and>
        a_file_size a = Some (int len) \<and> len \<le> MAX_ARTIFACT_BYTES)"

lemma opened_is_confined:
  assumes "open_validated_artifact F vault ward p = Some v" and "a_file_path a = vf_path v"
    and "a_file_size a = Some (int (vf_len v))"
  shows "confined F vault ward a"
  using assms joined_starts_with [of p]
  by (auto simp: open_validated_artifact_def confined_def valid_relative_path_def bind_eq_Some_conv
      split: if_splits)

lemma create_artifact_InrD:
  assumes "repo_create_artifact a db = (Inr u, t)"
  shows "artifacts_t t = artifacts_t db @ [a]" "sessions_t t = sessions_t db"
  using assms
  by (auto simp: repo_create_artifact_def connection_def statement_def bnd_def throw_def ret_def
      split: list.splits if_splits prod.splits sum.splits)

lemma create_artifact_InlD:
  assumes "repo_create_artifact a db = (Inl e, t)"
  shows "artifacts_t t = artifacts_t db"
  using assms
  by (auto simp: repo_create_artifact_def connection_def statement_def bnd_def throw_def ret_def
      split: list.splits if_splits prod.splits sum.splits)

lemma declare_artifacts_spec:
  assumes "declare_artifacts E F vault sid xid agent ward ds db = (as, t)"
  shows "artifacts_t t = artifacts_t db @ as \<and> length as \<le> length ds \<and>
    list_all (\<lambda>a. confined F vault ward a \<and> a_session_id a = sid \<and> a_execution_id a = Some xid \<and>
      a_ward_id a = Some ward) as"
  using assms
proof (induction ds arbitrary: db as)
  case (Cons d ds)
  show ?case
  proof (cases "oversized d \<or> open_validated_artifact F vault ward (ad_path d) = None")
    case True
    with Cons.prems have "declare_artifacts E F vault sid xid agent ward ds db = (as, t)"
      by (auto split: if_splits)
    from Cons.IH [OF this] show ?thesis by auto
  next
    case False
    then obtain v where v: "open_validated_artifact F vault ward (ad_path d) = Some v" by auto
    obtain a db' where a: "declared_artifact E F sid xid agent ward d v db = (Inr a, db')"
      "artifacts_t db' = artifacts_t db" "a_file_path a = vf_path v" "a_file_size a = Some (int (vf_len v))"
      "a_session_id a = sid" "a_execution_id a = Some xid" "a_ward_id a = Some ward"
      by (auto simp: declared_artifact_def artifact_new_def bnd_def new_v4_def utc_now_def ret_def)
    obtain res u where c: "repo_create_artifact a db' = (res, u)" by fastforce
    show ?thesis
    proof (cases res)
      case (Inl e)
      with Cons.prems False v a c have "declare_artifacts E F vault sid xid agent ward ds u = (as, t)"
        by (simp add: bnd_def)
      from Cons.IH [OF this] create_artifact_InlD [OF c [unfolded Inl]] a(2) show ?thesis by auto
    next
      case (Inr x)
      with Cons.prems False v a c obtain bs where
        "declare_artifacts E F vault sid xid agent ward ds u = (bs, t)" "as = a # bs"
        by (auto simp: bnd_def ret_def apfst_def map_prod_def split: prod.splits)
      with Cons.IH [OF this(1)] create_artifact_InrD(1) [OF c [unfolded Inr]] a
        opened_is_confined [OF v a(3,4)] show ?thesis by auto
    qed
  qed
qed simp

text \<open>
  C25: artifacts stay in their ward. What a response declares adds at most eight rows, each of them
  of a regular file of at most five megabytes, which was opened without following a link and lies
  below the ward's directory by a path of names only, and each for the declaring execution.
\<close>

theorem artifacts_stay_in_their_ward:
  assumes "process_artifact_declarations E F vault ds sid xid agent ward db = (as, t)"
  shows "artifacts_t t = artifacts_t db @ as \<and> length as \<le> 8 \<and>
    list_all (\<lambda>a. \<exists>w. ward = Some w \<and> confined F vault w a \<and> a_session_id a = sid \<and>
      a_execution_id a = Some xid \<and> a_ward_id a = Some w) as"
proof (cases ward)
  case (Some w)
  with assms have run: "declare_artifacts E F vault sid xid agent w (take 8 ds) db = (as, t)"
    by (simp add: process_artifact_declarations_def MAX_ARTIFACT_DECLARATIONS_PER_RESPONSE_def)
  from declare_artifacts_spec [OF run] Some show ?thesis by (auto simp: list_all_iff)
qed (use assms in \<open>simp add: process_artifact_declarations_def\<close>)

definition sample_fs :: file_system where
  "sample_fs = \<lparr>fs_symlink = (\<lambda>_. Some False), fs_canonicalize = Some, fs_is_dir = (\<lambda>_. True),
     fs_openat = (\<lambda>_ _ _. Some 3), fs_stat = (\<lambda>_. Some (True, 5)), fs_lower = to_lowercase\<rparr>"

lemma sample_declaration_is_stored:
  "length (fst (process_artifact_declarations sample_env sample_fs ''/v''
     [\<lparr>ad_path = ''o/r.MD'', ad_label = None, ad_is_goal_artifact = True\<rparr>,
      \<lparr>ad_path = ''../x'', ad_label = None, ad_is_goal_artifact = True\<rparr>] ''s'' ''x'' ''g'' (Some ''w'') sample_db)) = 1"
  by (simp add: process_artifact_declarations_def MAX_ARTIFACT_DECLARATIONS_PER_RESPONSE_def oversized_def
      open_validated_artifact_def valid_relative_path_def path_components_def part_of_def ward_root_def
      sample_fs_def join_def path_starts_with_def open_no_follow_def open_at_def declared_artifact_def bnd_def
      new_v4_def utc_now_def ret_def artifact_new_def repo_create_artifact_def connection_def statement_def
      goal_artifacts_def MAX_GOAL_ARTIFACTS_PER_SESSION_def session_ids_def MAX_ARTIFACT_BYTES_def
      extension_def file_name_def after_last_dot_def throw_def)

lemma artifacts_stay_in_their_ward_witness:
  "\<exists>a t. process_artifact_declarations sample_env sample_fs ''/v''
     [\<lparr>ad_path = ''o/r.MD'', ad_label = None, ad_is_goal_artifact = True\<rparr>,
      \<lparr>ad_path = ''../x'', ad_label = None, ad_is_goal_artifact = True\<rparr>] ''s'' ''x'' ''g'' (Some ''w'') sample_db = ([a], t) \<and>
     confined sample_fs ''/v'' ''w'' a"
proof -
  obtain as t where run: "process_artifact_declarations sample_env sample_fs ''/v''
     [\<lparr>ad_path = ''o/r.MD'', ad_label = None, ad_is_goal_artifact = True\<rparr>,
      \<lparr>ad_path = ''../x'', ad_label = None, ad_is_goal_artifact = True\<rparr>] ''s'' ''x'' ''g'' (Some ''w'') sample_db = (as, t)"
    by fastforce
  with sample_declaration_is_stored have "length as = 1" by simp
  then obtain a where "as = [a]" by (cases as) auto
  with artifacts_stay_in_their_ward [OF run] run show ?thesis by auto
qed

end
