(* ===== verification/Api_Logs.thy ===== *)
theory Api_Logs
  imports State_Repository
begin

text \<open>
  The execution log (\<open>services/api-logs/src/types.rs\<close>, \<open>repository.rs\<close>, \<open>service.rs\<close>): entries,
  the statements over the table \<open>execution_logs\<close> of the session store, and one definition per method
  of \<open>LogService\<close>.
\<close>

section \<open>Levels, categories, entries\<close>

datatype log_level = LevelDebug | LevelInfo | LevelWarn | LevelError

fun log_level_text :: "log_level \<Rightarrow> string" where
  "log_level_text LevelDebug = ''debug''"
| "log_level_text LevelInfo = ''info''"
| "log_level_text LevelWarn = ''warn''"
| "log_level_text LevelError = ''error''"

definition log_level_parse :: "string \<Rightarrow> log_level option" where
  "log_level_parse s =
     (let t = to_lowercase s in
      if t = ''debug'' then Some LevelDebug
      else if t = ''info'' then Some LevelInfo
      else if t = ''warn'' then Some LevelWarn
      else if t = ''error'' then Some LevelError
      else None)"

datatype log_category =
  LogSession | LogToken | LogToolCall | LogToolResult | LogThinking | LogDelegation | LogSystem
| LogError | LogResponse | LogIntent

fun log_category_text :: "log_category \<Rightarrow> string" where
  "log_category_text LogSession = ''session''"
| "log_category_text LogToken = ''token''"
| "log_category_text LogToolCall = ''tool_call''"
| "log_category_text LogToolResult = ''tool_result''"
| "log_category_text LogThinking = ''thinking''"
| "log_category_text LogDelegation = ''delegation''"
| "log_category_text LogSystem = ''system''"
| "log_category_text LogError = ''error''"
| "log_category_text LogResponse = ''response''"
| "log_category_text LogIntent = ''intent''"

definition log_category_parse :: "string \<Rightarrow> log_category option" where
  "log_category_parse s =
     (let t = to_lowercase s in
      if t = ''session'' then Some LogSession
      else if t = ''token'' then Some LogToken
      else if t = ''tool_call'' then Some LogToolCall
      else if t = ''tool_result'' then Some LogToolResult
      else if t = ''thinking'' then Some LogThinking
      else if t = ''delegation'' then Some LogDelegation
      else if t = ''system'' then Some LogSystem
      else if t = ''error'' then Some LogError
      else if t = ''response'' then Some LogResponse
      else if t = ''intent'' then Some LogIntent
      else None)"

datatype log_status = StatusRunning | StatusCompleted | StatusError | StatusStopped

fun log_status_text :: "log_status \<Rightarrow> string" where
  "log_status_text StatusRunning = ''running''"
| "log_status_text StatusCompleted = ''completed''"
| "log_status_text StatusError = ''error''"
| "log_status_text StatusStopped = ''stopped''"

record execution_log =
  el_id :: string
  el_session_id :: string
  el_conversation_id :: string
  el_agent_id :: string
  el_parent_session_id :: "string option"
  el_timestamp :: string
  el_level :: log_level
  el_category :: log_category
  el_message :: string
  el_metadata :: "json option"
  el_duration_ms :: "int option"

definition execution_log_new ::
  "state_env \<Rightarrow> string \<Rightarrow> string \<Rightarrow> string \<Rightarrow> log_level \<Rightarrow> log_category \<Rightarrow> string \<Rightarrow> execution_log st_op" where
  "execution_log_new E sid conv agent level category body =
     bnd (new_v4 E) (\<lambda>u.
     bnd (utc_now E) (\<lambda>now.
     ret \<lparr>el_id = u, el_session_id = sid, el_conversation_id = conv, el_agent_id = agent,
       el_parent_session_id = None, el_timestamp = now, el_level = level, el_category = category,
       el_message = body, el_metadata = None, el_duration_ms = None\<rparr>))"

definition with_parent :: "string \<Rightarrow> execution_log \<Rightarrow> execution_log" where
  "with_parent p e = e\<lparr>el_parent_session_id := Some p\<rparr>"

definition with_metadata :: "json \<Rightarrow> execution_log \<Rightarrow> execution_log" where
  "with_metadata v e = e\<lparr>el_metadata := Some v\<rparr>"

definition with_duration :: "int \<Rightarrow> execution_log \<Rightarrow> execution_log" where
  "with_duration d e = e\<lparr>el_duration_ms := Some d\<rparr>"

record log_session =
  ls_session_id :: string
  ls_conversation_id :: string
  ls_agent_id :: string
  ls_agent_name :: string
  ls_title :: "string option"
  ls_started_at :: string
  ls_ended_at :: "string option"
  ls_status :: log_status
  ls_token_count :: int
  ls_tool_call_count :: int
  ls_error_count :: int
  ls_duration_ms :: "int option"
  ls_parent_session_id :: "string option"
  ls_child_session_ids :: "string list"
  ls_mode :: "string option"

record log_filter =
  lf_agent_id :: "string option"
  lf_conversation_id :: "string option"
  lf_level :: "string option"
  lf_from_time :: "string option"
  lf_to_time :: "string option"
  lf_limit :: "32 word option"
  lf_offset :: "32 word option"
  lf_root_only :: bool

section \<open>Writes\<close>

definition row_of_log :: "codec \<Rightarrow> execution_log \<Rightarrow> log_row" where
  "row_of_log C e =
     \<lparr>lr_id = el_id e, lr_session_id = el_session_id e, lr_conversation_id = Some (el_conversation_id e),
      lr_agent_id = el_agent_id e, lr_parent_session_id = el_parent_session_id e,
      lr_timestamp = el_timestamp e, lr_level = log_level_text (el_level e),
      lr_category = log_category_text (el_category e), lr_message = el_message e,
      lr_metadata = map_option (json_to_string C) (el_metadata e), lr_duration_ms = el_duration_ms e\<rparr>"

definition insert_log_row :: "codec \<Rightarrow> execution_log \<Rightarrow> nat st_op" where
  "insert_log_row C e = checked_change (\<lambda>db. el_id e \<notin> lr_id ` set (logs_t db)) (\<lambda>_. 1)
     (\<lambda>db. db\<lparr>logs_t := logs_t db @ [row_of_log C e]\<rparr>)"

definition repo_insert_log :: "state_env \<Rightarrow> execution_log \<Rightarrow> unit st_op" where
  "repo_insert_log E e = connection (unit_op (insert_log_row (env_codec E) e))"

definition repo_insert_batch :: "state_env \<Rightarrow> execution_log list \<Rightarrow> unit st_op" where
  "repo_insert_batch E es =
     (if es = [] then ret ()
      else connection (transaction (
        bnd (for_each (\<lambda>e. unit_op (insert_log_row (env_codec E) e)) es) (\<lambda>_. ret (True, ())))))"

section \<open>Grouping by session\<close>

text \<open>
  A continuation logs under \<open><session>-cont-<8 characters>\<close>; the query strips the suffix.
\<close>

definition normalized_conversation :: "string option \<Rightarrow> string option" where
  "normalized_conversation c =
     (case c of
        None \<Rightarrow> None
      | Some t \<Rightarrow> if sql_like t ''%-cont-________'' then Some (take (length t - 14) t) else Some t)"

definition log_in_filter :: "log_filter \<Rightarrow> log_row \<Rightarrow> bool" where
  "log_in_filter f l =
     (holds (lf_agent_id f) (\<lambda>a. lr_agent_id l = a) \<and>
      holds (lf_conversation_id f) (\<lambda>c. lr_conversation_id l = Some c) \<and>
      holds (lf_from_time f) (\<lambda>t. t \<le> lr_timestamp l) \<and>
      holds (lf_to_time f) (\<lambda>t. lr_timestamp l \<le> t))"

text \<open>\<open>GROUP BY session_id\<close>\<close>

definition log_groups :: "log_row list \<Rightarrow> log_row list list" where
  "log_groups ls = map (\<lambda>i. filter (\<lambda>l. lr_session_id l = i) ls) (sort (remdups (map lr_session_id ls)))"

definition max_text :: "string option list \<Rightarrow> string option" where
  "max_text ts = (case List.map_filter id ts of [] \<Rightarrow> None | x # xs \<Rightarrow> Some (fold max xs x))"

definition first_time :: "log_row list \<Rightarrow> string" where
  "first_time ls = (case map lr_timestamp ls of [] \<Rightarrow> [] | x # xs \<Rightarrow> fold min xs x)"

definition last_time :: "log_row list \<Rightarrow> string" where
  "last_time ls = (case map lr_timestamp ls of [] \<Rightarrow> [] | x # xs \<Rightarrow> fold max xs x)"

definition i32_count :: "(log_row \<Rightarrow> bool) \<Rightarrow> log_row list \<Rightarrow> state_error + int" where
  "i32_count p ls =
     (let n = length (filter p ls) in if n < 2 ^ 31 then Inr (int n) else Inl (Database ConversionFailure))"

text \<open>
  The columns that are not aggregated come from a row of the group of SQLite's choosing: \<open>pick\<close>. The
  title, the status and the mode are those of the session \<open>conv\<close>, if there is one.
\<close>

definition group_session ::
  "statedb \<Rightarrow> (log_row list \<Rightarrow> log_row) \<Rightarrow> (log_row \<Rightarrow> string option) \<Rightarrow> (session_row option \<Rightarrow> string option \<times> log_status) \<Rightarrow>
   log_row list \<Rightarrow> state_error + log_session" where
  "group_session db pick conversation shown ls =
     sbind (some_or (Database ConversionFailure) (conversation (pick ls))) (\<lambda>conv.
     sbind (i32_count (\<lambda>l. lr_category l = ''token'') ls) (\<lambda>tokens.
     sbind (i32_count (\<lambda>l. lr_category l = ''tool_call'') ls) (\<lambda>calls.
     sbind (i32_count (\<lambda>l. lr_level l = ''error'') ls) (\<lambda>errors.
     let s = find_session_row conv db; (title, status) = shown s in
     Inr \<lparr>ls_session_id = lr_session_id (pick ls), ls_conversation_id = conv,
       ls_agent_id = lr_agent_id (pick ls), ls_agent_name = lr_agent_id (pick ls), ls_title = title,
       ls_started_at = first_time ls, ls_ended_at = Some (last_time ls), ls_status = status,
       ls_token_count = tokens, ls_tool_call_count = calls, ls_error_count = errors,
       ls_duration_ms = None, ls_parent_session_id = max_text (map lr_parent_session_id ls),
       ls_child_session_ids = [], ls_mode = Option.bind s sr_mode\<rparr>))))"

definition status_shown :: "session_row option \<Rightarrow> string option \<times> log_status" where
  "status_shown s =
     (Option.bind s sr_title,
      case map_option sr_status s of
        None \<Rightarrow> StatusCompleted
      | Some t \<Rightarrow>
          if t = ''running'' then StatusRunning
          else if t \<in> {''error'', ''crashed''} then StatusError
          else if t = ''stopped'' then StatusStopped
          else StatusCompleted)"

definition repo_list_log_sessions ::
  "(log_row list \<Rightarrow> log_row) \<Rightarrow> log_filter \<Rightarrow> log_session list st_op" where
  "repo_list_log_sessions pick f =
     connection (bnd (select id) (\<lambda>db.
       let groups = log_groups (filter (log_in_filter f) (logs_t db));
           shown = filter (\<lambda>ls. lf_root_only f \<longrightarrow> max_text (map lr_parent_session_id ls) = None) groups;
           page = limit_offset (case lf_limit f of None \<Rightarrow> 100 | Some n \<Rightarrow> unat n) (lf_offset f)
             (order_desc first_time shown)
       in lift_sum (collect_sum (group_session db pick (normalized_conversation \<circ> lr_conversation_id) status_shown) page)))"

text \<open>A session is asked for by the id of an execution, or by its own, which finds its root execution.\<close>

definition root_execution_row :: "string \<Rightarrow> statedb \<Rightarrow> string option" where
  "root_execution_row i db =
     map_option xr_id (find (\<lambda>x. xr_session_id x = i \<and> xr_parent x = None) (executions_t db))"

definition repo_get_log_session ::
  "(log_row list \<Rightarrow> log_row) \<Rightarrow> string \<Rightarrow> log_session option st_op" where
  "repo_get_log_session pick i =
     connection (bnd (select id) (\<lambda>db.
       case log_groups (filter (\<lambda>l. lr_session_id l = i \<or> Some (lr_session_id l) = root_execution_row i db) (logs_t db)) of
         [] \<Rightarrow> ret None
       | ls # _ \<Rightarrow> lift_sum (sbind (group_session db pick lr_conversation_id (\<lambda>_. (None, StatusCompleted)) ls)
           (\<lambda>s. Inr (Some s)))))"

definition repo_log_session_status :: "string \<Rightarrow> statedb \<Rightarrow> string option \<times> statedb" where
  "repo_log_session_status conv db =
     (case connection (select (\<lambda>d. map_option sr_status (find_session_row conv d))) db of
        (Inl e, t) \<Rightarrow> (None, t)
      | (Inr s, t) \<Rightarrow> (s, t))"

section \<open>Reading entries\<close>

definition log_of_row :: "codec \<Rightarrow> log_row \<Rightarrow> state_error + execution_log" where
  "log_of_row C l =
     sbind (some_or (Database ConversionFailure) (lr_conversation_id l)) (\<lambda>conv.
     Inr \<lparr>el_id = lr_id l, el_session_id = lr_session_id l, el_conversation_id = conv,
       el_agent_id = lr_agent_id l, el_parent_session_id = lr_parent_session_id l,
       el_timestamp = lr_timestamp l,
       el_level = (case log_level_parse (lr_level l) of None \<Rightarrow> LevelInfo | Some x \<Rightarrow> x),
       el_category = (case log_category_parse (lr_category l) of None \<Rightarrow> LogSystem | Some x \<Rightarrow> x),
       el_message = lr_message l, el_metadata = Option.bind (lr_metadata l) (json_from_str C),
       el_duration_ms = lr_duration_ms l\<rparr>)"

definition repo_get_session_logs :: "state_env \<Rightarrow> string \<Rightarrow> execution_log list st_op" where
  "repo_get_session_logs E i =
     connection (bnd (select (\<lambda>db. order_asc lr_timestamp (filter (\<lambda>l. lr_session_id l = i) (logs_t db)))) (\<lambda>ls.
     lift_sum (collect_sum (log_of_row (env_codec E)) ls)))"

definition repo_has_category_log :: "string \<Rightarrow> string \<Rightarrow> bool st_op" where
  "repo_has_category_log i category =
     connection (select (\<lambda>db. list_ex (\<lambda>l. lr_session_id l = i \<and> lr_category l = category) (logs_t db)))"

definition repo_get_child_sessions :: "string \<Rightarrow> string list st_op" where
  "repo_get_child_sessions i =
     connection (select (\<lambda>db. remdups (map lr_session_id (filter (\<lambda>l. lr_parent_session_id l = Some i) (logs_t db)))))"

text \<open>\<open>SUBSTR\<close> counts characters: the bytes 128 to 191 continue one.\<close>

fun take_chars :: "nat \<Rightarrow> string \<Rightarrow> string" where
  "take_chars n [] = []"
| "take_chars n (c # s) =
     (if 128 \<le> (of_char c :: nat) \<and> (of_char c :: nat) < 192 then c # take_chars n s
      else if n = 0 then []
      else c # take_chars (n - 1) s)"

definition first_user_message :: "string \<Rightarrow> statedb \<Rightarrow> string option" where
  "first_user_message i db =
     (case order_asc mr_created_at (filter (\<lambda>m. mr_session_id m = Some i \<and> mr_role m = ''user'') (messages_t db)) of
        [] \<Rightarrow> None
      | m # _ \<Rightarrow> Some (take_chars 80 (mr_content m)))"

fun titles_of :: "string list \<Rightarrow> (string \<times> string) list st_op" where
  "titles_of [] = ret []"
| "titles_of (i # is) = (\<lambda>db.
     (case select (first_user_message i) db of
        (Inr (Some title), t) \<Rightarrow>
          bnd (titles_of is) (\<lambda>rest. ret (if title = [] then rest else (i, title) # rest)) t
      | (_, t) \<Rightarrow> titles_of is t))"

definition repo_get_session_titles :: "string list \<Rightarrow> (string \<times> string) list st_op" where
  "repo_get_session_titles is = (if is = [] then ret [] else connection (bnd (statement (ret ())) (\<lambda>_. titles_of is)))"

section \<open>Deletion\<close>

definition repo_delete_log_session :: "string \<Rightarrow> 64 word st_op" where
  "repo_delete_log_session i =
     connection (bnd (change (\<lambda>db. sql_changes (\<lambda>l. lr_session_id l = i) (logs_t db))
       (\<lambda>db. db\<lparr>logs_t := sql_delete (\<lambda>l. lr_session_id l = i) (logs_t db)\<rparr>)) (\<lambda>n. ret (word_of_nat n)))"

definition repo_delete_old_logs :: "string \<Rightarrow> 64 word st_op" where
  "repo_delete_old_logs older_than =
     connection (bnd (change (\<lambda>db. sql_changes (\<lambda>l. lr_timestamp l < older_than) (logs_t db))
       (\<lambda>db. db\<lparr>logs_t := sql_delete (\<lambda>l. lr_timestamp l < older_than) (logs_t db)\<rparr>)) (\<lambda>n. ret (word_of_nat n)))"

section \<open>The service: emission\<close>

definition log_session_start ::
  "state_env \<Rightarrow> string \<Rightarrow> string \<Rightarrow> string \<Rightarrow> string option \<Rightarrow> unit st_op" where
  "log_session_start E sid conv agent parent =
     bnd (execution_log_new E sid conv agent LevelInfo LogSession ''Session started'') (\<lambda>e.
     repo_insert_log E (case parent of None \<Rightarrow> e | Some p \<Rightarrow> with_parent p e))"

definition log_session_end ::
  "state_env \<Rightarrow> string \<Rightarrow> string \<Rightarrow> string \<Rightarrow> log_status \<Rightarrow> string option \<Rightarrow> unit st_op" where
  "log_session_end E sid conv agent status result =
     (let body = (case status of
            StatusCompleted \<Rightarrow> (case result of None \<Rightarrow> ''Session completed successfully'' | Some r \<Rightarrow> r)
          | StatusError \<Rightarrow> (case result of None \<Rightarrow> ''Session ended with error'' | Some r \<Rightarrow> r)
          | StatusStopped \<Rightarrow> (case result of None \<Rightarrow> ''Session stopped by user'' | Some r \<Rightarrow> r)
          | StatusRunning \<Rightarrow> ''Session running'');
          level = (if status = StatusError then LevelError else LevelInfo)
      in bnd (execution_log_new E sid conv agent level LogSession body) (\<lambda>e.
         repo_insert_log E (with_metadata (JObject [(''status'', JString (log_status_text status))]) e)))"

definition log_tool_call ::
  "state_env \<Rightarrow> string \<Rightarrow> string \<Rightarrow> string \<Rightarrow> string \<Rightarrow> string \<Rightarrow> json \<Rightarrow> unit st_op" where
  "log_tool_call E sid conv agent tool i args =
     bnd (execution_log_new E sid conv agent LevelInfo LogToolCall (''Calling tool: '' @ tool)) (\<lambda>e.
     repo_insert_log E (with_metadata
       (JObject [(''args'', args), (''tool_id'', JString i), (''tool_name'', JString tool)]) e))"

text \<open>\<open>floor_char_boundary\<close>: the longest prefix of at most \<open>n\<close> bytes that ends between characters.\<close>

fun floor_char_boundary :: "string \<Rightarrow> nat \<Rightarrow> nat" where
  "floor_char_boundary s n =
     (if length s \<le> n then length s
      else if n = 0 then 0
      else if 128 \<le> (of_char (s ! n) :: nat) \<and> (of_char (s ! n) :: nat) < 192
      then floor_char_boundary s (n - 1) else n)"

declare floor_char_boundary.simps [simp del]

definition truncated_result :: "string \<Rightarrow> string" where
  "truncated_result r =
     (if 1000 < length r then take (floor_char_boundary r 1000) r @ ''...(truncated)'' else r)"

definition log_tool_result ::
  "state_env \<Rightarrow> string \<Rightarrow> string \<Rightarrow> string \<Rightarrow> string \<Rightarrow> string \<Rightarrow> string \<Rightarrow> string option \<Rightarrow> int \<Rightarrow> unit st_op" where
  "log_tool_result E sid conv agent tool i result error ms =
     (let (level, body) =
        (if error \<noteq> None then (LevelError, ''Tool '' @ tool @ '' failed'')
         else (LevelInfo, ''Tool '' @ tool @ '' completed''))
      in bnd (execution_log_new E sid conv agent level LogToolResult body) (\<lambda>e.
         repo_insert_log E (with_duration ms (with_metadata
           (JObject [(''error'', json_opt_string error), (''result'', JString (truncated_result result)),
             (''tool_id'', JString i), (''tool_name'', JString tool)]) e))))"

definition log_delegation_start ::
  "state_env \<Rightarrow> string \<Rightarrow> string \<Rightarrow> string \<Rightarrow> string \<Rightarrow> string \<Rightarrow> string \<Rightarrow> unit st_op" where
  "log_delegation_start E sid conv agent child child_sid task =
     bnd (execution_log_new E sid conv agent LevelInfo LogDelegation (''Delegating to agent: '' @ child)) (\<lambda>e.
     repo_insert_log E (with_metadata
       (JObject [(''child_agent_id'', JString child), (''child_session_id'', JString child_sid),
         (''task'', JString task)]) e))"

definition log_delegation_complete ::
  "state_env \<Rightarrow> string \<Rightarrow> string \<Rightarrow> string \<Rightarrow> string \<Rightarrow> string \<Rightarrow> bool \<Rightarrow> string option \<Rightarrow> unit st_op" where
  "log_delegation_complete E sid conv agent child child_sid success result =
     (let (level, body) =
        (if success then (LevelInfo, ''Delegation to '' @ child @ '' completed'')
         else (LevelError, ''Delegation to '' @ child @ '' failed''))
      in bnd (execution_log_new E sid conv agent level LogDelegation body) (\<lambda>e.
         repo_insert_log E (with_metadata
           (JObject [(''child_agent_id'', JString child), (''child_session_id'', JString child_sid),
             (''result'', json_opt_string result), (''success'', JBool success)]) e)))"

definition log_error :: "state_env \<Rightarrow> string \<Rightarrow> string \<Rightarrow> string \<Rightarrow> string \<Rightarrow> unit st_op" where
  "log_error E sid conv agent body =
     bnd (execution_log_new E sid conv agent LevelError LogError body) (repo_insert_log E)"

section \<open>The service: queries\<close>

text \<open>\<open>unwrap_or\<close>: the failure of a supplementary query is dropped.\<close>

definition or_else :: "'a \<Rightarrow> 'a st_op \<Rightarrow> 'a st_op" where
  "or_else d m db = (case m db of (Inl e, t) \<Rightarrow> (Inr d, t) | (Inr x, t) \<Rightarrow> (Inr x, t))"

definition session_duration :: "codec \<Rightarrow> log_session \<Rightarrow> int option" where
  "session_duration C s =
     Option.bind (ls_ended_at s) (\<lambda>ended.
     Option.bind (parse_timestamp C (ls_started_at s)) (\<lambda>from.
     Option.bind (parse_timestamp C ended) (\<lambda>to.
     Some (num_milliseconds (int to - int from)))))"

definition enriched :: "state_env \<Rightarrow> (string \<times> string) list \<Rightarrow> log_session \<Rightarrow> log_session st_op" where
  "enriched E titles s =
     bnd (or_else (ls_child_session_ids s) (repo_get_child_sessions (ls_session_id s))) (\<lambda>children.
     ret (s\<lparr>ls_title := (case map_of titles (ls_session_id s) of None \<Rightarrow> ls_title s | Some t \<Rightarrow> Some t),
       ls_child_session_ids := children,
       ls_status := (if 0 < ls_error_count s then StatusError
         else if ls_ended_at s \<noteq> None then StatusCompleted else StatusRunning),
       ls_duration_ms := (case session_duration (env_codec E) s of None \<Rightarrow> ls_duration_ms s | Some d \<Rightarrow> Some d)\<rparr>))"

definition list_log_sessions ::
  "state_env \<Rightarrow> (log_row list \<Rightarrow> log_row) \<Rightarrow> log_filter \<Rightarrow> log_session list st_op" where
  "list_log_sessions E pick f =
     bnd (repo_list_log_sessions pick f) (\<lambda>ss.
     bnd (or_else [] (repo_get_session_titles (map ls_session_id ss))) (\<lambda>titles.
     map_op (enriched E titles) ss))"

definition get_session_detail ::
  "state_env \<Rightarrow> (log_row list \<Rightarrow> log_row) \<Rightarrow> string \<Rightarrow> (log_session \<times> execution_log list) option st_op" where
  "get_session_detail E pick i =
     bnd (repo_get_log_session pick i) (\<lambda>found.
     case found of
       None \<Rightarrow> ret None
     | Some s \<Rightarrow>
         bnd (repo_get_session_logs E (ls_session_id s)) (\<lambda>logs.
         bnd (or_else (ls_child_session_ids s) (repo_get_child_sessions (ls_session_id s))) (\<lambda>children.
         bnd (or_else [] (repo_get_session_titles [ls_session_id s])) (\<lambda>titles.
         bnd (\<lambda>db. apfst Inr (repo_log_session_status (ls_conversation_id s) db)) (\<lambda>status.
         ret (Some (s\<lparr>ls_child_session_ids := children,
           ls_title := (case map_of titles (ls_session_id s) of None \<Rightarrow> ls_title s | Some t \<Rightarrow> Some t),
           ls_status :=
             (if status \<in> {Some ''crashed'', Some ''error''} \<or> 0 < ls_error_count s then StatusError
              else if status = Some ''running'' then StatusRunning
              else if ls_ended_at s \<noteq> None then StatusCompleted
              else StatusRunning),
           ls_duration_ms := (case session_duration (env_codec E) s of None \<Rightarrow> ls_duration_ms s | Some d \<Rightarrow> Some d)\<rparr>,
           logs)))))))"

definition has_intent_log :: "string \<Rightarrow> bool st_op" where
  "has_intent_log i = or_else False (repo_has_category_log i ''intent'')"

end
