(* ===== verification/Logs_Read.thy ===== *)
theory Logs_Read
  imports Api_Logs State_Samples "HOL-Library.Multiset"
begin

text \<open>
  What the execution log gives back: entries read as they were written, and the list of sessions
  says of each what its entries say.
\<close>

section \<open>An entry reads back\<close>

lemma level_round [simp]: "log_level_parse (log_level_text l) = Some l"
  by (cases l) (simp_all add: log_level_parse_def to_lowercase_def to_lower_char_def)

lemma category_round [simp]: "log_category_parse (log_category_text c) = Some c"
  by (cases c) (simp_all add: log_category_parse_def to_lowercase_def to_lower_char_def)

lemma log_row_round:
  assumes "json_codec C"
  shows "log_of_row C (row_of_log C e) = Inr e"
  using assms by (cases "el_metadata e") (simp_all add: log_of_row_def row_of_log_def json_codec_def)

lemma collect_sum_Inr:
  "collect_sum f xs = Inr ys \<longleftrightarrow> map f xs = map Inr ys"
  by (induction xs arbitrary: ys) (auto simp: sbind_eq_Inr Cons_eq_map_conv)

lemma insert_log_InrD:
  assumes "repo_insert_log E e db = (Inr u, t)"
  shows "el_id e \<notin> lr_id ` set (logs_t db)" "\<exists>bs. t = db\<lparr>script := bs, logs_t := logs_t db @ [row_of_log (env_codec E) e]\<rparr>"
proof -
  from assms obtain bs n where "checked_change (\<lambda>db. el_id e \<notin> lr_id ` set (logs_t db)) (\<lambda>_. 1)
       (\<lambda>db. db\<lparr>logs_t := logs_t db @ [row_of_log (env_codec E) e]\<rparr>) (db\<lparr>script := bs\<rparr>) = (Inr n, t)"
    unfolding repo_insert_log_def insert_log_row_def connection_def unit_op_def
    by (auto dest!: statement_InrD elim!: bnd_eq_InrE simp: ret_apply)
  from checked_change_InrD [OF this] show "el_id e \<notin> lr_id ` set (logs_t db)"
    "\<exists>bs. t = db\<lparr>script := bs, logs_t := logs_t db @ [row_of_log (env_codec E) e]\<rparr>" by auto
qed

lemma get_logs_up: "script db = [] \<Longrightarrow> fst (repo_get_session_logs E i db) =
    collect_sum (log_of_row (env_codec E)) (order_asc lr_timestamp (filter (\<lambda>l. lr_session_id l = i) (logs_t db)))"
  by (simp add: repo_get_session_logs_def sample_run lift_sum_def split: sum.split)

lemma el_session_of_row [simp]: "lr_session_id (row_of_log C e) = el_session_id e"
  by (simp add: row_of_log_def)

lemma projr_mset: "image_mset f R = image_mset Inr Q \<Longrightarrow> image_mset (projr \<circ> f) R = Q"
proof -
  assume "image_mset f R = image_mset Inr Q"
  from arg_cong [OF this, of "image_mset projr"] show ?thesis by (simp add: multiset.map_comp comp_def)
qed

lemma log_of_row_fields:
  assumes "log_of_row C l = Inr e"
  shows "el_timestamp e = lr_timestamp l" "el_session_id e = lr_session_id l"
  using assms by (auto simp: log_of_row_def sbind_eq_Inr)

text \<open>
  An entry that was inserted reads back exactly as it was written, among the entries of its
  execution that were there before, all of them in the order of their times.
\<close>

theorem a_logged_entry_reads_back:
  assumes "repo_insert_log E e db = (Inr u, t)" and "json_codec (env_codec E)"
    and "fst (repo_get_session_logs E (el_session_id e) (db\<lparr>script := []\<rparr>)) = Inr old"
  shows "\<exists>logs. fst (repo_get_session_logs E (el_session_id e) (t\<lparr>script := []\<rparr>)) = Inr logs \<and>
    mset logs = add_mset e (mset old) \<and> sorted (map el_timestamp logs)"
proof -
  let ?C = "env_codec E" and ?mine = "filter (\<lambda>l. lr_session_id l = el_session_id e)"
  let ?row = "row_of_log ?C e"
  let ?rows = "order_asc lr_timestamp (?mine (logs_t db) @ [?row])"
  define logs where "logs = map (\<lambda>l. projr (log_of_row ?C l)) ?rows"
  from insert_log_InrD [OF assms(1)] obtain bs where t: "t = db\<lparr>script := bs, logs_t := logs_t db @ [?row]\<rparr>" by blast
  from assms(3) have old: "map (log_of_row ?C) (order_asc lr_timestamp (?mine (logs_t db))) = map Inr old"
    by (simp add: get_logs_up collect_sum_Inr)
  have reads: "log_of_row ?C l = Inr (projr (log_of_row ?C l))" if "l \<in> set ?rows" for l
  proof (cases "l = ?row")
    case True
    then show ?thesis using log_row_round [OF assms(2)] by simp
  next
    case False
    with that have "l \<in> set (order_asc lr_timestamp (?mine (logs_t db)))" by auto
    then have "log_of_row ?C l \<in> set (map (log_of_row ?C) (order_asc lr_timestamp (?mine (logs_t db))))"
      unfolding set_map by (rule imageI)
    then show ?thesis unfolding old by auto
  qed
  have "map (log_of_row ?C) ?rows = map Inr logs"
    unfolding logs_def map_map comp_def by (rule map_cong [OF refl reads])
  then have run: "fst (repo_get_session_logs E (el_session_id e) (t\<lparr>script := []\<rparr>)) = Inr logs"
    by (simp add: t get_logs_up collect_sum_Inr)
  have again: "projr (log_of_row ?C ?row) = e" using log_row_round [OF assms(2)] by simp
  from arg_cong [OF old, of mset] have "image_mset (projr \<circ> log_of_row ?C) (mset (?mine (logs_t db))) = mset old"
    by (intro projr_mset) (simp add: order_asc_def)
  moreover have "mset logs = add_mset e (image_mset (projr \<circ> log_of_row ?C) (mset (?mine (logs_t db))))"
    unfolding logs_def order_asc_def mset_map mset_sort by (simp add: comp_def again)
  moreover have "map el_timestamp logs = map lr_timestamp ?rows"
    unfolding logs_def map_map comp_def using log_of_row_fields(1) [OF reads] by (rule map_cong [OF refl])
  ultimately show ?thesis using run by (simp add: order_asc_def)
qed

section \<open>The list of sessions\<close>

lemma enriched_InrD:
  assumes "enriched E titles s db = (Inr s', t)"
  shows "ls_session_id s' = ls_session_id s \<and> ls_error_count s' = ls_error_count s \<and>
    ls_status s' = (if 0 < ls_error_count s then StatusError
      else if ls_ended_at s \<noteq> None then StatusCompleted else StatusRunning)"
  using assms by (auto simp: enriched_def ret_def elim!: bnd_eq_InrE)

lemma map_op_InrD:
  "map_op f xs db = (Inr ys, t) \<Longrightarrow> y \<in> set ys \<Longrightarrow> \<exists>x \<in> set xs. \<exists>d u. f x d = (Inr y, u)"
proof (induction xs arbitrary: db ys)
  case (Cons x xs)
  from Cons.prems(1) obtain z zs d where "f x db = (Inr z, d)" "map_op f xs d = (Inr zs, t)" "ys = z # zs"
    by (auto simp: ret_def elim!: bnd_eq_InrE)
  with Cons.IH [of d zs] Cons.prems(2) show ?case by auto
qed (simp add: ret_def)

lemma group_session_Inr:
  assumes "group_session db pick conv shown ls = Inr s"
  shows "ls_session_id s = lr_session_id (pick ls) \<and> ls_ended_at s = Some (last_time ls) \<and>
    ls_error_count s = int (length (filter (\<lambda>l. lr_level l = ''error'') ls))"
  using assms
  by (auto simp: group_session_def sbind_eq_Inr i32_count_def Let_def case_prod_unfold split: if_splits)

lemma in_log_groups:
  assumes "ls \<in> set (log_groups rows)" and "\<And>g. g \<noteq> [] \<Longrightarrow> pick g \<in> set g"
  shows "ls \<noteq> [] \<and> ls = filter (\<lambda>l. lr_session_id l = lr_session_id (pick ls)) rows"
proof -
  from assms(1) obtain i where i: "i \<in> lr_session_id ` set rows" and ls: "ls = filter (\<lambda>l. lr_session_id l = i) rows"
    by (auto simp: log_groups_def)
  then have "ls \<noteq> []" by (auto simp: filter_empty_conv)
  with assms(2) [of ls] have "lr_session_id (pick ls) = i" by (auto simp: ls)
  with ls \<open>ls \<noteq> []\<close> show ?thesis by simp
qed

lemma listed_groups:
  assumes "repo_list_log_sessions pick f db = (Inr raw, t)"
  obtains d page where
    "collect_sum (group_session d pick (normalized_conversation \<circ> lr_conversation_id) status_shown) page = Inr raw"
    "set page \<subseteq> set (log_groups (filter (log_in_filter f) (logs_t db)))"
proof -
  let ?page = "\<lambda>d. limit_offset (case lf_limit f of None \<Rightarrow> 100 | Some n \<Rightarrow> unat n) (lf_offset f) (order_desc first_time
    (filter (\<lambda>ls. lf_root_only f \<longrightarrow> max_text (map lr_parent_session_id ls) = None)
      (log_groups (filter (log_in_filter f) (logs_t d)))))"
  from assms obtain bs where "bnd (select id) (\<lambda>d. lift_sum (collect_sum (group_session d pick
      (normalized_conversation \<circ> lr_conversation_id) status_shown) (?page d))) (db\<lparr>script := bs\<rparr>) = (Inr raw, t)"
    unfolding repo_list_log_sessions_def connection_def Let_def by (auto dest!: statement_InrD)
  then obtain d u where d: "select id (db\<lparr>script := bs\<rparr>) = (Inr d, u)"
    and run: "collect_sum (group_session d pick (normalized_conversation \<circ> lr_conversation_id) status_shown) (?page d) = Inr raw"
    by (auto simp: lift_sum_def elim!: bnd_eq_InrE)
  from select_InrD [OF d] have "logs_t d = logs_t db" by auto
  then have "set (?page d) \<subseteq> set (log_groups (filter (log_in_filter f) (logs_t db)))"
    by (auto simp: limit_offset_def dest!: in_set_takeD in_set_dropD)
  with run show thesis by (rule that)
qed

text \<open>
  Whatever row SQLite takes the bare columns of a group from, each listed session counts the
  error entries of its execution, and its status is \<open>Error\<close> when there is one and \<open>Completed\<close>
  otherwise: no listed session is ever shown as running or stopped.
\<close>

theorem the_log_list_shows_errors_and_nothing_else:
  assumes "list_log_sessions E pick f db = (Inr ss, t)" and "s \<in> set ss"
    and "\<And>g. g \<noteq> [] \<Longrightarrow> pick g \<in> set g"
  shows "let es = filter (\<lambda>l. log_in_filter f l \<and> lr_session_id l = ls_session_id s) (logs_t db)
    in es \<noteq> [] \<and> ls_error_count s = int (length (filter (\<lambda>l. lr_level l = ''error'') es)) \<and>
       ls_status s = (if (\<exists>l \<in> set es. lr_level l = ''error'') then StatusError else StatusCompleted)"
proof -
  from assms(1) obtain raw d titles d2 where 1: "repo_list_log_sessions pick f db = (Inr raw, d)"
    and 2: "map_op (enriched E titles) raw d2 = (Inr ss, t)"
    unfolding list_log_sessions_def by (auto elim!: bnd_eq_InrE)
  from map_op_InrD [OF 2 assms(2)] obtain r where r: "r \<in> set raw"
    and s: "ls_session_id s = ls_session_id r" "ls_error_count s = ls_error_count r"
      "ls_status s = (if 0 < ls_error_count r then StatusError
        else if ls_ended_at r \<noteq> None then StatusCompleted else StatusRunning)"
    using enriched_InrD by blast
  let ?rows = "filter (log_in_filter f) (logs_t db)"
  let ?group = "\<lambda>d. group_session d pick (normalized_conversation \<circ> lr_conversation_id) status_shown"
  from 1 obtain d' page where "collect_sum (?group d') page = Inr raw"
    and page: "set page \<subseteq> set (log_groups ?rows)"
    by (rule listed_groups)
  with r obtain ls where ls: "ls \<in> set page" "?group d' ls = Inr r"
    by (metis (no_types, lifting) collect_sum_Inr image_iff image_set)
  from ls(1) page in_log_groups [OF _ assms(3), of ls ?rows]
  have rows: "ls \<noteq> []" "ls = filter (\<lambda>l. lr_session_id l = lr_session_id (pick ls)) ?rows" by auto
  from group_session_Inr [OF ls(2)] s have s': "ls_session_id s = lr_session_id (pick ls)"
      "ls_error_count s = int (length (filter (\<lambda>l. lr_level l = ''error'') ls))"
      "ls_status s = (if 0 < ls_error_count s then StatusError else StatusCompleted)" by auto
  have "filter (\<lambda>l. log_in_filter f l \<and> lr_session_id l = ls_session_id s) (logs_t db) = ls"
    using rows(2) s'(1) by (simp add: conj_commute)
  with rows(1) s' show ?thesis by (auto simp: Let_def filter_empty_conv)
qed

text \<open>
  The titles are looked up in the messages under the id of the execution a group was logged for, while
  messages are filed under sessions: no entry is ever found.
\<close>

lemma no_title_for_an_execution:
  assumes "session_db_ok db" and "i \<notin> set (session_ids db)"
  shows "first_user_message i db = None"
proof -
  have "filter (\<lambda>m. mr_session_id m = Some i \<and> mr_role m = ''user'') (messages_t db) = []"
    using assms by (auto simp: filter_empty_conv session_db_ok_def links_ok_def references_def split: option.splits)
  then show ?thesis by (simp add: first_user_message_def order_asc_def)
qed

section \<open>Instances\<close>

definition sample_entry :: execution_log where
  "sample_entry =
     \<lparr>el_id = ''l'', el_session_id = ''x'', el_conversation_id = ''s'', el_agent_id = ''root'',
      el_parent_session_id = None, el_timestamp = ''t1'', el_level = LevelInfo, el_category = LogToolCall,
      el_message = ''m'', el_metadata = Some JNull, el_duration_ms = None\<rparr>"

lemma sample_insert: "repo_insert_log sample_env sample_entry sample_db =
    (Inr (), sample_db\<lparr>logs_t := [row_of_log json_sample sample_entry]\<rparr>)"
  by (simp add: repo_insert_log_def insert_log_row_def unit_op_def sample_run)

lemma sample_no_logs: "fst (repo_get_session_logs sample_env i (sample_db\<lparr>script := []\<rparr>)) = Inr []"
  by (simp add: get_logs_up order_asc_def)

lemma a_logged_entry_reads_back_witness:
  "fst (repo_get_session_logs sample_env ''x''
     (sample_db\<lparr>logs_t := [row_of_log json_sample sample_entry], script := []\<rparr>)) = Inr [sample_entry]"
proof -
  have x: "el_session_id sample_entry = ''x''" by (simp add: sample_entry_def)
  from a_logged_entry_reads_back [OF sample_insert] sample_no_logs show ?thesis
    by (auto simp: x)
qed

text \<open>The session \<open>s\<close> is running.\<close>

lemma the_log_list_shows_errors_and_nothing_else_witness:
  "\<exists>s t. list_log_sessions sample_env hd
       \<lparr>lf_agent_id = None, lf_conversation_id = None, lf_level = None, lf_from_time = None, lf_to_time = None,
        lf_limit = None, lf_offset = None, lf_root_only = False\<rparr>
       (sample_db\<lparr>logs_t := [row_of_log json_sample sample_entry]\<rparr>) = (Inr [s], t) \<and>
     ls_session_id s = ''x'' \<and> ls_conversation_id s = ''s'' \<and> ls_status s = StatusCompleted \<and>
     map_option sr_status (find_session_row ''s'' t) = Some ''running''"
proof -
  let ?f = "\<lparr>lf_agent_id = None, lf_conversation_id = None, lf_level = None, lf_from_time = None, lf_to_time = None,
        lf_limit = None, lf_offset = None, lf_root_only = False\<rparr>"
  let ?db = "sample_db\<lparr>logs_t := [row_of_log json_sample sample_entry]\<rparr>"
  have "\<exists>s t. list_log_sessions sample_env hd ?f ?db = (Inr [s], t) \<and> ls_session_id s = ''x'' \<and>
     ls_conversation_id s = ''s'' \<and> map_option sr_status (find_session_row ''s'' t) = Some ''running''"
    by (simp add: list_log_sessions_def repo_list_log_sessions_def sample_run log_groups_def log_in_filter_def
        lift_sum_def row_of_log_def sample_entry_def holds_def limit_offset_def order_desc_def group_session_def
        normalized_conversation_def i32_count_def status_shown_def max_text_def enriched_def or_else_def
        repo_get_child_sessions_def repo_get_session_titles_def first_user_message_def find_session_row_def
        order_asc_def sql_like.simps Let_def split: prod.split)
  then obtain s t where run: "list_log_sessions sample_env hd ?f ?db = (Inr [s], t)" "ls_session_id s = ''x''"
      "ls_conversation_id s = ''s''" "map_option sr_status (find_session_row ''s'' t) = Some ''running''" by blast
  have "ls_status s = StatusCompleted"
    using the_log_list_shows_errors_and_nothing_else [OF run(1), of s] run(2)
    by (simp add: Let_def row_of_log_def sample_entry_def split: if_splits)
  with run show ?thesis by blast
qed

end
