(* ===== verification/Gateway_Events.thy ===== *)
theory Gateway_Events
  imports Ws_Subscriptions Surface_Catalog Artifacts
begin

text \<open>
  The events of the gateway (\<open>gateway/gateway-events/src/lib.rs\<close>) and of the runtime
  (\<open>runtime/agent-runtime/src/types/events.rs\<close>): the enums in groups, by what the events report, the
  ids an event is routed and filtered by, the message a client is sent for it
  (\<open>gateway/src/websocket/handler.rs\<close>), and how an event of the runtime becomes one of the gateway
  (\<open>gateway/gateway-execution/src/events.rs\<close>).
\<close>

section \<open>Events of the gateway\<close>

datatype surface_event =
  EvSurfaceCreated string string work_surface
| EvSurfaceUpdated string string work_surface
| EvSurfaceDeleted string string string
| EvSurfaceValidationFailed string string string string

datatype turn_event =
  EvAgentStarted string string string "string option"
| EvAgentCompleted string string string "string option" "string option"
| EvAgentStopped string string string "32 word" "string option"
| EvError "string option" "string option" "string option" string "string option"
| EvToken string string string string "string option"
| EvThinking string string string string "string option"
| EvToolCall string string string string string json "string option"
| EvToolResult string string string string string "string option" "string option"

datatype progress_event =
  EvTurnComplete string string string string "string option"
| EvIterationUpdate string string string "32 word" "32 word" "string option"
| EvContinuationPrompt string string string "32 word" string "string option"
| EvRespond string string string "string option"
| EvMessageAdded string string string string "string option"
| EvTokenUsage string string "64 word" "64 word" "string option"
| EvHeartbeat string string "string option"

datatype delegation_event =
  EvDelegationStarted string string string string string string "string option" "string option"
| EvDelegationCompleted string string string string string "string option" "string option" "string option"
| EvSessionContinuationReady string string string

datatype session_change =
  EvWardChanged string string string
| EvPlanUpdate string string json "string option" "string option"
| EvIterationsExtended string string "32 word" "32 word" string "string option"
| EvSessionTitleChanged string string
| EvIntentAnalysisStarted string string
| EvIntentAnalysisComplete string string string "string list" "string list" "string list" json json
| EvIntentAnalysisSkipped string string

datatype global_event =
  EvCustomizationFileChanged string string
| EvRecallTrace string "string option" "string list" "string list" "string option" "32 word" "string list" "string list" "string list" "json option" "json list"

datatype gateway_event =
  EvSurface surface_event
| EvTurn turn_event
| EvProgress progress_event
| EvDelegation delegation_event
| EvSession session_change
| EvGlobal global_event


section \<open>Who an event concerns\<close>

fun surface_event_agent :: "surface_event \<Rightarrow> string option" where
  "surface_event_agent (EvSurfaceCreated _ _ _) = None"
| "surface_event_agent (EvSurfaceUpdated _ _ _) = None"
| "surface_event_agent (EvSurfaceDeleted _ _ _) = None"
| "surface_event_agent (EvSurfaceValidationFailed _ _ _ _) = None"

fun turn_event_agent :: "turn_event \<Rightarrow> string option" where
  "turn_event_agent (EvAgentStarted agent _ _ _) = Some agent"
| "turn_event_agent (EvAgentCompleted agent _ _ _ _) = Some agent"
| "turn_event_agent (EvAgentStopped agent _ _ _ _) = Some agent"
| "turn_event_agent (EvError agent _ _ _ _) = agent"
| "turn_event_agent (EvToken agent _ _ _ _) = Some agent"
| "turn_event_agent (EvThinking agent _ _ _ _) = Some agent"
| "turn_event_agent (EvToolCall agent _ _ _ _ _ _) = Some agent"
| "turn_event_agent (EvToolResult agent _ _ _ _ _ _) = Some agent"

fun progress_event_agent :: "progress_event \<Rightarrow> string option" where
  "progress_event_agent (EvTurnComplete agent _ _ _ _) = Some agent"
| "progress_event_agent (EvIterationUpdate agent _ _ _ _ _) = Some agent"
| "progress_event_agent (EvContinuationPrompt agent _ _ _ _ _) = Some agent"
| "progress_event_agent (EvRespond _ _ _ _) = None"
| "progress_event_agent (EvMessageAdded _ _ _ _ _) = None"
| "progress_event_agent (EvTokenUsage _ _ _ _ _) = None"
| "progress_event_agent (EvHeartbeat _ _ _) = None"

fun delegation_event_agent :: "delegation_event \<Rightarrow> string option" where
  "delegation_event_agent (EvDelegationStarted _ _ _ pagent _ _ _ _) = Some pagent"
| "delegation_event_agent (EvDelegationCompleted _ _ _ pagent _ _ _ _) = Some pagent"
| "delegation_event_agent (EvSessionContinuationReady _ agent _) = Some agent"

fun session_change_agent :: "session_change \<Rightarrow> string option" where
  "session_change_agent (EvWardChanged _ _ _) = None"
| "session_change_agent (EvPlanUpdate _ _ _ _ _) = None"
| "session_change_agent (EvIterationsExtended _ _ _ _ _ _) = None"
| "session_change_agent (EvSessionTitleChanged _ _) = None"
| "session_change_agent (EvIntentAnalysisStarted _ _) = None"
| "session_change_agent (EvIntentAnalysisComplete _ _ _ _ _ _ _ _) = None"
| "session_change_agent (EvIntentAnalysisSkipped _ _) = None"

fun global_event_agent :: "global_event \<Rightarrow> string option" where
  "global_event_agent (EvCustomizationFileChanged _ _) = None"
| "global_event_agent (EvRecallTrace agent _ _ _ _ _ _ _ _ _ _) = Some agent"

primrec event_agent_id :: "gateway_event \<Rightarrow> string option" where
  "event_agent_id (EvSurface e) = surface_event_agent e"
| "event_agent_id (EvTurn e) = turn_event_agent e"
| "event_agent_id (EvProgress e) = progress_event_agent e"
| "event_agent_id (EvDelegation e) = delegation_event_agent e"
| "event_agent_id (EvSession e) = session_change_agent e"
| "event_agent_id (EvGlobal e) = global_event_agent e"

fun surface_event_session :: "surface_event \<Rightarrow> string option" where
  "surface_event_session (EvSurfaceCreated sid _ _) = Some sid"
| "surface_event_session (EvSurfaceUpdated sid _ _) = Some sid"
| "surface_event_session (EvSurfaceDeleted sid _ _) = Some sid"
| "surface_event_session (EvSurfaceValidationFailed sid _ _ _) = Some sid"

fun turn_event_session :: "turn_event \<Rightarrow> string option" where
  "turn_event_session (EvAgentStarted _ sid _ _) = Some sid"
| "turn_event_session (EvAgentCompleted _ sid _ _ _) = Some sid"
| "turn_event_session (EvAgentStopped _ sid _ _ _) = Some sid"
| "turn_event_session (EvError _ sid _ _ _) = sid"
| "turn_event_session (EvToken _ sid _ _ _) = Some sid"
| "turn_event_session (EvThinking _ sid _ _ _) = Some sid"
| "turn_event_session (EvToolCall _ sid _ _ _ _ _) = Some sid"
| "turn_event_session (EvToolResult _ sid _ _ _ _ _) = Some sid"

fun progress_event_session :: "progress_event \<Rightarrow> string option" where
  "progress_event_session (EvTurnComplete _ sid _ _ _) = Some sid"
| "progress_event_session (EvIterationUpdate _ sid _ _ _ _) = Some sid"
| "progress_event_session (EvContinuationPrompt _ sid _ _ _ _) = Some sid"
| "progress_event_session (EvRespond sid _ _ _) = Some sid"
| "progress_event_session (EvMessageAdded sid _ _ _ _) = Some sid"
| "progress_event_session (EvTokenUsage sid _ _ _ _) = Some sid"
| "progress_event_session (EvHeartbeat sid _ _) = Some sid"

fun delegation_event_session :: "delegation_event \<Rightarrow> string option" where
  "delegation_event_session (EvDelegationStarted sid _ _ _ _ _ _ _) = Some sid"
| "delegation_event_session (EvDelegationCompleted sid _ _ _ _ _ _ _) = Some sid"
| "delegation_event_session (EvSessionContinuationReady sid _ _) = Some sid"

fun session_change_session :: "session_change \<Rightarrow> string option" where
  "session_change_session (EvWardChanged sid _ _) = Some sid"
| "session_change_session (EvPlanUpdate sid _ _ _ _) = Some sid"
| "session_change_session (EvIterationsExtended sid _ _ _ _ _) = Some sid"
| "session_change_session (EvSessionTitleChanged sid _) = Some sid"
| "session_change_session (EvIntentAnalysisStarted sid _) = Some sid"
| "session_change_session (EvIntentAnalysisComplete sid _ _ _ _ _ _ _) = Some sid"
| "session_change_session (EvIntentAnalysisSkipped sid _) = Some sid"

fun global_event_session :: "global_event \<Rightarrow> string option" where
  "global_event_session (EvCustomizationFileChanged _ _) = None"
| "global_event_session (EvRecallTrace _ _ _ _ _ _ _ _ _ _ _) = None"

primrec event_session_id :: "gateway_event \<Rightarrow> string option" where
  "event_session_id (EvSurface e) = surface_event_session e"
| "event_session_id (EvTurn e) = turn_event_session e"
| "event_session_id (EvProgress e) = progress_event_session e"
| "event_session_id (EvDelegation e) = delegation_event_session e"
| "event_session_id (EvSession e) = session_change_session e"
| "event_session_id (EvGlobal e) = global_event_session e"

fun surface_event_execution :: "surface_event \<Rightarrow> string option" where
  "surface_event_execution (EvSurfaceCreated _ xid _) = Some xid"
| "surface_event_execution (EvSurfaceUpdated _ xid _) = Some xid"
| "surface_event_execution (EvSurfaceDeleted _ xid _) = Some xid"
| "surface_event_execution (EvSurfaceValidationFailed _ xid _ _) = Some xid"

fun turn_event_execution :: "turn_event \<Rightarrow> string option" where
  "turn_event_execution (EvAgentStarted _ _ xid _) = Some xid"
| "turn_event_execution (EvAgentCompleted _ _ xid _ _) = Some xid"
| "turn_event_execution (EvAgentStopped _ _ xid _ _) = Some xid"
| "turn_event_execution (EvError _ _ xid _ _) = xid"
| "turn_event_execution (EvToken _ _ xid _ _) = Some xid"
| "turn_event_execution (EvThinking _ _ xid _ _) = Some xid"
| "turn_event_execution (EvToolCall _ _ xid _ _ _ _) = Some xid"
| "turn_event_execution (EvToolResult _ _ xid _ _ _ _) = Some xid"

fun progress_event_execution :: "progress_event \<Rightarrow> string option" where
  "progress_event_execution (EvTurnComplete _ _ xid _ _) = Some xid"
| "progress_event_execution (EvIterationUpdate _ _ xid _ _ _) = Some xid"
| "progress_event_execution (EvContinuationPrompt _ _ xid _ _ _) = Some xid"
| "progress_event_execution (EvRespond _ xid _ _) = Some xid"
| "progress_event_execution (EvMessageAdded _ xid _ _ _) = Some xid"
| "progress_event_execution (EvTokenUsage _ xid _ _ _) = Some xid"
| "progress_event_execution (EvHeartbeat _ xid _) = Some xid"

fun delegation_event_execution :: "delegation_event \<Rightarrow> string option" where
  "delegation_event_execution (EvDelegationStarted _ pxid _ _ _ _ _ _) = Some pxid"
| "delegation_event_execution (EvDelegationCompleted _ pxid _ _ _ _ _ _) = Some pxid"
| "delegation_event_execution (EvSessionContinuationReady _ _ xid) = Some xid"

fun session_change_execution :: "session_change \<Rightarrow> string option" where
  "session_change_execution (EvWardChanged _ xid _) = Some xid"
| "session_change_execution (EvPlanUpdate _ xid _ _ _) = Some xid"
| "session_change_execution (EvIterationsExtended _ xid _ _ _ _) = Some xid"
| "session_change_execution (EvSessionTitleChanged _ _) = None"
| "session_change_execution (EvIntentAnalysisStarted _ xid) = Some xid"
| "session_change_execution (EvIntentAnalysisComplete _ xid _ _ _ _ _ _) = Some xid"
| "session_change_execution (EvIntentAnalysisSkipped _ xid) = Some xid"

fun global_event_execution :: "global_event \<Rightarrow> string option" where
  "global_event_execution (EvCustomizationFileChanged _ _) = None"
| "global_event_execution (EvRecallTrace _ _ _ _ _ _ _ _ _ _ _) = None"

primrec event_execution_id :: "gateway_event \<Rightarrow> string option" where
  "event_execution_id (EvSurface e) = surface_event_execution e"
| "event_execution_id (EvTurn e) = turn_event_execution e"
| "event_execution_id (EvProgress e) = progress_event_execution e"
| "event_execution_id (EvDelegation e) = delegation_event_execution e"
| "event_execution_id (EvSession e) = session_change_execution e"
| "event_execution_id (EvGlobal e) = global_event_execution e"

fun surface_event_conversation :: "surface_event \<Rightarrow> string option" where
  "surface_event_conversation (EvSurfaceCreated _ _ _) = None"
| "surface_event_conversation (EvSurfaceUpdated _ _ _) = None"
| "surface_event_conversation (EvSurfaceDeleted _ _ _) = None"
| "surface_event_conversation (EvSurfaceValidationFailed _ _ _ _) = None"

fun turn_event_conversation :: "turn_event \<Rightarrow> string option" where
  "turn_event_conversation (EvAgentStarted _ _ _ conv) = conv"
| "turn_event_conversation (EvAgentCompleted _ _ _ _ conv) = conv"
| "turn_event_conversation (EvAgentStopped _ _ _ _ conv) = conv"
| "turn_event_conversation (EvError _ _ _ _ conv) = conv"
| "turn_event_conversation (EvToken _ _ _ _ conv) = conv"
| "turn_event_conversation (EvThinking _ _ _ _ conv) = conv"
| "turn_event_conversation (EvToolCall _ _ _ _ _ _ conv) = conv"
| "turn_event_conversation (EvToolResult _ _ _ _ _ _ conv) = conv"

fun progress_event_conversation :: "progress_event \<Rightarrow> string option" where
  "progress_event_conversation (EvTurnComplete _ _ _ _ conv) = conv"
| "progress_event_conversation (EvIterationUpdate _ _ _ _ _ conv) = conv"
| "progress_event_conversation (EvContinuationPrompt _ _ _ _ _ conv) = conv"
| "progress_event_conversation (EvRespond _ _ _ conv) = conv"
| "progress_event_conversation (EvMessageAdded _ _ _ _ conv) = conv"
| "progress_event_conversation (EvTokenUsage _ _ _ _ conv) = conv"
| "progress_event_conversation (EvHeartbeat _ _ conv) = conv"

fun delegation_event_conversation :: "delegation_event \<Rightarrow> string option" where
  "delegation_event_conversation (EvDelegationStarted _ _ _ _ _ _ pconv _) = pconv"
| "delegation_event_conversation (EvDelegationCompleted _ _ _ _ _ _ pconv _) = pconv"
| "delegation_event_conversation (EvSessionContinuationReady sid _ _) = Some sid"

fun session_change_conversation :: "session_change \<Rightarrow> string option" where
  "session_change_conversation (EvWardChanged _ _ _) = None"
| "session_change_conversation (EvPlanUpdate _ _ _ _ conv) = conv"
| "session_change_conversation (EvIterationsExtended _ _ _ _ _ conv) = conv"
| "session_change_conversation (EvSessionTitleChanged _ _) = None"
| "session_change_conversation (EvIntentAnalysisStarted _ _) = None"
| "session_change_conversation (EvIntentAnalysisComplete _ _ _ _ _ _ _ _) = None"
| "session_change_conversation (EvIntentAnalysisSkipped _ _) = None"

fun global_event_conversation :: "global_event \<Rightarrow> string option" where
  "global_event_conversation (EvCustomizationFileChanged _ _) = None"
| "global_event_conversation (EvRecallTrace _ conv _ _ _ _ _ _ _ _ _) = conv"

primrec event_conversation_id :: "gateway_event \<Rightarrow> string option" where
  "event_conversation_id (EvSurface e) = surface_event_conversation e"
| "event_conversation_id (EvTurn e) = turn_event_conversation e"
| "event_conversation_id (EvProgress e) = progress_event_conversation e"
| "event_conversation_id (EvDelegation e) = delegation_event_conversation e"
| "event_conversation_id (EvSession e) = session_change_conversation e"
| "event_conversation_id (EvGlobal e) = global_event_conversation e"


section \<open>The message of an event\<close>

fun surface_event_to_server_message :: "surface_event \<Rightarrow> server_message option" where
  "surface_event_to_server_message (EvSurfaceCreated sid xid s) = Some (Surface (SurfaceCreated sid xid (surface_to_json s) None))"
| "surface_event_to_server_message (EvSurfaceUpdated sid xid s) = Some (Surface (SurfaceUpdated sid xid (surface_to_json s) None))"
| "surface_event_to_server_message (EvSurfaceDeleted sid xid fid) = Some (Surface (SurfaceDeleted sid xid fid None))"
| "surface_event_to_server_message (EvSurfaceValidationFailed sid xid fid why) = Some (Surface (SurfaceValidationFailed sid xid fid why None))"

fun turn_event_to_server_message :: "turn_event \<Rightarrow> server_message option" where
  "turn_event_to_server_message (EvAgentStarted agent sid xid conv) = Some (Turn (AgentStarted agent sid xid conv None))"
| "turn_event_to_server_message (EvAgentCompleted agent sid xid res conv) = Some (Turn (AgentCompleted agent sid xid res conv None))"
| "turn_event_to_server_message (EvAgentStopped agent sid xid n conv) = Some (Turn (AgentStopped agent sid xid n conv None))"
| "turn_event_to_server_message (EvError _ sid xid body conv) = Some (Progress (ErrorMessage sid xid ''execution_error'' body conv None))"
| "turn_event_to_server_message (EvToken _ sid xid d conv) = Some (Turn (Token sid xid d conv None))"
| "turn_event_to_server_message (EvThinking _ sid xid c conv) = Some (Turn (Thinking sid xid c conv None))"
| "turn_event_to_server_message (EvToolCall _ sid xid tid tool a conv) = Some (Turn (ToolCall sid xid tid tool a conv None))"
| "turn_event_to_server_message (EvToolResult _ sid xid tid res err conv) = Some (Turn (ToolResult sid xid tid res err conv None))"

fun progress_event_to_server_message :: "progress_event \<Rightarrow> server_message option" where
  "progress_event_to_server_message (EvTurnComplete _ sid xid body conv) = Some (Progress (TurnComplete sid xid (Some body) conv None))"
| "progress_event_to_server_message (EvIterationUpdate _ sid xid cur limit conv) = Some (Progress (Iteration sid xid cur limit conv None))"
| "progress_event_to_server_message (EvContinuationPrompt _ sid xid n body conv) = Some (Progress (ContinuationPrompt sid xid n body conv None))"
| "progress_event_to_server_message (EvRespond sid xid body conv) = Some (Progress (TurnComplete sid xid (Some body) conv None))"
| "progress_event_to_server_message (EvMessageAdded sid xid r c conv) = Some (Progress (MessageAdded sid xid r c conv None))"
| "progress_event_to_server_message (EvTokenUsage sid xid tin tout conv) = Some (Progress (TokenUsage sid xid tin tout conv None))"
| "progress_event_to_server_message (EvHeartbeat sid xid conv) = Some (Progress (Heartbeat sid xid conv None))"

fun delegation_event_to_server_message :: "delegation_event \<Rightarrow> server_message option" where
  "delegation_event_to_server_message (EvDelegationStarted sid pxid cxid pagent cagent t pconv cconv) = Some (Delegation (DelegationStarted sid pxid cxid pagent cagent t pconv cconv None))"
| "delegation_event_to_server_message (EvDelegationCompleted sid pxid cxid pagent cagent res pconv cconv) = Some (Delegation (DelegationCompleted sid pxid cxid pagent cagent res pconv cconv None))"
| "delegation_event_to_server_message (EvSessionContinuationReady _ _ _) = None"

fun session_change_to_server_message :: "session_change \<Rightarrow> server_message option" where
  "session_change_to_server_message (EvWardChanged sid xid w) = Some (SessionEvent (WardChanged sid xid w None))"
| "session_change_to_server_message (EvPlanUpdate sid xid pl expl conv) = Some (SessionEvent (PlanUpdate sid xid pl expl conv None))"
| "session_change_to_server_message (EvIterationsExtended sid xid used added why conv) = Some (SessionEvent (IterationsExtended sid xid used added why conv None))"
| "session_change_to_server_message (EvSessionTitleChanged sid t) = Some (SessionEvent (SessionTitleChanged sid t None))"
| "session_change_to_server_message (EvIntentAnalysisStarted sid xid) = Some (SessionEvent (IntentAnalysisStarted sid xid None))"
| "session_change_to_server_message (EvIntentAnalysisComplete sid xid i hs ss ags wr es) = Some (SessionEvent (IntentAnalysisComplete sid xid i hs ss ags wr es None))"
| "session_change_to_server_message (EvIntentAnalysisSkipped sid xid) = Some (SessionEvent (IntentAnalysisSkipped sid xid None))"

fun global_event_to_server_message :: "global_event \<Rightarrow> server_message option" where
  "global_event_to_server_message (EvCustomizationFileChanged _ _) = None"
| "global_event_to_server_message (EvRecallTrace agent conv se sa lca k _ _ _ _ te) = Some (SessionEvent (RecallTrace agent conv se sa lca k te None))"

primrec gateway_event_to_server_message :: "gateway_event \<Rightarrow> server_message option" where
  "gateway_event_to_server_message (EvSurface e) = surface_event_to_server_message e"
| "gateway_event_to_server_message (EvTurn e) = turn_event_to_server_message e"
| "gateway_event_to_server_message (EvProgress e) = progress_event_to_server_message e"
| "gateway_event_to_server_message (EvDelegation e) = delegation_event_to_server_message e"
| "gateway_event_to_server_message (EvSession e) = session_change_to_server_message e"
| "gateway_event_to_server_message (EvGlobal e) = global_event_to_server_message e"


definition gateway_event_to_metadata :: "gateway_event \<Rightarrow> event_metadata" where
  "gateway_event_to_metadata e =
     \<lparr>md_execution_id = event_execution_id e,
      md_is_delegation_event =
        (case e of
           EvDelegation (EvDelegationStarted _ _ _ _ _ _ _ _) \<Rightarrow> True
         | EvDelegation (EvDelegationCompleted _ _ _ _ _ _ _ _) \<Rightarrow> True
         | _ \<Rightarrow> False)\<rparr>"

section \<open>Events of the runtime\<close>

record agent_capability_assignment =
  ca_agent_id :: string
  ca_skills :: "string list"
  ca_mcps :: "string list"

datatype content_event =
  StMetadata "64 word" string string string
| StToken "64 word" string
| StReasoning "64 word" string
| StToolCallStart "64 word" string string json
| StToolCallEnd "64 word" string string json
| StToolResult "64 word" string string "string option" "string option" "int option"
| StDone "64 word" string nat
| StError "64 word" string bool

datatype display_event =
  StShowContent "64 word" string string string "json option" "string option" "bool option" "bool option"
| StRequestInput "64 word" string string string "string option" json "string option"
| StWorkSurface "64 word" work_surface
| StWorkSurfaceUpdated "64 word" work_surface
| StWorkSurfaceDeleted "64 word" string

datatype action_event =
  StActionRespond "64 word" string string "string option" "string option" "artifact_declaration list"
| StActionDelegate "64 word" string string "json option" bool "(32 word) option" "json option" "string list" "agent_capability_assignment option" "json option" "string option" "string option" bool "string option"
| StActionPlanUpdate "64 word" json "string option"

datatype state_event =
  StTokenUpdate "64 word" "64 word" "64 word"
| StHeartbeat "64 word"
| StContextState "64 word" json
| StWardChanged "64 word" string
| StIterationsExtended "64 word" "32 word" "32 word" string
| StSessionTitleChanged "64 word" string

datatype stream_event =
  StContent content_event
| StDisplay display_event
| StAction action_event
| StState state_event

fun content_event_timestamp :: "content_event \<Rightarrow> 64 word" where
  "content_event_timestamp (StMetadata ts _ _ _) = ts"
| "content_event_timestamp (StToken ts _) = ts"
| "content_event_timestamp (StReasoning ts _) = ts"
| "content_event_timestamp (StToolCallStart ts _ _ _) = ts"
| "content_event_timestamp (StToolCallEnd ts _ _ _) = ts"
| "content_event_timestamp (StToolResult ts _ _ _ _ _) = ts"
| "content_event_timestamp (StDone ts _ _) = ts"
| "content_event_timestamp (StError ts _ _) = ts"

fun display_event_timestamp :: "display_event \<Rightarrow> 64 word" where
  "display_event_timestamp (StShowContent ts _ _ _ _ _ _ _) = ts"
| "display_event_timestamp (StRequestInput ts _ _ _ _ _ _) = ts"
| "display_event_timestamp (StWorkSurface ts _) = ts"
| "display_event_timestamp (StWorkSurfaceUpdated ts _) = ts"
| "display_event_timestamp (StWorkSurfaceDeleted ts _) = ts"

fun action_event_timestamp :: "action_event \<Rightarrow> 64 word" where
  "action_event_timestamp (StActionRespond ts _ _ _ _ _) = ts"
| "action_event_timestamp (StActionDelegate ts _ _ _ _ _ _ _ _ _ _ _ _ _) = ts"
| "action_event_timestamp (StActionPlanUpdate ts _ _) = ts"

fun state_event_timestamp :: "state_event \<Rightarrow> 64 word" where
  "state_event_timestamp (StTokenUpdate ts _ _) = ts"
| "state_event_timestamp (StHeartbeat ts) = ts"
| "state_event_timestamp (StContextState ts _) = ts"
| "state_event_timestamp (StWardChanged ts _) = ts"
| "state_event_timestamp (StIterationsExtended ts _ _ _) = ts"
| "state_event_timestamp (StSessionTitleChanged ts _) = ts"

primrec stream_timestamp :: "stream_event \<Rightarrow> 64 word" where
  "stream_timestamp (StContent e) = content_event_timestamp e"
| "stream_timestamp (StDisplay e) = display_event_timestamp e"
| "stream_timestamp (StAction e) = action_event_timestamp e"
| "stream_timestamp (StState e) = state_event_timestamp e"

definition is_terminal :: "stream_event \<Rightarrow> bool" where
  "is_terminal e =
     (case e of StContent (StDone _ _ _) \<Rightarrow> True | StContent (StError _ _ _) \<Rightarrow> True | _ \<Rightarrow> False)"

section \<open>From the runtime to the gateway\<close>

text \<open>\<open>reason\<close> is the text of a rejection, which the error's \<open>Display\<close> gives.\<close>

definition validated_surface_event ::
  "surface_lib \<Rightarrow> codec \<Rightarrow> (surface_error \<Rightarrow> string) \<Rightarrow> work_surface \<Rightarrow> string \<Rightarrow> string \<Rightarrow> bool \<Rightarrow> gateway_event option" where
  "validated_surface_event L C reason s sid xid is_update =
     (case catalog_validate L C s of
        Inr _ \<Rightarrow> Some (EvSurface (if is_update then EvSurfaceUpdated sid xid s else EvSurfaceCreated sid xid s))
      | Inl e \<Rightarrow> Some (EvSurface (EvSurfaceValidationFailed sid xid (ws_surface_id s) (reason e))))"

fun convert_content :: "content_event \<Rightarrow> string \<Rightarrow> string \<Rightarrow> string \<Rightarrow> string \<Rightarrow> gateway_event option" where
  "convert_content (StMetadata _ _ _ _) agent conv sid xid = Some (EvTurn (EvAgentStarted agent sid xid (Some conv)))"
| "convert_content (StToken _ c) agent conv sid xid = Some (EvTurn (EvToken agent sid xid c (Some conv)))"
| "convert_content (StReasoning _ c) agent conv sid xid = Some (EvTurn (EvThinking agent sid xid c (Some conv)))"
| "convert_content (StToolCallStart _ tid tool a) agent conv sid xid =
     Some (EvTurn (EvToolCall agent sid xid tid tool a (Some conv)))"
| "convert_content (StToolCallEnd _ _ _ _) agent conv sid xid = None"
| "convert_content (StToolResult _ tid res _ err _) agent conv sid xid =
     Some (EvTurn (EvToolResult agent sid xid tid res err (Some conv)))"
| "convert_content (StDone _ body _) agent conv sid xid =
     Some (EvProgress (EvTurnComplete agent sid xid body (Some conv)))"
| "convert_content (StError _ err _) agent conv sid xid =
     Some (EvTurn (EvError (Some agent) (Some sid) (Some xid) err (Some conv)))"

fun convert_display ::
  "surface_lib \<Rightarrow> codec \<Rightarrow> (surface_error \<Rightarrow> string) \<Rightarrow> display_event \<Rightarrow> string \<Rightarrow> string \<Rightarrow> gateway_event option" where
  "convert_display L C reason (StWorkSurface _ s) sid xid = validated_surface_event L C reason s sid xid False"
| "convert_display L C reason (StWorkSurfaceUpdated _ s) sid xid = validated_surface_event L C reason s sid xid True"
| "convert_display L C reason (StWorkSurfaceDeleted _ fid) sid xid = Some (EvSurface (EvSurfaceDeleted sid xid fid))"
| "convert_display L C reason (StShowContent _ _ _ _ _ _ _ _) sid xid = None"
| "convert_display L C reason (StRequestInput _ _ _ _ _ _ _) sid xid = None"

fun convert_action :: "action_event \<Rightarrow> string \<Rightarrow> string \<Rightarrow> string \<Rightarrow> gateway_event option" where
  "convert_action (StActionRespond _ body _ _ respond_sid _) conv sid xid =
     Some (EvProgress (EvRespond (case respond_sid of None \<Rightarrow> sid | Some s \<Rightarrow> s) xid body (Some conv)))"
| "convert_action (StActionDelegate _ _ _ _ _ _ _ _ _ _ _ _ _ _) conv sid xid = None"
| "convert_action (StActionPlanUpdate _ pl expl) conv sid xid =
     Some (EvSession (EvPlanUpdate sid xid pl expl (Some conv)))"

fun convert_state :: "state_event \<Rightarrow> string \<Rightarrow> string \<Rightarrow> string \<Rightarrow> gateway_event option" where
  "convert_state (StTokenUpdate _ _ _) conv sid xid = None"
| "convert_state (StHeartbeat _) conv sid xid = Some (EvProgress (EvHeartbeat sid xid (Some conv)))"
| "convert_state (StContextState _ _) conv sid xid = None"
| "convert_state (StWardChanged _ w) conv sid xid = Some (EvSession (EvWardChanged sid xid w))"
| "convert_state (StIterationsExtended _ used added why) conv sid xid =
     Some (EvSession (EvIterationsExtended sid xid used added why (Some conv)))"
| "convert_state (StSessionTitleChanged _ t) conv sid xid = Some (EvSession (EvSessionTitleChanged sid t))"

primrec convert_stream_event ::
  "stream_event \<Rightarrow> surface_lib \<Rightarrow> codec \<Rightarrow> (surface_error \<Rightarrow> string) \<Rightarrow> string \<Rightarrow> string \<Rightarrow> string \<Rightarrow> string \<Rightarrow>
   gateway_event option" where
  "convert_stream_event (StContent e) L C reason agent conv sid xid = convert_content e agent conv sid xid"
| "convert_stream_event (StDisplay e) L C reason agent conv sid xid = convert_display L C reason e sid xid"
| "convert_stream_event (StAction e) L C reason agent conv sid xid = convert_action e conv sid xid"
| "convert_stream_event (StState e) L C reason agent conv sid xid = convert_state e conv sid xid"

end
