(* ===== verification/Stream_Processor.thy ===== *)
theory Stream_Processor
  imports Gateway_Events Api_Logs State_Service
begin

text \<open>
  What the gateway does with an event of a running execution
  (\<open>gateway/gateway-execution/src/invoke/stream_event_processor.rs\<close>, \<open>event_logging.rs\<close>,
  \<open>token_tracking.rs\<close>, \<open>delegation_handler.rs\<close>, \<open>ward_scaffolding.rs\<close>): the rows it writes, the
  requests it hands to the delegation queue and to the batch writer, and the events it publishes.
\<close>

section \<open>State\<close>

datatype delegation_mode = DirectArtifact | WardBackedBuild | StepExecutor

definition delegation_mode_parse :: "string \<Rightarrow> delegation_mode option" where
  "delegation_mode_parse s =
     (if s = ''direct_artifact'' then Some DirectArtifact
      else if s = ''ward_backed_build'' then Some WardBackedBuild
      else if s = ''step_executor'' then Some StepExecutor
      else None)"

record delegation_request =
  dr_parent_agent_id :: string
  dr_session_id :: string
  dr_parent_execution_id :: string
  dr_parent_conversation_id :: string
  dr_child_agent_id :: string
  dr_child_execution_id :: string
  dr_task :: string
  dr_mode :: "delegation_mode option"
  dr_context :: "json option"
  dr_max_iterations :: "32 word option"
  dr_output_schema :: "json option"
  dr_skills :: "string list"
  dr_capability_assignment :: "agent_capability_assignment option"
  dr_planning_capability_catalog :: "json option"
  dr_complexity :: "string option"
  dr_parallel :: bool

record trace_event =
  te_trace_id :: string
  te_span_id :: string
  te_session_id :: string
  te_execution_id :: string
  te_agent_id :: string
  te_parent_session_id :: "string option"
  te_timestamp :: string
  te_level :: string
  te_category :: string
  te_message :: string
  te_duration_ms :: "int option"
  te_tool_name :: "string option"
  te_payload :: "json option"
  te_usage :: "json option"
  te_model :: "string option"

record stream_message =
  bm_session_id :: string
  bm_execution_id :: string
  bm_role :: string
  bm_content :: string
  bm_tool_calls :: "string option"
  bm_tool_call_id :: "string option"

text \<open>What the batch writer can be asked; an acknowledgement is named by a number.\<close>

datatype batch_write =
  BwTokenUpdate string "64 word" "64 word"
| BwLogEntry execution_log
| BwSessionMessage stream_message
| BwTraceEvent string trace_event
| BwCloseSessionTrace string
| BwFlush nat

record stream_ctx =
  cx_agent :: string
  cx_conversation :: string
  cx_session :: string
  cx_execution :: string
  cx_batched :: bool
  cx_vault :: string
  cx_recommended_skills :: "string list"

text \<open>
  Outside of the repository: files (\<open>se_exists\<close>, \<open>se_read\<close>), the YAML of a skill, of which the code
  takes the ward set-up, and the text of a validation error.
\<close>

record stream_env =
  se_state :: state_env
  se_files :: file_system
  se_surfaces :: surface_lib
  se_reason :: "surface_error \<Rightarrow> string"
  se_exists :: "string \<Rightarrow> bool"
  se_read :: "string \<Rightarrow> string option"
  se_ward_setup :: "string \<Rightarrow> string option"

text \<open>
  The store, the channels (to the batch writer, to the delegation queue), what was published in order
  and what was left to tasks, the sets of the context behind their locks, and the wards that were
  scaffolded.
\<close>

record stream_world =
  sw_state :: statedb
  sw_persist_surfaces :: bool
  sw_writes :: "batch_write list"
  sw_requests :: "delegation_request list"
  sw_published :: "gateway_event list"
  sw_tasks :: "gateway_event list"
  sw_surface_ids :: "string list"
  sw_output_writes :: "(string \<times> string) list"
  sw_scaffolded :: "(string \<times> string list) list"

definition on_store :: "'a st_op \<Rightarrow> stream_world \<Rightarrow> (state_error + 'a) \<times> stream_world" where
  "on_store f w = (let (r, t) = f (sw_state w) in (r, w\<lparr>sw_state := t\<rparr>))"

text \<open>A call whose failure is logged and dropped.\<close>

definition try_store :: "'a st_op \<Rightarrow> stream_world \<Rightarrow> stream_world" where
  "try_store f w = snd (on_store f w)"

definition ok_of :: "'e + 'a \<Rightarrow> 'a option" where
  "ok_of r = (case r of Inl _ \<Rightarrow> None | Inr x \<Rightarrow> Some x)"

section \<open>Logs and traces\<close>

definition log_entry :: "stream_env \<Rightarrow> stream_ctx \<Rightarrow> execution_log \<Rightarrow> stream_world \<Rightarrow> stream_world" where
  "log_entry E c e w =
     (if cx_batched c then w\<lparr>sw_writes := sw_writes w @ [BwLogEntry e]\<rparr>
      else try_store (repo_insert_log (se_state E) e) w)"

text \<open>The entry is filed under the execution, with the session as its conversation.\<close>

definition emit_log ::
  "stream_env \<Rightarrow> stream_ctx \<Rightarrow> log_level \<Rightarrow> log_category \<Rightarrow> string \<Rightarrow> (execution_log \<Rightarrow> execution_log) \<Rightarrow>
   stream_world \<Rightarrow> stream_world" where
  "emit_log E c level category body f w =
     (case on_store (execution_log_new (se_state E) (cx_execution c) (cx_session c) (cx_agent c) level category body) w of
        (Inl _, v) \<Rightarrow> v
      | (Inr e, v) \<Rightarrow> log_entry E c (f e) v)"

definition stream_log_delegation :: "stream_env \<Rightarrow> stream_ctx \<Rightarrow> string \<Rightarrow> string \<Rightarrow> stream_world \<Rightarrow> stream_world" where
  "stream_log_delegation E c child task =
     emit_log E c LevelInfo LogDelegation (''Delegating to '' @ child)
       (with_metadata (JObject [(''child_agent'', JString child), (''task'', JString task)]))"

definition stream_log_tool_call :: "stream_env \<Rightarrow> stream_ctx \<Rightarrow> string \<Rightarrow> string \<Rightarrow> stream_world \<Rightarrow> stream_world" where
  "stream_log_tool_call E c tid tool =
     emit_log E c LevelInfo LogToolCall (''Calling tool: '' @ tool)
       (with_metadata (JObject [(''tool_id'', JString tid), (''tool_name'', JString tool)]))"

definition is_blocked_by_hook_result :: "string \<Rightarrow> string option \<Rightarrow> bool" where
  "is_blocked_by_hook_result res err = (err = Some ''blocked_by_hook'' \<or> res = ''[blocked by hook]'')"

definition tool_result_log_level :: "string option \<Rightarrow> bool \<Rightarrow> log_level" where
  "tool_result_log_level err blocked = (if err \<noteq> None \<or> blocked then LevelWarn else LevelInfo)"

definition tool_result_message :: "string option \<Rightarrow> bool \<Rightarrow> string" where
  "tool_result_message err blocked =
     (if blocked then ''Tool blocked by hook''
      else if err \<noteq> None then ''Tool returned error''
      else ''Tool completed'')"

definition tool_result_metadata :: "string \<Rightarrow> string option \<Rightarrow> bool \<Rightarrow> json" where
  "tool_result_metadata tid err blocked =
     JObject [(''tool_id'', JString tid), (''error'', json_opt_string err), (''blocked_by_hook'', JBool blocked)]"

definition stream_log_tool_result ::
  "stream_env \<Rightarrow> stream_ctx \<Rightarrow> string \<Rightarrow> string \<Rightarrow> string option \<Rightarrow> int option \<Rightarrow> stream_world \<Rightarrow> stream_world" where
  "stream_log_tool_result E c tid res err ms =
     (let blocked = is_blocked_by_hook_result res err
      in emit_log E c (tool_result_log_level err blocked) LogToolResult (tool_result_message err blocked)
           (\<lambda>e. let e' = with_metadata (tool_result_metadata tid err blocked) e
                in case ms of None \<Rightarrow> e' | Some d \<Rightarrow> with_duration d e'))"

definition stream_log_error :: "stream_env \<Rightarrow> stream_ctx \<Rightarrow> string \<Rightarrow> stream_world \<Rightarrow> stream_world" where
  "stream_log_error E c err = emit_log E c LevelError LogError err id"

definition emit_trace :: "stream_ctx \<Rightarrow> trace_event \<Rightarrow> stream_world \<Rightarrow> stream_world" where
  "emit_trace c ev w =
     (if cx_batched c then w\<lparr>sw_writes := sw_writes w @ [BwTraceEvent (cx_session c) ev]\<rparr> else w)"

definition trace_of ::
  "stream_ctx \<Rightarrow> string \<Rightarrow> string \<Rightarrow> string \<Rightarrow> string \<Rightarrow> string \<Rightarrow> int option \<Rightarrow> string option \<Rightarrow> json \<Rightarrow> trace_event" where
  "trace_of c tid now level category body ms tool payload =
     \<lparr>te_trace_id = cx_session c, te_span_id = tid, te_session_id = cx_session c, te_execution_id = cx_execution c,
      te_agent_id = cx_agent c, te_parent_session_id = None, te_timestamp = now, te_level = level,
      te_category = category, te_message = body, te_duration_ms = ms, te_tool_name = tool,
      te_payload = Some payload, te_usage = None, te_model = None\<rparr>"

text \<open>The clock is read for the event whether it is kept or not.\<close>

definition with_now :: "stream_env \<Rightarrow> (string \<Rightarrow> stream_world \<Rightarrow> stream_world) \<Rightarrow> stream_world \<Rightarrow> stream_world" where
  "with_now E f w = f (now_text (se_state E) (ticks (sw_state w)))
     (w\<lparr>sw_state := (sw_state w)\<lparr>ticks := Suc (ticks (sw_state w))\<rparr>\<rparr>)"

definition trace_tool_call :: "stream_env \<Rightarrow> stream_ctx \<Rightarrow> string \<Rightarrow> string \<Rightarrow> json \<Rightarrow> stream_world \<Rightarrow> stream_world" where
  "trace_tool_call E c tid tool args = with_now E (\<lambda>now.
     emit_trace c (trace_of c tid now ''info'' ''tool_call'' (''Calling tool: '' @ tool) None (Some tool) args))"

definition trace_tool_result ::
  "stream_env \<Rightarrow> stream_ctx \<Rightarrow> string \<Rightarrow> string \<Rightarrow> string option \<Rightarrow> int option \<Rightarrow> stream_world \<Rightarrow> stream_world" where
  "trace_tool_result E c tid res err ms = with_now E (\<lambda>now.
     emit_trace c (trace_of c tid now (if err \<noteq> None then ''error'' else ''info'') ''tool_result''
       (''Tool result ('' @ tid @ ''): '' @ (case err of None \<Rightarrow> ''ok'' | Some e \<Rightarrow> e)) ms None (JString res)))"

section \<open>Artifacts\<close>

definition session_ward :: "stream_env \<Rightarrow> stream_ctx \<Rightarrow> stream_world \<Rightarrow> string option \<times> stream_world" where
  "session_ward E c w =
     (let (r, v) = on_store (repo_get_session (se_state E) (cx_session c)) w
      in (Option.bind (ok_of r) (\<lambda>found. Option.bind found s_ward_id), v))"

definition declare_in_ward ::
  "stream_env \<Rightarrow> stream_ctx \<Rightarrow> artifact_declaration list \<Rightarrow> stream_world \<Rightarrow> stream_world" where
  "declare_in_ward E c ds w =
     (let (ward, v) = session_ward E c w
      in v\<lparr>sw_state := snd (process_artifact_declarations (se_state E) (se_files E) (cx_vault c) ds
           (cx_session c) (cx_execution c) (cx_agent c) ward (sw_state v))\<rparr>)"

definition handle_artifact_declarations :: "stream_env \<Rightarrow> stream_ctx \<Rightarrow> stream_event \<Rightarrow> stream_world \<Rightarrow> stream_world" where
  "handle_artifact_declarations E c e w =
     (case e of
        StAction (StActionRespond _ _ _ _ _ ds) \<Rightarrow> if ds = [] then w else declare_in_ward E c ds w
      | _ \<Rightarrow> w)"

text \<open>\<open>str::find\<close> of a text\<close>

fun find_sub :: "string \<Rightarrow> string \<Rightarrow> nat option" where
  "find_sub p [] = (if p = [] then Some 0 else None)"
| "find_sub p (c # s) =
     (if take (length p) (c # s) = p then Some 0 else map_option Suc (find_sub p s))"

definition record_output_write :: "string \<Rightarrow> string \<Rightarrow> json \<Rightarrow> stream_world \<Rightarrow> stream_world" where
  "record_output_write tid tool args w =
     (if tool \<noteq> ''write_file'' then w
      else case Option.bind (as_object args) (\<lambda>kvs. Option.bind (obj_get kvs ''path'') as_str) of
          None \<Rightarrow> w
        | Some path \<Rightarrow>
            (case find_sub ''outputs/'' path of
               None \<Rightarrow> w
             | Some k \<Rightarrow>
                 if 1024 < length (drop k path) then w
                 else w\<lparr>sw_output_writes := (tid, drop k path) # filter (\<lambda>(i, _). i \<noteq> tid) (sw_output_writes w)\<rparr>))"

definition declare_succeeded_output_write :: "stream_env \<Rightarrow> stream_ctx \<Rightarrow> string \<Rightarrow> stream_world \<Rightarrow> stream_world" where
  "declare_succeeded_output_write E c tid w =
     (case map_of (sw_output_writes w) tid of
        None \<Rightarrow> w
      | Some rel \<Rightarrow>
          declare_in_ward E c [\<lparr>ad_path = rel, ad_label = None, ad_is_goal_artifact = True\<rparr>]
            (w\<lparr>sw_output_writes := filter (\<lambda>(i, _). i \<noteq> tid) (sw_output_writes w)\<rparr>))"

section \<open>Delegations\<close>

text \<open>
  The execution of the child is created at once; when that fails, an id is still made up for the
  request.
\<close>

definition child_execution ::
  "stream_env \<Rightarrow> stream_ctx \<Rightarrow> string \<Rightarrow> delegation_type \<Rightarrow> string \<Rightarrow> string option \<Rightarrow> stream_world \<Rightarrow> string \<times> stream_world" where
  "child_execution E c child kind task given w =
     (let S = se_state E;
          (r, v) = on_store (case given of
              Some i \<Rightarrow> create_delegated_execution_with_id S i (cx_session c) child (cx_execution c) kind task
            | None \<Rightarrow> create_delegated_execution S (cx_session c) child (cx_execution c) kind task) w
      in case r of
           Inr x \<Rightarrow> (x_id x, v)
         | Inl _ \<Rightarrow>
             (x_id (execution_new_delegated (fresh_uuid S (minted (sw_state v))) (cx_session c) child (cx_execution c) kind task),
              v\<lparr>sw_state := (sw_state v)\<lparr>minted := Suc (minted (sw_state v))\<rparr>\<rparr>))"

fun handle_delegation :: "stream_env \<Rightarrow> stream_ctx \<Rightarrow> action_event \<Rightarrow> stream_world \<Rightarrow> stream_world" where
  "handle_delegation E c
     (StActionDelegate _ child task context _ max_iterations schema skills capability catalog complexity mode parallel given) w =
     (let (cxid, v) = child_execution E c child (if parallel then Parallel else Sequential) task given w;
          u = try_store (register_delegation (cx_session c)) v;
          request = \<lparr>dr_parent_agent_id = cx_agent c, dr_session_id = cx_session c,
            dr_parent_execution_id = cx_execution c, dr_parent_conversation_id = cx_conversation c,
            dr_child_agent_id = child, dr_child_execution_id = cxid, dr_task = task,
            dr_mode = Option.bind mode delegation_mode_parse, dr_context = context,
            dr_max_iterations = max_iterations, dr_output_schema = schema, dr_skills = skills,
            dr_capability_assignment = capability, dr_planning_capability_catalog = catalog,
            dr_complexity = complexity, dr_parallel = parallel\<rparr>
      in stream_log_delegation E c child task (u\<lparr>sw_requests := sw_requests u @ [request]\<rparr>))"
| "handle_delegation E c _ w = w"

definition handle_delegation_event :: "stream_env \<Rightarrow> stream_ctx \<Rightarrow> stream_event \<Rightarrow> stream_world \<Rightarrow> stream_world" where
  "handle_delegation_event E c e w = (case e of StAction a \<Rightarrow> handle_delegation E c a w | _ \<Rightarrow> w)"

section \<open>Tokens, wards, titles\<close>

definition handle_token_update :: "stream_ctx \<Rightarrow> 64 word \<Rightarrow> 64 word \<Rightarrow> stream_world \<Rightarrow> stream_world" where
  "handle_token_update c tin tout w =
     (let v = (if cx_batched c then w\<lparr>sw_writes := sw_writes w @ [BwTokenUpdate (cx_execution c) tin tout]\<rparr>
          else try_store (repo_update_execution_tokens (cx_execution c) tin tout) w)
      in v\<lparr>sw_tasks := sw_tasks v @
           [EvProgress (EvTokenUsage (cx_session c) (cx_execution c) tin tout (Some (cx_conversation c)))]\<rparr>)"

text \<open>The text between the first pair of \<open>---\<close> markers\<close>

definition extract_yaml_frontmatter :: "string \<Rightarrow> string option" where
  "extract_yaml_frontmatter content =
     Option.bind (strip_prefix ''---'' (trim_start content)) (\<lambda>rest.
     map_option (\<lambda>k. trim (take k rest)) (find_sub ([CHR 0x0A] @ ''---'') rest))"

definition collect_ward_setup_for_skill :: "stream_env \<Rightarrow> string \<Rightarrow> string \<Rightarrow> string list" where
  "collect_ward_setup_for_skill E skills_dir skill =
     (let skill_md = join (join skills_dir skill) ''SKILL.md''
      in if \<not> se_exists E skill_md then []
         else case Option.bind (se_read E skill_md) (\<lambda>content.
             Option.bind (extract_yaml_frontmatter content) (se_ward_setup E)) of
           None \<Rightarrow> [] | Some setup \<Rightarrow> [setup])"

definition collect_ward_setups_for_skills :: "stream_env \<Rightarrow> string \<Rightarrow> string list \<Rightarrow> string list" where
  "collect_ward_setups_for_skills E skills_dir skills =
     concat (map (collect_ward_setup_for_skill E skills_dir) skills)"

definition handle_ward_changed :: "stream_env \<Rightarrow> stream_ctx \<Rightarrow> string \<Rightarrow> stream_world \<Rightarrow> stream_world" where
  "handle_ward_changed E c ward w =
     (let v = try_store (repo_update_session_ward (cx_session c) ward) w;
          skills_dir = join (cx_vault c) ''skills'';
          setups = (if cx_recommended_skills c = [] then collect_ward_setup_for_skill E skills_dir ''coding''
            else collect_ward_setups_for_skills E skills_dir (cx_recommended_skills c))
      in if se_exists E (join (join (cx_vault c) ''wards'') ward) \<and> setups \<noteq> []
         then v\<lparr>sw_scaffolded := sw_scaffolded v @ [(ward, setups)]\<rparr> else v)"

definition handle_session_title_changed :: "stream_ctx \<Rightarrow> string \<Rightarrow> stream_world \<Rightarrow> stream_world" where
  "handle_session_title_changed c title = try_store (repo_update_session_title (cx_session c) title)"

definition handle_side_effects :: "stream_env \<Rightarrow> stream_ctx \<Rightarrow> stream_event \<Rightarrow> stream_world \<Rightarrow> stream_world" where
  "handle_side_effects E c e w =
     (case e of
        StState (StTokenUpdate _ tin tout) \<Rightarrow> handle_token_update c tin tout w
      | StContent (StToolCallStart _ tid tool args) \<Rightarrow>
          record_output_write tid tool args (trace_tool_call E c tid tool args (stream_log_tool_call E c tid tool w))
      | StContent (StToolResult _ tid res _ err ms) \<Rightarrow>
          declare_succeeded_output_write E c tid
            (trace_tool_result E c tid res err ms (stream_log_tool_result E c tid res err ms w))
      | StContent (StError _ err _) \<Rightarrow> stream_log_error E c err w
      | StState (StWardChanged _ ward) \<Rightarrow> handle_ward_changed E c ward w
      | StState (StSessionTitleChanged _ title) \<Rightarrow> handle_session_title_changed c title w
      | _ \<Rightarrow> w)"

section \<open>Surfaces and plans\<close>

definition persist_gateway_surface :: "stream_env \<Rightarrow> gateway_event \<Rightarrow> stream_world \<Rightarrow> stream_world" where
  "persist_gateway_surface E e w =
     (let S = se_state E;
          store = (\<lambda>sid xid s. if is_persistable_surface s
            then try_store (repo_save_session_surface S sid xid (ws_surface_id s)
              (json_to_string (env_codec S) (surface_to_json s))) w
            else try_store (repo_delete_session_surface sid (ws_surface_id s)) w)
      in if \<not> sw_persist_surfaces w then w
         else case e of
           EvSurface (EvSurfaceCreated sid xid s) \<Rightarrow> store sid xid s
         | EvSurface (EvSurfaceUpdated sid xid s) \<Rightarrow> store sid xid s
         | EvSurface (EvSurfaceDeleted sid _ fid) \<Rightarrow> try_store (repo_delete_session_surface sid fid) w
         | _ \<Rightarrow> w)"

datatype plan_update_outcome = NotPlan | PlanAccepted plan_snapshot | PlanRejected

fun accepted_plan :: "plan_update_outcome \<Rightarrow> plan_snapshot option" where
  "accepted_plan (PlanAccepted snap) = Some snap"
| "accepted_plan _ = None"

definition persist_current_plan :: "stream_env \<Rightarrow> stream_ctx \<Rightarrow> stream_event \<Rightarrow> stream_world \<Rightarrow> plan_update_outcome \<times> stream_world" where
  "persist_current_plan E c e w =
     (case e of
        StAction (StActionPlanUpdate ts plan expl) \<Rightarrow>
          (case preflight_update (json_pieces (se_state E)) plan expl of
             Inl _ \<Rightarrow> (PlanRejected, w)
           | Inr _ \<Rightarrow>
               (case on_store (repo_save_session_plan (se_state E) (cx_session c) (cx_execution c) plan expl ts) w of
                  (Inr (Accepted snap), v) \<Rightarrow> (PlanAccepted snap, v)
                | (_, v) \<Rightarrow> (PlanRejected, v)))
      | _ \<Rightarrow> (NotPlan, w))"

definition plan_surface_id :: "string \<Rightarrow> string" where
  "plan_surface_id sid = ''plan-'' @ sid"

definition build_plan_surface :: "string \<Rightarrow> plan_snapshot \<Rightarrow> work_surface" where
  "build_plan_surface fid snap =
     \<lparr>ws_surface_id = fid, ws_catalog_id = ZBOT_WORK_SURFACE_CATALOG,
      ws_components = [\<lparr>sc_id = ''plan'', sc_type = PlanChecklist,
        sc_props = [(''plan_path'', JString ''/plan''), (''title'', JString ''Plan'')]\<rparr>],
      ws_data = JObject [(''plan'', plan_to_json (sn_plan snap))]\<rparr>"

definition build_session_plan_surface :: "string \<Rightarrow> plan_snapshot \<Rightarrow> work_surface" where
  "build_session_plan_surface sid snap = build_plan_surface (plan_surface_id sid) snap"

definition convert_in :: "stream_env \<Rightarrow> stream_ctx \<Rightarrow> stream_event \<Rightarrow> gateway_event option" where
  "convert_in E c e = convert_stream_event e (se_surfaces E) (env_codec (se_state E)) (se_reason E)
     (cx_agent c) (cx_conversation c) (cx_session c) (cx_execution c)"

definition publish_projected_surface ::
  "stream_env \<Rightarrow> stream_ctx \<Rightarrow> stream_event \<Rightarrow> plan_snapshot option \<Rightarrow> stream_world \<Rightarrow> stream_world" where
  "publish_projected_surface E c e shown w =
     (case shown of
        None \<Rightarrow> w
      | Some snap \<Rightarrow>
          (let fid = plan_surface_id (cx_session c);
               is_update = (fid \<in> set (sw_surface_ids w));
               v = w\<lparr>sw_surface_ids := List.insert fid (sw_surface_ids w)\<rparr>;
               s = build_plan_surface fid snap;
               ts = stream_timestamp e
           in case convert_in E c (StDisplay (if is_update then StWorkSurfaceUpdated ts s else StWorkSurface ts s)) of
                None \<Rightarrow> v
              | Some ge \<Rightarrow>
                  (let u = persist_gateway_surface E ge v in u\<lparr>sw_published := sw_published u @ [ge]\<rparr>)))"

section \<open>One event\<close>

definition TURN_COMPLETE_MARKER :: string where
  "TURN_COMPLETE_MARKER = [CHR 0x00] @ ''TURN_COMPLETE'' @ [CHR 0x00]"

definition extract_response_delta :: "gateway_event option \<Rightarrow> string option" where
  "extract_response_delta e =
     (case e of
        Some (EvTurn (EvToken _ _ _ d _)) \<Rightarrow> Some d
      | Some (EvProgress (EvRespond _ _ body _)) \<Rightarrow> Some ([CHR 0x0A, CHR 0x0A] @ body)
      | Some (EvProgress (EvTurnComplete _ _ _ body _)) \<Rightarrow>
          if body = [] then None else Some (TURN_COMPLETE_MARKER @ body)
      | _ \<Rightarrow> None)"

definition process_stream_event ::
  "stream_env \<Rightarrow> stream_ctx \<Rightarrow> stream_event \<Rightarrow> stream_world \<Rightarrow>
   (gateway_event option \<times> string option) \<times> stream_world" where
  "process_stream_event E c e w =
     (let w1 = handle_side_effects E c e (handle_delegation_event E c e (handle_artifact_declarations E c e w));
          (outcome, w2) = persist_current_plan E c e w1;
          w3 = publish_projected_surface E c e (accepted_plan outcome) w2;
          ge = (if outcome = PlanRejected then None else convert_in E c e);
          w4 = (case ge of None \<Rightarrow> w3 | Some g \<Rightarrow> persist_gateway_surface E g w3)
      in ((ge, extract_response_delta ge), w4))"

section \<open>The accumulated response\<close>

record response_accumulator =
  ra_content :: string
  ra_turn_complete_fallback :: "string option"

definition accumulator_new :: response_accumulator where
  "accumulator_new = \<lparr>ra_content = [], ra_turn_complete_fallback = None\<rparr>"

definition accumulator_append :: "string \<Rightarrow> response_accumulator \<Rightarrow> response_accumulator" where
  "accumulator_append t a =
     (case strip_prefix TURN_COMPLETE_MARKER t of
        Some body \<Rightarrow> a\<lparr>ra_turn_complete_fallback := Some body\<rparr>
      | None \<Rightarrow> a\<lparr>ra_content := ra_content a @ t\<rparr>)"

definition into_response :: "response_accumulator \<Rightarrow> string" where
  "into_response a =
     (if trim (ra_content a) \<noteq> [] then trim (ra_content a)
      else case ra_turn_complete_fallback a of None \<Rightarrow> [] | Some f \<Rightarrow> trim f)"

definition accumulator_is_empty :: "response_accumulator \<Rightarrow> bool" where
  "accumulator_is_empty a = (trim_is_empty (ra_content a) \<and> ra_turn_complete_fallback a = None)"

text \<open>The content of an assistant row for a turn that called tools\<close>

fun respond_message :: "json list \<Rightarrow> string option" where
  "respond_message [] = None"
| "respond_message (t # ts) =
     (let get = (\<lambda>v k. Option.bind (as_object v) (\<lambda>kvs. obj_get kvs k));
          args = (if Option.bind (get t ''tool_name'') as_str = Some ''respond'' then get t ''args'' else None);
          body = Option.bind args (\<lambda>a. Option.bind
            (case get a ''text'' of None \<Rightarrow> get a ''message'' | Some v \<Rightarrow> Some v) as_str)
      in case body of
           Some (c # m) \<Rightarrow> Some (c # m)
         | _ \<Rightarrow> respond_message ts)"

definition assistant_turn_content :: "string \<Rightarrow> json list \<Rightarrow> string \<times> string" where
  "assistant_turn_content turn_text tool_calls =
     (if turn_text \<noteq> [] then (turn_text, [])
      else (case respond_message tool_calls of None \<Rightarrow> ''[tool calls]'' | Some m \<Rightarrow> m, turn_text))"

end
