(* ===== verification/Stream_Store.thy ===== *)
theory Stream_Store
  imports Stream_Processor State_Contents Surface_Conforms
begin

text \<open>
  What processing an execution's events does to the session store: it stays in order, a session with
  a delegation on its way is not completed, and a plan is shown exactly when it was accepted.
\<close>

section \<open>What every event keeps\<close>




section \<open>The store stays in order\<close>



section \<open>A delegation on its way\<close>

















lemma try_store_outside [simp]:
  "sw_requests (try_store f w) = sw_requests w" "sw_published (try_store f w) = sw_published w"
  "sw_surface_ids (try_store f w) = sw_surface_ids w"
  by (simp_all add: try_store_def on_store_def split: prod.split)


lemma requests_logged [simp]: "sw_requests (stream_log_delegation E c x task w) = sw_requests w"
  by (auto simp: stream_log_delegation_def emit_log_def log_entry_def try_store_def on_store_def
      split: prod.split sum.split)



section \<open>Plans\<close>

lemma plan_surface_conforms:
  assumes "length sid \<le> 123"
    and "length (json_to_string C (surface_to_json (build_plan_surface (plan_surface_id sid) sn))) \<le> 65536"
  shows "catalog_validate L C (build_plan_surface (plan_surface_id sid) sn) = Inr ()"
proof -
  have steps: "json_height (plan_step_to_json st) = 1" for st by (simp add: plan_step_to_json_def)
  have "json_height (plan_to_json steps) \<le> 2" for steps
    by (simp add: plan_to_json_def fold_max_le steps)
  then have "json_height (ws_data (build_plan_surface (plan_surface_id sid) sn)) \<le> 32"
    by (simp add: build_plan_surface_def le_trans [of _ 2])
  moreover have "component_conforms L d \<lparr>sc_id = ''plan'', sc_type = PlanChecklist,
      sc_props = [(''plan_path'', JString ''/plan''), (''title'', JString ''Plan'')]\<rparr>" for d
    by (simp add: component_conforms_def is_expanded_component_def ends_with_def is_json_pointer_def bound_paths_def)
  ultimately show ?thesis using assms
    by (simp add: catalog_validate_def MAX_COMPONENTS_def MAX_SURFACE_BYTES_def validate_value_depth_ok all_ok_ok
        plan_surface_id_def build_plan_surface_def sbind_unit sbind_unit [of _ "Inr ()", simplified] component_ok)
qed

abbreviation plans_are :: "plan_row list \<Rightarrow> statedb \<Rightarrow> bool" where
  "plans_are ps \<equiv> \<lambda>db. plans_t db = ps"

lemma of_tables_plans: "of_tables (plans_are ps)"
  by (simp add: of_tables_def)

lemma plans_kept_by_surfaces:
  "keeps (plans_are ps) (repo_save_session_surface S i x fid js)"
  "keeps (plans_are ps) (repo_delete_session_surface i fid)"
  unfolding repo_save_session_surface_def repo_delete_session_surface_def upsert_surface_def expire_surfaces_def
  by (intro keeps_intros keeps_store [OF of_tables_plans]; auto)+

lemma try_store_keeps:
  assumes "\<And>ps. keeps (plans_are ps) f"
  shows "plans_t (sw_state (try_store f w)) = plans_t (sw_state w)"
  using keepsD [OF assms [of "plans_t (sw_state w)"], of "sw_state w"]
  by (auto simp: try_store_def on_store_def split: prod.splits)

lemma plans_t_persist [simp]: "plans_t (sw_state (persist_gateway_surface E g w)) = plans_t (sw_state w)"
  by (simp add: persist_gateway_surface_def Let_def try_store_keeps plans_kept_by_surfaces
      split: gateway_event.split surface_event.split)

lemma published_persist [simp]: "sw_published (persist_gateway_surface E g w) = sw_published w"
  by (simp add: persist_gateway_surface_def Let_def split: gateway_event.split surface_event.split)

text \<open>The event a plan surface becomes\<close>

definition shown_as :: "stream_env \<Rightarrow> stream_ctx \<Rightarrow> bool \<Rightarrow> plan_snapshot \<Rightarrow> gateway_event \<Rightarrow> bool" where
  "shown_as E c seen sn g \<longleftrightarrow>
     (let s = build_session_plan_surface (cx_session c) sn
      in if catalog_validate (se_surfaces E) (env_codec (se_state E)) s = Inr ()
         then g = EvSurface ((if seen then EvSurfaceUpdated else EvSurfaceCreated) (cx_session c) (cx_execution c) s)
         else \<exists>why. g = EvSurface (EvSurfaceValidationFailed (cx_session c) (cx_execution c) (ws_surface_id s) why))"

lemma projected:
  "\<exists>g. shown_as E c (plan_surface_id (cx_session c) \<in> set (sw_surface_ids w)) sn g \<and>
     sw_published (publish_projected_surface E c e (Some sn) w) = sw_published w @ [g] \<and>
     plans_t (sw_state (publish_projected_surface E c e (Some sn) w)) = plans_t (sw_state w)"
  by (auto simp: publish_projected_surface_def convert_in_def validated_surface_event_def shown_as_def
      build_session_plan_surface_def build_plan_surface_def Let_def split: sum.split)

lemma plan_event:
  "process_stream_event E c (StAction (StActionPlanUpdate ts plan ex)) w =
     (case persist_current_plan E c (StAction (StActionPlanUpdate ts plan ex)) w of
        (PlanAccepted sn, v) \<Rightarrow>
          (let g = EvSession (EvPlanUpdate (cx_session c) (cx_execution c) plan ex (Some (cx_conversation c)));
               u = publish_projected_surface E c (StAction (StActionPlanUpdate ts plan ex)) (Some sn) v
           in ((Some g, None), persist_gateway_surface E g u))
      | (_, v) \<Rightarrow> ((None, None), v))"
  by (auto simp: process_stream_event_def handle_artifact_declarations_def handle_delegation_event_def
      handle_side_effects_def persist_current_plan_def publish_projected_surface_def convert_in_def
      extract_response_delta_def Let_def
      split: prod.split sum.split plan_update_outcome.split plan_save_outcome.split)

lemma save_plan_Inl:
  assumes "repo_save_session_plan S sid xid plan ex ts db = (Inl e, t)"
  shows "unchanged db t"
  using assms in_transaction_Inl
  by (auto simp: repo_save_session_plan_def bnd_cases ret_apply unchanged_def undo_def split: sum.splits option.splits)

text \<open>
  C23: a plan update that is returned to the clients was accepted: reading the plan of the session
  gives exactly the steps of the event, and its surface, or the reason it is not one, was published
  first. A plan update that is refused, or that the store could not save, is not returned, publishes
  nothing and leaves every table as it was.
\<close>

theorem a_plan_is_shown_exactly_when_it_was_saved:
  assumes "process_stream_event E c (StAction (StActionPlanUpdate ts plan ex)) w = ((ge, d), w')"
    and "session_db_ok (sw_state w)" and "json_codec (env_codec (se_state E))"
  shows "case ge of
      None \<Rightarrow> unchanged (sw_state w) (sw_state w') \<and> sw_published w' = sw_published w
    | Some g \<Rightarrow> g = EvSession (EvPlanUpdate (cx_session c) (cx_execution c) plan ex (Some (cx_conversation c))) \<and>
        (\<exists>sn shown. plan_of_json plan = Some (sn_plan sn) \<and>
           fst (repo_get_session_plan (se_state E) (cx_session c) ((sw_state w')\<lparr>script := []\<rparr>)) = Inr (Some sn) \<and>
           shown_as E c (plan_surface_id (cx_session c) \<in> set (sw_surface_ids w)) sn shown \<and>
           sw_published w' = sw_published w @ [shown])"
proof (cases "preflight_update (json_pieces (se_state E)) plan ex")
  case (Inl e)
  with assms(1) show ?thesis by (auto simp: plan_event persist_current_plan_def unchanged_def undo_def)
next
  case (Inr u)
  let ?save = "repo_save_session_plan (se_state E) (cx_session c) (cx_execution c) plan ex ts"
  obtain r t where save: "?save (sw_state w) = (r, t)" by (cases "?save (sw_state w)")
  show ?thesis
  proof (cases r)
    case (Inl e)
    from save_plan_Inl [OF save [unfolded Inl]] assms(1) Inr save Inl show ?thesis
      by (auto simp: plan_event persist_current_plan_def on_store_def)
  next
    case out: (Inr out)
    note read = saved_plan_reads_back [OF save [unfolded out] assms(2,3)]
    show ?thesis
    proof (cases out)
      case (Rejected e)
      with read assms(1) Inr save out show ?thesis
        by (auto simp: plan_event persist_current_plan_def on_store_def)
    next
      case (Accepted sn)
      let ?v = "w\<lparr>sw_state := t\<rparr>" and ?e = "StAction (StActionPlanUpdate ts plan ex)"
      from projected [of E c ?v sn ?e] obtain g where
        g: "shown_as E c (plan_surface_id (cx_session c) \<in> set (sw_surface_ids w)) sn g"
          "sw_published (publish_projected_surface E c ?e (Some sn) ?v) = sw_published w @ [g]"
          "plans_t (sw_state (publish_projected_surface E c ?e (Some sn) ?v)) = plans_t t" by auto
      have same: "fst (repo_get_session_plan (se_state E) i (d1\<lparr>script := []\<rparr>)) =
          fst (repo_get_session_plan (se_state E) i (d2\<lparr>script := []\<rparr>))" if "plans_t d1 = plans_t d2" for i d1 d2
        using that by (simp add: repo_get_session_plan_def bnd_def op_simps find_plan_row_def ret_apply ok_or_def
            split: option.split)
      from assms(1) Inr save out Accepted have
        "ge = Some (EvSession (EvPlanUpdate (cx_session c) (cx_execution c) plan ex (Some (cx_conversation c))))"
        and w': "w' = persist_gateway_surface E (EvSession (EvPlanUpdate (cx_session c) (cx_execution c) plan ex (Some (cx_conversation c))))
            (publish_projected_surface E c ?e (Some sn) ?v)"
        by (auto simp: plan_event persist_current_plan_def on_store_def Let_def)
      with read Accepted g same [of "sw_state w'" t] show ?thesis by auto
    qed
  qed
qed

section \<open>Instances\<close>

definition sample_stream_env :: stream_env where
  "sample_stream_env =
     \<lparr>se_state = sample_env,
      se_files = \<lparr>fs_symlink = (\<lambda>_. Some False), fs_canonicalize = Some, fs_is_dir = (\<lambda>_. True),
        fs_openat = (\<lambda>_ _ _. Some 3), fs_stat = (\<lambda>_. Some (True, 9)), fs_lower = id\<rparr>,
      se_surfaces = \<lparr>pointer = (\<lambda>_ _. None), finite_positive = (\<lambda>_. True)\<rparr>,
      se_reason = (\<lambda>_. ''refused''), se_exists = (\<lambda>_. False), se_read = (\<lambda>_. None),
      se_ward_setup = (\<lambda>_. None)\<rparr>"

definition sample_ctx :: stream_ctx where
  "sample_ctx =
     \<lparr>cx_agent = ''root'', cx_conversation = ''conv'', cx_session = ''s'', cx_execution = ''x'',
      cx_batched = True, cx_vault = ''/v'', cx_recommended_skills = []\<rparr>"

definition sample_world :: stream_world where
  "sample_world =
     \<lparr>sw_state = sample_db, sw_persist_surfaces = True, sw_writes = [], sw_requests = [], sw_published = [],
      sw_tasks = [], sw_surface_ids = [], sw_output_writes = [], sw_scaffolded = []\<rparr>"

lemma sample_stream_fields [simp]:
  "se_state sample_stream_env = sample_env" "cx_session sample_ctx = ''s''" "cx_execution sample_ctx = ''x''"
  "sw_state sample_world = sample_db" "sw_requests sample_world = []" "sw_published sample_world = []"
  by (simp_all add: sample_stream_env_def sample_ctx_def sample_world_def)


definition sample_update :: stream_event where
  "sample_update = StAction (StActionPlanUpdate 7 sample_plan None)"



lemma a_plan_is_shown_exactly_when_it_was_saved_witness:
  "\<exists>g w' sn shown. process_stream_event sample_stream_env sample_ctx sample_update sample_world = ((Some g, None), w') \<and>
     fst (repo_get_session_plan sample_env ''s'' ((sw_state w')\<lparr>script := []\<rparr>)) = Inr (Some sn) \<and>
     sn_plan sn = [\<lparr>ps_step = ''a'', ps_status = StepPending\<rparr>] \<and> sw_published w' = [shown]"
proof -
  have pre: "preflight_update (\<lambda>v. [print_json v]) sample_plan None = Inr ()"
    using sample_plan_passes by (auto simp: from_update_def sbind_eq_Inr)
  have "\<exists>sn. fst (repo_save_session_plan sample_env ''s'' ''x'' sample_plan None 7 sample_db) = Inr (Accepted sn)"
    by (simp add: repo_save_session_plan_def sample_plan_passes i64_try_from_u64_def sample_run execution_in_session_def
        next_plan_sequence_def counter_of_def bump_counter_def upsert_plan_def find_plan_row_def)
  with pre have "\<exists>g w'. process_stream_event sample_stream_env sample_ctx sample_update sample_world = ((Some g, None), w')"
    by (auto simp: sample_update_def plan_event persist_current_plan_def on_store_def Let_def split: prod.split)
  then obtain g w' where run: "process_stream_event sample_stream_env sample_ctx sample_update sample_world = ((Some g, None), w')"
    by blast
  from a_plan_is_shown_exactly_when_it_was_saved [OF run [unfolded sample_update_def]] run sample_plan_passes show ?thesis
    using sample_db_ok by (auto dest!: plan_guard_facts)
qed

end
