(* ===== verification/Bridge_Outbox.thy ===== *)
theory Bridge_Outbox
  imports State_Repository
begin

text \<open>
  The delivery queue for bridge workers: the table \<open>bridge_outbox\<close> of the session store and
  \<open>OutboxRepository\<close> (\<open>gateway/gateway-bridge/src/outbox.rs\<close>), one definition per method.
\<close>

section \<open>Items\<close>

record outbox_item =
  oi_id :: string
  oi_adapter_id :: string
  oi_capability :: string
  oi_payload :: string
  oi_status :: string
  oi_session_id :: "string option"
  oi_thread_id :: "string option"
  oi_agent_id :: "string option"
  oi_created_at :: string
  oi_sent_at :: "string option"
  oi_error :: "string option"
  oi_retry_count :: int
  oi_retry_after :: "string option"

text \<open>
  SQLite's clock: \<open>datetime('now')\<close> at a tick, and the same some days earlier; the driver reads a
  retry count that does not fit 32 bits as an error, for which the code takes 0.
\<close>

record bridge_env =
  be_state :: state_env
  be_datetime :: "nat \<Rightarrow> string"
  be_days_before :: "nat \<Rightarrow> 32 word \<Rightarrow> string"
  be_instant_after :: "nat \<Rightarrow> int \<Rightarrow> string option"

definition row_to_outbox_item :: "outbox_row \<Rightarrow> outbox_item" where
  "row_to_outbox_item r =
     \<lparr>oi_id = ob_id r, oi_adapter_id = ob_adapter_id r, oi_capability = ob_capability r,
      oi_payload = ob_payload r, oi_status = ob_status r, oi_session_id = ob_session_id r,
      oi_thread_id = ob_thread_id r, oi_agent_id = ob_agent_id r, oi_created_at = ob_created_at r,
      oi_sent_at = ob_sent_at r, oi_error = ob_error r,
      oi_retry_count = (if - (2 ^ 31) \<le> ob_retry_count r \<and> ob_retry_count r < 2 ^ 31 then ob_retry_count r else 0),
      oi_retry_after = ob_retry_after r\<rparr>"

section \<open>The repository\<close>

text \<open>\<open>datetime('now')\<close> is read inside of a statement.\<close>

definition sql_now :: "bridge_env \<Rightarrow> (string \<Rightarrow> 'a st_op) \<Rightarrow> 'a st_op" where
  "sql_now B f db = f (be_datetime B (ticks db)) (db\<lparr>ticks := Suc (ticks db)\<rparr>)"

definition outbox_insert ::
  "bridge_env \<Rightarrow> string \<Rightarrow> string \<Rightarrow> json \<Rightarrow> string option \<Rightarrow> string option \<Rightarrow> string option \<Rightarrow> string st_op" where
  "outbox_insert B adapter capability payload sid thread agent =
     bnd (new_v4 (be_state B)) (\<lambda>u.
     let i = ''obx-'' @ u in
     bnd (connection (unit_op (sql_now B (\<lambda>now.
       checked_change (\<lambda>db. i \<notin> ob_id ` set (outbox_t db)) (\<lambda>_. 1)
         (\<lambda>db. db\<lparr>outbox_t := outbox_t db @
           [\<lparr>ob_id = i, ob_adapter_id = adapter, ob_capability = capability,
             ob_payload = json_to_string (env_codec (be_state B)) payload, ob_status = ''pending'',
             ob_session_id = sid, ob_thread_id = thread, ob_agent_id = agent, ob_created_at = now,
             ob_sent_at = None, ob_error = None, ob_retry_count = 0, ob_retry_after = None\<rparr>]\<rparr>))))) (\<lambda>_.
     ret i))"

definition unacked :: "outbox_row \<Rightarrow> bool" where
  "unacked r = (ob_status r \<in> {''pending'', ''inflight''})"

definition outbox_items :: "(outbox_row \<Rightarrow> bool) \<Rightarrow> statedb \<Rightarrow> outbox_item list" where
  "outbox_items p db = map row_to_outbox_item (order_asc ob_created_at (filter p (outbox_t db)))"

definition outbox_get_unacked :: "string \<Rightarrow> outbox_item list st_op" where
  "outbox_get_unacked adapter =
     connection (select (outbox_items (\<lambda>r. ob_adapter_id r = adapter \<and> unacked r)))"

text \<open>The statement that looks for the acknowledged item may fail: \<open>ok()\<close> drops the error.\<close>

definition outbox_created_at :: "string \<Rightarrow> statedb \<Rightarrow> string option" where
  "outbox_created_at i db = map_option ob_created_at (find (\<lambda>r. ob_id r = i) (outbox_t db))"

definition outbox_get_since :: "string \<Rightarrow> string \<Rightarrow> outbox_item list st_op" where
  "outbox_get_since adapter since =
     connection (\<lambda>db.
       case select (outbox_created_at since) db of
         (Inr (Some ts), t) \<Rightarrow>
           select (outbox_items (\<lambda>r. ob_adapter_id r = adapter \<and> ts < ob_created_at r \<and> ob_status r \<noteq> ''sent'')) t
       | (_, t) \<Rightarrow> select (outbox_items (\<lambda>r. ob_adapter_id r = adapter \<and> unacked r)) t)"

text \<open>An \<open>UPDATE\<close> of the rows that satisfy \<open>p\<close>, which returns their number\<close>

definition set_outbox :: "(outbox_row \<Rightarrow> bool) \<Rightarrow> (outbox_row \<Rightarrow> outbox_row) \<Rightarrow> nat st_op" where
  "set_outbox p f = change (\<lambda>db. sql_changes p (outbox_t db))
     (\<lambda>db. db\<lparr>outbox_t := sql_update p f (outbox_t db)\<rparr>)"

definition outbox_mark_inflight :: "bridge_env \<Rightarrow> string \<Rightarrow> unit st_op" where
  "outbox_mark_inflight B i = connection (unit_op (sql_now B (\<lambda>now.
     set_outbox (\<lambda>r. ob_id r = i) (\<lambda>r. r\<lparr>ob_status := ''inflight'', ob_sent_at := Some now\<rparr>))))"

definition outbox_mark_sent :: "bridge_env \<Rightarrow> string \<Rightarrow> unit st_op" where
  "outbox_mark_sent B i = connection (unit_op (sql_now B (\<lambda>now.
     set_outbox (\<lambda>r. ob_id r = i) (\<lambda>r. r\<lparr>ob_status := ''sent'', ob_sent_at := Some now\<rparr>))))"

definition outbox_mark_failed :: "string \<Rightarrow> string \<Rightarrow> string option \<Rightarrow> unit st_op" where
  "outbox_mark_failed i err retry_after = connection (unit_op (
     set_outbox (\<lambda>r. ob_id r = i) (\<lambda>r. r\<lparr>ob_status := ''failed'', ob_error := Some err,
       ob_retry_count := ob_retry_count r + 1, ob_retry_after := retry_after\<rparr>)))"

definition back_to_pending :: "outbox_row \<Rightarrow> outbox_row" where
  "back_to_pending r = r\<lparr>ob_status := ''pending'', ob_sent_at := None\<rparr>"

definition outbox_reset_inflight :: "string \<Rightarrow> nat st_op" where
  "outbox_reset_inflight adapter =
     connection (set_outbox (\<lambda>r. ob_adapter_id r = adapter \<and> ob_status r = ''inflight'') back_to_pending)"

definition outbox_reset_all_inflight :: "nat st_op" where
  "outbox_reset_all_inflight = connection (set_outbox (\<lambda>r. ob_status r = ''inflight'') back_to_pending)"

definition outbox_cleanup_sent :: "bridge_env \<Rightarrow> 32 word \<Rightarrow> nat st_op" where
  "outbox_cleanup_sent B days = connection (\<lambda>db.
     let old = be_days_before B (ticks db) days;
         p = (\<lambda>r. ob_status r = ''sent'' \<and> ob_created_at r < old)
     in change (\<lambda>db. sql_changes p (outbox_t db)) (\<lambda>db. db\<lparr>outbox_t := sql_delete p (outbox_t db)\<rparr>)
          (db\<lparr>ticks := Suc (ticks db)\<rparr>))"

definition retryable :: "string \<Rightarrow> outbox_row \<Rightarrow> bool" where
  "retryable now r =
     (ob_status r = ''failed'' \<and>
      (case ob_retry_after r of None \<Rightarrow> True | Some t \<Rightarrow> t \<le> now) \<and> ob_retry_count r < 5)"

definition outbox_get_retryable :: "bridge_env \<Rightarrow> string \<Rightarrow> outbox_item list st_op" where
  "outbox_get_retryable B adapter =
     connection (sql_now B (\<lambda>now. select (outbox_items (\<lambda>r. ob_adapter_id r = adapter \<and> retryable now r))))"

end
