(* ===== verification/Bridge_Workers.thy ===== *)
theory Bridge_Workers
  imports Bridge_Outbox
begin

text \<open>
  The bridge to external workers: the protocol, the registry of connected workers, the requests that
  wait for an answer, pushing of outbox items, and the session of one worker
  (\<open>gateway/gateway-bridge/src/protocol.rs\<close>, \<open>registry.rs\<close>, \<open>pending_requests.rs\<close>, \<open>push.rs\<close>,
  \<open>handler.rs\<close>).
\<close>

section \<open>The protocol\<close>

record worker_capability =
  wc_name :: string
  wc_description :: "string option"
  wc_schema :: "json option"

record worker_resource =
  wr_name :: string
  wr_description :: "string option"

text \<open>\<open>Hello\<close> carries the last acknowledged item, if the worker resumes; \<open>Inbound\<close> the id and name of a sender.\<close>

datatype worker_message =
  WmHello string "worker_capability list" "worker_resource list" "string option"
| WmInbound string "string option" "(string \<times> string option) option" "string option" "json option"
| WmAck string
| WmFail string string "64 word option"
| WmResourceResponse string json
| WmCapabilityResponse string json
| WmPong

datatype bridge_server_message =
  BmHelloAck string "64 word"
| BmOutboxItem string string json
| BmResourceQuery string string "json option"
| BmCapabilityInvoke string string json
| BmPing
| BmError string

datatype bridge_error =
  NotConnected string
| AlreadyConnected string
| BridgeInvalidMessage string
| BridgeChannel string
| BridgeDatabase state_error

definition HEARTBEAT_SECONDS :: "64 word" where "HEARTBEAT_SECONDS = 20"

section \<open>State\<close>

text \<open>
  A connection has the channel to its worker (what was sent, and whether the receiver is still there)
  and its pending requests, each with a one-shot channel whose answer is kept with the request.
  Connections are numbered in the order they come; the registry names the one of each adapter.
\<close>

record bridge_conn =
  cn_adapter :: string
  cn_open :: bool
  cn_sent :: "bridge_server_message list"
  cn_requests :: "string list"
  cn_answers :: "(string \<times> (json + string)) list"

record worker_entry =
  we_adapter_id :: string
  we_capabilities :: "worker_capability list"
  we_resources :: "worker_resource list"
  we_connected_at :: string
  we_conn :: nat

text \<open>A session request for the bus: agent, text, adapter, thread, metadata.\<close>

record session_request =
  sq_agent_id :: string
  sq_message :: string
  sq_source :: string
  sq_respond_to :: "string list"
  sq_connector_id :: string
  sq_thread_id :: "string option"
  sq_metadata :: "json option"

record bridge_world =
  bw_state :: statedb
  bw_workers :: "(string \<times> worker_entry) list"
  bw_conns :: "bridge_conn list"
  bw_submitted :: "session_request list"

definition with_store :: "'a st_op \<Rightarrow> bridge_world \<Rightarrow> (state_error + 'a) \<times> bridge_world" where
  "with_store f w = (let (r, t) = f (bw_state w) in (r, w\<lparr>bw_state := t\<rparr>))"

definition set_conn :: "nat \<Rightarrow> (bridge_conn \<Rightarrow> bridge_conn) \<Rightarrow> bridge_world \<Rightarrow> bridge_world" where
  "set_conn k f w = (if k < length (bw_conns w) then w\<lparr>bw_conns := (bw_conns w)[k := f (bw_conns w ! k)]\<rparr> else w)"

section \<open>Pending requests\<close>

text \<open>A second request under an id drops the sender of the first.\<close>

definition pending_register :: "string \<Rightarrow> bridge_conn \<Rightarrow> bridge_conn" where
  "pending_register i c = c\<lparr>cn_requests := List.insert i (cn_requests c)\<rparr>"

definition pending_settle :: "string \<Rightarrow> json + string \<Rightarrow> bridge_conn \<Rightarrow> bool \<times> bridge_conn" where
  "pending_settle i r c =
     (if i \<in> set (cn_requests c)
      then (True, c\<lparr>cn_requests := remove1 i (cn_requests c), cn_answers := cn_answers c @ [(i, r)]\<rparr>)
      else (False, c))"

definition pending_resolve :: "string \<Rightarrow> json \<Rightarrow> bridge_conn \<Rightarrow> bool \<times> bridge_conn" where
  "pending_resolve i data = pending_settle i (Inl data)"

definition pending_reject :: "string \<Rightarrow> string \<Rightarrow> bridge_conn \<Rightarrow> bool \<times> bridge_conn" where
  "pending_reject i err = pending_settle i (Inr err)"

definition pending_cancel_all :: "bridge_conn \<Rightarrow> bridge_conn" where
  "pending_cancel_all c =
     c\<lparr>cn_requests := [],
       cn_answers := cn_answers c @ map (\<lambda>i. (i, Inr (''Worker disconnected (request '' @ i @ '')''))) (cn_requests c)\<rparr>"

definition pending_len :: "bridge_conn \<Rightarrow> nat" where
  "pending_len c = length (cn_requests c)"

section \<open>The registry\<close>

definition registry_register ::
  "bridge_env \<Rightarrow> string \<Rightarrow> worker_capability list \<Rightarrow> worker_resource list \<Rightarrow> nat \<Rightarrow> bridge_world \<Rightarrow>
   (bridge_error + unit) \<times> bridge_world" where
  "registry_register B adapter caps res k w =
     (if adapter \<in> fst ` set (bw_workers w) then (Inl (AlreadyConnected adapter), w)
      else let db = bw_state w in
        (Inr (), w\<lparr>bw_state := db\<lparr>ticks := Suc (ticks db)\<rparr>,
           bw_workers := bw_workers w @ [(adapter, \<lparr>we_adapter_id = adapter, we_capabilities = caps,
             we_resources = res, we_connected_at = now_text (be_state B) (ticks db), we_conn = k\<rparr>)]\<rparr>))"

definition registry_unregister :: "string \<Rightarrow> bridge_world \<Rightarrow> bridge_world" where
  "registry_unregister adapter w = w\<lparr>bw_workers := filter (\<lambda>(a, _). a \<noteq> adapter) (bw_workers w)\<rparr>"

definition is_connected :: "string \<Rightarrow> bridge_world \<Rightarrow> bool" where
  "is_connected adapter w = (map_of (bw_workers w) adapter \<noteq> None)"

definition registry_send ::
  "string \<Rightarrow> bridge_server_message \<Rightarrow> bridge_world \<Rightarrow> (bridge_error + unit) \<times> bridge_world" where
  "registry_send adapter m w =
     (case map_of (bw_workers w) adapter of
        None \<Rightarrow> (Inl (NotConnected adapter), w)
      | Some e \<Rightarrow>
          if we_conn e < length (bw_conns w) \<and> cn_open (bw_conns w ! we_conn e)
          then (Inr (), set_conn (we_conn e) (\<lambda>c. c\<lparr>cn_sent := cn_sent c @ [m]\<rparr>) w)
          else (Inl (BridgeChannel (''Send failed for '' @ adapter)), w))"

definition registry_list :: "bridge_world \<Rightarrow> string list" where
  "registry_list w = map fst (bw_workers w)"

definition registry_disconnect_all :: "bridge_world \<Rightarrow> bridge_world" where
  "registry_disconnect_all w =
     (fold (\<lambda>(_, e). set_conn (we_conn e) pending_cancel_all) (bw_workers w) w)\<lparr>bw_workers := []\<rparr>"

section \<open>Pushing\<close>

text \<open>
  The task that pushes items waits at the registry between its statements, where others run: it is
  cut into steps. A step reads and marks the next item, hands it to the channel, or gives back what
  could not be sent.
\<close>

datatype push_phase = PushReady | PushMarked json | PushUnsent

record push_task =
  pt_adapter :: string
  pt_items :: "outbox_item list"
  pt_phase :: push_phase

definition next_item :: "push_task \<Rightarrow> push_task" where
  "next_item p = p\<lparr>pt_items := tl (pt_items p), pt_phase := PushReady\<rparr>"

definition push_step :: "bridge_env \<Rightarrow> push_task \<Rightarrow> bridge_world \<Rightarrow> push_task \<times> bridge_world" where
  "push_step B p w =
     (case pt_items p of
        [] \<Rightarrow> (p, w)
      | it # _ \<Rightarrow>
          (case pt_phase p of
             PushReady \<Rightarrow>
               (case json_from_str (env_codec (be_state B)) (oi_payload it) of
                  None \<Rightarrow> (next_item p, w)
                | Some payload \<Rightarrow>
                    (case with_store (outbox_mark_inflight B (oi_id it)) w of
                       (Inl _, v) \<Rightarrow> (next_item p, v)
                     | (Inr _, v) \<Rightarrow> (p\<lparr>pt_phase := PushMarked payload\<rparr>, v)))
           | PushMarked payload \<Rightarrow>
               (case registry_send (pt_adapter p) (BmOutboxItem (oi_id it) (oi_capability it) payload) w of
                  (Inl _, v) \<Rightarrow> (p\<lparr>pt_phase := PushUnsent\<rparr>, v)
                | (Inr _, v) \<Rightarrow> (next_item p, v))
           | PushUnsent \<Rightarrow> (next_item p, snd (with_store (outbox_reset_inflight (pt_adapter p)) w))))"

definition push_single_item :: "bridge_env \<Rightarrow> string \<Rightarrow> outbox_item \<Rightarrow> bridge_world \<Rightarrow> bridge_world" where
  "push_single_item B adapter it w =
     (case json_from_str (env_codec (be_state B)) (oi_payload it) of
        None \<Rightarrow> w
      | Some payload \<Rightarrow>
          (case with_store (outbox_mark_inflight B (oi_id it)) w of
             (Inl _, v) \<Rightarrow> v
           | (Inr _, v) \<Rightarrow>
               (case registry_send adapter (BmOutboxItem (oi_id it) (oi_capability it) payload) v of
                  (Inl _, u) \<Rightarrow> snd (with_store (outbox_reset_inflight adapter) u)
                | (Inr _, u) \<Rightarrow> u)))"

definition push_items :: "bridge_env \<Rightarrow> string \<Rightarrow> outbox_item list \<Rightarrow> bridge_world \<Rightarrow> bridge_world" where
  "push_items B adapter its w = fold (push_single_item B adapter) its w"

definition push_pending :: "bridge_env \<Rightarrow> string \<Rightarrow> bridge_world \<Rightarrow> bridge_world" where
  "push_pending B adapter w =
     (case with_store (outbox_get_unacked adapter) w of
        (Inl _, v) \<Rightarrow> v
      | (Inr its, v) \<Rightarrow> push_items B adapter its v)"

text \<open>One tick of the retry loop: the workers connected when it begins, one after the other.\<close>

definition retry_adapter :: "bridge_env \<Rightarrow> string \<Rightarrow> bridge_world \<Rightarrow> bridge_world" where
  "retry_adapter B adapter w =
     (case with_store (outbox_get_retryable B adapter) w of
        (Inl _, v) \<Rightarrow> v
      | (Inr its, v) \<Rightarrow> push_pending B adapter (push_items B adapter its v))"

definition retry_tick :: "bridge_env \<Rightarrow> bridge_world \<Rightarrow> bridge_world" where
  "retry_tick B w = fold (retry_adapter B) (registry_list w) w"

definition enqueue_and_push ::
  "bridge_env \<Rightarrow> string \<Rightarrow> string \<Rightarrow> json \<Rightarrow> string option \<Rightarrow> string option \<Rightarrow> string option \<Rightarrow>
   bridge_world \<Rightarrow> (bridge_error + string) \<times> bridge_world" where
  "enqueue_and_push B adapter capability payload sid thread agent w =
     (case with_store (outbox_insert B adapter capability payload sid thread agent) w of
        (Inl e, v) \<Rightarrow> (Inl (BridgeDatabase e), v)
      | (Inr i, v) \<Rightarrow> (Inr i, if is_connected adapter v then push_pending B adapter v else v))"

section \<open>The session of a worker\<close>

text \<open>
  The first message is read under a timeout; what follows a \<open>Hello\<close>. The receiver of a refused
  worker's channel is dropped. \<open>acked\<close>: whether the acknowledgement could be sent.
\<close>

definition accept_worker ::
  "bridge_env \<Rightarrow> string \<Rightarrow> worker_capability list \<Rightarrow> worker_resource list \<Rightarrow> string option \<Rightarrow> bool \<Rightarrow>
   bridge_world \<Rightarrow> (bridge_error + nat) \<times> bridge_world" where
  "accept_worker B adapter caps res resume acked w =
     (let k = length (bw_conns w);
          conn = \<lparr>cn_adapter = adapter, cn_open = True, cn_sent = [], cn_requests = [], cn_answers = []\<rparr>
      in case registry_register B adapter caps res k (w\<lparr>bw_conns := bw_conns w @ [conn]\<rparr>) of
           (Inl e, v) \<Rightarrow> (Inl e, set_conn k (\<lambda>c. c\<lparr>cn_open := False\<rparr>) v)
         | (Inr _, v) \<Rightarrow>
             let db = bw_state v; u = v\<lparr>bw_state := db\<lparr>ticks := Suc (ticks db)\<rparr>\<rparr>
             in if \<not> acked
                then (Inl (BridgeChannel ''Connection closed''),
                  set_conn k (\<lambda>c. c\<lparr>cn_open := False\<rparr>) (registry_unregister adapter u))
                else let (items, t) = with_store (case resume of
                    Some since \<Rightarrow> outbox_get_since adapter since
                  | None \<Rightarrow> outbox_get_unacked adapter) u
                in (Inr k, push_items B adapter (case items of Inl _ \<Rightarrow> [] | Inr its \<Rightarrow> its) t))"

text \<open>
  \<open>None\<close> is a panic of the task: the instant a worker asks to wait for does not exist. \<open>s as i64\<close>
  is the value of the 64 bits with their sign.
\<close>

fun handle_worker_message ::
  "bridge_env \<Rightarrow> nat \<Rightarrow> string \<Rightarrow> bool \<Rightarrow> worker_message \<Rightarrow> bridge_world \<Rightarrow> bridge_world option" where
  "handle_worker_message B k adapter bus (WmAck i) w = Some (snd (with_store (outbox_mark_sent B i) w))"
| "handle_worker_message B k adapter bus (WmFail i err after) w =
     (case after of
        None \<Rightarrow> Some (snd (with_store (outbox_mark_failed i err None) w))
      | Some s \<Rightarrow>
          let db = bw_state w; v = w\<lparr>bw_state := db\<lparr>ticks := Suc (ticks db)\<rparr>\<rparr>
          in (case be_instant_after B (ticks db) (sint s) of
                None \<Rightarrow> None
              | Some t \<Rightarrow> Some (snd (with_store (outbox_mark_failed i err (Some t)) v))))"
| "handle_worker_message B k adapter bus (WmResourceResponse i data) w =
     Some (set_conn k (\<lambda>c. snd (pending_resolve i data c)) w)"
| "handle_worker_message B k adapter bus (WmCapabilityResponse i data) w =
     Some (set_conn k (\<lambda>c. snd (pending_resolve i data c)) w)"
| "handle_worker_message B k adapter bus (WmInbound text thread sender agent metadata) w =
     (if bus
      then Some (w\<lparr>bw_submitted := bw_submitted w @
        [\<lparr>sq_agent_id = (case agent of None \<Rightarrow> ''root'' | Some a \<Rightarrow> a), sq_message = text,
          sq_source = ''connector'', sq_respond_to = [adapter], sq_connector_id = adapter,
          sq_thread_id = thread, sq_metadata = metadata\<rparr>]\<rparr>)
      else Some w)"
| "handle_worker_message B k adapter bus WmPong w = Some w"
| "handle_worker_message B k adapter bus (WmHello _ _ _ _) w = Some w"

definition heartbeat :: "string \<Rightarrow> bridge_world \<Rightarrow> bool \<times> bridge_world" where
  "heartbeat adapter w =
     (case registry_send adapter BmPing w of (Inl _, v) \<Rightarrow> (False, v) | (Inr _, v) \<Rightarrow> (True, v))"

text \<open>The end of the message loop, and a panic in it, after which nothing is cleaned up.\<close>

definition end_session :: "nat \<Rightarrow> string \<Rightarrow> bridge_world \<Rightarrow> bridge_world" where
  "end_session k adapter w =
     set_conn k (\<lambda>c. c\<lparr>cn_open := False\<rparr>)
       (snd (with_store (outbox_reset_inflight adapter)
         (registry_unregister adapter (set_conn k pending_cancel_all w))))"

definition abandon_session :: "nat \<Rightarrow> bridge_world \<Rightarrow> bridge_world" where
  "abandon_session k w = set_conn k (\<lambda>c. c\<lparr>cn_open := False\<rparr>) w"

end
