(* ===== verification/Bridge_History.thy ===== *)
theory Bridge_History
  imports Bridge_Workers State_Samples
begin

text \<open>
  The bridge over time. Its tasks take turns at the registry and at the store, so a history is any
  sequence of their steps, with any failures of the store.
\<close>

section \<open>Histories\<close>

datatype bridge_action =
  ActEnqueue string string json "string option" "string option" "string option"
| ActPush string
| ActRetry string
| ActReplay string string
| ActStep nat
| ActRegister string "worker_capability list" "worker_resource list"
| ActUnregister string
| ActClose nat
| ActMessage nat string bool worker_message
| ActPing string
| ActReset string
| ActResetAll
| ActCleanup "32 word"
| ActDisconnectAll
| ActTick

record bridge_run =
  br_world :: bridge_world
  br_tasks :: "push_task list"

definition in_world :: "(bridge_world \<Rightarrow> bridge_world) \<Rightarrow> bridge_run \<Rightarrow> bridge_run" where
  "in_world f r = r\<lparr>br_world := f (br_world r)\<rparr>"

text \<open>A task begins with the items it read.\<close>

definition start_push :: "string \<Rightarrow> outbox_item list st_op \<Rightarrow> bridge_run \<Rightarrow> bridge_run" where
  "start_push adapter f r =
     (case with_store f (br_world r) of
        (Inl _, v) \<Rightarrow> r\<lparr>br_world := v\<rparr>
      | (Inr its, v) \<Rightarrow>
          r\<lparr>br_world := v, br_tasks := br_tasks r @ [\<lparr>pt_adapter = adapter, pt_items = its, pt_phase = PushReady\<rparr>]\<rparr>)"

definition step_task :: "bridge_env \<Rightarrow> nat \<Rightarrow> bridge_run \<Rightarrow> bridge_run" where
  "step_task B k r =
     (if k < length (br_tasks r)
      then let (p, v) = push_step B (br_tasks r ! k) (br_world r)
        in r\<lparr>br_world := v, br_tasks := (br_tasks r)[k := p]\<rparr>
      else r)"

definition new_conn :: "string \<Rightarrow> bridge_conn" where
  "new_conn adapter = \<lparr>cn_adapter = adapter, cn_open = True, cn_sent = [], cn_requests = [], cn_answers = []\<rparr>"

fun bridge_act :: "bridge_env \<Rightarrow> bridge_action \<Rightarrow> bridge_run \<Rightarrow> bridge_run" where
  "bridge_act B (ActEnqueue a cap p sid th ag) r =
     in_world (\<lambda>w. snd (with_store (outbox_insert B a cap p sid th ag) w)) r"
| "bridge_act B (ActPush a) r = start_push a (outbox_get_unacked a) r"
| "bridge_act B (ActRetry a) r = start_push a (outbox_get_retryable B a) r"
| "bridge_act B (ActReplay a since) r = start_push a (outbox_get_since a since) r"
| "bridge_act B (ActStep k) r = step_task B k r"
| "bridge_act B (ActRegister a caps res) r =
     in_world (\<lambda>w. snd (registry_register B a caps res (length (bw_conns w)) (w\<lparr>bw_conns := bw_conns w @ [new_conn a]\<rparr>))) r"
| "bridge_act B (ActUnregister a) r = in_world (registry_unregister a) r"
| "bridge_act B (ActClose k) r = in_world (set_conn k (\<lambda>c. (pending_cancel_all c)\<lparr>cn_open := False\<rparr>)) r"
| "bridge_act B (ActMessage k a bus m) r =
     in_world (\<lambda>w. case handle_worker_message B k a bus m w of None \<Rightarrow> abandon_session k w | Some v \<Rightarrow> v) r"
| "bridge_act B (ActPing a) r = in_world (\<lambda>w. snd (heartbeat a w)) r"
| "bridge_act B (ActReset a) r = in_world (\<lambda>w. snd (with_store (outbox_reset_inflight a) w)) r"
| "bridge_act B ActResetAll r = in_world (\<lambda>w. snd (with_store outbox_reset_all_inflight w)) r"
| "bridge_act B (ActCleanup n) r = in_world (\<lambda>w. snd (with_store (outbox_cleanup_sent B n) w)) r"
| "bridge_act B ActDisconnectAll r = in_world registry_disconnect_all r"
| "bridge_act B ActTick r = in_world (\<lambda>w. w\<lparr>bw_state := (bw_state w)\<lparr>ticks := Suc (ticks (bw_state w))\<rparr>\<rparr>) r"

definition run_bridge :: "bridge_env \<Rightarrow> bridge_action list \<Rightarrow> bridge_run \<Rightarrow> bridge_run" where
  "run_bridge B acts r = fold (bridge_act B) acts r"

section \<open>The life of an item\<close>

definition row_of :: "string \<Rightarrow> outbox_row list \<Rightarrow> outbox_row option" where
  "row_of i rows = find (\<lambda>x. ob_id x = i) rows"

abbreviation outbox_of :: "bridge_world \<Rightarrow> outbox_row list" where
  "outbox_of w \<equiv> outbox_t (bw_state w)"

abbreviation item_row :: "string \<Rightarrow> bridge_run \<Rightarrow> outbox_row option" where
  "item_row i r \<equiv> row_of i (outbox_of (br_world r))"

text \<open>What an item is, apart from its delivery\<close>

definition same_item :: "outbox_row \<Rightarrow> outbox_row \<Rightarrow> bool" where
  "same_item x y \<longleftrightarrow>
     ob_id x = ob_id y \<and> ob_adapter_id x = ob_adapter_id y \<and> ob_capability x = ob_capability y \<and>
     ob_payload x = ob_payload y \<and> ob_session_id x = ob_session_id y \<and> ob_thread_id x = ob_thread_id y \<and>
     ob_agent_id x = ob_agent_id y \<and> ob_created_at x = ob_created_at y"

text \<open>
  The moves of an item, each with the act that makes it: a push marks it, the worker settles it, a
  reset gives back what is in flight, and only what was sent is ever removed.
\<close>

definition delivery_move :: "bridge_run \<Rightarrow> bridge_action \<Rightarrow> outbox_row \<Rightarrow> outbox_row \<Rightarrow> bool" where
  "delivery_move r act x y \<longleftrightarrow>
     same_item x y \<and>
     (case act of
        ActStep k \<Rightarrow>
          k < length (br_tasks r) \<and>
          (ob_status y = ''inflight'' \<and> ob_retry_count y = ob_retry_count x \<and>
             (\<exists>it its. pt_items (br_tasks r ! k) = it # its \<and> oi_id it = ob_id x) \<or>
           ob_status x = ''inflight'' \<and> y = back_to_pending x \<and> ob_adapter_id x = pt_adapter (br_tasks r ! k))
      | ActMessage k a bus (WmAck i) \<Rightarrow> i = ob_id x \<and> ob_status y = ''sent'' \<and> ob_retry_count y = ob_retry_count x
      | ActMessage k a bus (WmFail i err after) \<Rightarrow>
          i = ob_id x \<and> ob_status y = ''failed'' \<and> ob_retry_count y = ob_retry_count x + 1 \<and> ob_error y = Some err
      | ActReset a \<Rightarrow> a = ob_adapter_id x \<and> ob_status x = ''inflight'' \<and> y = back_to_pending x
      | ActResetAll \<Rightarrow> ob_status x = ''inflight'' \<and> y = back_to_pending x
      | _ \<Rightarrow> False)"

definition item_moves :: "bridge_run \<Rightarrow> bridge_action \<Rightarrow> outbox_row option \<Rightarrow> outbox_row option \<Rightarrow> bool" where
  "item_moves r act old now \<longleftrightarrow>
     old = now \<or>
     (case (old, now) of
        (None, Some y) \<Rightarrow>
          (case act of
             ActEnqueue a cap p sid th ag \<Rightarrow>
               ob_status y = ''pending'' \<and> ob_retry_count y = 0 \<and> ob_adapter_id y = a \<and> ob_capability y = cap \<and>
               ob_session_id y = sid \<and> ob_thread_id y = th \<and> ob_agent_id y = ag
           | _ \<Rightarrow> False)
      | (Some x, Some y) \<Rightarrow> delivery_move r act x y
      | (Some x, None) \<Rightarrow> ob_status x = ''sent'' \<and> (\<exists>n. act = ActCleanup n)
      | _ \<Rightarrow> False)"

section \<open>What the statements do to a row\<close>

lemma row_of_update:
  assumes "\<And>x. ob_id (f x) = ob_id x"
  shows "row_of i (sql_update p f rows) = map_option (\<lambda>x. if p x then f x else x) (row_of i rows)"
  using assms by (induction rows) (auto simp: row_of_def sql_update_def)

lemma row_of_None: "row_of i rows = None \<longleftrightarrow> i \<notin> ob_id ` set rows"
  by (auto simp: row_of_def find_None_iff)

lemma row_of_delete:
  assumes "unique_key ob_id rows"
  shows "row_of i (sql_delete p rows) = (case row_of i rows of None \<Rightarrow> None | Some x \<Rightarrow> if p x then None else Some x)"
  using assms
proof (induction rows)
  case (Cons y rows)
  have "row_of (ob_id y) rows = None" "row_of (ob_id y) (sql_delete p rows) = None"
    using Cons.prems by (auto simp: row_of_None sql_delete_def)
  with Cons show ?case by (auto simp: row_of_def sql_delete_def)
qed (simp add: row_of_def sql_delete_def)

lemma row_of_append: "row_of i (rows @ [x]) = (case row_of i rows of None \<Rightarrow> if ob_id x = i then Some x else None | r \<Rightarrow> r)"
  by (induction rows) (auto simp: row_of_def)

text \<open>What a statement on the outbox leaves: the table as it was, or the change.\<close>

definition either :: "(outbox_row list \<Rightarrow> outbox_row list \<Rightarrow> bool) \<Rightarrow> 'a st_op \<Rightarrow> bool" where
  "either R f \<longleftrightarrow> (\<forall>db. outbox_t (snd (f db)) = outbox_t db \<or> R (outbox_t db) (outbox_t (snd (f db))))"

lemma eitherI: "(\<And>db. outbox_t (snd (f db)) = outbox_t db \<or> R (outbox_t db) (outbox_t (snd (f db)))) \<Longrightarrow> either R f"
  by (simp add: either_def)

lemma either_statement:
  assumes "either R f"
  shows "either R (statement f)"
proof (rule eitherI)
  fix db
  have "outbox_t (snd (f (db\<lparr>script := bs\<rparr>))) = outbox_t db \<or> R (outbox_t db) (outbox_t (snd (f (db\<lparr>script := bs\<rparr>))))" for bs
    using assms [unfolded either_def, rule_format, of "db\<lparr>script := bs\<rparr>"] by simp
  with assms show "outbox_t (snd (statement f db)) = outbox_t db \<or> R (outbox_t db) (outbox_t (snd (statement f db)))"
    by (auto simp: statement_def either_def split: list.split)
qed

lemma either_connection: "either R f \<Longrightarrow> either R (connection f)"
  by (simp add: connection_def either_statement)

lemma either_select: "either R (select q)"
  unfolding select_def by (rule either_statement) (simp add: either_def)

lemma either_change: "(\<And>db. R (outbox_t db) (outbox_t (u db))) \<Longrightarrow> either R (change n u)"
  unfolding change_def by (rule either_statement) (simp add: either_def)

lemma either_checked: "(\<And>db. ok db \<Longrightarrow> R (outbox_t db) (outbox_t (u db))) \<Longrightarrow> either R (checked_change ok n u)"
  unfolding checked_change_def by (rule either_statement) (auto simp: either_def)

lemma eitherD: "either R f \<Longrightarrow> f db = (r, t) \<Longrightarrow> outbox_t t = outbox_t db \<or> R (outbox_t db) (outbox_t t)"
  unfolding either_def by (metis snd_conv)

lemma eitherI2: "(\<And>db r t. f db = (r, t) \<Longrightarrow> outbox_t t = outbox_t db \<or> R (outbox_t db) (outbox_t t)) \<Longrightarrow> either R f"
  unfolding either_def by (metis prod.collapse)

lemma either_unit: "either R f \<Longrightarrow> either R (unit_op f)"
  by (rule eitherI2) (auto simp: unit_op_def bnd_def ret_def split: prod.splits sum.splits dest: eitherD)

lemma either_now:
  assumes "\<And>now. either R (f now)"
  shows "either R (sql_now B f)"
  using eitherD [OF assms] by (intro eitherI2) (force simp: sql_now_def)

lemma either_ticked:
  assumes "\<And>d. either R (f d)"
  shows "either R (\<lambda>db. f db (db\<lparr>ticks := Suc (ticks db)\<rparr>))"
  using eitherD [OF assms] by (intro eitherI2) force

lemmas either_rules = either_connection either_select either_unit either_now

lemma either_new_v4:
  assumes "\<And>u. either R (f u)"
  shows "either R (bnd (new_v4 E) f)"
  using eitherD [OF assms] by (intro eitherI2) (force simp: new_v4_def bnd_def)

lemma either_then_ret: "either R f \<Longrightarrow> either R (bnd f (\<lambda>_. ret x))"
  by (rule eitherI2) (auto simp: bnd_def ret_def split: prod.splits sum.splits dest: eitherD)

lemma either_with_store: "either R f \<Longrightarrow> with_store f w = (r, v) \<Longrightarrow> outbox_of v = outbox_of w \<or> R (outbox_of w) (outbox_of v)"
  by (auto simp: with_store_def split: prod.splits dest: eitherD)

lemma either_set:
  "either (\<lambda>T U. U = sql_update p f T) (set_outbox p f)"
  unfolding set_outbox_def by (rule either_change) simp

section \<open>The effect of each statement\<close>

lemma insert_rows:
  "either (\<lambda>T U. \<exists>x. U = T @ [x] \<and> ob_id x \<notin> ob_id ` set T \<and> ob_adapter_id x = a \<and> ob_capability x = cap \<and>
      ob_payload x = json_to_string (env_codec (be_state B)) p \<and> ob_status x = ''pending'' \<and> ob_retry_count x = 0 \<and>
      ob_session_id x = sid \<and> ob_thread_id x = th \<and> ob_agent_id x = ag)
    (outbox_insert B a cap p sid th ag)"
  unfolding outbox_insert_def Let_def
  by (intro either_new_v4 either_then_ret either_rules either_checked) auto

lemma mark_inflight_rows:
  "either (\<lambda>T U. \<exists>now. U = sql_update (\<lambda>r. ob_id r = i) (\<lambda>r. r\<lparr>ob_status := ''inflight'', ob_sent_at := Some now\<rparr>) T)
    (outbox_mark_inflight B i)"
  unfolding outbox_mark_inflight_def set_outbox_def by (intro either_rules either_change) auto

lemma mark_sent_rows:
  "either (\<lambda>T U. \<exists>now. U = sql_update (\<lambda>r. ob_id r = i) (\<lambda>r. r\<lparr>ob_status := ''sent'', ob_sent_at := Some now\<rparr>) T)
    (outbox_mark_sent B i)"
  unfolding outbox_mark_sent_def set_outbox_def by (intro either_rules either_change) auto

lemma mark_failed_rows:
  "either (\<lambda>T U. U = sql_update (\<lambda>r. ob_id r = i) (\<lambda>r. r\<lparr>ob_status := ''failed'', ob_error := Some err,
       ob_retry_count := ob_retry_count r + 1, ob_retry_after := after\<rparr>) T)
    (outbox_mark_failed i err after)"
  unfolding outbox_mark_failed_def set_outbox_def by (intro either_rules either_change) auto

lemma reset_rows:
  "either (\<lambda>T U. U = sql_update (\<lambda>r. ob_adapter_id r = a \<and> ob_status r = ''inflight'') back_to_pending T) (outbox_reset_inflight a)"
  "either (\<lambda>T U. U = sql_update (\<lambda>r. ob_status r = ''inflight'') back_to_pending T) outbox_reset_all_inflight"
  unfolding outbox_reset_inflight_def outbox_reset_all_inflight_def set_outbox_def
  by (intro either_rules either_change; simp)+

lemma cleanup_rows:
  "either (\<lambda>T U. \<exists>old. U = sql_delete (\<lambda>r. ob_status r = ''sent'' \<and> ob_created_at r < old) T) (outbox_cleanup_sent B n)"
  unfolding outbox_cleanup_sent_def Let_def
  by (rule either_connection, rule either_ticked [where f = "\<lambda>d. change
      (\<lambda>e. sql_changes (\<lambda>r. ob_status r = ''sent'' \<and> ob_created_at r < be_days_before B (ticks d) n) (outbox_t e))
      (\<lambda>e. e\<lparr>outbox_t := sql_delete (\<lambda>r. ob_status r = ''sent'' \<and> ob_created_at r < be_days_before B (ticks d) n) (outbox_t e)\<rparr>)"],
    rule either_change, auto)

lemma get_rows:
  "either (\<lambda>T U. False) (outbox_get_unacked a)"
  "either (\<lambda>T U. False) (outbox_get_retryable B a)"
  "either (\<lambda>T U. False) (outbox_get_since a s)"
proof -
  show "either (\<lambda>T U. False) (outbox_get_unacked a)" "either (\<lambda>T U. False) (outbox_get_retryable B a)"
    unfolding outbox_get_unacked_def outbox_get_retryable_def by (intro either_rules)+
  have sel: "select q db = (r, t) \<Longrightarrow> outbox_t t = outbox_t db" for q :: "statedb \<Rightarrow> 'q" and db r t
    using eitherD [OF either_select [of "\<lambda>T U. False" q]] by blast
  show "either (\<lambda>T U. False) (outbox_get_since a s)"
    unfolding outbox_get_since_def
    by (intro either_connection eitherI2) (auto split: prod.splits sum.splits option.splits dest!: sel)
qed

section \<open>Every act follows the life of an item\<close>

lemma outbox_of_calls [simp]:
  "outbox_of (set_conn k f w) = outbox_of w"
  "outbox_of (registry_unregister a w) = outbox_of w"
  "outbox_of (abandon_session k w) = outbox_of w"
  "outbox_of (snd (registry_send a m w)) = outbox_of w"
  "outbox_of (snd (registry_register B a caps res k w)) = outbox_of w"
  by (simp_all add: set_conn_def registry_unregister_def abandon_session_def registry_send_def
      registry_register_def Let_def split: option.split)

lemma outbox_of_disconnect [simp]: "outbox_of (registry_disconnect_all w) = outbox_of w"
proof -
  have "outbox_of (fold (\<lambda>(_, e). set_conn (we_conn e) pending_cancel_all) es w) = outbox_of w" for es
    by (induction es arbitrary: w) auto
  then show ?thesis by (simp add: registry_disconnect_all_def)
qed

lemma outbox_of_ping [simp]: "outbox_of (snd (heartbeat a w)) = outbox_of w"
  using outbox_of_calls(4) [of a BmPing w]
  by (cases "registry_send a BmPing w") (auto simp: heartbeat_def split: sum.split)

lemma outbox_of_sent: "registry_send a m w = (res, v) \<Longrightarrow> outbox_of v = outbox_of w"
  using outbox_of_calls(4) [of a m w] by simp

lemma stored:
  assumes "either R f"
  shows "outbox_of (snd (with_store f w)) = outbox_of w \<or> R (outbox_of w) (outbox_of (snd (with_store f w)))"
  using either_with_store [OF assms, of w "fst (with_store f w)" "snd (with_store f w)"] by simp

lemma start_push_same [simp]:
  assumes "either (\<lambda>T U. False) f"
  shows "outbox_of (br_world (start_push a f r)) = outbox_of (br_world r)"
  using either_with_store [OF assms, of "br_world r"]
  by (auto simp: start_push_def split: prod.split sum.split)

text \<open>A step of a push leaves the table alone, marks its next item or gives back what is in flight.\<close>

lemma push_step_rows:
  assumes "push_step B p w = (q, v)"
  shows "outbox_of v = outbox_of w \<or>
    (\<exists>it its now. pt_items p = it # its \<and>
      outbox_of v = sql_update (\<lambda>r. ob_id r = oi_id it) (\<lambda>r. r\<lparr>ob_status := ''inflight'', ob_sent_at := Some now\<rparr>) (outbox_of w)) \<or>
    outbox_of v = sql_update (\<lambda>r. ob_adapter_id r = pt_adapter p \<and> ob_status r = ''inflight'') back_to_pending (outbox_of w)"
proof (cases "pt_items p")
  case (Cons it its)
  note mark = either_with_store [OF mark_inflight_rows [where B = B and i = "oi_id it"], where w = w]
  note give = stored [OF reset_rows(1) [where a = "pt_adapter p"], where w = w]
  from assms Cons mark give show ?thesis
    by (cases "pt_phase p")
      (force simp: push_step_def split: option.splits prod.splits sum.splits dest: outbox_of_sent)+
qed (use assms in \<open>simp add: push_step_def\<close>)

lemma moves_same [simp]: "item_moves r act x x"
  by (simp add: item_moves_def)

lemma same_item_refl [simp]: "same_item x x"
  by (simp add: same_item_def)

lemma same_item_updates [simp]:
  "same_item x (x\<lparr>ob_status := s, ob_sent_at := t\<rparr>)"
  "same_item x (x\<lparr>ob_status := s, ob_error := e, ob_retry_count := n, ob_retry_after := a\<rparr>)"
  "same_item x (back_to_pending x)"
  by (simp_all add: same_item_def back_to_pending_def)

lemma back_to_pending_fields [simp]:
  "ob_id (back_to_pending x) = ob_id x" "ob_status (back_to_pending x) = ''pending''"
  by (simp_all add: back_to_pending_def)

lemma moves_update:
  assumes "\<And>x. ob_id (f x) = ob_id x" and "\<And>x. row_of i T = Some x \<Longrightarrow> ob_id x = i \<Longrightarrow> p x \<Longrightarrow> delivery_move r act x (f x)"
  shows "item_moves r act (row_of i T) (row_of i (sql_update p f T))"
proof (cases "row_of i T")
  case (Some x)
  then have "ob_id x = i" by (auto simp: row_of_def find_Some_iff)
  with Some assms show ?thesis by (simp add: row_of_update item_moves_def)
qed (simp add: row_of_update assms)

lemma every_act_moves:
  assumes "unique_key ob_id (outbox_of (br_world r))"
  shows "item_moves r act (item_row i r) (item_row i (bridge_act B act r))"
proof (cases act)
  case (ActEnqueue a cap p sid th ag)
  with stored [OF insert_rows [where B = B and a = a and cap = cap and p = p and sid = sid and th = th and ag = ag], where w = "br_world r"] show ?thesis
    by (auto simp: in_world_def row_of_append item_moves_def split: option.split if_splits)
next
  case (ActStep k)
  show ?thesis
  proof (cases "k < length (br_tasks r)")
    case True
    obtain p v where pv: "push_step B (br_tasks r ! k) (br_world r) = (p, v)" by fastforce
    with True ActStep push_step_rows [OF pv] show ?thesis
      by (auto simp: step_task_def intro!: moves_update) (auto simp: delivery_move_def)
  qed (use ActStep in \<open>simp add: step_task_def\<close>)
next
  case (ActMessage k a bus m)
  show ?thesis
  proof (cases m)
    case (WmAck j)
    with ActMessage stored [OF mark_sent_rows [where B = B and i = j], where w = "br_world r"] show ?thesis
      by (auto simp: in_world_def intro!: moves_update) (auto simp: delivery_move_def)
  next
    case (WmFail j err after)
    have move: "item_moves r act (row_of i (outbox_of w)) (row_of i (outbox_of (snd (with_store (outbox_mark_failed j err a) w))))"
      for a w
      using stored [OF mark_failed_rows [where i = j and err = err and after = a], where w = w] ActMessage WmFail
      by (auto intro!: moves_update) (auto simp: delivery_move_def)
    let ?t = "(br_world r)\<lparr>bw_state := (bw_state (br_world r))\<lparr>ticks := Suc (ticks (bw_state (br_world r)))\<rparr>\<rparr>"
    from ActMessage WmFail move [of "br_world r" None] move [of ?t] show ?thesis
      by (cases after) (simp_all add: in_world_def Let_def split: option.split)
  qed (use ActMessage in \<open>auto simp: in_world_def\<close>)
next
  case (ActReset a)
  with stored [OF reset_rows(1) [where a = a], where w = "br_world r"] show ?thesis
    by (auto simp: in_world_def intro!: moves_update) (auto simp: delivery_move_def)
next
  case ActResetAll
  with stored [OF reset_rows(2), where w = "br_world r"] show ?thesis
    by (auto simp: in_world_def intro!: moves_update) (auto simp: delivery_move_def)
next
  case (ActCleanup n)
  with stored [OF cleanup_rows [where B = B and n = n], where w = "br_world r"] assms show ?thesis
    by (cases "item_row i r") (auto simp: in_world_def row_of_delete item_moves_def)
qed (simp_all add: in_world_def get_rows)

text \<open>
  C27: whatever a step of the bridge, a failing one included, it moves each item of the outbox only as
  its life allows: it appears pending when it is enqueued, it is marked in flight by a task that holds
  it, it is sent or failed by the message of a worker that names it, it goes back to pending from in
  flight only, it disappears only as a sent item in the clean-up, and what it says never changes.
\<close>

theorem every_act_follows_the_life_of_an_item:
  assumes "unique_key ob_id (outbox_of (br_world r))"
  shows "item_moves r act (item_row i r) (item_row i (bridge_act B act r))"
  using assms by (rule every_act_moves)

lemma unique_rows:
  assumes "unique_key ob_id (outbox_of (br_world r))"
  shows "unique_key ob_id (outbox_of (br_world (bridge_act B act r)))"
proof -
  have upd: "unique_key ob_id (sql_update p f T)" if "unique_key ob_id T" "\<And>x. ob_id (f x) = ob_id x" for p f T
  proof -
    have "map ob_id (sql_update p f T) = map ob_id T" using that(2) by (simp add: sql_update_def)
    with that(1) show ?thesis by simp
  qed
  show ?thesis
  proof (cases act)
    case (ActEnqueue a cap p sid th ag)
    with assms stored [OF insert_rows [where B = B and a = a and cap = cap and p = p and sid = sid and th = th and ag = ag], where w = "br_world r"]
    show ?thesis by (auto simp: in_world_def)
  next
    case (ActStep k)
    show ?thesis
    proof (cases "k < length (br_tasks r)")
      case True
      obtain p v where pv: "push_step B (br_tasks r ! k) (br_world r) = (p, v)" by fastforce
      with True ActStep push_step_rows [OF pv] assms show ?thesis by (auto simp: step_task_def upd)
    qed (use ActStep assms in \<open>simp add: step_task_def\<close>)
  next
    case (ActMessage k a bus m)
    have failed: "unique_key ob_id (outbox_of (snd (with_store (outbox_mark_failed j err af) w)))"
      if "unique_key ob_id (outbox_of w)" for j err af w
      using stored [OF mark_failed_rows [where i = j and err = err and after = af], where w = w] that by (auto simp: upd)
    have sent: "unique_key ob_id (outbox_of (snd (with_store (outbox_mark_sent B j) w)))"
      if "unique_key ob_id (outbox_of w)" for j w
      using stored [OF mark_sent_rows [where B = B and i = j], where w = w] that by (auto simp: upd)
    from assms ActMessage failed sent show ?thesis
      by (cases m) (auto simp: in_world_def Let_def split: option.split)
  next
    case (ActReset a)
    with assms stored [OF reset_rows(1) [where a = a], where w = "br_world r"] show ?thesis
      by (auto simp: in_world_def upd)
  next
    case ActResetAll
    with assms stored [OF reset_rows(2), where w = "br_world r"] show ?thesis
      by (auto simp: in_world_def upd)
  next
    case (ActCleanup n)
    with assms stored [OF cleanup_rows [where B = B and n = n], where w = "br_world r"] show ?thesis
      by (auto simp: in_world_def delete_simps)
  qed (use assms in \<open>simp_all add: in_world_def get_rows\<close>)
qed

section \<open>Nothing is lost\<close>

definition acknowledges :: "string \<Rightarrow> bridge_action \<Rightarrow> bool" where
  "acknowledges i act \<longleftrightarrow> (\<exists>k a bus. act = ActMessage k a bus (WmAck i))"

definition delivery_status :: "outbox_row \<Rightarrow> bool" where
  "delivery_status x \<longleftrightarrow> ob_status x \<in> {''pending'', ''inflight'', ''failed''}"

lemma still_there:
  assumes "item_moves r act (Some x) now" and "delivery_status x" and "\<not> acknowledges (ob_id x) act"
  shows "\<exists>y. now = Some y \<and> same_item x y \<and> delivery_status y \<and> ob_retry_count x \<le> ob_retry_count y"
  using assms
  by (cases now) (auto simp: item_moves_def delivery_move_def delivery_status_def acknowledges_def back_to_pending_def
      split: bridge_action.splits worker_message.splits)

lemma same_item_trans: "same_item x y \<Longrightarrow> same_item y z \<Longrightarrow> same_item x z"
  by (simp add: same_item_def)

text \<open>
  C26: an item that is in the outbox and not sent stays there, saying the same, through everything the
  bridge does and everything that fails, its retries only counting up, until a worker acknowledges it.
\<close>

theorem an_item_stays_until_it_is_acknowledged:
  assumes "unique_key ob_id (outbox_of (br_world r))" and "item_row i r = Some x" and "delivery_status x"
    and "\<not> (\<exists>act \<in> set acts. acknowledges i act)"
  shows "\<exists>y. item_row i (run_bridge B acts r) = Some y \<and> same_item x y \<and> delivery_status y \<and>
    ob_retry_count x \<le> ob_retry_count y"
  using assms
proof (induction acts arbitrary: r x)
  case Nil
  then show ?case by (simp add: run_bridge_def)
next
  case (Cons act acts)
  have i: "ob_id x = i" using Cons.prems(2) by (auto simp: row_of_def find_Some_iff)
  have "item_moves r act (Some x) (item_row i (bridge_act B act r))"
    using every_act_moves [OF Cons.prems(1), of act i B] Cons.prems(2) by simp
  from still_there [OF this Cons.prems(3)] Cons.prems(4) i obtain y where
    y: "item_row i (bridge_act B act r) = Some y" "same_item x y" "delivery_status y" "ob_retry_count x \<le> ob_retry_count y"
    by auto
  from Cons.IH [OF unique_rows [OF Cons.prems(1)] y(1,3)] Cons.prems(4) y show ?case
    by (auto simp: run_bridge_def intro: same_item_trans)
qed

section \<open>What a worker is handed\<close>

text \<open>\<open>asked\<close>: some act of the history enqueued this payload under this capability for this adapter.\<close>

definition asked :: "bridge_action set \<Rightarrow> string \<Rightarrow> string \<Rightarrow> json \<Rightarrow> bool" where
  "asked A adapter cap p \<longleftrightarrow> (\<exists>sid th ag. ActEnqueue adapter cap p sid th ag \<in> A)"

definition asked_text :: "bridge_env \<Rightarrow> bridge_action set \<Rightarrow> string \<Rightarrow> string \<Rightarrow> string \<Rightarrow> bool" where
  "asked_text B A adapter cap t \<longleftrightarrow> (\<exists>p. asked A adapter cap p \<and> t = json_to_string (env_codec (be_state B)) p)"

definition row_asked :: "bridge_env \<Rightarrow> bridge_action set \<Rightarrow> outbox_row \<Rightarrow> bool" where
  "row_asked B A x \<longleftrightarrow> asked_text B A (ob_adapter_id x) (ob_capability x) (ob_payload x)"

definition item_asked :: "bridge_env \<Rightarrow> bridge_action set \<Rightarrow> string \<Rightarrow> outbox_item \<Rightarrow> bool" where
  "item_asked B A adapter it \<longleftrightarrow> asked_text B A adapter (oi_capability it) (oi_payload it)"

definition task_asked :: "bridge_env \<Rightarrow> bridge_action set \<Rightarrow> push_task \<Rightarrow> bool" where
  "task_asked B A p \<longleftrightarrow>
     (\<forall>it \<in> set (pt_items p). item_asked B A (pt_adapter p) it) \<and>
     (case pt_phase p of
        PushMarked v \<Rightarrow> pt_items p \<noteq> [] \<longrightarrow> asked A (pt_adapter p) (oi_capability (hd (pt_items p))) v
      | _ \<Rightarrow> True)"

definition conn_asked :: "bridge_action set \<Rightarrow> bridge_conn \<Rightarrow> bool" where
  "conn_asked A c \<longleftrightarrow> (\<forall>i cap p. BmOutboxItem i cap p \<in> set (cn_sent c) \<longrightarrow> asked A (cn_adapter c) cap p)"

text \<open>The registry names a connection of the adapter.\<close>

definition registered :: "bridge_world \<Rightarrow> bool" where
  "registered w \<longleftrightarrow> (\<forall>(a, e) \<in> set (bw_workers w). we_conn e < length (bw_conns w) \<and> cn_adapter (bw_conns w ! we_conn e) = a)"

definition world_asked :: "bridge_env \<Rightarrow> bridge_action set \<Rightarrow> bridge_world \<Rightarrow> bool" where
  "world_asked B A w \<longleftrightarrow>
     (\<forall>x \<in> set (outbox_of w). row_asked B A x) \<and> (\<forall>c \<in> set (bw_conns w). conn_asked A c) \<and> registered w"

definition run_asked :: "bridge_env \<Rightarrow> bridge_action set \<Rightarrow> bridge_run \<Rightarrow> bool" where
  "run_asked B A r \<longleftrightarrow> world_asked B A (br_world r) \<and> (\<forall>p \<in> set (br_tasks r). task_asked B A p)"

lemma asked_mono: "asked A a cap p \<Longrightarrow> A \<subseteq> A' \<Longrightarrow> asked A' a cap p"
  by (auto simp: asked_def)

lemma rows_asked_update:
  assumes "\<forall>x \<in> set T. row_asked B A x"
    and "\<And>x. ob_adapter_id (f x) = ob_adapter_id x \<and> ob_capability (f x) = ob_capability x \<and> ob_payload (f x) = ob_payload x"
  shows "\<forall>x \<in> set (sql_update p f T). row_asked B A x"
  using assms by (auto simp: sql_update_def row_asked_def)

text \<open>Calls to the store leave connections and registry alone.\<close>

lemma with_store_outside [simp]:
  "bw_conns (snd (with_store f w)) = bw_conns w" "bw_workers (snd (with_store f w)) = bw_workers w"
  by (simp_all add: with_store_def split: prod.split)

lemma with_store_outside':
  assumes "with_store f w = (r, v)"
  shows "bw_conns v = bw_conns w" "bw_workers v = bw_workers w"
  using with_store_outside [of f w] assms by simp_all

lemma world_asked_store:
  assumes "world_asked B A w" and "\<forall>x \<in> set (outbox_of v). row_asked B A x"
    and "bw_conns v = bw_conns w" "bw_workers v = bw_workers w"
  shows "world_asked B A v"
  using assms by (simp add: world_asked_def registered_def)

lemma world_asked_conn:
  assumes "world_asked B A w" and "\<And>c. conn_asked A c \<Longrightarrow> conn_asked A (f c) \<and> cn_adapter (f c) = cn_adapter c"
  shows "world_asked B A (set_conn k f w)"
proof (cases "k < length (bw_conns w)")
  case True
  have "conn_asked A c" if "c \<in> set ((bw_conns w)[k := f (bw_conns w ! k)])" for c
  proof -
    from set_update_subset_insert [THEN subsetD, OF that] have "c = f (bw_conns w ! k) \<or> c \<in> set (bw_conns w)" by simp
    with assms True show ?thesis by (auto simp: world_asked_def)
  qed
  moreover have "cn_adapter ((bw_conns w)[k := f (bw_conns w ! k)] ! j) = cn_adapter (bw_conns w ! j)" if "j < length (bw_conns w)" for j
    using assms True that by (cases "j = k") (auto simp: world_asked_def)
  ultimately show ?thesis using assms(1) True by (auto simp: set_conn_def world_asked_def registered_def)
qed (use assms in \<open>simp add: set_conn_def\<close>)

lemma send_asked:
  assumes "world_asked B A w" and "registry_send a m w = (res, v)"
    and "\<And>i cap p. m = BmOutboxItem i cap p \<Longrightarrow> asked A a cap p"
  shows "world_asked B A v"
proof (cases "map_of (bw_workers w) a")
  case (Some e)
  let ?f = "\<lambda>c. c\<lparr>cn_sent := cn_sent c @ [m]\<rparr>"
  from assms(1) map_of_SomeD [OF Some] have e: "we_conn e < length (bw_conns w)" "cn_adapter (bw_conns w ! we_conn e) = a"
    by (auto simp: world_asked_def registered_def)
  let ?g = "\<lambda>c. if cn_adapter c = a then ?f c else c"
  have "set_conn (we_conn e) ?f w = set_conn (we_conn e) ?g w" using e by (simp add: set_conn_def)
  moreover have "world_asked B A (set_conn (we_conn e) ?g w)"
    using assms(1,3) by (intro world_asked_conn) (auto simp: conn_asked_def)
  ultimately show ?thesis using assms(1,2) Some by (auto simp: registry_send_def split: if_splits)
qed (use assms in \<open>simp add: registry_send_def\<close>)

text \<open>What a query hands out are items of the adapter it was asked for.\<close>

definition items_of :: "string \<Rightarrow> outbox_row list \<Rightarrow> outbox_item list \<Rightarrow> bool" where
  "items_of a T its \<longleftrightarrow> (\<forall>it \<in> set its. \<exists>x \<in> set T. it = row_to_outbox_item x \<and> ob_adapter_id x = a)"

definition reads_items :: "string \<Rightarrow> outbox_item list st_op \<Rightarrow> bool" where
  "reads_items a f \<longleftrightarrow> (\<forall>db its t. f db = (Inr its, t) \<longrightarrow> items_of a (outbox_t db) its)"

lemma items_read_connection:
  assumes "reads_items a f"
  shows "reads_items a (connection f)"
  unfolding reads_items_def
proof (intro allI impI)
  fix db its t assume "connection f db = (Inr its, t)"
  then obtain bs where "f (db\<lparr>script := bs\<rparr>) = (Inr its, t)"
    unfolding connection_def by (blast dest: statement_InrD)
  from assms [unfolded reads_items_def, rule_format, OF this] show "items_of a (outbox_t db) its" by simp
qed

lemma select_same: "select q db = (r, t) \<Longrightarrow> outbox_t t = outbox_t db"
  using eitherD [OF either_select [of "\<lambda>T U. False" q]] by blast

lemma reads_select:
  assumes "\<And>x. P x \<Longrightarrow> ob_adapter_id x = a"
  shows "reads_items a (select (outbox_items P))"
  unfolding reads_items_def
proof (intro allI impI)
  fix db its t assume run: "select (outbox_items P) db = (Inr its, t)"
  from select_InrD [OF run] have "its = outbox_items P t" by blast
  with select_same [OF run] assms show "items_of a (outbox_t db) its" by (auto simp: items_of_def outbox_items_def)
qed

lemma gets_read:
  "reads_items a (outbox_get_unacked a)"
  "reads_items a (outbox_get_retryable B a)"
  "reads_items a (outbox_get_since a s)"
proof -
  show "reads_items a (outbox_get_unacked a)"
    unfolding outbox_get_unacked_def by (intro items_read_connection reads_select) simp
  have "reads_items a (select (outbox_items (\<lambda>r. ob_adapter_id r = a \<and> retryable now r)))" for now
    by (rule reads_select) simp
  then have "reads_items a (sql_now B (\<lambda>now. select (outbox_items (\<lambda>r. ob_adapter_id r = a \<and> retryable now r))))"
    by (force simp: reads_items_def sql_now_def)
  then show "reads_items a (outbox_get_retryable B a)"
    unfolding outbox_get_retryable_def by (rule items_read_connection)
  have new: "reads_items a (select (outbox_items (\<lambda>r. ob_adapter_id r = a \<and> ts < ob_created_at r \<and> ob_status r \<noteq> ''sent'')))" for ts
    by (rule reads_select) simp
  have old: "reads_items a (select (outbox_items (\<lambda>r. ob_adapter_id r = a \<and> unacked r)))"
    by (rule reads_select) simp
  show "reads_items a (outbox_get_since a s)"
    unfolding outbox_get_since_def
  proof (rule items_read_connection, unfold reads_items_def, intro allI impI)
    fix db its t
    obtain q u where q: "select (outbox_created_at s) db = (q, u)" by fastforce
    assume "(case select (outbox_created_at s) db of
         (Inr (Some ts), t) \<Rightarrow>
           select (outbox_items (\<lambda>r. ob_adapter_id r = a \<and> ts < ob_created_at r \<and> ob_status r \<noteq> ''sent'')) t
       | (_, t) \<Rightarrow> select (outbox_items (\<lambda>r. ob_adapter_id r = a \<and> unacked r)) t) = (Inr its, t)"
    with q new old have "items_of a (outbox_t u) its"
      unfolding reads_items_def by (auto split: sum.splits option.splits)
    with select_same [OF q] show "items_of a (outbox_t db) its" by simp
  qed
qed

lemma items_asked:
  assumes "\<forall>x \<in> set T. row_asked B A x" and "items_of a T its"
  shows "\<forall>it \<in> set its. item_asked B A a it"
  using assms by (fastforce simp: items_of_def item_asked_def row_asked_def row_to_outbox_item_def)

lemma start_asked:
  assumes "run_asked B A r" and "reads_items a f" and "either (\<lambda>T U. False) f"
  shows "run_asked B A (start_push a f r)"
proof -
  obtain q v where q: "with_store f (br_world r) = (q, v)" by fastforce
  have v: "world_asked B A v"
    using assms(1) either_with_store [OF assms(3) q] with_store_outside' [OF q]
    by (auto simp: run_asked_def world_asked_def registered_def)
  have "\<forall>it \<in> set its. item_asked B A a it" if "q = Inr its" for its
    using items_asked [of "outbox_of (br_world r)" B A a its] assms(1,2) q that
    by (auto simp: with_store_def reads_items_def run_asked_def world_asked_def split: prod.splits)
  with v q assms(1) show ?thesis
    by (auto simp: start_push_def run_asked_def task_asked_def split: sum.split)
qed

lemma push_step_asked:
  assumes "world_asked B A w" and "task_asked B A p" and "json_codec (env_codec (be_state B))"
    and "push_step B p w = (q, v)"
  shows "world_asked B A v \<and> task_asked B A q"
proof (cases "pt_items p")
  case (Cons it its)
  have w: "\<forall>x \<in> set (outbox_of w). row_asked B A x" using assms(1) by (simp add: world_asked_def)
  have rows: "\<forall>x \<in> set (outbox_of v). row_asked B A x"
    using push_step_rows [OF assms(4)]
  proof (elim disjE exE conjE)
    assume "outbox_of v = outbox_of w"
    with w show ?thesis by simp
  next
    fix it its now
    assume v: "outbox_of v = sql_update (\<lambda>r. ob_id r = oi_id it) (\<lambda>r. r\<lparr>ob_status := ''inflight'', ob_sent_at := Some now\<rparr>) (outbox_of w)"
    show ?thesis unfolding v by (rule rows_asked_update [OF w]) simp
  next
    assume v: "outbox_of v = sql_update (\<lambda>r. ob_adapter_id r = pt_adapter p \<and> ob_status r = ''inflight'') back_to_pending (outbox_of w)"
    show ?thesis unfolding v by (rule rows_asked_update [OF w]) (simp add: back_to_pending_def)
  qed
  have rest: "task_asked B A (next_item p)" using assms(2) Cons by (auto simp: task_asked_def next_item_def)
  have kept: "world_asked B A v" if "with_store f w = (e, v)" for f :: "'b st_op" and e
    using world_asked_store [OF assms(1) rows] with_store_outside' [OF that] by simp
  have given: "world_asked B A v" if "snd (with_store (outbox_reset_inflight (pt_adapter p)) w) = v"
    using world_asked_store [OF assms(1) rows] that by auto
  show ?thesis
  proof (cases "pt_phase p")
    case PushReady
    from assms(2) Cons obtain v0 where v0: "asked A (pt_adapter p) (oi_capability it) v0"
        "oi_payload it = json_to_string (env_codec (be_state B)) v0"
      by (auto simp: task_asked_def item_asked_def asked_text_def)
    then have "json_from_str (env_codec (be_state B)) (oi_payload it) = Some v0" using assms(3) by simp
    with assms(2,4) Cons PushReady rest v0 show ?thesis
      by (auto simp: push_step_def task_asked_def split: prod.splits sum.splits intro: kept)
  next
    case (PushMarked payload)
    with assms(2) Cons have "asked A (pt_adapter p) (oi_capability it) payload" by (simp add: task_asked_def)
    with assms Cons PushMarked rest send_asked [OF assms(1)] show ?thesis
      by (auto simp: push_step_def task_asked_def split: prod.splits sum.splits)
  next
    case PushUnsent
    with assms(4) Cons rest given show ?thesis by (auto simp: push_step_def)
  qed
qed (use assms in \<open>simp add: push_step_def\<close>)

lemma run_asked_world: "world_asked B A (f (br_world r)) \<Longrightarrow> run_asked B A r \<Longrightarrow> run_asked B A (in_world f r)"
  by (simp add: run_asked_def in_world_def)

lemma store_asked:
  assumes "world_asked B A w" and "either R f"
    and "\<And>U. R (outbox_of w) U \<Longrightarrow> \<forall>x \<in> set U. row_asked B A x"
  shows "world_asked B A (snd (with_store f w))"
  using stored [OF assms(2), of w] assms(1,3) by (intro world_asked_store [OF assms(1)]) (auto simp: world_asked_def)

lemma settled_asked:
  assumes "conn_asked A c"
  shows "conn_asked A (snd (pending_settle i r c)) \<and> cn_adapter (snd (pending_settle i r c)) = cn_adapter c"
    "conn_asked A (pending_cancel_all c) \<and> cn_adapter (pending_cancel_all c) = cn_adapter c"
  using assms by (auto simp: pending_settle_def pending_cancel_all_def conn_asked_def)

lemma message_asked:
  assumes "world_asked B A w" and "handle_worker_message B k a bus m w = Some v"
  shows "world_asked B A v"
proof -
  have upd: "\<forall>x \<in> set (sql_update p f (outbox_of w)). row_asked B A x"
    if "\<And>x. ob_adapter_id (f x) = ob_adapter_id x \<and> ob_capability (f x) = ob_capability x \<and> ob_payload (f x) = ob_payload x" for p f
    by (rule rows_asked_update [OF _ that]) (use assms(1) in \<open>simp add: world_asked_def\<close>)
  have ticked: "world_asked B A (w\<lparr>bw_state := (bw_state w)\<lparr>ticks := n\<rparr>\<rparr>)" for n
    using assms(1) by (simp add: world_asked_def registered_def)
  have sent: "world_asked B A (snd (with_store (outbox_mark_sent B i) w))" for i
    by (rule store_asked [OF assms(1) mark_sent_rows], elim exE, hypsubst, rule upd, simp)
  have failed: "world_asked B A (snd (with_store (outbox_mark_failed i err af) u))"
    if "world_asked B A u" "outbox_of u = outbox_of w" for i err af u
    by (rule store_asked [OF that(1) mark_failed_rows], hypsubst, unfold that(2), rule upd, simp)
  have answered: "world_asked B A (set_conn k (\<lambda>c. snd (pending_resolve i d c)) w)" for i d
    unfolding pending_resolve_def by (rule world_asked_conn [OF assms(1)]) (rule settled_asked(1))
  have submitted: "world_asked B A (w\<lparr>bw_submitted := qs\<rparr>)" for qs
    using assms(1) by (simp add: world_asked_def registered_def)
  show ?thesis
    using assms sent failed [OF assms(1)] failed [OF ticked] answered submitted
    by (cases m) (auto simp: Let_def split: option.splits if_splits)
qed

lemma act_asked:
  assumes "run_asked B A r" and "act \<in> A" and "json_codec (env_codec (be_state B))"
  shows "run_asked B A (bridge_act B act r)"
proof -
  from assms(1) have w: "world_asked B A (br_world r)" by (simp add: run_asked_def)
  then have rows: "\<forall>x \<in> set (outbox_of (br_world r)). row_asked B A x" by (simp add: world_asked_def)
  note upd = rows_asked_update [OF rows]
  show ?thesis
  proof (cases act)
    case (ActEnqueue a cap p sid th ag)
    with assms(2) have "asked A a cap p" by (auto simp: asked_def)
    then have "world_asked B A (snd (with_store (outbox_insert B a cap p sid th ag) (br_world r)))"
      using rows by (intro store_asked [OF w insert_rows]) (auto simp: row_asked_def asked_text_def)
    with ActEnqueue assms(1) show ?thesis by (simp add: run_asked_world)
  next
    case (ActStep k)
    show ?thesis
    proof (cases "k < length (br_tasks r)")
      case True
      obtain p v where pv: "push_step B (br_tasks r ! k) (br_world r) = (p, v)" by fastforce
      from True assms(1) have "task_asked B A (br_tasks r ! k)" by (simp add: run_asked_def)
      from push_step_asked [OF w this assms(3) pv] have "world_asked B A v" "task_asked B A p" by auto
      with True pv ActStep assms(1) set_update_subset_insert [of "br_tasks r" k p] show ?thesis
        by (auto simp: step_task_def run_asked_def)
    qed (use ActStep assms in \<open>simp add: step_task_def\<close>)
  next
    case (ActRegister a caps res)
    have "world_asked B A (snd (registry_register B a caps res (length (bw_conns (br_world r)))
        ((br_world r)\<lparr>bw_conns := bw_conns (br_world r) @ [new_conn a]\<rparr>)))"
      using w by (auto simp: registry_register_def world_asked_def registered_def Let_def nth_append
          conn_asked_def new_conn_def)
    with ActRegister assms(1) show ?thesis by (simp add: run_asked_world)
  next
    case (ActUnregister a)
    with w assms(1) show ?thesis
      by (auto simp: registry_unregister_def world_asked_def registered_def intro!: run_asked_world)
  next
    case (ActClose k)
    have "world_asked B A (set_conn k (\<lambda>c. (pending_cancel_all c)\<lparr>cn_open := False\<rparr>) (br_world r))"
      by (rule world_asked_conn [OF w]) (auto simp: conn_asked_def pending_cancel_all_def)
    with ActClose assms(1) show ?thesis by (simp add: run_asked_world)
  next
    case (ActMessage k a bus m)
    have "world_asked B A (abandon_session k (br_world r))"
      unfolding abandon_session_def by (rule world_asked_conn [OF w]) (auto simp: conn_asked_def)
    with ActMessage assms(1) message_asked [OF w] show ?thesis
      by (auto intro!: run_asked_world split: option.split)
  next
    case (ActPing a)
    have "world_asked B A (snd (heartbeat a (br_world r)))"
      using send_asked [OF w] by (auto simp: heartbeat_def split: prod.split sum.split)
    with ActPing assms(1) show ?thesis by (simp add: run_asked_world)
  next
    case (ActReset a)
    have "world_asked B A (snd (with_store (outbox_reset_inflight a) (br_world r)))"
      by (rule store_asked [OF w reset_rows(1)], hypsubst, rule upd, simp add: back_to_pending_def)
    with ActReset assms(1) show ?thesis by (simp add: run_asked_world)
  next
    case ActResetAll
    have "world_asked B A (snd (with_store outbox_reset_all_inflight (br_world r)))"
      by (rule store_asked [OF w reset_rows(2)], hypsubst, rule upd, simp add: back_to_pending_def)
    with ActResetAll assms(1) show ?thesis by (simp add: run_asked_world)
  next
    case (ActCleanup n)
    have "world_asked B A (snd (with_store (outbox_cleanup_sent B n) (br_world r)))"
      using rows by (intro store_asked [OF w cleanup_rows]) (auto simp: sql_delete_def)
    with ActCleanup assms(1) show ?thesis by (simp add: run_asked_world)
  next
    case ActDisconnectAll
    have "world_asked B A (fold (\<lambda>(_, e). set_conn (we_conn e) pending_cancel_all) es w)"
      if "world_asked B A w" for es :: "(string \<times> worker_entry) list" and w
      using that by (induction es arbitrary: w) (auto intro: world_asked_conn [OF _ settled_asked(2)])
    from this [OF w] have "world_asked B A (registry_disconnect_all (br_world r))"
      by (simp add: registry_disconnect_all_def world_asked_def registered_def)
    with ActDisconnectAll assms(1) show ?thesis by (simp add: run_asked_world)
  next
    case ActTick
    with w assms(1) show ?thesis by (auto simp: world_asked_def registered_def intro!: run_asked_world)
  qed (simp_all add: start_asked [OF assms(1)] gets_read get_rows)
qed

definition fresh_bridge :: "statedb \<Rightarrow> bridge_run" where
  "fresh_bridge db =
     \<lparr>br_world = \<lparr>bw_state = db\<lparr>outbox_t := []\<rparr>, bw_workers = [], bw_conns = [], bw_submitted = []\<rparr>, br_tasks = []\<rparr>"

lemma run_asked_run:
  assumes "run_asked B A r" and "set acts \<subseteq> A" and "json_codec (env_codec (be_state B))"
  shows "run_asked B A (run_bridge B acts r)"
  using assms by (induction acts arbitrary: r) (auto simp: run_bridge_def act_asked)

text \<open>
  C28: over every history, with any interleaving of the tasks and any failures of the store, whatever
  item a worker is handed was enqueued for its adapter, under the same capability and with the same
  payload.
\<close>

theorem a_worker_is_handed_what_was_enqueued_for_it:
  assumes "c \<in> set (bw_conns (br_world (run_bridge B acts (fresh_bridge db))))"
    and "BmOutboxItem i cap p \<in> set (cn_sent c)" and "json_codec (env_codec (be_state B))"
  shows "\<exists>sid th ag. ActEnqueue (cn_adapter c) cap p sid th ag \<in> set acts"
proof -
  have "run_asked B (set acts) (fresh_bridge db)"
    by (simp add: fresh_bridge_def run_asked_def world_asked_def registered_def)
  from run_asked_run [OF this _ assms(3)] have "conn_asked (set acts) c"
    using assms(1) by (auto simp: run_asked_def world_asked_def)
  with assms(2) show ?thesis by (auto simp: conn_asked_def asked_def)
qed

section \<open>Instances\<close>

definition sample_bridge :: bridge_env where
  "sample_bridge =
     \<lparr>be_state = sample_env, be_datetime = (\<lambda>_. ''2026-08-04 10:00:00''), be_days_before = (\<lambda>_ _. ''2026-08-01 10:00:00''),
      be_instant_after = (\<lambda>_ s. if s < 60 then Some ''2026-08-04T10:00:30+00:00'' else None)\<rparr>"

lemma sample_bridge_fields [simp]:
  "be_state sample_bridge = sample_env" "be_datetime sample_bridge n = ''2026-08-04 10:00:00''"
  by (simp_all add: sample_bridge_def)

definition sample_item :: string where
  "sample_item = ''obx-'' @ digits 4 0"

definition sample_acts :: "bridge_action list" where
  "sample_acts =
     [ActRegister ''w'' [] [], ActEnqueue ''w'' ''say'' (JBool True) None None None, ActPush ''w'', ActStep 0, ActStep 0]"

lemmas bridge_run_simps = run_bridge_def in_world_def fresh_bridge_def registry_register_def new_conn_def Let_def
  with_store_def outbox_insert_def start_push_def outbox_get_unacked_def outbox_items_def unacked_def row_to_outbox_item_def
  order_asc_def step_task_def push_step_def outbox_mark_inflight_def set_outbox_def sql_now_def registry_send_def
  set_conn_def next_item_def unit_op_def sample_run

lemma sample_acts_run:
  "run_bridge sample_bridge sample_acts (fresh_bridge sample_db) =
     \<lparr>br_world = \<lparr>bw_state = sample_db\<lparr>ticks := 3, minted := 1, outbox_t :=
        [\<lparr>ob_id = sample_item, ob_adapter_id = ''w'', ob_capability = ''say'', ob_payload = json_to_string json_sample (JBool True),
          ob_status = ''inflight'', ob_session_id = None, ob_thread_id = None, ob_agent_id = None,
          ob_created_at = ''2026-08-04 10:00:00'', ob_sent_at = Some ''2026-08-04 10:00:00'', ob_error = None,
          ob_retry_count = 0, ob_retry_after = None\<rparr>]\<rparr>,
        bw_workers = [(''w'', \<lparr>we_adapter_id = ''w'', we_capabilities = [], we_resources = [],
          we_connected_at = digits 2 0, we_conn = 0\<rparr>)],
        bw_conns = [(new_conn ''w'')\<lparr>cn_sent := [BmOutboxItem sample_item ''say'' (JBool True)]\<rparr>],
        bw_submitted = []\<rparr>,
      br_tasks = [\<lparr>pt_adapter = ''w'', pt_items = [], pt_phase = PushReady\<rparr>]\<rparr>"
  using json_codecD [OF json_codec_sample, of "JBool True"]
  by (simp add: bridge_run_simps sample_acts_def sample_item_def)

lemma a_worker_is_handed_what_was_enqueued_for_it_witness:
  "\<exists>sid th ag. ActEnqueue ''w'' ''say'' (JBool True) sid th ag \<in> set sample_acts"
  using a_worker_is_handed_what_was_enqueued_for_it [of "(new_conn ''w'')\<lparr>cn_sent := [BmOutboxItem sample_item ''say'' (JBool True)]\<rparr>"
    sample_bridge sample_acts sample_db sample_item "''say''" "JBool True"]
  by (simp add: sample_acts_run) (simp add: new_conn_def)

abbreviation sample_bridge_run :: bridge_run where
  "sample_bridge_run \<equiv> run_bridge sample_bridge sample_acts (fresh_bridge sample_db)"

lemma every_act_follows_the_life_of_an_item_witness:
  "item_moves sample_bridge_run (ActMessage 0 ''w'' False (WmAck sample_item))
     (item_row sample_item sample_bridge_run)
     (item_row sample_item (bridge_act sample_bridge (ActMessage 0 ''w'' False (WmAck sample_item)) sample_bridge_run))"
  by (rule every_act_follows_the_life_of_an_item) (simp add: sample_acts_run)

lemma an_item_stays_until_it_is_acknowledged_witness:
  "\<exists>y. item_row sample_item (run_bridge sample_bridge
       [ActMessage 0 ''w'' False (WmFail sample_item ''no'' None), ActReset ''w'', ActCleanup 0] sample_bridge_run) = Some y \<and>
     ob_payload y = json_to_string json_sample (JBool True)"
proof -
  obtain x where x: "item_row sample_item sample_bridge_run = Some x" "delivery_status x"
      "ob_payload x = json_to_string json_sample (JBool True)"
    by (simp add: sample_acts_run row_of_def delivery_status_def)
  have "unique_key ob_id (outbox_of (br_world sample_bridge_run))" by (simp add: sample_acts_run)
  from an_item_stays_until_it_is_acknowledged [OF this x(1,2),
      of "[ActMessage 0 ''w'' False (WmFail sample_item ''no'' None), ActReset ''w'', ActCleanup 0]" sample_bridge]
  show ?thesis using x(3) by (auto simp: acknowledges_def same_item_def)
qed

end
