(* ===== verification/Bridge_Delivery.thy ===== *)
theory Bridge_Delivery
  imports Bridge_History
begin

text \<open>
  The operations of the bridge run to their end are histories of its steps, and an item that is
  enqueued for a connected worker reaches it.
\<close>

section \<open>Operations as histories\<close>























lemma push_nothing [simp]: "push_items B a [] w = w"
  by (simp add: push_items_def)



section \<open>An enqueued item reaches its worker\<close>

text \<open>The adapter's worker is there, on connection \<open>k\<close>, and the store answers.\<close>

definition linked :: "string \<Rightarrow> nat \<Rightarrow> bridge_world \<Rightarrow> bool" where
  "linked a k w \<longleftrightarrow>
     script (bw_state w) = [] \<and> map_option we_conn (map_of (bw_workers w) a) = Some k \<and>
     k < length (bw_conns w) \<and> cn_open (bw_conns w ! k)"

definition handed :: "nat \<Rightarrow> bridge_world \<Rightarrow> bridge_server_message list" where
  "handed k w = cn_sent (bw_conns w ! k)"

definition in_flight :: "string \<Rightarrow> bridge_world \<Rightarrow> bool" where
  "in_flight i w \<longleftrightarrow> (case row_of i (outbox_of w) of None \<Rightarrow> False | Some x \<Rightarrow> ob_status x = ''inflight'')"

definition item_messages :: "bridge_env \<Rightarrow> outbox_item \<Rightarrow> bridge_server_message list" where
  "item_messages B it =
     (case json_from_str (env_codec (be_state B)) (oi_payload it) of
        None \<Rightarrow> [] | Some p \<Rightarrow> [BmOutboxItem (oi_id it) (oi_capability it) p])"

lemma row_of_id: "row_of i T = Some x \<Longrightarrow> ob_id x = i"
  by (auto simp: row_of_def find_Some_iff)

lemmas pushing = push_single_item_def with_store_def outbox_mark_inflight_def unit_op_def sql_now_def set_outbox_def
  op_simps registry_send_def set_conn_def

text \<open>With the worker there, an item whose payload reads is marked and handed over; the others are passed over.\<close>

lemma push_one_linked:
  assumes "linked a k w"
  shows "linked a k (push_single_item B a it w)"
    and "handed k (push_single_item B a it w) = handed k w @ item_messages B it"
    and "in_flight i w \<or> i = oi_id it \<and> row_of i (outbox_of w) \<noteq> None \<and> item_messages B it \<noteq> [] \<Longrightarrow>
      in_flight i (push_single_item B a it w)"
    and "row_of i (outbox_of (push_single_item B a it w)) = None \<longleftrightarrow> row_of i (outbox_of w) = None"
  subgoal using assms by (auto simp: linked_def pushing split: option.split)
  subgoal using assms by (auto simp: linked_def handed_def item_messages_def pushing split: option.split)
  subgoal using assms
    by (cases "row_of i (outbox_of w)")
      (auto simp: linked_def in_flight_def item_messages_def pushing row_of_update split: option.splits dest: row_of_id)
  subgoal using assms by (auto simp: linked_def pushing row_of_update split: option.splits)
  done

lemma push_linked:
  assumes "linked a k w"
  shows "linked a k (push_items B a its w) \<and>
    handed k (push_items B a its w) = handed k w @ concat (map (item_messages B) its) \<and>
    (in_flight i w \<longrightarrow> in_flight i (push_items B a its w))"
  using assms
  by (induction its arbitrary: w) (simp_all add: push_items_def push_one_linked)

lemma push_marks:
  assumes "linked a k w" and "it \<in> set its" and "row_of (oi_id it) (outbox_of w) \<noteq> None" and "item_messages B it \<noteq> []"
  shows "in_flight (oi_id it) (push_items B a its w)"
  using assms
proof (induction its arbitrary: w)
  case (Cons jt its)
  let ?v = "push_single_item B a jt w"
  have v: "linked a k ?v" by (rule push_one_linked [OF Cons.prems(1)])
  show ?case
  proof (cases "it = jt")
    case True
    with Cons.prems have "in_flight (oi_id it) ?v" by (intro push_one_linked(3) [OF Cons.prems(1)]) simp
    with push_linked [OF v] show ?thesis by (simp add: push_items_def)
  next
    case False
    with Cons.prems Cons.IH [OF v] push_one_linked(4) [OF Cons.prems(1)] show ?thesis by (simp add: push_items_def)
  qed
qed simp

lemma push_pending_linked:
  assumes "linked a k w" and "x \<in> set (outbox_of w)" and "ob_adapter_id x = a" and "unacked x"
    and "json_from_str (env_codec (be_state B)) (ob_payload x) = Some p"
  shows "handed k (push_pending B a w) =
      handed k w @ concat (map (item_messages B) (outbox_items (\<lambda>r. ob_adapter_id r = a \<and> unacked r) (bw_state w)))"
    and "BmOutboxItem (ob_id x) (ob_capability x) p \<in> set (handed k (push_pending B a w))"
    and "in_flight (ob_id x) (push_pending B a w)"
proof -
  let ?its = "outbox_items (\<lambda>r. ob_adapter_id r = a \<and> unacked r) (bw_state w)"
  have push: "push_pending B a w = push_items B a ?its w"
    using assms(1) by (simp add: push_pending_def outbox_get_unacked_def with_store_def linked_def op_simps)
  have x: "row_to_outbox_item x \<in> set ?its" using assms(2,3,4) by (auto simp: outbox_items_def order_asc_def)
  have m: "item_messages B (row_to_outbox_item x) = [BmOutboxItem (ob_id x) (ob_capability x) p]"
    using assms(5) by (simp add: item_messages_def row_to_outbox_item_def)
  show h: "handed k (push_pending B a w) = handed k w @ concat (map (item_messages B) ?its)"
    unfolding push using push_linked [OF assms(1)] by blast
  show "BmOutboxItem (ob_id x) (ob_capability x) p \<in> set (handed k (push_pending B a w))"
    unfolding h using x m by force
  have "row_of (oi_id (row_to_outbox_item x)) (outbox_of w) \<noteq> None"
    using assms(2) by (auto simp: row_of_None row_to_outbox_item_def)
  from push_marks [OF assms(1) x this] m show "in_flight (ob_id x) (push_pending B a w)"
    unfolding push by (simp add: row_to_outbox_item_def)
qed

text \<open>
  C30: with the store up, its new id not taken and the adapter's worker connected, enqueueing returns
  the id, the worker is handed the item with this id, capability and payload, and the outbox has it in
  flight.
\<close>

theorem an_enqueued_item_reaches_its_worker:
  assumes "linked a k w" and "''obx-'' @ fresh_uuid (be_state B) (minted (bw_state w)) \<notin> ob_id ` set (outbox_of w)"
    and "json_codec (env_codec (be_state B))"
  shows "\<exists>i v. enqueue_and_push B a cap p sid th ag w = (Inr i, v) \<and>
    BmOutboxItem i cap p \<in> set (handed k v) \<and> in_flight i v"
proof -
  obtain q u where q: "with_store (outbox_insert B a cap p sid th ag) w = (q, u)" by fastforce
  define i where "i = ''obx-'' @ fresh_uuid (be_state B) (minted (bw_state w))"
  have "q = Inr i \<and> linked a k u \<and> (\<exists>x \<in> set (outbox_of u). ob_id x = i \<and> ob_adapter_id x = a \<and> ob_capability x = cap \<and>
      ob_payload x = json_to_string (env_codec (be_state B)) p \<and> ob_status x = ''pending'')"
    using assms(1,2) q
    by (auto simp: linked_def with_store_def outbox_insert_def new_v4_def Let_def unit_op_def sql_now_def op_simps i_def)
  then obtain x where x: "q = Inr i" "linked a k u" "x \<in> set (outbox_of u)" "ob_id x = i" "ob_adapter_id x = a"
    "ob_capability x = cap" "ob_payload x = json_to_string (env_codec (be_state B)) p" "unacked x"
    by (auto simp: unacked_def)
  have "enqueue_and_push B a cap p sid th ag w = (Inr i, push_pending B a u)"
    using q x(1,2) by (auto simp: enqueue_and_push_def is_connected_def linked_def)
  with push_pending_linked [OF x(2,3,5,8), where B = B and p = p] x assms(3) show ?thesis by auto
qed

lemma an_enqueued_item_reaches_its_worker_witness:
  "\<exists>i v. enqueue_and_push sample_bridge ''w'' ''say'' JNull None None None (br_world sample_bridge_run) = (Inr i, v) \<and>
     BmOutboxItem i ''say'' JNull \<in> set (handed 0 v) \<and> in_flight i v"
proof (rule an_enqueued_item_reaches_its_worker)
  show "linked ''w'' 0 (br_world sample_bridge_run)"
    by (simp add: sample_acts_run linked_def new_conn_def)
  show "''obx-'' @ fresh_uuid (be_state sample_bridge) (minted (bw_state (br_world sample_bridge_run)))
      \<notin> ob_id ` set (outbox_of (br_world sample_bridge_run))"
    using digits_mono [of 0 1 4] by (simp add: sample_acts_run sample_item_def del: digits.simps)
  show "json_codec (env_codec (be_state sample_bridge))" by simp
qed

section \<open>What goes wrong\<close>

text \<open>
  A push reads what is in flight along with what is pending, so every enqueue for a connected worker
  hands it again each item it has not acknowledged yet.
\<close>

lemma an_item_in_flight_is_handed_again:
  assumes "linked a k w" and "x \<in> set (outbox_of w)" and "ob_adapter_id x = a" and "ob_status x = ''inflight''"
    and "json_from_str (env_codec (be_state B)) (ob_payload x) = Some p"
    and "BmOutboxItem (ob_id x) (ob_capability x) p \<in> set (handed k w)"
  shows "\<exists>l m. handed k (push_pending B a w) = l @ m \<and> BmOutboxItem (ob_id x) (ob_capability x) p \<in> set l \<and>
    BmOutboxItem (ob_id x) (ob_capability x) p \<in> set m"
proof -
  let ?its = "outbox_items (\<lambda>r. ob_adapter_id r = a \<and> unacked r) (bw_state w)"
  have "row_to_outbox_item x \<in> set ?its" using assms(2-4) by (auto simp: outbox_items_def order_asc_def unacked_def)
  moreover have "BmOutboxItem (ob_id x) (ob_capability x) p \<in> set (item_messages B (row_to_outbox_item x))"
    using assms(5) by (simp add: item_messages_def row_to_outbox_item_def)
  ultimately have "BmOutboxItem (ob_id x) (ob_capability x) p \<in> set (concat (map (item_messages B) ?its))" by auto
  moreover have "handed k (push_pending B a w) = handed k w @ concat (map (item_messages B) ?its)"
    using assms(4) by (intro push_pending_linked(1) [OF assms(1-3) _ assms(5)]) (simp add: unacked_def)
  ultimately show ?thesis using assms(6) by blast
qed

text \<open>
  \<open>retry_after\<close> is written with a \<open>T\<close> between date and time and compared with a text that has a space
  there: on the day it names, an item is never ready to retry.
\<close>

lemma not_retried_on_its_day:
  assumes "ob_retry_after r = Some (day @ ''T'' @ t)"
  shows "\<not> retryable (day @ '' '' @ u) r"
proof -
  have "\<not> day @ CHR ''T'' # t \<le> day @ CHR '' '' # u" by (induction day) (simp_all add: less_eq_char_def)
  with assms show ?thesis by (simp add: retryable_def)
qed

text \<open>A failure that comes late makes a sent item a failed one, which is then sent again.\<close>

lemma a_sent_item_can_fail:
  assumes "linked a k w" and "row_of i (outbox_of w) = Some x"
  shows "\<exists>v y. handle_worker_message B j b bus (WmFail i err None) w = Some v \<and> row_of i (outbox_of v) = Some y \<and>
    ob_status y = ''failed''"
  using assms row_of_id [OF assms(2)]
  by (auto simp: linked_def pushing outbox_mark_failed_def row_of_update)

text \<open>
  A worker that asks to wait longer than the clock can tell makes its task panic. Its adapter stays in
  the registry, and every attempt to come back is refused.
\<close>

lemma a_panic_shuts_the_adapter_out:
  assumes "be_instant_after B (ticks (bw_state w)) (sint s) = None" and "is_connected a w"
  shows "handle_worker_message B k a bus (WmFail i err (Some s)) w = None"
    and "fst (accept_worker B a caps res resume ok (abandon_session k w)) = Inl (AlreadyConnected a)"
proof -
  show "handle_worker_message B k a bus (WmFail i err (Some s)) w = None" using assms(1) by simp
  have "a \<in> fst ` set (bw_workers (abandon_session k w))"
    using assms(2) by (auto simp: is_connected_def abandon_session_def set_conn_def dest: map_of_SomeD intro: rev_image_eqI)
  then show "fst (accept_worker B a caps res resume ok (abandon_session k w)) = Inl (AlreadyConnected a)"
    by (simp add: accept_worker_def registry_register_def Let_def)
qed

text \<open>A worker that resumes after an item is not handed what was enqueued in the same second.\<close>

lemma resuming_skips_the_second:
  assumes "script db = []" and "find (\<lambda>r. ob_id r = since) (outbox_t db) = Some x"
    and "outbox_get_since a since db = (Inr its, t)" and "oi_created_at it = ob_created_at x"
  shows "it \<notin> set its"
  using assms
  by (auto simp: outbox_get_since_def op_simps outbox_created_at_def outbox_items_def row_to_outbox_item_def order_asc_def)

end
