(* ===== verification/Conversation.thy ===== *)
theory Conversation
  imports State_Service
begin

text \<open>
  The conversation of a session as the runtime sees it: the log of messages and the checkpoints
  (\<open>stores/zbot-conversation/src/messages.rs\<close>, \<open>checkpoints.rs\<close>, \<open>session_meta.rs\<close>), which live in the
  tables of the session store, the chat history made of them
  (\<open>gateway/gateway-execution/src/conversation_history.rs\<close>), the private snapshot of the runtime
  (\<open>runtime/agent-runtime/src/engine/snapshot.rs\<close>), and how a continuation puts its history together
  (\<open>gateway/gateway-execution/src/runner/recovery.rs\<close>).
\<close>

section \<open>Messages of the store\<close>

record conv_message =
  vm_id :: string
  vm_execution_id :: "string option"
  vm_session_id :: string
  vm_role :: string
  vm_content :: string
  vm_created_at :: string
  vm_token_count :: int
  vm_tool_calls :: "string option"
  vm_tool_call_id :: "string option"
  vm_seq :: int

text \<open>A row whose session or token count is null does not read.\<close>

definition row_to_conv_message :: "message_row \<Rightarrow> conv_message option" where
  "row_to_conv_message r =
     (case (mr_session_id r, mr_token_count r) of
        (Some s, Some n) \<Rightarrow> Some
          \<lparr>vm_id = mr_id r, vm_execution_id = mr_execution_id r, vm_session_id = s, vm_role = mr_role r,
           vm_content = mr_content r, vm_created_at = mr_created_at r, vm_token_count = n,
           vm_tool_calls = mr_tool_calls r, vm_tool_call_id = mr_tool_call_id r, vm_seq = mr_seq r\<rparr>
      | _ \<Rightarrow> None)"

definition rows_of_session :: "string \<Rightarrow> statedb \<Rightarrow> message_row list" where
  "rows_of_session s db = filter (\<lambda>m. mr_session_id m = Some s) (messages_t db)"

text \<open>\<open>COALESCE(MAX(seq), 0) + 1\<close>\<close>

definition next_seq :: "string \<Rightarrow> statedb \<Rightarrow> int" where
  "next_seq s db = (if rows_of_session s db = [] then 0 else Max (mr_seq ` set (rows_of_session s db))) + 1"

definition row_of_conv_message :: "statedb \<Rightarrow> conv_message \<Rightarrow> message_row" where
  "row_of_conv_message db m =
     \<lparr>mr_id = vm_id m, mr_execution_id = vm_execution_id m, mr_session_id = Some (vm_session_id m),
      mr_role = vm_role m, mr_content = vm_content m, mr_created_at = vm_created_at m,
      mr_tool_calls = vm_tool_calls m, mr_tool_results = None, mr_tool_call_id = vm_tool_call_id m,
      mr_token_count = Some (vm_token_count m), mr_seq = next_seq (vm_session_id m) db\<rparr>"

definition message_insertable :: "conv_message \<Rightarrow> statedb \<Rightarrow> bool" where
  "message_insertable m db \<longleftrightarrow>
     vm_id m \<notin> set (map mr_id (messages_t db)) \<and> vm_session_id m \<in> set (session_ids db) \<and>
     (case vm_execution_id m of None \<Rightarrow> True | Some x \<Rightarrow> x \<in> set (execution_ids db))"

definition message_append :: "conv_message \<Rightarrow> unit st_op" where
  "message_append m = connection (unit_op (checked_change (message_insertable m) (\<lambda>_. 1)
     (\<lambda>db. db\<lparr>messages_t := messages_t db @ [row_of_conv_message db m]\<rparr>)))"

text \<open>\<open>get\<close> fails on a row that does not read, \<open>replay\<close> passes it over.\<close>

definition message_get :: "string \<Rightarrow> conv_message option st_op" where
  "message_get i = connection (
     bnd (select (\<lambda>db. find (\<lambda>m. mr_id m = i) (messages_t db))) (\<lambda>r.
     case r of
       None \<Rightarrow> ret None
     | Some m \<Rightarrow> (case row_to_conv_message m of None \<Rightarrow> throw (Database ConversionFailure) | Some v \<Rightarrow> ret (Some v))))"

definition rows_after :: "string \<Rightarrow> int option \<Rightarrow> statedb \<Rightarrow> message_row list" where
  "rows_after s after_seq db = order_asc mr_seq
     (filter (\<lambda>m. case after_seq of None \<Rightarrow> True | Some k \<Rightarrow> k < mr_seq m) (rows_of_session s db))"

definition message_replay :: "string \<Rightarrow> int option \<Rightarrow> nat \<Rightarrow> conv_message list st_op" where
  "message_replay s after_seq limit =
     connection (select (\<lambda>db. List.map_filter row_to_conv_message (take limit (rows_after s after_seq db))))"

fun tool_name_of :: "json \<Rightarrow> string option" where
  "tool_name_of v = Option.bind (Option.bind (as_object v) (\<lambda>kvs. obj_get kvs ''tool_name'')) as_str"

definition tool_names :: "codec \<Rightarrow> string \<Rightarrow> string list" where
  "tool_names C blob =
     (case Option.bind (json_from_str C blob) as_array of
        None \<Rightarrow> []
      | Some vs \<Rightarrow> List.map_filter tool_name_of vs)"

definition tool_sequence_for_session :: "codec \<Rightarrow> string \<Rightarrow> string list st_op" where
  "tool_sequence_for_session C s = connection (select (\<lambda>db.
     concat (map (tool_names C) (List.map_filter mr_tool_calls
       (order_asc mr_seq (filter (\<lambda>m. mr_role m = ''assistant'') (rows_of_session s db)))))))"

section \<open>Checkpoints\<close>

definition checkpoint_write :: "checkpoint_row \<Rightarrow> unit st_op" where
  "checkpoint_write c = connection (unit_op (checked_change
     (\<lambda>db. ck_id c \<notin> set (map ck_id (checkpoints_t db))) (\<lambda>_. 1)
     (\<lambda>db. db\<lparr>checkpoints_t := checkpoints_t db @ [c]\<rparr>)))"

text \<open>\<open>ORDER BY created_at DESC, llm_turn DESC LIMIT 1\<close>; a query that fails is no checkpoint.\<close>

definition newest_checkpoint :: "string \<Rightarrow> statedb \<Rightarrow> checkpoint_row option" where
  "newest_checkpoint x db =
     (case order_desc ck_created_at (order_desc ck_llm_turn (filter (\<lambda>c. ck_execution_id c = x) (checkpoints_t db))) of
        [] \<Rightarrow> None
      | c # _ \<Rightarrow> Some c)"

definition checkpoint_latest :: "string \<Rightarrow> checkpoint_row option st_op" where
  "checkpoint_latest x = connection (\<lambda>db.
     case select (newest_checkpoint x) db of (Inl _, t) \<Rightarrow> (Inr None, t) | (Inr c, t) \<Rightarrow> (Inr c, t))"

section \<open>Session metadata\<close>

definition session_ward_id :: "string \<Rightarrow> string option st_op" where
  "session_ward_id s = connection (select (\<lambda>db. Option.bind (find_session_row s db) sr_ward_id))"

definition session_agent_id :: "string \<Rightarrow> string option st_op" where
  "session_agent_id s = connection (select (\<lambda>db. map_option sr_root_agent_id (find_session_row s db)))"

section \<open>Chat messages\<close>

datatype content_source = CsUrl string | CsBase64 string | CsFileRef string
datatype image_detail = DetailLow | DetailHigh | DetailAuto

datatype part =
  PartText string
| PartFunctionCall string json "string option"
| PartFunctionResponse string string
| PartImage content_source string "image_detail option"
| PartFile content_source string "string option"

record tool_call =
  tl_id :: string
  tl_name :: string
  tl_arguments :: json

record chat_message =
  ch_role :: string
  ch_content :: "part list"
  ch_tool_calls :: "tool_call list option"
  ch_tool_call_id :: "string option"
  ch_is_summary :: bool

fun part_text :: "part \<Rightarrow> string option" where
  "part_text (PartText t) = Some t"
| "part_text _ = None"

text \<open>\<open>join("\n")\<close>\<close>

fun join_lines :: "string list \<Rightarrow> string" where
  "join_lines [] = []"
| "join_lines [l] = l"
| "join_lines (l # ls) = l @ CHR 0x0A # join_lines ls"

definition text_content :: "chat_message \<Rightarrow> string" where
  "text_content m = join_lines (List.map_filter part_text (ch_content m))"

definition stored_tool_call :: "json \<Rightarrow> tool_call option" where
  "stored_tool_call v =
     (let field = (\<lambda>k. Option.bind (as_object v) (\<lambda>kvs. obj_get kvs k)) in
      Option.bind (Option.bind (field ''tool_id'') as_str) (\<lambda>i.
      Option.bind (Option.bind (field ''tool_name'') as_str) (\<lambda>n.
      Option.bind (field ''args'') (\<lambda>a.
      Some \<lparr>tl_id = i, tl_name = n, tl_arguments = a\<rparr>))))"

definition parse_tool_calls_json :: "codec \<Rightarrow> string \<Rightarrow> tool_call list option" where
  "parse_tool_calls_json C text =
     Option.bind (Option.bind (json_from_str C text) as_array) (\<lambda>vs.
     case List.map_filter stored_tool_call vs of [] \<Rightarrow> None | cs \<Rightarrow> Some cs)"

definition chat_of_message :: "codec \<Rightarrow> conv_message \<Rightarrow> chat_message" where
  "chat_of_message C m =
     \<lparr>ch_role = vm_role m, ch_content = [PartText (vm_content m)],
      ch_tool_calls =
        (if vm_role m = ''assistant'' then Option.bind (vm_tool_calls m) (parse_tool_calls_json C) else None),
      ch_tool_call_id = vm_tool_call_id m, ch_is_summary = False\<rparr>"

definition messages_to_chat_format :: "codec \<Rightarrow> conv_message list \<Rightarrow> chat_message list" where
  "messages_to_chat_format C = map (chat_of_message C)"

section \<open>The snapshot of the runtime\<close>

definition CHECKPOINT_KEY :: string where "CHECKPOINT_KEY = ''app:rig_checkpoint''"

definition MUTABLE_KEYS :: "string list" where
  "MUTABLE_KEYS = [''skill:graph'', ''skill:loaded_skills'', ''skill:current_skill'', ''app:plan'']"

record snapshot =
  ss_version :: "32 word"
  ss_owned_preamble :: "nat option"
  ss_messages :: "chat_message list"
  ss_mutable_state :: "(string \<times> json) list"

record recovery_cursor =
  rc_input_cursor :: int
  rc_represented_output_ids :: "string list"

text \<open>What serde derives for the two records that are stored as JSON, and \<open>Uuid::now_v7\<close>.\<close>

record recovery_codec =
  snapshot_to_value :: "snapshot \<Rightarrow> json"
  snapshot_from_value :: "json \<Rightarrow> snapshot option"
  cursor_to_value :: "recovery_cursor \<Rightarrow> json"
  cursor_from_json :: "json \<Rightarrow> recovery_cursor option"
  uuid_v7 :: "nat \<Rightarrow> string"

text \<open>Deriving both directions, what is written reads back.\<close>

definition derived :: "recovery_codec \<Rightarrow> bool" where
  "derived D \<longleftrightarrow>
     (\<forall>s. snapshot_from_value D (snapshot_to_value D s) = Some s) \<and>
     (\<forall>c. cursor_from_json D (cursor_to_value D c) = Some c)"

definition is_owned_preamble :: "string \<Rightarrow> chat_message \<Rightarrow> bool" where
  "is_owned_preamble owned m \<longleftrightarrow> ch_role m = ''system'' \<and> \<not> ch_is_summary m \<and> ch_content m = [PartText owned]"

definition json_get :: "json \<Rightarrow> string \<Rightarrow> json option" where
  "json_get v k = Option.bind (as_object v) (\<lambda>kvs. obj_get kvs k)"

text \<open>The preamble the host owns must occur once, or there is no snapshot.\<close>

definition capture :: "recovery_codec \<Rightarrow> chat_message list \<Rightarrow> string option \<Rightarrow> json \<Rightarrow> json option" where
  "capture D messages owned state =
     (let snap = (\<lambda>p. Some (snapshot_to_value D
            \<lparr>ss_version = 1, ss_owned_preamble = p, ss_messages = messages,
             ss_mutable_state = List.map_filter (\<lambda>k. map_option (Pair k) (json_get state k)) MUTABLE_KEYS\<rparr>))
      in case owned of
           None \<Rightarrow> snap None
         | Some o_text \<Rightarrow>
             (case filter (\<lambda>i. is_owned_preamble o_text (messages ! i)) [0..<length messages] of
                [i] \<Rightarrow> snap (Some i)
              | _ \<Rightarrow> None))"

definition obj_remove :: "(string \<times> json) list \<Rightarrow> string \<Rightarrow> (string \<times> json) list" where
  "obj_remove kvs k = filter (\<lambda>(j, _). j \<noteq> k) kvs"

text \<open>\<open>insert\<close> replaces, \<open>entry(k).or_insert(v)\<close> keeps what is there.\<close>

definition obj_insert :: "(string \<times> json) list \<Rightarrow> string \<Rightarrow> json \<Rightarrow> (string \<times> json) list" where
  "obj_insert kvs k v =
     (if obj_contains_key kvs k then map (\<lambda>(j, u). (j, if j = k then v else u)) kvs else kvs @ [(k, v)])"

definition or_insert :: "(string \<times> json) list \<Rightarrow> string \<Rightarrow> json option \<Rightarrow> (string \<times> json) list" where
  "or_insert kvs k v =
     (case v of None \<Rightarrow> kvs | Some u \<Rightarrow> if obj_contains_key kvs k then kvs else kvs @ [(k, u)])"

definition drop_index :: "nat \<Rightarrow> 'a list \<Rightarrow> 'a list" where
  "drop_index i xs = take i xs @ drop (Suc i) xs"

definition restore ::
  "recovery_codec \<Rightarrow> (string \<times> json) list \<Rightarrow> string + (chat_message list option \<times> (string \<times> json) list)" where
  "restore D state =
     (case obj_get state CHECKPOINT_KEY of
        None \<Rightarrow> Inr (None, state)
      | Some value \<Rightarrow>
          let rest = obj_remove state CHECKPOINT_KEY in
          (case snapshot_from_value D value of
             None \<Rightarrow> Inl ''Invalid execution checkpoint''
           | Some s \<Rightarrow>
               if ss_version s \<noteq> 1 then Inl ''Unsupported execution checkpoint version''
               else
                 let merged = fold (\<lambda>k st. or_insert st k (obj_get (ss_mutable_state s) k)) MUTABLE_KEYS rest in
                 (case ss_owned_preamble s of
                    None \<Rightarrow> Inr (Some (ss_messages s), merged)
                  | Some i \<Rightarrow>
                      if i < length (ss_messages s) \<and> ch_role (ss_messages s ! i) = ''system'' \<and>
                         \<not> ch_is_summary (ss_messages s ! i)
                      then Inr (Some (drop_index i (ss_messages s)), merged)
                      else Inl ''Invalid owned checkpoint preamble'')))"

section \<open>Recovery\<close>

definition GATEWAY_RECOVERY_KEY :: string where "GATEWAY_RECOVERY_KEY = ''gateway_recovery''"

datatype execution_error =
  ExecConfig string | ExecProvider string | ExecStore string | ExecSession string | ExecDelegation string
| ExecContinuation string | ExecResource string

fun client_message :: "execution_error \<Rightarrow> string" where
  "client_message (ExecConfig _) = ''Unable to start this request''"
| "client_message (ExecProvider _) = ''The AI provider is unavailable''"
| "client_message (ExecStore _) = ''A storage operation failed''"
| "client_message (ExecSession _) = ''The session could not be continued''"
| "client_message (ExecDelegation _) = ''A delegated agent could not run''"
| "client_message (ExecContinuation _) = ''Unable to resume this session''"
| "client_message (ExecResource _) = ''A required resource is unavailable''"

record composed_history =
  co_history :: "chat_message list"
  co_scanned_cursor :: int
  co_initial_state :: "(string \<times> json) list"

type_synonym 'a ex_op = "(statedb, execution_error, 'a) op"

definition map_err :: "('e \<Rightarrow> 'f) \<Rightarrow> ('s, 'e, 'a) op \<Rightarrow> ('s, 'f, 'a) op" where
  "map_err f m s = (case m s of (Inl e, t) \<Rightarrow> (Inl (f e), t) | (Inr x, t) \<Rightarrow> (Inr x, t))"

definition cursor_from_value :: "recovery_codec \<Rightarrow> json \<Rightarrow> execution_error + recovery_cursor" where
  "cursor_from_value D context =
     (case json_get context GATEWAY_RECOVERY_KEY of
        Some v \<Rightarrow> some_or (ExecContinuation ''continuation_cursor_invalid'') (cursor_from_json D v)
      | None \<Rightarrow>
          if json_get context CHECKPOINT_KEY \<noteq> None
          then Inl (ExecContinuation ''continuation_cursor_invalid'')
          else Inr \<lparr>rc_input_cursor = 0, rc_represented_output_ids = []\<rparr>)"

definition is_context_packet :: "chat_message \<Rightarrow> bool" where
  "is_context_packet m \<longleftrightarrow>
     ch_role m = ''system'' \<and> take 17 (trim_start (text_content m)) = ''## Context Packet''"

definition strip_stale_context_packets :: "chat_message list \<Rightarrow> chat_message list" where
  "strip_stale_context_packets tape = filter (\<lambda>m. \<not> is_context_packet m) tape"

text \<open>\<open>rows.last().map(|row| row.seq).unwrap_or(0)\<close>\<close>

definition last_seq :: "conv_message list \<Rightarrow> int" where
  "last_seq rows = (if rows = [] then 0 else vm_seq (last rows))"

definition history_error :: execution_error where
  "history_error = ExecStore ''continuation_history_read_failed''"

definition replay_display_history :: "codec \<Rightarrow> string \<Rightarrow> composed_history ex_op" where
  "replay_display_history C s =
     bnd (map_err (\<lambda>_. history_error) (message_replay s None 200)) (\<lambda>rows.
     ret \<lparr>co_history = messages_to_chat_format C rows, co_scanned_cursor = last_seq rows, co_initial_state = []\<rparr>)"

definition tail_rows :: "conv_message list \<Rightarrow> string list \<Rightarrow> conv_message list \<times> int" where
  "tail_rows rows represented = (filter (\<lambda>m. vm_id m \<notin> set represented) rows, last_seq rows)"

definition compose_continuation_history ::
  "codec \<Rightarrow> recovery_codec \<Rightarrow> string \<Rightarrow> string \<Rightarrow> composed_history ex_op" where
  "compose_continuation_history C D x s =
     bnd (map_err (\<lambda>_. ExecStore ''continuation_checkpoint_read_failed'') (checkpoint_latest x)) (\<lambda>cp.
     case cp of
       None \<Rightarrow> replay_display_history C s
     | Some c \<Rightarrow>
         if ck_session_id c \<noteq> s then throw (ExecContinuation ''session_mismatch'')
         else
           (case Option.bind (ck_context_state c) (json_from_str C) of
              None \<Rightarrow> throw (ExecContinuation ''checkpoint_invalid'')
            | Some context \<Rightarrow>
                bnd (lift_sum (cursor_from_value D context)) (\<lambda>cursor.
                case restore D (case json_get context CHECKPOINT_KEY of None \<Rightarrow> [] | Some v \<Rightarrow> [(CHECKPOINT_KEY, v)]) of
                  Inl e \<Rightarrow> throw (ExecConfig e)
                | Inr (None, _) \<Rightarrow> replay_display_history C s
                | Inr (Some tape, state) \<Rightarrow>
                    bnd (map_err (\<lambda>_. history_error) (message_replay s (Some (rc_input_cursor cursor)) 200)) (\<lambda>rows.
                    let (tails, tail_cursor) = tail_rows rows (rc_represented_output_ids cursor) in
                    ret \<lparr>co_history = strip_stale_context_packets tape @ messages_to_chat_format C tails,
                         co_scanned_cursor = max (rc_input_cursor cursor) tail_cursor,
                         co_initial_state = state\<rparr>))))"

text \<open>The JSON beside which the snapshot and the cursor are stored.\<close>

definition checkpoint_context_state ::
  "codec \<Rightarrow> recovery_codec \<Rightarrow> (string \<times> json) list \<Rightarrow> json option \<Rightarrow> recovery_cursor \<Rightarrow> string" where
  "checkpoint_context_state C D display engine_state cursor =
     (let kvs = (case Option.bind engine_state (\<lambda>st. json_get st CHECKPOINT_KEY) of
          None \<Rightarrow> display
        | Some v \<Rightarrow> obj_insert display CHECKPOINT_KEY v)
      in json_to_string C (JObject (obj_insert kvs GATEWAY_RECOVERY_KEY (cursor_to_value D cursor))))"

definition opt_text :: "string option \<Rightarrow> json" where
  "opt_text v = (case v of None \<Rightarrow> JNull | Some t \<Rightarrow> JString t)"

record turn_checkpoint =
  tk_execution_id :: string
  tk_session_id :: string
  tk_llm_turn :: "32 word"
  tk_response :: string
  tk_engine_state :: "json option"
  tk_input_cursor :: int
  tk_represented_output_ids :: "string list"

definition write_turn_checkpoint :: "state_env \<Rightarrow> recovery_codec \<Rightarrow> turn_checkpoint \<Rightarrow> statedb \<Rightarrow> statedb" where
  "write_turn_checkpoint E D turn db =
     (let (found, d) = repo_get_session E (tk_session_id turn) db;
          ward = (case found of Inr (Some s) \<Rightarrow> s_ward_id s | _ \<Rightarrow> None);
          display = [(''intent'', JNull), (''ward'', opt_text ward), (''plan'', JNull), (''recalled_facts'', JNull),
            (''response'', JString (tk_response turn)), (''title'', JNull), (''model'', JNull), (''subagents'', JNull)];
          text = checkpoint_context_state (env_codec E) D display (tk_engine_state turn)
            \<lparr>rc_input_cursor = tk_input_cursor turn, rc_represented_output_ids = tk_represented_output_ids turn\<rparr>;
          i = uuid_v7 D (minted d); now = now_text E (ticks d);
          c = \<lparr>ck_id = i, ck_execution_id = tk_execution_id turn, ck_session_id = tk_session_id turn,
            ck_llm_turn = tk_llm_turn turn, ck_last_message_id = [], ck_pending_tool_calls = None,
            ck_context_state = Some text, ck_child_executions = None, ck_schema_version = 1, ck_created_at = now\<rparr>
      in snd (checkpoint_write c (d\<lparr>minted := Suc (minted d), ticks := Suc (ticks d)\<rparr>)))"

end
