(* ===== verification/Callbacks.thy ===== *)
theory Callbacks
  imports Conversation Stream_Processor Sample_Json
begin

text \<open>
  What the parent of a delegation is told (\<open>gateway/gateway-execution/src/delegation/callback.rs\<close>): the
  answer of a child as a message, with a hint drawn from its \<open>RESULT\<close> line, and, where the delegation
  asked for a schema, an envelope of JSON at its top that the parent reads back.
\<close>

section \<open>Texts\<close>

text \<open>
  \<open>str::lines\<close>, \<open>str::contains\<close>, \<open>str::rfind\<close>, \<open>char::to_uppercase\<close> on a first character in ASCII; on
  other ones, and for the pretty printer, the environment answers.
\<close>

record callback_env =
  cb_codec :: codec
  cb_capitalize :: "string \<Rightarrow> string"
  cb_pretty :: "json \<Rightarrow> string"

definition strip_cr :: "string \<Rightarrow> string" where
  "strip_cr l = (if l \<noteq> [] \<and> last l = CHR 0x0D then butlast l else l)"

definition text_lines :: "string \<Rightarrow> string list" where
  "text_lines s =
     (let ls = split_on (CHR 0x0A) s in map strip_cr (butlast ls) @ (if last ls = [] then [] else [last ls]))"

definition contains_text :: "string \<Rightarrow> string \<Rightarrow> bool" where
  "contains_text s p \<longleftrightarrow> find_sub p s \<noteq> None"

definition starts_with :: "string \<Rightarrow> string \<Rightarrow> bool" where
  "starts_with s p \<longleftrightarrow> strip_prefix p s \<noteq> None"

definition rfind_sub :: "string \<Rightarrow> string \<Rightarrow> nat option" where
  "rfind_sub p s = map_option (\<lambda>k. length s - k - length p) (find_sub (rev p) (rev s))"

definition ascii_upper :: "char \<Rightarrow> char" where
  "ascii_upper c = (if 97 \<le> (of_char c :: nat) \<and> (of_char c :: nat) \<le> 122 then char_of ((of_char c :: nat) - 32) else c)"

fun capitalized :: "callback_env \<Rightarrow> string \<Rightarrow> string" where
  "capitalized B [] = []"
| "capitalized B (c # cs) = (if (of_char c :: nat) < 128 then ascii_upper c # cs else cb_capitalize B (c # cs))"

fun join_words :: "string list \<Rightarrow> string" where
  "join_words [] = []"
| "join_words [w] = w"
| "join_words (w # ws) = w @ CHR '' '' # join_words ws"

section \<open>The message\<close>

definition format_agent_display_name :: "callback_env \<Rightarrow> string \<Rightarrow> string" where
  "format_agent_display_name B i = join_words (map (capitalized B) (split_on (CHR ''-'') i))"

definition is_result_line :: "string \<Rightarrow> bool" where
  "is_result_line l \<longleftrightarrow> starts_with (trim l) ''RESULT: APPROVED'' \<or> starts_with (trim l) ''RESULT: DEFECTS'' \<or>
     starts_with (trim l) ''RESULT: OUT_OF_SCOPE'' \<or> starts_with (trim l) ''RESULT: CAPABILITY_MISSING''"

definition extract_result_line :: "string \<Rightarrow> string option" where
  "extract_result_line response = find is_result_line (take 20 (rev (text_lines response)))"

fun defects_of :: "bool \<Rightarrow> string list \<Rightarrow> string list" where
  "defects_of b [] = []"
| "defects_of b (l # ls) =
     (if starts_with (trim l) ''RESULT: DEFECTS'' then defects_of True ls
      else if b \<and> starts_with (trim l) ''- '' then trim l # defects_of b ls
      else defects_of b ls)"

definition extract_defects :: "string \<Rightarrow> string" where
  "extract_defects response = join_lines (defects_of False (text_lines response))"

definition newline :: string where "newline = [CHR 0x0A]"

definition format_response_content :: "callback_env \<Rightarrow> string \<Rightarrow> string" where
  "format_response_content B response =
     (if starts_with (trim response) ''{'' \<or> starts_with (trim response) ''[''
      then case json_from_str (cb_codec B) response of
             Some v \<Rightarrow> ''```json'' @ newline @ cb_pretty B v @ newline @ ''```''
           | None \<Rightarrow> response
      else response)"

definition action_hint :: "string \<Rightarrow> string" where
  "action_hint response =
     (case extract_result_line response of
        None \<Rightarrow> []
      | Some l \<Rightarrow>
          if contains_text l ''APPROVED''
          then newline @ newline @ ''**Action:** This node APPROVED. Proceed to the next node in the execution plan.''
          else if contains_text l ''DEFECTS''
          then newline @ newline @ ''**Action:** DEFECTS found. Re-delegate to coding agent with these defects:'' @ newline @
            extract_defects response
          else if contains_text l ''OUT_OF_SCOPE''
          then newline @ newline @ ''**Action:** This ward reported the task is outside its domain (out of scope). Do NOT relay this result to the user '' @
            [CHR 0xE2, CHR 0x80, CHR 0x94] @ '' delegate the original task to `planner-agent` instead; it will route to or build the right ward.''
          else if contains_text l ''CAPABILITY_MISSING''
          then newline @ newline @ ''**Action:** This ward reported the task IS in its domain but it lacks a required capability. Do NOT relay this result to the user '' @
            [CHR 0xE2, CHR 0x80, CHR 0x94] @ '' delegate the original task to `planner-agent`, stating that this existing ward is the correct one and only the missing capability must be ADDED to it. The planner must augment the existing ward, not create a new one.''
          else [])"

definition envelope_of :: "string \<Rightarrow> json \<Rightarrow> bool \<Rightarrow> json" where
  "envelope_of agent v valid =
     JObject [(''ok'', JBool True), (''agent'', JString agent), (''data'', v), (''schema_valid'', JBool valid)]"

definition ENVELOPE_PREFIX :: string where "ENVELOPE_PREFIX = ''<!-- structured-result ''"
definition ENVELOPE_SUFFIX :: string where "ENVELOPE_SUFFIX = '' -->''"

definition format_structured_envelope :: "callback_env \<Rightarrow> string \<Rightarrow> json \<Rightarrow> bool \<Rightarrow> string" where
  "format_structured_envelope B agent v valid =
     ENVELOPE_PREFIX @ json_to_string (cb_codec B) (envelope_of agent v valid) @ ENVELOPE_SUFFIX"

definition extract_structured_result :: "callback_env \<Rightarrow> string \<Rightarrow> json option" where
  "extract_structured_result B m =
     Option.bind (strip_prefix ENVELOPE_PREFIX (trim_start m)) (\<lambda>after.
     Option.bind (rfind_sub ENVELOPE_SUFFIX after) (\<lambda>k.
     json_from_str (cb_codec B) (take k after)))"

definition schema_valid_of :: "json \<Rightarrow> bool" where
  "schema_valid_of v = (case json_get v ''_schema_valid'' of Some (JBool b) \<Rightarrow> b | _ \<Rightarrow> True)"

definition callback_body :: "callback_env \<Rightarrow> string \<Rightarrow> string \<Rightarrow> string \<Rightarrow> string" where
  "callback_body B agent response conv =
     ''## From '' @ format_agent_display_name B agent @ newline @ newline @
     (if response = [] then ''_No response generated._'' else format_response_content B response) @
     action_hint response @ newline @ newline @ ''---'' @ newline @ ''_Conversation: `'' @ conv @ ''`_'' @ newline @ newline @
     ''[Recall] Delegation completed. Consider recalling to absorb any new learnings.''"

definition format_callback_message :: "callback_env \<Rightarrow> string \<Rightarrow> string \<Rightarrow> string \<Rightarrow> json option \<Rightarrow> string" where
  "format_callback_message B agent response conv schema =
     (let body = callback_body B agent response conv in
      if schema = None then body
      else case json_from_str (cb_codec B) (trim response) of
             Some v \<Rightarrow> format_structured_envelope B agent v (schema_valid_of v) @ newline @ body
           | None \<Rightarrow> body)"

definition format_error_callback_message :: "callback_env \<Rightarrow> string \<Rightarrow> string \<Rightarrow> string \<Rightarrow> string" where
  "format_error_callback_message B agent err conv =
     ''## Delegation Failed'' @ newline @ newline @ ''**Agent:** '' @ format_agent_display_name B agent @ newline @
     ''**Error:** '' @ err @ newline @ newline @ ''---'' @ newline @ ''_Conversation: `'' @ conv @ ''`_''"

definition validate_delegation_response :: "callback_env \<Rightarrow> string \<Rightarrow> json option \<Rightarrow> string" where
  "validate_delegation_response B response schema =
     (if schema = None then response
      else case json_from_str (cb_codec B) (trim response) of
             Some v \<Rightarrow> json_to_string (cb_codec B) v
           | None \<Rightarrow> json_to_string (cb_codec B)
               (JObject [(''summary'', JString (trim response)), (''_schema_valid'', JBool False)]))"

section \<open>Finding texts\<close>

lemma find_sub_None: "find_sub p s = None \<Longrightarrow> s \<noteq> a @ p @ b"
  by (induction p s arbitrary: a rule: find_sub.induct) (auto simp: Cons_eq_append_conv split: if_splits)

lemma find_sub_first:
  assumes "\<And>i. i < length a \<Longrightarrow> take (length p) (drop i (a @ p @ b)) \<noteq> p"
  shows "find_sub p (a @ p @ b) = Some (length a)"
  using assms
proof (induction a)
  case Nil
  have "take (length p) (p @ b) = p" by simp
  then show ?case by (cases "p @ b") (auto simp del: take_append)
next
  case (Cons c a)
  have "take (length p) (drop i (a @ p @ b)) \<noteq> p" if "i < length a" for i
    using Cons.prems [of "Suc i"] that by simp
  moreover have "take (length p) (c # a @ p @ b) \<noteq> p" using Cons.prems [of 0] by simp
  ultimately show ?case using Cons.IH by simp
qed

lemma contains_append: "contains_text s p \<longleftrightarrow> (\<exists>a b. s = a @ p @ b)"
proof
  show "contains_text s p \<Longrightarrow> \<exists>a b. s = a @ p @ b"
    unfolding contains_text_def
  proof (induction p s rule: find_sub.induct)
    case (2 p c s)
    show ?case
    proof (cases "take (length p) (c # s) = p")
      case True
      then have "c # s = [] @ p @ drop (length p) (c # s)" by (metis append_Nil append_take_drop_id)
      then show ?thesis by blast
    next
      case False
      with 2 obtain a b where "s = a @ p @ b" by auto
      then have "c # s = (c # a) @ p @ b" by simp
      then show ?thesis by blast
    qed
  qed (auto split: if_splits)
qed (use find_sub_None in \<open>fastforce simp: contains_text_def\<close>)

text \<open>The last occurrence is the one behind which there is no other.\<close>

lemma rfind_last:
  assumes "\<And>a b. a \<noteq> [] \<Longrightarrow> p @ rest \<noteq> a @ p @ b"
  shows "rfind_sub p (front @ p @ rest) = Some (length front)"
proof -
  have "take (length (rev p)) (drop i (rev rest @ rev p @ rev front)) \<noteq> rev p" if i: "i < length (rev rest)" for i
  proof
    assume *: "take (length (rev p)) (drop i (rev rest @ rev p @ rev front)) = rev p"
    let ?s = "rev rest @ rev p"
    have "take (length (rev p)) (drop i (?s @ rev front)) = take (length (rev p)) (drop i ?s)"
      using i by simp
    with * have t: "take (length p) (drop i ?s) = rev p" by simp
    have "?s = take i ?s @ rev p @ drop (length p) (drop i ?s)"
      using t by (metis append_take_drop_id)
    then have "rev ?s = rev (drop (length p) (drop i ?s)) @ p @ rev (take i ?s)"
      by (metis rev_append rev_rev_ident append_assoc)
    then have "p @ rest = rev (drop (length p) (drop i ?s)) @ p @ rev (take i ?s)" by simp
    moreover have "length (rev (drop (length p) (drop i ?s))) \<noteq> 0" using i by simp
    then have "rev (drop (length p) (drop i ?s)) \<noteq> []" by (metis length_0_conv)
    ultimately show False using assms by blast
  qed
  then have "find_sub (rev p) (rev rest @ rev p @ rev front) = Some (length (rev rest))" by (rule find_sub_first)
  then show ?thesis by (simp add: rfind_sub_def)
qed

lemma suffix_once:
  assumes "\<not> contains_text s ENVELOPE_SUFFIX" and "a \<noteq> []"
  shows "ENVELOPE_SUFFIX @ newline @ s \<noteq> a @ ENVELOPE_SUFFIX @ b"
proof
  assume e: "ENVELOPE_SUFFIX @ newline @ s = a @ ENVELOPE_SUFFIX @ b"
  from assms(2) obtain c d where a: "a = c # d" by (cases a) auto
  have "s \<noteq> x @ ENVELOPE_SUFFIX @ y" for x y using assms(1) by (auto simp: contains_append)
  with e show False
    by (auto simp: a ENVELOPE_SUFFIX_def newline_def Cons_eq_append_conv append_eq_Cons_conv)
qed

section \<open>Reading back\<close>

lemma starts_visible [simp]: "trim_start (ENVELOPE_PREFIX @ s) = ENVELOPE_PREFIX @ s"
  by (subst trim_start.simps) (simp add: ENVELOPE_PREFIX_def bytes_def ws_len.simps)

lemma envelope_reads_back:
  assumes "json_codec (cb_codec B)" and "\<not> contains_text body ENVELOPE_SUFFIX"
  shows "extract_structured_result B (format_structured_envelope B agent v valid @ newline @ body) =
    Some (envelope_of agent v valid)"
  using assms rfind_last [OF suffix_once [OF assms(2)], of "json_to_string (cb_codec B) (envelope_of agent v valid)"]
  by (simp add: extract_structured_result_def format_structured_envelope_def)

text \<open>What a child answered, as its parent sees it: the JSON of the answer, or the answer as a summary\<close>

definition answer_of :: "callback_env \<Rightarrow> string \<Rightarrow> json" where
  "answer_of B response =
     (case json_from_str (cb_codec B) (trim response) of
        Some v \<Rightarrow> v
      | None \<Rightarrow> JObject [(''summary'', JString (trim response)), (''_schema_valid'', JBool False)])"

text \<open>
  C39: whatever a child answers to a delegation that asked for a schema, its parent reads back the envelope
  with the answer, marked as off the schema when the answer was no JSON, as long as the text of the message
  under the envelope does not close a comment.
\<close>

theorem an_answer_reaches_its_parent:
  assumes "json_codec (cb_codec B)" and "\<And>v. trim (json_to_string (cb_codec B) v) = json_to_string (cb_codec B) v"
    and "response' = validate_delegation_response B response (Some schema)"
    and "\<not> contains_text (callback_body B agent response' conv) '' -->''"
  shows "extract_structured_result B (format_callback_message B agent response' conv (Some schema)) =
    Some (envelope_of agent (answer_of B response) (schema_valid_of (answer_of B response)))"
proof -
  have r: "response' = json_to_string (cb_codec B) (answer_of B response)"
    by (simp add: assms(3) validate_delegation_response_def answer_of_def split: option.split)
  with assms(1,2) have "json_from_str (cb_codec B) (trim response') = Some (answer_of B response)" by simp
  with envelope_reads_back [OF assms(1)] assms(4) show ?thesis
    by (simp add: format_callback_message_def ENVELOPE_SUFFIX_def)
qed

section \<open>Where it goes wrong\<close>

text \<open>
  The end of the envelope is looked for in the whole message, from its end: an answer that has the end of a
  comment in it hides the envelope, given that the parser refuses what follows a value.
\<close>

lemma a_comment_hides_the_answer:
  assumes "\<And>v t. json_from_str (cb_codec B) (json_to_string (cb_codec B) v @ '' -->'' @ t) = None"
    and "\<not> contains_text rest ENVELOPE_SUFFIX" and "body = front @ ENVELOPE_SUFFIX @ newline @ rest"
  shows "extract_structured_result B (format_structured_envelope B agent v valid @ newline @ body) = None"
proof -
  let ?J = "json_to_string (cb_codec B) (envelope_of agent v valid) @ ENVELOPE_SUFFIX @ newline @ front"
  have m: "format_structured_envelope B agent v valid @ newline @ body =
      ENVELOPE_PREFIX @ ?J @ ENVELOPE_SUFFIX @ newline @ rest"
    by (simp add: format_structured_envelope_def assms(3))
  have "json_from_str (cb_codec B) ?J = None"
    using assms(1) [of "envelope_of agent v valid" "newline @ front"] by (simp add: ENVELOPE_SUFFIX_def)
  moreover have "take (length ?J) (?J @ ENVELOPE_SUFFIX @ newline @ rest) = ?J" by (simp del: append_assoc)
  moreover have "rfind_sub ENVELOPE_SUFFIX (?J @ ENVELOPE_SUFFIX @ newline @ rest) = Some (length ?J)"
    by (rule rfind_last) (rule suffix_once [OF assms(2)])
  ultimately show ?thesis
    unfolding m extract_structured_result_def starts_visible strip_prefix_append by (simp only: bind.simps)
qed

text \<open>A result line that speaks of approval is taken for one.\<close>

lemma defects_are_taken_for_approval:
  "action_hint ''RESULT: DEFECTS, not APPROVED yet'' = newline @ newline @
    ''**Action:** This node APPROVED. Proceed to the next node in the execution plan.''"
  by code_simp

section \<open>Instances\<close>

definition visible :: "char \<Rightarrow> bool" where
  "visible c \<longleftrightarrow> 33 \<le> (of_char c :: nat) \<and> (of_char c :: nat) \<le> 126"

lemma visible_start: "visible c \<Longrightarrow> trim_start (c # s) = c # s"
  by (subst trim_start.simps) (auto simp: visible_def bytes_def split: list.split)

lemma visible_end:
  assumes "visible c"
  shows "trim_end (s @ [c]) = s @ [c]"
proof -
  have "ws_len (xs @ [of_char c]) \<noteq> Suc (length xs)" if "length xs < 3" for xs
  proof -
    from that consider "xs = []" | a where "xs = [a]" | a b where "xs = [a, b]"
      by (cases xs; cases "tl xs"; cases "tl (tl xs)") auto
    then show ?thesis using assms by cases (auto simp: visible_def)
  qed
  then have "\<not> ends_blank (s @ [c]) n" if "n \<in> {1, 2, 3}" for n
  proof (cases "n \<le> Suc (length s)")
    case True
    let ?xs = "bytes (drop (Suc (length s) - n) s)"
    have "length ?xs = n - 1" using True that by (auto simp: bytes_def)
    moreover have "drop (Suc (length s) - n) (s @ [c]) = drop (Suc (length s) - n) s @ [c]" using True that by auto
    ultimately show ?thesis
      using \<open>\<And>xs. length xs < 3 \<Longrightarrow> ws_len (xs @ [of_char c]) \<noteq> Suc (length xs)\<close> [of ?xs] that
      by (auto simp: ends_blank_def bytes_def)
  qed (simp add: ends_blank_def)
  then have "find (ends_blank (s @ [c])) [1, 2, 3] = None" by simp
  then show ?thesis by (subst trim_end.simps) simp
qed

lemma visible_text: "\<exists>s. print_text t = s @ '';''"
proof (induction t)
  case (Cons c t)
  then obtain s where "print_text t = s @ '';''" by blast
  then have "print_text (c # t) = (CHR ''.'' # c # s) @ '';''" by simp
  then show ?case by blast
qed simp

lemma visible_json: "trim (print_json v) = print_json v"
proof -
  obtain c s where s: "print_json v = c # s" "visible c"
    by (cases v; cases "v = JBool True") (auto simp: visible_def)
  obtain d t where t: "print_json v = t @ [d]" "visible d"
  proof (cases v)
    case (JNumber n)
    with visible_text [of n] obtain u where "print_json v = (CHR ''#'' # u) @ [CHR '';'']" by auto
    then show thesis using that by (auto simp: visible_def)
  next
    case (JString n)
    with visible_text [of n] obtain u where "print_json v = (CHR ''$'' # u) @ [CHR '';'']" by auto
    then show thesis using that by (auto simp: visible_def)
  next
    case (JArray vs)
    then have "print_json v = (CHR ''['' # concat (map (\<lambda>v. CHR '','' # print_json v) vs)) @ [CHR '']'']" by simp
    then show thesis using that by (auto simp: visible_def)
  next
    case (JObject kvs)
    then have "print_json v = (CHR ''{'' # concat (map (\<lambda>(k, v). CHR '','' # print_text k @ print_json v) kvs)) @ [CHR ''}'']"
      by simp
    then show thesis using that by (auto simp: visible_def)
  next
    case (JBool b)
    then have "print_json v = [] @ [if b then CHR ''t'' else CHR ''f'']" by simp
    then show thesis using that by (auto simp: visible_def)
  qed (use that [of "[]"] in \<open>auto simp: visible_def\<close>)
  from visible_start [OF s(2), of s] visible_end [OF t(2), of t] s(1) t(1) show ?thesis by (simp add: trim_def)
qed

definition sample_callback :: callback_env where
  "sample_callback = \<lparr>cb_codec = json_sample, cb_capitalize = id, cb_pretty = (\<lambda>_. ''{}'')\<rparr>"

definition sample_answer :: json where
  "sample_answer = JObject [(''summary'', JString ''done''), (''_schema_valid'', JBool False)]"

lemma an_answer_reaches_its_parent_witness:
  "let r = validate_delegation_response sample_callback ''done'' (Some JNull) in
    extract_structured_result sample_callback (format_callback_message sample_callback ''7'' r ''c'' (Some JNull)) =
      Some (envelope_of ''7'' (answer_of sample_callback ''done'') (schema_valid_of (answer_of sample_callback ''done'')))"
proof -
  have codec: "json_codec (cb_codec sample_callback)"
    by (simp add: json_codec_def sample_callback_def json_sample_round)
  have trimmed: "trim (json_to_string (cb_codec sample_callback) v) = json_to_string (cb_codec sample_callback) v" for v
    using visible_json by (simp add: sample_callback_def json_sample_def)
  have r: "validate_delegation_response sample_callback ''done'' (Some JNull) = print_json sample_answer"
    using visible_start [of "CHR ''d''" "''one''"] visible_end [of "CHR ''e''" "''don''"]
    by (simp add: validate_delegation_response_def sample_callback_def json_sample_def sample_answer_def trim_def visible_def)
  have "extract_result_line (print_json sample_answer) = None"
    using visible_json [of sample_answer]
    by (simp add: extract_result_line_def text_lines_def Let_def is_result_line_def starts_with_def strip_prefix_def sample_answer_def)
  moreover have "format_response_content sample_callback (print_json sample_answer) =
      ''```json'' @ newline @ ''{}'' @ newline @ ''```''"
    using json_sample_round [of sample_answer] visible_json [of sample_answer]
    by (simp add: format_response_content_def starts_with_def strip_prefix_def sample_callback_def)
      (simp add: sample_answer_def json_sample_def)
  ultimately have "CHR ''>'' \<notin> set (callback_body sample_callback ''7'' (print_json sample_answer) ''c'')"
    by (simp add: callback_body_def format_agent_display_name_def action_hint_def newline_def ascii_upper_def)
  then have "\<not> contains_text (callback_body sample_callback ''7''
      (validate_delegation_response sample_callback ''done'' (Some JNull)) ''c'') '' -->''"
    unfolding r by (auto simp: contains_append)
  from an_answer_reaches_its_parent [OF codec trimmed refl this] show ?thesis by (simp only: Let_def)
qed

end
