(* ===== verification/Session_Control.thy ===== *)
theory Session_Control
  imports Stream_Processor State_Samples
begin

text \<open>
  Control of what runs: the flags behind an execution handle (\<open>gateway-execution/src/handle.rs\<close>), the
  registry of delegations (\<open>delegation/registry.rs\<close>, \<open>delegation/context.rs\<close>), the bus that connects an
  agent with those who wait for it (\<open>agent_pool/result_bus.rs\<close>), and stopping, pausing and cancelling over
  all of them (\<open>runner/session_control.rs\<close>), all under \<open>gateway/gateway-execution/src\<close>.
\<close>

section \<open>Handles\<close>

record execution_handle =
  eh_stop :: bool
  eh_pause :: bool
  eh_cancel :: bool
  eh_iteration :: "32 word"
  eh_max_iterations :: "32 word"

definition handle_new :: "32 word \<Rightarrow> execution_handle" where
  "handle_new n = \<lparr>eh_stop = False, eh_pause = False, eh_cancel = False, eh_iteration = 0, eh_max_iterations = n\<rparr>"

definition handle_stop :: "execution_handle \<Rightarrow> execution_handle" where
  "handle_stop h = h\<lparr>eh_stop := True\<rparr>"

definition handle_pause :: "execution_handle \<Rightarrow> execution_handle" where
  "handle_pause h = h\<lparr>eh_pause := True\<rparr>"

definition handle_resume :: "execution_handle \<Rightarrow> execution_handle" where
  "handle_resume h = h\<lparr>eh_pause := False\<rparr>"

definition handle_cancel :: "execution_handle \<Rightarrow> execution_handle" where
  "handle_cancel h = h\<lparr>eh_cancel := True, eh_stop := True\<rparr>"

definition handle_increment :: "execution_handle \<Rightarrow> execution_handle" where
  "handle_increment h = h\<lparr>eh_iteration := eh_iteration h + 1\<rparr>"

definition handle_add_iterations :: "32 word \<Rightarrow> execution_handle \<Rightarrow> execution_handle" where
  "handle_add_iterations n h = h\<lparr>eh_max_iterations := eh_max_iterations h + n, eh_stop := False\<rparr>"

section \<open>Delegations\<close>

record delegation_context =
  dx_session_id :: string
  dx_parent_execution_id :: string
  dx_parent_agent_id :: string
  dx_parent_conversation_id :: string
  dx_task_context :: "json option"
  dx_callback_on_complete :: bool
  dx_child_conversation_id :: "string option"
  dx_output_schema :: "json option"
  dx_mode :: "delegation_mode option"

definition delegation_context_new :: "string \<Rightarrow> string \<Rightarrow> string \<Rightarrow> string \<Rightarrow> delegation_context" where
  "delegation_context_new s parent agent conv =
     \<lparr>dx_session_id = s, dx_parent_execution_id = parent, dx_parent_agent_id = agent,
      dx_parent_conversation_id = conv, dx_task_context = None, dx_callback_on_complete = True,
      dx_child_conversation_id = None, dx_output_schema = None, dx_mode = None\<rparr>"

text \<open>A hash map as its entries; the order they come in stands for whatever order it iterates in.\<close>

type_synonym delegation_registry = "(string \<times> delegation_context) list"

definition delegation_register :: "string \<Rightarrow> delegation_context \<Rightarrow> delegation_registry \<Rightarrow> delegation_registry" where
  "delegation_register i c reg = (i, c) # filter (\<lambda>(j, _). j \<noteq> i) reg"

definition delegation_get :: "string \<Rightarrow> delegation_registry \<Rightarrow> delegation_context option" where
  "delegation_get i reg = map_of reg i"

definition delegation_remove :: "string \<Rightarrow> delegation_registry \<Rightarrow> delegation_registry" where
  "delegation_remove i reg = filter (\<lambda>(j, _). j \<noteq> i) reg"

definition get_children :: "string \<Rightarrow> delegation_registry \<Rightarrow> string list" where
  "get_children parent reg = map fst (filter (\<lambda>(_, c). dx_parent_conversation_id c = parent) reg)"

definition get_by_session_id :: "string \<Rightarrow> delegation_registry \<Rightarrow> (string \<times> delegation_context) list" where
  "get_by_session_id s reg = filter (\<lambda>(_, c). dx_session_id c = s) reg"

definition is_delegated :: "string \<Rightarrow> delegation_registry \<Rightarrow> bool" where
  "is_delegated i reg \<longleftrightarrow> i \<in> fst ` set reg"

section \<open>The world of control\<close>

text \<open>
  A handle is shared: the map of handles knows it by its conversation, the bus by its execution. Waiters
  are the ends of one-shot channels; an answer is what was sent into one.
\<close>

datatype agent_wait_error = WaitTimeout | WaitCrashed string | WaitNotFound string

record agent_result =
  ag_execution_id :: string
  ag_agent_id :: string
  ag_response :: string

record control_world =
  cw_state :: statedb
  cw_flags :: "execution_handle list"
  cw_handles :: "(string \<times> nat) list"
  cw_registry :: delegation_registry
  cw_execution_handles :: "(string \<times> nat) list"
  cw_waiters :: "(string \<times> nat) list"
  cw_answers :: "(nat \<times> (agent_wait_error + agent_result)) list"

definition on_control :: "'a st_op \<Rightarrow> control_world \<Rightarrow> (state_error + 'a) \<times> control_world" where
  "on_control f w = (let (r, t) = f (cw_state w) in (r, w\<lparr>cw_state := t\<rparr>))"

definition signal :: "(execution_handle \<Rightarrow> execution_handle) \<Rightarrow> nat \<Rightarrow> control_world \<Rightarrow> control_world" where
  "signal f k w = w\<lparr>cw_flags := (cw_flags w)[k := f (cw_flags w ! k)]\<rparr>"

text \<open>\<open>handles.get(id)\<close> and, if it is there, a signal\<close>

definition signal_conversation :: "(execution_handle \<Rightarrow> execution_handle) \<Rightarrow> string \<Rightarrow> control_world \<Rightarrow> control_world" where
  "signal_conversation f c w = (case map_of (cw_handles w) c of None \<Rightarrow> w | Some k \<Rightarrow> signal f k w)"

definition signal_all :: "(execution_handle \<Rightarrow> execution_handle) \<Rightarrow> control_world \<Rightarrow> control_world" where
  "signal_all f w = fold (\<lambda>(_, k). signal f k) (cw_handles w) w"

section \<open>The bus of results\<close>

definition without_key :: "string \<Rightarrow> (string \<times> 'a) list \<Rightarrow> (string \<times> 'a) list" where
  "without_key i kvs = filter (\<lambda>(j, _). j \<noteq> i) kvs"

definition register_handle :: "string \<Rightarrow> nat \<Rightarrow> control_world \<Rightarrow> control_world" where
  "register_handle i k w = w\<lparr>cw_execution_handles := (i, k) # without_key i (cw_execution_handles w)\<rparr>"

text \<open>A second waiter for an execution drops the sender of the first. \<open>k\<close> names the new channel.\<close>

definition register_waiter :: "string \<Rightarrow> nat \<Rightarrow> control_world \<Rightarrow> control_world" where
  "register_waiter i k w = w\<lparr>cw_waiters := (i, k) # without_key i (cw_waiters w)\<rparr>"

definition answer_waiter :: "string \<Rightarrow> agent_wait_error + agent_result \<Rightarrow> control_world \<Rightarrow> control_world" where
  "answer_waiter i a w =
     w\<lparr>cw_waiters := without_key i (cw_waiters w),
       cw_answers := cw_answers w @ (case map_of (cw_waiters w) i of None \<Rightarrow> [] | Some k \<Rightarrow> [(k, a)])\<rparr>"

definition bus_resolve :: "string \<Rightarrow> string \<Rightarrow> string \<Rightarrow> control_world \<Rightarrow> control_world" where
  "bus_resolve i agent response w =
     (let v = answer_waiter i (Inr \<lparr>ag_execution_id = i, ag_agent_id = agent, ag_response = response\<rparr>) w
      in v\<lparr>cw_execution_handles := without_key i (cw_execution_handles v)\<rparr>)"

definition bus_reject :: "string \<Rightarrow> agent_wait_error \<Rightarrow> control_world \<Rightarrow> control_world" where
  "bus_reject i e w =
     (let v = answer_waiter i (Inl e) w
      in v\<lparr>cw_execution_handles := without_key i (cw_execution_handles v)\<rparr>)"

definition bus_kill :: "string \<Rightarrow> control_world \<Rightarrow> bool \<times> control_world" where
  "bus_kill i w =
     (let found = map_of (cw_execution_handles w) i;
          v = w\<lparr>cw_execution_handles := without_key i (cw_execution_handles w)\<rparr>;
          u = (case found of None \<Rightarrow> v | Some k \<Rightarrow> signal handle_stop k v)
      in (found \<noteq> None, answer_waiter i (Inl (WaitCrashed ''killed by orchestrator'')) u))"

section \<open>Control of a session\<close>

text \<open>\<open>ExecutionError::from(String)\<close> is the session error.\<close>

definition control_stop :: "string \<Rightarrow> control_world \<Rightarrow> (string + unit) \<times> control_world" where
  "control_stop c w =
     (let v = signal_conversation handle_stop c w;
          u = fold (signal_conversation handle_stop) (get_children c (cw_registry v)) v
      in (if c \<in> fst ` set (cw_handles w) then Inr ()
          else Inl (''No active execution for conversation: '' @ c), u))"

definition control_continue :: "string \<Rightarrow> 32 word \<Rightarrow> control_world \<Rightarrow> (string + unit) \<times> control_world" where
  "control_continue c n w =
     (case map_of (cw_handles w) c of
        None \<Rightarrow> (Inl (''No active execution for conversation: '' @ c), w)
      | Some k \<Rightarrow> (Inr (), signal (handle_add_iterations n) k w))"

definition then_signal ::
  "'a st_op \<Rightarrow> (control_world \<Rightarrow> control_world) \<Rightarrow> control_world \<Rightarrow> (state_error + unit) \<times> control_world" where
  "then_signal f g w = (case on_control f w of (Inl e, v) \<Rightarrow> (Inl e, v) | (Inr _, v) \<Rightarrow> (Inr (), g v))"

definition control_pause :: "state_env \<Rightarrow> string \<Rightarrow> control_world \<Rightarrow> (state_error + unit) \<times> control_world" where
  "control_pause E s = then_signal (pause_session E s) (signal_all handle_pause)"

definition control_cancel :: "state_env \<Rightarrow> string \<Rightarrow> control_world \<Rightarrow> (state_error + unit) \<times> control_world" where
  "control_cancel E s = then_signal (cancel_session E s) (signal_all handle_cancel)"

definition control_resume_live :: "state_env \<Rightarrow> string \<Rightarrow> control_world \<Rightarrow> (state_error + unit) \<times> control_world" where
  "control_resume_live E s = then_signal (resume_session E s) (signal_all handle_resume)"

text \<open>The handles are signalled first, then the session is completed.\<close>

definition control_end_session :: "state_env \<Rightarrow> string \<Rightarrow> control_world \<Rightarrow> (state_error + unit) \<times> control_world" where
  "control_end_session E s w = on_control (complete_session E s) (signal_all handle_stop w)"

text \<open>\<open>pending\<close> is a stack: its head is what \<open>pop\<close> takes.\<close>

lemma children_registered: "set (get_children c reg) \<subseteq> fst ` set reg"
  by (auto simp: get_children_def)

function cancel_tree :: "delegation_registry \<Rightarrow> string list \<Rightarrow> string list \<Rightarrow> control_world \<Rightarrow> control_world" where
  "cancel_tree reg visited [] w = w"
| "cancel_tree reg visited (c # pending) w =
     (if c \<in> set visited then cancel_tree reg visited pending w
      else cancel_tree reg (c # visited) (rev (get_children c reg) @ pending) (signal_conversation handle_cancel c w))"
  by pat_completeness auto

termination
proof (relation "measures [\<lambda>(reg, visited, pending, w). card ((fst ` set reg \<union> set pending) - set visited),
    \<lambda>(reg, visited, pending, w). length pending]")
  fix reg :: delegation_registry and visited pending :: "string list" and c and w :: control_world
  show "((reg, visited, pending, w), reg, visited, c # pending, w) \<in> measures
      [\<lambda>(reg, visited, pending, w). card ((fst ` set reg \<union> set pending) - set visited),
       \<lambda>(reg, visited, pending, w). length pending]" if "c \<in> set visited"
    using that by simp
next
  fix reg :: delegation_registry and visited pending :: "string list" and c and w :: control_world
  assume new: "c \<notin> set visited"
  let ?before = "(fst ` set reg \<union> set (c # pending)) - set visited"
  let ?after = "(fst ` set reg \<union> set (rev (get_children c reg) @ pending)) - set (c # visited)"
  have "?after \<subset> ?before" using children_registered [of c reg] new by auto
  then have "card ?after < card ?before" by (intro psubset_card_mono) auto
  then show "((reg, c # visited, rev (get_children c reg) @ pending, signal_conversation handle_cancel c w),
      reg, visited, c # pending, w) \<in> measures
      [\<lambda>(reg, visited, pending, w). card ((fst ` set reg \<union> set pending) - set visited),
       \<lambda>(reg, visited, pending, w). length pending]"
    by simp
qed simp

definition cancel_execution_tree :: "string \<Rightarrow> control_world \<Rightarrow> control_world" where
  "cancel_execution_tree root w = cancel_tree (cw_registry w) [] [root] w"

definition control_cancel_exact ::
  "state_env \<Rightarrow> string \<Rightarrow> string \<Rightarrow> control_world \<Rightarrow> (state_error + unit) \<times> control_world" where
  "control_cancel_exact E s root = then_signal (cancel_session E s) (cancel_execution_tree root)"

declare cancel_tree.simps [simp del]

section \<open>Who is signalled\<close>

text \<open>The conversations below one, by the registry\<close>

inductive delegated_below :: "delegation_registry \<Rightarrow> string \<Rightarrow> string \<Rightarrow> bool" for reg root where
  delegated_here: "delegated_below reg root root"
| delegated_child: "delegated_below reg root p \<Longrightarrow> (c, x) \<in> set reg \<Longrightarrow> dx_parent_conversation_id x = p \<Longrightarrow>
    delegated_below reg root c"

lemma in_registered_children: "c \<in> set (get_children p reg) \<longleftrightarrow> (\<exists>x. (c, x) \<in> set reg \<and> dx_parent_conversation_id x = p)"
  by (force simp: get_children_def image_iff)

lemma below_children: "c \<in> set (get_children p reg) \<Longrightarrow> delegated_below reg c d \<Longrightarrow> delegated_below reg p d"
  by (rotate_tac 1, induction rule: delegated_below.induct)
    (auto simp: in_registered_children intro: delegated_below.intros)

text \<open>The loop signals each conversation below the pending ones once, and no other.\<close>

lemma cancel_tree_signals:
  "\<exists>cs. cancel_tree reg visited pending w = fold (signal_conversation handle_cancel) cs w \<and>
     set pending \<subseteq> set visited \<union> set cs \<and>
     (\<forall>c \<in> set cs. set (get_children c reg) \<subseteq> set visited \<union> set cs \<and> (\<exists>p \<in> set pending. delegated_below reg p c))"
proof (induction reg visited pending w rule: cancel_tree.induct)
  case (2 reg visited c pending w)
  show ?case
  proof (cases "c \<in> set visited")
    case True
    with "2.IH"(1) show ?thesis by (fastforce simp: cancel_tree.simps)
  next
    case False
    let ?more = "rev (get_children c reg) @ pending"
    from "2.IH"(2) [OF False] obtain cs where
      cs: "cancel_tree reg (c # visited) ?more (signal_conversation handle_cancel c w) =
          fold (signal_conversation handle_cancel) cs (signal_conversation handle_cancel c w)"
        "set ?more \<subseteq> set (c # visited) \<union> set cs"
        "\<forall>d \<in> set cs. set (get_children d reg) \<subseteq> set (c # visited) \<union> set cs \<and> (\<exists>p \<in> set ?more. delegated_below reg p d)"
      by blast
    have "\<exists>p \<in> set (c # pending). delegated_below reg p d" if "d \<in> set cs" for d
      using cs(3) that below_children [of _ c reg d] by fastforce
    moreover have "delegated_below reg c c" by (rule delegated_here)
    ultimately show ?thesis
      using False cs(1,2,3) by (intro exI [of _ "c # cs"]) (simp only: cancel_tree.simps if_False fold_Cons o_apply, fastforce)
  qed
qed (simp add: cancel_tree.simps)

lemma tree_signals:
  "\<exists>cs. cancel_execution_tree root w = fold (signal_conversation handle_cancel) cs w \<and>
     (\<forall>c. c \<in> set cs \<longleftrightarrow> delegated_below (cw_registry w) root c)"
proof -
  from cancel_tree_signals [of "cw_registry w" "[]" "[root]" w] obtain cs where
    cs: "cancel_tree (cw_registry w) [] [root] w = fold (signal_conversation handle_cancel) cs w"
      "set [root] \<subseteq> set [] \<union> set cs"
      "\<forall>c \<in> set cs. set (get_children c (cw_registry w)) \<subseteq> set [] \<union> set cs \<and>
         (\<exists>p \<in> set [root]. delegated_below (cw_registry w) p c)" by (elim exE conjE)
  have "c \<in> set cs" if "delegated_below (cw_registry w) root c" for c
    using that
  proof induction
    case (delegated_child p c x)
    then have "c \<in> set (get_children p (cw_registry w))" by (auto simp: in_registered_children)
    with delegated_child.IH cs(3) show ?case by auto
  qed (use cs(2) in simp)
  moreover have "delegated_below (cw_registry w) root c" if "c \<in> set cs" for c using cs(3) that by auto
  ultimately show ?thesis unfolding cancel_execution_tree_def using cs(1) by blast
qed

lemma signal_simps [simp]:
  "cw_handles (signal_conversation f c w) = cw_handles w" "cw_registry (signal_conversation f c w) = cw_registry w"
  "length (cw_flags (signal_conversation f c w)) = length (cw_flags w)"
  "cw_state (signal_conversation f c w) = cw_state w"
  by (simp_all add: signal_conversation_def signal_def split: option.split)

lemma signal_flags:
  "j < length (cw_flags w) \<Longrightarrow> cw_flags (signal_conversation f c w) ! j =
     (if map_of (cw_handles w) c = Some j then f (cw_flags w ! j) else cw_flags w ! j)"
  by (auto simp: signal_conversation_def signal_def nth_list_update split: option.split)

lemma signals_flags:
  assumes "\<And>h. f (f h) = f h" and "j < length (cw_flags w)"
  shows "cw_flags (fold (signal_conversation f) cs w) ! j =
    (if \<exists>c \<in> set cs. map_of (cw_handles w) c = Some j then f (cw_flags w ! j) else cw_flags w ! j)"
  using assms(2)
proof (induction cs arbitrary: w)
  case (Cons c cs)
  then show ?case by (auto simp: signal_flags assms(1))
qed simp

lemma signals_state [simp]:
  "cw_state (fold (signal_conversation f) cs w) = cw_state w"
  "length (cw_flags (fold (signal_conversation f) cs w)) = length (cw_flags w)"
  by (induction cs arbitrary: w) simp_all

lemma cancel_idem: "handle_cancel (handle_cancel h) = handle_cancel h"
  by (simp add: handle_cancel_def)

text \<open>
  C38: cancelling one session with the conversation it runs in either is refused by the store and signals
  nobody, or sets the flags of exactly the handles of the conversations below, at any depth and however
  the registry is tangled, and leaves every other execution alone.
\<close>

theorem cancelling_reaches_exactly_the_tree:
  "case control_cancel_exact E s root w of
     (Inl e, v) \<Rightarrow> fst (cancel_session E s (cw_state w)) = Inl e \<and> cw_flags v = cw_flags w
   | (Inr _, v) \<Rightarrow> cw_state v = snd (cancel_session E s (cw_state w)) \<and> length (cw_flags v) = length (cw_flags w) \<and>
       (\<forall>j < length (cw_flags w). cw_flags v ! j =
          (if \<exists>c. delegated_below (cw_registry w) root c \<and> map_of (cw_handles w) c = Some j
           then handle_cancel (cw_flags w ! j) else cw_flags w ! j))"
proof -
  obtain r t where rt: "cancel_session E s (cw_state w) = (r, t)" by fastforce
  show ?thesis
  proof (cases r)
    case (Inr u)
    let ?v = "w\<lparr>cw_state := t\<rparr>"
    from tree_signals [of root ?v] obtain cs where
      cs: "cancel_execution_tree root ?v = fold (signal_conversation handle_cancel) cs ?v"
        "\<forall>c. c \<in> set cs \<longleftrightarrow> delegated_below (cw_registry w) root c" by auto
    have "control_cancel_exact E s root w = (Inr (), fold (signal_conversation handle_cancel) cs ?v)"
      by (simp add: control_cancel_exact_def then_signal_def on_control_def rt Inr cs(1))
    then show ?thesis
      using signals_flags [of handle_cancel _ ?v cs, OF cancel_idem] cs(2) by (auto simp: rt)
  qed (simp add: control_cancel_exact_def then_signal_def on_control_def rt)
qed

section \<open>Who is signalled too\<close>

text \<open>Ending a session stops whatever runs, in this session or in another.\<close>

lemma stop_signal [simp]:
  "length (cw_flags (signal handle_stop j w)) = length (cw_flags w)"
  "j < length (cw_flags w) \<Longrightarrow> eh_stop (cw_flags (signal handle_stop j w) ! j)"
  "eh_stop (cw_flags w ! k) \<Longrightarrow> eh_stop (cw_flags (signal handle_stop j w) ! k)"
proof -
  show "length (cw_flags (signal handle_stop j w)) = length (cw_flags w)" by (simp add: signal_def)
  show "j < length (cw_flags w) \<Longrightarrow> eh_stop (cw_flags (signal handle_stop j w) ! j)"
    by (simp add: signal_def handle_stop_def)
  show "eh_stop (cw_flags w ! k) \<Longrightarrow> eh_stop (cw_flags (signal handle_stop j w) ! k)"
    by (cases "j < length (cw_flags w)"; cases "j = k") (simp_all add: signal_def handle_stop_def list_update_beyond not_less)
qed

lemma stopped_stays: "eh_stop (cw_flags w ! k) \<Longrightarrow> eh_stop (cw_flags (fold (\<lambda>(_, k). signal handle_stop k) hs w) ! k)"
  by (induction hs arbitrary: w) (simp_all split: prod.split)

lemma signal_all_stops: "(c, k) \<in> set hs \<Longrightarrow> k < length (cw_flags w) \<Longrightarrow>
  eh_stop (cw_flags (fold (\<lambda>(_, k). signal handle_stop k) hs w) ! k)"
  by (induction hs arbitrary: w) (auto simp: stopped_stays)

lemma ending_a_session_stops_the_others:
  assumes "(c, k) \<in> set (cw_handles w)" and "k < length (cw_flags w)"
  shows "eh_stop (cw_flags (snd (control_end_session E s w)) ! k)"
  using signal_all_stops [OF assms]
  by (simp add: control_end_session_def on_control_def signal_all_def split: prod.split)

section \<open>An instance\<close>

text \<open>Two conversations that are registered below each other, and one that is not.\<close>

definition sample_control :: control_world where
  "sample_control =
     \<lparr>cw_state = sample_db\<lparr>executions_t := []\<rparr>, cw_flags = [handle_new 5, handle_new 5, handle_new 5],
      cw_handles = [(''a'', 0), (''b'', 1), (''z'', 2)],
      cw_registry = [(''b'', delegation_context_new ''s'' ''x'' ''root'' ''a''), (''a'', delegation_context_new ''s'' ''x'' ''root'' ''b'')],
      cw_execution_handles = [], cw_waiters = [], cw_answers = []\<rparr>"

lemma below_a: "delegated_below (cw_registry sample_control) ''a'' c \<longleftrightarrow> c \<in> {''a'', ''b''}"
proof
  show "delegated_below (cw_registry sample_control) ''a'' c \<Longrightarrow> c \<in> {''a'', ''b''}"
    by (induction rule: delegated_below.induct) (auto simp: sample_control_def)
  have "delegated_below (cw_registry sample_control) ''a'' ''b''"
    by (rule delegated_child [OF delegated_here, of "''b''" "delegation_context_new ''s'' ''x'' ''root'' ''a''"])
      (simp_all add: sample_control_def delegation_context_new_def)
  then show "c \<in> {''a'', ''b''} \<Longrightarrow> delegated_below (cw_registry sample_control) ''a'' c"
    by (auto intro: delegated_here)
qed

lemma cancelling_reaches_exactly_the_tree_witness:
  "fst (control_cancel_exact sample_env ''s'' ''a'' sample_control) = Inr () \<and>
   map eh_cancel (cw_flags (snd (control_cancel_exact sample_env ''s'' ''a'' sample_control))) = [True, True, False]"
proof -
  let ?r = "control_cancel_exact sample_env ''s'' ''a'' sample_control"
  let ?db = "sample_db\<lparr>executions_t := []\<rparr>"
  have state: "cw_state sample_control = ?db" by (simp add: sample_control_def)
  have up: "script ?db = []" "find_session_row ''s'' ?db = Some (sample_session ''s'' None)"
    by (simp_all add: find_session_row_def)
  have "s_status (row_to_session json_sample (sample_session ''s'' None)) = SRunning"
    using session_status_round [of SRunning] by (simp add: row_to_session_def)
  moreover have "repo_list_executions sample_env (of_session ''s'') ?db = (Inr [], ?db)"
    by (simp add: repo_list_executions_def op_simps of_session_def any_execution_def order_asc_def Let_def)
  ultimately have "fst (cancel_session sample_env ''s'' (cw_state sample_control)) = Inr ()"
    unfolding state
    by (simp add: cancel_session_def require_session_def repo_get_session_def bnd_def ret_apply op_simps up
        repo_reset_delegation_tracking_def set_session_def unit_op_def repo_update_session_status_def
        cascade_executions_def)
  then have ok: "fst ?r = Inr ()"
    using cancelling_reaches_exactly_the_tree [where E = sample_env and s = "''s''" and root = "''a''" and w = sample_control]
    by (cases "fst ?r") (auto simp: Let_def split_beta)
  then obtain v where v: "?r = (Inr (), v)" by (cases ?r) simp
  have flags: "cw_flags sample_control = [handle_new 5, handle_new 5, handle_new 5]"
    and handles: "cw_handles sample_control = [(''a'', 0), (''b'', 1), (''z'', 2)]"
    by (simp_all add: sample_control_def)
  have "map_of (cw_handles sample_control) ''a'' = Some 0" "map_of (cw_handles sample_control) ''b'' = Some 1"
    by (simp_all add: handles)
  then have reached: "(\<exists>c. c \<in> {''a'', ''b''} \<and> map_of (cw_handles sample_control) c = Some j) \<longleftrightarrow> j = 0 \<or> j = 1" for j
    by (metis insertCI insertE option.inject singletonD)
  have "length (cw_flags v) = length (cw_flags sample_control) \<and> (\<forall>j < length (cw_flags sample_control). cw_flags v ! j =
      (if \<exists>c. c \<in> {''a'', ''b''} \<and> map_of (cw_handles sample_control) c = Some j
       then handle_cancel (cw_flags sample_control ! j) else cw_flags sample_control ! j))"
    using cancelling_reaches_exactly_the_tree [where E = sample_env and s = "''s''" and root = "''a''" and w = sample_control]
    unfolding v below_a prod.case sum.case by (elim conjE) (intro conjI)
  then have all: "length (cw_flags v) = 3" "\<forall>j < 3. cw_flags v ! j =
      (if j = 0 \<or> j = 1 then handle_cancel ([handle_new 5, handle_new 5, handle_new 5] ! j)
       else [handle_new 5, handle_new 5, handle_new 5] ! j)"
    unfolding reached flags by (simp_all del: One_nat_def)
  then have "cw_flags v ! 0 = handle_cancel (handle_new 5)"
    "cw_flags v ! 1 = handle_cancel (handle_new 5)" "cw_flags v ! 2 = handle_new 5"
    by simp_all
  then have "cw_flags v = [handle_cancel (handle_new 5), handle_cancel (handle_new 5), handle_new 5]"
    using all(1) by (simp add: list_eq_iff_nth_eq less_Suc_eq numeral_3_eq_3 numeral_2_eq_2 One_nat_def)
  with ok v show ?thesis by (simp add: handle_cancel_def handle_new_def)
qed

end
