(* ===== verification/Lifecycle.thy ===== *)
theory Lifecycle
  imports Callbacks Session_Control Bridge_Workers
begin

text \<open>
  The life of an execution across its parts (\<open>gateway/gateway-execution/src/lifecycle.rs\<close>, the child
  executions of \<open>delegation/spawn.rs\<close>, the sending of callbacks in \<open>delegation/callback.rs\<close>): what starting,
  completing, crashing and stopping do to the session store, the log, the bus of events, the registry of
  delegations, the agents that wait, and the bridge. A call whose failure is only logged is tried.
\<close>

section \<open>The world\<close>

text \<open>
  The configuration of agents, providers and tools decides whether the executor of a child can be built:
  the environment answers, with the text of the error. So it does for the agents that are configured, and
  for the directories of wards (those that are no links) and their files.
\<close>

record life_env =
  le_stream :: stream_env
  le_bridge :: bridge_env
  le_callback :: callback_env
  le_agent_exists :: "string \<Rightarrow> bool"
  le_is_ward_dir :: "string \<Rightarrow> bool"
  le_builds :: "delegation_request \<Rightarrow> string option"
  le_engine :: "delegation_request \<Rightarrow> string option"
  le_ward_files :: "string \<Rightarrow> string list option"
  le_facts :: bool

record connector_dispatch =
  cd_connectors :: "string list"
  cd_payload :: json
  cd_session_id :: string
  cd_thread_id :: "string option"
  cd_agent_id :: string

record state_handoff =
  sh_session_id :: string
  sh_ward_id :: string
  sh_execution_id :: string
  sh_agent_id :: string
  sh_summary :: string

text \<open>The store is the one of the control world; the bridge works on it with its connections.\<close>

record life_world =
  lw_control :: control_world
  lw_bridge :: bridge_world
  lw_persist_surfaces :: bool
  lw_published :: "gateway_event list"
  lw_dispatched :: "connector_dispatch list"
  lw_handoffs :: "state_handoff list"

definition life_state :: "life_world \<Rightarrow> statedb" where
  "life_state w = cw_state (lw_control w)"

definition set_life_state :: "statedb \<Rightarrow> life_world \<Rightarrow> life_world" where
  "set_life_state db w = w\<lparr>lw_control := (lw_control w)\<lparr>cw_state := db\<rparr>\<rparr>"

definition on_life :: "'a st_op \<Rightarrow> life_world \<Rightarrow> (state_error + 'a) \<times> life_world" where
  "on_life f w = (let (r, t) = f (life_state w) in (r, set_life_state t w))"

definition try_life :: "'a st_op \<Rightarrow> life_world \<Rightarrow> life_world" where
  "try_life f w = snd (on_life f w)"

definition publish :: "gateway_event \<Rightarrow> life_world \<Rightarrow> life_world" where
  "publish e w = w\<lparr>lw_published := lw_published w @ [e]\<rparr>"

definition in_control :: "(control_world \<Rightarrow> control_world) \<Rightarrow> life_world \<Rightarrow> life_world" where
  "in_control f w = w\<lparr>lw_control := f (lw_control w)\<rparr>"

definition in_registry :: "(delegation_registry \<Rightarrow> delegation_registry) \<Rightarrow> life_world \<Rightarrow> life_world" where
  "in_registry f = in_control (\<lambda>c. c\<lparr>cw_registry := f (cw_registry c)\<rparr>)"

definition in_bridge :: "(bridge_world \<Rightarrow> bridge_world) \<Rightarrow> life_world \<Rightarrow> life_world" where
  "in_bridge f w =
     (let b = f ((lw_bridge w)\<lparr>bw_state := life_state w\<rparr>) in set_life_state (bw_state b) (w\<lparr>lw_bridge := b\<rparr>))"

abbreviation life_store :: "life_env \<Rightarrow> state_env" where
  "life_store E \<equiv> se_state (le_stream E)"

section \<open>Sessions and executions\<close>

record session_setup =
  su_session_id :: string
  su_execution_id :: string
  su_ward_id :: "string option"

text \<open>Where the store fails, a session and an execution under fresh ids that are nowhere stored.\<close>

definition create_new_session :: "state_env \<Rightarrow> string \<Rightarrow> trigger_source \<Rightarrow> statedb \<Rightarrow> session_setup \<times> statedb" where
  "create_new_session S agent source db =
     (case create_session_with_source S agent source db of
        (Inr (s, x), t) \<Rightarrow> (\<lparr>su_session_id = s_id s, su_execution_id = x_id x, su_ward_id = None\<rparr>, t)
      | (Inl _, t) \<Rightarrow>
          (let s = session_new_with_source (fresh_uuid S (minted t)) (now_text S (ticks t)) agent source;
               x = execution_new_root (fresh_uuid S (Suc (minted t))) (s_id s) agent
           in (\<lparr>su_session_id = s_id s, su_execution_id = x_id x, su_ward_id = None\<rparr>,
               t\<lparr>minted := minted t + 2, ticks := Suc (ticks t)\<rparr>)))"

definition get_or_create_session ::
  "state_env \<Rightarrow> string \<Rightarrow> string option \<Rightarrow> trigger_source \<Rightarrow> statedb \<Rightarrow> session_setup \<times> statedb" where
  "get_or_create_session S agent existing source db =
     (case existing of
        None \<Rightarrow> create_new_session S agent source db
      | Some i \<Rightarrow>
          (case repo_get_session S i db of
             (Inr (Some s), t) \<Rightarrow>
               (let (x, u) = (case repo_get_root_execution S i t of
                    (Inr (Some r), u) \<Rightarrow> (x_id r, u)
                  | (_, u) \<Rightarrow>
                      (let new = execution_new_root (fresh_uuid S (minted u)) i agent in
                       (x_id new, snd (repo_create_execution S new (u\<lparr>minted := Suc (minted u)\<rparr>)))))
                in (\<lparr>su_session_id = i, su_execution_id = x, su_ward_id = s_ward_id s\<rparr>, u))
           | (_, t) \<Rightarrow> create_new_session S agent source t))"

definition lifecycle_start_execution ::
  "life_env \<Rightarrow> string \<Rightarrow> string \<Rightarrow> string \<Rightarrow> string option \<Rightarrow> life_world \<Rightarrow> life_world" where
  "lifecycle_start_execution E x s agent parent w =
     try_life (log_session_start (life_store E) x s agent parent) (try_life (start_execution (life_store E) x) w)"

section \<open>Completion\<close>

record complete_ctx =
  ce_execution_id :: string
  ce_session_id :: string
  ce_agent_id :: string
  ce_conversation_id :: string
  ce_response :: "string option"
  ce_connector_registry :: bool
  ce_respond_to :: "string list option"
  ce_thread_id :: "string option"
  ce_bridge_registry :: bool
  ce_bridge_outbox :: bool

text \<open>A root that ends while delegations are pending asks to be continued.\<close>

definition continue_after_delegations :: "life_env \<Rightarrow> complete_ctx \<Rightarrow> life_world \<Rightarrow> life_world" where
  "continue_after_delegations E c w =
     (case on_life (repo_get_execution (life_store E) (ce_execution_id c)) w of
        (Inr (Some x), v) \<Rightarrow>
          if execution_is_root x
          then (case on_life (repo_get_session (life_store E) (ce_session_id c)) v of
                  (Inr (Some s), u) \<Rightarrow>
                    if has_pending_delegations s then try_life (request_continuation (ce_session_id c)) u else u
                | (_, u) \<Rightarrow> u)
          else v
      | (_, v) \<Rightarrow> v)"

definition keep_surface :: "life_env \<Rightarrow> gateway_event \<Rightarrow> life_world \<Rightarrow> life_world" where
  "keep_surface E e w =
     set_life_state (sw_state (persist_gateway_surface (le_stream E) e
       \<lparr>sw_state = life_state w, sw_persist_surfaces = lw_persist_surfaces w, sw_writes = [], sw_requests = [],
        sw_published = [], sw_tasks = [], sw_surface_ids = [], sw_output_writes = [], sw_scaffolded = []\<rparr>)) w"

definition reconcile_plan :: "life_env \<Rightarrow> complete_ctx \<Rightarrow> life_world \<Rightarrow> life_world" where
  "reconcile_plan E c w =
     (case on_life (repo_complete_session_plan (life_store E) (ce_session_id c) (ce_execution_id c)) w of
        (Inr (Some snap), v) \<Rightarrow>
          (let e = EvSurface (EvSurfaceUpdated (ce_session_id c) (ce_execution_id c)
                 (build_session_plan_surface (ce_session_id c) snap))
           in publish e (keep_surface E e v))
      | (_, v) \<Rightarrow> v)"

definition dispatch_response :: "complete_ctx \<Rightarrow> life_world \<Rightarrow> life_world" where
  "dispatch_response c w =
     (case (ce_respond_to c, ce_response c) of
        (Some ids, Some response) \<Rightarrow>
          (let only = filter (\<lambda>i. \<not> is_connected i (lw_bridge w)) ids in
           if ce_connector_registry c \<and> ce_bridge_registry c \<and> only \<noteq> []
           then w\<lparr>lw_dispatched := lw_dispatched w @
             [\<lparr>cd_connectors = only,
               cd_payload = JObject [(''message'', JString response), (''execution_id'', JString (ce_execution_id c)),
                 (''conversation_id'', JString (ce_conversation_id c))],
               cd_session_id = ce_session_id c, cd_thread_id = ce_thread_id c, cd_agent_id = ce_agent_id c\<rparr>]\<rparr>
           else w)
      | _ \<Rightarrow> w)"

definition push_response :: "life_env \<Rightarrow> complete_ctx \<Rightarrow> life_world \<Rightarrow> life_world" where
  "push_response E c w =
     (case (ce_respond_to c, ce_response c) of
        (Some ids, Some response) \<Rightarrow>
          if ce_bridge_registry c \<and> ce_bridge_outbox c
          then fold (\<lambda>i v. if is_connected i (lw_bridge v)
              then in_bridge (\<lambda>b. snd (enqueue_and_push (le_bridge E) i ''respond''
                (JObject [(''message'', JString response), (''execution_id'', JString (ce_execution_id c)),
                   (''session_id'', JString (ce_session_id c)), (''thread_id'', opt_text (ce_thread_id c))])
                (Some (ce_session_id c)) (ce_thread_id c) (Some (ce_agent_id c)) b)) v
              else v) ids w
          else w
      | _ \<Rightarrow> w)"

text \<open>What completion does before it tells anyone, and whether the session ended with it\<close>

definition settle_completed :: "life_env \<Rightarrow> complete_ctx \<Rightarrow> life_world \<Rightarrow> (state_error + bool) \<times> life_world" where
  "settle_completed E c w =
     on_life (try_complete_session (life_store E) (ce_session_id c))
       (continue_after_delegations E c
         (try_life (repo_update_session_tokens (ce_session_id c))
           (try_life (complete_execution (life_store E) (ce_execution_id c)) w)))"

definition lifecycle_complete_execution :: "life_env \<Rightarrow> complete_ctx \<Rightarrow> life_world \<Rightarrow> life_world" where
  "lifecycle_complete_execution E c w =
     (let (r, v) = settle_completed E c w;
          u = (case r of Inr True \<Rightarrow> reconcile_plan E c v | _ \<Rightarrow> v);
          l = try_life (log_session_end (life_store E) (ce_execution_id c) (ce_session_id c) (ce_agent_id c)
                StatusCompleted (Some ''Execution completed successfully'')) u;
          p = publish (EvTurn (EvAgentCompleted (ce_agent_id c) (ce_session_id c) (ce_execution_id c) (ce_response c)
                (Some (ce_conversation_id c)))) l
      in push_response E c (dispatch_response c p))"

section \<open>Crash and stop\<close>

record crash_ctx =
  cr_execution_id :: string
  cr_session_id :: string
  cr_agent_id :: string
  cr_conversation_id :: string
  cr_error :: string
  cr_crash_session :: bool

definition lifecycle_crash_execution :: "life_env \<Rightarrow> crash_ctx \<Rightarrow> life_world \<Rightarrow> life_world" where
  "lifecycle_crash_execution E c w =
     (let v = try_life (crash_execution (life_store E) (cr_execution_id c) (cr_error c)) w;
          u = (if cr_crash_session c then try_life (crash_session (life_store E) (cr_session_id c)) v
               else try_life (repo_update_session_tokens (cr_session_id c)) v);
          l = try_life (log_session_end (life_store E) (cr_execution_id c) (cr_session_id c) (cr_agent_id c)
                StatusError (Some (cr_error c))) u
      in publish (EvTurn (EvError (Some (cr_agent_id c)) (Some (cr_session_id c)) (Some (cr_execution_id c)) (cr_error c)
           (Some (cr_conversation_id c)))) l)"

definition lifecycle_stop_execution ::
  "life_env \<Rightarrow> string \<Rightarrow> string \<Rightarrow> string \<Rightarrow> string \<Rightarrow> 32 word \<Rightarrow> life_world \<Rightarrow> life_world" where
  "lifecycle_stop_execution E x s agent conv iteration w =
     (let v = try_life (cancel_session (life_store E) s) w;
          l = try_life (log_session_end (life_store E) x s agent StatusStopped (Some ''Stopped by user'')) v
      in publish (EvTurn (EvAgentStopped agent s x iteration (Some conv))) l)"

definition emit_agent_started :: "string \<Rightarrow> string \<Rightarrow> string \<Rightarrow> string \<Rightarrow> life_world \<Rightarrow> life_world" where
  "emit_agent_started agent conv s x = publish (EvTurn (EvAgentStarted agent s x (Some conv)))"

definition emit_delegation_started ::
  "string \<Rightarrow> string \<Rightarrow> string \<Rightarrow> string \<Rightarrow> string \<Rightarrow> string \<Rightarrow> string \<Rightarrow> string \<Rightarrow> life_world \<Rightarrow> life_world" where
  "emit_delegation_started parent_agent s px pconv child_agent cx cconv task =
     publish (EvDelegation (EvDelegationStarted s px cx parent_agent child_agent task (Some pconv) (Some cconv)))"

text \<open>The session stands for the execution of the parent.\<close>

definition emit_delegation_completed ::
  "string \<Rightarrow> string \<Rightarrow> string \<Rightarrow> string \<Rightarrow> string option \<Rightarrow> string option \<Rightarrow> string option \<Rightarrow> life_world \<Rightarrow> life_world" where
  "emit_delegation_completed parent_agent s child_agent cx pconv cconv result =
     publish (EvDelegation (EvDelegationCompleted s s cx parent_agent child_agent result pconv cconv))"

end
