(* ===== verification/Delegation_Spawn.thy ===== *)
theory Delegation_Spawn
  imports Lifecycle
begin

text \<open>
  A delegated agent from its request to its end (\<open>gateway/gateway-execution/src/delegation/spawn.rs\<close>, with
  the callbacks of \<open>delegation/callback.rs\<close>): the child session and the registration of the child, the
  failures before it runs, and the three ways its run ends. The run itself is its events, which
  \<open>Stream_Processor\<close> has.
\<close>

section \<open>Callbacks\<close>

definition send_callback_to_parent ::
  "life_env \<Rightarrow> string \<Rightarrow> string \<Rightarrow> string \<Rightarrow> life_world \<Rightarrow> bool \<times> life_world" where
  "send_callback_to_parent E s px body w =
     (let db = life_state w;
          v = \<lparr>vm_id = ''msg-'' @ fresh_uuid (life_store E) (minted db), vm_execution_id = Some px, vm_session_id = s,
               vm_role = ''system'', vm_content = body, vm_created_at = now_text (life_store E) (ticks db),
               vm_token_count = int (length body) div 4, vm_tool_calls = None, vm_tool_call_id = None, vm_seq = 0\<rparr>
      in case on_life (message_append v) (set_life_state (db\<lparr>minted := Suc (minted db), ticks := Suc (ticks db)\<rparr>) w) of
           (Inl _, u) \<Rightarrow> (False, u)
         | (Inr _, u) \<Rightarrow> (True, publish (EvProgress (EvMessageAdded s px ''system'' body (Some px))) u))"

definition handle_delegation_success ::
  "life_env \<Rightarrow> delegation_context option \<Rightarrow> string \<Rightarrow> string \<Rightarrow> string \<Rightarrow> string \<Rightarrow> string \<Rightarrow> life_world \<Rightarrow> life_world" where
  "handle_delegation_success E ctx s px agent conv response w =
     (case ctx of
        None \<Rightarrow> w
      | Some d \<Rightarrow>
          if dx_callback_on_complete d
          then (let answer = validate_delegation_response (le_callback E) response (dx_output_schema d) in
                snd (send_callback_to_parent E s px
                  (format_callback_message (le_callback E) agent answer conv (dx_output_schema d)) w))
          else w)"

definition handle_delegation_failure ::
  "life_env \<Rightarrow> string \<Rightarrow> string \<Rightarrow> string \<Rightarrow> string \<Rightarrow> string \<Rightarrow> life_world \<Rightarrow> life_world" where
  "handle_delegation_failure E s px agent conv err w =
     snd (send_callback_to_parent E s px (format_error_callback_message (le_callback E) agent err conv) w)"

section \<open>The end of a child\<close>

record child_run =
  cn_execution_id :: string
  cn_session_id :: string
  cn_agent_id :: string
  cn_conv_id :: string
  cn_parent_agent_id :: string
  cn_parent_execution_id :: string
  cn_parent_conversation_id :: string

definition announce_continuation :: "life_env \<Rightarrow> string \<Rightarrow> life_world \<Rightarrow> life_world" where
  "announce_continuation E s w =
     (case on_life (repo_get_root_execution (life_store E) s) w of
        (Inr (Some r), v) \<Rightarrow> publish (EvDelegation (EvSessionContinuationReady s (x_agent_id r) (x_id r))) v
      | (_, v) \<Rightarrow> v)"

text \<open>The answer of \<open>complete_delegation\<close> decides whether the parent goes on.\<close>

definition finish_delegation :: "life_env \<Rightarrow> string \<Rightarrow> life_world \<Rightarrow> life_world" where
  "finish_delegation E s w =
     (case on_life (complete_delegation (life_store E) s) w of
        (Inr True, v) \<Rightarrow> announce_continuation E s v
      | (_, v) \<Rightarrow> v)"

definition hand_off :: "life_env \<Rightarrow> child_run \<Rightarrow> string \<Rightarrow> life_world \<Rightarrow> life_world" where
  "hand_off E c response w =
     (if \<not> le_facts E then w
      else (let (r, v) = on_life (session_ward_id (cn_session_id c)) w;
                ward = (case r of Inr (Some d) \<Rightarrow> d | _ \<Rightarrow> ''__global__'')
            in v\<lparr>lw_handoffs := lw_handoffs v @
              [\<lparr>sh_session_id = cn_session_id c, sh_ward_id = ward, sh_execution_id = cn_execution_id c,
                sh_agent_id = cn_agent_id c, sh_summary = response\<rparr>]\<rparr>))"

definition child_complete_ctx :: "child_run \<Rightarrow> string \<Rightarrow> complete_ctx" where
  "child_complete_ctx c response =
     \<lparr>ce_execution_id = cn_execution_id c, ce_session_id = cn_session_id c, ce_agent_id = cn_agent_id c,
      ce_conversation_id = cn_conv_id c, ce_response = Some response, ce_connector_registry = False,
      ce_respond_to = None, ce_thread_id = None, ce_bridge_registry = False, ce_bridge_outbox = False\<rparr>"

definition handle_execution_success :: "life_env \<Rightarrow> child_run \<Rightarrow> string \<Rightarrow> life_world \<Rightarrow> life_world" where
  "handle_execution_success E c response w =
     (let v = lifecycle_complete_execution E (child_complete_ctx c response) w;
          ctx = delegation_get (cn_execution_id c) (cw_registry (lw_control v));
          u = emit_delegation_completed (cn_parent_agent_id c) (cn_session_id c) (cn_agent_id c) (cn_execution_id c)
                (map_option dx_parent_conversation_id ctx) (Some (cn_conv_id c)) (Some response) v;
          t = handle_delegation_success E ctx (cn_session_id c) (cn_parent_execution_id c) (cn_agent_id c)
                (cn_conv_id c) response u
      in in_registry (delegation_remove (cn_execution_id c))
           (hand_off E c response (finish_delegation E (cn_session_id c) t)))"

definition handle_execution_failure :: "life_env \<Rightarrow> child_run \<Rightarrow> string \<Rightarrow> bool \<Rightarrow> life_world \<Rightarrow> life_world" where
  "handle_execution_failure E c err allow w =
     (let v = lifecycle_crash_execution E
            \<lparr>cr_execution_id = cn_execution_id c, cr_session_id = cn_session_id c, cr_agent_id = cn_agent_id c,
             cr_conversation_id = cn_conv_id c, cr_error = err, cr_crash_session = False\<rparr> w;
          u = handle_delegation_failure E (cn_session_id c) (cn_parent_execution_id c) (cn_agent_id c) (cn_conv_id c) err v;
          t = (if allow then finish_delegation E (cn_session_id c) u
               else lifecycle_crash_execution E
                 \<lparr>cr_execution_id = cn_parent_execution_id c, cr_session_id = cn_session_id c,
                  cr_agent_id = cn_parent_agent_id c, cr_conversation_id = cn_parent_conversation_id c,
                  cr_error = ''planner_startup_failed'', cr_crash_session = True\<rparr>
                 (try_life (clear_continuation (cn_session_id c))
                   (try_life (complete_delegation (life_store E) (cn_session_id c)) u)))
      in in_registry (delegation_remove (cn_execution_id c)) t)"

text \<open>
  The report of a crash: the last plan the child noted, read from its first two hundred messages, and the
  files of the ward of its parent.
\<close>

definition plan_steps_of :: "string \<Rightarrow> json list \<Rightarrow> bool \<Rightarrow> string list" where
  "plan_steps_of status steps wanted =
     List.map_filter (\<lambda>v. Option.bind (json_get v ''step'') as_str)
       (filter (\<lambda>v. (Option.bind (json_get v ''status'') as_str = Some status) = wanted) steps)"

definition listed :: "string \<Rightarrow> string \<Rightarrow> string list \<Rightarrow> string" where
  "listed title prefix items =
     (if items = [] then [] else newline @ title @ newline @ concat (map (\<lambda>i. prefix @ i @ newline) items))"

fun decimal :: "nat \<Rightarrow> string" where
  "decimal n = (if n < 10 then [] else decimal (n div 10)) @ [char_of (48 + n mod 10)]"

declare decimal.simps [simp del]

definition plan_report :: "codec \<Rightarrow> conv_message list \<Rightarrow> string option" where
  "plan_report C rows =
     (case filter (\<lambda>m. contains_text (vm_content m) ''__plan_update'') rows of
        [] \<Rightarrow> None
      | m # ms \<Rightarrow>
          Option.bind (json_from_str C (vm_content (last (m # ms)))) (\<lambda>v.
          map_option (\<lambda>steps.
            listed ''COMPLETED STEPS:'' ''  [done] '' (plan_steps_of ''completed'' steps True) @
            listed ''REMAINING STEPS:'' ''  [todo] '' (plan_steps_of ''completed'' steps False))
          (Option.bind (json_get v ''plan'') as_array)))"

definition ward_report :: "string list option \<Rightarrow> string" where
  "ward_report files =
     (case files of
        None \<Rightarrow> []
      | Some fs \<Rightarrow> listed ''FILES IN WARD:'' ''  '' (take 20 fs) @
          (if 20 < length fs then ''  ... and '' @ decimal (length fs - 20) @ '' more files'' @ newline else []))"

definition build_crash_report :: "life_env \<Rightarrow> child_run \<Rightarrow> string \<Rightarrow> string \<Rightarrow> life_world \<Rightarrow> string \<times> life_world" where
  "build_crash_report E c child_session err w =
     (let (rows, v) = on_life (message_replay child_session None 200) w;
          plan = (case rows of Inr ms \<Rightarrow> plan_report (env_codec (life_store E)) ms | Inl _ \<Rightarrow> None);
          (found, u) = on_life (repo_get_session (life_store E) (cn_session_id c)) v;
          ward = (case found of Inr (Some s) \<Rightarrow> s_ward_id s | _ \<Rightarrow> None)
      in (''DELEGATION FAILED: '' @ cn_agent_id c @ newline @ newline @ ''ERROR: '' @ err @ newline @
          (case plan of Some t \<Rightarrow> t
           | None \<Rightarrow> newline @ ''PARTIAL WORK COMPLETED:'' @ newline @ ''No plan was created'' @ newline) @
          ward_report (Option.bind ward (le_ward_files E)) @
          newline @ ''SUGGESTION: Break remaining work into smaller, focused tasks. Existing files can be reused.'' @ newline, u))"

datatype child_outcome = ChildOk string | ChildStopped | ChildFailed string

text \<open>
  What follows the run, once its rows are flushed and its checkpoint is written. Distillation of the child's
  session is a task of its own, the registry of steering handles is not modelled.
\<close>

definition finish_child :: "life_env \<Rightarrow> child_run \<Rightarrow> string \<Rightarrow> child_outcome \<Rightarrow> life_world \<Rightarrow> life_world" where
  "finish_child E c child_session out w =
     try_life (complete_session (life_store E) child_session)
       (case out of
          ChildOk response \<Rightarrow>
            handle_execution_success E c response
              (in_control (bus_resolve (cn_execution_id c) (cn_agent_id c) response) w)
        | ChildStopped \<Rightarrow> in_control (bus_reject (cn_execution_id c) (WaitCrashed ''agent stopped cooperatively'')) w
        | ChildFailed err \<Rightarrow>
            (let (report, v) = build_crash_report E c child_session err w in
             handle_execution_failure E c report True
               (in_control (bus_reject (cn_execution_id c) (WaitCrashed report)) v)))"

section \<open>The start of a child\<close>

definition handle_early_spawn_failure ::
  "life_env \<Rightarrow> delegation_request \<Rightarrow> string \<Rightarrow> string option \<Rightarrow> string \<Rightarrow> life_world \<Rightarrow> life_world" where
  "handle_early_spawn_failure E r conv child_session err w =
     (let v = (case child_session of None \<Rightarrow> w | Some i \<Rightarrow> try_life (crash_session (life_store E) i) w);
          u = in_control (bus_reject (dr_child_execution_id r) (WaitCrashed err)) v
      in handle_execution_failure E
           \<lparr>cn_execution_id = dr_child_execution_id r, cn_session_id = dr_session_id r, cn_agent_id = dr_child_agent_id r,
            cn_conv_id = conv, cn_parent_agent_id = dr_parent_agent_id r,
            cn_parent_execution_id = dr_parent_execution_id r, cn_parent_conversation_id = dr_parent_conversation_id r\<rparr>
           err (dr_child_agent_id r \<noteq> ''planner-agent'') u)"

text \<open>Who may be started at all\<close>

definition dynamic_target_exists :: "life_env \<Rightarrow> string \<Rightarrow> bool" where
  "dynamic_target_exists E agent =
     (case strip_prefix ''ward:'' agent of
        None \<Rightarrow> le_agent_exists E agent
      | Some ward \<Rightarrow>
          ward \<noteq> [] \<and> CHR ''/'' \<notin> set ward \<and> CHR 0x5C \<notin> set ward \<and>
          (case path_components ward of [p] \<Rightarrow> is_normal p | _ \<Rightarrow> False) \<and> le_is_ward_dir E ward)"

definition validate_dynamic_assignment_target :: "life_env \<Rightarrow> string \<Rightarrow> agent_capability_assignment option \<Rightarrow> bool" where
  "validate_dynamic_assignment_target E child assignment =
     (case assignment of None \<Rightarrow> True | Some a \<Rightarrow> ca_agent_id a = child \<and> dynamic_target_exists E child)"

definition target_accepted :: "life_env \<Rightarrow> delegation_request \<Rightarrow> bool" where
  "target_accepted E r \<longleftrightarrow>
     (strip_prefix ''ward:'' (dr_child_agent_id r) = None \<or> dynamic_target_exists E (dr_child_agent_id r)) \<and>
     validate_dynamic_assignment_target E (dr_child_agent_id r) (dr_capability_assignment r)"

definition MAX_DYNAMIC_SKILLS :: nat where "MAX_DYNAMIC_SKILLS = 25"

record skill_resolution =
  sk_effective :: "string list"
  sk_unresolved_count :: nat

definition resolve_dynamic_skills :: "string list option \<Rightarrow> string list \<Rightarrow> skill_resolution option" where
  "resolve_dynamic_skills available requested =
     map_option (\<lambda>known.
       fold (\<lambda>k s.
           if k \<in> set known \<and> k \<notin> set (sk_effective s) then s\<lparr>sk_effective := sk_effective s @ [k]\<rparr>
           else if k \<notin> set known then s\<lparr>sk_unresolved_count := sk_unresolved_count s + 1\<rparr>
           else s)
         (take MAX_DYNAMIC_SKILLS requested)
         \<lparr>sk_effective = [], sk_unresolved_count = length requested - MAX_DYNAMIC_SKILLS\<rparr>) available"

text \<open>The ward of the parent, and the one that was claimed just now.\<close>

definition bind_parent_ward_for_delegation ::
  "state_env \<Rightarrow> delegation_request \<Rightarrow> (string option \<times> string option) st_op" where
  "bind_parent_ward_for_delegation S r =
     (case strip_prefix ''ward:'' (dr_child_agent_id r) of
        None \<Rightarrow> bnd (repo_get_session S (dr_session_id r)) (\<lambda>s. ret (Option.bind s s_ward_id, None))
      | Some ward \<Rightarrow>
          bnd (repo_claim_session_ward_if_unset (dr_session_id r) ward) (\<lambda>c.
          ret (case c of ClaimedWard d \<Rightarrow> (Some d, Some d) | ExistingWard d \<Rightarrow> (Some d, None))))"

definition effective_ward_id :: "string \<Rightarrow> string option \<Rightarrow> string option" where
  "effective_ward_id child parent = (case strip_prefix ''ward:'' child of Some d \<Rightarrow> Some d | None \<Rightarrow> parent)"

definition iteration_budget :: "delegation_request \<Rightarrow> 32 word" where
  "iteration_budget r =
     (case dr_max_iterations r of
        Some n \<Rightarrow> n
      | None \<Rightarrow> (case dr_complexity r of
            Some c \<Rightarrow> if c = ''S'' then 15 else if c = ''M'' then 30 else if c = ''L'' then 50 else if c = ''XL'' then 100 else 1000
          | None \<Rightarrow> 1000))"

section \<open>The posture of a child\<close>

text \<open>\<open>str::to_lowercase\<close> on ASCII; the markers that are looked for are ASCII.\<close>

definition ascii_lower :: "char \<Rightarrow> char" where
  "ascii_lower c = (if 65 \<le> (of_char c :: nat) \<and> (of_char c :: nat) \<le> 90 then char_of ((of_char c :: nat) + 32) else c)"

definition looks_like_step_executor :: "string \<Rightarrow> bool" where
  "looks_like_step_executor t \<longleftrightarrow>
     contains_text t ''## goal'' \<and> (contains_text t ''## acceptance'' \<or> contains_text t ''acceptance criteria'') \<or>
     contains_text t ''steps/step'' \<or> contains_text t ''step_''"

definition looks_like_direct_artifact :: "string \<Rightarrow> string \<Rightarrow> bool" where
  "looks_like_direct_artifact child t \<longleftrightarrow>
     (child = ''builder-agent'' \<or> contains_text child ''builder'' \<or> contains_text child ''code'') \<and>
     list_ex (contains_text t) [''.html'', ''.css'', ''.js'', ''.md'', ''.json'', ''.wav'', ''.ogg'', ''.txt''] \<and>
     (list_ex (contains_text t)
        [''self-contained'', ''no dependencies'', ''no build step'', ''all html'', ''standalone''] \<or>
      list_ex (contains_text t)
        [''create a single file'', ''single file:'', ''exact output'', ''exact path'', ''write_file to create'', ''create `'', ''create ''])"

definition infer_delegation_mode :: "string \<Rightarrow> string \<Rightarrow> delegation_mode option \<Rightarrow> delegation_mode" where
  "infer_delegation_mode child task explicit =
     (case explicit of
        Some m \<Rightarrow> m
      | None \<Rightarrow>
          (let t = map ascii_lower task in
           if looks_like_step_executor t then StepExecutor
           else if looks_like_direct_artifact child t then DirectArtifact
           else WardBackedBuild))"

section \<open>Spawning\<close>

definition spawn_context :: "delegation_request \<Rightarrow> string \<Rightarrow> delegation_context" where
  "spawn_context r conv =
     (delegation_context_new (dr_session_id r) (dr_parent_execution_id r) (dr_parent_agent_id r) conv)
       \<lparr>dx_child_conversation_id := Some conv, dx_task_context := dr_context r, dx_output_schema := dr_output_schema r,
        dx_mode := Some (infer_delegation_mode (dr_child_agent_id r) (dr_task r) (dr_mode r))\<rparr>"

text \<open>
  The conversation of the child is its session with the first part of a uuid. The result is the
  conversation, or the error of what failed; \<open>SpawnRunning\<close> has what the task of the child goes on with.
\<close>

datatype spawn_result = SpawnRefused string | SpawnFailed string | SpawnLost | SpawnRunning child_run string nat

definition new_child_session :: "life_env \<Rightarrow> delegation_request \<Rightarrow> string option \<Rightarrow> life_world \<Rightarrow> string \<times> life_world" where
  "new_child_session E r parent_ward w =
     (let db = life_state w;
          s = (session_new_child (fresh_uuid (life_store E) (minted db)) (now_text (life_store E) (ticks db))
                 (dr_child_agent_id r) (dr_session_id r))\<lparr>s_ward_id := effective_ward_id (dr_child_agent_id r) parent_ward\<rparr>
      in (s_id s, try_life (repo_create_session (life_store E) s)
            (set_life_state (db\<lparr>minted := Suc (minted db), ticks := Suc (ticks db)\<rparr>) w)))"

definition install_handle :: "string \<Rightarrow> string \<Rightarrow> 32 word \<Rightarrow> control_world \<Rightarrow> control_world" where
  "install_handle conv x budget c =
     (let k = length (cw_flags c) in
      register_handle x k (c\<lparr>cw_flags := cw_flags c @ [handle_new budget],
        cw_handles := (conv, k) # without_key conv (cw_handles c)\<rparr>))"

definition child_run_of :: "delegation_request \<Rightarrow> string \<Rightarrow> child_run" where
  "child_run_of r conv =
     \<lparr>cn_execution_id = dr_child_execution_id r, cn_session_id = dr_session_id r, cn_agent_id = dr_child_agent_id r,
      cn_conv_id = conv, cn_parent_agent_id = dr_parent_agent_id r, cn_parent_execution_id = dr_parent_execution_id r,
      cn_parent_conversation_id = dr_parent_conversation_id r\<rparr>"

text \<open>The part that registers the child and tells of it, before its executor is built\<close>

definition register_child :: "life_env \<Rightarrow> delegation_request \<Rightarrow> string \<Rightarrow> string \<Rightarrow> life_world \<Rightarrow> life_world" where
  "register_child E r conv child_session w =
     (let v = try_life (repo_set_child_session_id (dr_child_execution_id r) child_session) w;
          u = lifecycle_start_execution E (dr_child_execution_id r) (dr_session_id r) (dr_child_agent_id r)
                (Some (dr_parent_execution_id r)) v;
          t = in_registry (delegation_register (dr_child_execution_id r) (spawn_context r conv)) u
      in emit_delegation_started (dr_parent_agent_id r) (dr_session_id r) (dr_parent_execution_id r)
           (dr_parent_conversation_id r) (dr_child_agent_id r) (dr_child_execution_id r) conv (dr_task r) t)"

definition spawn_delegated_agent :: "life_env \<Rightarrow> delegation_request \<Rightarrow> life_world \<Rightarrow> spawn_result \<times> life_world" where
  "spawn_delegated_agent E r w =
     (let db = life_state w;
          conv = dr_session_id r @ ''-sub-'' @ hd (split_on (CHR ''-'') (fresh_uuid (life_store E) (minted db)));
          w1 = set_life_state (db\<lparr>minted := Suc (minted db)\<rparr>) w in
      if \<not> target_accepted E r
      then (SpawnRefused conv, handle_early_spawn_failure E r conv None ''Dynamic capability assignment target rejected'' w1)
      else case on_life (bind_parent_ward_for_delegation (life_store E) r) w1 of
        (Inl _, w2) \<Rightarrow> (SpawnLost, w2)
      | (Inr (parent_ward, claimed), w2) \<Rightarrow>
          (let w3 = (case claimed of None \<Rightarrow> w2
                 | Some d \<Rightarrow> publish (EvSession (EvWardChanged (dr_session_id r) (dr_parent_execution_id r) d)) w2);
               (child_session, w4) = new_child_session E r parent_ward w3;
               w5 = register_child E r conv child_session w4
           in case le_builds E r of
                Some err \<Rightarrow> (SpawnFailed err, handle_early_spawn_failure E r conv (Some child_session) err w5)
              | None \<Rightarrow>
                  (let k = length (cw_flags (lw_control w5));
                       w6 = in_control (install_handle conv (dr_child_execution_id r) (iteration_budget r)) w5
                   in case le_engine E r of
                        Some err \<Rightarrow> (SpawnFailed err, handle_early_spawn_failure E r conv (Some child_session) err w6)
                      | None \<Rightarrow> (SpawnRunning (child_run_of r conv) child_session k, w6))))"

end
