(* ===== verification/Conversation_Resume.thy ===== *)
theory Conversation_Resume
  imports Conversation State_Samples
begin

text \<open>
  A continuation resumes from the newest checkpoint: the tape of the runtime as it was captured, and
  after it the messages that came since. Each message of the session is in exactly one of the two, and
  the checkpoint of the next turn keeps it so.
\<close>

section \<open>The log of a session\<close>

text \<open>The messages in the order of their numbers, each readable\<close>

definition in_sequence :: "string \<Rightarrow> statedb \<Rightarrow> bool" where
  "in_sequence s db \<longleftrightarrow>
     sorted_wrt (<) (map mr_seq (rows_of_session s db)) \<and> (\<forall>r \<in> set (rows_of_session s db). mr_token_count r \<noteq> None)"

definition message_of_row :: "message_row \<Rightarrow> conv_message" where
  "message_of_row r = the (row_to_conv_message r)"

lemma below_next_seq: "r \<in> set (rows_of_session s db) \<Longrightarrow> mr_seq r < next_seq s db"
  by (auto simp: next_seq_def intro!: le_imp_less_Suc Max_ge)

lemma row_of_conv_message_fields [simp]:
  "mr_seq (row_of_conv_message db m) = next_seq (vm_session_id m) db" "mr_id (row_of_conv_message db m) = vm_id m"
  "mr_session_id (row_of_conv_message db m) = Some (vm_session_id m)"
  "mr_token_count (row_of_conv_message db m) = Some (vm_token_count m)"
  by (simp_all add: row_of_conv_message_def)

lemma rows_appended:
  "rows_of_session s (db\<lparr>messages_t := messages_t db @ [row_of_conv_message db m]\<rparr>) =
     rows_of_session s db @ (if vm_session_id m = s then [row_of_conv_message db m] else [])"
  by (simp add: rows_of_session_def)

lemma append_in_sequence:
  assumes "in_sequence s db"
  shows "in_sequence s (db\<lparr>messages_t := messages_t db @ [row_of_conv_message db m]\<rparr>)"
  using assms below_next_seq
  unfolding in_sequence_def rows_appended by (auto simp: sorted_wrt_append)

lemma order_asc_sorted: "sorted_wrt (<) (map k rows) \<Longrightarrow> order_asc k rows = rows"
  for k :: "'r \<Rightarrow> 'k::linorder"
  unfolding order_asc_def by (rule sort_key_id_if_sorted) (simp add: strict_sorted_imp_sorted)

lemma rows_after_in_sequence:
  assumes "in_sequence s db"
  shows "rows_after s k db = filter (\<lambda>r. case k of None \<Rightarrow> True | Some n \<Rightarrow> n < mr_seq r) (rows_of_session s db)"
  unfolding rows_after_def
  by (rule order_asc_sorted) (use assms in \<open>simp add: in_sequence_def sorted_wrt_map sorted_wrt_filter\<close>)

lemma readable_rows:
  assumes "\<forall>r \<in> set rows. mr_session_id r = Some s \<and> mr_token_count r \<noteq> None"
  shows "List.map_filter row_to_conv_message rows = map message_of_row rows"
  using assms
  by (induction rows) (auto simp: List.map_filter_simps row_to_conv_message_def message_of_row_def split: option.split)

lemma message_of_row_fields:
  assumes "mr_session_id r = Some s" and "mr_token_count r \<noteq> None"
  shows "vm_id (message_of_row r) = mr_id r" "vm_seq (message_of_row r) = mr_seq r"
  using assms by (auto simp: message_of_row_def row_to_conv_message_def)

lemma replay_up:
  assumes "in_sequence s db" and "script db = []"
  shows "message_replay s k n db =
    (Inr (map message_of_row (take n (filter (\<lambda>r. case k of None \<Rightarrow> True | Some j \<Rightarrow> j < mr_seq r) (rows_of_session s db)))), db)"
proof -
  let ?rows = "filter (\<lambda>r. case k of None \<Rightarrow> True | Some j \<Rightarrow> j < mr_seq r) (rows_of_session s db)"
  have "\<forall>r \<in> set (take n ?rows). mr_session_id r = Some s \<and> mr_token_count r \<noteq> None"
    using assms(1) by (auto simp: in_sequence_def rows_of_session_def dest!: in_set_takeD)
  from readable_rows [OF this] assms show ?thesis
    by (simp add: message_replay_def op_simps rows_after_in_sequence)
qed

section \<open>Composing\<close>

text \<open>The newest checkpoint of an execution holds this tape, cursor and represented outputs.\<close>

definition checkpointed ::
  "codec \<Rightarrow> recovery_codec \<Rightarrow> string \<Rightarrow> string \<Rightarrow> statedb \<Rightarrow> chat_message list \<Rightarrow> recovery_cursor \<Rightarrow> bool" where
  "checkpointed C D x s db tape cursor \<longleftrightarrow>
     (\<exists>c text context v state.
        newest_checkpoint x db = Some c \<and> ck_session_id c = s \<and> ck_context_state c = Some text \<and>
        json_from_str C text = Some context \<and> cursor_from_value D context = Inr cursor \<and>
        json_get context CHECKPOINT_KEY = Some v \<and> restore D [(CHECKPOINT_KEY, v)] = Inr (Some tape, state))"

text \<open>A row whose content is in the tape, by the invariant the code states\<close>

definition in_tape :: "recovery_cursor \<Rightarrow> message_row \<Rightarrow> bool" where
  "in_tape cursor r \<longleftrightarrow> mr_seq r \<le> rc_input_cursor cursor \<or> mr_id r \<in> set (rc_represented_output_ids cursor)"

definition unread :: "recovery_cursor \<Rightarrow> string \<Rightarrow> statedb \<Rightarrow> message_row list" where
  "unread cursor s db = filter (\<lambda>r. rc_input_cursor cursor < mr_seq r) (rows_of_session s db)"

lemma last_seq_rows:
  assumes "\<forall>r \<in> set rows. mr_session_id r = Some s \<and> mr_token_count r \<noteq> None"
  shows "last_seq (map message_of_row rows) = (if rows = [] then 0 else mr_seq (last rows))"
  using assms by (cases rows rule: rev_cases) (auto simp: last_seq_def message_of_row_fields)

lemma unread_readable:
  "in_sequence s db \<Longrightarrow> \<forall>r \<in> set (unread cursor s db). mr_session_id r = Some s \<and> mr_token_count r \<noteq> None"
  by (auto simp: in_sequence_def unread_def rows_of_session_def)

lemma compose_up:
  assumes "script db = []" and "in_sequence s db" and "checkpointed C D x s db tape cursor"
  shows "\<exists>state. compose_continuation_history C D x s db =
    (Inr \<lparr>co_history = strip_stale_context_packets tape @
           messages_to_chat_format C (map message_of_row (filter (\<lambda>r. \<not> in_tape cursor r) (take 200 (unread cursor s db)))),
         co_scanned_cursor = max (rc_input_cursor cursor) (last_seq (map message_of_row (take 200 (unread cursor s db)))),
         co_initial_state = state\<rparr>, db)"
proof -
  from assms(3) obtain c u ctx v state where
    c: "newest_checkpoint x db = Some c" "ck_session_id c = s" "ck_context_state c = Some u"
      "json_from_str C u = Some ctx" "cursor_from_value D ctx = Inr cursor"
      "json_get ctx CHECKPOINT_KEY = Some v" "restore D [(CHECKPOINT_KEY, v)] = Inr (Some tape, state)"
    by (auto simp: checkpointed_def)
  let ?rows = "take 200 (unread cursor s db)"
  have read: "message_replay s (Some (rc_input_cursor cursor)) 200 db = (Inr (map message_of_row ?rows), db)"
    using replay_up [OF assms(2,1), of "Some (rc_input_cursor cursor)" 200] by (simp add: unread_def)
  have rows: "mr_session_id r = Some s \<and> mr_token_count r \<noteq> None \<and> rc_input_cursor cursor < mr_seq r"
    if "r \<in> set ?rows" for r
    using unread_readable [OF assms(2)] that by (auto simp: unread_def dest!: in_set_takeD)
  have tails: "filter (\<lambda>m. vm_id m \<notin> set (rc_represented_output_ids cursor)) (map message_of_row ?rows) =
      map message_of_row (filter (\<lambda>r. \<not> in_tape cursor r) ?rows)"
    unfolding filter_map o_def
    by (rule arg_cong [where f = "map message_of_row"], rule filter_cong [OF refl])
      (use rows in \<open>force simp: in_tape_def message_of_row_fields\<close>)
  show ?thesis
    using c assms(1)
    by (simp add: compose_continuation_history_def map_err_def checkpoint_latest_def op_simps bnd_def read ret_def
        lift_sum_def tail_rows_def tails)
qed

lemma sequence_last:
  assumes "sorted_wrt (<) (map k (rows :: message_row list))" and "r \<in> set rows"
  shows "(k r :: int) \<le> k (last rows)"
  using assms by (cases rows rule: rev_cases) (auto simp: sorted_wrt_append order_less_imp_le)

text \<open>
  C31: with the store up, a continuation is given the tape of the newest checkpoint without its stale
  packets and, after it and in their order, exactly the messages of the session whose content is not in
  the tape, provided no more than two hundred came after its cursor; the cursor it goes on with covers
  every message there is.
\<close>

theorem a_continuation_is_given_each_message_once:
  assumes "script db = []" and "in_sequence s db" and "checkpointed C D x s db tape cursor"
    and "length (unread cursor s db) \<le> 200"
  shows "\<exists>co. compose_continuation_history C D x s db = (Inr co, db) \<and>
    co_history co = strip_stale_context_packets tape @
      messages_to_chat_format C (map message_of_row (filter (\<lambda>r. \<not> in_tape cursor r) (rows_of_session s db))) \<and>
    (\<forall>r \<in> set (rows_of_session s db). mr_seq r \<le> co_scanned_cursor co)"
proof -
  have all: "filter (\<lambda>r. \<not> in_tape cursor r) (unread cursor s db) = filter (\<lambda>r. \<not> in_tape cursor r) (rows_of_session s db)"
    by (auto simp: unread_def in_tape_def intro: filter_cong)
  have seq: "mr_seq r \<le> max (rc_input_cursor cursor) (last_seq (map message_of_row (unread cursor s db)))"
    if "r \<in> set (rows_of_session s db)" for r
  proof (cases "mr_seq r \<le> rc_input_cursor cursor")
    case False
    with that have r: "r \<in> set (unread cursor s db)" by (simp add: unread_def)
    have "sorted_wrt (<) (map mr_seq (unread cursor s db))"
      using assms(2) by (simp add: in_sequence_def unread_def sorted_wrt_map sorted_wrt_filter)
    from sequence_last [OF this r] r have "mr_seq r \<le> last_seq (map message_of_row (unread cursor s db))"
      unfolding last_seq_rows [OF unread_readable [OF assms(2)]] by auto
    then show ?thesis by simp
  qed simp
  from compose_up [OF assms(1-3)] assms(4) show ?thesis by (auto simp: all seq)
qed

section \<open>The checkpoint of a turn\<close>

text \<open>What a snapshot is captured from comes back without the preamble the host owns.\<close>

lemma owned_index:
  assumes "filter (\<lambda>i. is_owned_preamble t (ms ! i)) [0..<length ms] = [i]"
  shows "i < length ms \<and> is_owned_preamble t (ms ! i)"
proof -
  from assms have "i \<in> set (filter (\<lambda>i. is_owned_preamble t (ms ! i)) [0..<length ms])" by simp
  then show ?thesis by simp
qed

definition without_preamble :: "string option \<Rightarrow> chat_message list \<Rightarrow> chat_message list" where
  "without_preamble owned ms =
     (case owned of None \<Rightarrow> ms | Some t \<Rightarrow> filter (\<lambda>m. \<not> is_owned_preamble t m) ms)"

lemma filter_upt_Suc: "filter (\<lambda>i. P (xs ! i)) [0..<length xs] = [i] \<Longrightarrow> drop_index i xs = filter (\<lambda>x. \<not> P x) xs"
proof -
  assume one: "filter (\<lambda>i. P (xs ! i)) [0..<length xs] = [i]"
  then have "i \<in> set (filter (\<lambda>i. P (xs ! i)) [0..<length xs])" by simp
  then have i: "i < length xs" "P (xs ! i)" by auto
  have only: "j = i" if "j < length xs" "P (xs ! j)" for j
  proof -
    from that have "j \<in> set (filter (\<lambda>i. P (xs ! i)) [0..<length xs])" by simp
    with one show ?thesis by simp
  qed
  have "\<not> P x" if "x \<in> set (take i xs)" for x
    using that only by (fastforce simp: in_set_conv_nth)
  moreover have "\<not> P x" if "x \<in> set (drop (Suc i) xs)" for x
  proof -
    from that obtain j where "j < length xs - Suc i" "x = xs ! (Suc i + j)" by (auto simp: in_set_conv_nth)
    with only [of "Suc i + j"] i(1) show ?thesis by fastforce
  qed
  ultimately have "filter (\<lambda>x. \<not> P x) (take i xs @ xs ! i # drop (Suc i) xs) = drop_index i xs"
    using i by (simp add: drop_index_def filter_id_conv)
  then show ?thesis by (simp only: id_take_nth_drop [OF i(1), symmetric])
qed

lemma restored:
  assumes "derived D" and "capture D ms owned st = Some v"
  shows "\<exists>state. restore D [(CHECKPOINT_KEY, v)] = Inr (Some (without_preamble owned ms), state) \<and>
    (\<forall>k \<in> set MUTABLE_KEYS. obj_get state k = json_get st k) \<and> set (map fst state) \<subseteq> set MUTABLE_KEYS"
proof -
  let ?kept = "List.map_filter (\<lambda>k. map_option (Pair k) (json_get st k)) MUTABLE_KEYS"
  let ?merged = "fold (\<lambda>k st'. or_insert st' k (obj_get ?kept k)) MUTABLE_KEYS []"
  have reads: "snapshot_from_value D (snapshot_to_value D s) = Some s" for s
    using assms(1) by (simp add: derived_def)
  have state: "(\<forall>k \<in> set MUTABLE_KEYS. obj_get ?merged k = json_get st k) \<and> set (map fst ?merged) \<subseteq> set MUTABLE_KEYS"
    by (cases "json_get st ''skill:graph''"; cases "json_get st ''skill:loaded_skills''";
        cases "json_get st ''skill:current_skill''"; cases "json_get st ''app:plan''")
      (simp_all add: MUTABLE_KEYS_def List.map_filter_simps or_insert_def obj_get_def obj_contains_key_def)
  show ?thesis
  proof (cases owned)
    case None
    with assms(2) reads state show ?thesis
      by (auto simp: capture_def restore_def obj_get_def obj_remove_def without_preamble_def Let_def)
  next
    case (Some t)
    with assms(2) obtain i where one: "filter (\<lambda>i. is_owned_preamble t (ms ! i)) [0..<length ms] = [i]"
      by (auto simp: capture_def Let_def split: list.splits)
    with assms(2) Some reads owned_index [OF one] filter_upt_Suc [OF one] state show ?thesis
      by (auto simp: capture_def restore_def obj_get_def obj_remove_def without_preamble_def Let_def is_owned_preamble_def)
  qed
qed

text \<open>
  C33: what the runtime captures at the end of a turn is what is restored: the messages without the
  host's preamble, with the state it may carry over, where the host has none of its own.
\<close>

theorem a_captured_snapshot_is_restored:
  assumes "derived D" and "capture D ms owned st = Some v"
  shows "\<exists>state. restore D [(CHECKPOINT_KEY, v)] = Inr (Some (without_preamble owned ms), state) \<and>
    (\<forall>k \<in> set MUTABLE_KEYS. obj_get state k = json_get st k) \<and> set (map fst state) \<subseteq> set MUTABLE_KEYS"
  using assms by (rule restored)

lemma newest_first:
  assumes "c \<in> set rows" and "\<And>y. y \<in> set rows \<Longrightarrow> y = c \<or> (k y :: 'k::linorder) < k c"
  shows "\<exists>rest. order_desc k rows = c # rest"
proof -
  let ?ys = "sort_key k (rev rows)"
  have c: "c \<in> set ?ys" and less: "y \<in> set ?ys \<Longrightarrow> y = c \<or> k y < k c" for y using assms by auto
  have "sorted (map k ?ys)" by simp
  with c obtain zs z where z: "?ys = zs @ [z]" by (cases ?ys rule: rev_cases) auto
  have "z = c"
  proof (rule ccontr)
    assume "z \<noteq> c"
    with less z have "k z < k c" by auto
    moreover from \<open>sorted (map k ?ys)\<close> c z \<open>z \<noteq> c\<close> have "k c \<le> k z" by (auto simp: sorted_append)
    ultimately show False by simp
  qed
  with z show ?thesis by (simp add: order_desc_def)
qed

lemma newest_written:
  assumes "\<forall>y \<in> set (checkpoints_t db). ck_execution_id y = ck_execution_id c \<longrightarrow> ck_created_at y < ck_created_at c"
  shows "newest_checkpoint (ck_execution_id c) (db\<lparr>checkpoints_t := checkpoints_t db @ [c]\<rparr>) = Some c"
proof -
  let ?rows = "filter (\<lambda>y. ck_execution_id y = ck_execution_id c) (checkpoints_t db @ [c])"
  have "\<exists>rest. order_desc ck_created_at (order_desc ck_llm_turn ?rows) = c # rest"
    by (rule newest_first) (use assms in \<open>auto simp: order_desc_def set_insort_key\<close>)
  then show ?thesis by (auto simp: newest_checkpoint_def)
qed

lemma get_session_up: "script db = [] \<Longrightarrow> snd (repo_get_session E i db) = db"
  by (auto simp: repo_get_session_def op_simps bnd_def ret_def split: option.split prod.split sum.split)

text \<open>The checkpoint of a turn reads back as what the turn put into it.\<close>

lemma turn_checkpoint_reads_back:
  assumes up: "script db = []" and codec: "json_codec (env_codec E)" and D: "derived D"
    and st: "tk_engine_state turn = Some st" "json_get st CHECKPOINT_KEY = Some v" "capture D ms owned st0 = Some v"
    and new: "uuid_v7 D (minted db) \<notin> set (map ck_id (checkpoints_t db))"
      "\<forall>y \<in> set (checkpoints_t db). ck_execution_id y = tk_execution_id turn \<longrightarrow> ck_created_at y < now_text E (ticks db)"
  shows "checkpointed (env_codec E) D (tk_execution_id turn) (tk_session_id turn) (write_turn_checkpoint E D turn db)
      (without_preamble owned ms)
      \<lparr>rc_input_cursor = tk_input_cursor turn, rc_represented_output_ids = tk_represented_output_ids turn\<rparr>"
    and "messages_t (write_turn_checkpoint E D turn db) = messages_t db \<and> script (write_turn_checkpoint E D turn db) = []"
proof -
  let ?cursor = "\<lparr>rc_input_cursor = tk_input_cursor turn, rc_represented_output_ids = tk_represented_output_ids turn\<rparr>"
  obtain found where found: "repo_get_session E (tk_session_id turn) db = (found, db)"
    using get_session_up [OF up] by (metis prod.collapse)
  define ward where "ward = (case found of Inr (Some s) \<Rightarrow> s_ward_id s | _ \<Rightarrow> None)"
  define display where "display = [(''intent'', JNull), (''ward'', opt_text ward), (''plan'', JNull), (''recalled_facts'', JNull),
      (''response'', JString (tk_response turn)), (''title'', JNull), (''model'', JNull), (''subagents'', JNull)]"
  define kvs where "kvs = obj_insert (obj_insert display CHECKPOINT_KEY v) GATEWAY_RECOVERY_KEY (cursor_to_value D ?cursor)"
  define c where "c = \<lparr>ck_id = uuid_v7 D (minted db), ck_execution_id = tk_execution_id turn, ck_session_id = tk_session_id turn,
      ck_llm_turn = tk_llm_turn turn, ck_last_message_id = [], ck_pending_tool_calls = None,
      ck_context_state = Some (json_to_string (env_codec E) (JObject kvs)), ck_child_executions = None,
      ck_schema_version = 1, ck_created_at = now_text E (ticks db)\<rparr>"
  define d where "d = db\<lparr>minted := Suc (minted db), ticks := Suc (ticks db)\<rparr>"
  have written: "write_turn_checkpoint E D turn db = d\<lparr>checkpoints_t := checkpoints_t d @ [c]\<rparr>"
    using up st(1,2) new(1)
    by (simp add: write_turn_checkpoint_def found Let_def checkpoint_context_state_def checkpoint_write_def op_simps unit_op_def
        d_def c_def kvs_def display_def ward_def)
  have "newest_checkpoint (ck_execution_id c) (d\<lparr>checkpoints_t := checkpoints_t d @ [c]\<rparr>) = Some c"
    by (rule newest_written) (use new(2) in \<open>simp add: c_def d_def\<close>)
  moreover have get: "json_get (JObject kvs) CHECKPOINT_KEY = Some v"
      "json_get (JObject kvs) GATEWAY_RECOVERY_KEY = Some (cursor_to_value D ?cursor)"
    by (simp_all add: json_get_def kvs_def display_def obj_insert_def obj_contains_key_def obj_get_def
        CHECKPOINT_KEY_def GATEWAY_RECOVERY_KEY_def)
  moreover from D have "cursor_from_value D (JObject kvs) = Inr ?cursor"
    by (simp add: cursor_from_value_def get derived_def some_or_def)
  moreover from restored [OF D st(3)] obtain state where
    "restore D [(CHECKPOINT_KEY, v)] = Inr (Some (without_preamble owned ms), state)" by blast
  ultimately show "checkpointed (env_codec E) D (tk_execution_id turn) (tk_session_id turn)
      (write_turn_checkpoint E D turn db) (without_preamble owned ms) ?cursor"
    using codec unfolding written checkpointed_def by (intro exI conjI) (assumption | simp add: c_def)+
  show "messages_t (write_turn_checkpoint E D turn db) = messages_t db \<and> script (write_turn_checkpoint E D turn db) = []"
    using up unfolding written by (simp add: d_def)
qed

section \<open>A turn after the other\<close>

definition append_all :: "conv_message list \<Rightarrow> statedb \<Rightarrow> statedb" where
  "append_all ms db = fold (\<lambda>m d. snd (message_append m d)) ms db"

lemma append_one:
  assumes "script db = []"
  shows "snd (message_append m db) = db \<or>
    snd (message_append m db) = db\<lparr>messages_t := messages_t db @ [row_of_conv_message db m]\<rparr>"
  using assms by (simp add: message_append_def unit_op_def op_simps bnd_def ret_def)

lemma next_seq_append:
  "next_seq s (db\<lparr>messages_t := messages_t db @ [row_of_conv_message db m]\<rparr>) =
     (if vm_session_id m = s then next_seq s db + 1 else next_seq s db)"
proof (cases "vm_session_id m = s")
  case True
  have "Max (insert (next_seq s db) (mr_seq ` set (rows_of_session s db))) = next_seq s db"
    by (intro Max_eqI) (auto dest: below_next_seq)
  with True show ?thesis by (simp add: next_seq_def [of s "db\<lparr>messages_t := _\<rparr>"] rows_appended)
qed (simp add: next_seq_def rows_appended)

text \<open>Whatever is appended comes after what was there, under numbers of its own.\<close>

lemma appended:
  assumes "script db = []" and "in_sequence s db" and "k < next_seq s db"
  shows "\<exists>new. rows_of_session s (append_all ms db) = rows_of_session s db @ new \<and> (\<forall>r \<in> set new. k < mr_seq r) \<and>
    in_sequence s (append_all ms db) \<and> k < next_seq s (append_all ms db) \<and> script (append_all ms db) = [] \<and>
    checkpoints_t (append_all ms db) = checkpoints_t db \<and> ticks (append_all ms db) = ticks db \<and>
    minted (append_all ms db) = minted db"
  using assms
proof (induction ms arbitrary: db)
  case (Cons m ms)
  from append_one [OF Cons.prems(1), of m] show ?case
  proof
    assume "snd (message_append m db) = db"
    with Cons.IH [OF Cons.prems] show ?thesis by (simp add: append_all_def)
  next
    let ?d = "db\<lparr>messages_t := messages_t db @ [row_of_conv_message db m]\<rparr>"
    assume step: "snd (message_append m db) = ?d"
    have "script ?d = []" "in_sequence s ?d" "k < next_seq s ?d"
      using Cons.prems append_in_sequence by (auto simp: next_seq_append)
    from Cons.IH [OF this] obtain new where
      new: "rows_of_session s (append_all ms ?d) = rows_of_session s ?d @ new" "\<forall>r \<in> set new. k < mr_seq r"
        "in_sequence s (append_all ms ?d)" "k < next_seq s (append_all ms ?d)" "script (append_all ms ?d) = []"
        "checkpoints_t (append_all ms ?d) = checkpoints_t ?d" "ticks (append_all ms ?d) = ticks ?d"
        "minted (append_all ms ?d) = minted ?d" by blast
    have all: "append_all (m # ms) db = append_all ms ?d" by (simp add: append_all_def step)
    show ?thesis
      unfolding all
      by (rule exI [of _ "(if vm_session_id m = s then [row_of_conv_message db m] else []) @ new"])
        (use new Cons.prems(3) in \<open>auto simp: rows_appended\<close>)
  qed
qed (simp add: append_all_def)


section \<open>Where messages are lost\<close>

text \<open>
  A replay reads the first two hundred rows. After a turn that wrote two hundred messages or more before
  an answer came, the continuation that was started for the answer is not given it.
\<close>

lemma a_long_turn_hides_the_answer:
  assumes "script db = []" and "in_sequence s db" and "checkpointed C D x s db tape cursor"
    and "\<forall>r \<in> set (take 200 (unread cursor s db)). mr_id r \<in> set (rc_represented_output_ids cursor)"
  shows "\<exists>co. compose_continuation_history C D x s db = (Inr co, db) \<and> co_history co = strip_stale_context_packets tape"
proof -
  have "filter (\<lambda>r. \<not> in_tape cursor r) (take 200 (unread cursor s db)) = []"
    using assms(4) by (simp add: filter_empty_conv in_tape_def)
  with compose_up [OF assms(1-3)] show ?thesis by (auto simp: messages_to_chat_format_def)
qed

text \<open>Without a checkpoint, a session of more than two hundred messages is shown from its beginning only.\<close>

lemma a_long_session_shows_its_beginning:
  assumes "script db = []" and "in_sequence s db"
  shows "\<exists>co. replay_display_history C s db = (Inr co, db) \<and>
    co_history co = messages_to_chat_format C (map message_of_row (take 200 (rows_of_session s db)))"
  using replay_up [OF assms(2,1), of None 200]
  by (simp add: replay_display_history_def map_err_def bnd_def ret_def)

text \<open>A query for the checkpoint that fails is taken for a session that has none.\<close>

lemma a_failing_query_is_no_checkpoint:
  assumes "script db = [False, True]"
  shows "checkpoint_latest x db = (Inr None, db\<lparr>script := []\<rparr>)"
  using assms by (simp add: checkpoint_latest_def connection_def select_def statement_def)

section \<open>Instances\<close>

text \<open>A codec for the two records\<close>

fun put_opt :: "('a \<Rightarrow> json) \<Rightarrow> 'a option \<Rightarrow> json" where
  "put_opt f None = JArray []"
| "put_opt f (Some x) = JArray [f x]"

fun get_opt :: "(json \<Rightarrow> 'a option) \<Rightarrow> json \<Rightarrow> 'a option option" where
  "get_opt g (JArray []) = Some None"
| "get_opt g (JArray [v]) = map_option Some (g v)"
| "get_opt g _ = None"

fun get_list :: "(json \<Rightarrow> 'a option) \<Rightarrow> json \<Rightarrow> 'a list option" where
  "get_list g (JArray vs) = those (map g vs)"
| "get_list g _ = None"

definition put_nat :: "nat \<Rightarrow> json" where "put_nat n = JString (replicate n CHR ''1'')"
definition get_nat :: "json \<Rightarrow> nat option" where "get_nat v = map_option length (as_str v)"

definition put_int :: "int \<Rightarrow> json" where "put_int i = JArray [JBool (i < 0), put_nat (nat \<bar>i\<bar>)]"

fun get_int :: "json \<Rightarrow> int option" where
  "get_int (JArray [JBool b, v]) = map_option (\<lambda>n. if b then - int n else int n) (get_nat v)"
| "get_int _ = None"

fun put_source :: "content_source \<Rightarrow> json" where
  "put_source (CsUrl t) = JArray [JNull, JString t]"
| "put_source (CsBase64 t) = JArray [JBool True, JString t]"
| "put_source (CsFileRef t) = JArray [JBool False, JString t]"

fun get_source :: "json \<Rightarrow> content_source option" where
  "get_source (JArray [JNull, JString t]) = Some (CsUrl t)"
| "get_source (JArray [JBool b, JString t]) = Some (if b then CsBase64 t else CsFileRef t)"
| "get_source _ = None"

fun put_detail :: "image_detail \<Rightarrow> json" where
  "put_detail DetailLow = JNull"
| "put_detail DetailHigh = JBool True"
| "put_detail DetailAuto = JBool False"

fun get_detail :: "json \<Rightarrow> image_detail option" where
  "get_detail JNull = Some DetailLow"
| "get_detail (JBool b) = Some (if b then DetailHigh else DetailAuto)"
| "get_detail _ = None"

fun put_part :: "part \<Rightarrow> json" where
  "put_part (PartText t) = JString t"
| "put_part (PartFunctionCall n a i) = JArray [JString n, a, put_opt JString i]"
| "put_part (PartFunctionResponse i r) = JArray [JString i, JString r]"
| "put_part (PartImage c m d) = JArray [JBool True, put_source c, JString m, put_opt put_detail d]"
| "put_part (PartFile c m f) = JArray [JBool False, put_source c, JString m, put_opt JString f]"

fun get_part :: "json \<Rightarrow> part option" where
  "get_part (JString t) = Some (PartText t)"
| "get_part (JArray [JString n, a, i]) = map_option (PartFunctionCall n a) (get_opt as_str i)"
| "get_part (JArray [JString i, JString r]) = Some (PartFunctionResponse i r)"
| "get_part (JArray [JBool b, c, JString m, d]) = Option.bind (get_source c) (\<lambda>s.
     if b then map_option (PartImage s m) (get_opt get_detail d) else map_option (PartFile s m) (get_opt as_str d))"
| "get_part _ = None"

definition put_call :: "tool_call \<Rightarrow> json" where
  "put_call c = JArray [JString (tl_id c), JString (tl_name c), tl_arguments c]"

fun get_call :: "json \<Rightarrow> tool_call option" where
  "get_call (JArray [JString i, JString n, a]) = Some \<lparr>tl_id = i, tl_name = n, tl_arguments = a\<rparr>"
| "get_call _ = None"

definition put_chat :: "chat_message \<Rightarrow> json" where
  "put_chat m = JArray [JString (ch_role m), JArray (map put_part (ch_content m)),
     put_opt (\<lambda>cs. JArray (map put_call cs)) (ch_tool_calls m), put_opt JString (ch_tool_call_id m), JBool (ch_is_summary m)]"

fun get_chat :: "json \<Rightarrow> chat_message option" where
  "get_chat (JArray [JString r, c, t, i, JBool b]) =
     Option.bind (get_list get_part c) (\<lambda>c. Option.bind (get_opt (get_list get_call) t) (\<lambda>t.
     Option.bind (get_opt as_str i) (\<lambda>i.
     Some \<lparr>ch_role = r, ch_content = c, ch_tool_calls = t, ch_tool_call_id = i, ch_is_summary = b\<rparr>)))"
| "get_chat _ = None"

definition put_snapshot :: "snapshot \<Rightarrow> json" where
  "put_snapshot s = JArray [put_nat (unat (ss_version s)), put_opt put_nat (ss_owned_preamble s),
     JArray (map put_chat (ss_messages s)), JObject (ss_mutable_state s)]"

fun get_snapshot :: "json \<Rightarrow> snapshot option" where
  "get_snapshot (JArray [v, p, ms, JObject st]) =
     Option.bind (get_nat v) (\<lambda>v. Option.bind (get_opt get_nat p) (\<lambda>p. Option.bind (get_list get_chat ms) (\<lambda>ms.
     Some \<lparr>ss_version = word_of_nat v, ss_owned_preamble = p, ss_messages = ms, ss_mutable_state = st\<rparr>)))"
| "get_snapshot _ = None"

definition put_cursor :: "recovery_cursor \<Rightarrow> json" where
  "put_cursor c = JArray [put_int (rc_input_cursor c), JArray (map JString (rc_represented_output_ids c))]"

fun get_cursor :: "json \<Rightarrow> recovery_cursor option" where
  "get_cursor (JArray [i, ids]) = Option.bind (get_int i) (\<lambda>i. Option.bind (get_list as_str ids) (\<lambda>ids.
     Some \<lparr>rc_input_cursor = i, rc_represented_output_ids = ids\<rparr>))"
| "get_cursor _ = None"

definition sample_recovery :: recovery_codec where
  "sample_recovery = \<lparr>snapshot_to_value = put_snapshot, snapshot_from_value = get_snapshot,
     cursor_to_value = put_cursor, cursor_from_json = get_cursor, uuid_v7 = digits 4\<rparr>"

lemma get_opt_put [simp]: "(\<And>x. g (f x) = Some x) \<Longrightarrow> get_opt g (put_opt f v) = Some v"
  by (cases v) simp_all

lemma get_list_put [simp]: "(\<And>x. g (f x) = Some x) \<Longrightarrow> get_list g (JArray (map f xs)) = Some xs"
  by (induction xs) simp_all

lemma get_nat_put [simp]: "get_nat (put_nat n) = Some n"
  by (simp add: get_nat_def put_nat_def)

lemma get_int_put [simp]: "get_int (put_int i) = Some i"
  by (simp add: put_int_def)

lemma get_part_put [simp]: "get_part (put_part p) = Some p"
proof -
  have source: "get_source (put_source c) = Some c" for c by (cases c) simp_all
  have detail: "get_detail (put_detail d) = Some d" for d by (cases d) simp_all
  show ?thesis by (cases p) (simp_all add: source detail)
qed

lemma get_chat_put [simp]: "get_chat (put_chat m) = Some m"
proof -
  have calls: "get_call (put_call c) = Some c" for c by (simp add: put_call_def)
  show ?thesis by (simp add: put_chat_def calls del: get_list.simps)
qed

lemma derived_sample: "derived sample_recovery"
  by (simp add: derived_def sample_recovery_def put_snapshot_def put_cursor_def del: get_list.simps)

text \<open>A question, the turn that answers it and delegates, and the callback that comes meanwhile\<close>

definition sample_message :: "string \<Rightarrow> string \<Rightarrow> conv_message" where
  "sample_message i role =
     \<lparr>vm_id = i, vm_execution_id = Some ''x'', vm_session_id = ''s'', vm_role = role, vm_content = i,
      vm_created_at = ''t'', vm_token_count = 0, vm_tool_calls = None, vm_tool_call_id = None, vm_seq = 0\<rparr>"

definition sample_tape :: "chat_message list" where
  "sample_tape = [\<lparr>ch_role = ''user'', ch_content = [PartText ''m1''], ch_tool_calls = None, ch_tool_call_id = None,
     ch_is_summary = False\<rparr>]"

definition sample_snapshot :: json where
  "sample_snapshot = put_snapshot
     \<lparr>ss_version = 1, ss_owned_preamble = None, ss_messages = sample_tape, ss_mutable_state = []\<rparr>"

lemma sample_captured: "capture sample_recovery sample_tape None JNull = Some sample_snapshot"
  by (simp add: capture_def sample_snapshot_def sample_recovery_def json_get_def MUTABLE_KEYS_def List.map_filter_simps Let_def)

definition sample_turn :: turn_checkpoint where
  "sample_turn = \<lparr>tk_execution_id = ''x'', tk_session_id = ''s'', tk_llm_turn = 1, tk_response = ''m2'',
     tk_engine_state = Some (JObject [(CHECKPOINT_KEY, sample_snapshot)]), tk_input_cursor = 1,
     tk_represented_output_ids = [''m2'']\<rparr>"

definition asked_db :: statedb where
  "asked_db = append_all [sample_message ''m1'' ''user''] sample_db"

definition sample_news :: "conv_message list" where
  "sample_news = [sample_message ''m2'' ''assistant'', sample_message ''m3'' ''system'']"

lemma sample_message_fields [simp]:
  "vm_id (sample_message i r) = i" "vm_session_id (sample_message i r) = ''s''"
  "message_insertable (sample_message i r) db \<longleftrightarrow>
     i \<notin> set (map mr_id (messages_t db)) \<and> ''s'' \<in> set (session_ids db) \<and> ''x'' \<in> set (execution_ids db)"
  by (simp_all add: sample_message_def message_insertable_def)

lemma append_insertable:
  "script db = [] \<Longrightarrow> message_insertable m db \<Longrightarrow>
   snd (message_append m db) = db\<lparr>messages_t := messages_t db @ [row_of_conv_message db m]\<rparr>"
  by (simp add: message_append_def unit_op_def op_simps bnd_def ret_def)

lemma append_all_Cons [simp]: "append_all (m # ms) db = append_all ms (snd (message_append m db))"
  by (simp add: append_all_def)

lemma append_all_Nil [simp]: "append_all [] db = db"
  by (simp add: append_all_def)

lemma sample_ids [simp]: "session_ids sample_db = [''s'', ''c'']" "execution_ids sample_db = [''x'', ''y'']"
  by (simp_all add: session_ids_def execution_ids_def sample_execution_def)

lemma asked_db_is:
  "asked_db = sample_db\<lparr>messages_t := messages_t sample_db @ [row_of_conv_message sample_db (sample_message ''m1'' ''user'')]\<rparr>"
  by (simp add: asked_db_def append_insertable)

lemma sample_next [simp]: "next_seq ''s'' sample_db = 1" "rows_of_session ''s'' sample_db = []"
  by (simp_all add: next_seq_def rows_of_session_def)

lemma asked_rows: "rows_of_session ''s'' asked_db = [row_of_conv_message sample_db (sample_message ''m1'' ''user'')]"
  unfolding asked_db_is rows_appended by simp

lemma asked_facts:
  "script asked_db = []" "in_sequence ''s'' asked_db" "next_seq ''s'' asked_db = 2" "checkpoints_t asked_db = []"
  "session_ids asked_db = [''s'', ''c'']" "execution_ids asked_db = [''x'', ''y'']"
  "map mr_id (messages_t asked_db) = [''m1'']"
proof -
  show "in_sequence ''s'' asked_db" by (simp add: asked_rows in_sequence_def)
  show "next_seq ''s'' asked_db = 2" unfolding asked_db_is next_seq_append by simp
  have "session_ids asked_db = session_ids sample_db" "execution_ids asked_db = execution_ids sample_db"
    by (simp_all add: asked_db_is session_ids_def execution_ids_def)
  then show "session_ids asked_db = [''s'', ''c'']" "execution_ids asked_db = [''x'', ''y'']" by simp_all
qed (simp_all add: asked_db_is, simp_all add: sample_db_def empty_db_def)

definition answered_db :: statedb where
  "answered_db = write_turn_checkpoint sample_env sample_recovery sample_turn (append_all sample_news asked_db)"


lemma answered_facts:
  "script answered_db = [] \<and> in_sequence ''s'' answered_db \<and>
   map mr_id (rows_of_session ''s'' answered_db) = [''m1'', ''m2'', ''m3''] \<and>
   map mr_seq (rows_of_session ''s'' answered_db) = [1, 2, 3] \<and>
   checkpointed json_sample sample_recovery ''x'' ''s'' answered_db sample_tape
     \<lparr>rc_input_cursor = 1, rc_represented_output_ids = [''m2'']\<rparr>"
proof -
  let ?d = "append_all sample_news asked_db"
  from appended [OF asked_facts(1,2), of 1 sample_news] asked_facts(3,4) have
    d: "in_sequence ''s'' ?d" "script ?d = []" "checkpoints_t ?d = []" by auto
  let ?e = "asked_db\<lparr>messages_t := messages_t asked_db @ [row_of_conv_message asked_db (sample_message ''m2'' ''assistant'')]\<rparr>"
  have e: "session_ids ?e = session_ids asked_db" "execution_ids ?e = execution_ids asked_db"
    by (simp_all add: session_ids_def execution_ids_def)
  have "?d = ?e\<lparr>messages_t := messages_t ?e @ [row_of_conv_message ?e (sample_message ''m3'' ''system'')]\<rparr>"
    using asked_facts by (simp add: sample_news_def append_insertable e del: statedb.select_convs)
  then have rows: "map mr_id (rows_of_session ''s'' ?d) = [''m1'', ''m2'', ''m3'']"
      "map mr_seq (rows_of_session ''s'' ?d) = [1, 2, 3]"
    using asked_facts(3) by (simp_all only: rows_appended asked_rows) (simp_all add: next_seq_append)
  have "checkpointed (env_codec sample_env) sample_recovery (tk_execution_id sample_turn) (tk_session_id sample_turn)
      answered_db (without_preamble None sample_tape)
      \<lparr>rc_input_cursor = tk_input_cursor sample_turn, rc_represented_output_ids = tk_represented_output_ids sample_turn\<rparr>"
    "messages_t answered_db = messages_t ?d \<and> script answered_db = []"
    unfolding answered_db_def
    by (rule turn_checkpoint_reads_back [where st = "JObject [(CHECKPOINT_KEY, sample_snapshot)]" and st0 = JNull]
      turn_checkpoint_reads_back [where st = "JObject [(CHECKPOINT_KEY, sample_snapshot)]" and st0 = JNull and ms = sample_tape and owned = None];
      (rule d derived_sample sample_captured | simp add: d sample_turn_def json_get_def obj_get_def sample_captured))+
  then show ?thesis using rows d(1)
    by (simp add: sample_turn_def without_preamble_def in_sequence_def rows_of_session_def)
qed

lemma a_continuation_is_given_each_message_once_witness:
  "\<exists>co. compose_continuation_history json_sample sample_recovery ''x'' ''s'' answered_db = (Inr co, answered_db) \<and>
     co_history co = strip_stale_context_packets sample_tape @ messages_to_chat_format json_sample
       (map message_of_row (filter (\<lambda>r. \<not> in_tape \<lparr>rc_input_cursor = 1, rc_represented_output_ids = [''m2'']\<rparr> r)
         (rows_of_session ''s'' answered_db)))"
proof -
  have "length (unread \<lparr>rc_input_cursor = 1, rc_represented_output_ids = [''m2'']\<rparr> ''s'' answered_db) \<le>
      length (map mr_id (rows_of_session ''s'' answered_db))"
    by (simp add: unread_def)
  also have "\<dots> \<le> 200" using answered_facts by simp
  finally show ?thesis
    using a_continuation_is_given_each_message_once [of answered_db "''s''" json_sample sample_recovery "''x''" sample_tape
      "\<lparr>rc_input_cursor = 1, rc_represented_output_ids = [''m2'']\<rparr>"] answered_facts by auto
qed

lemma a_captured_snapshot_is_restored_witness:
  "\<exists>state. restore sample_recovery [(CHECKPOINT_KEY, sample_snapshot)] = Inr (Some sample_tape, state) \<and>
     set (map fst state) \<subseteq> set MUTABLE_KEYS"
  using a_captured_snapshot_is_restored [OF derived_sample sample_captured] by (simp add: without_preamble_def) blast

end
