(* ===== verification/Batch_Writer.thy ===== *)
theory Batch_Writer
  imports Stream_Store Conversation_Resume "HOL-Library.AList"
begin

text \<open>
  The batch writer (\<open>gateway/gateway-execution/src/invoke/batch_writer.rs\<close>): the task that writes what
  the events of a run queue up. Its loop takes a request from the channel or a tick of its interval; a
  flush writes everything that waits, and its acknowledgement travels behind what was sent before it.
\<close>

section \<open>The task\<close>

text \<open>
  \<open>fw_drain\<close> is the order a hash map gives out its entries in; whether the file of a session's trace
  opens and takes an event is up to the file system.
\<close>

record writer_env =
  fw_state :: state_env
  fw_traces :: bool
  fw_trace_opens :: "string \<Rightarrow> bool"
  fw_trace_appends :: "string \<Rightarrow> trace_event \<Rightarrow> bool"
  fw_drain :: "(string \<times> 64 word \<times> 64 word) list \<Rightarrow> (string \<times> 64 word \<times> 64 word) list"

record batch_writer =
  fb_state :: statedb
  fb_tokens :: "(string \<times> 64 word \<times> 64 word) list"
  fb_logs :: "execution_log list"
  fb_messages :: "stream_message list"
  fb_written :: "string list"
  fb_open_traces :: "string list"
  fb_traced :: "(string \<times> trace_event) list"
  fb_acknowledged :: "nat list"
  fb_stopped :: bool

datatype writer_event = FwReceived batch_write | FwClosed | FwTick

definition conv_message_of :: "state_env \<Rightarrow> stream_message \<Rightarrow> statedb \<Rightarrow> conv_message" where
  "conv_message_of E m db =
     \<lparr>vm_id = ''msg-'' @ fresh_uuid E (minted db), vm_execution_id = Some (bm_execution_id m),
      vm_session_id = bm_session_id m, vm_role = bm_role m, vm_content = bm_content m,
      vm_created_at = now_text E (ticks db), vm_token_count = int (length (bm_content m)) div 4,
      vm_tool_calls = bm_tool_calls m, vm_tool_call_id = bm_tool_call_id m, vm_seq = 0\<rparr>"

text \<open>Only the id of a row whose append succeeded is kept.\<close>

definition flush_message :: "state_env \<Rightarrow> stream_message \<Rightarrow> statedb \<times> string list \<Rightarrow> statedb \<times> string list" where
  "flush_message E m = (\<lambda>(db, ids).
     let v = conv_message_of E m db;
         (r, t) = message_append v (db\<lparr>minted := Suc (minted db), ticks := Suc (ticks db)\<rparr>)
     in (t, case r of Inl _ \<Rightarrow> ids | Inr _ \<Rightarrow> ids @ [vm_id v]))"

definition flush_all :: "writer_env \<Rightarrow> batch_writer \<Rightarrow> batch_writer" where
  "flush_all F b =
     (let d1 = fold (\<lambda>(x, i, n) db. snd (repo_update_execution_tokens x i n db)) (fw_drain F (fb_tokens b)) (fb_state b);
          d2 = fold (\<lambda>e db. snd (repo_insert_log (fw_state F) e db)) (fb_logs b) d1;
          (d3, ids) = fold (flush_message (fw_state F)) (fb_messages b) (d2, fb_written b)
      in b\<lparr>fb_state := d3, fb_tokens := [], fb_logs := [], fb_messages := [], fb_written := ids\<rparr>)"

definition trace_append :: "writer_env \<Rightarrow> string \<Rightarrow> trace_event \<Rightarrow> batch_writer \<Rightarrow> batch_writer" where
  "trace_append F s e b =
     (if \<not> fw_traces F then b
      else if s \<in> set (fb_open_traces b) \<or> fw_trace_opens F s
      then b\<lparr>fb_open_traces := List.insert s (fb_open_traces b),
             fb_traced := (if fw_trace_appends F s e then fb_traced b @ [(s, e)] else fb_traced b)\<rparr>
      else b)"

fun receive_write :: "writer_env \<Rightarrow> batch_write \<Rightarrow> batch_writer \<Rightarrow> batch_writer" where
  "receive_write F (BwTokenUpdate x i n) b = b\<lparr>fb_tokens := AList.update x (i, n) (fb_tokens b)\<rparr>"
| "receive_write F (BwLogEntry e) b = b\<lparr>fb_logs := fb_logs b @ [e]\<rparr>"
| "receive_write F (BwSessionMessage m) b = b\<lparr>fb_messages := fb_messages b @ [m]\<rparr>"
| "receive_write F (BwTraceEvent s e) b = trace_append F s e b"
| "receive_write F (BwCloseSessionTrace s) b = b\<lparr>fb_open_traces := remove1 s (fb_open_traces b)\<rparr>"
| "receive_write F (BwFlush n) b = (flush_all F b)\<lparr>fb_acknowledged := fb_acknowledged b @ [n]\<rparr>"

definition waiting_writes :: "batch_writer \<Rightarrow> nat" where
  "waiting_writes b = length (fb_tokens b) + length (fb_logs b) + length (fb_messages b)"

fun writer_step :: "writer_env \<Rightarrow> writer_event \<Rightarrow> batch_writer \<Rightarrow> batch_writer" where
  "writer_step F e b =
     (if fb_stopped b then b
      else case e of
        FwReceived w \<Rightarrow>
          let c = receive_write F w b in if 10 \<le> waiting_writes c then flush_all F c else c
      | FwTick \<Rightarrow> if waiting_writes b = 0 then b else flush_all F b
      | FwClosed \<Rightarrow> (flush_all F b)\<lparr>fb_stopped := True\<rparr>)"

definition run_writer :: "writer_env \<Rightarrow> writer_event list \<Rightarrow> batch_writer \<Rightarrow> batch_writer" where
  "run_writer F es b = fold (writer_step F) es b"

section \<open>What waits is bounded\<close>

lemma flush_nothing_waits [simp]: "waiting_writes (flush_all F b) = 0" "fb_stopped (flush_all F b) = fb_stopped b"
  by (simp_all add: flush_all_def waiting_writes_def Let_def split: prod.split)

lemma length_update: "length (AList.update k v al) \<le> Suc (length al)"
  by (induction al) auto

lemma receive_adds_one: "waiting_writes (receive_write F w b) \<le> Suc (waiting_writes b)"
  using length_update flush_nothing_waits(1) [of F b]
  by (cases w) (auto simp: waiting_writes_def trace_append_def)

text \<open>No more than nine writes ever wait between two events of the writer.\<close>

theorem at_most_nine_writes_wait:
  assumes "waiting_writes b \<le> 9"
  shows "waiting_writes (run_writer F es b) \<le> 9"
  using assms
proof (induction es arbitrary: b)
  case (Cons e es)
  have "waiting_writes ((flush_all F b)\<lparr>fb_stopped := True\<rparr>) = 0"
    using flush_nothing_waits(1) [of F b] by (simp add: waiting_writes_def)
  then have "waiting_writes (writer_step F e b) \<le> 9"
    using Cons.prems receive_adds_one by (auto simp: Let_def split: writer_event.split)
  with Cons.IH show ?case by (simp add: run_writer_def)
qed (simp add: run_writer_def)

section \<open>The barrier\<close>

text \<open>What of the store the appends look at, apart from the log itself\<close>

definition hosts :: "string list \<times> string list \<times> message_row list \<Rightarrow> statedb \<Rightarrow> bool" where
  "hosts T db \<longleftrightarrow> (session_ids db, execution_ids db, messages_t db) = T"

lemma of_tables_hosts: "of_tables (hosts T)"
  by (simp add: of_tables_def hosts_def [abs_def] session_ids_def execution_ids_def)

lemmas hosts_stmts = keeps_connection [OF of_tables_hosts] keeps_change [OF of_tables_hosts]
  keeps_checked_change [OF of_tables_hosts] keeps_transaction [OF of_tables_hosts] keeps_statement [OF of_tables_hosts]

lemma ids_kept: "(\<And>r. k (f r) = k r) \<Longrightarrow> map k (sql_update p f rows) = map k rows"
  by (simp add: sql_update_def)

lemma hosts_updates [simp]:
  "(\<And>r. sr_id (f r) = sr_id r) \<Longrightarrow> hosts T (update_sessions p f db) = hosts T db"
  "(\<And>x. xr_id (g x) = xr_id x) \<Longrightarrow> hosts T (update_executions q g db) = hosts T db"
  by (simp_all add: hosts_def session_ids_def execution_ids_def ids_kept)

lemma hosts_tokens: "keeps (hosts T) (repo_update_execution_tokens x i n)"
proof -
  have totals: "keeps (hosts T) (write_totals owner)" for owner
    unfolding write_totals_def
    by (rule hosts_stmts) (auto intro!: keepsI simp: Let_def split: option.split)
  show ?thesis
    unfolding repo_update_execution_tokens_def set_execution_def
    by (intro keeps_intros hosts_stmts keeps_of_state [where m = write_totals, OF totals]) simp_all
qed

lemma hosts_log: "keeps (hosts T) (repo_insert_log E e)"
  unfolding repo_insert_log_def insert_log_row_def
  by (intro keeps_intros hosts_stmts) (simp add: hosts_def session_ids_def execution_ids_def)

text \<open>With the store up, calls leave it up and mint nothing.\<close>

definition up :: "nat \<Rightarrow> statedb \<Rightarrow> bool" where
  "up k db \<longleftrightarrow> script db = [] \<and> minted db = k"

lemma up_statement: "keeps (up k) f \<Longrightarrow> keeps (up k) (statement f)"
  by (auto simp: keeps_def up_def op_simps)

lemma up_connection: "keeps (up k) f \<Longrightarrow> keeps (up k) (connection f)"
  by (simp add: connection_def up_statement)

lemma up_change: "(\<And>db. script (u db) = script db \<and> minted (u db) = minted db) \<Longrightarrow> keeps (up k) (change n u)"
  by (auto simp: keeps_def up_def op_simps)

lemma up_checked: "(\<And>db. script (u db) = script db \<and> minted (u db) = minted db) \<Longrightarrow> keeps (up k) (checked_change ok n u)"
  by (auto simp: keeps_def up_def op_simps)

lemma up_transaction:
  assumes "keeps (up k) f"
  shows "keeps (up k) (transaction f)"
  unfolding transaction_def
proof (rule up_statement, rule keepsI)
  fix db assume "up k db"
  with assms have "up k (snd (f db))" by (rule keepsD)
  then show "up k (snd (case f db of (Inl e, t) \<Rightarrow> (Inl e, undo db t)
     | (Inr (commit, x), t) \<Rightarrow>
         (case statement (ret ()) t of (Inl e, u) \<Rightarrow> (Inl e, undo db u) | (Inr _, u) \<Rightarrow> (Inr x, if commit then u else undo db u))))"
    by (auto simp: up_def undo_def op_simps split: prod.splits sum.splits)
qed

lemmas up_rules = up_connection up_change up_checked up_transaction

lemma up_tokens: "keeps (up k) (repo_update_execution_tokens x i n)"
proof -
  have totals: "keeps (up k) (write_totals owner)" for owner
    unfolding write_totals_def
    by (rule up_statement) (auto intro!: keepsI simp: Let_def up_def split: option.split)
  show ?thesis
    unfolding repo_update_execution_tokens_def set_execution_def
    by (intro keeps_intros up_rules keeps_of_state [where m = write_totals, OF totals]) simp_all
qed

lemma up_log: "keeps (up k) (repo_insert_log E e)"
  unfolding repo_insert_log_def insert_log_row_def by (intro keeps_intros up_rules) simp

lemma keeps_fold: "(\<And>x. keeps I (f x)) \<Longrightarrow> I db \<Longrightarrow> I (fold (\<lambda>x db. snd (f x db)) xs db)"
  by (induction xs arbitrary: db) (auto dest: keepsD)

text \<open>What a row says of the message it was made of\<close>

definition said :: "message_row \<Rightarrow> string option \<times> string option \<times> string \<times> string \<times> string option \<times> string option" where
  "said r = (mr_session_id r, mr_execution_id r, mr_role r, mr_content r, mr_tool_calls r, mr_tool_call_id r)"

definition says :: "stream_message \<Rightarrow> string option \<times> string option \<times> string \<times> string \<times> string option \<times> string option" where
  "says m = (Some (bm_session_id m), Some (bm_execution_id m), bm_role m, bm_content m, bm_tool_calls m, bm_tool_call_id m)"

definition housed :: "statedb \<Rightarrow> stream_message \<Rightarrow> bool" where
  "housed db m \<longleftrightarrow> bm_session_id m \<in> set (session_ids db) \<and> bm_execution_id m \<in> set (execution_ids db)"

definition writable :: "state_env \<Rightarrow> statedb \<Rightarrow> bool" where
  "writable E db \<longleftrightarrow> script db = [] \<and> (\<forall>n \<ge> minted db. ''msg-'' @ fresh_uuid E n \<notin> set (map mr_id (messages_t db)))"

lemma flush_one:
  assumes "writable E db" and "housed db m" and "inj (fresh_uuid E)"
  shows "\<exists>r. flush_message E m (db, ids) =
      (db\<lparr>minted := Suc (minted db), ticks := Suc (ticks db), messages_t := messages_t db @ [r]\<rparr>, ids @ [mr_id r]) \<and>
    said r = says m \<and> mr_id r = ''msg-'' @ fresh_uuid E (minted db)"
proof -
  let ?d = "db\<lparr>minted := Suc (minted db), ticks := Suc (ticks db)\<rparr>" and ?v = "conv_message_of E m db"
  from assms have "message_insertable ?v ?d"
    by (simp add: message_insertable_def conv_message_of_def writable_def housed_def session_ids_def execution_ids_def)
  with assms(1) have "message_append ?v ?d = (Inr (), ?d\<lparr>messages_t := messages_t db @ [row_of_conv_message ?d ?v]\<rparr>)"
    by (simp add: message_append_def unit_op_def op_simps writable_def)
  then show ?thesis
    by (intro exI [of _ "row_of_conv_message ?d ?v"])
      (simp add: flush_message_def Let_def said_def says_def row_of_conv_message_def conv_message_of_def)
qed

lemma flush_messages:
  assumes "writable E db" and "\<forall>m \<in> set ms. housed db m" and "inj (fresh_uuid E)"
  shows "\<exists>t new. fold (flush_message E) ms (db, ids) = (t, ids @ map mr_id new) \<and> messages_t t = messages_t db @ new \<and>
    map said new = map says ms \<and> writable E t \<and> session_ids t = session_ids db \<and> execution_ids t = execution_ids db"
  using assms
proof (induction ms arbitrary: db ids)
  case (Cons m ms)
  from flush_one [OF Cons.prems(1) _ Cons.prems(3)] Cons.prems(2) obtain r where
    r: "flush_message E m (db, ids) =
        (db\<lparr>minted := Suc (minted db), ticks := Suc (ticks db), messages_t := messages_t db @ [r]\<rparr>, ids @ [mr_id r])"
      "said r = says m" "mr_id r = ''msg-'' @ fresh_uuid E (minted db)" by (meson list.set_intros(1))
  let ?d = "db\<lparr>minted := Suc (minted db), ticks := Suc (ticks db), messages_t := messages_t db @ [r]\<rparr>"
  have ids: "session_ids ?d = session_ids db" "execution_ids ?d = execution_ids db"
    by (simp_all add: session_ids_def execution_ids_def)
  have "writable E ?d" using Cons.prems(1,3) r(3) by (auto simp: writable_def dest: injD)
  moreover have "\<forall>m \<in> set ms. housed ?d m" using Cons.prems(2) by (simp add: housed_def ids)
  ultimately obtain t new where
    t: "fold (flush_message E) ms (?d, ids @ [mr_id r]) = (t, (ids @ [mr_id r]) @ map mr_id new)"
      "messages_t t = messages_t ?d @ new" "map said new = map says ms" "writable E t"
      "session_ids t = session_ids ?d" "execution_ids t = execution_ids ?d"
    using Cons.IH [OF _ _ Cons.prems(3)] by blast
  then show ?case using r ids by (intro exI [of _ t] exI [of _ "r # new"]) simp
qed simp

lemma flush_writes:
  assumes "writable (fw_state F) (fb_state b)" and "\<forall>m \<in> set (fb_messages b). housed (fb_state b) m"
    and "inj (fresh_uuid (fw_state F))"
  shows "\<exists>new. messages_t (fb_state (flush_all F b)) = messages_t (fb_state b) @ new \<and>
    map said new = map says (fb_messages b) \<and> fb_written (flush_all F b) = fb_written b @ map mr_id new \<and>
    writable (fw_state F) (fb_state (flush_all F b)) \<and> session_ids (fb_state (flush_all F b)) = session_ids (fb_state b) \<and>
    execution_ids (fb_state (flush_all F b)) = execution_ids (fb_state b)"
proof -
  let ?T = "(session_ids (fb_state b), execution_ids (fb_state b), messages_t (fb_state b))"
  let ?d1 = "fold (\<lambda>(x, i, n) db. snd (repo_update_execution_tokens x i n db)) (fw_drain F (fb_tokens b)) (fb_state b)"
  let ?d2 = "fold (\<lambda>e db. snd (repo_insert_log (fw_state F) e db)) (fb_logs b) ?d1"
  let ?I = "\<lambda>db. hosts ?T db \<and> up (minted (fb_state b)) db"
  have "?I (fb_state b)" using assms(1) by (simp add: hosts_def up_def writable_def)
  then have "?I ?d1"
    using keeps_fold [where f = "\<lambda>p. case p of (x, i, n) \<Rightarrow> repo_update_execution_tokens x i n" and I = ?I]
      keeps_conj [OF hosts_tokens up_tokens] by (simp add: case_prod_unfold)
  then have d2: "?I ?d2"
    using keeps_fold [where f = "repo_insert_log (fw_state F)" and I = ?I] keeps_conj [OF hosts_log up_log] by simp
  with assms have "writable (fw_state F) ?d2" "\<forall>m \<in> set (fb_messages b). housed ?d2 m"
    by (simp_all add: writable_def hosts_def up_def housed_def)
  from flush_messages [OF this assms(3), of "fb_written b"] obtain t new where
    t: "fold (flush_message (fw_state F)) (fb_messages b) (?d2, fb_written b) = (t, fb_written b @ map mr_id new)"
      "messages_t t = messages_t ?d2 @ new" "map said new = map says (fb_messages b)" "writable (fw_state F) t"
      "session_ids t = session_ids ?d2" "execution_ids t = execution_ids ?d2" by blast
  then have "flush_all F b = b\<lparr>fb_state := t, fb_tokens := [], fb_logs := [], fb_messages := [],
      fb_written := fb_written b @ map mr_id new\<rparr>"
    by (simp add: flush_all_def Let_def)
  with t(2-) d2 show ?thesis by (simp add: hosts_def)
qed

text \<open>The messages the channel brought\<close>

fun sent_messages :: "writer_event list \<Rightarrow> stream_message list" where
  "sent_messages [] = []"
| "sent_messages (FwReceived (BwSessionMessage m) # es) = m # sent_messages es"
| "sent_messages (_ # es) = sent_messages es"

lemma sent_append: "sent_messages (es @ fs) = sent_messages es @ sent_messages fs"
  by (induction es rule: sent_messages.induct) auto

definition writing :: "writer_env \<Rightarrow> string list \<times> string list \<Rightarrow> batch_writer \<Rightarrow> bool" where
  "writing F H b \<longleftrightarrow> writable (fw_state F) (fb_state b) \<and> \<not> fb_stopped b \<and>
     (session_ids (fb_state b), execution_ids (fb_state b)) = H \<and>
     (\<forall>m \<in> set (fb_messages b). housed (fb_state b) m)"

text \<open>Between two writers, the log has grown by rows that say what was handed over, under the ids kept.\<close>

definition wrote :: "batch_writer \<Rightarrow> stream_message list \<Rightarrow> batch_writer \<Rightarrow> bool" where
  "wrote b ms c \<longleftrightarrow> (\<exists>new. messages_t (fb_state c) = messages_t (fb_state b) @ new \<and>
     map said new @ map says (fb_messages c) = map says (fb_messages b @ ms) \<and> fb_written c = fb_written b @ map mr_id new)"

lemma wrote_trans:
  assumes "wrote b ms c" and "wrote c ns d"
  shows "wrote b (ms @ ns) d"
proof -
  from assms obtain new newa where
    c: "messages_t (fb_state c) = messages_t (fb_state b) @ new" "fb_written c = fb_written b @ map mr_id new"
      "map said new @ map says (fb_messages c) = map says (fb_messages b) @ map says ms"
    and d: "messages_t (fb_state d) = messages_t (fb_state c) @ newa" "fb_written d = fb_written c @ map mr_id newa"
      "map said newa @ map says (fb_messages d) = map says (fb_messages c) @ map says ns"
    unfolding wrote_def by auto
  have "map said (new @ newa) @ map says (fb_messages d) = (map said new @ map says (fb_messages c)) @ map says ns"
    by (simp add: d(3))
  also have "\<dots> = map says (fb_messages b @ ms @ ns)" by (simp only: c(3)) simp
  finally show ?thesis unfolding wrote_def using c(1,2) d(1,2) by (intro exI [of _ "new @ newa"]) simp
qed

lemma flush_wrote:
  assumes "writing F H b" and "inj (fresh_uuid (fw_state F))"
  shows "writing F H (flush_all F b) \<and> wrote b [] (flush_all F b) \<and> fb_messages (flush_all F b) = []"
proof -
  have none: "fb_messages (flush_all F b) = []" by (simp add: flush_all_def Let_def split: prod.split)
  from flush_writes [OF _ _ assms(2)] assms(1) none show ?thesis
    by (auto simp: writing_def wrote_def)
qed

lemma wrote_receive:
  assumes "writing F H b" and "inj (fresh_uuid (fw_state F))" and "\<forall>m \<in> set (sent_messages [FwReceived w]). housed (fb_state b) m"
  shows "writing F H (receive_write F w b) \<and> wrote b (sent_messages [FwReceived w]) (receive_write F w b)"
proof (cases w)
  case (BwFlush n)
  with flush_wrote [OF assms(1,2)] show ?thesis by (auto simp: writing_def wrote_def)
qed (use assms in \<open>auto simp: writing_def wrote_def trace_append_def\<close>)

lemma wrote_step:
  assumes "writing F H b" and "inj (fresh_uuid (fw_state F))" and "e \<noteq> FwClosed"
    and "\<forall>m \<in> set (sent_messages [e]). housed (fb_state b) m"
  shows "writing F H (writer_step F e b) \<and> wrote b (sent_messages [e]) (writer_step F e b)"
proof (cases e)
  case (FwReceived w)
  from wrote_receive [OF assms(1,2), of w] assms(4) FwReceived have
    c: "writing F H (receive_write F w b)" "wrote b (sent_messages [e]) (receive_write F w b)" by auto
  from flush_wrote [OF c(1) assms(2)] wrote_trans [OF c(2), of "[]"] c assms(1) FwReceived show ?thesis
    by (simp add: writing_def Let_def)
next
  case FwTick
  with assms(1) flush_wrote [OF assms(1,2)] show ?thesis by (auto simp: writing_def wrote_def)
qed (use assms in simp)

declare writer_step.simps [simp del]

lemma wrote_run:
  assumes "writing F H b" and "inj (fresh_uuid (fw_state F))" and "FwClosed \<notin> set es"
    and "\<forall>m \<in> set (sent_messages es). housed (fb_state b) m"
  shows "writing F H (run_writer F es b) \<and> wrote b (sent_messages es) (run_writer F es b)"
  using assms
proof (induction es arbitrary: b)
  case Nil
  then show ?case by (simp add: run_writer_def wrote_def)
next
  case (Cons e es)
  have split: "sent_messages (e # es) = sent_messages [e] @ sent_messages es"
    using sent_append [of "[e]" es] by simp
  with Cons.prems have "\<forall>m \<in> set (sent_messages [e]). housed (fb_state b) m" by simp
  from wrote_step [OF Cons.prems(1,2) _ this] Cons.prems(3) have
    c: "writing F H (writer_step F e b)" "wrote b (sent_messages [e]) (writer_step F e b)" by auto
  have "\<forall>m \<in> set (sent_messages es). housed (fb_state (writer_step F e b)) m"
    using Cons.prems(1,4) c(1) split by (auto simp: writing_def housed_def)
  from Cons.IH [OF c(1) Cons.prems(2) _ this] Cons.prems(3) wrote_trans [OF c(2)] split show ?case
    by (simp add: run_writer_def)
qed

text \<open>
  C34: with the store up, once a flush is acknowledged every message that was sent before it is a row of
  the log, in the order of sending among the requests, ticks and earlier flushes of any kind between
  them, and the ids kept for the checkpoint are exactly the ids of these rows.
\<close>

theorem a_flush_is_a_barrier:
  assumes "writing F H b" and "inj (fresh_uuid (fw_state F))" and "FwClosed \<notin> set es"
    and "\<forall>m \<in> set (sent_messages es). housed (fb_state b) m"
  shows "let c = run_writer F (es @ [FwReceived (BwFlush n)]) b in
    n \<in> set (fb_acknowledged c) \<and> waiting_writes c = 0 \<and>
    (\<exists>new. messages_t (fb_state c) = messages_t (fb_state b) @ new \<and>
       map said new = map says (fb_messages b @ sent_messages es) \<and> fb_written c = fb_written b @ map mr_id new)"
proof -
  let ?c = "run_writer F es b" and ?d = "run_writer F (es @ [FwReceived (BwFlush n)]) b"
  from wrote_run [OF assms] have c: "writing F H ?c" "wrote b (sent_messages es) ?c" by auto
  have "waiting_writes ((flush_all F ?c)\<lparr>fb_acknowledged := as\<rparr>) = 0" for as
    using flush_nothing_waits(1) [of F ?c] by (simp add: waiting_writes_def)
  with c(1) have d: "?d = (flush_all F ?c)\<lparr>fb_acknowledged := fb_acknowledged ?c @ [n]\<rparr>" "waiting_writes ?d = 0"
    by (simp_all add: run_writer_def writing_def Let_def writer_step.simps)
  from wrote_trans [OF c(2)] flush_wrote [OF c(1) assms(2)] have
    "wrote b (sent_messages es) (flush_all F ?c)" "fb_messages (flush_all F ?c) = []" by (metis append_Nil2)+
  with d show ?thesis by (auto simp: wrote_def Let_def)
qed

section \<open>Instances\<close>

definition sample_writer_env :: writer_env where
  "sample_writer_env = \<lparr>fw_state = sample_env\<lparr>fresh_uuid := \<lambda>n. replicate n CHR ''a''\<rparr>, fw_traces = False,
     fw_trace_opens = (\<lambda>_. False), fw_trace_appends = (\<lambda>_ _. False), fw_drain = rev\<rparr>"

definition sample_writer :: batch_writer where
  "sample_writer = \<lparr>fb_state = sample_db, fb_tokens = [], fb_logs = [], fb_messages = [], fb_written = [],
     fb_open_traces = [], fb_traced = [], fb_acknowledged = [], fb_stopped = False\<rparr>"

definition sample_said :: "string \<Rightarrow> stream_message" where
  "sample_said t = \<lparr>bm_session_id = ''s'', bm_execution_id = ''x'', bm_role = ''assistant'', bm_content = t,
     bm_tool_calls = None, bm_tool_call_id = None\<rparr>"

definition sample_writes :: "writer_event list" where
  "sample_writes = [FwReceived (BwSessionMessage (sample_said ''a'')), FwTick, FwReceived (BwTokenUpdate ''x'' 1 2),
     FwReceived (BwSessionMessage (sample_said ''b''))]"

lemma at_most_nine_writes_wait_witness:
  "waiting_writes (run_writer sample_writer_env sample_writes sample_writer) \<le> 9"
  by (rule at_most_nine_writes_wait) (simp add: sample_writer_def waiting_writes_def)

lemma a_flush_is_a_barrier_witness:
  "let c = run_writer sample_writer_env (sample_writes @ [FwReceived (BwFlush 7)]) sample_writer in
    7 \<in> set (fb_acknowledged c) \<and> waiting_writes c = 0 \<and>
    (\<exists>new. messages_t (fb_state c) = new \<and> map said new = map says [sample_said ''a'', sample_said ''b''] \<and>
       fb_written c = map mr_id new)"
proof -
  have inj: "inj (fresh_uuid (fw_state sample_writer_env))"
    by (auto simp: inj_def sample_writer_env_def dest: arg_cong [of _ _ length])
  have w: "writing sample_writer_env ([''s'', ''c''], [''x'', ''y'']) sample_writer"
    by (simp add: writing_def writable_def sample_writer_def)
  have closed: "FwClosed \<notin> set sample_writes" by (simp add: sample_writes_def)
  have sent: "sent_messages sample_writes = [sample_said ''a'', sample_said ''b'']" by (simp add: sample_writes_def)
  have housed: "\<forall>m \<in> set (sent_messages sample_writes). housed (fb_state sample_writer) m"
    by (simp add: sent housed_def sample_said_def sample_writer_def)
  from a_flush_is_a_barrier [OF w inj closed housed, of 7] show ?thesis
    by (simp add: sent sample_writer_def Let_def)
qed

end
