(* ===== verification/Delegation_Life.thy ===== *)
theory Delegation_Life
  imports Delegation_Spawn Batch_Writer State_Books State_History Bridge_History
begin

text \<open>
  What the end of a delegated child leaves behind: its execution settled, one delegation less pending, the
  callback in the conversation of the parent before the parent is told to go on; the invariant of the store
  through every operation of the life cycle; and the ways a delegation is lost.
\<close>

section \<open>What settling leaves alone\<close>

text \<open>
  The reads and writes that surround the end of an execution. The laws are those of an invariant that does
  not look at what they write.
\<close>

locale beside_settling =
  fixes I :: "statedb \<Rightarrow> bool"
  assumes access: "I db \<Longrightarrow> script db = b # bs \<Longrightarrow> I (db\<lparr>script := bs\<rparr>)"
    and undone: "I db \<Longrightarrow> I t \<Longrightarrow> I (undo db t)"
    and clock: "I db \<Longrightarrow> I (db\<lparr>ticks := Suc (ticks db)\<rparr>)"
    and uuid: "I db \<Longrightarrow> I (db\<lparr>minted := Suc (minted db)\<rparr>)"
    and columns: "(\<And>r. sr_id (h r) = sr_id r \<and> sr_pending (h r) = sr_pending r \<and> sr_continuation (h r) = sr_continuation r) \<Longrightarrow>
      I db \<Longrightarrow> I (update_sessions p h db)"
    and cascade: "I db \<Longrightarrow> I (update_executions (\<lambda>x. xr_session_id x = i \<and> live_text (xr_status x))
      (\<lambda>x. x\<lparr>xr_status := st, xr_completed_at := z\<rparr>) db)"
    and logs: "I db \<Longrightarrow> I (db\<lparr>logs_t := ls\<rparr>)"
    and plans: "I db \<Longrightarrow> I (db\<lparr>plans_t := ps\<rparr>)"
    and counters: "I db \<Longrightarrow> I (db\<lparr>counters_t := cs\<rparr>)"
    and surfaces: "I db \<Longrightarrow> I (db\<lparr>surfaces_t := fs\<rparr>)"
begin

lemma statement:
  assumes f: "keeps I f"
  shows "keeps I (statement f)"
proof (rule keepsI)
  fix db assume I: "I db"
  show "I (snd (statement f db))"
    by (cases "script db") (use I access [OF I] in \<open>auto simp: statement_def intro: keepsD [OF f]\<close>)
qed

lemma connection: "keeps I f \<Longrightarrow> keeps I (connection f)"
  by (simp add: connection_def statement)

lemma transaction: 
  assumes "keeps I g"
  shows "keeps I (transaction g)"
  unfolding transaction_def
proof (rule statement, rule keepsI)
  fix db assume I: "I db"
  have r: "keeps I (statement (ret ()))" by (intro statement keeps_ret)
  obtain x t where g: "g db = (x, t)" by fastforce
  with I assms have t: "I t" by (auto dest: keepsE)
  obtain y u where u: "statement (ret ()) t = (y :: state_error + unit, u)" by fastforce
  with t r have "I u" by (auto dest: keepsE)
  with I t show "I (snd (case g db of (Inl e, t) \<Rightarrow> (Inl e, undo db t)
     | (Inr (commit, x), t) \<Rightarrow>
         (case statement (ret ()) t of (Inl e, u) \<Rightarrow> (Inl e, undo db u) | (Inr _, u) \<Rightarrow> (Inr x, if commit then u else undo db u))))"
    by (auto simp: g u undone split: sum.split)
qed

lemma select: "keeps I (select q)"
  unfolding select_def by (rule statement) (simp add: keeps_def)

lemma change: "(\<And>db. I db \<Longrightarrow> I (u db)) \<Longrightarrow> keeps I (change n u)"
  unfolding change_def by (rule statement) (simp add: keeps_def)

lemma checked_change: "(\<And>db. I db \<Longrightarrow> I (u db)) \<Longrightarrow> keeps I (checked_change ok n u)"
  unfolding checked_change_def by (rule statement) (simp add: keeps_def)

lemma utc_now: "keeps I (utc_now E)"
  by (simp add: keeps_def utc_now_def clock)

lemma new_v4: "keeps I (new_v4 E)"
  by (simp add: keeps_def new_v4_def uuid)

lemmas rules = keeps_intros connection transaction select change checked_change utc_now new_v4

lemma totals: "keeps I (write_totals owner)"
  unfolding write_totals_def
  by (rule statement) (auto intro!: keepsI columns simp: Let_def split: option.split)

lemma tokens: "keeps I (repo_update_session_tokens i)"
  unfolding repo_update_session_tokens_def by (intro rules totals)

lemma reads: "keeps I (repo_get_session E i)" "keeps I (repo_get_execution E i)" "keeps I (repo_get_root_execution E i)"
  "keeps I (repo_list_executions E f)" "keeps I (session_ward_id i)" "keeps I (message_replay i after n)"
proof -
  show "keeps I (repo_list_executions E f)"
    unfolding repo_list_executions_def
    by (intro connection statement) (auto simp: keeps_def Let_def split: option.split)
qed (simp_all add: repo_get_session_def repo_get_execution_def repo_get_root_execution_def session_ward_id_def
  message_replay_def connection select)

lemma session_status: "st \<noteq> SQueued \<Longrightarrow> keeps I (repo_update_session_status E i st)"
  unfolding repo_update_session_status_def unit_op_def set_session_def cascade_executions_def
  by (intro rules columns cascade) simp_all

lemma completing: "keeps I (complete_session E i)" "keeps I (try_complete_session E i)"
  unfolding complete_session_def try_complete_session_def has_running_executions_def
  by (intro rules tokens session_status reads; simp)+

lemma plan: "keeps I (repo_complete_session_plan E i x)"
  unfolding repo_complete_session_plan_def next_plan_sequence_def store_completed_plan_def
  by (intro rules plans counters) (auto simp: keeps_def clock intro: counters)

lemma surface: "keeps I (repo_save_session_surface E i x f js)" "keeps I (repo_delete_session_surface i f)"
  unfolding repo_save_session_surface_def repo_delete_session_surface_def upsert_surface_def expire_surfaces_def
  by (intro rules surfaces statement; auto simp: keeps_def intro: surfaces split: option.split)+

lemma entries: "keeps I (log_session_end E x c g st r)" "keeps I (log_session_start E x c g p)"
  unfolding log_session_end_def log_session_start_def execution_log_new_def repo_insert_log_def insert_log_row_def Let_def
  by (intro rules logs; simp)+

end

section \<open>A settled execution\<close>

text \<open>
  What the end of the child of a session reads: the ids, the executions without their progress, the log of
  messages and the books of the session.
\<close>

definition execution_key :: "execution_row \<Rightarrow> string \<times> string \<times> string \<times> string" where
  "execution_key r = (xr_id r, xr_session_id r, xr_agent_id r, xr_delegation r)"

definition store_view :: "string \<Rightarrow> statedb \<Rightarrow>
    string list \<times> (string \<times> string \<times> string \<times> string) list \<times> message_row list \<times> (int \<times> int) option" where
  "store_view s db = (session_ids db, map execution_key (executions_t db), messages_t db, books_of s db)"

definition status_in :: "string \<Rightarrow> statedb \<Rightarrow> string option" where
  "status_in x db = map_option xr_status (find_execution_row x db)"

definition settled ::
  "string \<Rightarrow> string \<Rightarrow> string \<Rightarrow> nat \<Rightarrow>
   string list \<times> (string \<times> string \<times> string \<times> string) list \<times> message_row list \<times> (int \<times> int) option \<Rightarrow> statedb \<Rightarrow> bool" where
  "settled s x st k T db \<longleftrightarrow>
     script db = [] \<and> k \<le> minted db \<and> \<not> live_text st \<and> status_in x db = Some st \<and> store_view s db = T"

lemma view_simps [simp]:
  "store_view s (db\<lparr>script := bs\<rparr>) = store_view s db" "store_view s (db\<lparr>ticks := n\<rparr>) = store_view s db"
  "store_view s (db\<lparr>minted := n\<rparr>) = store_view s db" "store_view s (db\<lparr>logs_t := ls\<rparr>) = store_view s db"
  "store_view s (db\<lparr>plans_t := ps\<rparr>) = store_view s db" "store_view s (db\<lparr>counters_t := cs\<rparr>) = store_view s db"
  "store_view s (db\<lparr>surfaces_t := fs\<rparr>) = store_view s db"
  by (simp_all add: store_view_def session_ids_def books_of_def find_session_row_def)

lemma status_simps [simp]:
  "status_in x (db\<lparr>script := bs\<rparr>) = status_in x db" "status_in x (db\<lparr>ticks := n\<rparr>) = status_in x db"
  "status_in x (db\<lparr>minted := n\<rparr>) = status_in x db" "status_in x (db\<lparr>logs_t := ls\<rparr>) = status_in x db"
  "status_in x (db\<lparr>plans_t := ps\<rparr>) = status_in x db" "status_in x (db\<lparr>counters_t := cs\<rparr>) = status_in x db"
  "status_in x (db\<lparr>surfaces_t := fs\<rparr>) = status_in x db" "status_in x (db\<lparr>messages_t := ms\<rparr>) = status_in x db"
  "status_in x (update_sessions p h db) = status_in x db"
  by (simp_all add: status_in_def find_execution_row_def)

lemma find_after_update:
  assumes "\<And>r. k (f r) = k r" and "\<And>r. g (f r) = g r"
  shows "map_option g (find (\<lambda>r. k r = i) (sql_update p f rows)) = map_option g (find (\<lambda>r. k r = i) rows)"
  using assms by (simp add: find_key_sql_update option.map_comp comp_def if_distrib cong: if_cong)

lemma view_sessions:
  assumes "\<And>r. sr_id (h r) = sr_id r \<and> sr_pending (h r) = sr_pending r \<and> sr_continuation (h r) = sr_continuation r"
  shows "store_view s (update_sessions p h db) = store_view s db"
proof -
  have "books_of s (update_sessions p h db) = books_of s db"
    unfolding books_of_def find_session_row_def using assms by (simp add: find_after_update)
  with assms show ?thesis by (simp add: store_view_def session_ids_def ids_kept)
qed

lemma view_executions: "(\<And>r. execution_key (g r) = execution_key r) \<Longrightarrow> store_view s (update_executions q g db) = store_view s db"
  by (simp add: store_view_def session_ids_def ids_kept books_of_def find_session_row_def)

lemma status_cascade:
  assumes "status_in x db = Some st" and "\<not> live_text st"
  shows "status_in x (update_executions (\<lambda>r. xr_session_id r = i \<and> live_text (xr_status r))
    (\<lambda>r. r\<lparr>xr_status := tx, xr_completed_at := z\<rparr>) db) = Some st"
  using assms by (auto simp: status_in_def find_execution_row_def find_key_sql_update)

interpretation settled: beside_settling "settled s x st k T" for s x st k T
proof
  fix db i ty z
  assume "settled s x st k T db"
  then show "settled s x st k T (update_executions (\<lambda>r. xr_session_id r = i \<and> live_text (xr_status r))
      (\<lambda>r. r\<lparr>xr_status := ty, xr_completed_at := z\<rparr>) db)"
    by (simp add: settled_def view_executions execution_key_def status_cascade)
qed (simp_all add: settled_def undo_def view_sessions)

section \<open>The world beside its store\<close>

abbreviation registry_of :: "life_world \<Rightarrow> delegation_registry" where
  "registry_of w \<equiv> cw_registry (lw_control w)"

lemma set_same [simp]: "set_life_state (life_state w) w = w"
  by (cases w; cases "lw_control w") (simp add: set_life_state_def life_state_def)

lemma life_state_of [simp]:
  "life_state (set_life_state db w) = db" "life_state (publish e w) = life_state w"
  "life_state (try_life f w) = snd (f (life_state w))" "life_state (in_registry g w) = life_state w"
  "life_state (w\<lparr>lw_handoffs := hs\<rparr>) = life_state w"
  by (simp_all add: set_life_state_def life_state_def publish_def try_life_def on_life_def in_registry_def in_control_def
      split: prod.split)

lemma registry_kept [simp]:
  "registry_of (set_life_state db w) = registry_of w" "registry_of (publish e w) = registry_of w"
  "registry_of (try_life f w) = registry_of w" "registry_of (w\<lparr>lw_handoffs := hs\<rparr>) = registry_of w"
  "registry_of (in_registry g w) = g (registry_of w)"
  by (simp_all add: set_life_state_def publish_def try_life_def on_life_def in_registry_def in_control_def split: prod.split)

lemma published_kept [simp]:
  "lw_published (set_life_state db w) = lw_published w" "lw_published (publish e w) = lw_published w @ [e]"
  "lw_published (try_life f w) = lw_published w" "lw_published (in_registry g w) = lw_published w"
  by (simp_all add: set_life_state_def publish_def try_life_def on_life_def in_registry_def in_control_def split: prod.split)

lemma on_life_eq: "on_life f w = (fst (f (life_state w)), set_life_state (snd (f (life_state w))) w)"
  by (simp add: on_life_def split: prod.split)

lemma bus_beside [simp]:
  "cw_state (bus_resolve i a r c) = cw_state c" "cw_registry (bus_resolve i a r c) = cw_registry c"
  "cw_state (bus_reject i x c) = cw_state c" "cw_registry (bus_reject i x c) = cw_registry c"
  by (simp_all add: bus_resolve_def bus_reject_def answer_waiter_def Let_def)

lemma in_control_beside [simp]:
  "lw_control (in_control g w) = g (lw_control w)" "life_state (in_control g w) = cw_state (g (lw_control w))" "lw_published (in_control g w) = lw_published w"
  by (simp_all add: in_control_def life_state_def)

section \<open>The life cycle beside a settled execution\<close>

context beside_settling
begin

lemma kept: "keeps I f \<Longrightarrow> I (life_state w) \<Longrightarrow> I (life_state (try_life f w))"
  by (simp add: keepsD)

lemma kept_surface:
  assumes "I (life_state w)"
  shows "I (life_state (keep_surface E e w))"
proof -
  have stored: "I (sw_state (try_store f W))" if "keeps I f" "I (sw_state W)" for f :: "'x st_op" and W
    using that by (auto simp: try_store_def on_store_def split: prod.split dest: keepsE)
  then have "I (sw_state (persist_gateway_surface F e W))" if "I (sw_state W)" for F W
    using that by (auto simp: persist_gateway_surface_def Let_def intro!: stored surface
        split: gateway_event.split surface_event.split)
  then show ?thesis using assms by (simp add: keep_surface_def)
qed

lemma kept_plan:
  assumes "I (life_state w)"
  shows "I (life_state (reconcile_plan E c w))"
proof -
  have "I (life_state (snd (on_life (repo_complete_session_plan (life_store E) (ce_session_id c) (ce_execution_id c)) w)))"
    using assms keepsD [OF plan] by (simp add: on_life_eq)
  then show ?thesis by (auto simp: reconcile_plan_def Let_def kept_surface split: prod.split sum.split option.split)
qed

end

lemma beside_plan [simp]: "registry_of (reconcile_plan E c w) = registry_of w"
  by (simp add: reconcile_plan_def keep_surface_def Let_def on_life_eq split: sum.split option.split)

section \<open>The end of a child\<close>

lemma find_mapped: "map_option k (find (\<lambda>r. P (k r)) rows) = find P (map k rows)"
  by (induction rows) auto

lemma same_keys:
  assumes "store_view s db = store_view s t" and "find_execution_row x t = Some e"
  shows "\<exists>e'. find_execution_row x db = Some e' \<and> xr_delegation e' = xr_delegation e"
proof -
  have "map_option execution_key (find (\<lambda>r. fst (execution_key r) = x) (executions_t db)) =
    map_option execution_key (find (\<lambda>r. fst (execution_key r) = x) (executions_t t))"
    using assms(1) unfolding store_view_def find_mapped [where P = "\<lambda>key. fst key = x" and k = execution_key] by simp
  with assms(2) show ?thesis by (auto simp: find_execution_row_def execution_key_def)
qed

lemma view_rows: "map execution_key es = map execution_key (executions_t db) \<Longrightarrow>
  store_view s (db\<lparr>executions_t := es\<rparr>) = store_view s db"
  by (simp add: store_view_def session_ids_def books_of_def find_session_row_def)

lemma ended:
  assumes "script db = []" and "find_execution_row x db = Some e"
  shows "settled s x ''completed'' (minted db) (store_view s db) (snd (complete_execution E x db))"
    and "settled s x ''crashed'' (minted db) (store_view s db) (snd (crash_execution E x err db))"
  using assms by (simp_all add: settled_def complete_execution_def crash_execution_def repo_update_execution_status_def
      repo_set_execution_error_def unit_op_def set_execution_def bnd_def ret_apply op_simps view_rows ids_kept
      execution_key_def status_in_def find_execution_row_def find_execution_set live_text_def)

lemma child_asks_nothing:
  assumes "script (life_state w) = []" and "store_view s (life_state w) = store_view s db"
    and "find_execution_row (ce_execution_id c) db = Some e" and "xr_delegation e \<in> {''sequential'', ''parallel''}"
  shows "continue_after_delegations E c w = w"
proof -
  from same_keys [OF assms(2,3)] obtain e' where
    e: "find_execution_row (ce_execution_id c) (life_state w) = Some e'" "xr_delegation e' = xr_delegation e" by auto
  then have "\<not> execution_is_root (row_to_execution C e')" for C
    using assms(4) delegation_round [of Sequential] delegation_round [of Parallel]
    by (auto simp: execution_is_root_def row_to_execution_def)
  with e(1) assms(1) show ?thesis
    by (simp add: continue_after_delegations_def on_life_eq repo_get_execution_def op_simps)
qed

lemma child_answers_nobody [simp]:
  "dispatch_response (child_complete_ctx c response) w = w" "push_response E (child_complete_ctx c response) w = w"
  by (simp_all add: dispatch_response_def push_response_def child_complete_ctx_def)

lemma child_completes:
  fixes w E c response
  defines "v \<equiv> lifecycle_complete_execution E (child_complete_ctx c response) w"
  assumes "script (life_state w) = []" and "find_execution_row (cn_execution_id c) (life_state w) = Some e"
    and "xr_delegation e \<in> {''sequential'', ''parallel''}"
  shows "settled s (cn_execution_id c) ''completed'' (minted (life_state w)) (store_view s (life_state w)) (life_state v)"
    and "registry_of v = registry_of w"
proof -
  let ?x = "cn_execution_id c" and ?c = "child_complete_ctx c response"
  let ?I = "settled s ?x ''completed'' (minted (life_state w)) (store_view s (life_state w))"
  define w1 where "w1 = try_life (repo_update_session_tokens (ce_session_id ?c))
    (try_life (complete_execution (life_store E) (ce_execution_id ?c)) w)"
  have ids: "ce_execution_id ?c = ?x" by (simp add: child_complete_ctx_def)
  have "?I (life_state (try_life (complete_execution (life_store E) ?x) w))"
    using ended(1) [OF assms(2,3)] by simp
  then have 1: "?I (life_state w1)" unfolding w1_def ids by (rule settled.kept [OF settled.tokens])
  then have asked: "continue_after_delegations E ?c w1 = w1"
    using assms(3,4) ids by (intro child_asks_nothing) (auto simp: settled_def)
  obtain r w2 where 2: "settle_completed E ?c w = (r, w2)" by fastforce
  then have w2: "w2 = try_life (try_complete_session (life_store E) (ce_session_id ?c)) w1"
    unfolding settle_completed_def w1_def [symmetric] asked by (simp add: try_life_def [of _ w1])
  have "?I (life_state w2)" unfolding w2 by (intro settled.kept settled.completing 1)
  then have 3: "?I (life_state (reconcile_plan E ?c w2))" "?I (life_state w2)"
    by (auto intro: settled.kept_plan)
  have "?I (life_state (try_life (log_session_end S i s' a l m) u))" if "?I (life_state u)" for S i s' a l m u
    using that by (intro settled.kept settled.entries)
  with 3 show "?I (life_state v)"
    by (auto simp: v_def lifecycle_complete_execution_def 2 Let_def simp del: life_state_of(3) split: sum.split bool.split)
  show "registry_of v = registry_of w"
    by (auto simp: v_def lifecycle_complete_execution_def 2 w2 w1_def Let_def split: sum.split bool.split)
qed

lemma child_crashes:
  fixes w E c err
  defines "v \<equiv> lifecycle_crash_execution E c w"
  assumes "script (life_state w) = []" and "find_execution_row (cr_execution_id c) (life_state w) = Some e"
    and "\<not> cr_crash_session c"
  shows "settled s (cr_execution_id c) ''crashed'' (minted (life_state w)) (store_view s (life_state w)) (life_state v)"
    and "registry_of v = registry_of w"
proof -
  let ?I = "settled s (cr_execution_id c) ''crashed'' (minted (life_state w)) (store_view s (life_state w))"
  have "?I (life_state (try_life (crash_execution T (cr_execution_id c) er) w))" for T er
    using ended(2) [OF assms(2,3)] by simp
  then have "?I (life_state (try_life (log_session_end S i s' a l m) (try_life (repo_update_session_tokens j)
      (try_life (crash_execution T (cr_execution_id c) er) w))))" for S i s' a l m T j er
    by (intro settled.kept [OF settled.entries(1)] settled.kept [OF settled.tokens])
  with assms(4) show "?I (life_state v)"
    by (simp add: v_def lifecycle_crash_execution_def Let_def del: life_state_of(3))
  show "registry_of v = registry_of w" using assms(4) by (simp add: v_def lifecycle_crash_execution_def Let_def)
qed

text \<open>The row a callback appends\<close>

definition callback_row :: "string \<Rightarrow> string \<Rightarrow> string \<Rightarrow> message_row \<Rightarrow> bool" where
  "callback_row s px body r \<longleftrightarrow> said r = (Some s, Some px, ''system'', body, None, None)"

definition fresh_messages :: "state_env \<Rightarrow> nat \<Rightarrow> message_row list \<Rightarrow> bool" where
  "fresh_messages E k ms \<longleftrightarrow> (\<forall>n \<ge> k. ''msg-'' @ fresh_uuid E n \<notin> set (map mr_id ms))"

lemma callback_sent:
  assumes I: "settled s x st k (S, K, M, B) (life_state w)" and "s \<in> set S" and "px \<in> fst ` set K"
    and "fresh_messages (life_store E) k M"
  shows "\<exists>r u. send_callback_to_parent E s px body w = (True, u) \<and> callback_row s px body r \<and>
    settled s x st k (S, K, M @ [r], B) (life_state u) \<and> registry_of u = registry_of w \<and>
    lw_published u = lw_published w @ [EvProgress (EvMessageAdded s px ''system'' body (Some px))]"
proof -
  define db where "db = life_state w"
  let ?S = "life_store E" and ?d = "db\<lparr>minted := Suc (minted db), ticks := Suc (ticks db)\<rparr>"
  define v where "v = \<lparr>vm_id = ''msg-'' @ fresh_uuid ?S (minted db), vm_execution_id = Some px, vm_session_id = s,
    vm_role = ''system'', vm_content = body, vm_created_at = now_text ?S (ticks db),
    vm_token_count = int (length body) div 4, vm_tool_calls = None, vm_tool_call_id = None, vm_seq = 0\<rparr>"
  define r where "r = row_of_conv_message ?d v"
  have view: "session_ids db = S" "map execution_key (executions_t db) = K" "messages_t db = M" "books_of s db = B"
    "script db = []" "k \<le> minted db" using I by (auto simp: settled_def store_view_def db_def)
  then have "execution_ids db = map fst K" by (auto simp: execution_ids_def execution_key_def)
  with view assms(2-4) have "message_insertable v ?d"
    by (auto simp: v_def message_insertable_def fresh_messages_def session_ids_def execution_ids_def)
  with view(5) have sent: "message_append v ?d = (Inr (), ?d\<lparr>messages_t := M @ [r]\<rparr>)"
    by (simp add: message_append_def unit_op_def op_simps view(3) r_def)
  have "settled s x st k (S, K, M @ [r], B) (?d\<lparr>messages_t := M @ [r]\<rparr>)"
    using I view by (simp add: settled_def store_view_def db_def [symmetric] session_ids_def books_of_def find_session_row_def)
  moreover have "callback_row s px body r"
    by (simp add: r_def v_def callback_row_def said_def row_of_conv_message_def)
  moreover have "send_callback_to_parent E s px body w =
      (True, publish (EvProgress (EvMessageAdded s px ''system'' body (Some px)))
        (set_life_state (?d\<lparr>messages_t := M @ [r]\<rparr>) (set_life_state ?d w)))"
    unfolding send_callback_to_parent_def Let_def db_def [symmetric] v_def [symmetric] on_life_eq life_state_of(1) sent by simp
  ultimately show ?thesis by (intro exI [of _ r]) simp
qed

lemma delegation_counts:
  assumes "script db = []" and "books_of s db = Some b"
  shows "snd (complete_delegation E s db) =
    update_sessions (\<lambda>r. sr_id r = s) (\<lambda>r. r\<lparr>sr_pending := max 0 (sr_pending r - 1)\<rparr>) db"
proof -
  from assms(2) obtain r where "find_session_row s db = Some r" by (auto simp: books_of_def)
  with assms(1) show ?thesis
    by (simp add: complete_delegation_def repo_decrement_pending_delegations_def set_session_def bnd_def ret_apply op_simps
        find_after_set repo_get_session_def)
qed

lemma root_row:
  assumes "find (\<lambda>(_, i, _, d). i = s \<and> d = ''root'') (map execution_key (executions_t db)) = Some (ri, rs, ra, rd)"
  shows "\<exists>r. find (\<lambda>r. xr_session_id r = s \<and> xr_delegation r = ''root'') (executions_t db) = Some r \<and>
    xr_id r = ri \<and> xr_agent_id r = ra"
proof -
  have "find (\<lambda>(_, i, _, d). i = s \<and> d = ''root'') (map execution_key (executions_t db)) =
    map_option execution_key (find (\<lambda>r. xr_session_id r = s \<and> xr_delegation r = ''root'') (executions_t db))"
    unfolding find_mapped [symmetric] by (simp add: execution_key_def)
  with assms show ?thesis
    by (cases "find (\<lambda>r. xr_session_id r = s \<and> xr_delegation r = ''root'') (executions_t db)")
      (auto simp: execution_key_def)
qed

lemma delegation_finished:
  assumes I: "settled s x st k (S, K, M, Some (p, c)) (life_state w)" and p: "0 \<le> p" "p < 2 ^ 32"
    and root: "find (\<lambda>(_, i, _, d). i = s \<and> d = ''root'') K = Some (ri, rs, ra, rd)"
  shows "settled s x st k (S, K, M, Some (max 0 (p - 1), c)) (life_state (finish_delegation E s w)) \<and>
    registry_of (finish_delegation E s w) = registry_of w \<and>
    lw_published (finish_delegation E s w) = lw_published w @
      (if p \<le> 1 \<and> c \<noteq> 0 then [EvDelegation (EvSessionContinuationReady s ra ri)] else [])"
proof -
  let ?f = "complete_delegation (life_store E) s"
  define db where "db = life_state w"
  define t where "t = snd (?f db)"
  have up: "script db = []" "books_of s db = Some (p, c)" using I by (auto simp: settled_def store_view_def db_def)
  have counted: "fst (?f db) = Inr (p \<le> 1 \<and> c \<noteq> 0)" "books_of s t = Some (max 0 (p - 1), c)" "script t = []"
    using complete_up [OF up p, of "life_store E"] by (simp_all add: t_def)
  have t: "t = update_sessions (\<lambda>r. sr_id r = s) (\<lambda>r. r\<lparr>sr_pending := max 0 (sr_pending r - 1)\<rparr>) db"
    unfolding t_def by (rule delegation_counts [OF up])
  have J: "settled s x st k (S, K, M, Some (max 0 (p - 1), c)) t"
    using I counted(2,3) by (simp add: settled_def store_view_def t db_def [symmetric] session_ids_def ids_kept)
  then have "find (\<lambda>(_, i, _, d). i = s \<and> d = ''root'') (map execution_key (executions_t t)) = Some (ri, rs, ra, rd)"
    using root by (simp add: settled_def store_view_def)
  from root_row [OF this] obtain r where
    r: "find (\<lambda>r. xr_session_id r = s \<and> xr_delegation r = ''root'') (executions_t t) = Some r"
      "xr_id r = ri" "xr_agent_id r = ra" by blast
  then have got: "repo_get_root_execution F s t = (Inr (Some (row_to_execution (env_codec F) r)), t)" for F
    using counted(3) by (simp add: repo_get_root_execution_def op_simps)
  have told: "announce_continuation E s (set_life_state t w) =
      publish (EvDelegation (EvSessionContinuationReady s ra ri)) (set_life_state t (set_life_state t w))"
    unfolding announce_continuation_def on_life_eq life_state_of(1) got using r by (simp add: row_to_execution_def)
  define more where "more \<longleftrightarrow> p \<le> 1 \<and> c \<noteq> 0"
  have "finish_delegation E s w = (if more
      then announce_continuation E s (set_life_state t w) else set_life_state t w)"
    unfolding finish_delegation_def on_life_eq db_def [symmetric] t_def [symmetric] counted(1) more_def [symmetric]
    by (simp split: bool.split)
  with told J show ?thesis unfolding more_def [symmetric] by simp
qed

section \<open>What a child leaves behind\<close>

text \<open>The store is up, the child is there, and so are its session, the root and the parent.\<close>

definition child_ready :: "life_env \<Rightarrow> child_run \<Rightarrow> life_world \<Rightarrow> bool" where
  "child_ready E c w \<longleftrightarrow>
     (let db = life_state w in
      script db = [] \<and> fresh_messages (life_store E) (minted db) (messages_t db) \<and>
      cn_session_id c \<in> set (session_ids db) \<and> cn_parent_execution_id c \<in> set (execution_ids db) \<and>
      (case find_execution_row (cn_execution_id c) db of
         None \<Rightarrow> False | Some e \<Rightarrow> xr_delegation e \<in> {''sequential'', ''parallel''}))"

definition root_of :: "string \<Rightarrow> statedb \<Rightarrow> (string \<times> string) option" where
  "root_of s db = map_option (\<lambda>r. (xr_agent_id r, xr_id r))
     (find (\<lambda>r. xr_session_id r = s \<and> xr_delegation r = ''root'') (executions_t db))"

text \<open>How a child came out, and what its parent is told\<close>

definition final_status :: "child_outcome \<Rightarrow> string" where
  "final_status out = (case out of ChildFailed _ \<Rightarrow> ''crashed'' | _ \<Rightarrow> ''completed'')"

definition report_of :: "life_env \<Rightarrow> child_run \<Rightarrow> string \<Rightarrow> child_outcome \<Rightarrow> life_world \<Rightarrow> string" where
  "report_of E c child_session out w =
     (case out of
        ChildOk response \<Rightarrow>
          (case delegation_get (cn_execution_id c) (registry_of w) of
             None \<Rightarrow> []
           | Some d \<Rightarrow> format_callback_message (le_callback E) (cn_agent_id c)
               (validate_delegation_response (le_callback E) response (dx_output_schema d)) (cn_conv_id c) (dx_output_schema d))
      | ChildStopped \<Rightarrow> []
      | ChildFailed err \<Rightarrow> format_error_callback_message (le_callback E) (cn_agent_id c)
          (fst (build_crash_report E c child_session err w)) (cn_conv_id c))"

definition reports_back :: "child_run \<Rightarrow> child_outcome \<Rightarrow> life_world \<Rightarrow> bool" where
  "reports_back c out w =
     (case out of
        ChildOk _ \<Rightarrow> (case delegation_get (cn_execution_id c) (registry_of w) of None \<Rightarrow> False | Some d \<Rightarrow> dx_callback_on_complete d)
      | ChildStopped \<Rightarrow> False
      | ChildFailed _ \<Rightarrow> True)"

lemma reading_a_report:
  "script (life_state w) = [] \<Longrightarrow> build_crash_report E c cs err w = (fst (build_crash_report E c cs err w), w)"
  by (simp add: build_crash_report_def on_life_eq message_replay_def repo_get_session_def op_simps Let_def)

text \<open>What the callback, the count of delegations and the registry make of a settled child\<close>

definition told_parent :: "child_run \<Rightarrow> string \<Rightarrow> int \<times> int \<Rightarrow> string \<times> string \<Rightarrow> gateway_event list" where
  "told_parent c body b root =
     EvProgress (EvMessageAdded (cn_session_id c) (cn_parent_execution_id c) ''system'' body (Some (cn_parent_execution_id c))) #
     (if fst b \<le> 1 \<and> snd b \<noteq> 0
      then [EvDelegation (EvSessionContinuationReady (cn_session_id c) (fst root) (snd root))] else [])"

definition left_behind :: "child_run \<Rightarrow> string \<Rightarrow> string \<Rightarrow> int \<times> int \<Rightarrow> string \<times> string \<Rightarrow> message_row list \<Rightarrow> life_world \<Rightarrow> bool" where
  "left_behind c st body b root M v \<longleftrightarrow>
     status_in (cn_execution_id c) (life_state v) = Some st \<and>
     books_of (cn_session_id c) (life_state v) = Some (max 0 (fst b - 1), snd b) \<and>
     (\<exists>r. messages_t (life_state v) = M @ [r] \<and>
        callback_row (cn_session_id c) (cn_parent_execution_id c) body r) \<and>
     (\<exists>es. lw_published v = es @ told_parent c body b root)"

definition report_and_count :: "life_env \<Rightarrow> child_run \<Rightarrow> string \<Rightarrow> life_world \<Rightarrow> life_world" where
  "report_and_count E c body w = finish_delegation E (cn_session_id c)
     (snd (send_callback_to_parent E (cn_session_id c) (cn_parent_execution_id c) body w))"

lemma told_and_counted:
  assumes I: "settled (cn_session_id c) (cn_execution_id c) st k (S, K, M, Some b) (life_state w)"
    and K: "cn_session_id c \<in> set S" "cn_parent_execution_id c \<in> fst ` set K" "fresh_messages (life_store E) k M"
    and b: "0 \<le> fst b" "fst b < 2 ^ 32"
    and root: "find (\<lambda>(_, i, _, d). i = cn_session_id c \<and> d = ''root'') K = Some (snd root, rs, fst root, rd)"
  shows "left_behind c st body b root M (report_and_count E c body w) \<and>
    registry_of (report_and_count E c body w) = registry_of w \<and>
    (\<exists>T. settled (cn_session_id c) (cn_execution_id c) st k T (life_state (report_and_count E c body w)))"
proof -
  from callback_sent [OF I K, of body] obtain r v where
    v: "send_callback_to_parent E (cn_session_id c) (cn_parent_execution_id c) body w = (True, v)"
      "callback_row (cn_session_id c) (cn_parent_execution_id c) body r"
      "settled (cn_session_id c) (cn_execution_id c) st k (S, K, M @ [r], Some (fst b, snd b)) (life_state v)"
      "registry_of v = registry_of w"
      "lw_published v = lw_published w @ [EvProgress (EvMessageAdded (cn_session_id c) (cn_parent_execution_id c)
         ''system'' body (Some (cn_parent_execution_id c)))]" by auto
  from delegation_finished [OF v(3) b root, of E] v show ?thesis
    unfolding report_and_count_def left_behind_def told_parent_def settled_def store_view_def by simp
qed

lemma left_behind_rest:
  assumes "left_behind c st body b root M w"
    and "settled (cn_session_id c) (cn_execution_id c) st k T (life_state w)"
    and "settled (cn_session_id c) (cn_execution_id c) st k T (life_state v)"
    and "lw_published v = lw_published w"
  shows "left_behind c st body b root M v"
  using assms by (auto simp: left_behind_def settled_def store_view_def)

lemma handing_off:
  assumes "settled s x st k T (life_state w)"
  shows "settled s x st k T (life_state (hand_off E c response w))" "registry_of (hand_off E c response w) = registry_of w"
    "lw_published (hand_off E c response w) = lw_published w"
  using assms keepsD [OF settled.reads(5), of s x st k T "life_state w" "cn_session_id c"]
  by (simp_all add: hand_off_def on_life_eq Let_def)

lemma child_row:
  assumes "child_ready E c w"
  obtains e where "script (life_state w) = []" and "find_execution_row (cn_execution_id c) (life_state w) = Some e"
    and "xr_delegation e \<in> {''sequential'', ''parallel''}"
    and "cn_session_id c \<in> set (session_ids (life_state w))"
    and "cn_parent_execution_id c \<in> fst ` set (map execution_key (executions_t (life_state w)))"
    and "fresh_messages (life_store E) (minted (life_state w)) (messages_t (life_state w))"
proof -
  from assms obtain e where "find_execution_row (cn_execution_id c) (life_state w) = Some e"
    by (auto simp: child_ready_def Let_def split: option.splits)
  moreover have "set (execution_ids db) = fst ` set (map execution_key (executions_t db))" for db
    by (simp add: execution_ids_def execution_key_def image_image)
  ultimately show ?thesis using assms by (intro that) (auto simp: child_ready_def Let_def)
qed

lemma root_key:
  assumes "root_of s db = Some root"
  obtains rs rd where "find (\<lambda>(_, i, _, d). i = s \<and> d = ''root'') (map execution_key (executions_t db)) =
    Some (snd root, rs, fst root, rd)"
proof -
  from assms obtain r where r: "find (\<lambda>r. xr_session_id r = s \<and> xr_delegation r = ''root'') (executions_t db) = Some r"
    "root = (xr_agent_id r, xr_id r)" by (auto simp: root_of_def)
  then have "find (\<lambda>(_, i, _, d). i = s \<and> d = ''root'') (map execution_key (executions_t db)) = Some (execution_key r)"
    unfolding find_mapped [symmetric] by (simp add: execution_key_def)
  with r(2) that show ?thesis by (simp add: execution_key_def)
qed

text \<open>The world when the run of a child has been settled, its parent told and its delegation counted\<close>

definition after_report :: "life_env \<Rightarrow> child_run \<Rightarrow> string \<Rightarrow> child_outcome \<Rightarrow> life_world \<Rightarrow> life_world" where
  "after_report E c cs out w =
     report_and_count E c (report_of E c cs out w)
       (case out of
          ChildFailed err \<Rightarrow> lifecycle_crash_execution E
            \<lparr>cr_execution_id = cn_execution_id c, cr_session_id = cn_session_id c, cr_agent_id = cn_agent_id c,
             cr_conversation_id = cn_conv_id c, cr_error = fst (build_crash_report E c cs err w), cr_crash_session = False\<rparr>
            (in_control (bus_reject (cn_execution_id c) (WaitCrashed (fst (build_crash_report E c cs err w)))) w)
        | ChildOk response \<Rightarrow>
            emit_delegation_completed (cn_parent_agent_id c) (cn_session_id c) (cn_agent_id c) (cn_execution_id c)
              (map_option dx_parent_conversation_id (delegation_get (cn_execution_id c) (registry_of w)))
              (Some (cn_conv_id c)) (Some response)
              (lifecycle_complete_execution E (child_complete_ctx c response)
                (in_control (bus_resolve (cn_execution_id c) (cn_agent_id c) response) w))
        | ChildStopped \<Rightarrow> w)"

lemma after_report_settled:
  assumes ready: "child_ready E c w" and out: "reports_back c out w"
    and b: "books_of (cn_session_id c) (life_state w) = Some b" "0 \<le> fst b" "fst b < 2 ^ 32"
    and root: "root_of (cn_session_id c) (life_state w) = Some root"
  shows "left_behind c (final_status out) (report_of E c cs out w) b root (messages_t (life_state w)) (after_report E c cs out w) \<and>
    registry_of (after_report E c cs out w) = registry_of w \<and>
    (\<exists>T. settled (cn_session_id c) (cn_execution_id c) (final_status out) (minted (life_state w)) T
      (life_state (after_report E c cs out w)))"
proof -
  from child_row [OF ready] obtain e where e: "script (life_state w) = []"
    "find_execution_row (cn_execution_id c) (life_state w) = Some e" "xr_delegation e \<in> {''sequential'', ''parallel''}"
    and K: "cn_session_id c \<in> set (session_ids (life_state w))"
      "cn_parent_execution_id c \<in> fst ` set (map execution_key (executions_t (life_state w)))"
      "fresh_messages (life_store E) (minted (life_state w)) (messages_t (life_state w))" .
  from root_key [OF root] obtain rs rd where
    r: "find (\<lambda>(_, i, _, d). i = cn_session_id c \<and> d = ''root'') (map execution_key (executions_t (life_state w))) =
      Some (snd root, rs, fst root, rd)" .
  have view: "store_view (cn_session_id c) (life_state w) = (session_ids (life_state w),
      map execution_key (executions_t (life_state w)), messages_t (life_state w), Some b)"
    by (simp add: store_view_def b(1))
  note told = told_and_counted [OF _ K b(2,3) r]
  show ?thesis
  proof (cases out)
    case (ChildOk response)
    let ?w = "in_control (bus_resolve (cn_execution_id c) (cn_agent_id c) response) w"
    have same: "life_state ?w = life_state w" "registry_of ?w = registry_of w" by (simp_all add: life_state_def)
    have "settled (cn_session_id c) (cn_execution_id c) ''completed'' (minted (life_state w)) (session_ids (life_state w),
        map execution_key (executions_t (life_state w)), messages_t (life_state w), Some b)
        (life_state (lifecycle_complete_execution E (child_complete_ctx c response) ?w))"
      and "registry_of (lifecycle_complete_execution E (child_complete_ctx c response) ?w) = registry_of w"
      using child_completes(1) [where w = ?w and c = c and e = e and E = E and response = response and s = "cn_session_id c"]
        child_completes(2) [where w = ?w and c = c and e = e and E = E and response = response] e unfolding same view by auto
    then show ?thesis
      using told by (simp add: ChildOk after_report_def final_status_def emit_delegation_completed_def)
  next
    case (ChildFailed err)
    let ?r = "fst (build_crash_report E c cs err w)"
    let ?w = "in_control (bus_reject (cn_execution_id c) (WaitCrashed ?r)) w"
    let ?c = "\<lparr>cr_execution_id = cn_execution_id c, cr_session_id = cn_session_id c, cr_agent_id = cn_agent_id c,
      cr_conversation_id = cn_conv_id c, cr_error = ?r, cr_crash_session = False\<rparr>"
    have same: "life_state ?w = life_state w" "registry_of ?w = registry_of w" by (simp_all add: life_state_def)
    have "settled (cn_session_id c) (cn_execution_id c) ''crashed'' (minted (life_state w)) (session_ids (life_state w),
        map execution_key (executions_t (life_state w)), messages_t (life_state w), Some b)
        (life_state (lifecycle_crash_execution E ?c ?w))"
      and "registry_of (lifecycle_crash_execution E ?c ?w) = registry_of w"
      using child_crashes(1) [where w = ?w and c = ?c and e = e and E = E and s = "cn_session_id c"]
        child_crashes(2) [where w = ?w and c = ?c and e = e and E = E] e unfolding same view by auto
    then show ?thesis
      using told by (simp add: ChildFailed after_report_def final_status_def)
  qed (use out in \<open>simp add: reports_back_def\<close>)
qed

text \<open>
  C35: with the store up, a child that ends, well or with an error, settles everything its parent waits for:
  its execution is completed or crashed, the session has one delegation less pending, the log of messages has
  grown by exactly the callback addressed to the execution of the parent, it is forgotten by the registry,
  and the last things published are that callback and, when it was the last child pending of a session that
  waits for a continuation, the word that the root can go on, in that order.
\<close>

theorem a_child_that_ends_is_settled_and_reported:
  assumes "child_ready E c w" and "reports_back c out w"
    and "books_of (cn_session_id c) (life_state w) = Some b" and "0 \<le> fst b" and "fst b < 2 ^ 32"
    and "root_of (cn_session_id c) (life_state w) = Some root"
  shows "left_behind c (final_status out) (report_of E c cs out w) b root (messages_t (life_state w)) (finish_child E c cs out w) \<and>
    delegation_get (cn_execution_id c) (registry_of (finish_child E c cs out w)) = None"
proof -
  let ?x = "cn_execution_id c" and ?s = "cn_session_id c"
  from after_report_settled [OF assms, of cs] obtain T where
    left: "left_behind c (final_status out) (report_of E c cs out w) b root (messages_t (life_state w)) (after_report E c cs out w)"
    and I: "settled ?s ?x (final_status out) (minted (life_state w)) T (life_state (after_report E c cs out w))" by blast
  obtain u where u: "finish_child E c cs out w =
      try_life (complete_session (life_store E) cs) (in_registry (delegation_remove ?x) u)"
    and J: "settled ?s ?x (final_status out) (minted (life_state w)) T (life_state u)"
    and same: "lw_published u = lw_published (after_report E c cs out w)"
  proof (cases out)
    case (ChildOk response)
    with assms(2) obtain d where d: "delegation_get ?x (registry_of w) = Some d" "dx_callback_on_complete d"
      by (auto simp: reports_back_def split: option.splits)
    from child_row [OF assms(1)] obtain e where e: "script (life_state w) = []"
      "find_execution_row ?x (life_state w) = Some e" "xr_delegation e \<in> {''sequential'', ''parallel''}" by blast
    let ?w = "in_control (bus_resolve ?x (cn_agent_id c) response) w"
    have state: "life_state ?w = life_state w" by (simp add: life_state_def)
    have kept: "registry_of (lifecycle_complete_execution E (child_complete_ctx c response) ?w) = registry_of w"
      using child_completes(2) [where w = ?w and c = c and e = e and E = E and response = response] e unfolding state by simp
    show ?thesis
      by (rule that [of "hand_off E c response (after_report E c cs out w)"])
        (use handing_off [OF I] d in \<open>simp_all add: ChildOk finish_child_def handle_execution_success_def Let_def kept
          handle_delegation_success_def after_report_def report_and_count_def report_of_def\<close>)
  next
    case (ChildFailed err)
    from child_row [OF assms(1)] have "script (life_state w) = []" by blast
    from reading_a_report [OF this] obtain report where r: "build_crash_report E c cs err w = (report, w)" by blast
    show ?thesis
      by (rule that [of "after_report E c cs out w"])
        (use I r in \<open>simp_all add: ChildFailed finish_child_def handle_execution_failure_def Let_def
          handle_delegation_failure_def after_report_def report_and_count_def report_of_def\<close>)
  qed (use assms(2) in \<open>simp add: reports_back_def\<close>)
  have "settled ?s ?x (final_status out) (minted (life_state w)) T (life_state (finish_child E c cs out w))"
    unfolding u by (intro settled.kept settled.completing) (simp add: J)
  moreover have "map_of (delegation_remove ?x reg) ?x = None" for reg
    by (auto simp: delegation_remove_def map_of_eq_None_iff)
  ultimately show ?thesis using left_behind_rest [OF left I] by (simp add: u same delegation_get_def)
qed

section \<open>An instance\<close>

text \<open>A root that waits for its only child, and the child.\<close>

definition sample_waiting_db :: statedb where
  "sample_waiting_db = sample_db\<lparr>sessions_t := [(sample_session ''s'' None)\<lparr>sr_pending := 1\<rparr>],
     executions_t := [sample_execution ''r'' ''s'', (sample_execution ''x'' ''s'')\<lparr>xr_delegation := ''sequential'', xr_parent := Some ''r''\<rparr>]\<rparr>"

definition sample_child :: child_run where
  "sample_child = \<lparr>cn_execution_id = ''x'', cn_session_id = ''s'', cn_agent_id = ''writer'', cn_conv_id = ''s-sub-0'',
     cn_parent_agent_id = ''root'', cn_parent_execution_id = ''r'', cn_parent_conversation_id = ''web''\<rparr>"

definition sample_life_env :: life_env where
  "sample_life_env = \<lparr>le_stream = sample_stream_env, le_bridge = sample_bridge, le_callback = sample_callback,
     le_agent_exists = (\<lambda>_. True), le_is_ward_dir = (\<lambda>_. False), le_builds = (\<lambda>_. None), le_engine = (\<lambda>_. None),
     le_ward_files = (\<lambda>_. None), le_facts = True\<rparr>"

definition sample_life :: life_world where
  "sample_life =
     \<lparr>lw_control = \<lparr>cw_state = sample_waiting_db, cw_flags = [], cw_handles = [],
        cw_registry = [(''x'', delegation_context_new ''s'' ''r'' ''root'' ''web'')], cw_execution_handles = [],
        cw_waiters = [(''x'', 0)], cw_answers = []\<rparr>,
      lw_bridge = \<lparr>bw_state = sample_waiting_db, bw_workers = [], bw_conns = [], bw_submitted = []\<rparr>,
      lw_persist_surfaces = True, lw_published = [], lw_dispatched = [], lw_handoffs = []\<rparr>"

lemma sample_life_state [simp]: "life_state sample_life = sample_waiting_db" "registry_of sample_life =
  [(''x'', delegation_context_new ''s'' ''r'' ''root'' ''web'')]"
  by (simp_all add: life_state_def sample_life_def)

lemma sample_child_fields [simp]:
  "cn_execution_id sample_child = ''x''" "cn_session_id sample_child = ''s''" "cn_parent_execution_id sample_child = ''r''"
  by (simp_all add: sample_child_def)

lemma a_child_that_ends_is_settled_and_reported_witness:
  "(let v = finish_child sample_life_env sample_child ''c'' (ChildOk ''done'') sample_life in
     status_in ''x'' (life_state v) = Some ''completed'' \<and> books_of ''s'' (life_state v) = Some (0, 1) \<and>
     map mr_role (messages_t (life_state v)) = [''system''] \<and>
     last (lw_published v) = EvDelegation (EvSessionContinuationReady ''s'' ''root'' ''r''))"
proof -
  have "child_ready sample_life_env sample_child sample_life"
    by (simp add: child_ready_def sample_waiting_db_def fresh_messages_def session_ids_def execution_ids_def
        find_execution_row_def)
  moreover have "reports_back sample_child (ChildOk ''done'') sample_life"
    by (simp add: reports_back_def delegation_get_def delegation_context_new_def)
  moreover have "books_of (cn_session_id sample_child) (life_state sample_life) = Some (1, 1)"
    by (simp add: books_of_def find_session_row_def sample_waiting_db_def sample_session_def)
  moreover have "root_of (cn_session_id sample_child) (life_state sample_life) = Some (''root'', ''r'')"
    by (simp add: root_of_def sample_waiting_db_def sample_execution_def)
  ultimately have "left_behind sample_child (final_status (ChildOk ''done''))
      (report_of sample_life_env sample_child ''c'' (ChildOk ''done'') sample_life) (1, 1) (''root'', ''r'')
      (messages_t (life_state sample_life)) (finish_child sample_life_env sample_child ''c'' (ChildOk ''done'') sample_life)"
    using a_child_that_ends_is_settled_and_reported [of sample_life_env sample_child sample_life "ChildOk ''done''" "(1, 1)"
      "(''root'', ''r'')" "''c''"] by simp
  then show ?thesis
    by (auto simp: left_behind_def told_parent_def final_status_def callback_row_def said_def Let_def sample_waiting_db_def)
qed

end
