(* ===== verification/Delegation_Queue.thy ===== *)
theory Delegation_Queue
  imports Stream_Processor "HOL-Library.AList" "HOL-Library.Multiset"
begin

text \<open>
  The dispatcher of delegations (\<open>gateway/gateway-execution/src/runner/delegation_dispatcher.rs\<close> and
  \<open>spawn_delegation\<close> of \<open>runner/exec_ctx.rs\<close>): one loop over the channel of requests and the channel of
  completions, a task for each request that is handed over, and the semaphore and the locks of wards
  these tasks wait for. Each access to what is shared is an event, so a list of events is one
  interleaving.
\<close>

section \<open>The loop\<close>

text \<open>
  A request that is handed over is a task: it waits for a permit, then, for a ward agent, for the lock
  of the ward, and is then being set up. From the set-up the child is started as a task of its own,
  which takes the permit with it, and the task goes on to give up the lock and report its session as done.
\<close>

record dispatcher =
  dq_active :: "string set"
  dq_queued :: "(string \<times> delegation_request list) list"
  dq_rx_open :: bool
  dq_exited :: bool
  dq_done :: "string list"
  dq_permits :: nat
  dq_ward_locks :: "string list"
  dq_waiting :: "delegation_request list"
  dq_locking :: "delegation_request list"
  dq_spawning :: "delegation_request list"
  dq_notifying :: "delegation_request list"
  dq_running :: "delegation_request list"
  dq_spawned :: "delegation_request list"

datatype dispatch_event =
  DqReceived delegation_request
| DqClosed
| DqCompleted
| DqPermit delegation_request
| DqLocked delegation_request
| DqStarted delegation_request
| DqRefused delegation_request
| DqNotified delegation_request
| DqEnded delegation_request

definition dispatcher_new :: "nat \<Rightarrow> dispatcher" where
  "dispatcher_new cap =
     \<lparr>dq_active = {}, dq_queued = [], dq_rx_open = True, dq_exited = False, dq_done = [], dq_permits = cap,
      dq_ward_locks = [], dq_waiting = [], dq_locking = [], dq_spawning = [], dq_notifying = [], dq_running = [],
      dq_spawned = []\<rparr>"

definition spawn_with_notification :: "delegation_request \<Rightarrow> dispatcher \<Rightarrow> dispatcher" where
  "spawn_with_notification r d = d\<lparr>dq_waiting := dq_waiting d @ [r], dq_spawned := dq_spawned d @ [r]\<rparr>"

definition queue_of :: "string \<Rightarrow> dispatcher \<Rightarrow> delegation_request list" where
  "queue_of s d = (case map_of (dq_queued d) s of None \<Rightarrow> [] | Some q \<Rightarrow> q)"

definition on_request :: "delegation_request \<Rightarrow> dispatcher \<Rightarrow> dispatcher" where
  "on_request r d =
     (let s = dr_session_id r in
      if dr_parallel r then spawn_with_notification r d
      else if s \<in> dq_active d then d\<lparr>dq_queued := AList.update s (queue_of s d @ [r]) (dq_queued d)\<rparr>
      else spawn_with_notification r (d\<lparr>dq_active := insert s (dq_active d)\<rparr>))"

definition on_closed :: "dispatcher \<Rightarrow> dispatcher" where
  "on_closed d = d\<lparr>dq_rx_open := False, dq_exited := dq_active d = {} \<and> dq_queued d = []\<rparr>"

definition set_queue :: "string \<Rightarrow> delegation_request list \<Rightarrow> dispatcher \<Rightarrow> dispatcher" where
  "set_queue s q d = d\<lparr>dq_queued := (if q = [] then AList.delete s (dq_queued d) else AList.update s q (dq_queued d))\<rparr>"

definition on_done :: "string \<Rightarrow> dispatcher \<Rightarrow> dispatcher" where
  "on_done s d =
     (let c = d\<lparr>dq_active := dq_active d - {s}\<rparr>;
          e = (case map_of (dq_queued c) s of
              None \<Rightarrow> c
            | Some [] \<Rightarrow> set_queue s [] c
            | Some (r # q) \<Rightarrow> set_queue s q (spawn_with_notification r (c\<lparr>dq_active := insert s (dq_active c)\<rparr>)))
      in e\<lparr>dq_exited := \<not> dq_rx_open e \<and> dq_active e = {} \<and> dq_queued e = []\<rparr>)"

section \<open>The tasks\<close>

definition ward_name :: "delegation_request \<Rightarrow> string option" where
  "ward_name r = strip_prefix ''ward:'' (dr_child_agent_id r)"

definition ward_free :: "delegation_request \<Rightarrow> dispatcher \<Rightarrow> bool" where
  "ward_free r d = (case ward_name r of None \<Rightarrow> True | Some w \<Rightarrow> w \<notin> set (dq_ward_locks d))"

text \<open>An event that cannot happen changes nothing.\<close>

fun dispatch_step :: "dispatch_event \<Rightarrow> dispatcher \<Rightarrow> dispatcher" where
  "dispatch_step (DqReceived r) d = (if dq_rx_open d \<and> \<not> dq_exited d then on_request r d else d)"
| "dispatch_step DqClosed d = (if dq_rx_open d \<and> \<not> dq_exited d then on_closed d else d)"
| "dispatch_step DqCompleted d =
     (case dq_done d of
        s # rest \<Rightarrow> if dq_exited d then d else on_done s (d\<lparr>dq_done := rest\<rparr>)
      | [] \<Rightarrow> d)"
| "dispatch_step (DqPermit r) d =
     (if r \<in> set (dq_waiting d) \<and> 0 < dq_permits d
      then d\<lparr>dq_waiting := remove1 r (dq_waiting d), dq_permits := dq_permits d - 1, dq_locking := dq_locking d @ [r]\<rparr>
      else d)"
| "dispatch_step (DqLocked r) d =
     (if r \<in> set (dq_locking d) \<and> ward_free r d
      then d\<lparr>dq_locking := remove1 r (dq_locking d), dq_spawning := dq_spawning d @ [r],
             dq_ward_locks := (case ward_name r of None \<Rightarrow> [] | Some w \<Rightarrow> [w]) @ dq_ward_locks d\<rparr>
      else d)"
| "dispatch_step (DqStarted r) d =
     (if r \<in> set (dq_spawning d)
      then d\<lparr>dq_spawning := remove1 r (dq_spawning d), dq_running := dq_running d @ [r],
             dq_notifying := dq_notifying d @ [r]\<rparr>
      else d)"
| "dispatch_step (DqRefused r) d =
     (if r \<in> set (dq_spawning d)
      then d\<lparr>dq_spawning := remove1 r (dq_spawning d), dq_permits := dq_permits d + 1,
             dq_notifying := dq_notifying d @ [r]\<rparr>
      else d)"
| "dispatch_step (DqNotified r) d =
     (if r \<in> set (dq_notifying d)
      then d\<lparr>dq_notifying := remove1 r (dq_notifying d), dq_done := dq_done d @ [dr_session_id r],
             dq_ward_locks := (case ward_name r of None \<Rightarrow> dq_ward_locks d | Some w \<Rightarrow> remove1 w (dq_ward_locks d))\<rparr>
      else d)"
| "dispatch_step (DqEnded r) d =
     (if r \<in> set (dq_running d) then d\<lparr>dq_running := remove1 r (dq_running d), dq_permits := dq_permits d + 1\<rparr> else d)"

definition dispatch_run :: "dispatch_event list \<Rightarrow> dispatcher \<Rightarrow> dispatcher" where
  "dispatch_run es d = fold dispatch_step es d"

text \<open>What the loop takes from its channel\<close>

fun accepted_requests :: "dispatch_event list \<Rightarrow> delegation_request list" where
  "accepted_requests [] = []"
| "accepted_requests (DqReceived r # es) = r # accepted_requests es"
| "accepted_requests (DqClosed # es) = []"
| "accepted_requests (_ # es) = accepted_requests es"

text \<open>The tasks that have not reported yet, the requests of a session that go one by one\<close>

definition in_flight :: "dispatcher \<Rightarrow> delegation_request list" where
  "in_flight d = dq_waiting d @ dq_locking d @ dq_spawning d @ dq_notifying d"

definition one_by_one :: "string \<Rightarrow> delegation_request list \<Rightarrow> delegation_request list" where
  "one_by_one s rs = filter (\<lambda>r. dr_session_id r = s \<and> \<not> dr_parallel r) rs"

section \<open>Nothing is lost\<close>

text \<open>
  The queues hold requests of their session that go one by one and are never empty; a session with a
  queue is active, and an active session has a task that is yet to report or a report yet to be read.
\<close>

definition owed :: "string \<Rightarrow> dispatcher \<Rightarrow> bool" where
  "owed s d \<longleftrightarrow> s \<in> dr_session_id ` set (in_flight d) \<or> s \<in> set (dq_done d)"

definition queues_ok :: "dispatcher \<Rightarrow> bool" where
  "queues_ok d \<longleftrightarrow>
     distinct (map fst (dq_queued d)) \<and>
     (\<forall>(s, q) \<in> set (dq_queued d). q \<noteq> [] \<and> s \<in> dq_active d \<and> (\<forall>r \<in> set q. dr_session_id r = s \<and> \<not> dr_parallel r)) \<and>
     (\<forall>s \<in> dq_active d. owed s d) \<and>
     (dq_exited d \<longrightarrow> dq_active d = {} \<and> \<not> dq_rx_open d)"

lemma owed_simps [simp]: "owed s (d\<lparr>dq_active := A\<rparr>) = owed s d" "owed s (d\<lparr>dq_queued := Q\<rparr>) = owed s d"
  "owed s (d\<lparr>dq_exited := b\<rparr>) = owed s d" "owed s (d\<lparr>dq_rx_open := b\<rparr>) = owed s d"
  "owed s (d\<lparr>dq_permits := n\<rparr>) = owed s d" "owed s (d\<lparr>dq_running := rs\<rparr>) = owed s d"
  "owed s (d\<lparr>dq_ward_locks := ws\<rparr>) = owed s d" "owed s (d\<lparr>dq_spawned := rs\<rparr>) = owed s d"
  by (simp_all add: owed_def in_flight_def)

lemma spawn_owed [simp]: "owed s (spawn_with_notification r d) \<longleftrightarrow> s = dr_session_id r \<or> owed s d"
  by (auto simp: owed_def in_flight_def spawn_with_notification_def)

lemma spawn_fields [simp]:
  "dq_active (spawn_with_notification r d) = dq_active d" "dq_queued (spawn_with_notification r d) = dq_queued d"
  "dq_rx_open (spawn_with_notification r d) = dq_rx_open d" "dq_exited (spawn_with_notification r d) = dq_exited d"
  "dq_done (spawn_with_notification r d) = dq_done d" "dq_spawned (spawn_with_notification r d) = dq_spawned d @ [r]"
  "dq_permits (spawn_with_notification r d) = dq_permits d" "dq_running (spawn_with_notification r d) = dq_running d"
  by (simp_all add: spawn_with_notification_def)

lemma queue_of_in: "r \<in> set (queue_of s d) \<Longrightarrow> \<exists>q. (s, q) \<in> set (dq_queued d) \<and> r \<in> set q"
  by (cases "map_of (dq_queued d) s") (auto simp: queue_of_def dest: map_of_SomeD)

lemma update_in: "(j, u) \<in> set (AList.update k v al) \<Longrightarrow> (j = k \<and> u = v) \<or> (j, u) \<in> set al"
  by (induction al) (auto split: if_splits)

lemma update_in_distinct:
  "distinct (map fst al) \<Longrightarrow> (j, u) \<in> set (AList.update k v al) \<Longrightarrow> (j = k \<and> u = v) \<or> (j \<noteq> k \<and> (j, u) \<in> set al)"
  by (metis distinct_update map_of_eq_Some_iff option.inject update_conv fun_upd_apply)

lemma delete_in: "(j, u) \<in> set (AList.delete k al) \<longleftrightarrow> j \<noteq> k \<and> (j, u) \<in> set al"
  by (induction al) auto

lemma request_ok:
  assumes "queues_ok d" and "\<not> dq_exited d"
  shows "queues_ok (on_request r d)"
proof -
  let ?s = "dr_session_id r"
  have q: "x \<in> set (queue_of ?s d) \<Longrightarrow> dr_session_id x = ?s \<and> \<not> dr_parallel x" for x
    using assms(1) queue_of_in [of x ?s d] by (fastforce simp: queues_ok_def)
  show ?thesis
    using assms q unfolding queues_ok_def on_request_def Let_def
    by (auto dest!: update_in_distinct [rotated] simp: distinct_update)
qed

lemma done_ok:
  assumes "queues_ok d" and "dq_done d = s # rest" and "\<not> dq_exited d"
  shows "queues_ok (on_done s (d\<lparr>dq_done := rest\<rparr>))"
proof -
  have owed: "t \<noteq> s \<Longrightarrow> owed t d \<Longrightarrow> owed t (d\<lparr>dq_done := rest\<rparr>)" for t
    using assms(2) by (auto simp: owed_def in_flight_def)
  show ?thesis
  proof (cases "map_of (dq_queued d) s")
    case None
    then have "s \<notin> fst ` set (dq_queued d)" by (simp add: map_of_eq_None_iff)
    with None assms owed show ?thesis by (fastforce simp: queues_ok_def on_done_def Let_def)
  next
    case (Some q)
    then have "(s, q) \<in> set (dq_queued d)" by (rule map_of_SomeD)
    with assms(1) have q: "q \<noteq> []" "\<forall>r \<in> set q. dr_session_id r = s \<and> \<not> dr_parallel r" by (auto simp: queues_ok_def)
    then obtain r p where p: "q = r # p" by (cases q) auto
    with q have r: "dr_session_id r = s" by simp
    from assms(1) have all: "distinct (map fst (dq_queued d))"
        "\<And>t u. (t, u) \<in> set (dq_queued d) \<Longrightarrow> u \<noteq> [] \<and> t \<in> dq_active d \<and> (\<forall>x \<in> set u. dr_session_id x = t \<and> \<not> dr_parallel x)"
        "\<And>t. t \<in> dq_active d \<Longrightarrow> owed t d" by (auto simp: queues_ok_def)
    let ?d = "on_done s (d\<lparr>dq_done := rest\<rparr>)"
    have d: "dq_active ?d = insert s (dq_active d)" "owed t ?d = owed t (spawn_with_notification r (d\<lparr>dq_done := rest\<rparr>))"
      "dq_queued ?d = (if p = [] then AList.delete s (dq_queued d) else AList.update s p (dq_queued d))"
      "\<not> dq_exited ?d" for t
      using Some p by (auto simp: on_done_def Let_def set_queue_def)
    have "distinct (map fst (dq_queued ?d))" using all(1) by (simp add: d(3) distinct_update distinct_delete)
    moreover have "u \<noteq> [] \<and> t \<in> dq_active ?d \<and> (\<forall>x \<in> set u. dr_session_id x = t \<and> \<not> dr_parallel x)"
      if "(t, u) \<in> set (dq_queued ?d)" for t u
      using that all(2) [of t u] q(2) p
      by (auto simp: d(1,3) delete_in dest!: update_in_distinct [OF all(1)] split: if_splits)
    moreover have "owed t ?d" if "t \<in> dq_active ?d" for t
      using that all(3) owed r by (auto simp: d(1,2))
    ultimately show ?thesis using d(4) by (auto simp: queues_ok_def)
  qed
qed

text \<open>A task that moves on is still in flight, or has reported.\<close>

lemma task_ok:
  assumes "queues_ok d" and "\<And>s. owed s d \<Longrightarrow> owed s e"
    and "dq_active e = dq_active d" "dq_queued e = dq_queued d" "dq_exited e = dq_exited d" "dq_rx_open e = dq_rx_open d"
  shows "queues_ok e"
  using assms by (auto simp: queues_ok_def)

lemma insert_remove1: "r \<in> set xs \<Longrightarrow> insert r (set (remove1 r xs)) = set xs"
  by (induction xs) auto

lemma moved_on:
  "r \<in> set xs \<Longrightarrow> set (remove1 r xs) \<union> (set (ys @ [r]) \<union> R) = set xs \<union> (set ys \<union> R)"
  using insert_remove1 [of r xs] by auto

lemma in_flight_steps:
  "set (in_flight (dispatch_step (DqPermit r) d)) = set (in_flight d)"
  "set (in_flight (dispatch_step (DqLocked r) d)) = set (in_flight d)"
  "set (in_flight (dispatch_step (DqStarted r) d)) = set (in_flight d)"
  "set (in_flight (dispatch_step (DqRefused r) d)) = set (in_flight d)"
  "set (in_flight (dispatch_step (DqEnded r) d)) = set (in_flight d)"
  using insert_remove1 [of r "dq_waiting d"] insert_remove1 [of r "dq_locking d"] insert_remove1 [of r "dq_spawning d"]
  by (auto simp: in_flight_def)

lemma done_steps [simp]:
  "dq_done (dispatch_step (DqPermit r) d) = dq_done d" "dq_done (dispatch_step (DqLocked r) d) = dq_done d"
  "dq_done (dispatch_step (DqStarted r) d) = dq_done d" "dq_done (dispatch_step (DqRefused r) d) = dq_done d"
  "dq_done (dispatch_step (DqEnded r) d) = dq_done d"
  by simp_all

lemma notified_owed:
  assumes "owed s d"
  shows "owed s (dispatch_step (DqNotified r) d)"
proof (cases "r \<in> set (dq_notifying d)")
  case True
  then have "dr_session_id ` set (dq_notifying d) = insert (dr_session_id r) (dr_session_id ` set (remove1 r (dq_notifying d)))"
    by (metis image_insert insert_remove1)
  with assms True show ?thesis by (simp add: owed_def in_flight_def image_Un) blast
qed (use assms in simp)

definition task_event :: "dispatch_event \<Rightarrow> bool" where
  "task_event e \<longleftrightarrow> (case e of DqReceived _ \<Rightarrow> False | DqClosed \<Rightarrow> False | DqCompleted \<Rightarrow> False | _ \<Rightarrow> True)"

lemma task_owed: "task_event e \<Longrightarrow> owed s d \<Longrightarrow> owed s (dispatch_step e d)"
  using notified_owed by (cases e) (simp_all only: owed_def in_flight_steps done_steps, auto simp: task_event_def)

lemma task_fields:
  assumes "task_event e"
  shows "dq_active (dispatch_step e d) = dq_active d" "dq_queued (dispatch_step e d) = dq_queued d"
    "dq_exited (dispatch_step e d) = dq_exited d" "dq_rx_open (dispatch_step e d) = dq_rx_open d"
    "dq_spawned (dispatch_step e d) = dq_spawned d"
  using assms by (cases e; simp add: task_event_def)+

lemma step_ok:
  assumes "queues_ok d"
  shows "queues_ok (dispatch_step e d)"
proof (cases "task_event e")
  case True
  show ?thesis by (rule task_ok [OF assms task_owed [OF True] task_fields(1-4) [OF True]])
next
  case False
  then show ?thesis using assms request_ok done_ok
    by (cases e) (auto simp: task_event_def on_closed_def queues_ok_def split: list.split)
qed

lemma run_ok: "queues_ok d \<Longrightarrow> queues_ok (dispatch_run es d)"
  by (induction es arbitrary: d) (simp_all add: dispatch_run_def step_ok)

lemma new_ok: "queues_ok (dispatcher_new cap)"
  by (simp add: queues_ok_def dispatcher_new_def)

section \<open>The order of a session\<close>

definition balanced :: "delegation_request list \<Rightarrow> dispatcher \<Rightarrow> bool" where
  "balanced acc d \<longleftrightarrow>
     (\<forall>s. one_by_one s acc = one_by_one s (dq_spawned d) @ queue_of s d) \<and>
     filter dr_parallel acc = filter dr_parallel (dq_spawned d)"

lemma idle_queue: "queues_ok d \<Longrightarrow> s \<notin> dq_active d \<Longrightarrow> queue_of s d = []"
  by (cases "map_of (dq_queued d) s") (auto simp: queue_of_def queues_ok_def dest: map_of_SomeD)

lemma queue_of_simps [simp]:
  "queue_of s (spawn_with_notification r d) = queue_of s d" "queue_of s (d\<lparr>dq_active := A\<rparr>) = queue_of s d"
  "queue_of s (d\<lparr>dq_exited := b\<rparr>) = queue_of s d" "queue_of s (d\<lparr>dq_rx_open := b\<rparr>) = queue_of s d"
  "queue_of s (d\<lparr>dq_done := ds\<rparr>) = queue_of s d"
  "queue_of s (d\<lparr>dq_queued := AList.update t q (dq_queued d)\<rparr>) = (if s = t then q else queue_of s d)"
  by (simp_all add: queue_of_def spawn_with_notification_def update_conv')

lemma queue_of_set [simp]: "queue_of s (set_queue t q d) = (if s = t then q else queue_of s d)"
  by (auto simp: set_queue_def queue_of_def update_conv' delete_conv')

lemma set_queue_spawned [simp]: "dq_spawned (set_queue t q d) = dq_spawned d"
  by (simp add: set_queue_def)

lemma one_by_one_append [simp]: "one_by_one s (xs @ ys) = one_by_one s xs @ one_by_one s ys"
  by (simp add: one_by_one_def)

lemma request_balanced: "queues_ok d \<Longrightarrow> balanced acc d \<Longrightarrow> balanced (acc @ [r]) (on_request r d)"
  using idle_queue [of d "dr_session_id r"] by (auto simp: balanced_def on_request_def Let_def one_by_one_def)

lemma done_balanced:
  assumes "queues_ok d" and "balanced acc d"
  shows "balanced acc (on_done s (d\<lparr>dq_done := rest\<rparr>))"
proof (cases "map_of (dq_queued d) s")
  case None
  with assms(2) show ?thesis by (simp add: balanced_def on_done_def Let_def)
next
  case (Some q)
  then have "(s, q) \<in> set (dq_queued d)" "queue_of s d = q" by (auto simp: queue_of_def dest: map_of_SomeD)
  with assms(1) obtain r p where p: "q = r # p" "dr_session_id r = s" "\<not> dr_parallel r"
    by (cases q) (auto simp: queues_ok_def)
  with Some \<open>queue_of s d = q\<close> assms(2) show ?thesis
    by (auto simp: balanced_def on_done_def Let_def one_by_one_def)
qed

lemma task_balanced: "task_event e \<Longrightarrow> balanced acc d \<Longrightarrow> balanced acc (dispatch_step e d)"
  by (simp add: balanced_def queue_of_def task_fields)

lemma run_balanced:
  assumes "queues_ok d" and "balanced acc d"
  shows "balanced (acc @ (if dq_rx_open d then accepted_requests es else [])) (dispatch_run es d)"
  using assms
proof (induction es arbitrary: d acc)
  case (Cons e es)
  note IH = Cons.IH [OF step_ok [OF Cons.prems(1), of e]]
  have run: "dispatch_run (x # es) d = dispatch_run es (dispatch_step x d)" for x by (simp add: dispatch_run_def)
  show ?case
  proof (cases "task_event e")
    case True
    then have "accepted_requests (e # es) = accepted_requests es" by (cases e) (simp_all add: task_event_def)
    with IH [OF task_balanced [OF True Cons.prems(2)]] True show ?thesis
      by (simp add: run task_fields split: if_splits)
  next
    case False
    have closed: "dq_exited d \<Longrightarrow> \<not> dq_rx_open d" using Cons.prems(1) by (simp add: queues_ok_def)
    show ?thesis
    proof (cases e)
      case (DqReceived r)
      show ?thesis
      proof (cases "dq_rx_open d")
        case True
        with closed DqReceived have "dispatch_step e d = on_request r d" by auto
        moreover have "dq_rx_open (on_request r d)" using True by (simp add: on_request_def Let_def)
        ultimately show ?thesis
          using IH [of "acc @ [r]"] request_balanced [OF Cons.prems, of r] True DqReceived by (simp add: run)
      qed (use IH [of acc] Cons.prems(2) DqReceived in \<open>simp add: run\<close>)
    next
      case DqClosed
      have "balanced acc (dispatch_step e d)" using Cons.prems(2) DqClosed by (simp add: on_closed_def balanced_def)
      from IH [OF this] closed DqClosed show ?thesis by (auto simp: run on_closed_def)
    next
      case DqCompleted
      have "balanced acc (dispatch_step e d)"
        using done_balanced [OF Cons.prems] Cons.prems(2) DqCompleted by (simp split: list.split)
      moreover have "dq_rx_open (on_done t c) = dq_rx_open c" for t c
        by (simp add: on_done_def Let_def set_queue_def split: option.split list.split)
      then have "dq_rx_open (dispatch_step e d) = dq_rx_open d" using DqCompleted by (simp split: list.split)
      ultimately show ?thesis using IH [of acc] DqCompleted by (simp add: run split: if_splits del: dispatch_step.simps)
    qed (use False in \<open>simp_all add: task_event_def\<close>)
  qed
qed (simp add: dispatch_run_def)

lemma idle_nothing_queued:
  assumes "queues_ok d" and "dq_exited d \<or> in_flight d = [] \<and> dq_done d = []"
  shows "dq_queued d = []"
proof -
  have "dq_active d = {}" using assms by (auto simp: queues_ok_def owed_def)
  with assms(1) show ?thesis by (cases "dq_queued d") (auto simp: queues_ok_def)
qed

text \<open>
  C36: whatever the interleaving, each session's requests that go one by one are handed over in the order
  of asking, those not handed over yet being its queue, the parallel ones at once; and when the
  dispatcher has stopped, or no task is left and no report unread, nothing is queued.
\<close>

theorem no_delegation_is_lost:
  assumes "d = dispatch_run es (dispatcher_new cap)"
  shows "(\<forall>s. one_by_one s (accepted_requests es) = one_by_one s (dq_spawned d) @ queue_of s d) \<and>
    filter dr_parallel (accepted_requests es) = filter dr_parallel (dq_spawned d) \<and>
    (dq_exited d \<or> in_flight d = [] \<and> dq_done d = [] \<longrightarrow> dq_queued d = [])"
proof -
  have "balanced [] (dispatcher_new cap)"
    by (simp add: balanced_def dispatcher_new_def queue_of_def one_by_one_def)
  from run_balanced [OF new_ok this, of es] have "balanced (accepted_requests es) d"
    by (simp add: assms dispatcher_new_def)
  moreover have "queues_ok d" unfolding assms by (rule run_ok [OF new_ok])
  ultimately show ?thesis using idle_nothing_queued [of d] unfolding balanced_def by blast
qed

section \<open>Bounds\<close>

definition permits_ok :: "nat \<Rightarrow> dispatcher \<Rightarrow> bool" where
  "permits_ok cap d \<longleftrightarrow> length (dq_locking d) + length (dq_spawning d) + length (dq_running d) + dq_permits d = cap"

lemma permits_step: "permits_ok cap d \<Longrightarrow> permits_ok cap (dispatch_step e d)"
  by (cases e) (auto simp: permits_ok_def on_request_def on_closed_def on_done_def set_queue_def Let_def length_remove1
      spawn_with_notification_def dest: length_pos_if_in_set split: list.split option.split)

text \<open>The locks are those of the tasks between taking one and reporting.\<close>

definition locks_ok :: "dispatcher \<Rightarrow> bool" where
  "locks_ok d \<longleftrightarrow> distinct (dq_ward_locks d) \<and>
     mset (dq_ward_locks d) = mset (List.map_filter ward_name (dq_spawning d @ dq_notifying d))"

lemma wards_remove1:
  "r \<in> set xs \<Longrightarrow> mset (List.map_filter ward_name xs) =
     mset (case ward_name r of None \<Rightarrow> [] | Some w \<Rightarrow> [w]) + mset (List.map_filter ward_name (remove1 r xs))"
  by (induction xs) (auto simp: List.map_filter_simps split: option.splits)

lemma wards_append: "List.map_filter f (xs @ ys) = List.map_filter f xs @ List.map_filter f ys"
  by (simp add: List.map_filter_def)

lemma wards_one: "List.map_filter ward_name [r] = (case ward_name r of None \<Rightarrow> [] | Some w \<Rightarrow> [w])"
  by (simp add: List.map_filter_simps split: option.split)

lemma locks_step: "locks_ok d \<Longrightarrow> locks_ok (dispatch_step e d)"
proof (cases e)
  case (DqLocked r)
  assume "locks_ok d"
  with DqLocked show ?thesis
    by (auto simp: locks_ok_def ward_free_def wards_append wards_one split: option.splits)
next
  case (DqStarted r)
  assume "locks_ok d"
  with DqStarted wards_remove1 [of r "dq_spawning d"] show ?thesis
    by (auto simp: locks_ok_def wards_append wards_one List.map_filter_simps split: option.splits)
next
  case (DqRefused r)
  assume "locks_ok d"
  with DqRefused wards_remove1 [of r "dq_spawning d"] show ?thesis
    by (auto simp: locks_ok_def wards_append wards_one List.map_filter_simps split: option.splits)
next
  case (DqNotified r)
  assume "locks_ok d"
  with DqNotified wards_remove1 [of r "dq_notifying d"] show ?thesis
    by (auto simp: locks_ok_def wards_append split: option.splits)
qed (auto simp: locks_ok_def on_request_def on_closed_def on_done_def set_queue_def Let_def
    spawn_with_notification_def split: list.split option.split)

text \<open>
  C37: never more children run than there are permits, and at no time is a ward set up for two of them.
\<close>

theorem delegations_are_bounded:
  assumes "d = dispatch_run es (dispatcher_new cap)"
  shows "length (dq_spawning d) + length (dq_running d) \<le> cap \<and>
    distinct (List.map_filter ward_name (dq_spawning d @ dq_notifying d))"
proof -
  have "permits_ok cap d \<and> locks_ok d" unfolding assms dispatch_run_def
  proof (induction es rule: rev_induct)
    case Nil
    show ?case by (simp add: permits_ok_def locks_ok_def dispatcher_new_def)
  qed (simp add: permits_step locks_step)
  then show ?thesis by (auto simp: permits_ok_def locks_ok_def dest: mset_eq_imp_distinct_iff)
qed

text \<open>Tasks and reports of a session\<close>

definition pending_of :: "string \<Rightarrow> dispatcher \<Rightarrow> nat" where
  "pending_of s d = count (mset (map dr_session_id (in_flight d) @ dq_done d)) s"

lemma moved_map: "r \<in> set xs \<Longrightarrow> image_mset f (mset xs) = add_mset (f r) (image_mset f (mset xs - {#r#}))"
  by (metis image_mset_add_mset insert_DiffM set_mset_mset)

lemma task_pending: "task_event e \<Longrightarrow> pending_of s (dispatch_step e d) = pending_of s d"
  by (cases e) (auto simp: task_event_def pending_of_def in_flight_def dest!: moved_map [where f = dr_session_id])

definition one_setup :: "string \<Rightarrow> dispatcher \<Rightarrow> bool" where
  "one_setup s d \<longleftrightarrow> pending_of s d = of_bool (s \<in> dq_active d)"

lemma spawn_pending: "pending_of s (spawn_with_notification r d) = pending_of s d + of_bool (dr_session_id r = s)"
  by (simp add: pending_of_def in_flight_def spawn_with_notification_def)

lemma pending_simps [simp]: "pending_of s (d\<lparr>dq_active := A\<rparr>) = pending_of s d"
  "pending_of s (d\<lparr>dq_queued := Q\<rparr>) = pending_of s d" "pending_of s (d\<lparr>dq_exited := b\<rparr>) = pending_of s d"
  "pending_of s (d\<lparr>dq_rx_open := b\<rparr>) = pending_of s d" "pending_of s (set_queue t q d) = pending_of s d"
  by (simp_all add: pending_of_def in_flight_def set_queue_def)

lemma setup_step:
  assumes "queues_ok d" and "one_setup s d" and "\<And>r. e = DqReceived r \<Longrightarrow> dr_session_id r = s \<Longrightarrow> \<not> dr_parallel r"
  shows "one_setup s (dispatch_step e d)"
proof (cases "task_event e")
  case True
  with assms(2) show ?thesis by (simp only: one_setup_def task_pending task_fields)
next
  case False
  show ?thesis
  proof (cases e)
    case (DqReceived r)
    with assms(2,3) show ?thesis by (auto simp: one_setup_def on_request_def Let_def spawn_pending)
  next
    case DqClosed
    with assms(2) show ?thesis by (simp add: one_setup_def on_closed_def)
  next
    case DqCompleted
    show ?thesis
    proof (cases "dq_done d = [] \<or> dq_exited d")
      case False
      then obtain t rest where t: "dq_done d = t # rest" by (cases "dq_done d") auto
      have less: "pending_of s (d\<lparr>dq_done := rest\<rparr>) + of_bool (t = s) = pending_of s d"
        using t by (simp add: pending_of_def in_flight_def)
      have owner: "map_of (dq_queued d) t = Some (r # p) \<Longrightarrow> dr_session_id r = t" for r p
        using assms(1) by (auto simp: queues_ok_def dest: map_of_SomeD)
      from t False DqCompleted less owner assms(2) show ?thesis
        by (auto simp: one_setup_def on_done_def Let_def spawn_pending set_queue_def split: option.splits list.splits if_splits)
    qed (use assms(2) DqCompleted in \<open>auto split: list.split\<close>)
  qed (use False in \<open>simp_all add: task_event_def\<close>)
qed

text \<open>
  As long as a session asks for no parallel delegation, no two of its delegations are being set up at
  once, and the next is not taken up before the report of the last is read.
\<close>

theorem one_setup_at_a_time:
  assumes "d = dispatch_run es (dispatcher_new cap)"
    and "\<forall>r. DqReceived r \<in> set es \<longrightarrow> dr_session_id r = s \<longrightarrow> \<not> dr_parallel r"
  shows "length (filter (\<lambda>r. dr_session_id r = s) (in_flight d)) + length (filter ((=) s) (dq_done d)) \<le> 1"
proof -
  have "queues_ok d \<and> one_setup s d" unfolding assms(1) dispatch_run_def using assms(2)
  proof (induction es rule: rev_induct)
    case Nil
    show ?case using new_ok [of cap] by (simp add: one_setup_def pending_of_def in_flight_def dispatcher_new_def)
  next
    case (snoc e es)
    then have "queues_ok (fold dispatch_step es (dispatcher_new cap))" "one_setup s (fold dispatch_step es (dispatcher_new cap))"
      by auto
    with snoc.prems setup_step step_ok show ?case by simp
  qed
  then have "pending_of s d \<le> 1" by (simp add: one_setup_def)
  moreover have "count (mset (map f xs)) s = length (filter (\<lambda>x. f x = s) xs)" for f :: "delegation_request \<Rightarrow> string" and xs
    by (induction xs) auto
  moreover have "count (mset ys) s = length (filter ((=) s) ys)" for ys by (induction ys) auto
  ultimately show ?thesis by (simp add: pending_of_def del: mset_map)
qed

section \<open>Instances\<close>

definition sample_request :: "string \<Rightarrow> string \<Rightarrow> bool \<Rightarrow> delegation_request" where
  "sample_request s child par =
     \<lparr>dr_parent_agent_id = ''root'', dr_session_id = s, dr_parent_execution_id = ''x'', dr_parent_conversation_id = ''c'',
      dr_child_agent_id = child, dr_child_execution_id = child @ ''-x'', dr_task = ''t'', dr_mode = None, dr_context = None,
      dr_max_iterations = None, dr_output_schema = None, dr_skills = [], dr_capability_assignment = None,
      dr_planning_capability_catalog = None, dr_complexity = None, dr_parallel = par\<rparr>"

text \<open>A request from the channel to a running child\<close>

definition set_up :: "delegation_request \<Rightarrow> dispatch_event list" where
  "set_up r = [DqPermit r, DqLocked r, DqStarted r, DqNotified r, DqCompleted]"

definition sample_dispatch :: "dispatch_event list" where
  "sample_dispatch = [DqReceived (sample_request ''s'' ''a'' False), DqReceived (sample_request ''s'' ''b'' False),
     DqReceived (sample_request ''r'' ''ward:w'' False)] @ set_up (sample_request ''s'' ''a'' False)"

lemmas dispatch_evaluate = dispatch_run_def sample_dispatch_def set_up_def dispatcher_new_def on_request_def on_done_def
  on_closed_def spawn_with_notification_def queue_of_def set_queue_def Let_def ward_free_def ward_name_def strip_prefix_def
  sample_request_def one_by_one_def in_flight_def

lemma no_delegation_is_lost_witness:
  "one_by_one ''s'' (accepted_requests sample_dispatch) =
    one_by_one ''s'' (dq_spawned (dispatch_run sample_dispatch (dispatcher_new 2))) @
    queue_of ''s'' (dispatch_run sample_dispatch (dispatcher_new 2))"
  using no_delegation_is_lost [of "dispatch_run sample_dispatch (dispatcher_new 2)" sample_dispatch 2] by simp

lemma delegations_are_bounded_witness:
  "length (dq_spawning (dispatch_run sample_dispatch (dispatcher_new 2))) +
     length (dq_running (dispatch_run sample_dispatch (dispatcher_new 2))) \<le> 2"
  using delegations_are_bounded [of "dispatch_run sample_dispatch (dispatcher_new 2)" sample_dispatch 2] by simp

lemma one_setup_at_a_time_witness:
  "length (filter (\<lambda>r. dr_session_id r = ''s'') (in_flight (dispatch_run sample_dispatch (dispatcher_new 2)))) \<le> 1"
proof -
  have "\<forall>r. DqReceived r \<in> set sample_dispatch \<longrightarrow> dr_session_id r = ''s'' \<longrightarrow> \<not> dr_parallel r"
    by (auto simp: sample_dispatch_def sample_request_def set_up_def)
  from one_setup_at_a_time [OF refl this, of 2] show ?thesis by simp
qed

section \<open>What is not one at a time\<close>

text \<open>
  The children themselves: the report is sent when the child has been started, not when it has ended, so
  the next delegation of the session runs beside it; and the ward is given up with the report, so two
  agents of one ward run at once.
\<close>

lemma children_of_a_session_run_together:
  "map dr_child_agent_id (dq_running (dispatch_run
     ([DqReceived (sample_request ''s'' ''a'' False), DqReceived (sample_request ''s'' ''b'' False)] @
      set_up (sample_request ''s'' ''a'' False) @ set_up (sample_request ''s'' ''b'' False)) (dispatcher_new 2)))
   = [''a'', ''b'']"
  by (simp add: dispatch_evaluate)

lemma agents_of_a_ward_run_together:
  "map dr_session_id (dq_running (dispatch_run
     ([DqReceived (sample_request ''r'' ''ward:w'' False), DqReceived (sample_request ''s'' ''ward:w'' False)] @
      set_up (sample_request ''r'' ''ward:w'' False) @ set_up (sample_request ''s'' ''ward:w'' False)) (dispatcher_new 2)))
   = [''r'', ''s'']"
  by (simp add: dispatch_evaluate)

text \<open>A parallel delegation that reports frees its session although another is being set up.\<close>

lemma a_parallel_report_frees_the_session:
  "map dr_child_agent_id (dq_spawning (dispatch_run
     ([DqReceived (sample_request ''s'' ''a'' False), DqPermit (sample_request ''s'' ''a'' False),
       DqLocked (sample_request ''s'' ''a'' False), DqReceived (sample_request ''s'' ''p'' True)] @
      set_up (sample_request ''s'' ''p'' True) @
      [DqReceived (sample_request ''s'' ''b'' False), DqPermit (sample_request ''s'' ''b'' False),
       DqLocked (sample_request ''s'' ''b'' False)]) (dispatcher_new 3)))
   = [''a'', ''b'']"
  by (simp add: dispatch_evaluate)

end
