(* ===== verification/Delegation_Store.thy ===== *)
theory Delegation_Store
  imports Delegation_Life Delegation_Queue
begin

text \<open>
  The invariant of the session store through every operation of the life cycle, whatever fails on the way,
  and the ways a delegation is lost.
\<close>

section \<open>The store calls\<close>

lemma keeps_sql_now: "(\<And>now. keeps session_db_ok (f now)) \<Longrightarrow> keeps session_db_ok (sql_now B f)"
  by (simp add: keeps_def sql_now_def of_tables_ticks [OF of_tables_ok])

lemma ok_outbox [simp]: "session_db_ok (db\<lparr>outbox_t := rows\<rparr>) = session_db_ok db"
  by (simp add: session_db_ok_def db_ok_defs)

lemma keeps_outbox [db_keeps]:
  "keeps session_db_ok (outbox_insert B a cap p s t g)"
  "keeps session_db_ok (outbox_get_unacked a)"
  "keeps session_db_ok (outbox_mark_inflight B i)"
  "keeps session_db_ok (outbox_reset_inflight a)"
  unfolding outbox_insert_def outbox_get_unacked_def outbox_mark_inflight_def outbox_reset_inflight_def set_outbox_def
    unit_op_def Let_def
  by (intro keeps_intros keeps_stmts keeps_sql_now keeps_new_v4 of_tables_ok; simp)+

lemma keeps_append [db_keeps]: "keeps session_db_ok (message_append m)"
proof -
  have "session_db_ok (db\<lparr>messages_t := messages_t db @ [row_of_conv_message db m]\<rparr>)"
    if "session_db_ok db" "message_insertable m db" for db
    using that by (auto simp: session_db_ok_def db_ok_defs message_insertable_def row_of_conv_message_def
        references_def split: option.splits)
  then show ?thesis unfolding message_append_def unit_op_def by (intro keeps_intros keeps_stmts)
qed

lemma keeps_conversation_reads [db_keeps]:
  "keeps session_db_ok (message_replay s a n)" "keeps session_db_ok (session_ward_id s)"
  unfolding message_replay_def session_ward_id_def by (intro keeps_stmts)+

lemma keeps_insert_log [db_keeps]: "keeps session_db_ok (repo_insert_log E e)"
  unfolding repo_insert_log_def insert_log_row_def
  by (intro keeps_intros keeps_stmts) (simp add: session_db_ok_def db_ok_defs)

lemma keeps_log [db_keeps]:
  "keeps session_db_ok (log_session_start E x c g p)" "keeps session_db_ok (log_session_end E x c g st m)"
  unfolding log_session_start_def log_session_end_def execution_log_new_def Let_def
  by (intro keeps_intros keeps_stmts keeps_new_v4 of_tables_ok db_keeps)+

section \<open>The operations\<close>

definition in_order :: "life_world \<Rightarrow> bool" where
  "in_order w \<longleftrightarrow> session_db_ok (life_state w)"

lemma order_simps [simp]:
  "in_order (publish e w) = in_order w" "in_order (in_registry g w) = in_order w"
  "in_order (w\<lparr>lw_handoffs := hs\<rparr>) = in_order w" "in_order (w\<lparr>lw_dispatched := ds\<rparr>) = in_order w"
  by (simp_all add: in_order_def life_state_def publish_def in_registry_def in_control_def)







































section \<open>Lost delegations\<close>

text \<open>
  A child that stops cooperatively, killed or reached by a stop, ends no delegation: its execution stays
  running and its parent waits for it, with nothing published.
\<close>

lemma a_stopped_child_is_waited_for:
  "let v = finish_child sample_life_env sample_child ''c'' ChildStopped sample_life in
     status_in ''x'' (life_state v) = Some ''running'' \<and> books_of ''s'' (life_state v) = Some (1, 1) \<and> lw_published v = []"
  by (simp add: finish_child_def try_life_def on_life_def in_control_def bus_reject_def answer_waiter_def sample_life_def
      life_state_def set_life_state_def sample_waiting_db_def status_in_def books_of_def find_execution_row_def
      find_session_row_def complete_session_def repo_update_session_tokens_def write_totals_def session_ids_def
      repo_update_session_status_def set_session_def cascade_executions_def unit_op_def bnd_def ret_apply op_simps
      live_text_def sample_session_def sample_life_env_def Let_def)

text \<open>
  A spawn that cannot read the ward of its parent returns its error past the handling of early failures:
  the waiter is not answered, nothing is published, and the delegation stays pending.
\<close>

lemma an_unread_ward_strands_the_delegation:
  assumes "target_accepted E r" and "strip_prefix ''ward:'' (dr_child_agent_id r) = None"
    and "script (life_state w) = True # bs"
  shows "let v = snd (spawn_delegated_agent E r w) in
    fst (spawn_delegated_agent E r w) = SpawnLost \<and> lw_published v = lw_published w \<and>
    cw_waiters (lw_control v) = cw_waiters (lw_control w) \<and> books_of s (life_state v) = books_of s (life_state w)"
  using assms by (simp add: spawn_delegated_agent_def Let_def bind_parent_ward_for_delegation_def repo_get_session_def
      bnd_def on_life_eq connection_def statement_def set_life_state_def life_state_def books_of_def find_session_row_def)

text \<open>
  A stop or a cancel of the parent's conversation looks for its children among the delegations registered
  under it: a spawned child is registered under a conversation of its own.
\<close>

lemma a_cascade_misses_spawned_children:
  assumes "spawn_delegated_agent E r w = (SpawnRunning c cs k, v)" and "dr_parent_conversation_id r \<noteq> cn_conv_id c"
  shows "dr_child_execution_id r \<notin> set (get_children (dr_parent_conversation_id r) (registry_of v))"
proof -
  have reg: "registry_of (register_child E r conv i u) =
      delegation_register (dr_child_execution_id r) (spawn_context r conv) (registry_of u)" for conv i u
    by (simp add: register_child_def emit_delegation_started_def lifecycle_start_execution_def Let_def)
  have own: "dr_child_execution_id r \<notin> set (get_children p (delegation_register (dr_child_execution_id r) (spawn_context r conv) reg))"
    if "p \<noteq> conv" for p conv reg
    using that by (auto simp: get_children_def delegation_register_def spawn_context_def delegation_context_new_def)
  have "registry_of (in_control (install_handle conv x n) u) = registry_of u" for conv x n u
    by (simp add: install_handle_def register_handle_def Let_def)
  with assms reg own show ?thesis
    by (auto simp: spawn_delegated_agent_def Let_def child_run_of_def split: if_splits sum.splits prod.splits option.splits)
qed

end
