(* ===== verification/Spec2Isabelle.thy ===== *)
theory Spec2Isabelle
  imports Prelude Work_Pages Claim_Fence Work_Intake
    State_Lifecycle State_Recovery State_Reads State_Surfaces State_Trees Ws_History
    Surface_Conforms Ledger_Endpoints Artifacts_Confined Logs_Read Stream_Store Bridge_Delivery Delegation_Store
begin

text \<open>
  AgentZero runs language-model agents behind a gateway. A client speaks to the gateway over HTTP
  and a WebSocket; the gateway creates a session, starts an agent execution in it, delegates work
  to further executions and sessions, and reports what happens as events. The parts
  modelled here, each from the code that decides what it does, are the durable work queue, on which
  background work survives a restart; the session store, which keeps what is known of sessions and
  executions; the subscription manager, which decides which client hears which event; the catalog
  work surfaces are validated against; the decision ledger, whose threads a user approves and
  resumes; the execution log; and what the gateway does with each event of a running execution:
  the artifacts it records, the delegations it starts, the plans and surfaces it stores and shows; the
  conversation an execution goes on with; the bridge to workers outside; and the delegation of work to
  child executions, from the queue they wait in to the report their parent is given.

  \<^bold>\<open>Conventions.\<close> An operation that may fail is a function from a state to a result and the state
  afterwards (\<open>Prelude\<close>): the state after an error is part of its meaning, since several methods
  leave what they wrote before the statement that failed. The database is a list of rows per table,
  in the order of insertion. A connection comes with a script of booleans, one for each access that
  may fail (\<open>borrow\<close>, \<open>checkpoint\<close>), so a theorem for every script covers every combination of
  failing statements; a transaction restores the tables where it fails, a sequence of statements
  outside a transaction does not. A machine integer is a word at its width, or an integer with its
  bound written out where the code checks it or casts it; texts are lists of the bytes of their
  UTF-8 form, so lengths and \<open>char_indices\<close> read as in Rust. The order of the theories is the order
  of the code: data, rows and queries, operations, invariant, properties.

  \<^bold>\<open>Durable work\<close> (\<open>services/execution-state/src/work.rs\<close>, \<open>gateway/gateway-bus/src/work.rs\<close>,
  \<open>gateway/gateway-bus/src/worker.rs\<close>, the table in \<open>stores/zbot-runtime-sqlite/src/schema.rs\<close>).
  A caller enqueues an authorized draft; a worker claims the best due item under a lease with a
  fencing epoch, renews it while the handler runs, and completes, retries or fails it; leases that
  run out are recovered by the next claim.
    \<^item> \<open>Work_Types\<close>: drafts, envelopes, items, scopes, cursors, their validation, the retry delay.
    \<^item> \<open>Work_Rows\<close>: the table with its constraints, a row read as an item, every query.
    \<^item> \<open>Work_Store\<close>: \<open>SqliteWorkStore\<close>, one definition per method of the trait \<open>WorkStore\<close>.
    \<^item> \<open>Work_Steps\<close>: the specification. A row moves by \<open>row_step\<close>, a table by steps of its rows.
      \<open>Work_Recovery\<close> shows the re-reading recovery loop equal to one pass; \<open>Work_Refine\<close> shows that
      every operation is a sequence of table steps; \<open>Work_Claim\<close> gives the claim in closed form;
      \<open>Work_Runs\<close> lifts the invariants of the steps to every sequence of commands.
    \<^item> \<open>Work_Queue\<close>, \<open>Work_History\<close>, \<open>Work_Scopes\<close>, \<open>Work_Pages\<close>: the properties of the store. The
      claim takes the best candidate; a stale lease writes nothing; settled items never change; an
      item is claimed at most \<open>max_attempts\<close> times; what was enqueued comes out; a row that does not
      read is buried and does not block the queue; pages visit each item once.
    \<^item> \<open>Claim_Fence\<close>: \<open>WorkClaimCancellation\<close>. Claims run on their own threads, so each access to
      the flag, the map of interrupt handles and the commit gate is a step, and the properties hold
      of every interleaving.
    \<^item> \<open>Work_Bus\<close>, \<open>Work_Worker\<close>: the queue that persists before it notifies, the registry of
      handlers, the limits of a worker, its supervision of one item and its main loop. What a
      \<open>select!\<close> picks is an event of the model, so every order of completion, heartbeat, deadline
      and shutdown is a list of events.
    \<^item> \<open>Work_Supervision\<close>, \<open>Work_Intake\<close>: the locale \<open>durable_store\<close> states what a worker relies on
      (the laws of renewal and of settling), its lemmas are the worker's, and the interpretation
      \<open>sqlite\<close> discharges the laws for the store above.

  \<^bold>\<open>Sessions\<close> (\<open>services/execution-state/src/types.rs\<close>, \<open>repository.rs\<close>, \<open>service.rs\<close>, and the
  tables with their foreign keys in \<open>schema.rs\<close>). A session is queued, runs, pauses and ends; its
  executions follow; delegations are counted, and the last one to end resumes the parent that
  asked for a continuation; the current plan and the work surfaces are what a user sees of it.
    \<^item> \<open>Session_Types\<close>, \<open>State_Rows\<close>: the data and the rows, with what the code falls back to when a
      stored text does not read.
    \<^item> \<open>Session_Plan\<close>: the guard that bounds an untrusted plan before it is copied, the strict
      reading of the plan, and the theorem that they agree.
    \<^item> \<open>State_Db\<close>: the tables, the environment (clock, uuids, SQLite's date function), statements,
      transactions and foreign keys. \<open>State_Repository\<close>, \<open>State_Plans\<close>, \<open>State_Delete\<close>:
      \<open>StateRepository\<close>, one definition per method. \<open>State_Service\<close>: \<open>StateService\<close>.
    \<^item> \<open>State_Invariant\<close>, \<open>State_Methods\<close>, \<open>State_History\<close>: primary keys, foreign keys, texts that
      read back, the numbering of plans and the caps are kept by every sequence of calls, whichever
      statements fail.
    \<^item> \<open>State_Lifecycle\<close>: the relation a session's status follows, and the refinement of it by every
      call.
    \<^item> \<open>State_Books\<close>, \<open>State_Contents\<close>, \<open>State_Surfaces\<close>, \<open>State_Trees\<close>, \<open>State_Recovery\<close>,
      \<open>State_Reads\<close>: the functional behaviour: what settling leaves, delegation counts and the
      continuation, token totals, the ward claimed once, plans and surfaces as they are shown,
      deletion of a tree of sessions, recovery at startup, reading back what was created.

  \<^bold>\<open>Subscriptions\<close> (\<open>gateway/src/websocket/subscriptions.rs\<close>, with the messages of
  \<open>gateway/gateway-ws-protocol/src/messages.rs\<close>). A client subscribes to a conversation under a
  scope; an event of the conversation is numbered and sent to the subscribers whose scope admits
  it; a client whose channel is closed is dropped.
    \<^item> \<open>Ws_Messages\<close>, \<open>Ws_Subscriptions\<close>: the messages, the scope filter, and one definition per
      method of \<open>SubscriptionManager\<close> over the state behind its one lock.
    \<^item> \<open>Ws_Books\<close>, \<open>Ws_Routing\<close>, \<open>Ws_History\<close>: the invariant that ties the two indexes together,
      the effect of one route, and the properties of every history: delivery to exactly the
      subscribers that are concerned, gapless numbers, nothing left of a client that has gone.

  \<^bold>\<open>Work surfaces\<close> (\<open>runtime/agent-surfaces/src/lib.rs\<close>). An agent describes a piece of user
  interface as a list of typed components over a JSON value; nothing is shown or stored before the
  catalog has accepted it.
    \<^item> \<open>Surface_Catalog\<close>: the descriptors with their JSON form, and the validator in the order of its
      checks, the loop that bounds depth without recursion included.
    \<^item> \<open>Surface_Conforms\<close>: what a surface has to satisfy, stated without order or loops, and the
      theorem that the validator accepts exactly that.

  \<^bold>\<open>The decision ledger\<close> (\<open>stores/zbot-conversation/src/domain.rs\<close> and \<open>autonomy.rs\<close>, with the
  tables of \<open>schema.rs\<close>; \<open>gateway/src/http/autonomy.rs\<close> and \<open>surfaces.rs\<close>). A thread is proposed,
  approved, blocked, completed or grown stale; an approved thread can be resumed in a fresh
  session, which is handed a bounded packet about it.
    \<^item> \<open>Ledger\<close>: states, policies, the packet and its rendering, and \<open>SqliteAutonomyStore\<close>, one
      definition per method.
    \<^item> \<open>Ledger_Audit\<close>: the specification is the audit trail, replayed by \<open>replay\<close>; every history of
      calls keeps each thread in the state its trail ends in; a packet is handed out for approved
      threads only, is recorded, and cannot break out of the fence it is rendered in.
    \<^item> \<open>Ledger_Http\<close>, \<open>Ledger_Endpoints\<close>: the endpoints over the ledger, the session store and the
      runtime, which is a parameter; a resume is asked for once and is on record, an action moves
      its thread once.

  \<^bold>\<open>The execution log\<close> (\<open>services/api-logs/src/types.rs\<close>, \<open>repository.rs\<close>, \<open>service.rs\<close>, over the
  table \<open>execution_logs\<close> of the session store). \<open>Api_Logs\<close> has the entries, the statements, with the
  grouping into sessions, and one definition per method of \<open>LogService\<close>; \<open>Logs_Read\<close> shows that an
  entry reads back as it was written and what the list of sessions says.

  \<^bold>\<open>Events of an execution\<close> (\<open>gateway/gateway-execution/src/invoke/stream_event_processor.rs\<close> and
  the modules it calls, \<open>events.rs\<close>, \<open>artifacts.rs\<close>; \<open>gateway/gateway-events/src/lib.rs\<close>; the
  mapping to messages in \<open>gateway/src/websocket/handler.rs\<close>). The runtime reports what an agent does
  as a stream of events; each is logged, has its effects on the session store, and becomes an event
  of the gateway, which becomes a message for the clients.
    \<^item> \<open>Artifacts\<close>, \<open>Artifacts_Confined\<close>: declared files are opened below their ward without following
      links and recorded; the file system is a parameter.
    \<^item> \<open>Gateway_Events\<close>: both kinds of events, in groups, and the conversions between them and to
      messages.
    \<^item> \<open>Stream_Processor\<close>: \<open>process_stream_event\<close> with everything it calls, over the store, the queues
      it writes to and the events it publishes.
    \<^item> \<open>Stream_Store\<close>: the locale \<open>kept_by_store\<close> states what an invariant of the store has to survive
      to survive every event; one interpretation is the invariant of the session store, another that a
      delegated child is still queued, and so its session cannot be completed. A plan is shown exactly
      when it was saved.

    \<^item> \<open>Batch_Writer\<close>: the task that writes what the events queue up; a flush is a barrier, and the
      ids kept for the checkpoint are the ids of the rows that were written.

  \<^bold>\<open>The conversation\<close> (\<open>stores/zbot-conversation/src/messages.rs\<close>, \<open>checkpoints.rs\<close>,
  \<open>session_meta.rs\<close>; \<open>gateway/gateway-execution/src/runner/recovery.rs\<close>, \<open>conversation_history.rs\<close>;
  \<open>runtime/agent-runtime/src/engine/snapshot.rs\<close>). Messages are rows of the session store in the order
  of a sequence number; a turn ends with a checkpoint, which holds the private tape of the runtime, a
  cursor over the messages that were its input, and the ids of the messages it wrote itself.
    \<^item> \<open>Conversation\<close>: the stores, the snapshot, and the composition of a continuation's history.
    \<^item> \<open>Conversation_Resume\<close>: a continuation is given each message once, in the tape or after it; the
      checkpoint of the next turn keeps it so, in whatever order the messages of the turn and of others
      are appended; a captured snapshot is restored.

  \<^bold>\<open>The bridge to workers\<close> (\<open>gateway/gateway-bridge/src/outbox.rs\<close>, \<open>push.rs\<close>, \<open>registry.rs\<close>,
  \<open>pending_requests.rs\<close>, \<open>handler.rs\<close>, the table \<open>bridge_outbox\<close> of the session store). What the gateway has
  to say to a worker outside is kept in an outbox and pushed over its connection until the worker
  acknowledges it; what fails is tried again.
    \<^item> \<open>Bridge_Outbox\<close>, \<open>Bridge_Workers\<close>: one definition per method of \<open>OutboxRepository\<close>, \<open>BridgeRegistry\<close>
      and \<open>PendingRequests\<close>, the push of items and the session of a worker.
    \<^item> \<open>Bridge_History\<close>: the tasks of the bridge wait for each other at the registry and the store, so a
      push is cut into its steps and a history is any sequence of the steps of all tasks. The life of an
      item is the specification each step refines; nothing is lost before it is acknowledged, and a
      worker is handed only what was enqueued for it.
    \<^item> \<open>Bridge_Delivery\<close>: the operations, run to their end, are such histories; an item for a connected
      worker reaches it; and five ways in which delivery goes wrong.

  \<^bold>\<open>Delegation\<close> (\<open>gateway/gateway-execution/src\<close>: \<open>runner/delegation_dispatcher.rs\<close>,
  \<open>runner/exec_ctx.rs\<close>, \<open>handle.rs\<close>, \<open>agent_pool/result_bus.rs\<close>, \<open>runner/session_control.rs\<close>,
  \<open>delegation/context.rs\<close>, \<open>registry.rs\<close>, \<open>callback.rs\<close>, \<open>spawn.rs\<close>, \<open>lifecycle.rs\<close>). An agent that
  delegates asks the dispatcher for a child; the child has a session of its own, reports to the
  conversation of its parent, and the last one lets the parent go on.
    \<^item> \<open>Delegation_Queue\<close>: the loop of the dispatcher and the tasks it starts, cut at their awaits, so a
      history is any interleaving of requests, permits, ward locks, set-ups and reports.
    \<^item> \<open>Session_Control\<close>: the handles of executions (flags that are shared, so they have numbers), the
      registry of delegations, the bus for agents that wait, and what stops, pauses and cancels.
    \<^item> \<open>Callbacks\<close>: what a parent is told; a structured answer is read back.
    \<^item> \<open>Lifecycle\<close>, \<open>Delegation_Spawn\<close>: one definition per function of \<open>lifecycle.rs\<close> and the functions
      of \<open>spawn.rs\<close> around the run of a child, over one world of store, control, bridge and events.
    \<^item> \<open>Delegation_Life\<close>: the locale \<open>beside_settling\<close> states what an invariant has to survive to survive
      what surrounds the end of an execution; its interpretation is that the execution stays settled,
      from which a child that ends is settled and reported. \<open>Delegation_Store\<close>: the invariant of the store
      through every history of the life cycle, and the ways a delegation is lost.

  \<^bold>\<open>Shared\<close>: \<open>Prelude\<close> has the calculus \<open>keeps\<close> for what an operation preserves, the scripted
  connection, tables as lists of rows, casts, and the parts of Rust's standard library on strings
  that the code uses. \<open>Samples\<close>, \<open>State_Samples\<close> and \<open>Sample_Json\<close> hold the concrete codec,
  environment and databases at which properties with hypotheses are applied.

  \<^bold>\<open>Parameters.\<close> The printing and parsing of instants, of JSON and of uuids are third-party crates:
  they are arguments (a codec record), and a property that relies on them names the law it needs
  (an instant that is printed reads back, and prints in order; a value that is printed parses back).
  The clock, fresh uuids, SQLite's date function, what a notification returns and which channels
  accept a message are arguments of the same kind. The laws are discharged for a concrete codec in
  \<open>Samples\<close> and for a whole JSON printer and parser in \<open>Sample_Json\<close>.

  \<^bold>\<open>Termination and fuel.\<close> Every definition is total. The recursive query for the descendants of
  a session is a worklist over the session table, with a measure in the number of rows not yet
  found; \<open>descendants_are_the_tree\<close> shows that it stops with the closure of the parent relation.
  The main loop of a worker consumes a list of events and keeps its bounds
  (\<open>worker_loop_is_bounded\<close>). The client that follows the cursors of a scope has the number of
  pages it is ready to read as fuel; \<open>paging_visits_each_item_once\<close> shows that a page per item
  and one more suffice.

  \<^bold>\<open>Not modelled.\<close> The serialization of the messages and the client side of the protocol; the socket
  handler with its tasks; the HTTP handlers; the pool and the migrations (SQL text); scheduling and
  timing below the level of the events above; poisoned locks, which the code treats as fatal. Of
  the rest of the repository, the runner and the runtime are asynchronous orchestration of models,
  files and processes; the memory stores are adapters of a library outside the repository. What is
  decided in pure code there is to be modelled next: the routing of gateway events to conversations,
  the job store of the cron service and the path and ward checks of the tools. Of a delegated agent, the
  prompt and the tools it is built with, and the distillation of its session, are left out.
\<close>

end
